(* ===== verification/JsBase.thy ===== *)
theory JsBase
  imports Complex_Main
begin

text \<open>
  Prelude: the parts of TypeScript every component of the repository relies on.

  \<^item> results: an exception is the left summand of a sum; \<open>ebind\<close> sequences two fallible
    computations, \<open>ensure\<close> is \<open>if (!b) throw e\<close>;
  \<^item> strings: a JavaScript string is a sequence of UTF-16 code units; the model's \<open>char\<close>
    holds the units below 256, so \<open>length\<close> counts what \<open>String.length\<close> counts for those
    strings and literals stay readable;
  \<^item> numbers: \<open>js_num\<close> is an IEEE double read as the rational it denotes, or NaN or an
    infinity; every comparison with NaN is false.
\<close>

named_theorems wf_intros "introduction rules for the well-formedness of values"
named_theorems step_simps "equations that unfold one operation of a component"

section \<open>Fallible computations\<close>

definition ebind :: "'e + 'a \<Rightarrow> ('a \<Rightarrow> 'e + 'b) \<Rightarrow> 'e + 'b" where
  "ebind m f = (case m of Inl e \<Rightarrow> Inl e | Inr x \<Rightarrow> f x)"

definition ensure :: "bool \<Rightarrow> 'e \<Rightarrow> 'e + unit" where
  "ensure b e = (if b then Inr () else Inl e)"

lemma ebind_simps [simp]:
  "ebind (Inl e) f = Inl e"
  "ebind (Inr x) f = f x"
  by (simp_all add: ebind_def)

lemma ensure_simps [simp]:
  "ensure True e = Inr ()"
  "ensure False e = Inl e"
  by (simp_all add: ensure_def)

lemma ensure_eq_Inr [simp]: "ensure b e = Inr u \<longleftrightarrow> b"
  by (simp add: ensure_def)

lemma ensure_eq_Inl [simp]: "ensure b e = Inl e' \<longleftrightarrow> \<not> b \<and> e' = e"
  by (auto simp: ensure_def)

lemma ebind_eq_Inr: "ebind m f = Inr y \<longleftrightarrow> (\<exists>x. m = Inr x \<and> f x = Inr y)"
  by (cases m) auto

lemma ebind_InrE:
  assumes "ebind m f = Inr y"
  obtains x where "m = Inr x" and "f x = Inr y"
  using assms by (cases m) auto

lemma ebind_eq_Inl: "ebind m f = Inl e \<longleftrightarrow> m = Inl e \<or> (\<exists>x. m = Inr x \<and> f x = Inl e)"
  by (cases m) auto

lemma ebind_ensure [simp]: "ebind (ensure b e) f = (if b then f () else Inl e)"
  by (simp add: ensure_def)

lemma ebind_cong: "m = m' \<Longrightarrow> (\<And>x. m' = Inr x \<Longrightarrow> f x = g x) \<Longrightarrow> ebind m f = ebind m' g"
  by (cases m') auto

fun is_ok :: "'e + 'a \<Rightarrow> bool" where
  "is_ok (Inl e) = False"
| "is_ok (Inr x) = True"

lemma is_ok_iff: "is_ok r \<longleftrightarrow> (\<exists>x. r = Inr x)"
  by (cases r) auto

section \<open>Strings\<close>

definition code_unit :: "char \<Rightarrow> nat" where
  "code_unit c = of_char c"

definition is_digit :: "char \<Rightarrow> bool" where
  "is_digit c \<longleftrightarrow> 48 \<le> code_unit c \<and> code_unit c \<le> 57"

definition is_lower :: "char \<Rightarrow> bool" where
  "is_lower c \<longleftrightarrow> 97 \<le> code_unit c \<and> code_unit c \<le> 122"

definition is_upper :: "char \<Rightarrow> bool" where
  "is_upper c \<longleftrightarrow> 65 \<le> code_unit c \<and> code_unit c \<le> 90"

definition is_alnum :: "char \<Rightarrow> bool" where
  "is_alnum c \<longleftrightarrow> is_digit c \<or> is_lower c \<or> is_upper c"

text \<open>\<open>[A-Za-z0-9._:-]\<close>\<close>
definition is_token_char :: "char \<Rightarrow> bool" where
  "is_token_char c \<longleftrightarrow> is_alnum c \<or> c = CHR ''.'' \<or> c = CHR ''_'' \<or> c = CHR '':'' \<or> c = CHR ''-''"

definition is_lower_hex :: "char \<Rightarrow> bool" where
  "is_lower_hex c \<longleftrightarrow> is_digit c \<or> (97 \<le> code_unit c \<and> code_unit c \<le> 102)"

text \<open>\<open>[a-f0-9]\<close> under the flag \<open>i\<close>\<close>
definition is_hex :: "char \<Rightarrow> bool" where
  "is_hex c \<longleftrightarrow> is_lower_hex c \<or> (65 \<le> code_unit c \<and> code_unit c \<le> 70)"

text \<open>The white space and line terminators \<open>String.trim\<close> removes, below 256.\<close>
definition is_space :: "char \<Rightarrow> bool" where
  "is_space c \<longleftrightarrow> (9 \<le> code_unit c \<and> code_unit c \<le> 13) \<or> code_unit c = 32 \<or> code_unit c = 160"

definition trim :: "string \<Rightarrow> string" where
  "trim s = rev (dropWhile is_space (rev (dropWhile is_space s)))"

definition lower_char :: "char \<Rightarrow> char" where
  "lower_char c = (if is_upper c then char_of (code_unit c + 32) else c)"

text \<open>\<open>String.toLowerCase\<close> on the ASCII enumeration literals it is applied to.\<close>
definition toLowerCase :: "string \<Rightarrow> string" where
  "toLowerCase s = List.map lower_char s"

text \<open>\<open>/^[A-Za-z0-9][A-Za-z0-9._:-]{lo,hi}$/\<close>\<close>
definition token_pattern :: "nat \<Rightarrow> nat \<Rightarrow> string \<Rightarrow> bool" where
  "token_pattern lo hi s = (case s of [] \<Rightarrow> False
     | c # cs \<Rightarrow> is_alnum c \<and> lo \<le> length cs \<and> length cs \<le> hi \<and> list_all is_token_char cs)"

text \<open>\<open>/^[a-f0-9]{64}$/i\<close>\<close>
definition hex64 :: "string \<Rightarrow> bool" where
  "hex64 s \<longleftrightarrow> length s = 64 \<and> list_all is_hex s"

text \<open>\<open>value.trim().length > 0\<close>\<close>
definition nonEmpty :: "string \<Rightarrow> bool" where
  "nonEmpty s \<longleftrightarrow> trim s \<noteq> []"

lemma dropWhile_idem: "dropWhile P (dropWhile P xs) = dropWhile P xs"
  by (induction xs) auto

lemma dropWhile_eq_self: "dropWhile P xs = xs \<longleftrightarrow> xs = [] \<or> \<not> P (hd xs)"
  by (cases xs) (auto dest: arg_cong [where f = length] le_SucI
    simp: dropWhile_eq_Cons_conv)

lemma trim_Nil [simp]: "trim [] = []"
  by (simp add: trim_def)

lemma trim_hd: "trim s \<noteq> [] \<Longrightarrow> \<not> is_space (hd (trim s))"
proof -
  let ?u = "dropWhile is_space s"
  let ?v = "rev (dropWhile is_space (rev ?u))"
  assume "trim s \<noteq> []"
  then have ne: "?v \<noteq> []" by (simp add: trim_def)
  have split: "?u = ?v @ rev (takeWhile is_space (rev ?u))"
    by (metis rev_append rev_rev_ident takeWhile_dropWhile_id)
  then have "hd ?u = hd ?v" using ne by (metis hd_append2)
  moreover have "?u \<noteq> []" using ne by (metis dropWhile.simps(1) rev.simps(1))
  then have "\<not> is_space (hd ?u)" by (rule hd_dropWhile)
  ultimately show ?thesis by (simp add: trim_def)
qed

lemma trim_last: "trim s \<noteq> [] \<Longrightarrow> \<not> is_space (last (trim s))"
proof -
  let ?w = "dropWhile is_space (rev (dropWhile is_space s))"
  assume "trim s \<noteq> []"
  then have ne: "?w \<noteq> []" by (simp add: trim_def)
  then have "\<not> is_space (hd ?w)" by (rule hd_dropWhile)
  then show ?thesis by (metis trim_def last_rev)
qed

lemma trim_idem [simp]: "trim (trim s) = trim s"
proof (cases "trim s = []")
  case True
  then show ?thesis by (metis trim_Nil)
next
  case False
  then have "dropWhile is_space (trim s) = trim s"
    using trim_hd by (simp add: dropWhile_eq_self)
  moreover have "dropWhile is_space (rev (trim s)) = rev (trim s)"
    using False trim_last by (simp add: dropWhile_eq_self hd_rev)
  ultimately show ?thesis
    by (simp only: trim_def [of "trim s"]) simp
qed

lemma length_trim: "length (trim s) \<le> length s"
proof -
  have "length (dropWhile is_space (rev (dropWhile is_space s))) \<le> length (dropWhile is_space s)"
    using length_dropWhile_le [of is_space "rev (dropWhile is_space s)"] by simp
  also have "\<dots> \<le> length s" by (rule length_dropWhile_le)
  finally show ?thesis by (simp add: trim_def)
qed

lemma token_char_not_space: "is_token_char c \<Longrightarrow> \<not> is_space c"
  by (auto simp: is_token_char_def is_alnum_def is_digit_def is_lower_def is_upper_def
      is_space_def code_unit_def)

lemma token_trim: "list_all is_token_char s \<Longrightarrow> trim s = s"
proof (cases "s = []")
  case True
  then show ?thesis by (simp add: trim_def)
next
  case False
  assume "list_all is_token_char s"
  then have all: "\<forall>c \<in> set s. \<not> is_space c"
    by (auto simp: list_all_iff token_char_not_space)
  then have "dropWhile is_space s = s" using False by (simp add: dropWhile_eq_self)
  moreover have "dropWhile is_space (rev s) = rev s"
    using False all by (simp add: dropWhile_eq_self hd_rev)
  ultimately show ?thesis by (simp add: trim_def)
qed

lemma token_pattern_chars: "token_pattern lo hi s \<Longrightarrow> list_all is_token_char s"
  by (auto simp: token_pattern_def is_token_char_def split: list.splits)

lemma token_pattern_length: "token_pattern lo hi s \<Longrightarrow> Suc lo \<le> length s \<and> length s \<le> Suc hi"
  by (auto simp: token_pattern_def split: list.splits)

lemma token_pattern_trim: "token_pattern lo hi s \<Longrightarrow> trim s = s"
  by (rule token_trim) (rule token_pattern_chars)

lemma token_nonEmpty: "token_pattern lo hi s \<Longrightarrow> nonEmpty s"
  by (auto simp: nonEmpty_def token_pattern_trim token_pattern_def split: list.splits)

section \<open>Numbers\<close>

datatype js_num = Num rat | NaN | PosInfinity | NegInfinity

text \<open>\<open>Number.isFinite\<close>\<close>
fun isFinite :: "js_num \<Rightarrow> bool" where
  "isFinite (Num q) = True"
| "isFinite _ = False"

text \<open>\<open>a < b\<close> on numbers; false as soon as one side is NaN.\<close>
fun num_lt :: "js_num \<Rightarrow> js_num \<Rightarrow> bool" where
  "num_lt (Num a) (Num b) = (a < b)"
| "num_lt (Num a) PosInfinity = True"
| "num_lt NegInfinity (Num b) = True"
| "num_lt NegInfinity PosInfinity = True"
| "num_lt _ _ = False"

definition rat_is_int :: "rat \<Rightarrow> bool" where
  "rat_is_int q \<longleftrightarrow> of_int \<lfloor>q\<rfloor> = q"

text \<open>\<open>Number.isInteger\<close>\<close>
fun isInteger :: "js_num \<Rightarrow> bool" where
  "isInteger (Num q) = rat_is_int q"
| "isInteger _ = False"

definition max_safe :: int where
  "max_safe = 9007199254740991"

text \<open>\<open>Number.isSafeInteger\<close>\<close>
fun isSafeInteger :: "js_num \<Rightarrow> bool" where
  "isSafeInteger (Num q) = (rat_is_int q \<and> \<bar>q\<bar> \<le> of_int max_safe)"
| "isSafeInteger _ = False"

text \<open>The integer an integral double denotes (used behind \<open>isSafeInteger\<close> only).\<close>
fun int_of_num :: "js_num \<Rightarrow> int" where
  "int_of_num (Num q) = \<lfloor>q\<rfloor>"
| "int_of_num _ = 0"

text \<open>
  \<open>n + 1\<close> on the doubles that denote integers from 0 to \<open>2^53\<close>: exact below \<open>2^53\<close>,
  and \<open>2^53 + 1\<close> rounds back to \<open>2^53\<close>.
\<close>
definition num_succ :: "int \<Rightarrow> int" where
  "num_succ n = (if n \<le> max_safe then n + 1 else n)"

text \<open>\<open>!Number.isFinite(x) || x < lo || x > hi\<close> negated\<close>
definition num_between :: "rat \<Rightarrow> rat \<Rightarrow> js_num \<Rightarrow> bool" where
  "num_between lo hi x \<longleftrightarrow> isFinite x \<and> \<not> num_lt x (Num lo) \<and> \<not> num_lt (Num hi) x"

lemma rat_is_int_of_int [simp]: "rat_is_int (of_int n)"
  by (simp add: rat_is_int_def)

lemma rat_is_int_numeral [simp]: "rat_is_int (numeral n)" "rat_is_int 0" "rat_is_int 1"
  by (simp_all add: rat_is_int_def)

lemma num_between_Num [simp]: "num_between lo hi (Num q) \<longleftrightarrow> lo \<le> q \<and> q \<le> hi"
  by (auto simp: num_between_def not_less)

lemma num_between_other [simp]:
  "\<not> num_between lo hi NaN" "\<not> num_between lo hi PosInfinity" "\<not> num_between lo hi NegInfinity"
  by (simp_all add: num_between_def)

lemma num_between_iff: "num_between lo hi x \<longleftrightarrow> (\<exists>q. x = Num q \<and> lo \<le> q \<and> q \<le> hi)"
  by (cases x) auto

lemma isSafeInteger_iff:
  "isSafeInteger x \<longleftrightarrow> (\<exists>n. x = Num (of_int n) \<and> \<bar>n\<bar> \<le> max_safe)"
proof (cases x)
  case (Num q)
  show ?thesis
  proof
    assume a: "isSafeInteger x"
    then have "rat_is_int q" and b: "\<bar>q\<bar> \<le> of_int max_safe"
      using Num by simp_all
    then have q: "q = of_int \<lfloor>q\<rfloor>" by (simp only: rat_is_int_def)
    from b q have "\<bar>of_int \<lfloor>q\<rfloor> :: rat\<bar> \<le> of_int max_safe" by metis
    then have "\<bar>\<lfloor>q\<rfloor>\<bar> \<le> max_safe" by linarith
    then show "\<exists>n. x = Num (of_int n) \<and> \<bar>n\<bar> \<le> max_safe" using Num q by metis
  next
    assume "\<exists>n. x = Num (of_int n) \<and> \<bar>n\<bar> \<le> max_safe"
    then obtain n where n: "x = Num (of_int n)" "\<bar>n\<bar> \<le> max_safe" by blast
    then have "\<bar>of_int n :: rat\<bar> \<le> of_int max_safe" by linarith
    then show "isSafeInteger x" using n by simp
  qed
qed auto

lemma num_succ_gt: "n \<le> max_safe \<Longrightarrow> num_succ n = n + 1"
  by (simp add: num_succ_def)

lemma num_succ_ge: "n \<le> num_succ n"
  by (simp add: num_succ_def)

section \<open>Actions: state and exceptions\<close>

text \<open>
  An asynchronous method of a service is a function from the state it runs in to its outcome
  and the state it leaves, the state being kept when it throws: what was written before the
  exception stays written unless the code undoes it.
\<close>

type_synonym ('s, 'e, 'a) action = "'s \<Rightarrow> ('e + 'a) \<times> 's"

definition aret :: "'a \<Rightarrow> ('s, 'e, 'a) action" where
  "aret x s = (Inr x, s)"

definition athrow :: "'e \<Rightarrow> ('s, 'e, 'a) action" where
  "athrow e s = (Inl e, s)"

definition alift :: "'e + 'a \<Rightarrow> ('s, 'e, 'a) action" where
  "alift r s = (r, s)"

definition abind :: "('s, 'e, 'a) action \<Rightarrow> ('a \<Rightarrow> ('s, 'e, 'b) action) \<Rightarrow> ('s, 'e, 'b) action" where
  "abind m f s = (case m s of (Inl e, s') \<Rightarrow> (Inl e, s') | (Inr x, s') \<Rightarrow> f x s')"

text \<open>\<open>try { m } catch (e) { h(e) }\<close>\<close>
definition acatch :: "('s, 'e, 'a) action \<Rightarrow> ('e \<Rightarrow> ('s, 'e, 'a) action) \<Rightarrow> ('s, 'e, 'a) action" where
  "acatch m h s = (case m s of (Inl e, s') \<Rightarrow> h e s' | (Inr x, s') \<Rightarrow> (Inr x, s'))"

lemma action_simps [simp]:
  "aret x s = (Inr x, s)" "athrow e s = (Inl e, s)" "alift r s = (r, s)"
  by (simp_all add: aret_def athrow_def alift_def)

lemma abind_simps [simp]:
  "m s = (Inl e, s') \<Longrightarrow> abind m f s = (Inl e, s')"
  "m s = (Inr x, s') \<Longrightarrow> abind m f s = f x s'"
  by (simp_all add: abind_def)

lemma abind_Inr: "abind m f s = (Inr y, t) \<longleftrightarrow> (\<exists>x s'. m s = (Inr x, s') \<and> f x s' = (Inr y, t))"
  by (auto simp: abind_def split: prod.splits sum.splits)

lemma abind_Inl:
  "abind m f s = (Inl e, t) \<longleftrightarrow> m s = (Inl e, t) \<or> (\<exists>x s'. m s = (Inr x, s') \<and> f x s' = (Inl e, t))"
  by (auto simp: abind_def split: prod.splits sum.splits)

lemma abind_alift: "abind (alift r) f s = (case r of Inl e \<Rightarrow> (Inl e, s) | Inr x \<Rightarrow> f x s)"
  by (simp add: abind_def)

lemma abind_alift_simps [simp]:
  "abind (alift (Inl e)) f s = (Inl e, s)"
  "abind (alift (Inr x)) f s = f x s"
  by (simp_all add: abind_alift)

lemma acatch_Inr:
  "acatch m h s = (Inr y, t) \<longleftrightarrow> m s = (Inr y, t) \<or> (\<exists>e s'. m s = (Inl e, s') \<and> h e s' = (Inr y, t))"
  by (auto simp: acatch_def split: prod.splits sum.splits)

lemma acatch_Inl: "acatch m h s = (Inl e, t) \<longleftrightarrow> (\<exists>e' s'. m s = (Inl e', s') \<and> h e' s' = (Inl e, t))"
  by (auto simp: acatch_def split: prod.splits sum.splits)

section \<open>Arrays\<close>

text \<open>\<open>xs.slice(a, b)\<close>; negative positions count from the end.\<close>
definition js_slice :: "int \<Rightarrow> int \<Rightarrow> 'a list \<Rightarrow> 'a list" where
  "js_slice a b xs = (let n = int (length xs);
       first = (if a < 0 then max 0 (n + a) else min a n);
       last = (if b < 0 then max 0 (n + b) else min b n)
     in take (nat (last - first)) (drop (nat first) xs))"

lemma set_js_slice: "x \<in> set (js_slice a b xs) \<Longrightarrow> x \<in> set xs"
  by (auto simp: js_slice_def Let_def dest: in_set_takeD in_set_dropD)

lemma js_slice_page:
  "0 \<le> offset \<Longrightarrow> 0 \<le> limit \<Longrightarrow>
   js_slice offset (offset + limit) xs = take (nat limit) (drop (nat offset) xs)"
  by (cases "offset \<le> int (length xs)") (auto simp: js_slice_def Let_def min_def nat_diff_distrib' nat_add_distrib)

text \<open>\<open>xs.map(f)\<close> for a function that may throw.\<close>
fun mapE :: "('a \<Rightarrow> 'e + 'b) \<Rightarrow> 'a list \<Rightarrow> 'e + 'b list" where
  "mapE f [] = Inr []"
| "mapE f (x # xs) = ebind (f x) (\<lambda>y. ebind (mapE f xs) (\<lambda>ys. Inr (y # ys)))"

lemma mapE_Inr: "mapE f xs = Inr ys \<longleftrightarrow> list_all2 (\<lambda>x y. f x = Inr y) xs ys"
  by (induction xs arbitrary: ys) (auto simp: ebind_eq_Inr list_all2_Cons1)

lemma mapE_total: "\<forall>x \<in> set xs. f x = Inr (g x) \<Longrightarrow> mapE f xs = Inr (List.map g xs)"
  by (induction xs) auto

section \<open>JSON values\<close>

text \<open>
  What is handed to \<open>JSON.stringify\<close>. The digests of the repository are
  \<open>sha256(JSON.stringify(v))\<close>; both functions together are one parameter of type
  \<open>json \<Rightarrow> string\<close> of the definitions that use them.
\<close>
datatype json =
    JNull | JBool bool | JNum js_num | JStr string | JArr "json list" | JObj "(string \<times> json) list"

definition json_opt :: "string \<Rightarrow> ('a \<Rightarrow> json) \<Rightarrow> 'a option \<Rightarrow> (string \<times> json) list" where
  "json_opt k f m = (case m of None \<Rightarrow> [] | Some x \<Rightarrow> [(k, f x)])"

end
