(* ===== verification/JsDate.thy ===== *)
theory JsDate
  imports JsBase
begin

text \<open>
  Prelude: \<open>Date\<close> of ECMAScript as the repository uses it. A time value is the number of
  milliseconds since 1970, or NaN (\<open>None\<close>); \<open>timeClip\<close>, \<open>isoString\<close> and \<open>dateParse\<close>
  are the specification's TimeClip, \<open>toISOString\<close> and \<open>Date.parse\<close> on the Date Time String
  Format (dates, and date-times with \<open>Z\<close> or a numeric offset; year with four digits or with
  a sign and six). Strings outside that format, which engines read in their own ways, and
  date-times without an offset, which depend on the host's time zone, are not parsed by the
  model. The main fact is the round trip \<open>dateParse_isoString\<close>.
\<close>

section \<open>Days, years and months\<close>

definition day_from_year :: "int \<Rightarrow> int" where
  "day_from_year y = 365 * (y - 1970) + (y - 1969) div 4 - (y - 1901) div 100 + (y - 1601) div 400"

definition leap_year :: "int \<Rightarrow> bool" where
  "leap_year y \<longleftrightarrow> (y mod 4 = 0 \<and> y mod 100 \<noteq> 0) \<or> y mod 400 = 0"

definition year_of_day :: "int \<Rightarrow> int" where
  "year_of_day d = (let y = 1970 + d * 400 div 146097 in
     if day_from_year (y + 1) \<le> d then y + 1
     else if d < day_from_year y then y - 1 else y)"

definition leap_day :: "bool \<Rightarrow> int" where
  "leap_day lp = (if lp then 1 else 0)"

text \<open>Days of the year before month \<open>m\<close> (1 to 12).\<close>
definition days_before :: "bool \<Rightarrow> int \<Rightarrow> int" where
  "days_before lp m =
     (if m \<le> 1 then 0 else if m = 2 then 31
      else leap_day lp + (if m = 3 then 59 else if m = 4 then 90 else if m = 5 then 120
        else if m = 6 then 151 else if m = 7 then 181 else if m = 8 then 212
        else if m = 9 then 243 else if m = 10 then 273 else if m = 11 then 304 else 334))"

definition month_of :: "bool \<Rightarrow> int \<Rightarrow> int" where
  "month_of lp n = (let l = leap_day lp in
     if n < 31 then 1 else if n < 59 + l then 2 else if n < 90 + l then 3
     else if n < 120 + l then 4 else if n < 151 + l then 5 else if n < 181 + l then 6
     else if n < 212 + l then 7 else if n < 243 + l then 8 else if n < 273 + l then 9
     else if n < 304 + l then 10 else if n < 334 + l then 11 else 12)"

lemma div_bounds:
  fixes x k :: int
  assumes "0 < k"
  shows "k * (x div k) \<le> x" "x < k * (x div k) + k"
proof -
  have "k * (x div k) + x mod k = x" by simp
  moreover have "0 \<le> x mod k" "x mod k < k" using assms by simp_all
  ultimately show "k * (x div k) \<le> x" "x < k * (x div k) + k" by linarith+
qed

lemma div_step:
  fixes x k :: int
  assumes "1 < k"
  shows "(x + 1) div k = x div k + (if k dvd x + 1 then 1 else 0)"
proof -
  define q where "q = x div k"
  have b: "k * q \<le> x" "x < k * q + k" using assms div_bounds [of k x] by (simp_all add: q_def)
  show ?thesis
  proof (cases "k dvd x + 1")
    case True
    then obtain j where j: "x + 1 = k * j" by (auto simp: dvd_def)
    have "k * q < k * j" using b j by linarith
    moreover have "k * j \<le> k * (q + 1)" using b j by (simp add: distrib_left)
    ultimately have "q < j" "j \<le> q + 1" using assms by (simp_all only: mult_less_cancel_left_pos mult_le_cancel_left_pos)
    then have "j = q + 1" by simp
    then show ?thesis using j True assms by (simp add: q_def)
  next
    case False
    have "x + 1 \<noteq> k * (q + 1)" using False by (metis dvd_triv_left)
    then have "0 \<le> x + 1 - k * q" "x + 1 - k * q < k" using b by (simp_all add: algebra_simps)
    moreover have "x + 1 = k * q + (x + 1 - k * q)" by simp
    ultimately have "(x + 1) div k = q" by (metis int_div_pos_eq)
    then show ?thesis using False by (simp add: q_def)
  qed
qed

lemma multiple_shift:
  fixes y k m :: int
  shows "k dvd y - k * m \<longleftrightarrow> y mod k = 0"
  using dvd_diff_left_iff [of k "k * m" y] by (simp add: dvd_eq_mod_eq_0)

lemma day_from_year_step:
  "day_from_year (y + 1) = day_from_year y + 365 + leap_day (leap_year y)"
proof -
  have a: "(y + 1 - 1969) div 4 = (y - 1969) div 4 + (if y mod 4 = 0 then 1 else 0)"
  proof -
    have "4 dvd (y - 1969 + 1) \<longleftrightarrow> y mod 4 = 0" using multiple_shift [of 4 y 492] by simp
    then show ?thesis using div_step [of 4 "y - 1969"] by (simp add: algebra_simps)
  qed
  have b: "(y + 1 - 1901) div 100 = (y - 1901) div 100 + (if y mod 100 = 0 then 1 else 0)"
  proof -
    have "100 dvd (y - 1901 + 1) \<longleftrightarrow> y mod 100 = 0" using multiple_shift [of 100 y 19] by simp
    then show ?thesis using div_step [of 100 "y - 1901"] by (simp add: algebra_simps)
  qed
  have c: "(y + 1 - 1601) div 400 = (y - 1601) div 400 + (if y mod 400 = 0 then 1 else 0)"
  proof -
    have "400 dvd (y - 1601 + 1) \<longleftrightarrow> y mod 400 = 0" using multiple_shift [of 400 y 4] by simp
    then show ?thesis using div_step [of 400 "y - 1601"] by (simp add: algebra_simps)
  qed
  have d: "y mod 400 = 0 \<Longrightarrow> y mod 100 = 0" and e: "y mod 100 = 0 \<Longrightarrow> y mod 4 = 0"
    using mod_mod_cancel [of 100 400 y] mod_mod_cancel [of 4 100 y] by simp_all
  define q4 q100 q400 where "q4 = (y - 1969) div 4" and "q100 = (y - 1901) div 100" and "q400 = (y - 1601) div 400"
  have step: "365 * (y + 1 - 1970) + (q4 + (if p4 then 1 else 0)) - (q100 + (if p100 then 1 else 0)) +
      (q400 + (if p400 then 1 else 0)) =
    365 * (y - 1970) + q4 - q100 + q400 + 365 + (if (p4 \<and> \<not> p100) \<or> p400 then 1 else 0)"
    if "p400 \<longrightarrow> p100" "p100 \<longrightarrow> p4" for p4 p100 p400 :: bool
    using that by (cases p400; cases p100; cases p4) simp_all
  show ?thesis
    unfolding day_from_year_def leap_day_def leap_year_def a b c
    using step [of "y mod 400 = 0" "y mod 100 = 0" "y mod 4 = 0"] d e
    unfolding q4_def q100_def q400_def by blast
qed

text \<open>The day of a year as a linear function of the year, within three days.\<close>
lemma day_from_year_linear:
  "146097 * (y - 1970) - 1200 \<le> 400 * day_from_year y"
  "400 * day_from_year y \<le> 146097 * (y - 1970) + 1200"
proof -
  note ds = div_bounds [of 4 "y - 1969"] div_bounds [of 100 "y - 1901"] div_bounds [of 400 "y - 1601"]
  show "146097 * (y - 1970) - 1200 \<le> 400 * day_from_year y"
    "400 * day_from_year y \<le> 146097 * (y - 1970) + 1200"
    unfolding day_from_year_def using ds by (simp_all add: algebra_simps)
qed

lemma year_of_day_bounds:
  "day_from_year (year_of_day d) \<le> d \<and> d < day_from_year (year_of_day d + 1)"
proof -
  define y where "y = 1970 + d * 400 div 146097"
  have quot: "146097 * (y - 1970) \<le> d * 400" "d * 400 < 146097 * (y - 1970) + 146097"
    unfolding y_def using div_bounds [of 146097 "d * 400"] by simp_all
  have lo: "day_from_year (y - 1) \<le> d"
    using day_from_year_linear(2) [of "y - 1"] quot
    by (simp add: algebra_simps)
  have hi: "d < day_from_year (y + 1 + 1)"
    using day_from_year_linear(1) [of "y + 1 + 1"] quot
    by (simp add: algebra_simps)
  show ?thesis
    unfolding year_of_day_def Let_def y_def [symmetric] using lo hi by auto
qed

lemma month_of_bounds:
  assumes "0 \<le> n" and "n < 365 + leap_day lp"
  shows "1 \<le> month_of lp n" "month_of lp n \<le> 12"
    "days_before lp (month_of lp n) \<le> n" "n - days_before lp (month_of lp n) < 31"
  using assms
  by (auto simp: month_of_def days_before_def leap_day_def Let_def split: if_splits)

section \<open>Fixed-width decimals\<close>

definition digit_char :: "int \<Rightarrow> char" where
  "digit_char n = char_of (48 + nat n)"

definition digit_value :: "char \<Rightarrow> int" where
  "digit_value c = int (code_unit c) - 48"

text \<open>The decimal digits of a positive integer, as \<open>String(n)\<close> writes it below \<open>10^21\<close>.\<close>
fun decimal :: "nat \<Rightarrow> string" where
  "decimal n = (if n < 10 then [digit_char (int n)] else decimal (n div 10) @ [digit_char (int (n mod 10))])"

declare decimal.simps [simp del]

fun padded :: "nat \<Rightarrow> int \<Rightarrow> string" where
  "padded 0 n = []"
| "padded (Suc k) n = padded k (n div 10) @ [digit_char (n mod 10)]"

definition digits_value :: "string \<Rightarrow> int" where
  "digits_value s = foldl (\<lambda>v c. 10 * v + digit_value c) 0 s"

text \<open>Reads exactly \<open>k\<close> digits.\<close>
definition take_digits :: "nat \<Rightarrow> string \<Rightarrow> (int \<times> string) option" where
  "take_digits k s = (if k \<le> length s \<and> list_all is_digit (take k s)
     then Some (digits_value (take k s), drop k s) else None)"

lemma digit_char_ok:
  assumes "0 \<le> n" "n < 10"
  shows "is_digit (digit_char n)" "digit_value (digit_char n) = n"
proof -
  have u: "code_unit (digit_char n) = 48 + nat n"
    using assms by (simp add: code_unit_def digit_char_def)
  show "is_digit (digit_char n)" using assms by (simp add: is_digit_def u)
  show "digit_value (digit_char n) = n" using assms by (simp add: digit_value_def u)
qed

lemma length_padded [simp]: "length (padded k n) = k"
  by (induction k arbitrary: n) auto

lemma padded_digits: "list_all is_digit (padded k n)"
  by (induction k arbitrary: n) (auto simp: digit_char_ok)

lemma digits_value_padded: "0 \<le> n \<Longrightarrow> n < 10 ^ k \<Longrightarrow> digits_value (padded k n) = n"
proof (induction k arbitrary: n)
  case 0
  then show ?case by (simp add: digits_value_def)
next
  case (Suc k)
  then have "n div 10 < 10 ^ k" by (simp add: div_less_iff_less_mult mult.commute)
  moreover have "0 \<le> n div 10" using Suc.prems by simp
  ultimately have "digits_value (padded k (n div 10)) = n div 10" by (rule Suc.IH [rotated])
  then show ?case by (simp add: digits_value_def digit_char_ok)
qed

lemma take_digits_padded:
  "0 \<le> n \<Longrightarrow> n < 10 ^ k \<Longrightarrow> take_digits k (padded k n @ r) = Some (n, r)"
  by (simp add: take_digits_def padded_digits digits_value_padded)

section \<open>Time values and their strings\<close>

type_synonym time_value = "int option"

definition timeClip :: "int \<Rightarrow> time_value" where
  "timeClip t = (if \<bar>t\<bar> \<le> 8640000000000000 then Some t else None)"

definition year_string :: "int \<Rightarrow> string" where
  "year_string y = (if 0 \<le> y \<and> y \<le> 9999 then padded 4 y
     else (if y < 0 then CHR ''-'' else CHR ''+'') # padded 6 \<bar>y\<bar>)"

definition isoString :: "int \<Rightarrow> string" where
  "isoString t = (let d = t div 86400000; r = t mod 86400000; y = year_of_day d;
       n = d - day_from_year y; m = month_of (leap_year y) n;
       day = n - days_before (leap_year y) m + 1
     in year_string y @ ''-'' @ padded 2 m @ ''-'' @ padded 2 day @ ''T'' @
        padded 2 (r div 3600000) @ '':'' @ padded 2 (r div 60000 mod 60) @ '':'' @
        padded 2 (r div 1000 mod 60) @ ''.'' @ padded 3 (r mod 1000) @ ''Z'')"

text \<open>\<open>new Date(ms).toISOString()\<close>; \<open>None\<close> is the RangeError of an invalid date.\<close>
definition toISO :: "int \<Rightarrow> string option" where
  "toISO ms = map_option isoString (timeClip ms)"

definition expect :: "char \<Rightarrow> string \<Rightarrow> string option" where
  "expect c s = (case s of [] \<Rightarrow> None | x # r \<Rightarrow> if x = c then Some r else None)"

definition parse_year :: "string \<Rightarrow> (int \<times> string) option" where
  "parse_year s = (case s of
       [] \<Rightarrow> None
     | c # r \<Rightarrow>
         if c = CHR ''+'' then take_digits 6 r
         else if c = CHR ''-'' then
           Option.bind (take_digits 6 r) (\<lambda>(y, r'). if y = 0 then None else Some (- y, r'))
         else take_digits 4 s)"

definition in_range :: "int \<Rightarrow> int \<Rightarrow> (int \<times> string) \<Rightarrow> (int \<times> string) option" where
  "in_range lo hi p = (if lo \<le> fst p \<and> fst p \<le> hi then Some p else None)"

text \<open>A separator and two digits within bounds.\<close>
definition parse_field :: "char \<Rightarrow> int \<Rightarrow> int \<Rightarrow> string \<Rightarrow> (int \<times> string) option" where
  "parse_field c lo hi s =
     Option.bind (expect c s) (\<lambda>r. Option.bind (take_digits 2 r) (in_range lo hi))"

definition parse_fraction :: "string \<Rightarrow> (int \<times> string) option" where
  "parse_fraction s = (case s of
       [] \<Rightarrow> Some (0, s)
     | c # r \<Rightarrow> if c = CHR ''.'' then
           (let ds = takeWhile is_digit r in
             if ds = [] then None
             else Some (digits_value (take 3 (ds @ ''00'')), dropWhile is_digit r))
         else Some (0, s))"

text \<open>\<open>Z\<close> or \<open>+hh:mm\<close>, \<open>-hh:mm\<close>, as milliseconds to subtract.\<close>
definition parse_offset :: "string \<Rightarrow> int option" where
  "parse_offset s = (case s of [] \<Rightarrow> None
     | c # r \<Rightarrow>
         if c = CHR ''Z'' then (if r = [] then Some 0 else None)
         else if c = CHR ''+'' \<or> c = CHR ''-'' then
           Option.bind (Option.bind (take_digits 2 r) (in_range 0 23)) (\<lambda>(h, r1).
           Option.bind (parse_field CHR '':'' 0 59 r1) (\<lambda>(mi, r2).
             if r2 = [] then Some ((if c = CHR ''-'' then - 1 else 1) * (h * 3600000 + mi * 60000))
             else None))
         else None)"

definition parse_time :: "string \<Rightarrow> int option" where
  "parse_time s =
     Option.bind (Option.bind (take_digits 2 s) (in_range 0 24)) (\<lambda>(h, r1).
     Option.bind (parse_field CHR '':'' 0 59 r1) (\<lambda>(mi, r2).
     Option.bind (if take 1 r2 = '':'' then parse_field CHR '':'' 0 59 r2 else Some (0, r2)) (\<lambda>(sec, r3).
     Option.bind (if take 1 r2 = '':'' then parse_fraction r3 else Some (0, r3)) (\<lambda>(ms, r4).
     Option.bind (parse_offset r4) (\<lambda>off.
       if h = 24 \<and> (mi \<noteq> 0 \<or> sec \<noteq> 0 \<or> ms \<noteq> 0) then None
       else Some (h * 3600000 + mi * 60000 + sec * 1000 + ms - off))))))"

definition make_day :: "int \<Rightarrow> int \<Rightarrow> int \<Rightarrow> int" where
  "make_day y m d = day_from_year y + days_before (leap_year y) m + d - 1"

definition dateParse :: "string \<Rightarrow> time_value" where
  "dateParse s =
     Option.bind (parse_year s) (\<lambda>(y, r1).
       if r1 = [] then timeClip (make_day y 1 1 * 86400000)
       else Option.bind (parse_field CHR ''-'' 1 12 r1) (\<lambda>(m, r2).
         if r2 = [] then timeClip (make_day y m 1 * 86400000)
         else Option.bind (parse_field CHR ''-'' 1 31 r2) (\<lambda>(d, r3).
           if r3 = [] then timeClip (make_day y m d * 86400000)
           else Option.bind (expect CHR ''T'' r3) (\<lambda>r4.
             Option.bind (parse_time r4) (\<lambda>t. timeClip (make_day y m d * 86400000 + t))))))"

text \<open>Comparisons of time values: false when either side is NaN.\<close>
definition tv_lt :: "time_value \<Rightarrow> time_value \<Rightarrow> bool" where
  "tv_lt a b = (case (a, b) of (Some x, Some y) \<Rightarrow> x < y | _ \<Rightarrow> False)"

lemma tv_lt_Some [simp]: "tv_lt (Some x) (Some y) = (x < y)"
  by (simp add: tv_lt_def)

lemma tv_lt_None [simp]: "\<not> tv_lt None y" "\<not> tv_lt x None"
  by (simp_all add: tv_lt_def split: option.splits)

section \<open>The round trip\<close>

lemma parse_field_padded:
  "0 \<le> n \<Longrightarrow> n < 100 \<Longrightarrow> lo \<le> n \<Longrightarrow> n \<le> hi \<Longrightarrow>
   parse_field c lo hi (c # padded 2 n @ r) = Some (n, r)"
  using take_digits_padded [of n 2 r]
  by (simp add: parse_field_def expect_def in_range_def)

lemma parse_fraction_padded:
  assumes "0 \<le> n" "n < 1000"
  shows "parse_fraction (CHR ''.'' # padded 3 n @ ''Z'') = Some (n, ''Z'')"
proof -
  have z: "\<not> is_digit CHR ''Z''" by (simp add: is_digit_def code_unit_def)
  have all: "\<And>c. c \<in> set (padded 3 n) \<Longrightarrow> is_digit c"
    using padded_digits [of 3 n] by (auto simp: list_all_iff)
  have "takeWhile is_digit (padded 3 n @ ''Z'') = padded 3 n"
    using all z by (simp add: takeWhile_append2)
  moreover have "dropWhile is_digit (padded 3 n @ ''Z'') = ''Z''"
    using all z by (simp add: dropWhile_append2)
  moreover have "padded 3 n \<noteq> []" by (metis length_padded list.size(3) zero_neq_numeral)
  ultimately show ?thesis
    using digits_value_padded [of n 3] assms by (simp add: parse_fraction_def Let_def)
qed

lemma parse_time_fields:
  assumes h: "0 \<le> h" "h < 24" and mi: "0 \<le> mi" "mi < 60" and sec: "0 \<le> sec" "sec < 60"
    and ms: "0 \<le> ms" "ms < 1000"
  shows "parse_time (padded 2 h @ CHR '':'' # padded 2 mi @ CHR '':'' # padded 2 sec @
      CHR ''.'' # padded 3 ms @ ''Z'') = Some (h * 3600000 + mi * 60000 + sec * 1000 + ms)"
proof -
  have 1: "take_digits 2 (padded 2 h @ r) = Some (h, r)" for r
    using take_digits_padded [of h 2 r] h by simp
  have 2: "parse_field CHR '':'' 0 59 (CHR '':'' # padded 2 mi @ r) = Some (mi, r)" for r
    using parse_field_padded [of mi 0 59 _ r] mi by simp
  have 3: "parse_field CHR '':'' 0 59 (CHR '':'' # padded 2 sec @ r) = Some (sec, r)" for r
    using parse_field_padded [of sec 0 59 _ r] sec by simp
  have 4: "take 1 (CHR '':'' # r) = '':''" for r by simp
  have 5: "in_range 0 24 (h, r) = Some (h, r)" for r using h by (simp add: in_range_def)
  have 6: "parse_offset ''Z'' = Some 0" by (simp add: parse_offset_def)
  show ?thesis
    unfolding parse_time_def
    by (simp only: 1 2 3 4 5 6 parse_fraction_padded [OF ms] bind.simps prod.case if_True refl)
      (use h in simp)
qed

lemma parse_time_iso:
  assumes "0 \<le> r" "r < 86400000"
  shows "parse_time (padded 2 (r div 3600000) @ CHR '':'' # padded 2 (r div 60000 mod 60) @
      CHR '':'' # padded 2 (r div 1000 mod 60) @ CHR ''.'' # padded 3 (r mod 1000) @ ''Z'') = Some r"
proof -
  have h: "0 \<le> r div 3600000" "r div 3600000 < 24" using assms by auto
  have "r div 60000 div 60 = r div 3600000" "r div 1000 div 60 = r div 60000"
    by (simp_all add: div_mult2_eq [symmetric])
  then have "r div 3600000 * 60 + r div 60000 mod 60 = r div 60000"
    "r div 60000 * 60 + r div 1000 mod 60 = r div 1000" "r div 1000 * 1000 + r mod 1000 = r"
    by (metis div_mult_mod_eq)+
  then have total: "r div 3600000 * 3600000 + r div 60000 mod 60 * 60000 + r div 1000 mod 60 * 1000
      + r mod 1000 = r" by linarith
  have rest: "0 \<le> r div 60000 mod 60" "r div 60000 mod 60 < 60" "0 \<le> r div 1000 mod 60"
    "r div 1000 mod 60 < 60" "0 \<le> r mod 1000" "r mod 1000 < 1000"
    by simp_all
  show ?thesis
    using parse_time_fields [OF h rest] unfolding total .
qed

lemma padded_head: "0 < k \<Longrightarrow> \<exists>c cs. padded k n @ r = c # cs \<and> is_digit c"
proof -
  assume "0 < k"
  then have ne: "padded k n \<noteq> []" by (metis length_padded list.size(3) less_irrefl)
  then have "is_digit (hd (padded k n))"
    using padded_digits [of k n] by (simp add: list_all_iff)
  then show ?thesis using ne by (metis append_Cons list.collapse)
qed

lemma parse_year_string:
  assumes "\<bar>y\<bar> < 1000000"
  shows "parse_year (year_string y @ r) = Some (y, r)"
proof (cases "0 \<le> y \<and> y \<le> 9999")
  case True
  obtain c cs where c: "padded 4 y @ r = c # cs" "is_digit c"
    using padded_head [of 4 y r] by auto
  then have "c \<noteq> CHR ''+''" "c \<noteq> CHR ''-''" by (auto simp: is_digit_def code_unit_def)
  then show ?thesis
    using True c take_digits_padded [of y 4 r] by (simp add: parse_year_def year_string_def)
next
  case False
  then show ?thesis
    using assms take_digits_padded [of "\<bar>y\<bar>" 6 r]
    by (auto simp: parse_year_def year_string_def)
qed

lemma year_of_day_clip:
  assumes "\<bar>t\<bar> \<le> 8640000000000000"
  shows "\<bar>year_of_day (t div 86400000)\<bar> < 1000000"
proof -
  let ?d = "t div 86400000" let ?y = "year_of_day ?d"
  have "- 100000000 \<le> ?d" "?d \<le> 100000000" using assms div_bounds [of 86400000 t] by linarith+
  moreover have "day_from_year ?y \<le> ?d" "?d < day_from_year (?y + 1)"
    using year_of_day_bounds by auto
  ultimately have "?y < 1000000" "- 1000000 < ?y"
    using day_from_year_linear(1) [of ?y] day_from_year_linear(2) [of "?y + 1"]
    by (simp_all add: algebra_simps)
  then show ?thesis by simp
qed

lemma dateParse_isoString:
  assumes "\<bar>t\<bar> \<le> 8640000000000000"
  shows "dateParse (isoString t) = Some t"
proof -
  define d r where "d = t div 86400000" and "r = t mod 86400000"
  define y where "y = year_of_day d"
  define n where "n = d - day_from_year y"
  define m where "m = month_of (leap_year y) n"
  define day where "day = n - days_before (leap_year y) m + 1"
  have r: "0 \<le> r" "r < 86400000" by (auto simp: r_def)
  have n: "0 \<le> n" "n < 365 + leap_day (leap_year y)"
    using year_of_day_bounds [of d] by (auto simp: n_def y_def day_from_year_step)
  note mb = month_of_bounds [OF n, folded m_def]
  have day: "1 \<le> day" "day \<le> 31" using mb by (auto simp: day_def)
  have y: "\<bar>y\<bar> < 1000000" using year_of_day_clip [OF assms] by (simp add: y_def d_def)
  have iso: "isoString t = year_string y @ CHR ''-'' # padded 2 m @ CHR ''-'' # padded 2 day @
      CHR ''T'' # (padded 2 (r div 3600000) @ CHR '':'' # padded 2 (r div 60000 mod 60) @
        CHR '':'' # padded 2 (r div 1000 mod 60) @ CHR ''.'' # padded 3 (r mod 1000) @ ''Z'')"
    by (simp add: isoString_def Let_def d_def r_def y_def n_def m_def day_def)
  have "make_day y m day = d" by (simp add: make_day_def day_def n_def)
  moreover have "d * 86400000 + r = t" by (simp add: d_def r_def)
  ultimately have t: "make_day y m day * 86400000 + r = t" by simp
  show ?thesis
    unfolding dateParse_def iso
    using mb day t assms parse_time_iso [OF r]
    by (simp add: parse_year_string [OF y] parse_field_padded expect_def timeClip_def)
qed

lemma toISO_parse: "toISO t = Some s \<Longrightarrow> dateParse s = Some t"
  by (auto simp: toISO_def timeClip_def dateParse_isoString split: if_splits)

lemma toISO_eq_None: "toISO t = None \<longleftrightarrow> 8640000000000000 < \<bar>t\<bar>"
  by (auto simp: toISO_def timeClip_def)

lemma timeClip_range: "timeClip t = Some u \<Longrightarrow> u = t \<and> \<bar>u\<bar> \<le> 8640000000000000"
  by (auto simp: timeClip_def split: if_splits)

lemma dateParse_range: "dateParse s = Some t \<Longrightarrow> \<bar>t\<bar> \<le> 8640000000000000"
  by (auto simp: dateParse_def Option.bind_eq_Some_conv split: prod.splits if_splits
      dest!: timeClip_range)

end
