(* ===== verification/RoadEvent.thy ===== *)
theory RoadEvent
  imports JsDate
begin

text \<open>
  The domain aggregate of \<open>packages/domain/src/road-event\<close>: severity assessments
  (\<open>severity.ts\<close>), the status machine (\<open>road-event-status.ts\<close>) and the class \<open>RoadEvent\<close>
  (\<open>road-event.ts\<close>). An enumeration value that reached the code unchecked is the extra
  constructor \<open>OtherLevel\<close> or \<open>OtherStatus\<close>, so the run-time membership checks are real
  branches. \<open>Date.now()\<close> is the argument \<open>now\<close>, one reading per operation. Error classes
  are values; their message texts are not modelled.
\<close>

datatype road_error =
    TypeError | RangeError
  | InvalidRoadEventError
  | InvalidRoadEventTransitionError
  | RoadEventClosureRequiresHumanAuthorizationError
  | RoadEventAlreadyExistsError
  | RoadEventNotFoundError
  | RoadEventConcurrencyError
  | ApplicationValidationError
  | ApplicationConflictError
  | IdempotencyConflictError
  | IdempotencyInFlightError
  | AuthorizationDeniedError

section \<open>Severity\<close>

datatype SeverityLevel = Informational | Low | Moderate | High | Critical | OtherLevel string

definition severityLevels :: "SeverityLevel list" where
  "severityLevels = [Informational, Low, Moderate, High, Critical]"

record SeverityAssessment =
  sev_level :: SeverityLevel
  sev_score :: js_num
  sev_reasonCodes :: "string list"
  sev_confidence :: js_num
  sev_requiresHumanReview :: bool

definition isHighSeverity :: "SeverityLevel \<Rightarrow> bool" where
  "isHighSeverity l \<longleftrightarrow> l = High \<or> l = Critical"

definition validateSeverityAssessment :: "SeverityAssessment \<Rightarrow> road_error + unit" where
  "validateSeverityAssessment a =
     ebind (ensure (sev_level a \<in> set severityLevels) TypeError) (\<lambda>_.
     ebind (ensure (num_between 0 100 (sev_score a)) RangeError) (\<lambda>_.
     ebind (ensure (num_between 0 1 (sev_confidence a)) RangeError) (\<lambda>_.
     ebind (ensure (\<not> (sev_reasonCodes a = [] \<or>
         list_ex (\<lambda>r. trim r = [] \<or> 64 < length r) (sev_reasonCodes a))) TypeError) (\<lambda>_.
     ensure (\<not> (isHighSeverity (sev_level a) \<and> \<not> sev_requiresHumanReview a)) TypeError))))"

definition freezeSeverityAssessment :: "SeverityAssessment \<Rightarrow> road_error + SeverityAssessment" where
  "freezeSeverityAssessment a = ebind (validateSeverityAssessment a) (\<lambda>_. Inr a)"

definition valid_severity :: "SeverityAssessment \<Rightarrow> bool" where
  "valid_severity a \<longleftrightarrow> is_ok (validateSeverityAssessment a)"

section \<open>The status machine\<close>

datatype RoadEventStatus =
    Detected | Validating | Confirmed | SafetyAssessment | ResponseCoordination | RoadClearance
  | Recovery | Closed | FalsePositive | Duplicate | UnderReview | TransferredToAuthority
  | OtherStatus string

definition roadEventStatuses :: "RoadEventStatus list" where
  "roadEventStatuses = [Detected, Validating, Confirmed, SafetyAssessment, ResponseCoordination,
     RoadClearance, Recovery, Closed, FalsePositive, Duplicate, UnderReview, TransferredToAuthority]"

text \<open>\<open>None\<close> is the \<open>undefined\<close> a lookup outside the table gives.\<close>
fun allowedTransitions :: "RoadEventStatus \<Rightarrow> RoadEventStatus list option" where
  "allowedTransitions Detected = Some [Validating, FalsePositive]"
| "allowedTransitions Validating = Some [Confirmed, UnderReview, FalsePositive, Duplicate]"
| "allowedTransitions Confirmed = Some [SafetyAssessment]"
| "allowedTransitions SafetyAssessment = Some [ResponseCoordination]"
| "allowedTransitions ResponseCoordination = Some [RoadClearance, TransferredToAuthority]"
| "allowedTransitions RoadClearance = Some [Recovery]"
| "allowedTransitions Recovery = Some [Closed]"
| "allowedTransitions UnderReview = Some [Validating, Confirmed, FalsePositive, Duplicate]"
| "allowedTransitions TransferredToAuthority = Some [Closed]"
| "allowedTransitions Closed = Some []"
| "allowedTransitions FalsePositive = Some []"
| "allowedTransitions Duplicate = Some []"
| "allowedTransitions (OtherStatus s) = None"

section \<open>The aggregate\<close>

definition MAX_CLOCK_SKEW_MILLISECONDS :: int where
  "MAX_CLOCK_SKEW_MILLISECONDS = 5 * 60 * 1000"

record ClosureAuthorization =
  ca_actorId :: string
  ca_reason :: string
  ca_authorizedAt :: time_value

record RoadEventProps =
  rp_id :: string
  rp_reporterActorId :: "string option"
  rp_occurredAt :: time_value
  rp_latitude :: js_num
  rp_longitude :: js_num
  rp_status :: "RoadEventStatus option"
  rp_severity :: "SeverityAssessment option"
  rp_version :: "js_num option"
  rp_closureAuthorization :: "ClosureAuthorization option"

record RoadEvent =
  re_id :: string
  re_reporterActorId :: "string option"
  re_latitude :: js_num
  re_longitude :: js_num
  re_occurredAt :: int
  re_status :: RoadEventStatus
  re_severity :: SeverityAssessment
  re_version :: int
  re_closureAuthorization :: "ClosureAuthorization option"

definition requireNonEmpty :: "string \<Rightarrow> nat \<Rightarrow> road_error + string" where
  "requireNonEmpty value maximumLength = (let normalized = trim value in
     if length normalized = 0 \<or> maximumLength < length normalized
     then Inl InvalidRoadEventError else Inr normalized)"

text \<open>\<open>!Number.isFinite(t) || t > Date.now() + MAX_CLOCK_SKEW_MILLISECONDS\<close> throws.\<close>
definition checkedTime :: "int \<Rightarrow> time_value \<Rightarrow> road_error + int" where
  "checkedTime now t = (case t of
       None \<Rightarrow> Inl InvalidRoadEventError
     | Some ms \<Rightarrow> if now + MAX_CLOCK_SKEW_MILLISECONDS < ms then Inl InvalidRoadEventError else Inr ms)"

definition copyAuthorization :: "int \<Rightarrow> ClosureAuthorization \<Rightarrow> road_error + ClosureAuthorization" where
  "copyAuthorization now a =
     ebind (requireNonEmpty (ca_actorId a) 128) (\<lambda>actorId.
     ebind (requireNonEmpty (ca_reason a) 500) (\<lambda>reason.
     ebind (checkedTime now (ca_authorizedAt a)) (\<lambda>authorizedAt.
     Inr \<lparr>ca_actorId = actorId, ca_reason = reason, ca_authorizedAt = Some authorizedAt\<rparr>)))"

text \<open>\<open>optional(f, x)\<close>: the conditional copies of the constructor.\<close>
definition optionalE :: "('a \<Rightarrow> 'e + 'b) \<Rightarrow> 'a option \<Rightarrow> 'e + 'b option" where
  "optionalE f m = (case m of None \<Rightarrow> Inr None | Some x \<Rightarrow> ebind (f x) (\<lambda>y. Inr (Some y)))"

definition initialSeverity :: SeverityAssessment where
  "initialSeverity = \<lparr>sev_level = Informational, sev_score = Num 0,
     sev_reasonCodes = [''initial_detection''], sev_confidence = Num 0,
     sev_requiresHumanReview = True\<rparr>"

definition new_RoadEvent :: "int \<Rightarrow> RoadEventProps \<Rightarrow> road_error + RoadEvent" where
  "new_RoadEvent now p =
     ebind (requireNonEmpty (rp_id p) 128) (\<lambda>ident.
     ebind (optionalE (\<lambda>r. requireNonEmpty r 128) (rp_reporterActorId p)) (\<lambda>reporter.
     ebind (checkedTime now (rp_occurredAt p)) (\<lambda>occurredAt.
     ebind (ensure (num_between (-90) 90 (rp_latitude p)) InvalidRoadEventError) (\<lambda>_.
     ebind (ensure (num_between (-180) 180 (rp_longitude p)) InvalidRoadEventError) (\<lambda>_.
     let status = (case rp_status p of None \<Rightarrow> Detected | Some s \<Rightarrow> s) in
     ebind (ensure (status \<in> set roadEventStatuses) InvalidRoadEventError) (\<lambda>_.
     let version = (case rp_version p of None \<Rightarrow> Num 1 | Some v \<Rightarrow> v) in
     ebind (ensure (isSafeInteger version \<and> \<not> num_lt version (Num 1)) InvalidRoadEventError) (\<lambda>_.
     ebind (freezeSeverityAssessment
         (case rp_severity p of None \<Rightarrow> initialSeverity | Some s \<Rightarrow> s)) (\<lambda>severity.
     ebind (optionalE (copyAuthorization now) (rp_closureAuthorization p)) (\<lambda>closure.
     Inr \<lparr>re_id = ident, re_reporterActorId = reporter, re_latitude = rp_latitude p,
       re_longitude = rp_longitude p, re_occurredAt = occurredAt, re_status = status,
       re_severity = severity, re_version = int_of_num version,
       re_closureAuthorization = closure\<rparr>)))))))))"

text \<open>The getter copies, and so re-validates, the stored authorization.\<close>
definition closureAuthorization :: "int \<Rightarrow> RoadEvent \<Rightarrow> road_error + ClosureAuthorization option" where
  "closureAuthorization now e = optionalE (copyAuthorization now) (re_closureAuthorization e)"

definition transitionTo :: "RoadEventStatus \<Rightarrow> RoadEvent \<Rightarrow> road_error + RoadEvent" where
  "transitionTo next e = (case allowedTransitions (re_status e) of
       None \<Rightarrow> Inl TypeError
     | Some allowed \<Rightarrow>
         if next \<notin> set allowed then Inl InvalidRoadEventTransitionError
         else if next = Closed \<and> isHighSeverity (sev_level (re_severity e)) \<and>
             re_closureAuthorization e = None
         then Inl RoadEventClosureRequiresHumanAuthorizationError
         else Inr (e\<lparr>re_status := next, re_version := num_succ (re_version e)\<rparr>))"

definition assessSeverity :: "SeverityAssessment \<Rightarrow> RoadEvent \<Rightarrow> road_error + RoadEvent" where
  "assessSeverity a e = ebind (freezeSeverityAssessment a) (\<lambda>severity.
     Inr (e\<lparr>re_severity := severity, re_closureAuthorization := None,
       re_version := num_succ (re_version e)\<rparr>))"

definition authorizeClosure ::
  "int \<Rightarrow> ClosureAuthorization \<Rightarrow> RoadEvent \<Rightarrow> road_error + RoadEvent" where
  "authorizeClosure now a e = (case allowedTransitions (re_status e) of
       None \<Rightarrow> Inl TypeError
     | Some allowed \<Rightarrow>
         if Closed \<notin> set allowed then Inl InvalidRoadEventTransitionError
         else ebind (copyAuthorization now a) (\<lambda>authorization.
           Inr (e\<lparr>re_closureAuthorization := Some authorization,
             re_version := num_succ (re_version e)\<rparr>)))"

text \<open>The three mutators as one operation type, and a run of operations on one object; the
  first exception ends it, as it ends the command that made the call.\<close>
datatype road_op =
    TransitionTo RoadEventStatus
  | AssessSeverity SeverityAssessment
  | AuthorizeClosure int ClosureAuthorization

fun apply_op :: "road_op \<Rightarrow> RoadEvent \<Rightarrow> road_error + RoadEvent" where
  "apply_op (TransitionTo s) e = transitionTo s e"
| "apply_op (AssessSeverity a) e = assessSeverity a e"
| "apply_op (AuthorizeClosure now a) e = authorizeClosure now a e"

fun apply_ops :: "road_op list \<Rightarrow> RoadEvent \<Rightarrow> road_error + RoadEvent" where
  "apply_ops [] e = Inr e"
| "apply_ops (x # xs) e = ebind (apply_op x e) (apply_ops xs)"

section \<open>Well-formed events\<close>

definition wf_text :: "nat \<Rightarrow> string \<Rightarrow> bool" where
  "wf_text mx s \<longleftrightarrow> trim s = s \<and> s \<noteq> [] \<and> length s \<le> mx"

definition wf_authorization :: "int \<Rightarrow> ClosureAuthorization \<Rightarrow> bool" where
  "wf_authorization now a \<longleftrightarrow> wf_text 128 (ca_actorId a) \<and> wf_text 500 (ca_reason a) \<and>
     (\<exists>t. ca_authorizedAt a = Some t \<and> t \<le> now + MAX_CLOCK_SKEW_MILLISECONDS)"

definition wf_event :: "int \<Rightarrow> RoadEvent \<Rightarrow> bool" where
  "wf_event now e \<longleftrightarrow> wf_text 128 (re_id e) \<and>
     (\<forall>r. re_reporterActorId e = Some r \<longrightarrow> wf_text 128 r) \<and>
     re_occurredAt e \<le> now + MAX_CLOCK_SKEW_MILLISECONDS \<and>
     num_between (-90) 90 (re_latitude e) \<and> num_between (-180) 180 (re_longitude e) \<and>
     re_status e \<in> set roadEventStatuses \<and> valid_severity (re_severity e) \<and>
     1 \<le> re_version e \<and> re_version e \<le> max_safe + 1 \<and>
     (\<forall>a. re_closureAuthorization e = Some a \<longrightarrow> wf_authorization now a)"

lemma requireNonEmpty_Inr: "requireNonEmpty s mx = Inr t \<longleftrightarrow> t = trim s \<and> wf_text mx t"
  by (auto simp: requireNonEmpty_def wf_text_def Let_def)

lemma requireNonEmpty_wf [simp]: "wf_text mx s \<Longrightarrow> requireNonEmpty s mx = Inr s"
  by (simp add: requireNonEmpty_Inr wf_text_def)

lemma checkedTime_Inr:
  "checkedTime now t = Inr ms \<longleftrightarrow> t = Some ms \<and> ms \<le> now + MAX_CLOCK_SKEW_MILLISECONDS"
  by (auto simp: checkedTime_def split: option.splits)

lemma optionalE_Inr:
  "optionalE f m = Inr r \<longleftrightarrow>
     (m = None \<and> r = None) \<or> (\<exists>x y. m = Some x \<and> f x = Inr y \<and> r = Some y)"
  by (auto simp: optionalE_def ebind_eq_Inr split: option.splits)

lemma copyAuthorization_wf: "copyAuthorization now a = Inr b \<Longrightarrow> wf_authorization now b"
  by (auto simp: copyAuthorization_def ebind_eq_Inr requireNonEmpty_Inr checkedTime_Inr
      wf_authorization_def)

lemma copyAuthorization_id [simp]: "wf_authorization now a \<Longrightarrow> copyAuthorization now a = Inr a"
  by (auto simp: copyAuthorization_def wf_authorization_def checkedTime_def)

lemma freezeSeverityAssessment_Inr:
  "freezeSeverityAssessment a = Inr b \<longleftrightarrow> b = a \<and> valid_severity a"
  by (auto simp: freezeSeverityAssessment_def valid_severity_def is_ok_iff ebind_eq_Inr)

lemma valid_severity_iff:
  "valid_severity a \<longleftrightarrow> sev_level a \<in> set severityLevels \<and> num_between 0 100 (sev_score a) \<and>
     num_between 0 1 (sev_confidence a) \<and> sev_reasonCodes a \<noteq> [] \<and>
     (\<forall>r \<in> set (sev_reasonCodes a). trim r \<noteq> [] \<and> length r \<le> 64) \<and>
     (isHighSeverity (sev_level a) \<longrightarrow> sev_requiresHumanReview a)"
  by (auto simp: valid_severity_def is_ok_iff validateSeverityAssessment_def list_ex_iff not_less)

lemma wf_authorization_mono: "wf_authorization now a \<Longrightarrow> now \<le> now' \<Longrightarrow> wf_authorization now' a"
  by (auto simp: wf_authorization_def)

lemma copyAuthorization_wf_mono:
  "copyAuthorization t a = Inr b \<Longrightarrow> t \<le> now \<Longrightarrow> wf_authorization now b"
  by (blast intro: wf_authorization_mono copyAuthorization_wf)

lemma wf_event_mono: "wf_event now e \<Longrightarrow> now \<le> now' \<Longrightarrow> wf_event now' e"
  by (auto simp: wf_event_def wf_authorization_mono)

lemma version_checked:
  "isSafeInteger v \<Longrightarrow> \<not> num_lt v (Num 1) \<Longrightarrow> 1 \<le> int_of_num v \<and> int_of_num v \<le> max_safe"
  by (auto simp: isSafeInteger_iff not_less)

lemma new_RoadEvent_wf:
  assumes "new_RoadEvent now p = Inr e"
  shows "wf_event now e"
  using assms unfolding new_RoadEvent_def Let_def ebind_eq_Inr ensure_eq_Inr
  by (elim exE conjE)
    (auto simp: requireNonEmpty_Inr optionalE_Inr checkedTime_Inr freezeSeverityAssessment_Inr
      wf_event_def dest: version_checked copyAuthorization_wf)

lemma allowedTransitions_declared:
  "allowedTransitions s = Some xs \<Longrightarrow> n \<in> set xs \<Longrightarrow> n \<in> set roadEventStatuses"
  by (cases s) (auto simp: roadEventStatuses_def)

lemma allowedTransitions_total: "s \<in> set roadEventStatuses \<Longrightarrow> \<exists>xs. allowedTransitions s = Some xs"
  by (auto simp: roadEventStatuses_def)

lemma num_succ_wf: "1 \<le> v \<Longrightarrow> v \<le> max_safe + 1 \<Longrightarrow> 1 \<le> num_succ v \<and> num_succ v \<le> max_safe + 1"
  by (simp add: num_succ_def)

lemma transitionTo_Inr:
  "transitionTo n e = Inr e' \<longleftrightarrow>
     (\<exists>xs. allowedTransitions (re_status e) = Some xs \<and> n \<in> set xs) \<and>
     (n = Closed \<and> isHighSeverity (sev_level (re_severity e)) \<longrightarrow> re_closureAuthorization e \<noteq> None) \<and>
     e' = e\<lparr>re_status := n, re_version := num_succ (re_version e)\<rparr>"
  by (auto simp: transitionTo_def split: option.splits if_splits)

lemma assessSeverity_Inr:
  "assessSeverity a e = Inr e' \<longleftrightarrow> valid_severity a \<and>
     e' = e\<lparr>re_severity := a, re_closureAuthorization := None, re_version := num_succ (re_version e)\<rparr>"
  by (auto simp: assessSeverity_def ebind_eq_Inr freezeSeverityAssessment_Inr)

lemma authorizeClosure_Inr:
  "authorizeClosure now a e = Inr e' \<longleftrightarrow>
     (\<exists>xs. allowedTransitions (re_status e) = Some xs \<and> Closed \<in> set xs) \<and>
     (\<exists>b. copyAuthorization now a = Inr b \<and>
       e' = e\<lparr>re_closureAuthorization := Some b, re_version := num_succ (re_version e)\<rparr>)"
  by (auto simp: authorizeClosure_def ebind_eq_Inr split: option.splits if_splits)

lemmas road_op_Inr = transitionTo_Inr assessSeverity_Inr authorizeClosure_Inr

text \<open>The clock reading an operation makes.\<close>
fun op_now :: "int \<Rightarrow> road_op \<Rightarrow> int" where
  "op_now now (AuthorizeClosure t a) = t"
| "op_now now _ = now"

lemma apply_op_wf:
  assumes "apply_op x e = Inr e'" and "wf_event now e" and "op_now now x \<le> now"
  shows "wf_event now e'"
proof (cases x)
  case (TransitionTo s)
  then show ?thesis using assms
    by (auto simp: road_op_Inr wf_event_def num_succ_wf allowedTransitions_declared)
next
  case (AssessSeverity a)
  then show ?thesis using assms by (auto simp: road_op_Inr wf_event_def num_succ_wf)
next
  case (AuthorizeClosure t a)
  then show ?thesis using assms
    by (auto simp: road_op_Inr wf_event_def num_succ_wf
        intro: copyAuthorization_wf_mono)
qed

lemma apply_ops_wf:
  "apply_ops xs e = Inr e' \<Longrightarrow> wf_event now e \<Longrightarrow> \<forall>x \<in> set xs. op_now now x \<le> now \<Longrightarrow> wf_event now e'"
  by (induction xs arbitrary: e) (auto simp: ebind_eq_Inr intro: apply_op_wf)

section \<open>Runs of operations\<close>

lemma apply_ops_append: "apply_ops (xs @ ys) e = ebind (apply_ops xs e) (apply_ops ys)"
  by (induction xs arbitrary: e) (auto simp: ebind_def split: sum.splits)

lemma apply_ops_snoc_Inr:
  "apply_ops (xs @ [x]) e = Inr e' \<longleftrightarrow> (\<exists>e1. apply_ops xs e = Inr e1 \<and> apply_op x e1 = Inr e')"
  by (auto simp: apply_ops_append ebind_eq_Inr)

fun is_assessment :: "road_op \<Rightarrow> bool" where
  "is_assessment (AssessSeverity a) = True"
| "is_assessment _ = False"

lemma authorization_from_run:
  assumes "apply_ops xs e = Inr e'" and "re_closureAuthorization e = None"
    and "re_closureAuthorization e' \<noteq> None"
  shows "\<exists>pre now a mid e1. xs = pre @ AuthorizeClosure now a # mid \<and>
     list_all (\<lambda>x. \<not> is_assessment x) mid \<and> apply_ops pre e = Inr e1 \<and>
     re_status e1 \<in> {Recovery, TransferredToAuthority}"
  using assms
proof (induction xs arbitrary: e' rule: rev_induct)
  case Nil
  then show ?case by simp
next
  case (snoc x xs)
  then obtain e1 where e1: "apply_ops xs e = Inr e1" "apply_op x e1 = Inr e'"
    by (auto simp: apply_ops_snoc_Inr)
  show ?case
  proof (cases x)
    case (TransitionTo s)
    then have "re_closureAuthorization e1 \<noteq> None"
      using e1 snoc.prems by (auto simp: road_op_Inr)
    then obtain pre now a mid e2 where "xs = pre @ AuthorizeClosure now a # mid"
      "list_all (\<lambda>x. \<not> is_assessment x) mid" "apply_ops pre e = Inr e2"
      "re_status e2 \<in> {Recovery, TransferredToAuthority}"
      using snoc.IH e1 snoc.prems by blast
    then have "xs @ [x] = pre @ AuthorizeClosure now a # (mid @ [x]) \<and>
        list_all (\<lambda>x. \<not> is_assessment x) (mid @ [x]) \<and> apply_ops pre e = Inr e2 \<and>
        re_status e2 \<in> {Recovery, TransferredToAuthority}"
      using TransitionTo by simp
    then show ?thesis by blast
  next
    case (AssessSeverity a)
    then show ?thesis using e1 snoc.prems by (auto simp: road_op_Inr)
  next
    case (AuthorizeClosure now a)
    have "re_status e1 \<in> {Recovery, TransferredToAuthority}"
      using e1 AuthorizeClosure by (cases "re_status e1") (auto simp: road_op_Inr)
    then have "xs @ [x] = xs @ AuthorizeClosure now a # [] \<and>
        list_all (\<lambda>x. \<not> is_assessment x) [] \<and> apply_ops xs e = Inr e1 \<and>
        re_status e1 \<in> {Recovery, TransferredToAuthority}"
      using AuthorizeClosure e1 by simp
    then show ?thesis by blast
  qed
qed

definition sample_assessment :: "SeverityLevel \<Rightarrow> SeverityAssessment" where
  "sample_assessment l = \<lparr>sev_level = l, sev_score = Num 95, sev_reasonCodes = [''secondary_hazard''],
     sev_confidence = Num (9/10), sev_requiresHumanReview = True\<rparr>"

definition sample_authorization :: ClosureAuthorization where
  "sample_authorization = \<lparr>ca_actorId = ''operator-1'', ca_reason = ''scene verified safe'',
     ca_authorizedAt = Some 1000\<rparr>"

definition sample_event :: "RoadEventStatus \<Rightarrow> RoadEvent" where
  "sample_event s = \<lparr>re_id = ''evt-1'', re_reporterActorId = None, re_latitude = Num 24,
     re_longitude = Num 46, re_occurredAt = 500, re_status = s,
     re_severity = sample_assessment Critical, re_version = 3, re_closureAuthorization = None\<rparr>"

lemma valid_sample_assessment [simp]:
  "valid_severity (sample_assessment Critical)"
  by (simp add: valid_severity_iff sample_assessment_def severityLevels_def trim_def is_space_def
      code_unit_def isHighSeverity_def)

lemma wf_sample_authorization: "wf_authorization 1000 sample_authorization"
  by (simp add: wf_authorization_def sample_authorization_def wf_text_def trim_def is_space_def
      code_unit_def MAX_CLOCK_SKEW_MILLISECONDS_def)

text \<open>C1: an S3 or S4 event that a run of operations closes, starting without a closure
  authorization, was authorized during that run, in a status that may close, and its severity was
  not reassessed between the authorization and the closure.\<close>
theorem high_severity_closure_is_authorized:
  assumes "apply_ops (xs @ [TransitionTo Closed]) e = Inr e'"
    and "re_closureAuthorization e = None"
    and "isHighSeverity (sev_level (re_severity e'))"
  shows "\<exists>pre now a mid e1. xs = pre @ AuthorizeClosure now a # mid \<and>
     list_all (\<lambda>x. \<not> is_assessment x) mid \<and> apply_ops pre e = Inr e1 \<and>
     re_status e1 \<in> {Recovery, TransferredToAuthority}"
proof -
  obtain e1 where "apply_ops xs e = Inr e1" and "transitionTo Closed e1 = Inr e'"
    using assms(1) by (auto simp: apply_ops_snoc_Inr)
  moreover from this have "re_closureAuthorization e1 \<noteq> None"
    using assms(3) by (auto simp: transitionTo_Inr)
  ultimately show ?thesis using authorization_from_run assms(2) by blast
qed

theorem high_severity_closure_is_authorized_witness:
  "\<exists>e'. apply_ops ([AuthorizeClosure 1000 sample_authorization] @ [TransitionTo Closed])
      (sample_event Recovery) = Inr e' \<and> re_status e' = Closed \<and>
    (\<exists>pre now a mid. [AuthorizeClosure 1000 sample_authorization] = pre @ AuthorizeClosure now a # mid)"
proof -
  let ?e = "sample_event Recovery"
  let ?e' = "?e\<lparr>re_closureAuthorization := Some sample_authorization, re_status := Closed,
    re_version := 5\<rparr>"
  have run: "apply_ops ([AuthorizeClosure 1000 sample_authorization] @ [TransitionTo Closed]) ?e = Inr ?e'"
    by (simp add: authorizeClosure_def transitionTo_def sample_event_def num_succ_def max_safe_def
        wf_sample_authorization)
  have "re_closureAuthorization ?e = None" "isHighSeverity (sev_level (re_severity ?e'))"
    by (simp_all add: sample_event_def sample_assessment_def isHighSeverity_def)
  from high_severity_closure_is_authorized [OF run this] run show ?thesis by auto
qed

definition post_assessment :: "RoadEventStatus set" where
  "post_assessment = {SafetyAssessment, ResponseCoordination, RoadClearance, Recovery, Closed,
     TransferredToAuthority}"

lemma entering_post_assessment:
  "transitionTo n e = Inr e' \<Longrightarrow> n \<in> post_assessment \<Longrightarrow>
   re_status e \<in> post_assessment \<or> n = SafetyAssessment"
  by (cases "re_status e") (auto simp: transitionTo_Inr post_assessment_def)

text \<open>C3: human safety comes first. Whatever commands a newly detected event receives, it is in
  clearance, recovery, transfer or closure only if it was in SAFETY_ASSESSMENT before.\<close>
theorem safety_assessed_before_clearance:
  assumes "apply_ops xs e = Inr e'" and "re_status e = Detected"
    and "re_status e' \<in> post_assessment"
  shows "\<exists>pre post e1. xs = pre @ post \<and> apply_ops pre e = Inr e1 \<and> re_status e1 = SafetyAssessment"
  using assms(1,3)
proof (induction xs arbitrary: e' rule: rev_induct)
  case Nil
  then show ?case using assms(2) by (auto simp: post_assessment_def)
next
  case (snoc x xs)
  then obtain e1 where e1: "apply_ops xs e = Inr e1" "apply_op x e1 = Inr e'"
    by (auto simp: apply_ops_snoc_Inr)
  have "re_status e1 \<in> post_assessment \<or> re_status e' = SafetyAssessment"
  proof (cases x)
    case (TransitionTo n)
    then show ?thesis using e1 snoc.prems entering_post_assessment [of n e1 e']
      by (auto simp: transitionTo_Inr)
  qed (use e1 snoc.prems in \<open>auto simp: road_op_Inr\<close>)
  then show ?case
  proof
    assume "re_status e1 \<in> post_assessment"
    then obtain pre post e2 where "xs = pre @ post" "apply_ops pre e = Inr e2"
      "re_status e2 = SafetyAssessment" using snoc.IH e1(1) by blast
    then show ?thesis by auto
  next
    assume "re_status e' = SafetyAssessment"
    then show ?thesis using snoc.prems by (metis append_Nil2)
  qed
qed

theorem safety_assessed_before_clearance_witness:
  "\<exists>pre post e1. List.map TransitionTo [Validating, Confirmed, SafetyAssessment, ResponseCoordination] =
     pre @ post \<and> apply_ops pre (sample_event Detected) = Inr e1 \<and> re_status e1 = SafetyAssessment"
proof -
  have "apply_ops (List.map TransitionTo [Validating, Confirmed, SafetyAssessment, ResponseCoordination])
      (sample_event Detected) =
      Inr (sample_event Detected\<lparr>re_status := ResponseCoordination, re_version := 7\<rparr>)"
    by (simp add: transitionTo_def sample_event_def num_succ_def max_safe_def)
  from safety_assessed_before_clearance [OF this] show ?thesis
    by (simp add: sample_event_def post_assessment_def)
qed

text \<open>C9: every event a constructor call and a run of operations can produce is well formed: bounded
  trimmed identity, coordinates in range, a declared status, a valid severity assessment, a version
  from 1 to \<open>2^53\<close> and a closure authorization that is absent or valid.\<close>
theorem constructed_events_stay_well_formed:
  assumes "new_RoadEvent now p = Inr e" and "apply_ops xs e = Inr e'"
    and "now \<le> later" and "\<forall>x \<in> set xs. op_now later x \<le> later"
  shows "wf_event later e'"
  using assms by (blast intro: apply_ops_wf wf_event_mono new_RoadEvent_wf)

definition sample_props :: RoadEventProps where
  "sample_props = \<lparr>rp_id = '' evt-1 '', rp_reporterActorId = None, rp_occurredAt = Some 500,
     rp_latitude = Num (247136/10000), rp_longitude = Num (466753/10000), rp_status = Some Recovery,
     rp_severity = Some (sample_assessment Critical), rp_version = None, rp_closureAuthorization = None\<rparr>"

lemma new_sample:
  "new_RoadEvent 1000 sample_props = Inr \<lparr>re_id = ''evt-1'', re_reporterActorId = None,
     re_latitude = Num (247136/10000), re_longitude = Num (466753/10000), re_occurredAt = 500,
     re_status = Recovery, re_severity = sample_assessment Critical, re_version = 1,
     re_closureAuthorization = None\<rparr>"
  by (simp add: new_RoadEvent_def sample_props_def requireNonEmpty_def trim_def is_space_def
      code_unit_def optionalE_def checkedTime_def MAX_CLOCK_SKEW_MILLISECONDS_def roadEventStatuses_def
      max_safe_def freezeSeverityAssessment_Inr [THEN iffD2])

theorem constructed_events_stay_well_formed_witness:
  "\<exists>e e'. new_RoadEvent 1000 sample_props = Inr e \<and>
     apply_ops [AuthorizeClosure 1000 sample_authorization, TransitionTo Closed] e = Inr e' \<and>
     wf_event 1000 e'"
proof -
  obtain e where e: "new_RoadEvent 1000 sample_props = Inr e" "re_status e = Recovery"
    using new_sample by auto
  obtain e' where e': "apply_ops [AuthorizeClosure 1000 sample_authorization, TransitionTo Closed] e = Inr e'"
    using e by (simp add: authorizeClosure_def transitionTo_def wf_sample_authorization)
  from constructed_events_stay_well_formed [OF e(1) e', of 1000] e(1) e' show ?thesis by auto
qed

text \<open>the version counts the operations: as long as it stays a safe integer, a run of \<open>n\<close>
  successful operations adds exactly \<open>n\<close>, and an operation never changes identity, reporter,
  position or time of the event.\<close>
theorem version_counts_operations:
  assumes "apply_ops xs e = Inr e'" and "re_version e + int (length xs) \<le> max_safe + 1"
  shows "re_version e' = re_version e + int (length xs) \<and> re_id e' = re_id e \<and>
    re_reporterActorId e' = re_reporterActorId e \<and> re_latitude e' = re_latitude e \<and>
    re_longitude e' = re_longitude e \<and> re_occurredAt e' = re_occurredAt e"
  using assms
proof (induction xs arbitrary: e)
  case Nil
  then show ?case by simp
next
  case (Cons x xs)
  then obtain e1 where e1: "apply_op x e = Inr e1" "apply_ops xs e1 = Inr e'"
    by (auto simp: ebind_eq_Inr)
  have "re_version e1 = re_version e + 1 \<and> re_id e1 = re_id e \<and>
      re_reporterActorId e1 = re_reporterActorId e \<and> re_latitude e1 = re_latitude e \<and>
      re_longitude e1 = re_longitude e \<and> re_occurredAt e1 = re_occurredAt e"
    using e1(1) Cons.prems(2) by (cases x) (auto simp: road_op_Inr num_succ_def)
  then show ?case using Cons.IH [OF e1(2)] Cons.prems(2) by simp
qed

theorem version_counts_operations_witness:
  "\<exists>e'. apply_ops (List.map TransitionTo [Validating, Confirmed]) (sample_event Detected) = Inr e' \<and>
     re_version e' = 5"
proof -
  have "apply_ops (List.map TransitionTo [Validating, Confirmed]) (sample_event Detected) =
      Inr (sample_event Detected\<lparr>re_status := Confirmed, re_version := 5\<rparr>)"
    by (simp add: transitionTo_def sample_event_def num_succ_def max_safe_def)
  from this version_counts_operations [OF this] show ?thesis
    by (simp add: sample_event_def max_safe_def)
qed

end
