(* ===== verification/RoadEventPorts.thy ===== *)
theory RoadEventPorts
  imports RoadEvent "HOL-Library.AList" "HOL-Library.Char_ord" "HOL-Library.List_Lexorder"
begin

text \<open>
  The ports of the road-event application (\<open>apps/api/src/application/ports.ts\<close>,
  \<open>road-event-repository.ts\<close>) and their in-memory adapters (\<open>local-adapters.ts\<close>): the role
  matrix, the idempotency store with its in-flight set, the signal attachments, and the event
  repository with its audit timeline. All adapters live in one state record \<open>mem\<close>; the
  insertion-ordered \<open>Map\<close> of events is an association list, the other maps are partial
  functions. Two locales state what the application relies on, \<open>idempotency_port\<close> and
  \<open>event_repository\<close>, and are interpreted on the memory adapters.
\<close>

section \<open>Actors, scopes, permissions\<close>

datatype RosRole = FIELD_USER | OPERATOR | SUPERVISOR | AUDITOR | INTEGRATION_SERVICE | OtherRole string

fun role_name :: "RosRole \<Rightarrow> string" where
  "role_name FIELD_USER = ''FIELD_USER''"
| "role_name OPERATOR = ''OPERATOR''"
| "role_name SUPERVISOR = ''SUPERVISOR''"
| "role_name AUDITOR = ''AUDITOR''"
| "role_name INTEGRATION_SERVICE = ''INTEGRATION_SERVICE''"
| "role_name (OtherRole s) = s"

datatype RoadEventPermission =
    P_create | P_read | P_list | P_attach_signal | P_reassess_severity | P_transition
  | P_authorize_closure | P_close | P_audit_read

record RoadEventAccessScope =
  sc_tenantId :: string
  sc_purpose :: string
  sc_reporterActorId :: "string option"

record AuthenticatedActor =
  ac_scope :: RoadEventAccessScope
  ac_actorId :: string
  ac_roles :: "RosRole list"

record RoadEventWriteContext =
  wc_scope :: RoadEventAccessScope
  wc_actorType :: string
  wc_actorId :: "string option"
  wc_action :: string
  wc_reason :: "string option"
  wc_traceId :: string
  wc_eventType :: string
  wc_correlationId :: string
  wc_occurredAt :: int

fun ROLE_PERMISSIONS :: "RosRole \<Rightarrow> RoadEventPermission list option" where
  "ROLE_PERMISSIONS FIELD_USER = Some [P_create, P_read, P_attach_signal]"
| "ROLE_PERMISSIONS OPERATOR = Some [P_create, P_read, P_list, P_attach_signal, P_reassess_severity,
     P_transition, P_close]"
| "ROLE_PERMISSIONS SUPERVISOR = Some [P_create, P_read, P_list, P_attach_signal, P_reassess_severity,
     P_transition, P_authorize_closure, P_close, P_audit_read]"
| "ROLE_PERMISSIONS AUDITOR = Some [P_read, P_list, P_audit_read]"
| "ROLE_PERMISSIONS INTEGRATION_SERVICE = Some [P_create, P_read, P_attach_signal]"
| "ROLE_PERMISSIONS (OtherRole s) = None"

definition role_allows :: "RoadEventPermission \<Rightarrow> RosRole \<Rightarrow> bool" where
  "role_allows p r = (case ROLE_PERMISSIONS r of None \<Rightarrow> False | Some ps \<Rightarrow> p \<in> set ps)"

definition assertAllowed :: "AuthenticatedActor \<Rightarrow> RoadEventPermission \<Rightarrow> road_error + unit" where
  "assertAllowed actor p = ensure (list_ex (role_allows p) (ac_roles actor)) AuthorizationDeniedError"

definition sameScope :: "RoadEventAccessScope \<Rightarrow> RoadEventAccessScope \<Rightarrow> bool" where
  "sameScope left right \<longleftrightarrow> sc_tenantId left = sc_tenantId right \<and> sc_purpose left = sc_purpose right \<and>
     (sc_reporterActorId right = None \<or> sc_reporterActorId left = sc_reporterActorId right)"

section \<open>Read models and audit entries\<close>

record RoadEventReadModel =
  rm_id :: string
  rm_status :: RoadEventStatus
  rm_severity :: SeverityAssessment
  rm_latitude :: js_num
  rm_longitude :: js_num
  rm_occurredAt :: string
  rm_version :: int
  rm_closureAuthorization :: "(string \<times> string \<times> string) option"

definition toRoadEventReadModel :: "int \<Rightarrow> RoadEvent \<Rightarrow> road_error + RoadEventReadModel" where
  "toRoadEventReadModel now e = ebind (closureAuthorization now e) (\<lambda>authorization.
     ebind (optionalE (\<lambda>a. case ca_authorizedAt a of None \<Rightarrow> Inl RangeError
         | Some t \<Rightarrow> Inr (ca_actorId a, ca_reason a, isoString t)) authorization) (\<lambda>shown.
     Inr \<lparr>rm_id = re_id e, rm_status = re_status e, rm_severity = re_severity e,
       rm_latitude = re_latitude e, rm_longitude = re_longitude e,
       rm_occurredAt = isoString (re_occurredAt e), rm_version = re_version e,
       rm_closureAuthorization = shown\<rparr>))"

record EventSnapshot =
  sn_id :: string
  sn_status :: RoadEventStatus
  sn_severity :: SeverityLevel
  sn_version :: int
  sn_occurredAt :: string

definition eventSnapshot :: "RoadEvent \<Rightarrow> EventSnapshot" where
  "eventSnapshot e = \<lparr>sn_id = re_id e, sn_status = re_status e, sn_severity = sev_level (re_severity e),
     sn_version = re_version e, sn_occurredAt = isoString (re_occurredAt e)\<rparr>"

record AuditTimelineEntry =
  au_action :: string
  au_actorType :: string
  au_actorId :: "string option"
  au_beforeState :: "EventSnapshot option"
  au_afterState :: "EventSnapshot option"
  au_reason :: "string option"
  au_traceId :: string
  au_occurredAt :: string

record SignalAttachmentInput =
  sa_roadEventId :: string
  sa_signalId :: string
  sa_matchScore :: js_num
  sa_mergeReasons :: "string list"
  sa_actor :: AuthenticatedActor
  sa_traceId :: string

text \<open>The two kinds of values the application stores against an idempotency key.\<close>
datatype app_value = EventView RoadEventReadModel | SignalAttached

section \<open>The memory adapters\<close>

record mem =
  m_records :: "string \<rightharpoonup> (string \<times> app_value)"
  m_inFlight :: "string set"
  m_events :: "(string \<times> RoadEvent) list"
  m_scopes :: "string \<rightharpoonup> RoadEventAccessScope"
  m_audit :: "string \<rightharpoonup> AuditTimelineEntry list"
  m_attachments :: "SignalAttachmentInput list"
  m_attachKeys :: "string set"

definition empty_mem :: mem where
  "empty_mem = \<lparr>m_records = Map.empty, m_inFlight = {}, m_events = [], m_scopes = Map.empty,
     m_audit = Map.empty, m_attachments = [], m_attachKeys = {}\<rparr>"

type_synonym 'a mem_action = "(mem, road_error, 'a) action"

definition composite :: "string \<Rightarrow> string \<Rightarrow> string" where
  "composite scope key = scope @ '':'' @ key"

definition executeExclusively :: "string \<Rightarrow> string \<Rightarrow> 'a mem_action \<Rightarrow> 'a mem_action" where
  "executeExclusively scope key operation s = (let c = composite scope key in
     if c \<in> m_inFlight s then (Inl IdempotencyInFlightError, s)
     else (case operation (s\<lparr>m_inFlight := insert c (m_inFlight s)\<rparr>) of
       (r, s') \<Rightarrow> (r, s'\<lparr>m_inFlight := m_inFlight s' - {c}\<rparr>)))"

definition idem_get :: "string \<Rightarrow> string \<Rightarrow> (string \<times> app_value) option mem_action" where
  "idem_get scope key s = (Inr (m_records s (composite scope key)), s)"

definition idem_put :: "string \<Rightarrow> string \<Rightarrow> string \<times> app_value \<Rightarrow> unit mem_action" where
  "idem_put scope key r s = (let c = composite scope key in
     (Inr (), if m_records s c = None then s\<lparr>m_records := (m_records s)(c \<mapsto> r)\<rparr> else s))"

definition event_of :: "mem \<Rightarrow> string \<Rightarrow> RoadEvent option" where
  "event_of s = map_of (m_events s)"

definition props_of :: "RoadEvent \<Rightarrow> ClosureAuthorization option \<Rightarrow> RoadEventProps" where
  "props_of e authorization = \<lparr>rp_id = re_id e, rp_reporterActorId = re_reporterActorId e,
     rp_occurredAt = Some (re_occurredAt e), rp_latitude = re_latitude e, rp_longitude = re_longitude e,
     rp_status = Some (re_status e), rp_severity = Some (re_severity e),
     rp_version = Some (Num (of_int (re_version e))), rp_closureAuthorization = authorization\<rparr>"

definition cloneEvent :: "int \<Rightarrow> RoadEvent \<Rightarrow> road_error + RoadEvent" where
  "cloneEvent now e = ebind (closureAuthorization now e) (\<lambda>authorization.
     new_RoadEvent now (props_of e authorization))"

definition audit_entry ::
  "RoadEventWriteContext \<Rightarrow> EventSnapshot option \<Rightarrow> EventSnapshot option \<Rightarrow> AuditTimelineEntry" where
  "audit_entry ctx before after = \<lparr>au_action = wc_action ctx, au_actorType = wc_actorType ctx,
     au_actorId = wc_actorId ctx, au_beforeState = before, au_afterState = after,
     au_reason = wc_reason ctx, au_traceId = wc_traceId ctx,
     au_occurredAt = isoString (wc_occurredAt ctx)\<rparr>"

definition audit_of :: "mem \<Rightarrow> string \<Rightarrow> AuditTimelineEntry list" where
  "audit_of s i = (case m_audit s i of None \<Rightarrow> [] | Some xs \<Rightarrow> xs)"

definition appendAudit :: "string \<Rightarrow> AuditTimelineEntry \<Rightarrow> mem \<Rightarrow> mem" where
  "appendAudit i entry s = s\<lparr>m_audit := (m_audit s)(i \<mapsto> audit_of s i @ [entry])\<rparr>"

text \<open>\<open>MemoryRoadEventRepository.create\<close>: the reporter of the event has to be the trusted
  reporter of the write context, who has to be the writing actor.\<close>
definition repo_create :: "int \<Rightarrow> RoadEvent \<Rightarrow> RoadEventWriteContext \<Rightarrow> unit mem_action" where
  "repo_create now e ctx s =
     (if event_of s (re_id e) \<noteq> None then (Inl RoadEventAlreadyExistsError, s)
      else let trusted = sc_reporterActorId (wc_scope ctx) in
        if trusted \<noteq> None \<and> wc_actorId ctx \<noteq> trusted then (Inl TypeError, s)
        else if re_reporterActorId e \<noteq> trusted then (Inl TypeError, s)
        else (case cloneEvent now e of
          Inl err \<Rightarrow> (Inl err, s)
        | Inr copy \<Rightarrow> (Inr (), appendAudit (re_id e) (audit_entry ctx None (Some (eventSnapshot e)))
            (s\<lparr>m_events := AList.update (re_id e) copy (m_events s),
               m_scopes := (m_scopes s)(re_id e \<mapsto>
                 \<lparr>sc_tenantId = sc_tenantId (wc_scope ctx), sc_purpose = sc_purpose (wc_scope ctx),
                   sc_reporterActorId = re_reporterActorId e\<rparr>)\<rparr>))))"

definition repo_update :: "int \<Rightarrow> RoadEvent \<Rightarrow> int \<Rightarrow> RoadEventWriteContext \<Rightarrow> unit mem_action" where
  "repo_update now e expectedVersion ctx s =
     (case (event_of s (re_id e), m_scopes s (re_id e)) of
       (Some current, Some scope) \<Rightarrow>
         if \<not> sameScope scope (wc_scope ctx) then (Inl RoadEventNotFoundError, s)
         else if re_version current \<noteq> expectedVersion then (Inl RoadEventConcurrencyError, s)
         else (case cloneEvent now e of
           Inl err \<Rightarrow> (Inl err, s)
         | Inr copy \<Rightarrow> (Inr (), appendAudit (re_id e)
             (audit_entry ctx (Some (eventSnapshot current)) (Some (eventSnapshot e)))
             (s\<lparr>m_events := AList.update (re_id e) copy (m_events s)\<rparr>)))
     | _ \<Rightarrow> (Inl RoadEventNotFoundError, s))"

definition repo_findById ::
  "int \<Rightarrow> string \<Rightarrow> RoadEventAccessScope \<Rightarrow> RoadEvent option mem_action" where
  "repo_findById now i scope s = (case (event_of s i, m_scopes s i) of
       (Some e, Some eventScope) \<Rightarrow>
         if sameScope eventScope scope then (map_sum id Some (cloneEvent now e), s) else (Inr None, s)
     | _ \<Rightarrow> (Inr None, s))"

text \<open>Limits and offsets are the safe integers the HTTP layer parses, negative ones included.\<close>
record RoadEventListQuery =
  lq_statuses :: "RoadEventStatus list option"
  lq_severities :: "SeverityLevel list option"
  lq_occurredFrom :: "time_value option"
  lq_occurredTo :: "time_value option"
  lq_limit :: int
  lq_offset :: int

definition query_matches :: "RoadEventListQuery \<Rightarrow> RoadEvent \<Rightarrow> bool" where
  "query_matches q e \<longleftrightarrow>
     (case lq_statuses q of None \<Rightarrow> True | Some xs \<Rightarrow> re_status e \<in> set xs) \<and>
     (case lq_severities q of None \<Rightarrow> True | Some xs \<Rightarrow> sev_level (re_severity e) \<in> set xs) \<and>
     (case lq_occurredFrom q of None \<Rightarrow> True
       | Some t \<Rightarrow> tv_lt t (Some (re_occurredAt e)) \<or> t = Some (re_occurredAt e)) \<and>
     (case lq_occurredTo q of None \<Rightarrow> True | Some t \<Rightarrow> tv_lt (Some (re_occurredAt e)) t)"

definition visible_events :: "mem \<Rightarrow> RoadEventAccessScope \<Rightarrow> RoadEvent list" where
  "visible_events s scope = List.map snd (List.filter (\<lambda>(i, e). case m_scopes s i of
       None \<Rightarrow> False | Some eventScope \<Rightarrow> sameScope eventScope scope) (m_events s))"

definition listed_events :: "RoadEventListQuery \<Rightarrow> RoadEventAccessScope \<Rightarrow> mem \<Rightarrow> RoadEvent list" where
  "listed_events q scope s =
     sort_key (\<lambda>e. - re_occurredAt e) (List.filter (query_matches q) (visible_events s scope))"

text \<open>The page and its total.\<close>
definition repo_list ::
  "int \<Rightarrow> RoadEventListQuery \<Rightarrow> RoadEventAccessScope \<Rightarrow> (RoadEvent list \<times> nat) mem_action" where
  "repo_list now q scope s = (let items = listed_events q scope s in
     (ebind (mapE (cloneEvent now) (js_slice (lq_offset q) (lq_offset q + lq_limit q) items))
       (\<lambda>page. Inr (page, length items)), s))"

definition repo_timeline ::
  "string \<Rightarrow> RoadEventAccessScope \<Rightarrow> AuditTimelineEntry list mem_action" where
  "repo_timeline i scope s = (case m_scopes s i of
       None \<Rightarrow> (Inr [], s)
     | Some eventScope \<Rightarrow> (Inr (if sameScope eventScope scope then audit_of s i else []), s))"

definition attach_key :: "SignalAttachmentInput \<Rightarrow> string" where
  "attach_key i = sc_tenantId (ac_scope (sa_actor i)) @ '':'' @ sc_purpose (ac_scope (sa_actor i)) @
     '':'' @ sa_roadEventId i @ '':'' @ sa_signalId i"

text \<open>\<open>MemorySignalAttachmentAdapter.attach\<close>, built over the repository.\<close>
definition signal_attach :: "int \<Rightarrow> SignalAttachmentInput \<Rightarrow> unit mem_action" where
  "signal_attach now i = abind (repo_findById now (sa_roadEventId i) (ac_scope (sa_actor i))) (\<lambda>found s.
     if found = None then (Inl RoadEventNotFoundError, s)
     else if attach_key i \<in> m_attachKeys s then (Inr (), s)
     else (Inr (), s\<lparr>m_attachKeys := insert (attach_key i) (m_attachKeys s),
       m_attachments := m_attachments s @ [i]\<rparr>))"

section \<open>Interfaces\<close>

text \<open>What the application relies on in its idempotency store: an exclusive section per key that
  refuses a second entry, a lookup that reads the records, and a put that keeps the first record.\<close>
locale idempotency_port =
  fixes exclusively :: "string \<Rightarrow> string \<Rightarrow> ('s, road_error, 'v) action \<Rightarrow> ('s, road_error, 'v) action"
    and get :: "string \<Rightarrow> string \<Rightarrow> ('s, road_error, (string \<times> 'v) option) action"
    and put :: "string \<Rightarrow> string \<Rightarrow> string \<times> 'v \<Rightarrow> ('s, road_error, unit) action"
    and lookup :: "'s \<Rightarrow> string \<Rightarrow> string \<Rightarrow> (string \<times> 'v) option"
    and busy :: "'s \<Rightarrow> string \<Rightarrow> string \<Rightarrow> bool"
    and enter :: "string \<Rightarrow> string \<Rightarrow> 's \<Rightarrow> 's"
    and leave :: "string \<Rightarrow> string \<Rightarrow> 's \<Rightarrow> 's"
    and record_first :: "string \<Rightarrow> string \<Rightarrow> string \<times> 'v \<Rightarrow> 's \<Rightarrow> 's"
  assumes get_reads: "get scope key s = (Inr (lookup s scope key), s)"
    and put_records: "put scope key r s = (Inr (), record_first scope key r s)"
    and lookup_record_first: "lookup (record_first scope key r s) scope key =
      (case lookup s scope key of None \<Rightarrow> Some r | Some r' \<Rightarrow> Some r')"
    and exclusive_busy: "busy s scope key \<Longrightarrow>
      exclusively scope key operation s = (Inl IdempotencyInFlightError, s)"
    and exclusive_free: "\<not> busy s scope key \<Longrightarrow>
      exclusively scope key operation s =
        (case operation (enter scope key s) of (r, t) \<Rightarrow> (r, leave scope key t))"
    and lookup_enter: "lookup (enter scope key s) scope key = lookup s scope key"
    and lookup_leave: "lookup (leave scope key s) scope key = lookup s scope key"
    and leave_enter: "\<not> busy s scope key \<Longrightarrow> leave scope key (enter scope key s) = s"
    and leave_free: "\<not> busy (leave scope key s) scope key"

definition mem_enter :: "string \<Rightarrow> string \<Rightarrow> mem \<Rightarrow> mem" where
  "mem_enter scope key s = s\<lparr>m_inFlight := insert (composite scope key) (m_inFlight s)\<rparr>"

definition mem_leave :: "string \<Rightarrow> string \<Rightarrow> mem \<Rightarrow> mem" where
  "mem_leave scope key s = s\<lparr>m_inFlight := m_inFlight s - {composite scope key}\<rparr>"

definition mem_record_first :: "string \<Rightarrow> string \<Rightarrow> string \<times> app_value \<Rightarrow> mem \<Rightarrow> mem" where
  "mem_record_first scope key r s = (if m_records s (composite scope key) = None
     then s\<lparr>m_records := (m_records s)(composite scope key \<mapsto> r)\<rparr> else s)"

definition mem_lookup :: "mem \<Rightarrow> string \<Rightarrow> string \<Rightarrow> (string \<times> app_value) option" where
  "mem_lookup s scope key = m_records s (composite scope key)"

definition mem_busy :: "mem \<Rightarrow> string \<Rightarrow> string \<Rightarrow> bool" where
  "mem_busy s scope key \<longleftrightarrow> composite scope key \<in> m_inFlight s"

interpretation idem: idempotency_port executeExclusively idem_get idem_put mem_lookup mem_busy
  mem_enter mem_leave mem_record_first
  by unfold_locales
    (auto simp: idem_get_def idem_put_def mem_lookup_def mem_busy_def mem_enter_def mem_leave_def
      mem_record_first_def executeExclusively_def Let_def split: option.splits prod.splits)

text \<open>What the application relies on in the event repository: a lookup shows the stored event to the
  callers of its scope and to nobody else; a write succeeds only on the stored version, within the
  scope, and then stores exactly the event given; a refused write changes nothing.\<close>
locale event_repository =
  fixes inv :: "'s \<Rightarrow> bool"
    and stored :: "'s \<Rightarrow> string \<Rightarrow> (RoadEventAccessScope \<times> RoadEvent) option"
    and findById :: "string \<Rightarrow> RoadEventAccessScope \<Rightarrow> ('s, road_error, RoadEvent option) action"
    and store :: "RoadEvent \<Rightarrow> int \<Rightarrow> RoadEventWriteContext \<Rightarrow> ('s, road_error, unit) action"
    and commit :: "RoadEvent \<Rightarrow> RoadEvent \<Rightarrow> RoadEventWriteContext \<Rightarrow> 's \<Rightarrow> 's"
    and now :: int
  assumes stored_ok: "inv s \<Longrightarrow> stored s i = Some (sc, e) \<Longrightarrow> wf_event now e \<and> re_id e = i"
    and find_pure: "findById i sc s = (out, t) \<Longrightarrow> t = s"
    and find_Inr: "inv s \<Longrightarrow> findById i sc s = (Inr r, t) \<Longrightarrow>
      r = (case stored s i of None \<Rightarrow> None
        | Some (sc', e) \<Rightarrow> if sameScope sc' sc then Some e else None)"
    and store_refused: "store e v ctx s = (Inl err, t) \<Longrightarrow> t = s"
    and store_Inr: "inv s \<Longrightarrow> wf_event now e \<Longrightarrow> store e v ctx s = (Inr u, t) \<Longrightarrow>
      \<exists>sc e0. stored s (re_id e) = Some (sc, e0) \<and> sameScope sc (wc_scope ctx) \<and>
        re_version e0 = v \<and> t = commit e0 e ctx s"

section \<open>The repository invariant\<close>

lemma closureAuthorization_wf [simp]:
  "wf_event now e \<Longrightarrow> closureAuthorization now e = Inr (re_closureAuthorization e)"
  by (auto simp: closureAuthorization_def optionalE_def wf_event_def split: option.splits)

lemma int_of_num_of_int [simp]: "int_of_num (Num (of_int n)) = n"
  by simp

lemma cloneEvent_wf:
  assumes "wf_event now e"
  shows "cloneEvent now e =
    (if re_version e \<le> max_safe then Inr e else Inl InvalidRoadEventError)"
proof -
  have v: "isSafeInteger (Num (of_int (re_version e))) \<longleftrightarrow> re_version e \<le> max_safe"
    "\<not> num_lt (Num (of_int (re_version e))) (Num 1)"
    using assms by (auto simp: wf_event_def isSafeInteger_iff)
  have a: "optionalE (copyAuthorization now) (re_closureAuthorization e) = Inr (re_closureAuthorization e)"
    using closureAuthorization_wf [OF assms] by (simp add: closureAuthorization_def)
  have r: "optionalE (\<lambda>r. requireNonEmpty r 128) (re_reporterActorId e) = Inr (re_reporterActorId e)"
    using assms by (auto simp: optionalE_def wf_event_def split: option.splits)
  have s: "freezeSeverityAssessment (re_severity e) = Inr (re_severity e)"
    using assms by (simp add: freezeSeverityAssessment_Inr wf_event_def)
  have t: "checkedTime now (Some (re_occurredAt e)) = Inr (re_occurredAt e)"
    using assms by (simp add: checkedTime_Inr wf_event_def)
  show ?thesis
    using assms v a r s t
    by (auto simp del: isSafeInteger.simps num_lt.simps int_of_num.simps
        simp: cloneEvent_def new_RoadEvent_def props_of_def wf_event_def)
qed

lemma toRoadEventReadModel_wf: "wf_event now e \<Longrightarrow> \<exists>m. toRoadEventReadModel now e = Inr m"
  by (auto simp: toRoadEventReadModel_def optionalE_def wf_event_def wf_authorization_def
      split: option.splits)

definition supervisor_backed :: "AuditTimelineEntry list \<Rightarrow> ClosureAuthorization \<Rightarrow> bool" where
  "supervisor_backed xs a \<longleftrightarrow> (\<exists>x \<in> set xs. au_action x = ''road_event.closure_authorized'' \<and>
     au_actorType x = ''SUPERVISOR'' \<and> au_actorId x = Some (ca_actorId a))"

definition event_inv ::
  "int \<Rightarrow> string \<Rightarrow> RoadEventAccessScope option \<Rightarrow> AuditTimelineEntry list \<Rightarrow> RoadEvent \<Rightarrow> bool" where
  "event_inv now i sc audit e \<longleftrightarrow> wf_event now e \<and> re_id e = i \<and>
     (\<exists>scope. sc = Some scope \<and> sc_reporterActorId scope = re_reporterActorId e) \<and>
     re_version e \<le> max_safe \<and> int (length audit) = re_version e \<and>
     (\<forall>a. re_closureAuthorization e = Some a \<longrightarrow> supervisor_backed audit a)"

definition mem_inv :: "int \<Rightarrow> mem \<Rightarrow> bool" where
  "mem_inv now s \<longleftrightarrow> distinct (List.map fst (m_events s)) \<and>
     (\<forall>i. case event_of s i of
         None \<Rightarrow> m_scopes s i = None \<and> m_audit s i = None
       | Some e \<Rightarrow> event_inv now i (m_scopes s i) (audit_of s i) e)"

definition mem_stored :: "mem \<Rightarrow> string \<Rightarrow> (RoadEventAccessScope \<times> RoadEvent) option" where
  "mem_stored s i = (case (event_of s i, m_scopes s i) of
     (Some e, Some sc) \<Rightarrow> Some (sc, e) | _ \<Rightarrow> None)"

definition mem_commit :: "RoadEvent \<Rightarrow> RoadEvent \<Rightarrow> RoadEventWriteContext \<Rightarrow> mem \<Rightarrow> mem" where
  "mem_commit e0 e ctx s = appendAudit (re_id e)
     (audit_entry ctx (Some (eventSnapshot e0)) (Some (eventSnapshot e)))
     (s\<lparr>m_events := AList.update (re_id e) e (m_events s)\<rparr>)"

lemma mem_invD: "mem_inv now s \<Longrightarrow> event_of s i = Some e \<Longrightarrow> event_inv now i (m_scopes s i) (audit_of s i) e"
  unfolding mem_inv_def by (metis option.simps(5))

lemma mem_inv_absent: "mem_inv now s \<Longrightarrow> event_of s i = None \<Longrightarrow> m_scopes s i = None \<and> m_audit s i = None"
  unfolding mem_inv_def by (metis option.simps(4))

lemma event_inv_mono: "event_inv now i sc xs e \<Longrightarrow> now \<le> now' \<Longrightarrow> event_inv now' i sc xs e"
  by (auto simp: event_inv_def wf_event_mono)

lemma mem_invI:
  assumes "distinct (List.map fst (m_events s))"
    and "\<And>i e. event_of s i = Some e \<Longrightarrow> event_inv now i (m_scopes s i) (audit_of s i) e"
    and "\<And>i. event_of s i = None \<Longrightarrow> m_scopes s i = None \<and> m_audit s i = None"
  shows "mem_inv now s"
  unfolding mem_inv_def using assms by (auto simp: option.case_eq_if)

lemma mem_inv_distinct: "mem_inv now s \<Longrightarrow> distinct (List.map fst (m_events s))"
  by (simp add: mem_inv_def)

lemma mem_inv_mono: "mem_inv now s \<Longrightarrow> now \<le> now' \<Longrightarrow> mem_inv now' s"
  by (intro mem_invI) (auto intro: event_inv_mono dest: mem_invD mem_inv_absent mem_inv_distinct)

lemma mem_stored_Some:
  "mem_stored s i = Some (sc, e) \<longleftrightarrow> event_of s i = Some e \<and> m_scopes s i = Some sc"
  by (auto simp: mem_stored_def split: option.splits)

lemma clone_stored: "mem_inv now s \<Longrightarrow> event_of s i = Some e \<Longrightarrow> cloneEvent now e = Inr e"
  using mem_invD [of now s i e] by (simp add: event_inv_def cloneEvent_wf)

lemma repo_findById_pure: "repo_findById now i sc s = (r, t) \<Longrightarrow> t = s"
  by (auto simp: repo_findById_def split: option.splits if_splits)

lemma repo_findById_Inr:
  "mem_inv now s \<Longrightarrow> repo_findById now i sc s = (Inr (case mem_stored s i of None \<Rightarrow> None
     | Some (sc', e) \<Rightarrow> if sameScope sc' sc then Some e else None), s)"
  by (auto simp: repo_findById_def mem_stored_def clone_stored split: option.splits)

lemma repo_update_refused: "repo_update now e v ctx s = (Inl err, t) \<Longrightarrow> t = s"
  by (auto simp: repo_update_def split: option.splits if_splits sum.splits)

lemma repo_update_Inr:
  "wf_event now e \<Longrightarrow> repo_update now e v ctx s = (Inr u, t) \<longleftrightarrow>
     (\<exists>sc e0. mem_stored s (re_id e) = Some (sc, e0) \<and> sameScope sc (wc_scope ctx) \<and>
        re_version e0 = v \<and> re_version e \<le> max_safe \<and> t = mem_commit e0 e ctx s)"
  by (auto simp: repo_update_def mem_stored_def mem_commit_def cloneEvent_wf
      split: option.splits if_splits sum.splits)

lemma mem_inv_wf: "mem_inv now s \<Longrightarrow> mem_stored s i = Some (sc, e) \<Longrightarrow> wf_event now e \<and> re_id e = i"
  using mem_invD [of now s i e] by (auto simp: mem_stored_Some event_inv_def)

interpretation repo: event_repository "mem_inv now" mem_stored "repo_findById now" "repo_update now"
  mem_commit now for now
proof
  fix e v ctx s u t
  assume "wf_event now e" and "repo_update now e v ctx s = (Inr u, t)"
  then show "\<exists>sc e0. mem_stored s (re_id e) = Some (sc, e0) \<and> sameScope sc (wc_scope ctx) \<and>
      re_version e0 = v \<and> t = mem_commit e0 e ctx s"
    by (auto simp: repo_update_Inr)
qed (auto simp: mem_inv_wf repo_findById_Inr dest: repo_findById_pure repo_update_refused)

end
