(* ===== verification/RoadEventService.thy ===== *)
theory RoadEventService
  imports RoadEventPorts
begin

text \<open>
  \<open>RoadEventApplicationService\<close> (\<open>apps/api/src/application/road-event-application.ts\<close>): input
  validation, access scopes, idempotent execution and the eight operations. As the class gets its
  ports by its constructor, \<open>executeIdempotently\<close> and \<open>update_operation\<close> get the functions of the
  ports as arguments; the operations apply them to the memory adapters. \<open>hash\<close> is
  \<open>sha256(JSON.stringify(_))\<close>, \<open>now\<close> the reading of the clock.
\<close>

section \<open>Input validation\<close>

text \<open>\<open>UUID_PATTERN\<close>: 8-4-4-4-12 hexadecimal digits, version digit 1 to 5, variant digit 8, 9,
  a or b, in either case.\<close>
definition UUID_PATTERN :: "string \<Rightarrow> bool" where
  "UUID_PATTERN s \<longleftrightarrow> length s = 36 \<and>
     list_all (\<lambda>i. if i \<in> set [8, 13, 18, 23] then s ! i = CHR ''-'' else is_hex (s ! i)) [0..<36] \<and>
     s ! 14 \<in> set ''12345'' \<and> s ! 19 \<in> set ''89abAB''"

definition requireUuid :: "string \<Rightarrow> road_error + string" where
  "requireUuid value = (if UUID_PATTERN value then Inr value else Inl ApplicationValidationError)"

definition requireText :: "string \<Rightarrow> nat \<Rightarrow> road_error + string" where
  "requireText value maximumLength = (let normalized = trim value in
     if length normalized = 0 \<or> maximumLength < length normalized
     then Inl ApplicationValidationError else Inr normalized)"

definition requireAccessScopeValue :: "string \<Rightarrow> road_error + string" where
  "requireAccessScopeValue value = (let normalized = trim value in
     if token_pattern 0 127 normalized then Inr normalized else Inl ApplicationValidationError)"

definition requireTraceId :: "string \<Rightarrow> road_error + string" where
  "requireTraceId value = requireText value 64"

definition requireIdempotencyKey :: "string \<Rightarrow> road_error + string" where
  "requireIdempotencyKey value =
     (if token_pattern 7 127 value then Inr value else Inl ApplicationValidationError)"

definition parseDate :: "string \<Rightarrow> road_error + int" where
  "parseDate value = (case dateParse value of None \<Rightarrow> Inl ApplicationValidationError | Some t \<Rightarrow> Inr t)"

definition validateExpectedVersion :: "js_num \<Rightarrow> road_error + int" where
  "validateExpectedVersion v = (if isSafeInteger v \<and> \<not> num_lt v (Num 1)
     then Inr (int_of_num v) else Inl ApplicationValidationError)"

section \<open>Scopes and roles of the caller\<close>

definition accessScope :: "AuthenticatedActor \<Rightarrow> road_error + RoadEventAccessScope" where
  "accessScope actor =
     ebind (requireAccessScopeValue (sc_tenantId (ac_scope actor))) (\<lambda>tenantId.
     ebind (requireAccessScopeValue (sc_purpose (ac_scope actor))) (\<lambda>purpose.
     if FIELD_USER \<in> set (ac_roles actor) \<and>
        \<not> list_ex (\<lambda>r. r \<in> {OPERATOR, SUPERVISOR, INTEGRATION_SERVICE}) (ac_roles actor)
     then ebind (requireUuid (ac_actorId actor)) (\<lambda>reporter.
       Inr \<lparr>sc_tenantId = tenantId, sc_purpose = purpose, sc_reporterActorId = Some reporter\<rparr>)
     else Inr \<lparr>sc_tenantId = tenantId, sc_purpose = purpose, sc_reporterActorId = None\<rparr>))"

definition primaryRole :: "AuthenticatedActor \<Rightarrow> road_error + string" where
  "primaryRole actor = ebind (requireUuid (ac_actorId actor)) (\<lambda>_.
     case List.find (\<lambda>r. r \<in> set (ac_roles actor))
         [SUPERVISOR, OPERATOR, INTEGRATION_SERVICE, FIELD_USER, AUDITOR] of
       None \<Rightarrow> Inl ApplicationValidationError
     | Some r \<Rightarrow> Inr (role_name r))"

definition IDEMPOTENCY_SCOPE_DOMAIN :: string where
  "IDEMPOTENCY_SCOPE_DOMAIN = ''ros-road-event-idempotency/v1''"

definition deriveRoadEventIdempotencyScope ::
  "(json \<Rightarrow> string) \<Rightarrow> string \<Rightarrow> AuthenticatedActor \<Rightarrow> string" where
  "deriveRoadEventIdempotencyScope hash operation actor = ''road-event:'' @ hash (JObj
     [(''domain'', JStr IDEMPOTENCY_SCOPE_DOMAIN), (''operation'', JStr operation),
      (''tenantId'', JStr (sc_tenantId (ac_scope actor))),
      (''purpose'', JStr (sc_purpose (ac_scope actor))), (''actorId'', JStr (ac_actorId actor)),
      (''roles'', JArr (List.map JStr (sort (remdups (List.map role_name (ac_roles actor))))))])"

section \<open>Idempotent execution\<close>

definition executeIdempotently ::
  "(string \<Rightarrow> string \<Rightarrow> ('s, road_error, 'v) action \<Rightarrow> ('s, road_error, 'v) action) \<Rightarrow>
   (string \<Rightarrow> string \<Rightarrow> ('s, road_error, (string \<times> 'v) option) action) \<Rightarrow>
   (string \<Rightarrow> string \<Rightarrow> string \<times> 'v \<Rightarrow> ('s, road_error, unit) action) \<Rightarrow>
   (json \<Rightarrow> string) \<Rightarrow> string \<Rightarrow> string \<Rightarrow> json \<Rightarrow>
   ('s, road_error, 'v) action \<Rightarrow> ('s, road_error, 'v) action" where
  "executeIdempotently exclusively get put hash scope rawKey input operation =
     abind (alift (requireIdempotencyKey rawKey)) (\<lambda>key.
     let requestFingerprint = hash input in
     acatch
       (exclusively scope key (abind (get scope key) (\<lambda>existing. case existing of
           Some record \<Rightarrow>
             if fst record \<noteq> requestFingerprint then athrow IdempotencyConflictError
             else aret (snd record)
         | None \<Rightarrow>
             acatch (abind operation (\<lambda>value.
                 abind (put scope key (requestFingerprint, value)) (\<lambda>_. aret value)))
               (\<lambda>e. if e = RoadEventConcurrencyError then athrow ApplicationConflictError
                 else athrow e))))
       (\<lambda>e. if e = IdempotencyInFlightError then athrow ApplicationConflictError else athrow e))"

abbreviation idempotently ::
  "(json \<Rightarrow> string) \<Rightarrow> string \<Rightarrow> string \<Rightarrow> json \<Rightarrow> app_value mem_action \<Rightarrow> app_value mem_action" where
  "idempotently \<equiv> executeIdempotently executeExclusively idem_get idem_put"

section \<open>Commands\<close>

record CommandContext =
  cc_actor :: AuthenticatedActor
  cc_traceId :: string
  cc_idempotencyKey :: string

record CreateRoadEventCommand =
  cr_id :: string
  cr_occurredAt :: string
  cr_latitude :: js_num
  cr_longitude :: js_num
  cr_severity :: "SeverityAssessment option"

record ReassessSeverityCommand =
  rs_roadEventId :: string
  rs_expectedVersion :: js_num
  rs_assessment :: SeverityAssessment
  rs_reason :: string

record TransitionRoadEventCommand =
  tr_roadEventId :: string
  tr_expectedVersion :: js_num
  tr_nextStatus :: RoadEventStatus
  tr_reason :: string

record AuthorizeClosureCommand =
  az_roadEventId :: string
  az_expectedVersion :: js_num
  az_reason :: string
  az_authorizedAt :: string

record AttachSignalCommand =
  at_roadEventId :: string
  at_signalId :: string
  at_matchScore :: js_num
  at_mergeReasons :: "string list"

fun level_string :: "SeverityLevel \<Rightarrow> string" where
  "level_string Informational = ''S0''"
| "level_string Low = ''S1''"
| "level_string Moderate = ''S2''"
| "level_string High = ''S3''"
| "level_string Critical = ''S4''"
| "level_string (OtherLevel s) = s"

fun status_string :: "RoadEventStatus \<Rightarrow> string" where
  "status_string Detected = ''DETECTED''"
| "status_string Validating = ''VALIDATING''"
| "status_string Confirmed = ''CONFIRMED''"
| "status_string SafetyAssessment = ''SAFETY_ASSESSMENT''"
| "status_string ResponseCoordination = ''RESPONSE_COORDINATION''"
| "status_string RoadClearance = ''ROAD_CLEARANCE''"
| "status_string Recovery = ''RECOVERY''"
| "status_string Closed = ''CLOSED''"
| "status_string FalsePositive = ''FALSE_POSITIVE''"
| "status_string Duplicate = ''DUPLICATE''"
| "status_string UnderReview = ''UNDER_REVIEW''"
| "status_string TransferredToAuthority = ''TRANSFERRED_TO_AUTHORITY''"
| "status_string (OtherStatus s) = s"

definition assessment_json :: "SeverityAssessment \<Rightarrow> json" where
  "assessment_json a = JObj [(''level'', JStr (level_string (sev_level a))), (''score'', JNum (sev_score a)),
     (''reasonCodes'', JArr (List.map JStr (sev_reasonCodes a))),
     (''confidence'', JNum (sev_confidence a)),
     (''requiresHumanReview'', JBool (sev_requiresHumanReview a))]"

definition create_json :: "CreateRoadEventCommand \<Rightarrow> json" where
  "create_json c = JObj ([(''id'', JStr (cr_id c)), (''occurredAt'', JStr (cr_occurredAt c)),
     (''latitude'', JNum (cr_latitude c)), (''longitude'', JNum (cr_longitude c))] @
     json_opt ''severity'' assessment_json (cr_severity c))"

definition reassess_json :: "ReassessSeverityCommand \<Rightarrow> json" where
  "reassess_json c = JObj [(''roadEventId'', JStr (rs_roadEventId c)),
     (''expectedVersion'', JNum (rs_expectedVersion c)),
     (''assessment'', assessment_json (rs_assessment c)), (''reason'', JStr (rs_reason c))]"

definition transition_json :: "TransitionRoadEventCommand \<Rightarrow> json" where
  "transition_json c = JObj [(''roadEventId'', JStr (tr_roadEventId c)),
     (''expectedVersion'', JNum (tr_expectedVersion c)),
     (''nextStatus'', JStr (status_string (tr_nextStatus c))), (''reason'', JStr (tr_reason c))]"

definition authorize_json :: "AuthorizeClosureCommand \<Rightarrow> json" where
  "authorize_json c = JObj [(''roadEventId'', JStr (az_roadEventId c)),
     (''expectedVersion'', JNum (az_expectedVersion c)), (''reason'', JStr (az_reason c)),
     (''authorizedAt'', JStr (az_authorizedAt c))]"

definition attach_json :: "AttachSignalCommand \<Rightarrow> json" where
  "attach_json c = JObj [(''roadEventId'', JStr (at_roadEventId c)), (''signalId'', JStr (at_signalId c)),
     (''matchScore'', JNum (at_matchScore c)), (''mergeReasons'', JArr (List.map JStr (at_mergeReasons c)))]"

definition write_context ::
  "int \<Rightarrow> RoadEventAccessScope \<Rightarrow> CommandContext \<Rightarrow> string \<Rightarrow> string option \<Rightarrow> string \<Rightarrow> string \<Rightarrow>
   road_error + RoadEventWriteContext" where
  "write_context now scope ctx action reason eventType correlationId =
     ebind (primaryRole (cc_actor ctx)) (\<lambda>role.
     Inr \<lparr>wc_scope = scope, wc_actorType = role, wc_actorId = Some (ac_actorId (cc_actor ctx)),
       wc_action = action, wc_reason = reason, wc_traceId = cc_traceId ctx, wc_eventType = eventType,
       wc_correlationId = correlationId, wc_occurredAt = now\<rparr>)"

definition requireEvent ::
  "(string \<Rightarrow> RoadEventAccessScope \<Rightarrow> ('s, road_error, RoadEvent option) action) \<Rightarrow>
   string \<Rightarrow> RoadEventAccessScope \<Rightarrow> ('s, road_error, RoadEvent) action" where
  "requireEvent findById i scope = abind (findById i scope) (\<lambda>found. case found of
       None \<Rightarrow> athrow RoadEventNotFoundError | Some e \<Rightarrow> aret e)"

text \<open>The common body of the three commands that change an event: load, refuse a stale version,
  apply the domain operation, store, show.\<close>
definition update_operation ::
  "(string \<Rightarrow> RoadEventAccessScope \<Rightarrow> ('s, road_error, RoadEvent option) action) \<Rightarrow>
   (RoadEvent \<Rightarrow> int \<Rightarrow> RoadEventWriteContext \<Rightarrow> ('s, road_error, unit) action) \<Rightarrow>
   int \<Rightarrow> string \<Rightarrow> RoadEventAccessScope \<Rightarrow> int \<Rightarrow> road_op \<Rightarrow> road_error + RoadEventWriteContext \<Rightarrow>
   ('s, road_error, app_value) action" where
  "update_operation findById store now i scope expectedVersion change ctx =
     abind (requireEvent findById i scope) (\<lambda>event.
       if re_version event \<noteq> expectedVersion then athrow RoadEventConcurrencyError
       else abind (alift (apply_op change event)) (\<lambda>event'.
         abind (alift ctx) (\<lambda>ctx.
         abind (store event' expectedVersion ctx) (\<lambda>_.
         alift (map_sum id EventView (toRoadEventReadModel now event'))))))"

definition service_create ::
  "(json \<Rightarrow> string) \<Rightarrow> int \<Rightarrow> CreateRoadEventCommand \<Rightarrow> CommandContext \<Rightarrow> app_value mem_action" where
  "service_create hash now c ctx =
     abind (alift (assertAllowed (cc_actor ctx) P_create)) (\<lambda>_.
     abind (alift (accessScope (cc_actor ctx))) (\<lambda>scope.
     abind (alift (requireUuid (cr_id c))) (\<lambda>_.
     abind (alift (requireTraceId (cc_traceId ctx))) (\<lambda>_.
     abind (alift (parseDate (cr_occurredAt c))) (\<lambda>occurredAt.
     abind (alift (new_RoadEvent now \<lparr>rp_id = cr_id c, rp_reporterActorId = sc_reporterActorId scope,
         rp_occurredAt = Some occurredAt, rp_latitude = cr_latitude c, rp_longitude = cr_longitude c,
         rp_status = None, rp_severity = cr_severity c, rp_version = None,
         rp_closureAuthorization = None\<rparr>)) (\<lambda>event.
     idempotently hash (deriveRoadEventIdempotencyScope hash ''road_event:create'' (cc_actor ctx))
       (cc_idempotencyKey ctx) (create_json c)
       (abind (alift (write_context now scope ctx ''road_event.created'' None ''RoadEventCreated''
           (cr_id c))) (\<lambda>wctx.
        abind (repo_create now event wctx) (\<lambda>_.
        alift (map_sum id EventView (toRoadEventReadModel now event))))))))))) "

definition service_reassessSeverity ::
  "(json \<Rightarrow> string) \<Rightarrow> int \<Rightarrow> ReassessSeverityCommand \<Rightarrow> CommandContext \<Rightarrow> app_value mem_action" where
  "service_reassessSeverity hash now c ctx =
     abind (alift (assertAllowed (cc_actor ctx) P_reassess_severity)) (\<lambda>_.
     abind (alift (accessScope (cc_actor ctx))) (\<lambda>scope.
     abind (alift (requireUuid (rs_roadEventId c))) (\<lambda>_.
     abind (alift (validateExpectedVersion (rs_expectedVersion c))) (\<lambda>expectedVersion.
     abind (alift (requireText (rs_reason c) 500)) (\<lambda>reason.
     idempotently hash
       (deriveRoadEventIdempotencyScope hash ''road_event:reassess_severity'' (cc_actor ctx))
       (cc_idempotencyKey ctx) (reassess_json c)
       (update_operation (repo_findById now) (repo_update now) now (rs_roadEventId c) scope
         expectedVersion (AssessSeverity (rs_assessment c))
         (write_context now scope ctx ''road_event.severity_reassessed'' (Some reason)
           ''RoadEventSeverityReassessed'' (rs_roadEventId c))))))))"

definition service_transition ::
  "(json \<Rightarrow> string) \<Rightarrow> int \<Rightarrow> TransitionRoadEventCommand \<Rightarrow> CommandContext \<Rightarrow> app_value mem_action" where
  "service_transition hash now c ctx =
     abind (alift (assertAllowed (cc_actor ctx)
       (if tr_nextStatus c = Closed then P_close else P_transition))) (\<lambda>_.
     abind (alift (accessScope (cc_actor ctx))) (\<lambda>scope.
     abind (alift (requireUuid (tr_roadEventId c))) (\<lambda>_.
     abind (alift (validateExpectedVersion (tr_expectedVersion c))) (\<lambda>expectedVersion.
     abind (alift (requireText (tr_reason c) 500)) (\<lambda>reason.
     idempotently hash
       (deriveRoadEventIdempotencyScope hash ''road_event:transition'' (cc_actor ctx))
       (cc_idempotencyKey ctx) (transition_json c)
       (update_operation (repo_findById now) (repo_update now) now (tr_roadEventId c) scope
         expectedVersion (TransitionTo (tr_nextStatus c))
         (write_context now scope ctx
           (if tr_nextStatus c = Closed then ''road_event.closed'' else ''road_event.transitioned'')
           (Some reason)
           (if tr_nextStatus c = Closed then ''RoadEventClosed'' else ''RoadEventTransitioned'')
           (tr_roadEventId c))))))))"

definition service_authorizeClosure ::
  "(json \<Rightarrow> string) \<Rightarrow> int \<Rightarrow> AuthorizeClosureCommand \<Rightarrow> CommandContext \<Rightarrow> app_value mem_action" where
  "service_authorizeClosure hash now c ctx =
     abind (alift (assertAllowed (cc_actor ctx) P_authorize_closure)) (\<lambda>_.
     abind (alift (accessScope (cc_actor ctx))) (\<lambda>scope.
     abind (alift (requireUuid (az_roadEventId c))) (\<lambda>_.
     abind (alift (validateExpectedVersion (az_expectedVersion c))) (\<lambda>expectedVersion.
     abind (alift (requireText (az_reason c) 500)) (\<lambda>reason.
     abind (alift (parseDate (az_authorizedAt c))) (\<lambda>authorizedAt.
     idempotently hash
       (deriveRoadEventIdempotencyScope hash ''road_event:authorize_closure'' (cc_actor ctx))
       (cc_idempotencyKey ctx) (authorize_json c)
       (update_operation (repo_findById now) (repo_update now) now (az_roadEventId c) scope
         expectedVersion (AuthorizeClosure now \<lparr>ca_actorId = ac_actorId (cc_actor ctx),
           ca_reason = reason, ca_authorizedAt = Some authorizedAt\<rparr>)
         (write_context now scope ctx ''road_event.closure_authorized'' (Some reason)
           ''RoadEventClosureAuthorized'' (az_roadEventId c)))))))))"

text \<open>The event is looked up once before the idempotent part: reporter ownership is checked before
  a replay is answered.\<close>
definition service_attachSignal ::
  "(json \<Rightarrow> string) \<Rightarrow> int \<Rightarrow> AttachSignalCommand \<Rightarrow> CommandContext \<Rightarrow> app_value mem_action" where
  "service_attachSignal hash now c ctx =
     abind (alift (assertAllowed (cc_actor ctx) P_attach_signal)) (\<lambda>_.
     abind (alift (accessScope (cc_actor ctx))) (\<lambda>scope.
     abind (alift (requireUuid (at_roadEventId c))) (\<lambda>_.
     abind (alift (requireUuid (at_signalId c))) (\<lambda>_.
     abind (alift (ensure (num_between 0 1 (at_matchScore c)) ApplicationValidationError)) (\<lambda>_.
     abind (alift (ensure (\<not> (at_mergeReasons c = [] \<or>
         list_ex (\<lambda>r. length (trim r) = 0) (at_mergeReasons c))) ApplicationValidationError)) (\<lambda>_.
     abind (requireEvent (repo_findById now) (at_roadEventId c) scope) (\<lambda>_.
     idempotently hash
       (deriveRoadEventIdempotencyScope hash ''road_event:attach_signal'' (cc_actor ctx))
       (cc_idempotencyKey ctx) (attach_json c)
       (abind (signal_attach now \<lparr>sa_roadEventId = at_roadEventId c, sa_signalId = at_signalId c,
           sa_matchScore = at_matchScore c, sa_mergeReasons = at_mergeReasons c,
           sa_actor = cc_actor ctx, sa_traceId = cc_traceId ctx\<rparr>) (\<lambda>_.
        aret SignalAttached)))))))))"

definition service_getById ::
  "int \<Rightarrow> string \<Rightarrow> AuthenticatedActor \<Rightarrow> RoadEventReadModel mem_action" where
  "service_getById now i actor =
     abind (alift (assertAllowed actor P_read)) (\<lambda>_.
     abind (alift (accessScope actor)) (\<lambda>scope.
     abind (alift (requireUuid i)) (\<lambda>i.
     abind (requireEvent (repo_findById now) i scope) (\<lambda>event.
     alift (toRoadEventReadModel now event)))))"

definition service_list ::
  "int \<Rightarrow> RoadEventListQuery \<Rightarrow> AuthenticatedActor \<Rightarrow> (RoadEventReadModel list \<times> nat) mem_action" where
  "service_list now q actor =
     abind (alift (assertAllowed actor P_list)) (\<lambda>_.
     abind (alift (accessScope actor)) (\<lambda>scope.
     abind (repo_list now q scope) (\<lambda>(items, total).
     alift (ebind (mapE (toRoadEventReadModel now) items) (\<lambda>views. Inr (views, total))))))"

definition service_timeline ::
  "int \<Rightarrow> string \<Rightarrow> AuthenticatedActor \<Rightarrow> AuditTimelineEntry list mem_action" where
  "service_timeline now i actor =
     abind (alift (assertAllowed actor P_audit_read)) (\<lambda>_.
     abind (alift (accessScope actor)) (\<lambda>scope.
     abind (alift (requireUuid i)) (\<lambda>i'.
     abind (requireEvent (repo_findById now) i' scope) (\<lambda>_.
     repo_timeline i scope))))"

datatype app_command =
    CmdCreate CreateRoadEventCommand
  | CmdReassess ReassessSeverityCommand
  | CmdTransition TransitionRoadEventCommand
  | CmdAuthorize AuthorizeClosureCommand
  | CmdAttach AttachSignalCommand

fun execute_command ::
  "(json \<Rightarrow> string) \<Rightarrow> int \<Rightarrow> app_command \<Rightarrow> CommandContext \<Rightarrow> app_value mem_action" where
  "execute_command hash now (CmdCreate c) ctx = service_create hash now c ctx"
| "execute_command hash now (CmdReassess c) ctx = service_reassessSeverity hash now c ctx"
| "execute_command hash now (CmdTransition c) ctx = service_transition hash now c ctx"
| "execute_command hash now (CmdAuthorize c) ctx = service_authorizeClosure hash now c ctx"
| "execute_command hash now (CmdAttach c) ctx = service_attachSignal hash now c ctx"

text \<open>The operation name and the request a command is recorded under.\<close>
fun command_request :: "app_command \<Rightarrow> string \<times> json" where
  "command_request (CmdCreate c) = (''road_event:create'', create_json c)"
| "command_request (CmdReassess c) = (''road_event:reassess_severity'', reassess_json c)"
| "command_request (CmdTransition c) = (''road_event:transition'', transition_json c)"
| "command_request (CmdAuthorize c) = (''road_event:authorize_closure'', authorize_json c)"
| "command_request (CmdAttach c) = (''road_event:attach_signal'', attach_json c)"

section \<open>What idempotent execution guarantees\<close>

text \<open>Proved from the laws of the port alone. The operation under the key may do anything to the
  state but touch the records of its own key.\<close>

context idempotency_port
begin

definition frames :: "string \<Rightarrow> string \<Rightarrow> ('s, road_error, 'v) action \<Rightarrow> bool" where
  "frames scope key operation \<longleftrightarrow> (\<forall>s r t. operation s = (r, t) \<longrightarrow> lookup t scope key = lookup s scope key)"

lemma replay:
  assumes "token_pattern 7 127 key" and "\<not> busy s scope key"
    and "lookup s scope key = Some (hash input, v)"
  shows "executeIdempotently exclusively get put hash scope key input operation s = (Inr v, s)"
  using assms
  by (simp add: executeIdempotently_def Let_def requireIdempotencyKey_def acatch_def exclusive_free
      abind_def get_reads lookup_enter leave_enter)

lemma conflict:
  assumes "token_pattern 7 127 key" and "\<not> busy s scope key"
    and "lookup s scope key = Some (fp, v)" and "fp \<noteq> hash input"
  shows "executeIdempotently exclusively get put hash scope key input operation s =
    (Inl IdempotencyConflictError, s)"
  using assms
  by (simp add: executeIdempotently_def Let_def requireIdempotencyKey_def acatch_def exclusive_free
      abind_def get_reads lookup_enter leave_enter)

lemma busy_refused:
  assumes "token_pattern 7 127 key" and "busy s scope key"
  shows "executeIdempotently exclusively get put hash scope key input operation s =
    (Inl ApplicationConflictError, s)"
  using assms
  by (simp add: executeIdempotently_def Let_def requireIdempotencyKey_def acatch_def exclusive_busy)

lemma success_recorded:
  assumes "executeIdempotently exclusively get put hash scope key input operation s = (Inr v, t)"
    and "frames scope key operation"
  shows "token_pattern 7 127 key \<and> \<not> busy t scope key \<and> lookup t scope key = Some (hash input, v)"
proof -
  have key: "token_pattern 7 127 key" and free: "\<not> busy s scope key"
    using assms(1) busy_refused
    by (auto simp: executeIdempotently_def Let_def requireIdempotencyKey_def split: if_splits)
  have frame: "lookup u scope key = lookup (enter scope key s) scope key"
    if "operation (enter scope key s) = (r, u)" for r u
    using assms(2) that by (auto simp: frames_def)
  show ?thesis
    using assms(1) key free
    by (auto simp: executeIdempotently_def Let_def requireIdempotencyKey_def acatch_def exclusive_free
        abind_def get_reads put_records lookup_enter lookup_leave leave_enter leave_free
        lookup_record_first
        split: option.splits prod.splits sum.splits if_splits dest!: frame)
qed

text \<open>All the ways one call can go.\<close>
lemma call_cases:
  assumes "executeIdempotently exclusively get put hash scope key input operation s = (r, t)"
  obtains (unchanged) "t = s" "\<And>v. r = Inr v \<Longrightarrow> lookup s scope key = Some (hash input, v)"
  | (failed) e e' u where "\<not> busy s scope key" "operation (enter scope key s) = (Inl e, u)"
      "t = leave scope key u" "r = Inl e'"
  | (ran) v u where "\<not> busy s scope key" "operation (enter scope key s) = (Inr v, u)" "r = Inr v"
      "t = leave scope key (record_first scope key (hash input, v) u)"
  using assms
  by (cases "token_pattern 7 127 key"; cases "busy s scope key")
    (auto simp: executeIdempotently_def Let_def requireIdempotencyKey_def acatch_def exclusive_free
      exclusive_busy abind_def get_reads put_records lookup_enter leave_enter
      split: option.splits prod.splits sum.splits if_splits)

end

section \<open>What an update does\<close>

context event_repository
begin

lemma requireEvent_Inr:
  "inv s \<Longrightarrow> requireEvent findById i scope s = (Inr e, t) \<Longrightarrow>
   t = s \<and> (\<exists>sc. stored s i = Some (sc, e) \<and> sameScope sc scope)"
  by (auto simp: requireEvent_def abind_Inr split: option.splits prod.splits if_splits
      dest!: find_Inr dest: find_pure)

lemma requireEvent_Inl: "requireEvent findById i scope s = (Inl err, t) \<Longrightarrow> t = s"
  by (auto simp: requireEvent_def abind_Inl split: option.splits dest: find_pure)

lemma update_operation_Inr:
  assumes "inv s" and "op_now now change \<le> now"
    and "update_operation findById store now i scope v change ctx s = (Inr x, t)"
  shows "\<exists>sc e0 e c. stored s i = Some (sc, e0) \<and> sameScope sc scope \<and> re_version e0 = v \<and>
     apply_op change e0 = Inr e \<and> ctx = Inr c \<and> wf_event now e \<and> t = commit e0 e c s"
proof -
  obtain e0 e c s1 where *: "requireEvent findById i scope s = (Inr e0, s1)" "re_version e0 = v"
      "apply_op change e0 = Inr e" "ctx = Inr c" "store e v c s1 = (Inr (), t)"
    using assms(3) unfolding update_operation_def
    by (auto simp: abind_Inr split: if_splits)
  then obtain sc where st: "s1 = s" "stored s i = Some (sc, e0)" "sameScope sc scope"
    using requireEvent_Inr assms(1) by blast
  have wf0: "wf_event now e0" "re_id e0 = i" using stored_ok [OF assms(1) st(2)] by simp_all
  have wf: "wf_event now e" using apply_op_wf [OF *(3) wf0(1) assms(2)] .
  have "re_id e = i" using *(3) wf0(2) by (cases change) (auto simp: road_op_Inr)
  then have "t = commit e0 e c s"
    using store_Inr [OF assms(1) wf *(5) [unfolded st(1)]] st(2) by auto
  then show ?thesis using * st wf by blast
qed

lemma update_operation_Inl:
  assumes "inv s" and "op_now now change \<le> now"
    and "update_operation findById store now i scope v change ctx s = (Inl err, t)"
  shows "t = s"
proof -
  obtain rq s1 where rq: "requireEvent findById i scope s = (rq, s1)" by fastforce
  show ?thesis
  proof (cases rq)
    case (Inl e)
    then show ?thesis using assms(3) rq requireEvent_Inl by (auto simp: update_operation_def)
  next
    case (Inr e0)
    then obtain sc where s1: "s1 = s" and st: "stored s i = Some (sc, e0)"
      using requireEvent_Inr [OF assms(1)] rq by blast
    have "wf_event now e" if "apply_op change e0 = Inr e" for e
      using apply_op_wf [OF that] stored_ok [OF assms(1) st] assms(2) by blast
    then have shown: "\<exists>m. toRoadEventReadModel now e = Inr m" if "apply_op change e0 = Inr e" for e
      using that toRoadEventReadModel_wf by blast
    show ?thesis
      using assms(3) rq Inr s1 unfolding update_operation_def
      by (auto simp: abind_Inl split: if_splits dest: store_refused shown)
  qed
qed

end

end
