(* ===== verification/RoadEventEffects.thy ===== *)
theory RoadEventEffects
  imports RoadEventService
begin

text \<open>
  What one application command does to the store. \<open>mem_effect\<close> is the abstract specification: a
  command creates one event, applies one domain operation to one event of the caller's scope, or
  records one attachment; \<open>execute_command_cases\<close> shows that every command either leaves the
  store untouched or has exactly one such effect and records its answer under its key.
\<close>

section \<open>Frame lemmas\<close>

definition mem_created :: "RoadEvent \<Rightarrow> RoadEventWriteContext \<Rightarrow> mem \<Rightarrow> mem" where
  "mem_created e c s = appendAudit (re_id e) (audit_entry c None (Some (eventSnapshot e)))
     (s\<lparr>m_events := AList.update (re_id e) e (m_events s),
        m_scopes := (m_scopes s)(re_id e \<mapsto>
          \<lparr>sc_tenantId = sc_tenantId (wc_scope c), sc_purpose = sc_purpose (wc_scope c),
            sc_reporterActorId = re_reporterActorId e\<rparr>)\<rparr>)"

definition mem_attached :: "SignalAttachmentInput \<Rightarrow> mem \<Rightarrow> mem" where
  "mem_attached i s = (if attach_key i \<in> m_attachKeys s then s
     else s\<lparr>m_attachKeys := insert (attach_key i) (m_attachKeys s),
       m_attachments := m_attachments s @ [i]\<rparr>)"

lemmas mem_op_defs = mem_enter_def mem_leave_def mem_record_first_def mem_created_def mem_commit_def
  mem_attached_def appendAudit_def

lemma event_of_frames [simp]:
  "event_of (mem_enter sc k s) = event_of s" "event_of (mem_leave sc k s) = event_of s"
  "event_of (mem_record_first sc k r s) = event_of s" "event_of (mem_attached i s) = event_of s"
  by (simp_all add: event_of_def mem_op_defs)

lemma m_scopes_frames [simp]:
  "m_scopes (mem_enter sc k s) = m_scopes s" "m_scopes (mem_leave sc k s) = m_scopes s"
  "m_scopes (mem_record_first sc k r s) = m_scopes s" "m_scopes (mem_attached i s) = m_scopes s"
  "m_scopes (mem_commit e0 e c s) = m_scopes s"
  by (simp_all add: mem_op_defs)

lemma m_audit_frames [simp]:
  "m_audit (mem_enter sc k s) = m_audit s" "m_audit (mem_leave sc k s) = m_audit s"
  "m_audit (mem_record_first sc k r s) = m_audit s" "m_audit (mem_attached i s) = m_audit s"
  by (simp_all add: mem_op_defs)

lemma m_events_frames [simp]:
  "m_events (mem_enter sc k s) = m_events s" "m_events (mem_leave sc k s) = m_events s"
  "m_events (mem_record_first sc k r s) = m_events s" "m_events (mem_attached i s) = m_events s"
  by (simp_all add: mem_op_defs)

lemma audit_of_frames [simp]:
  "audit_of (mem_enter sc k s) = audit_of s" "audit_of (mem_leave sc k s) = audit_of s"
  "audit_of (mem_record_first sc k r s) = audit_of s" "audit_of (mem_attached i s) = audit_of s"
  by (simp_all add: audit_of_def fun_eq_iff)

lemma mem_stored_frames [simp]:
  "mem_stored (mem_enter sc k s) = mem_stored s" "mem_stored (mem_leave sc k s) = mem_stored s"
  "mem_stored (mem_record_first sc k r s) = mem_stored s" "mem_stored (mem_attached i s) = mem_stored s"
  by (simp_all add: mem_stored_def fun_eq_iff)

lemma mem_inv_frames [simp]:
  "mem_inv now (mem_enter sc k s) = mem_inv now s" "mem_inv now (mem_leave sc k s) = mem_inv now s"
  "mem_inv now (mem_record_first sc k r s) = mem_inv now s" "mem_inv now (mem_attached i s) = mem_inv now s"
  by (simp_all add: mem_inv_def cong: option.case_cong)

lemma event_of_commit [simp]:
  "event_of (mem_commit e0 e c s) = (event_of s)(re_id e \<mapsto> e)"
  "event_of (mem_created e c s) = (event_of s)(re_id e \<mapsto> e)"
  by (simp_all add: event_of_def mem_op_defs update_conv')

lemma audit_of_commit:
  "audit_of (mem_commit e0 e c s) i = (if i = re_id e
     then audit_of s i @ [audit_entry c (Some (eventSnapshot e0)) (Some (eventSnapshot e))] else audit_of s i)"
  "audit_of (mem_created e c s) i = (if i = re_id e
     then audit_of s i @ [audit_entry c None (Some (eventSnapshot e))] else audit_of s i)"
  by (simp_all add: mem_op_defs audit_of_def)

lemma m_audit_commit:
  "i \<noteq> re_id e \<Longrightarrow> m_audit (mem_commit e0 e c s) i = m_audit s i"
  "i \<noteq> re_id e \<Longrightarrow> m_audit (mem_created e c s) i = m_audit s i"
  by (simp_all add: mem_op_defs)

lemma m_scopes_created:
  "m_scopes (mem_created e c s) = (m_scopes s)(re_id e \<mapsto>
     \<lparr>sc_tenantId = sc_tenantId (wc_scope c), sc_purpose = sc_purpose (wc_scope c),
       sc_reporterActorId = re_reporterActorId e\<rparr>)"
  by (simp add: mem_op_defs)

lemma m_events_commit:
  "m_events (mem_commit e0 e c s) = AList.update (re_id e) e (m_events s)"
  "m_events (mem_created e c s) = AList.update (re_id e) e (m_events s)"
  by (simp_all add: mem_op_defs)

section \<open>Effects\<close>

text \<open>The authorizations an update stores are the ones it found, or are backed by the audit entry it
  writes.\<close>
definition backs :: "RoadEventWriteContext \<Rightarrow> RoadEvent \<Rightarrow> RoadEvent \<Rightarrow> bool" where
  "backs c e0 e \<longleftrightarrow> (\<forall>a. re_closureAuthorization e = Some a \<longrightarrow> re_closureAuthorization e0 = Some a \<or>
     supervisor_backed [audit_entry c (Some (eventSnapshot e0)) (Some (eventSnapshot e))] a)"

inductive mem_effect :: "int \<Rightarrow> RoadEventAccessScope \<Rightarrow> mem \<Rightarrow> mem \<Rightarrow> bool" for now scope where
  created: "event_of s (re_id e) = None \<Longrightarrow> wf_event now e \<Longrightarrow> re_version e = 1 \<Longrightarrow>
    re_closureAuthorization e = None \<Longrightarrow> re_reporterActorId e = sc_reporterActorId scope \<Longrightarrow>
    wc_scope c = scope \<Longrightarrow> mem_effect now scope s (mem_created e c s)"
| updated: "mem_stored s i = Some (sc, e0) \<Longrightarrow> sameScope sc scope \<Longrightarrow> apply_op change e0 = Inr e \<Longrightarrow>
    wf_event now e \<Longrightarrow> re_version e \<le> max_safe \<Longrightarrow> backs c e0 e \<Longrightarrow> wc_scope c = scope \<Longrightarrow>
    mem_effect now scope s (mem_commit e0 e c s)"
| attached: "mem_stored s (sa_roadEventId i) = Some (sc, e) \<Longrightarrow> sameScope sc (ac_scope (sa_actor i)) \<Longrightarrow>
    mem_effect now scope s (mem_attached i s)"

lemma apply_op_id: "apply_op x e0 = Inr e \<Longrightarrow> re_id e = re_id e0 \<and>
    re_reporterActorId e = re_reporterActorId e0 \<and> re_version e = num_succ (re_version e0)"
  by (cases x) (auto simp: road_op_Inr)

lemma mem_effect_inv:
  assumes "mem_effect now scope s t" and "mem_inv now s"
  shows "mem_inv now t"
  using assms
proof (induction rule: mem_effect.induct)
  case (created s e c)
  note absent = mem_inv_absent [OF created.prems created.hyps(1)]
  then have a: "audit_of s (re_id e) = []" by (simp add: audit_of_def)
  show ?case
  proof (rule mem_invI)
    show "distinct (List.map fst (m_events (mem_created e c s)))"
      using created.prems by (simp add: m_events_commit distinct_update mem_inv_distinct)
    fix i e'
    assume "event_of (mem_created e c s) i = Some e'"
    then show "event_inv now i (m_scopes (mem_created e c s) i) (audit_of (mem_created e c s) i) e'"
      using created.hyps a mem_invD [OF created.prems, of i e']
      by (auto simp: event_inv_def audit_of_commit m_scopes_created max_safe_def split: if_splits)
  next
    fix i assume "event_of (mem_created e c s) i = None"
    then show "m_scopes (mem_created e c s) i = None \<and> m_audit (mem_created e c s) i = None"
      using mem_inv_absent [OF created.prems, of i]
      by (auto simp: m_scopes_created m_audit_commit split: if_splits)
  qed
next
  case (updated s i sc e0 change e c)
  then have st: "event_of s i = Some e0" "m_scopes s i = Some sc" by (simp_all add: mem_stored_Some)
  note ev0 = mem_invD [OF updated.prems st(1)]
  then have e: "re_id e = i" "re_reporterActorId e = re_reporterActorId e0"
    "re_version e = re_version e0 + 1"
    using apply_op_id [OF updated.hyps(3)] by (auto simp: event_inv_def num_succ_def)
  show ?case
  proof (rule mem_invI)
    show "distinct (List.map fst (m_events (mem_commit e0 e c s)))"
      using updated.prems by (simp add: m_events_commit distinct_update mem_inv_distinct)
    fix j e'
    assume j: "event_of (mem_commit e0 e c s) j = Some e'"
    show "event_inv now j (m_scopes (mem_commit e0 e c s) j) (audit_of (mem_commit e0 e c s) j) e'"
    proof (cases "j = i")
      case True
      have "supervisor_backed (audit_of s i @ [audit_entry c (Some (eventSnapshot e0)) (Some (eventSnapshot e))]) a"
        if "re_closureAuthorization e = Some a" for a
        using updated.hyps(6) that ev0 by (auto simp: backs_def event_inv_def supervisor_backed_def)
      then show ?thesis using True j e ev0 updated.hyps
        by (auto simp: event_inv_def audit_of_commit)
    next
      case False
      then show ?thesis using j e mem_invD [OF updated.prems, of j e'] by (simp add: audit_of_commit)
    qed
  next
    fix j assume "event_of (mem_commit e0 e c s) j = None"
    then show "m_scopes (mem_commit e0 e c s) j = None \<and> m_audit (mem_commit e0 e c s) j = None"
      using mem_inv_absent [OF updated.prems, of j] by (auto simp: m_audit_commit split: if_splits)
  qed
next
  case (attached s i sc e)
  then show ?case by simp
qed

lemma mem_effect_isolated:
  assumes "mem_effect now scope s t" and "mem_inv now s" and "mem_stored s i = Some (sc, e)"
    and "\<not> sameScope sc scope"
  shows "mem_stored t i = Some (sc, e) \<and> audit_of t i = audit_of s i"
  using assms
proof (induction rule: mem_effect.induct)
  case (created s e' c)
  then show ?case by (auto simp: mem_stored_Some audit_of_commit m_scopes_created)
next
  case (updated s j sc' e0 change e' c)
  have "re_id e' = j" using apply_op_id [OF updated.hyps(3)] mem_inv_wf [OF updated.prems(1) updated.hyps(1)]
    by simp
  then have "re_id e' \<noteq> i" using updated by auto
  then show ?case using updated.prems by (auto simp: mem_stored_Some audit_of_commit)
qed simp

section \<open>Commands have effects\<close>

lemma uuid_trim: "UUID_PATTERN s \<Longrightarrow> trim s = s"
proof (rule token_trim)
  assume u: "UUID_PATTERN s"
  then have len: "length s = 36" unfolding UUID_PATTERN_def by (elim conjE)
  have all: "\<forall>i \<in> set [0..<36]. if i \<in> set [8, 13, 18, 23] then s ! i = CHR ''-'' else is_hex (s ! i)"
    using u unfolding UUID_PATTERN_def list_all_iff by (elim conjE)
  have hex: "is_token_char c" if "is_hex c \<or> c = CHR ''-''" for c
    using that by (auto simp: is_token_char_def is_alnum_def is_hex_def is_lower_hex_def
        is_lower_def is_upper_def)
  have "is_token_char (s ! i)" if "i < length s" for i
    using bspec [OF all, of i] that len hex by (simp only: set_upt atLeastLessThan_iff) (metis le0)
  then show "list_all is_token_char s" by (simp add: list_all_length)
qed

lemma supervisor_primary:
  assumes "assertAllowed actor P_authorize_closure = Inr u" and "primaryRole actor = Inr role"
  shows "role = ''SUPERVISOR''"
proof -
  have "SUPERVISOR \<in> set (ac_roles actor)"
    using assms(1) by (auto simp: assertAllowed_def list_ex_iff role_allows_def
        elim: ROLE_PERMISSIONS.elims split: option.splits)
  then show ?thesis using assms(2) by (auto simp: primaryRole_def requireUuid_def split: if_splits)
qed

lemma write_context_Inr:
  "write_context now scope ctx action reason et cid = Inr c \<Longrightarrow>
   wc_scope c = scope \<and> wc_action c = action \<and> wc_actorId c = Some (ac_actorId (cc_actor ctx)) \<and>
   primaryRole (cc_actor ctx) = Inr (wc_actorType c) \<and> UUID_PATTERN (ac_actorId (cc_actor ctx))"
  by (auto simp: write_context_def ebind_eq_Inr primaryRole_def requireUuid_def split: if_splits option.splits)

lemma repo_create_Inl: "repo_create now e c s = (Inl err, t) \<Longrightarrow> t = s"
  by (auto simp: repo_create_def Let_def split: if_splits sum.splits)

lemma repo_create_Inr:
  assumes "repo_create now e c s = (Inr u, t)" and "wf_event now e"
  shows "event_of s (re_id e) = None \<and> re_reporterActorId e = sc_reporterActorId (wc_scope c) \<and>
    t = mem_created e c s"
  using assms
  by (auto simp: repo_create_def mem_created_def cloneEvent_wf Let_def split: if_splits sum.splits)

text \<open>The operation a command runs under its key either has no effect and fails, or has one
  effect and succeeds; it never touches the records.\<close>
definition one_effect :: "int \<Rightarrow> RoadEventAccessScope \<Rightarrow> app_value mem_action \<Rightarrow> bool" where
  "one_effect now scope operation \<longleftrightarrow>
     (\<forall>s r t. mem_inv now s \<longrightarrow> operation s = (r, t) \<longrightarrow>
        (case r of Inl e \<Rightarrow> t = s | Inr v \<Rightarrow> mem_effect now scope s t)) \<and>
     (\<forall>s r t. operation s = (r, t) \<longrightarrow> m_records t = m_records s)"

lemma m_records_frames [simp]:
  "m_records (mem_commit e0 e c s) = m_records s" "m_records (mem_created e c s) = m_records s"
  "m_records (mem_attached i s) = m_records s"
  by (simp_all add: mem_op_defs)

lemma repo_update_records: "repo_update now e v c s = (r, t) \<Longrightarrow> m_records t = m_records s"
  by (auto simp: repo_update_def appendAudit_def split: option.splits if_splits sum.splits)

lemma repo_create_records: "repo_create now e c s = (r, t) \<Longrightarrow> m_records t = m_records s"
  by (auto simp: repo_create_def appendAudit_def Let_def split: option.splits if_splits sum.splits)

lemma requireEvent_pure: "requireEvent (repo_findById now) i scope s = (r, t) \<Longrightarrow> t = s"
  by (auto simp: requireEvent_def abind_def split: option.splits prod.splits sum.splits
      dest: repo_findById_pure)

lemma update_operation_records:
  "update_operation (repo_findById now) (repo_update now) now i scope v change ctx s = (r, t) \<Longrightarrow>
   m_records t = m_records s"
  by (auto simp: update_operation_def abind_def split: prod.splits sum.splits if_splits
      dest!: requireEvent_pure dest: repo_update_records)

lemma one_effect_update:
  assumes "op_now now change \<le> now" and "\<And>c. ctx = Inr c \<Longrightarrow> wc_scope c = scope"
    and "\<And>c e0 e. ctx = Inr c \<Longrightarrow> apply_op change e0 = Inr e \<Longrightarrow> backs c e0 e"
  shows "one_effect now scope
    (update_operation (repo_findById now) (repo_update now) now i scope v change ctx)"
  unfolding one_effect_def
proof (intro conjI allI impI)
  fix s r t
  assume inv: "mem_inv now s"
    and run: "update_operation (repo_findById now) (repo_update now) now i scope v change ctx s = (r, t)"
  show "case r of Inl e \<Rightarrow> t = s | Inr v \<Rightarrow> mem_effect now scope s t"
  proof (cases r)
    case (Inl e)
    then show ?thesis using repo.update_operation_Inl [OF inv assms(1)] run by simp
  next
    case (Inr x)
    then obtain sc e0 e c where *: "mem_stored s i = Some (sc, e0)" "sameScope sc scope"
      "apply_op change e0 = Inr e" "ctx = Inr c" "wf_event now e" "t = mem_commit e0 e c s"
      using repo.update_operation_Inr [OF inv assms(1)] run by blast
    have "\<exists>e' c' u. repo_update now e' v c' s = (Inr u, t) \<and> apply_op change e0 = Inr e'"
      using run Inr * inv unfolding update_operation_def
      by (auto simp: abind_Inr requireEvent_def repo_findById_Inr split: if_splits)
    then have "re_version e \<le> max_safe" using * by (auto simp: repo_update_Inr)
    then show ?thesis using Inr * assms(2,3) by (auto intro: mem_effect.updated)
  qed
qed (rule update_operation_records)

lemma backs_transition: "apply_op (TransitionTo n) e0 = Inr e \<Longrightarrow> backs c e0 e"
  by (auto simp: backs_def road_op_Inr)

lemma backs_assess: "apply_op (AssessSeverity a) e0 = Inr e \<Longrightarrow> backs c e0 e"
  by (auto simp: backs_def road_op_Inr)

lemma backs_authorize:
  assumes "write_context now scope ctx ''road_event.closure_authorized'' reason et cid = Inr c"
    and "assertAllowed (cc_actor ctx) P_authorize_closure = Inr u"
    and "apply_op (AuthorizeClosure t \<lparr>ca_actorId = ac_actorId (cc_actor ctx), ca_reason = r,
      ca_authorizedAt = given\<rparr>) e0 = Inr e"
  shows "backs c e0 e"
proof -
  note w = write_context_Inr [OF assms(1)]
  then have "wc_actorType c = ''SUPERVISOR''" using supervisor_primary [OF assms(2)] by simp
  moreover have "re_closureAuthorization e = Some a \<Longrightarrow> ca_actorId a = ac_actorId (cc_actor ctx)" for a
    using assms(3) w uuid_trim
    by (auto simp: road_op_Inr copyAuthorization_def ebind_eq_Inr requireNonEmpty_Inr)
  ultimately show ?thesis using w by (auto simp: backs_def supervisor_backed_def audit_entry_def)
qed

lemma one_effect_create:
  assumes "new_RoadEvent now \<lparr>rp_id = i, rp_reporterActorId = sc_reporterActorId scope,
      rp_occurredAt = Some t0, rp_latitude = la, rp_longitude = lo, rp_status = None,
      rp_severity = sev, rp_version = None, rp_closureAuthorization = None\<rparr> = Inr e"
    and "\<And>c. ctx = Inr c \<Longrightarrow> wc_scope c = scope"
  shows "one_effect now scope (abind (alift ctx) (\<lambda>wctx. abind (repo_create now e wctx) (\<lambda>_.
    alift (map_sum id EventView (toRoadEventReadModel now e)))))"
proof -
  note wf = new_RoadEvent_wf [OF assms(1)]
  obtain m where m: "toRoadEventReadModel now e = Inr m" using toRoadEventReadModel_wf [OF wf] by blast
  have new: "re_version e = 1" "re_closureAuthorization e = None"
    using assms(1) by (auto simp: new_RoadEvent_def ebind_eq_Inr Let_def optionalE_def split: if_splits)
  show ?thesis
    unfolding one_effect_def using wf new assms(2)
    by (auto simp: abind_def m split: sum.splits prod.splits
        intro!: mem_effect.created dest!: repo_create_Inl repo_create_Inr dest: repo_create_records)
qed

lemma signal_attach_cases:
  assumes "mem_inv now s" and "signal_attach now i s = (r, t)"
  shows "(\<exists>e. r = Inl e) \<and> t = s \<or>
    r = Inr () \<and> t = mem_attached i s \<and>
    (\<exists>sc e. mem_stored s (sa_roadEventId i) = Some (sc, e) \<and> sameScope sc (ac_scope (sa_actor i)))"
  using assms unfolding signal_attach_def mem_attached_def
  by (auto simp: abind_def repo_findById_Inr split: option.splits if_splits)

lemma signal_attach_records: "signal_attach now i s = (r, t) \<Longrightarrow> m_records t = m_records s"
  unfolding signal_attach_def
  by (auto simp: abind_def split: prod.splits sum.splits if_splits dest!: repo_findById_pure)

lemma one_effect_attach:
  "one_effect now scope (abind (signal_attach now i) (\<lambda>_. aret SignalAttached))"
  unfolding one_effect_def
  by (auto simp: abind_def split: sum.splits prod.splits intro: mem_effect.attached
      dest: signal_attach_cases signal_attach_records)

section \<open>The cases of a command\<close>

lemma one_effect_case:
  "one_effect now scope f \<Longrightarrow> mem_inv now s \<Longrightarrow> f s = (r, t) \<Longrightarrow>
   case r of Inl e \<Rightarrow> t = s | Inr v \<Rightarrow> mem_effect now scope s t"
  unfolding one_effect_def by blast

lemma one_effect_Inl: "one_effect now scope f \<Longrightarrow> mem_inv now s \<Longrightarrow> f s = (Inl e, t) \<Longrightarrow> t = s"
  by (drule (2) one_effect_case) simp

lemma one_effect_Inr:
  "one_effect now scope f \<Longrightarrow> mem_inv now s \<Longrightarrow> f s = (Inr v, t) \<Longrightarrow> mem_effect now scope s t"
  by (drule (2) one_effect_case) simp

lemma one_effect_records: "one_effect now scope f \<Longrightarrow> f s = (r, t) \<Longrightarrow> m_records t = m_records s"
  by (simp add: one_effect_def)

lemma idempotently_cases:
  assumes "idempotently hash sc key input operation s = (r, t)" and "mem_inv now s"
    and "one_effect now scope operation"
  obtains (unchanged) "t = s"
  | (effect) v u where "r = Inr v" "mem_effect now scope (mem_enter sc key s) u"
      "t = mem_leave sc key (mem_record_first sc key (hash input, v) u)"
proof (rule idem.call_cases [OF assms(1)])
  assume "t = s"
  then show thesis by (rule unchanged)
next
  fix e e' u
  assume free: "\<not> mem_busy s sc key" and run: "operation (mem_enter sc key s) = (Inl e, u)"
    and t: "t = mem_leave sc key u"
  have "mem_inv now (mem_enter sc key s)" using assms(2) by simp
  then have "u = mem_enter sc key s"
    using one_effect_Inl [OF assms(3) _ run] by simp
  then have "t = s" using t idem.leave_enter [OF free] by simp
  then show thesis by (rule unchanged)
next
  fix v u
  assume run: "operation (mem_enter sc key s) = (Inr v, u)" and r: "r = Inr v"
    and t: "t = mem_leave sc key (mem_record_first sc key (hash input, v) u)"
  have "mem_inv now (mem_enter sc key s)" using assms(2) by simp
  then have "mem_effect now scope (mem_enter sc key s) u"
    using one_effect_Inr [OF assms(3) _ run] by simp
  then show thesis using r t by (intro effect)
qed

lemma idempotently_failed:
  assumes "idempotently hash sc key input operation s = (Inl e, t)" and "mem_inv now s"
    and "one_effect now scope operation"
  shows "t = s"
  using idempotently_cases [OF assms] by blast

lemma idempotently_replay:
  assumes "idempotently hash sc key input operation s = (Inr v, t)"
    and "one_effect now scope operation"
  shows "idempotently hash sc key input operation' t = (Inr v, t)"
proof -
  have "idem.frames sc key operation"
    using one_effect_records [OF assms(2)] by (auto simp: idem.frames_def mem_lookup_def)
  then show ?thesis using idem.success_recorded [OF assms(1)] idem.replay by blast
qed

text \<open>The scope, key, request and operation a command that passes its checks runs under.\<close>
definition runs_under :: "(json \<Rightarrow> string) \<Rightarrow> int \<Rightarrow> string \<times> json \<Rightarrow> CommandContext \<Rightarrow> mem \<Rightarrow>
    road_error + app_value \<Rightarrow> mem \<Rightarrow> bool" where
  "runs_under hash now request ctx s r t \<longleftrightarrow> (\<exists>scope operation.
     accessScope (cc_actor ctx) = Inr scope \<and> one_effect now scope operation \<and>
     idempotently hash (deriveRoadEventIdempotencyScope hash (fst request) (cc_actor ctx))
       (cc_idempotencyKey ctx) (snd request) operation s = (r, t))"

definition command_shape :: "(json \<Rightarrow> string) \<Rightarrow> int \<Rightarrow> string \<times> json \<Rightarrow> CommandContext \<Rightarrow> mem \<Rightarrow>
    road_error + app_value \<Rightarrow> mem \<Rightarrow> bool" where
  "command_shape hash now request ctx s r t \<longleftrightarrow>
     ((\<exists>e. r = Inl e) \<and> t = s) \<or> runs_under hash now request ctx s r t"

lemma shape_reject: "r = Inl e \<Longrightarrow> t = s \<Longrightarrow> command_shape hash now request ctx s r t"
  by (simp add: command_shape_def)

lemma shape_run:
  "idempotently hash (deriveRoadEventIdempotencyScope hash name (cc_actor ctx))
       (cc_idempotencyKey ctx) input operation s = (r, t) \<Longrightarrow>
   accessScope (cc_actor ctx) = Inr scope \<Longrightarrow> one_effect now scope operation \<Longrightarrow>
   command_shape hash now (name, input) ctx s r t"
  unfolding command_shape_def runs_under_def by auto

lemma alift_elim:
  assumes "abind (alift x) f s = (r, t)"
  obtains (Inl) e where "x = Inl e" "r = Inl e" "t = s" | (Inr) y where "x = Inr y" "f y s = (r, t)"
  using assms by (cases x) auto

lemma requireEvent_elim:
  assumes "abind (requireEvent (repo_findById now) i scope) f s = (r, t)"
  obtains (Inl) e where "r = Inl e" "t = s" | (Inr) y where "f y s = (r, t)"
  using assms by (auto simp: abind_def split: prod.splits sum.splits dest!: requireEvent_pure)

lemmas shape_steps = alift_elim requireEvent_elim

lemma shape_create: "service_create hash now c ctx s = (r, t) \<Longrightarrow> command_shape hash now (command_request (CmdCreate c)) ctx s r t"
  unfolding service_create_def command_request.simps
  by (elim shape_steps; (rule shape_reject, assumption+)?)
    (rule shape_run, assumption+, rule one_effect_create, assumption, simp add: write_context_Inr)

lemma shape_reassess:
  "service_reassessSeverity hash now c ctx s = (r, t) \<Longrightarrow> command_shape hash now (command_request (CmdReassess c)) ctx s r t"
  unfolding service_reassessSeverity_def command_request.simps
  by (elim shape_steps; (rule shape_reject, assumption+)?)
    (rule shape_run, assumption+, rule one_effect_update, simp, simp add: write_context_Inr,
      rule backs_assess, assumption)

lemma shape_transition:
  "service_transition hash now c ctx s = (r, t) \<Longrightarrow> command_shape hash now (command_request (CmdTransition c)) ctx s r t"
  unfolding service_transition_def command_request.simps
  by (elim shape_steps; (rule shape_reject, assumption+)?)
    (rule shape_run, assumption+, rule one_effect_update, simp, simp add: write_context_Inr,
      rule backs_transition, assumption)

lemma shape_authorize:
  "service_authorizeClosure hash now c ctx s = (r, t) \<Longrightarrow> command_shape hash now (command_request (CmdAuthorize c)) ctx s r t"
  unfolding service_authorizeClosure_def command_request.simps
  by (elim shape_steps; (rule shape_reject, assumption+)?)
    (rule shape_run, assumption+, rule one_effect_update, simp, simp add: write_context_Inr,
      rule backs_authorize, assumption+)

lemma shape_attach: "service_attachSignal hash now c ctx s = (r, t) \<Longrightarrow> command_shape hash now (command_request (CmdAttach c)) ctx s r t"
  unfolding service_attachSignal_def command_request.simps
  by (elim shape_steps; (rule shape_reject, assumption+)?)
    (rule shape_run, assumption+, rule one_effect_attach)

lemma execute_command_shape:
  "execute_command hash now cmd ctx s = (r, t) \<Longrightarrow> command_shape hash now (command_request cmd) ctx s r t"
  by (cases cmd) (simp_all del: command_request.simps add: shape_create shape_reassess shape_transition shape_authorize shape_attach)

lemma execute_command_cases:
  assumes "execute_command hash now cmd ctx s = (r, t)" and "mem_inv now s"
  obtains (unchanged) "t = s"
  | (effect) scope sc key input v u where "accessScope (cc_actor ctx) = Inr scope" "r = Inr v"
      "mem_effect now scope (mem_enter sc key s) u"
      "t = mem_leave sc key (mem_record_first sc key (hash input, v) u)"
proof -
  from execute_command_shape [OF assms(1)] consider "t = s" | "runs_under hash now (command_request cmd) ctx s r t"
    by (auto simp: command_shape_def)
  then show thesis
  proof cases
    case 1
    then show thesis by (rule unchanged)
  next
    case 2
    then obtain scope operation where scope: "accessScope (cc_actor ctx) = Inr scope"
      and op: "one_effect now scope operation"
      and run: "idempotently hash (deriveRoadEventIdempotencyScope hash (fst (command_request cmd))
        (cc_actor ctx)) (cc_idempotencyKey ctx) (snd (command_request cmd)) operation s = (r, t)"
      unfolding runs_under_def by blast
    show thesis
      by (rule idempotently_cases [OF run assms(2) op])
        (rule unchanged, assumption, rule effect [OF scope], assumption+)
  qed
qed

lemma execute_command_failed:
  assumes "execute_command hash now cmd ctx s = (Inl e, t)" and "mem_inv now s"
  shows "t = s"
  by (rule execute_command_cases [OF assms]) simp_all

lemma execute_command_inv:
  assumes "execute_command hash now cmd ctx s = (r, t)" and "mem_inv now s"
  shows "mem_inv now t"
proof (rule execute_command_cases [OF assms])
  fix scope sc key input v u
  assume "mem_effect now scope (mem_enter sc key s) u"
    and t: "t = mem_leave sc key (mem_record_first sc key (hash input, v) u)"
  then have "mem_inv now u" using assms(2) by (blast intro: mem_effect_inv mem_inv_frames(1) [THEN iffD2])
  then show ?thesis using t by simp
qed (use assms(2) in simp)

end
