(* ===== verification/RoadEventApp.thy ===== *)
theory RoadEventApp
  imports RoadEventEffects
begin

text \<open>
  Properties of the road-event application over its memory adapters, for the stores \<open>app_run\<close>
  reaches: any sequence of commands by any actors under a clock that does not go backwards,
  failed commands included.
\<close>

inductive app_run :: "(json \<Rightarrow> string) \<Rightarrow> int \<Rightarrow> mem \<Rightarrow> bool" for hash where
  app_start: "app_run hash now empty_mem"
| app_step: "app_run hash now s \<Longrightarrow> now \<le> now' \<Longrightarrow> execute_command hash now' cmd ctx s = (r, t) \<Longrightarrow>
    app_run hash now' t"

lemma mem_inv_empty: "mem_inv now empty_mem"
  by (rule mem_invI) (simp_all add: empty_mem_def event_of_def)

lemma app_run_inv: "app_run hash now s \<Longrightarrow> mem_inv now s"
  by (induction rule: app_run.induct)
    (auto intro: mem_inv_empty execute_command_inv mem_inv_mono)

section \<open>Sample values\<close>

definition sample_uuid :: string where
  "sample_uuid = ''11111111-1111-4111-8111-111111111111''"

definition sample_actor :: "RosRole \<Rightarrow> string \<Rightarrow> AuthenticatedActor" where
  "sample_actor role tenant = \<lparr>ac_scope = \<lparr>sc_tenantId = tenant, sc_purpose = ''operations'',
     sc_reporterActorId = None\<rparr>, ac_actorId = sample_uuid, ac_roles = [role]\<rparr>"

definition sample_ctx :: "AuthenticatedActor \<Rightarrow> string \<Rightarrow> CommandContext" where
  "sample_ctx actor key = \<lparr>cc_actor = actor, cc_traceId = ''trace-1'', cc_idempotencyKey = key\<rparr>"

definition sample_create :: app_command where
  "sample_create = CmdCreate \<lparr>cr_id = sample_uuid, cr_occurredAt = ''1970-01-01T00:00:00.500Z'',
     cr_latitude = Num 24, cr_longitude = Num 46, cr_severity = None\<rparr>"

definition sample_transition :: "RoadEventStatus \<Rightarrow> rat \<Rightarrow> app_command" where
  "sample_transition st v = CmdTransition \<lparr>tr_roadEventId = sample_uuid, tr_expectedVersion = Num v,
     tr_nextStatus = st, tr_reason = ''next step''\<rparr>"

definition sample_hash :: "json \<Rightarrow> string" where
  "sample_hash j = ''h''"

definition sample_run :: "(json \<Rightarrow> string) \<Rightarrow> int \<Rightarrow> (app_command \<times> CommandContext) list \<Rightarrow> mem" where
  "sample_run hash now xs = foldl (\<lambda>s (cmd, ctx). snd (execute_command hash now cmd ctx s)) empty_mem xs"

lemma app_run_sample: "app_run hash now (sample_run hash now xs)"
proof (induction xs rule: rev_induct)
  case Nil
  then show ?case by (simp add: sample_run_def app_start)
next
  case (snoc x xs)
  obtain cmd ctx where x: "x = (cmd, ctx)" by fastforce
  obtain r t where rt: "execute_command hash now cmd ctx (sample_run hash now xs) = (r, t)" by fastforce
  then have "app_run hash now t" using app_step [OF snoc order_refl] by blast
  then show ?case using x rt by (simp add: sample_run_def)
qed

definition sample_view :: "RoadEventReadModel" where
  "sample_view = \<lparr>rm_id = sample_uuid, rm_status = Detected, rm_severity = initialSeverity,
     rm_latitude = Num 24, rm_longitude = Num 46, rm_occurredAt = ''1970-01-01T00:00:00.500Z'',
     rm_version = 1, rm_closureAuthorization = None\<rparr>"

definition sample_created :: RoadEvent where
  "sample_created = \<lparr>re_id = sample_uuid, re_reporterActorId = None, re_latitude = Num 24,
     re_longitude = Num 46, re_occurredAt = 500, re_status = Detected, re_severity = initialSeverity,
     re_version = 1, re_closureAuthorization = None\<rparr>"

definition sample_scope :: "string \<Rightarrow> RoadEventAccessScope" where
  "sample_scope tenant = \<lparr>sc_tenantId = tenant, sc_purpose = ''operations'', sc_reporterActorId = None\<rparr>"

lemma sample_uuid_ok [simp]: "UUID_PATTERN sample_uuid" "trim sample_uuid = sample_uuid"
  "sample_uuid \<noteq> []" "length sample_uuid = 36"
  by (code_simp, code_simp, code_simp, code_simp)

lemma sample_strings [simp]:
  "dateParse ''1970-01-01T00:00:00.500Z'' = Some 500"
  "isoString 500 = ''1970-01-01T00:00:00.500Z''"
  "trim ''trace-1'' = ''trace-1''" "trim ''riyadh'' = ''riyadh''" "trim ''jeddah'' = ''jeddah''"
  "trim ''operations'' = ''operations''" "trim ''next step'' = ''next step''"
  "token_pattern 0 127 ''riyadh''" "token_pattern 0 127 ''jeddah''" "token_pattern 0 127 ''operations''"
  "token_pattern 7 127 ''create-0001''" "token_pattern 7 127 ''transit-0001''"
  by (code_simp)+

lemma sample_scope_ok [simp]:
  "tenant \<in> {''riyadh'', ''jeddah''} \<Longrightarrow> accessScope (sample_actor OPERATOR tenant) = Inr (sample_scope tenant)"
  by (auto simp: accessScope_def sample_actor_def sample_scope_def requireAccessScopeValue_def Let_def)

lemma sample_role_ok [simp]: "primaryRole (sample_actor OPERATOR tenant) = Inr ''OPERATOR''"
  by (simp add: primaryRole_def sample_actor_def requireUuid_def)

lemma sample_allowed [simp]:
  "role_allows p OPERATOR \<Longrightarrow> assertAllowed (sample_actor OPERATOR tenant) p = Inr ()"
  by (simp add: assertAllowed_def sample_actor_def)

lemma sample_operator [simp]:
  "role_allows P_create OPERATOR" "role_allows P_transition OPERATOR" "role_allows P_read OPERATOR"
  by (simp_all add: role_allows_def)

lemma sample_fields [simp]:
  "cc_actor (sample_ctx actor key) = actor" "cc_traceId (sample_ctx actor key) = ''trace-1''"
  "cc_idempotencyKey (sample_ctx actor key) = key"
  "ac_actorId (sample_actor role tenant) = sample_uuid"
  by (simp_all add: sample_ctx_def sample_actor_def)

lemma sample_context:
  "write_context now scope (sample_ctx (sample_actor OPERATOR tenant) key) action reason et cid =
   Inr \<lparr>wc_scope = scope, wc_actorType = ''OPERATOR'', wc_actorId = Some sample_uuid,
     wc_action = action, wc_reason = reason, wc_traceId = ''trace-1'', wc_eventType = et,
     wc_correlationId = cid, wc_occurredAt = now\<rparr>"
  by (simp add: write_context_def)

lemma initialSeverity_ok [simp]: "valid_severity initialSeverity"
  by (simp add: valid_severity_iff initialSeverity_def severityLevels_def isHighSeverity_def
      trim_def is_space_def code_unit_def)

lemma sample_created_new:
  "new_RoadEvent 1000 \<lparr>rp_id = sample_uuid, rp_reporterActorId = None, rp_occurredAt = Some 500,
     rp_latitude = Num 24, rp_longitude = Num 46, rp_status = None, rp_severity = None,
     rp_version = None, rp_closureAuthorization = None\<rparr> = Inr sample_created"
  by (simp add: new_RoadEvent_def requireNonEmpty_def optionalE_def checkedTime_def
      MAX_CLOCK_SKEW_MILLISECONDS_def roadEventStatuses_def max_safe_def sample_created_def
      freezeSeverityAssessment_Inr [THEN iffD2])

lemma sample_created_wf: "wf_event 1000 sample_created"
  using new_RoadEvent_wf [OF sample_created_new] .

lemma sample_created_view: "toRoadEventReadModel 1000 sample_created = Inr sample_view"
  using sample_created_wf
  by (simp add: toRoadEventReadModel_def optionalE_def) (simp add: sample_created_def sample_view_def)

lemma sample_run_create:
  "\<exists>t. execute_command hash 1000 sample_create
      (sample_ctx (sample_actor OPERATOR ''riyadh'') ''create-0001'') empty_mem =
      (Inr (EventView sample_view), t) \<and>
    mem_stored t sample_uuid = Some (sample_scope ''riyadh'', sample_created) \<and>
    m_events t = [(sample_uuid, sample_created)] \<and> m_inFlight t = {} \<and>
    (\<forall>k v. m_records t k = Some v \<longrightarrow> (\<exists>h. k = composite (''road-event:'' @ h) ''create-0001'')) \<and> app_run hash 1000 t"
proof -
  let ?ctx = "sample_ctx (sample_actor OPERATOR ''riyadh'') ''create-0001''"
  obtain r t where rt: "execute_command hash 1000 sample_create ?ctx empty_mem = (r, t)" by fastforce
  have id: "re_id sample_created = sample_uuid" "re_reporterActorId sample_created = None"
    "re_version sample_created = 1" by (simp_all add: sample_created_def)
  have "r = Inr (EventView sample_view) \<and>
      mem_stored t sample_uuid = Some (sample_scope ''riyadh'', sample_created) \<and>
      m_events t = [(sample_uuid, sample_created)] \<and> m_inFlight t = {} \<and>
      (\<forall>k v. m_records t k = Some v \<longrightarrow> (\<exists>h. k = composite (''road-event:'' @ h) ''create-0001''))"
    using rt id sample_created_wf sample_created_new sample_created_view
    by (auto simp: sample_create_def service_create_def requireUuid_def requireTraceId_def
        requireText_def parseDate_def sample_scope_def sample_context executeIdempotently_def
        requireIdempotencyKey_def acatch_def abind_def [of "executeExclusively _ _ _"]
        executeExclusively_def empty_mem_def composite_def idem_get_def idem_put_def
        repo_create_def event_of_def cloneEvent_wf max_safe_def Let_def mem_stored_def appendAudit_def
        deriveRoadEventIdempotencyScope_def split: if_splits)
  then show ?thesis using rt app_step [OF app_start order_refl rt] by blast
qed


section \<open>A command that fails\<close>

text \<open>C6: a command that fails, for whatever reason and at whatever point, leaves the whole store as
  it was: events, scopes, audit trails, attachments, idempotency records and the keys in flight.\<close>
theorem failed_command_changes_nothing:
  assumes "app_run hash now s" and "now \<le> now'"
    and "execute_command hash now' cmd ctx s = (Inl e, t)"
  shows "t = s"
  using execute_command_failed [OF assms(3)] app_run_inv [OF assms(1)] mem_inv_mono assms(2) by blast

theorem failed_command_changes_nothing_witness:
  "execute_command sample_hash 0 (sample_transition Validating 1)
     (sample_ctx (sample_actor AUDITOR ''riyadh'') ''transit-0001'') empty_mem =
   (Inl AuthorizationDeniedError, empty_mem)"
proof -
  let ?run = "execute_command sample_hash 0 (sample_transition Validating 1)
     (sample_ctx (sample_actor AUDITOR ''riyadh'') ''transit-0001'') empty_mem"
  obtain t where t: "?run = (Inl AuthorizationDeniedError, t)"
    by (simp add: sample_transition_def service_transition_def assertAllowed_def sample_actor_def
        sample_ctx_def role_allows_def)
  from failed_command_changes_nothing [OF app_start order_refl t] t show ?thesis by simp
qed

section \<open>Replays\<close>

lemma checkedTime_mono: "checkedTime now x = Inr y \<Longrightarrow> now \<le> now' \<Longrightarrow> checkedTime now' x = Inr y"
  by (auto simp: checkedTime_Inr)

lemma copyAuthorization_mono:
  "copyAuthorization now x = Inr y \<Longrightarrow> now \<le> now' \<Longrightarrow> copyAuthorization now' x = Inr y"
  by (auto simp: copyAuthorization_def ebind_eq_Inr intro: checkedTime_mono)

lemma optionalE_mono:
  "optionalE f x = Inr y \<Longrightarrow> (\<And>u v. f u = Inr v \<Longrightarrow> g u = Inr v) \<Longrightarrow> optionalE g x = Inr y"
  by (auto simp: optionalE_Inr)

lemma new_RoadEvent_mono:
  assumes "new_RoadEvent now p = Inr e" and "now \<le> now'"
  shows "new_RoadEvent now' p = Inr e"
proof -
  have "copyAuthorization now u = Inr v \<Longrightarrow> copyAuthorization now' u = Inr v" for u v
    using copyAuthorization_mono assms(2) by blast
  note mono = checkedTime_mono [OF _ assms(2)] optionalE_mono [OF _ this]
  show ?thesis using assms(1) unfolding new_RoadEvent_def Let_def ebind_eq_Inr ensure_eq_Inr
    by (elim exE conjE) (intro exI conjI; (rule mono)?; assumption)
qed

lemma replay_update:
  assumes "idempotently hash sc key input (update_operation (repo_findById now) (repo_update now) now i
      scope v change (write_context now scope ctx action reason et cid)) s = (Inr x, t)"
    and "op_now now change \<le> now"
    and "\<And>c e0 e. write_context now scope ctx action reason et cid = Inr c \<Longrightarrow>
      apply_op change e0 = Inr e \<Longrightarrow> backs c e0 e"
  shows "idempotently hash sc key input operation' t = (Inr x, t)"
proof (rule idempotently_replay [OF assms(1)])
  show "one_effect now scope (update_operation (repo_findById now) (repo_update now) now i scope v
      change (write_context now scope ctx action reason et cid))"
    using assms(2,3) by (intro one_effect_update) (auto simp: write_context_Inr)
qed

lemma replay_create:
  assumes "service_create hash now c ctx s = (Inr v, t)" and "now \<le> now'"
  shows "service_create hash now' c ctx t = (Inr v, t)"
  using assms(1) unfolding service_create_def
  apply (elim alift_elim; (simp; fail)?)
  apply (drule idempotently_replay, rule one_effect_create, assumption, simp add: write_context_Inr)
  apply (simp add: new_RoadEvent_mono [OF _ assms(2)])
  done

lemma replay_reassess:
  assumes "service_reassessSeverity hash now c ctx s = (Inr v, t)"
  shows "service_reassessSeverity hash now' c ctx t = (Inr v, t)"
  using assms unfolding service_reassessSeverity_def
  by (elim alift_elim; (simp; fail)?) (drule replay_update; simp add: backs_assess)

lemma replay_transition:
  assumes "service_transition hash now c ctx s = (Inr v, t)"
  shows "service_transition hash now' c ctx t = (Inr v, t)"
  using assms unfolding service_transition_def
  by (elim alift_elim; (simp; fail)?) (drule replay_update; simp add: backs_transition)

lemma replay_authorize:
  assumes "service_authorizeClosure hash now c ctx s = (Inr v, t)"
  shows "service_authorizeClosure hash now' c ctx t = (Inr v, t)"
  using assms unfolding service_authorizeClosure_def
  by (elim alift_elim; (simp; fail)?)
    (drule replay_update, simp, rule backs_authorize, assumption+, simp)

lemma attach_keeps_events:
  assumes "idempotently hash sc key input (abind (signal_attach now i) (\<lambda>_. aret SignalAttached)) s = (r, t)"
    and "mem_inv now s"
  shows "mem_stored t = mem_stored s \<and> mem_inv now t"
proof (rule idem.call_cases [OF assms(1)])
  fix v u
  assume run: "abind (signal_attach now i) (\<lambda>_. aret SignalAttached) (mem_enter sc key s) = (Inr v, u)"
    and t: "t = mem_leave sc key (mem_record_first sc key (hash input, v) u)"
  have inv: "mem_inv now (mem_enter sc key s)" using assms(2) by simp
  have "u = mem_attached i (mem_enter sc key s)"
    using run by (auto simp: abind_Inr dest!: signal_attach_cases [OF inv])
  then show ?thesis using t assms(2) by simp
next
  fix e u
  assume run: "abind (signal_attach now i) (\<lambda>_. aret SignalAttached) (mem_enter sc key s) = (Inl e, u)"
    and t: "t = mem_leave sc key u"
  have inv: "mem_inv now (mem_enter sc key s)" using assms(2) by simp
  have "u = mem_enter sc key s"
    using run by (auto simp: abind_Inl dest!: signal_attach_cases [OF inv])
  then show ?thesis using t assms(2) by simp
qed (use assms(2) in simp)

lemma replay_attach:
  assumes "service_attachSignal hash now c ctx s = (Inr v, t)" and "mem_inv now s" and "now \<le> now'"
  shows "service_attachSignal hash now' c ctx t = (Inr v, t)"
proof -
  obtain scope e s1 where pre: "assertAllowed (cc_actor ctx) P_attach_signal = Inr ()"
      "accessScope (cc_actor ctx) = Inr scope" "requireUuid (at_roadEventId c) = Inr (at_roadEventId c)"
      "requireUuid (at_signalId c) = Inr (at_signalId c)"
      "ensure (num_between 0 1 (at_matchScore c)) ApplicationValidationError = Inr ()"
      "ensure (\<not> (at_mergeReasons c = [] \<or>
         list_ex (\<lambda>r. length (trim r) = 0) (at_mergeReasons c))) ApplicationValidationError = Inr ()"
    and req: "requireEvent (repo_findById now) (at_roadEventId c) scope s = (Inr e, s1)"
    and run: "idempotently hash
       (deriveRoadEventIdempotencyScope hash ''road_event:attach_signal'' (cc_actor ctx))
       (cc_idempotencyKey ctx) (attach_json c)
       (abind (signal_attach now \<lparr>sa_roadEventId = at_roadEventId c, sa_signalId = at_signalId c,
           sa_matchScore = at_matchScore c, sa_mergeReasons = at_mergeReasons c,
           sa_actor = cc_actor ctx, sa_traceId = cc_traceId ctx\<rparr>) (\<lambda>_. aret SignalAttached)) s1 = (Inr v, t)"
    using assms(1) unfolding service_attachSignal_def
    by (elim alift_elim; (simp; fail)?) (auto simp: abind_Inr requireUuid_def split: if_splits)
  obtain sc where s1: "s1 = s" "mem_stored s (at_roadEventId c) = Some (sc, e)" "sameScope sc scope"
    using repo.requireEvent_Inr [OF assms(2) req] by blast
  have t: "mem_stored t (at_roadEventId c) = Some (sc, e)" "mem_inv now' t"
    using attach_keeps_events [OF run] s1 assms(2,3) by (auto intro: mem_inv_mono)
  have "requireEvent (repo_findById now') (at_roadEventId c) scope t = (Inr e, t)"
    using t s1(3) by (simp add: requireEvent_def repo_findById_Inr abind_def)
  then show ?thesis using pre idempotently_replay [OF run one_effect_attach]
    by (simp add: service_attachSignal_def abind_def [of "requireEvent _ _ _"])
qed



section \<open>Keys\<close>

lemma idempotently_Inr_recorded:
  assumes "idempotently hash sc key input operation s = (Inr v, t)" and "one_effect now scope operation"
  shows "mem_lookup t sc key = Some (hash input, v)"
proof -
  have "idem.frames sc key operation"
    using one_effect_records [OF assms(2)] by (auto simp: idem.frames_def mem_lookup_def)
  then show ?thesis using idem.success_recorded [OF assms(1)] by blast
qed

lemma idempotently_Inr_known:
  assumes "idempotently hash sc key input operation s = (Inr v, t)"
    and "mem_lookup s sc key = Some (fp, w)"
  shows "fp = hash input"
  using assms idem.conflict [of key s sc fp w hash input operation] idem.busy_refused [of key s sc hash input operation]
  by (cases "token_pattern 7 127 key"; cases "mem_busy s sc key"; cases "fp = hash input")
    (simp_all add: executeIdempotently_def requireIdempotencyKey_def)

text \<open>The run of a command that succeeded.\<close>
lemma execute_command_run:
  assumes "execute_command hash now cmd ctx s = (Inr v, t)"
  obtains scope operation where "accessScope (cc_actor ctx) = Inr scope" "one_effect now scope operation"
    "idempotently hash (deriveRoadEventIdempotencyScope hash (fst (command_request cmd)) (cc_actor ctx))
       (cc_idempotencyKey ctx) (snd (command_request cmd)) operation s = (Inr v, t)"
  using execute_command_shape [OF assms] that unfolding command_shape_def runs_under_def by blast

text \<open>An idempotency key belongs to one request. Once a command of an actor succeeded under a key,
  the same operation under the same key with a request of another fingerprint is refused and changes
  nothing, whatever the rest of the request says.\<close>
theorem key_belongs_to_one_request:
  assumes "app_run hash now s" and "now \<le> now'" and "now' \<le> now''"
    and "execute_command hash now' cmd ctx s = (Inr v, t)"
    and "fst (command_request cmd') = fst (command_request cmd)"
    and "hash (snd (command_request cmd')) \<noteq> hash (snd (command_request cmd))"
  shows "\<exists>e. execute_command hash now'' cmd' ctx t = (Inl e, t)"
proof -
  obtain scope f where f: "one_effect now' scope f"
    "idempotently hash (deriveRoadEventIdempotencyScope hash (fst (command_request cmd)) (cc_actor ctx))
       (cc_idempotencyKey ctx) (snd (command_request cmd)) f s = (Inr v, t)"
    using execute_command_run [OF assms(4)] by blast
  note known = idempotently_Inr_recorded [OF f(2) f(1)]
  obtain r u where ru: "execute_command hash now'' cmd' ctx t = (r, u)" by fastforce
  have inv: "mem_inv now'' t"
    using app_run_inv [OF app_step [OF assms(1,2,4)]] assms(3) by (rule mem_inv_mono)
  show ?thesis
  proof (cases r)
    case (Inl e)
    then have "u = t" using ru by (simp add: execute_command_failed [OF _ inv])
    then show ?thesis using Inl ru by simp
  next
    case (Inr w)
    obtain f' where "idempotently hash
        (deriveRoadEventIdempotencyScope hash (fst (command_request cmd)) (cc_actor ctx))
        (cc_idempotencyKey ctx) (snd (command_request cmd')) f' t = (Inr w, u)"
      using execute_command_run [OF ru [unfolded Inr]] assms(5) by metis
    then show ?thesis using idempotently_Inr_known [OF _ known] assms(6) by simp
  qed
qed

definition sample_hash_by_id :: "json \<Rightarrow> string" where
  "sample_hash_by_id j = (case j of JObj (f # fs) \<Rightarrow> (case snd f of JStr v \<Rightarrow> v | _ \<Rightarrow> []) | _ \<Rightarrow> [])"

definition sample_create_other :: app_command where
  "sample_create_other = CmdCreate \<lparr>cr_id = ''22222222-2222-4222-8222-222222222222'',
     cr_occurredAt = ''1970-01-01T00:00:00.500Z'', cr_latitude = Num 24, cr_longitude = Num 46,
     cr_severity = None\<rparr>"

theorem key_belongs_to_one_request_witness:
  "\<exists>t e. execute_command sample_hash_by_id 1000 sample_create
      (sample_ctx (sample_actor OPERATOR ''riyadh'') ''create-0001'') empty_mem =
      (Inr (EventView sample_view), t) \<and>
    execute_command sample_hash_by_id 2000 sample_create_other
      (sample_ctx (sample_actor OPERATOR ''riyadh'') ''create-0001'') t = (Inl e, t)"
proof -
  obtain t where t: "execute_command sample_hash_by_id 1000 sample_create
      (sample_ctx (sample_actor OPERATOR ''riyadh'') ''create-0001'') empty_mem =
      (Inr (EventView sample_view), t)" using sample_run_create [of sample_hash_by_id] by blast
  have "fst (command_request sample_create_other) = fst (command_request sample_create)"
    "sample_hash_by_id (snd (command_request sample_create_other)) \<noteq>
     sample_hash_by_id (snd (command_request sample_create))"
    by (simp_all add: sample_create_other_def sample_create_def create_json_def sample_hash_by_id_def
        sample_uuid_def)
  from key_belongs_to_one_request [OF app_start order_refl _ t this, of 2000] t show ?thesis by auto
qed

section \<open>Isolation of scopes\<close>

text \<open>C4: a command only reaches events of its caller's scope: another tenant's, another purpose's
  or, for a field user, another reporter's event keeps its content, its scope and its audit trail.\<close>
theorem commands_stay_in_their_scope:
  assumes "app_run hash now s" and "now \<le> now'"
    and "execute_command hash now' cmd ctx s = (r, t)"
    and "accessScope (cc_actor ctx) = Inr scope"
    and "mem_stored s i = Some (sc, e)" and "\<not> sameScope sc scope"
  shows "mem_stored t i = Some (sc, e) \<and> audit_of t i = audit_of s i"
proof -
  have inv: "mem_inv now' s" using app_run_inv [OF assms(1)] assms(2) by (rule mem_inv_mono)
  show ?thesis
  proof (rule execute_command_cases [OF assms(3) inv])
    assume "t = s" then show ?thesis using assms(5) by simp
  next
    fix scope' sc' key input v u
    assume *: "accessScope (cc_actor ctx) = Inr scope'" "mem_effect now' scope' (mem_enter sc' key s) u"
      "t = mem_leave sc' key (mem_record_first sc' key (hash input, v) u)"
    then show ?thesis using mem_effect_isolated [OF *(2), of i sc e] inv assms(4-6) by simp
  qed
qed

theorem commands_stay_in_their_scope_witness:
  "\<exists>s r t. app_run sample_hash 1000 s \<and>
    execute_command sample_hash 2000 (sample_transition Validating 1)
      (sample_ctx (sample_actor OPERATOR ''jeddah'') ''transit-0001'') s = (r, t) \<and>
    mem_stored t sample_uuid = Some (sample_scope ''riyadh'', sample_created) \<and>
    audit_of t sample_uuid = audit_of s sample_uuid"
proof -
  obtain s where s: "mem_stored s sample_uuid = Some (sample_scope ''riyadh'', sample_created)"
    "app_run sample_hash 1000 s" using sample_run_create by blast
  obtain r t where rt: "execute_command sample_hash 2000 (sample_transition Validating 1)
      (sample_ctx (sample_actor OPERATOR ''jeddah'') ''transit-0001'') s = (r, t)" by fastforce
  have scope: "accessScope (cc_actor (sample_ctx (sample_actor OPERATOR ''jeddah'') ''transit-0001'')) =
      Inr (sample_scope ''jeddah'')" by simp
  have "\<not> sameScope (sample_scope ''riyadh'') (sample_scope ''jeddah'')"
    by (simp add: sameScope_def sample_scope_def)
  from commands_stay_in_their_scope [OF s(2) _ rt scope s(1) this] s rt show ?thesis by auto
qed

section \<open>Reads\<close>

lemma toRoadEventReadModel_id: "toRoadEventReadModel now e = Inr m \<Longrightarrow> rm_id m = re_id e \<and>
   rm_version m = re_version e \<and> rm_status m = re_status e \<and> rm_severity m = re_severity e"
  by (auto simp: toRoadEventReadModel_def ebind_eq_Inr)

text \<open>a lookup by a permitted actor shows the stored event exactly when it lies in the actor's
  scope; an event outside the scope and an absent event are answered alike, and reading changes
  nothing.\<close>
theorem lookup_shows_own_scope_only:
  assumes "app_run hash now s" and "now \<le> now'"
    and "assertAllowed actor P_read = Inr ()" and "accessScope actor = Inr scope" and "UUID_PATTERN i"
  shows "service_getById now' i actor s =
    (case mem_stored s i of
       None \<Rightarrow> (Inl RoadEventNotFoundError, s)
     | Some (sc, e) \<Rightarrow> if sameScope sc scope then (toRoadEventReadModel now' e, s)
         else (Inl RoadEventNotFoundError, s)) \<and>
    (\<forall>sc e. mem_stored s i = Some (sc, e) \<longrightarrow> (\<exists>m. toRoadEventReadModel now' e = Inr m))"
proof -
  have inv: "mem_inv now' s" using app_run_inv [OF assms(1)] assms(2) by (rule mem_inv_mono)
  show ?thesis using inv assms(3-5) toRoadEventReadModel_wf mem_inv_wf [OF inv]
    by (auto simp: service_getById_def requireUuid_def requireEvent_def repo_findById_Inr
        abind_def [of "\<lambda>s. (Inr _, s)"] abind_def [of "repo_findById _ _ _"] split: option.splits prod.splits)
qed

theorem lookup_shows_own_scope_only_witness:
  "\<exists>s. app_run sample_hash 1000 s \<and>
    service_getById 1000 sample_uuid (sample_actor OPERATOR ''riyadh'') s = (Inr sample_view, s) \<and>
    service_getById 1000 sample_uuid (sample_actor OPERATOR ''jeddah'') s = (Inl RoadEventNotFoundError, s)"
proof -
  obtain s where s: "mem_stored s sample_uuid = Some (sample_scope ''riyadh'', sample_created)"
    "app_run sample_hash 1000 s" using sample_run_create by blast
  have "assertAllowed (sample_actor OPERATOR c) P_read = Inr ()" for c by simp
  note look = lookup_shows_own_scope_only [OF s(2) order_refl this sample_scope_ok sample_uuid_ok(1)]
  have scopes: "sameScope (sample_scope ''riyadh'') (sample_scope ''riyadh'')"
    "\<not> sameScope (sample_scope ''riyadh'') (sample_scope ''jeddah'')"
    by (simp_all add: sameScope_def sample_scope_def)
  show ?thesis using look [of "''riyadh''"] look [of "''jeddah''"] s scopes sample_created_view by auto
qed

lemma events_keyed: "mem_inv now s \<Longrightarrow> (i, e) \<in> set (m_events s) \<longleftrightarrow> event_of s i = Some e"
  using mem_inv_distinct by (auto simp: event_of_def dest: map_of_SomeD)

lemma event_of_id: "mem_inv now s \<Longrightarrow> event_of s i = Some e \<Longrightarrow> re_id e = i"
  by (drule (1) mem_invD) (simp add: event_inv_def)

lemma visible_events_iff:
  assumes "mem_inv now s"
  shows "e \<in> set (visible_events s scope) \<longleftrightarrow>
    (\<exists>sc. mem_stored s (re_id e) = Some (sc, e) \<and> sameScope sc scope)"
proof -
  have "e \<in> set (visible_events s scope) \<longleftrightarrow>
      (\<exists>i sc. event_of s i = Some e \<and> m_scopes s i = Some sc \<and> sameScope sc scope)"
    by (auto simp: visible_events_def image_iff events_keyed [OF assms] split: option.splits)
  then show ?thesis using event_of_id [OF assms] by (auto simp: mem_stored_Some)
qed

lemma visible_events_distinct:
  assumes "mem_inv now s"
  shows "distinct (List.map re_id (visible_events s scope))"
proof -
  have "\<forall>(i, e) \<in> set (m_events s). re_id e = i"
    using event_of_id [OF assms] events_keyed [OF assms] by auto
  then have "List.map re_id (visible_events s scope) =
      List.map fst (List.filter (\<lambda>(i, e). case m_scopes s i of
        None \<Rightarrow> False | Some eventScope \<Rightarrow> sameScope eventScope scope) (m_events s))"
    by (auto simp: visible_events_def)
  then show ?thesis using mem_inv_distinct [OF assms] by (simp add: distinct_map_filter)
qed

lemma listed_events_props:
  assumes "mem_inv now s"
  shows "set (listed_events q scope s) = {e. query_matches q e \<and>
      (\<exists>sc. mem_stored s (re_id e) = Some (sc, e) \<and> sameScope sc scope)}"
    and "distinct (List.map re_id (listed_events q scope s))"
    and "sorted_wrt (\<lambda>e e'. re_occurredAt e' \<le> re_occurredAt e) (listed_events q scope s)"
proof -
  show "set (listed_events q scope s) = {e. query_matches q e \<and>
      (\<exists>sc. mem_stored s (re_id e) = Some (sc, e) \<and> sameScope sc scope)}"
    by (auto simp: listed_events_def visible_events_iff [OF assms])
  have "distinct (List.map re_id (List.filter (query_matches q) (visible_events s scope)))"
    using visible_events_distinct [OF assms] by (simp add: distinct_map_filter)
  then show "distinct (List.map re_id (listed_events q scope s))"
    by (simp add: listed_events_def distinct_map)
  have "sorted_wrt (\<le>) (List.map (\<lambda>e. - re_occurredAt e) (listed_events q scope s))"
    by (simp add: listed_events_def)
  then show "sorted_wrt (\<lambda>e e'. re_occurredAt e' \<le> re_occurredAt e) (listed_events q scope s)"
    by (simp add: sorted_wrt_map)
qed

text \<open>listing pages through the caller's own events. There is one sequence of events, latest
  first, holding each stored event of the caller's scope that matches the query exactly once; the
  answer is the window of it the query asks for, as read models, with the length of the whole.\<close>
theorem list_pages_through_own_events:
  assumes "app_run hash now s" and "now \<le> now'"
    and "assertAllowed actor P_list = Inr ()" and "accessScope actor = Inr scope"
    and "0 \<le> lq_offset q" and "0 \<le> lq_limit q"
  shows "\<exists>es views. service_list now' q actor s = (Inr (views, length es), s) \<and>
    set es = {e. query_matches q e \<and>
      (\<exists>sc. mem_stored s (re_id e) = Some (sc, e) \<and> sameScope sc scope)} \<and>
    distinct (List.map re_id es) \<and> sorted_wrt (\<lambda>e e'. re_occurredAt e' \<le> re_occurredAt e) es \<and>
    list_all2 (\<lambda>e v. toRoadEventReadModel now' e = Inr v)
      (take (nat (lq_limit q)) (drop (nat (lq_offset q)) es)) views"
proof -
  have inv: "mem_inv now' s" using app_run_inv [OF assms(1)] assms(2) by (rule mem_inv_mono)
  let ?es = "listed_events q scope s"
  let ?page = "take (nat (lq_limit q)) (drop (nat (lq_offset q)) ?es)"
  have stored: "\<exists>sc. mem_stored s (re_id e) = Some (sc, e)" if "e \<in> set ?es" for e
    using that listed_events_props(1) [OF inv] by auto
  have page: "\<forall>e \<in> set ?page. cloneEvent now' e = Inr (id e)"
    using stored clone_stored [OF inv] by (fastforce simp: mem_stored_Some dest: in_set_takeD in_set_dropD)
  have shown: "\<exists>m. toRoadEventReadModel now' e = Inr m" if "e \<in> set ?page" for e
    using that stored mem_inv_wf [OF inv] toRoadEventReadModel_wf
    by (meson in_set_takeD in_set_dropD)
  define view where "view e = projr (toRoadEventReadModel now' e)" for e
  have views: "\<forall>e \<in> set ?page. toRoadEventReadModel now' e = Inr (view e)"
    using shown by (fastforce simp: view_def)
  have "service_list now' q actor s = (Inr (List.map view ?page, length ?es), s)"
    using assms(3-6) mapE_total [OF page] mapE_total [OF views]
    by (simp add: service_list_def repo_list_def Let_def abind_def js_slice_page)
  moreover have "list_all2 (\<lambda>e v. toRoadEventReadModel now' e = Inr v) ?page (List.map view ?page)"
    using views by (simp add: list_all2_map2 list_all2_same)
  ultimately show ?thesis using listed_events_props [OF inv] by blast
qed

lemma list_singleton: "set xs = {x} \<Longrightarrow> distinct xs \<Longrightarrow> xs = [x]"
  by (cases xs) (auto simp: subset_singleton_iff)

definition sample_query :: RoadEventListQuery where
  "sample_query = \<lparr>lq_statuses = Some [Detected], lq_severities = None, lq_occurredFrom = None,
     lq_occurredTo = None, lq_limit = 10, lq_offset = 0\<rparr>"

theorem list_pages_through_own_events_witness:
  "\<exists>s es. app_run sample_hash 1000 s \<and> sample_created \<in> set es \<and>
    service_list 1000 sample_query (sample_actor OPERATOR ''riyadh'') s =
      (Inr ([sample_view], length es), s)"
proof -
  obtain s where s: "mem_stored s sample_uuid = Some (sample_scope ''riyadh'', sample_created)"
    "m_events s = [(sample_uuid, sample_created)]" "app_run sample_hash 1000 s"
    using sample_run_create by blast
  have "assertAllowed (sample_actor OPERATOR ''riyadh'') P_list = Inr ()"
    "0 \<le> lq_offset sample_query" "0 \<le> lq_limit sample_query"
    by (simp_all add: role_allows_def sample_query_def)
  from list_pages_through_own_events [OF s(3) order_refl this(1) sample_scope_ok this(2,3)]
  obtain es views where run: "service_list 1000 sample_query (sample_actor OPERATOR ''riyadh'') s =
      (Inr (views, length es), s)"
    and es: "set es = {e. query_matches sample_query e \<and>
      (\<exists>sc. mem_stored s (re_id e) = Some (sc, e) \<and> sameScope sc (sample_scope ''riyadh''))}"
    and dist: "distinct (List.map re_id es)"
    and views: "list_all2 (\<lambda>e v. toRoadEventReadModel 1000 e = Inr v)
      (take (nat (lq_limit sample_query)) (drop (nat (lq_offset sample_query)) es)) views" by auto
  have id: "re_id sample_created = sample_uuid" by (simp add: sample_created_def)
  have "e = sample_created" if "mem_stored s i = Some (sc, e)" for i sc e
    using that s(2) by (auto simp: mem_stored_Some event_of_def split: if_splits)
  moreover have "query_matches sample_query sample_created"
    by (simp add: query_matches_def sample_query_def sample_created_def)
  ultimately have "set es = {sample_created}" using es s(1) id by (auto simp: sameScope_def)
  then have "es = [sample_created]" using dist
    by (intro list_singleton) (simp_all add: distinct_map)
  then have "views = [sample_view]"
    using views sample_created_view by (auto simp: sample_query_def list_all2_Cons1)
  then have "sample_created \<in> set [sample_created] \<and> service_list 1000 sample_query
      (sample_actor OPERATOR ''riyadh'') s = (Inr ([sample_view], length [sample_created]), s)"
    using run \<open>es = [sample_created]\<close> by simp
  then show ?thesis using s(3) by blast
qed

section \<open>The audit trail\<close>

fun linked :: "EventSnapshot option \<Rightarrow> AuditTimelineEntry list \<Rightarrow> EventSnapshot option \<Rightarrow> bool" where
  "linked before [] after \<longleftrightarrow> before = after"
| "linked before (x # xs) after \<longleftrightarrow> au_beforeState x = before \<and> linked (au_afterState x) xs after"

lemma linked_snoc: "linked b (xs @ [x]) a \<longleftrightarrow> linked b xs (au_beforeState x) \<and> au_afterState x = a"
  by (induction xs arbitrary: b) auto

text \<open>The status of an entry stays or moves along the transition table, and the version grows by 1.\<close>
definition lawful_entry :: "AuditTimelineEntry \<Rightarrow> bool" where
  "lawful_entry x \<longleftrightarrow> (\<forall>b a. au_beforeState x = Some b \<longrightarrow> au_afterState x = Some a \<longrightarrow>
     sn_id a = sn_id b \<and> sn_version a = sn_version b + 1 \<and>
     (sn_status a = sn_status b \<or>
      (\<exists>ys. allowedTransitions (sn_status b) = Some ys \<and> sn_status a \<in> set ys)))"

definition closes_high :: "AuditTimelineEntry \<Rightarrow> bool" where
  "closes_high x \<longleftrightarrow> (\<exists>b a. au_beforeState x = Some b \<and> au_afterState x = Some a \<and>
     sn_status b \<noteq> Closed \<and> sn_status a = Closed \<and> isHighSeverity (sn_severity a))"

definition supervisor_entry :: "AuditTimelineEntry \<Rightarrow> bool" where
  "supervisor_entry x \<longleftrightarrow> au_action x = ''road_event.closure_authorized'' \<and>
     au_actorType x = ''SUPERVISOR'' \<and> au_actorId x \<noteq> None"

definition trail :: "AuditTimelineEntry list \<Rightarrow> RoadEvent \<Rightarrow> bool" where
  "trail xs e \<longleftrightarrow> linked None xs (Some (eventSnapshot e)) \<and> list_all lawful_entry xs \<and>
     (\<forall>pre x post. xs = pre @ x # post \<longrightarrow> closes_high x \<longrightarrow> list_ex supervisor_entry pre)"

lemma snoc_split: "xs @ [y] = pre @ x # post \<longleftrightarrow>
   (post = [] \<and> pre = xs \<and> x = y) \<or> (\<exists>post'. post = post' @ [y] \<and> xs = pre @ x # post')"
  by (cases post rule: rev_cases) auto

lemma trail_create:
  "trail [audit_entry c None (Some (eventSnapshot e))] e"
  by (auto simp: trail_def audit_entry_def lawful_entry_def closes_high_def Cons_eq_append_conv)

lemma supervisor_backed_iff: "supervisor_backed xs a \<longleftrightarrow>
   (\<exists>y \<in> set xs. supervisor_entry y \<and> au_actorId y = Some (ca_actorId a))"
  unfolding supervisor_backed_def supervisor_entry_def by (rule bex_cong) auto

lemma trail_update:
  assumes "trail xs e0" and "apply_op change e0 = Inr e" and "re_version e0 \<le> max_safe"
    and "\<And>a. re_closureAuthorization e0 = Some a \<Longrightarrow> supervisor_backed xs a"
  shows "trail (xs @ [audit_entry c (Some (eventSnapshot e0)) (Some (eventSnapshot e))]) e"
proof -
  let ?x = "audit_entry c (Some (eventSnapshot e0)) (Some (eventSnapshot e))"
  have "lawful_entry ?x"
    using assms(2,3) by (cases change)
      (auto simp: lawful_entry_def audit_entry_def eventSnapshot_def road_op_Inr num_succ_def)
  moreover have "list_ex supervisor_entry xs" if "closes_high ?x"
  proof -
    have "re_closureAuthorization e0 \<noteq> None"
      using that assms(2) by (cases change)
        (auto simp: closes_high_def audit_entry_def eventSnapshot_def road_op_Inr)
    then show ?thesis using assms(4)
      by (auto simp: supervisor_backed_iff list_ex_iff)
  qed
  ultimately show ?thesis using assms(1)
    by (auto simp: trail_def linked_snoc snoc_split) (auto simp: audit_entry_def)
qed

definition trails_ok :: "mem \<Rightarrow> bool" where
  "trails_ok s \<longleftrightarrow> (\<forall>i e. event_of s i = Some e \<longrightarrow> trail (audit_of s i) e)"

lemma trails_ok_frames [simp]:
  "trails_ok (mem_enter sc k s) = trails_ok s" "trails_ok (mem_leave sc k s) = trails_ok s"
  "trails_ok (mem_record_first sc k r s) = trails_ok s" "trails_ok (mem_attached i s) = trails_ok s"
  by (simp_all add: trails_ok_def)

lemma mem_effect_trails:
  assumes "mem_effect now scope s t" and "mem_inv now s" and "trails_ok s"
  shows "trails_ok t"
  using assms
proof (induction rule: mem_effect.induct)
  case (created s e c)
  have "audit_of s (re_id e) = []"
    using mem_inv_absent [OF created.prems(1) created.hyps(1)] by (simp add: audit_of_def)
  then show ?case using created.prems(2) by (auto simp: trails_ok_def audit_of_commit trail_create)
next
  case (updated s i sc e0 change e c)
  have st: "event_of s i = Some e0" using updated.hyps(1) by (simp add: mem_stored_Some)
  note ev0 = mem_invD [OF updated.prems(1) st]
  then have "re_id e = i" using apply_op_id [OF updated.hyps(3)] by (simp add: event_inv_def)
  moreover have "trail (audit_of s i @ [audit_entry c (Some (eventSnapshot e0)) (Some (eventSnapshot e))]) e"
    using trail_update [OF _ updated.hyps(3)] updated.prems(2) st ev0
    by (auto simp: trails_ok_def event_inv_def)
  ultimately show ?case using updated.prems(2) by (simp add: trails_ok_def audit_of_commit)
qed simp

lemma app_run_trails: "app_run hash now s \<Longrightarrow> trails_ok s"
proof (induction rule: app_run.induct)
  case (app_start now)
  then show ?case by (simp add: trails_ok_def event_of_def empty_mem_def)
next
  case (app_step now s now' cmd ctx r t)
  then have inv: "mem_inv now' s" using app_run_inv mem_inv_mono by blast
  show ?case
  proof (rule execute_command_cases [OF app_step.hyps(3) inv])
    fix scope sc key input v u
    assume "mem_effect now' scope (mem_enter sc key s) u"
      and t: "t = mem_leave sc key (mem_record_first sc key (hash input, v) u)"
    then have "trails_ok u" using mem_effect_trails inv app_step.IH by simp
    then show ?thesis using t by simp
  qed (use app_step.IH in simp)
qed

lemma stored_invD:
  assumes "app_run hash now s" and "mem_stored s i = Some (sc, e)"
  shows "event_inv now i (Some sc) (audit_of s i) e" and "trail (audit_of s i) e"
  using mem_invD [OF app_run_inv [OF assms(1)], of i e] app_run_trails [OF assms(1)] assms(2)
  by (auto simp: mem_stored_Some trails_ok_def)

text \<open>C7: the audit trail of a stored event is its full history. It has one entry per version; the
  first starts from nothing, each starts from the state the one before it ended in, and the last
  ends in the stored state; and every entry after the first raises the version by one and keeps the
  status or moves it along the transition table.\<close>
theorem audit_trail_is_the_history:
  assumes "app_run hash now s" and "mem_stored s i = Some (sc, e)"
  shows "int (length (audit_of s i)) = re_version e \<and>
    linked None (audit_of s i) (Some (eventSnapshot e)) \<and> list_all lawful_entry (audit_of s i)"
  using stored_invD [OF assms] by (simp add: event_inv_def trail_def)

theorem audit_trail_is_the_history_witness:
  "\<exists>s. app_run sample_hash 1000 s \<and>
    linked None (audit_of s sample_uuid) (Some (eventSnapshot sample_created)) \<and>
    length (audit_of s sample_uuid) = 1"
proof -
  obtain s where s: "mem_stored s sample_uuid = Some (sample_scope ''riyadh'', sample_created)"
    "app_run sample_hash 1000 s" using sample_run_create by blast
  have "re_version sample_created = 1" by (simp add: sample_created_def)
  with audit_trail_is_the_history [OF s(2,1)] s(2) show ?thesis by auto
qed



section \<open>Lost updates\<close>

text \<open>The event and the version a command is to update.\<close>
fun command_target :: "app_command \<Rightarrow> (string \<times> js_num) option" where
  "command_target (CmdReassess c) = Some (rs_roadEventId c, rs_expectedVersion c)"
| "command_target (CmdTransition c) = Some (tr_roadEventId c, tr_expectedVersion c)"
| "command_target (CmdAuthorize c) = Some (az_roadEventId c, az_expectedVersion c)"
| "command_target _ = None"

lemma update_moves_version:
  assumes "idempotently hash sc key input
      (update_operation (repo_findById now) (repo_update now) now i scope v change ctx) s = (r, t)"
    and "mem_inv now s" and "op_now now change \<le> now"
  shows "t = s \<or> (\<exists>e0 e. event_of s i = Some e0 \<and> re_version e0 = v \<and>
      event_of t i = Some e \<and> re_version e = v + 1)"
proof (rule idem.call_cases [OF assms(1)])
  fix x u
  assume run: "update_operation (repo_findById now) (repo_update now) now i scope v change ctx
      (mem_enter sc key s) = (Inr x, u)"
    and t: "t = mem_leave sc key (mem_record_first sc key (hash input, x) u)"
  obtain sc' e0 e c where *: "mem_stored (mem_enter sc key s) i = Some (sc', e0)" "re_version e0 = v"
      "apply_op change e0 = Inr e" "u = mem_commit e0 e c (mem_enter sc key s)"
    using repo.update_operation_Inr [OF _ assms(3) run] assms(2) by auto
  then have st: "event_of s i = Some e0" by (simp add: mem_stored_Some)
  have "re_id e = i" "re_version e = v + 1"
    using apply_op_id [OF *(3)] mem_invD [OF assms(2) st] *(2) by (auto simp: event_inv_def num_succ_def)
  then show ?thesis using st * t by auto
next
  fix e e' u
  assume free: "\<not> mem_busy s sc key"
    and run: "update_operation (repo_findById now) (repo_update now) now i scope v change ctx
      (mem_enter sc key s) = (Inl e, u)" and t: "t = mem_leave sc key u"
  have "u = mem_enter sc key s" using repo.update_operation_Inl [OF _ assms(3) run] assms(2) by simp
  then show ?thesis using t free idem.leave_enter by simp
qed simp

lemma target_moves_version:
  assumes "execute_command hash now cmd ctx s = (r, t)" and "mem_inv now s"
    and "command_target cmd = Some (i, v)"
  shows "t = s \<or> (\<exists>e0 e. event_of s i = Some e0 \<and> re_version e0 = int_of_num v \<and>
      event_of t i = Some e \<and> re_version e = int_of_num v + 1)"
proof -
  have v: "validateExpectedVersion v = Inr n \<Longrightarrow> int_of_num v = n" for n
    by (auto simp: validateExpectedVersion_def split: if_splits)
  show ?thesis
  proof (cases cmd)
    case (CmdReassess c)
    then show ?thesis using assms(1,3) v unfolding service_reassessSeverity_def CmdReassess execute_command.simps
      by (elim alift_elim; (simp; fail)?) (drule update_moves_version, rule assms(2), simp, simp)
  next
    case (CmdTransition c)
    then show ?thesis using assms(1,3) v unfolding service_transition_def CmdTransition execute_command.simps
      by (elim alift_elim; (simp; fail)?) (drule update_moves_version, rule assms(2), simp, simp)
  next
    case (CmdAuthorize c)
    then show ?thesis using assms(1,3) v unfolding service_authorizeClosure_def CmdAuthorize execute_command.simps
      by (elim alift_elim; (simp; fail)?) (drule update_moves_version, rule assms(2), simp, simp)
  qed (use assms(3) in simp_all)
qed


definition sample_validating :: RoadEvent where
  "sample_validating = sample_created\<lparr>re_status := Validating, re_version := 2\<rparr>"

lemma idempotently_fresh:
  assumes "token_pattern 7 127 key" and "\<not> mem_busy s sc key" and "mem_lookup s sc key = None"
    and "operation (mem_enter sc key s) = (Inr v, u)" and "fp = hash input"
  shows "idempotently hash sc key input operation s =
    (Inr v, mem_leave sc key (mem_record_first sc key (fp, v) u))"
  using assms
  by (simp add: executeIdempotently_def Let_def requireIdempotencyKey_def acatch_def idem.exclusive_free
      abind_def idem.get_reads idem.put_records idem.lookup_enter)

lemma sample_validating_update:
  assumes "mem_stored s sample_uuid = Some (sample_scope ''riyadh'', sample_created)" and "mem_inv 1000 s"
  shows "\<exists>r c. update_operation (repo_findById 1000) (repo_update 1000) 1000 sample_uuid
      (sample_scope ''riyadh'') 1 (TransitionTo Validating) (write_context 1000 (sample_scope ''riyadh'')
        (sample_ctx (sample_actor OPERATOR ''riyadh'') key) action reason et cid) s =
    (Inr (EventView r), mem_commit sample_created sample_validating c s)"
proof -
  have tr: "transitionTo Validating sample_created = Inr sample_validating"
    by (simp add: transitionTo_def sample_validating_def sample_created_def num_succ_def max_safe_def)
  have wf: "wf_event 1000 sample_validating"
    using apply_op_wf [of "TransitionTo Validating", OF _ sample_created_wf] tr by simp
  obtain m where m: "toRoadEventReadModel 1000 sample_validating = Inr m"
    using toRoadEventReadModel_wf [OF wf] by blast
  have ids: "re_id sample_validating = sample_uuid" "re_version sample_validating = 2"
    "re_version sample_created = 1" by (simp_all add: sample_validating_def sample_created_def)
  have scope: "sameScope (sample_scope ''riyadh'') (sample_scope ''riyadh'')" by (simp add: sameScope_def)
  have store: "repo_update 1000 sample_validating 1 c s = (Inr (), mem_commit sample_created sample_validating c s)"
    if "wc_scope c = sample_scope ''riyadh''" for c
    using repo_update_Inr [OF wf, of 1 c s "()"] assms(1) ids that scope by (simp add: max_safe_def)
  have "requireEvent (repo_findById 1000) sample_uuid (sample_scope ''riyadh'') s = (Inr sample_created, s)"
    using assms scope by (simp add: requireEvent_def repo_findById_Inr abind_def)
  then show ?thesis using tr m store ids
    by (auto simp: update_operation_def sample_context abind_def)
qed

lemma sample_run_transition:
  "\<exists>s t r. app_run sample_hash 1000 s \<and> execute_command sample_hash 1000 (sample_transition Validating 1)
      (sample_ctx (sample_actor OPERATOR ''riyadh'') ''transit-0001'') s = (Inr r, t) \<and> t \<noteq> s"
proof -
  let ?ctx = "sample_ctx (sample_actor OPERATOR ''riyadh'') ''transit-0001''"
  obtain s where s: "mem_stored s sample_uuid = Some (sample_scope ''riyadh'', sample_created)"
    "m_inFlight s = {}" "app_run sample_hash 1000 s"
    and rec: "\<forall>k v. m_records s k = Some v \<longrightarrow> (\<exists>h. k = composite (''road-event:'' @ h) ''create-0001'')"
    using sample_run_create [of sample_hash] by blast
  have key: "composite (''road-event:h'') ''transit-0001'' \<noteq> composite (''road-event:'' @ h) ''create-0001''" for h
    by (cases h rule: rev_cases) (auto simp: composite_def)
  then have none: "m_records s (composite (''road-event:h'') ''transit-0001'') = None"
    using rec by (metis not_None_eq)
  let ?s = "mem_enter ''road-event:h'' ''transit-0001'' s"
  have "mem_stored ?s sample_uuid = Some (sample_scope ''riyadh'', sample_created)" "mem_inv 1000 ?s"
    using s app_run_inv [OF s(3)] by simp_all
  note up = sample_validating_update [OF this]
  obtain r c where up: "update_operation (repo_findById 1000) (repo_update 1000) 1000 sample_uuid
      (sample_scope ''riyadh'') 1 (TransitionTo Validating) (write_context 1000 (sample_scope ''riyadh'')
        ?ctx ''road_event.transitioned'' (Some ''next step'') ''RoadEventTransitioned'' sample_uuid) ?s =
    (Inr (EventView r), mem_commit sample_created sample_validating c ?s)" using up by blast
  have run: "execute_command sample_hash 1000 (sample_transition Validating 1) ?ctx s =
     (Inr (EventView r), mem_leave ''road-event:h'' ''transit-0001'' (mem_record_first ''road-event:h''
        ''transit-0001'' (''h'', EventView r) (mem_commit sample_created sample_validating c ?s)))"
    using s(2) none
    by (simp add: sample_transition_def service_transition_def requireUuid_def requireText_def
        validateExpectedVersion_def max_safe_def deriveRoadEventIdempotencyScope_def sample_hash_def)
      (rule idempotently_fresh, simp_all add: up mem_busy_def mem_lookup_def sample_hash_def)
  have "re_id sample_validating = sample_uuid"
    by (simp add: sample_validating_def sample_created_def)
  then have after: "event_of (mem_leave sc k (mem_record_first sc k x
      (mem_commit sample_created sample_validating c ?s))) sample_uuid = Some sample_validating" for sc k x
    by simp
  have before: "event_of s sample_uuid = Some sample_created" using s(1) by (simp add: mem_stored_Some)
  have "sample_created \<noteq> sample_validating" by (simp add: sample_validating_def sample_created_def)
  then have "t \<noteq> s" if "event_of t sample_uuid = Some sample_validating" for t
    using that before by auto
  with run after s(3) show ?thesis by blast
qed

end
