(* ===== verification/HumanSafety.thy ===== *)
theory HumanSafety
  imports JsDate
begin

text \<open>
  The human-safety contract (\<open>packages/contracts/src/human-safety.ts\<close>): the case state machine
  with its authorities and authorizations, and the validation of signal envelopes. Enumerations
  are closed, as their TypeScript types are; constructors carry a prefix where two enumerations of
  the repository share a literal. Envelopes arrive untyped (\<open>unknown\<close>) and are \<open>json\<close> values, an
  object listing each of its own keys once.
\<close>

section \<open>Enumerations\<close>

datatype HumanSafetyCaseState =
    HS_UNKNOWN | HS_CONTACT_PENDING | HS_CONTACTING | HS_RESPONDED | HS_NO_RESPONSE | HS_UNREACHABLE
  | HS_HUMAN_REVIEW | HS_ESCALATED | HS_TRANSFERRED | HS_MONITORED | HS_RESOLVED

datatype HumanSafetyActorRole =
  HR_SYSTEM | HR_OPERATOR | HR_SUPERVISOR | HR_SAFETY_LEAD | HR_AUDITOR | HR_SIMULATED_CHANNEL

datatype HumanSafetyChannel =
  IN_APP_CHAT | IN_APP_VOICE | CH_PUSH | SMS_SIMULATION | TELEPHONY_SIMULATION | CH_OPERATOR

datatype HumanSafetyAuthority =
    OPEN_CASE | START_CONTACT | UPDATE_CONTACT_OUTCOME | RECORD_STRUCTURED_INDICATOR | ESCALATE
  | TAKE_OVER_CONTACT | TRANSFER | MONITOR | AUTHORIZE_HIGH_RISK_RESOLUTION | RESOLVE

definition HUMAN_SAFETY_REPLAY_POLICY_VERSION :: string where
  "HUMAN_SAFETY_REPLAY_POLICY_VERSION = ''ros-eye.replay.v2''"
definition HUMAN_SAFETY_UNCERTAINTY_POLICY_VERSION :: string where
  "HUMAN_SAFETY_UNCERTAINTY_POLICY_VERSION = ''ros-eye.uncertainty-resolution.v1''"
definition HUMAN_SAFETY_REPLAY_TTL_MS :: int where
  "HUMAN_SAFETY_REPLAY_TTL_MS = 15 * 60 * 1000"
definition HUMAN_SAFETY_ALLOWED_CLOCK_SKEW_MS :: int where
  "HUMAN_SAFETY_ALLOWED_CLOCK_SKEW_MS = 5 * 60 * 1000"
definition HUMAN_SAFETY_MAX_SIGNAL_AGE_MS :: int where
  "HUMAN_SAFETY_MAX_SIGNAL_AGE_MS = 30 * 60 * 1000"

lemmas human_safety_limits = HUMAN_SAFETY_REPLAY_TTL_MS_def HUMAN_SAFETY_ALLOWED_CLOCK_SKEW_MS_def
  HUMAN_SAFETY_MAX_SIGNAL_AGE_MS_def

fun HUMAN_SAFETY_ROLE_AUTHORITIES :: "HumanSafetyActorRole \<Rightarrow> HumanSafetyAuthority list" where
  "HUMAN_SAFETY_ROLE_AUTHORITIES HR_SYSTEM = [OPEN_CASE, START_CONTACT, UPDATE_CONTACT_OUTCOME, ESCALATE]"
| "HUMAN_SAFETY_ROLE_AUTHORITIES HR_OPERATOR = [START_CONTACT, UPDATE_CONTACT_OUTCOME,
     RECORD_STRUCTURED_INDICATOR, ESCALATE, TAKE_OVER_CONTACT, TRANSFER, MONITOR, RESOLVE]"
| "HUMAN_SAFETY_ROLE_AUTHORITIES HR_SUPERVISOR = [OPEN_CASE, START_CONTACT, UPDATE_CONTACT_OUTCOME,
     RECORD_STRUCTURED_INDICATOR, ESCALATE, TAKE_OVER_CONTACT, TRANSFER, MONITOR,
     AUTHORIZE_HIGH_RISK_RESOLUTION, RESOLVE]"
| "HUMAN_SAFETY_ROLE_AUTHORITIES HR_SAFETY_LEAD = [OPEN_CASE, START_CONTACT, UPDATE_CONTACT_OUTCOME,
     RECORD_STRUCTURED_INDICATOR, ESCALATE, TAKE_OVER_CONTACT, TRANSFER, MONITOR,
     AUTHORIZE_HIGH_RISK_RESOLUTION, RESOLVE]"
| "HUMAN_SAFETY_ROLE_AUTHORITIES HR_AUDITOR = []"
| "HUMAN_SAFETY_ROLE_AUTHORITIES HR_SIMULATED_CHANNEL = []"

definition ROLE_PRIORITY :: "HumanSafetyActorRole list" where
  "ROLE_PRIORITY = [HR_SAFETY_LEAD, HR_SUPERVISOR, HR_OPERATOR, HR_SYSTEM, HR_AUDITOR, HR_SIMULATED_CHANNEL]"

datatype HumanSafetyReactivationCause =
    LATE_HIGH_RISK_SIGNAL | CONTRADICTORY_INDICATOR | EVIDENCE_CORRECTION | DEPENDENCY_RECOVERY_FINDING
  | OtherCause string

definition REACTIVATION_CAUSES :: "HumanSafetyReactivationCause list" where
  "REACTIVATION_CAUSES = [LATE_HIGH_RISK_SIGNAL, CONTRADICTORY_INDICATOR, EVIDENCE_CORRECTION,
     DEPENDENCY_RECOVERY_FINDING]"

fun cause_name :: "HumanSafetyReactivationCause \<Rightarrow> string" where
  "cause_name LATE_HIGH_RISK_SIGNAL = ''LATE_HIGH_RISK_SIGNAL''"
| "cause_name CONTRADICTORY_INDICATOR = ''CONTRADICTORY_INDICATOR''"
| "cause_name EVIDENCE_CORRECTION = ''EVIDENCE_CORRECTION''"
| "cause_name DEPENDENCY_RECOVERY_FINDING = ''DEPENDENCY_RECOVERY_FINDING''"
| "cause_name (OtherCause s) = s"

definition SAFETY_INDICATOR_CODES :: "string list" where
  "SAFETY_INDICATOR_CODES = [''PERSON_RESPONDED'', ''PERSON_NOT_RESPONDING'', ''COMMUNICATION_INTERRUPTED'',
     ''HELP_REQUESTED'', ''POSSIBLE_IMMEDIATE_DANGER'', ''LOCATION_UNCERTAIN'',
     ''MULTIPLE_PEOPLE_REPORTED'', ''CONTRADICTORY_RESPONSE'', ''ACCESSIBILITY_SUPPORT_REQUIRED'']"

datatype Connectivity = HEALTHY | DEGRADED_LINK | LOST
datatype EvidenceQuality = TRUSTED | AMBIGUOUS | CONFLICTING | MISSING
datatype CaseSeverity = S0 | S1 | S2 | S3 | S4

section \<open>Cases, authorizations and contexts\<close>

text \<open>Versions and revisions are the integers the case repository stores.\<close>
record HighRiskResolutionAuthorization =
  hra_caseId :: string
  hra_decision :: string
  hra_actorId :: string
  hra_role :: HumanSafetyActorRole
  hra_authorizedAt :: string
  hra_expiresAt :: string
  hra_caseVersion :: int
  hra_severityAssessmentVersion :: int
  hra_evidenceRevision :: int
  hra_indicatorRevision :: int
  hra_connectivity :: Connectivity
  hra_dependenciesHealthy :: bool

record HumanSafetyUncertaintyResolutionAuthorization =
  ura_caseId :: string
  ura_decision :: string
  ura_actorId :: string
  ura_role :: HumanSafetyActorRole
  ura_policyVersion :: string
  ura_authorizedAt :: string
  ura_expiresAt :: string
  ura_caseVersion :: int
  ura_severityAssessmentVersion :: int
  ura_evidenceRevision :: int
  ura_indicatorRevision :: int
  ura_resolvedEvidenceQuality :: EvidenceQuality

text \<open>The part of a case the decision reads (\<open>Pick<HumanSafetyCaseContract, ...>\<close>).\<close>
record HumanSafetyCase =
  hsc_id :: string
  hsc_state :: HumanSafetyCaseState
  hsc_severity :: CaseSeverity
  hsc_version :: int
  hsc_severityAssessmentVersion :: int
  hsc_evidenceRevision :: int
  hsc_indicatorRevision :: int
  hsc_highRiskResolutionAuthorization :: "HighRiskResolutionAuthorization option"

record HumanSafetyTransitionContext =
  htc_actorId :: string
  htc_actorRoles :: "HumanSafetyActorRole list"
  htc_reason :: string
  htc_traceId :: string
  htc_occurredAt :: string
  htc_connectivity :: Connectivity
  htc_evidenceQuality :: EvidenceQuality
  htc_dependenciesHealthy :: bool
  htc_uncertaintyResolutionAuthorization :: "HumanSafetyUncertaintyResolutionAuthorization option"
  htc_reactivationCause :: "HumanSafetyReactivationCause option"

datatype FailureBehavior = FB_REJECT | FB_HUMAN_REVIEW | FB_ESCALATE

record HumanSafetyTransitionDecision =
  htd_allowed :: bool
  htd_nextState :: HumanSafetyCaseState
  htd_auditAction :: string
  htd_requiredAuthority :: "HumanSafetyAuthority option"
  htd_evaluatedAuthority :: "HumanSafetyAuthority option"
  htd_authorizedByRole :: "HumanSafetyActorRole option"
  htd_failureBehavior :: FailureBehavior
  htd_reasonCode :: string

section \<open>Transitions\<close>

fun HUMAN_SAFETY_ALLOWED_TRANSITIONS :: "HumanSafetyCaseState \<Rightarrow> HumanSafetyCaseState list" where
  "HUMAN_SAFETY_ALLOWED_TRANSITIONS HS_UNKNOWN = [HS_CONTACT_PENDING, HS_HUMAN_REVIEW, HS_ESCALATED]"
| "HUMAN_SAFETY_ALLOWED_TRANSITIONS HS_CONTACT_PENDING = [HS_CONTACTING, HS_HUMAN_REVIEW, HS_ESCALATED]"
| "HUMAN_SAFETY_ALLOWED_TRANSITIONS HS_CONTACTING =
     [HS_RESPONDED, HS_NO_RESPONSE, HS_UNREACHABLE, HS_HUMAN_REVIEW, HS_ESCALATED]"
| "HUMAN_SAFETY_ALLOWED_TRANSITIONS HS_RESPONDED = [HS_HUMAN_REVIEW, HS_ESCALATED, HS_TRANSFERRED, HS_MONITORED]"
| "HUMAN_SAFETY_ALLOWED_TRANSITIONS HS_NO_RESPONSE = [HS_CONTACTING, HS_HUMAN_REVIEW, HS_ESCALATED]"
| "HUMAN_SAFETY_ALLOWED_TRANSITIONS HS_UNREACHABLE = [HS_CONTACTING, HS_HUMAN_REVIEW, HS_ESCALATED]"
| "HUMAN_SAFETY_ALLOWED_TRANSITIONS HS_HUMAN_REVIEW = [HS_ESCALATED, HS_TRANSFERRED, HS_MONITORED]"
| "HUMAN_SAFETY_ALLOWED_TRANSITIONS HS_ESCALATED = [HS_TRANSFERRED, HS_MONITORED]"
| "HUMAN_SAFETY_ALLOWED_TRANSITIONS HS_TRANSFERRED = [HS_MONITORED]"
| "HUMAN_SAFETY_ALLOWED_TRANSITIONS HS_MONITORED = [HS_HUMAN_REVIEW, HS_ESCALATED, HS_RESOLVED]"
| "HUMAN_SAFETY_ALLOWED_TRANSITIONS HS_RESOLVED = [HS_HUMAN_REVIEW, HS_ESCALATED]"

text \<open>\<open>TRANSITION_AUTHORITIES\<close>, keyed there by the string \<open>current->requested\<close>.\<close>
definition TRANSITION_AUTHORITIES ::
  "((HumanSafetyCaseState \<times> HumanSafetyCaseState) \<times> HumanSafetyAuthority) list" where
  "TRANSITION_AUTHORITIES = [
     ((HS_UNKNOWN, HS_CONTACT_PENDING), OPEN_CASE), ((HS_UNKNOWN, HS_HUMAN_REVIEW), ESCALATE),
     ((HS_UNKNOWN, HS_ESCALATED), ESCALATE), ((HS_CONTACT_PENDING, HS_CONTACTING), START_CONTACT),
     ((HS_CONTACT_PENDING, HS_HUMAN_REVIEW), ESCALATE), ((HS_CONTACT_PENDING, HS_ESCALATED), ESCALATE),
     ((HS_CONTACTING, HS_RESPONDED), UPDATE_CONTACT_OUTCOME),
     ((HS_CONTACTING, HS_NO_RESPONSE), UPDATE_CONTACT_OUTCOME),
     ((HS_CONTACTING, HS_UNREACHABLE), UPDATE_CONTACT_OUTCOME),
     ((HS_CONTACTING, HS_HUMAN_REVIEW), ESCALATE), ((HS_CONTACTING, HS_ESCALATED), ESCALATE),
     ((HS_RESPONDED, HS_HUMAN_REVIEW), ESCALATE), ((HS_RESPONDED, HS_ESCALATED), ESCALATE),
     ((HS_RESPONDED, HS_TRANSFERRED), TRANSFER), ((HS_RESPONDED, HS_MONITORED), MONITOR),
     ((HS_NO_RESPONSE, HS_CONTACTING), START_CONTACT), ((HS_NO_RESPONSE, HS_HUMAN_REVIEW), ESCALATE),
     ((HS_NO_RESPONSE, HS_ESCALATED), ESCALATE), ((HS_UNREACHABLE, HS_CONTACTING), START_CONTACT),
     ((HS_UNREACHABLE, HS_HUMAN_REVIEW), ESCALATE), ((HS_UNREACHABLE, HS_ESCALATED), ESCALATE),
     ((HS_HUMAN_REVIEW, HS_ESCALATED), ESCALATE), ((HS_HUMAN_REVIEW, HS_TRANSFERRED), TRANSFER),
     ((HS_HUMAN_REVIEW, HS_MONITORED), MONITOR), ((HS_ESCALATED, HS_TRANSFERRED), TRANSFER),
     ((HS_ESCALATED, HS_MONITORED), MONITOR), ((HS_TRANSFERRED, HS_MONITORED), MONITOR),
     ((HS_MONITORED, HS_HUMAN_REVIEW), ESCALATE), ((HS_MONITORED, HS_ESCALATED), ESCALATE),
     ((HS_MONITORED, HS_RESOLVED), RESOLVE), ((HS_RESOLVED, HS_HUMAN_REVIEW), ESCALATE),
     ((HS_RESOLVED, HS_ESCALATED), ESCALATE)]"

fun case_state_name :: "HumanSafetyCaseState \<Rightarrow> string" where
  "case_state_name HS_UNKNOWN = ''UNKNOWN''"
| "case_state_name HS_CONTACT_PENDING = ''CONTACT_PENDING''"
| "case_state_name HS_CONTACTING = ''CONTACTING''"
| "case_state_name HS_RESPONDED = ''RESPONDED''"
| "case_state_name HS_NO_RESPONSE = ''NO_RESPONSE''"
| "case_state_name HS_UNREACHABLE = ''UNREACHABLE''"
| "case_state_name HS_HUMAN_REVIEW = ''HUMAN_REVIEW''"
| "case_state_name HS_ESCALATED = ''ESCALATED''"
| "case_state_name HS_TRANSFERRED = ''TRANSFERRED''"
| "case_state_name HS_MONITORED = ''MONITORED''"
| "case_state_name HS_RESOLVED = ''RESOLVED''"

definition HIGH_RISK :: "CaseSeverity list" where "HIGH_RISK = [S3, S4]"
definition UNRESOLVED_EVIDENCE :: "EvidenceQuality list" where
  "UNRESOLVED_EVIDENCE = [AMBIGUOUS, CONFLICTING, MISSING]"
definition DEESCALATING_TO_MONITORED :: "HumanSafetyCaseState list" where
  "DEESCALATING_TO_MONITORED = [HS_HUMAN_REVIEW, HS_ESCALATED, HS_TRANSFERRED]"

definition authorityForTransition ::
  "HumanSafetyCaseState \<Rightarrow> HumanSafetyCaseState \<Rightarrow> HumanSafetyAuthority option" where
  "authorityForTransition current requested = map_of TRANSITION_AUTHORITIES (current, requested)"

definition authorizedRole ::
  "HumanSafetyActorRole list \<Rightarrow> HumanSafetyAuthority \<Rightarrow> HumanSafetyActorRole option" where
  "authorizedRole roles authority = List.find (\<lambda>role. role \<in> set roles \<and>
     authority \<in> set (HUMAN_SAFETY_ROLE_AUTHORITIES role)) ROLE_PRIORITY"

text \<open>\<open>x !== null && y !== null && z !== null && y <= x && x < z && y < z\<close> for an occurrence and
  the validity period of an authorization.\<close>
definition chronology_ok :: "time_value \<Rightarrow> time_value \<Rightarrow> time_value \<Rightarrow> bool" where
  "chronology_ok occurredAt authorizedAt expiresAt \<longleftrightarrow> (case (occurredAt, authorizedAt, expiresAt) of
     (Some x, Some y, Some z) \<Rightarrow> y \<le> x \<and> x < z \<and> y < z | _ \<Rightarrow> False)"

definition validUncertaintyResolution :: "HumanSafetyCase \<Rightarrow> HumanSafetyTransitionContext \<Rightarrow> bool" where
  "validUncertaintyResolution current context =
     (case htc_uncertaintyResolutionAuthorization context of None \<Rightarrow> False
      | Some a \<Rightarrow>
          chronology_ok (dateParse (htc_occurredAt context)) (dateParse (ura_authorizedAt a))
            (dateParse (ura_expiresAt a)) \<and>
          ura_caseId a = hsc_id current \<and> ura_decision a = ''ALLOW_MONITORING'' \<and>
          ura_actorId a = htc_actorId context \<and> ura_role a \<in> set (htc_actorRoles context) \<and>
          authorizedRole (htc_actorRoles context) MONITOR \<noteq> None \<and>
          ura_policyVersion a = HUMAN_SAFETY_UNCERTAINTY_POLICY_VERSION \<and>
          ura_caseVersion a = hsc_version current \<and>
          ura_severityAssessmentVersion a = hsc_severityAssessmentVersion current \<and>
          ura_evidenceRevision a = hsc_evidenceRevision current \<and>
          ura_indicatorRevision a = hsc_indicatorRevision current \<and>
          ura_resolvedEvidenceQuality a = htc_evidenceQuality context)"

text \<open>The test \<open>fresh\<close> of the high-risk branch.\<close>
definition fresh_authorization ::
  "HumanSafetyCase \<Rightarrow> HumanSafetyTransitionContext \<Rightarrow> HighRiskResolutionAuthorization \<Rightarrow> bool" where
  "fresh_authorization current context a \<longleftrightarrow>
     hra_caseId a = hsc_id current \<and> hra_decision a = ''RESOLVE'' \<and>
     hra_caseVersion a = hsc_version current \<and>
     hra_severityAssessmentVersion a = hsc_severityAssessmentVersion current \<and>
     hra_evidenceRevision a = hsc_evidenceRevision current \<and>
     hra_indicatorRevision a = hsc_indicatorRevision current \<and>
     hra_connectivity a = htc_connectivity context \<and>
     hra_dependenciesHealthy a = htc_dependenciesHealthy context \<and>
     hra_actorId a = htc_actorId context \<and> hra_role a \<in> set (htc_actorRoles context) \<and>
     chronology_ok (dateParse (htc_occurredAt context)) (dateParse (hra_authorizedAt a))
       (dateParse (hra_expiresAt a))"

definition decision ::
  "bool \<Rightarrow> HumanSafetyCaseState \<Rightarrow> string \<Rightarrow> HumanSafetyAuthority option \<Rightarrow> HumanSafetyAuthority option \<Rightarrow>
   HumanSafetyActorRole option \<Rightarrow> FailureBehavior \<Rightarrow> string \<Rightarrow> HumanSafetyTransitionDecision" where
  "decision ok st act required evaluated role behavior reason =
     \<lparr>htd_allowed = ok, htd_nextState = st, htd_auditAction = act, htd_requiredAuthority = required,
       htd_evaluatedAuthority = evaluated, htd_authorizedByRole = role,
       htd_failureBehavior = behavior, htd_reasonCode = reason\<rparr>"

text \<open>The high-risk branch: an S3 or S4 case is resolved only under a fresh authorization.\<close>
definition decideHighRiskResolution ::
  "HumanSafetyCase \<Rightarrow> HumanSafetyTransitionContext \<Rightarrow> HumanSafetyAuthority \<Rightarrow> HumanSafetyTransitionDecision" where
  "decideHighRiskResolution current context required =
    (let authorization = hsc_highRiskResolutionAuthorization current;
         fresh = (case authorization of None \<Rightarrow> False | Some a \<Rightarrow> fresh_authorization current context a);
         resolutionRole = authorizedRole (htc_actorRoles context) RESOLVE;
         authorizationRole = authorizedRole (htc_actorRoles context) AUTHORIZE_HIGH_RISK_RESOLUTION
     in if \<not> fresh \<or> resolutionRole = None \<or> authorizationRole = None \<or>
          authorizationRole \<noteq> map_option hra_role authorization
        then decision False HS_HUMAN_REVIEW ''human_safety.high_risk_resolution_rejected''
          (Some AUTHORIZE_HIGH_RISK_RESOLUTION) (Some AUTHORIZE_HIGH_RISK_RESOLUTION)
          authorizationRole FB_HUMAN_REVIEW
          (if authorization = None then ''human_authority_required'' else ''stale_or_invalid_authorization'')
        else decision True HS_RESOLVED ''human_safety.transitioned.resolved'' (Some required)
          (Some required) resolutionRole FB_REJECT ''approved'')"

text \<open>A resolved case is only reopened, for a declared cause.\<close>
definition decideReactivation :: "HumanSafetyCaseState \<Rightarrow> HumanSafetyTransitionContext \<Rightarrow>
    HumanSafetyAuthority \<Rightarrow> HumanSafetyActorRole \<Rightarrow> HumanSafetyTransitionDecision" where
  "decideReactivation requestedState context required role = (case htc_reactivationCause context of
       None \<Rightarrow> decision False HS_RESOLVED ''human_safety.reactivation_rejected'' (Some required)
         (Some required) (Some role) FB_REJECT ''reactivation_cause_required''
     | Some cause \<Rightarrow>
       if cause \<notin> set REACTIVATION_CAUSES
       then decision False HS_RESOLVED ''human_safety.reactivation_rejected'' (Some required)
         (Some required) (Some role) FB_REJECT ''reactivation_cause_required''
       else decision True requestedState
         (if requestedState = HS_ESCALATED then ''human_safety.resolved_case_escalated''
          else ''human_safety.resolved_case_reopened_for_review'')
         (Some required) (Some required) (Some role)
         (if requestedState = HS_ESCALATED then FB_ESCALATE else FB_HUMAN_REVIEW)
         (''reactivated_'' @ toLowerCase (cause_name cause) @ ''_prior_authorization_invalidated''))"

text \<open>The checks of a case that is not resolved.\<close>
definition decideActive :: "HumanSafetyCase \<Rightarrow> HumanSafetyCaseState \<Rightarrow> HumanSafetyTransitionContext \<Rightarrow>
    HumanSafetyAuthority \<Rightarrow> HumanSafetyActorRole \<Rightarrow> HumanSafetyTransitionDecision" where
  "decideActive current requestedState context required role =
    (let deEscalating = requestedState = HS_MONITORED \<and> hsc_state current \<in> set DEESCALATING_TO_MONITORED;
         held = (if hsc_state current = HS_ESCALATED then HS_ESCALATED else HS_HUMAN_REVIEW);
         behavior = (if hsc_state current = HS_ESCALATED then FB_ESCALATE else FB_HUMAN_REVIEW);
         unresolved = htc_evidenceQuality context \<in> set UNRESOLVED_EVIDENCE
     in
     if htc_connectivity context = LOST \<and> requestedState \<notin> {HS_HUMAN_REVIEW, HS_ESCALATED}
     then decision False HS_ESCALATED ''human_safety.connectivity_loss_escalated'' (Some ESCALATE)
       (Some ESCALATE) (authorizedRole (htc_actorRoles context) ESCALATE) FB_ESCALATE ''connectivity_lost''
     else if requestedState = HS_RESOLVED \<and> \<not> htc_dependenciesHealthy context
     then decision False HS_ESCALATED ''human_safety.dependency_resolution_blocked'' (Some required)
       (Some required) (Some role) FB_ESCALATE ''dependencies_unhealthy''
     else if deEscalating \<and> \<not> htc_dependenciesHealthy context
     then decision False held ''human_safety.dependency_deescalation_blocked'' (Some required)
       (Some required) (Some role) behavior ''dependencies_unhealthy''
     else if deEscalating \<and> unresolved \<and> \<not> validUncertaintyResolution current context
     then decision False held ''human_safety.uncertainty_deescalation_blocked'' (Some required)
       (Some required) (Some role) behavior ''unresolved_evidence_requires_versioned_authorization''
     else if unresolved \<and> requestedState = HS_RESOLVED
     then decision False HS_HUMAN_REVIEW ''human_safety.ambiguous_resolution_blocked''
       (Some AUTHORIZE_HIGH_RISK_RESOLUTION) (Some AUTHORIZE_HIGH_RISK_RESOLUTION)
       (authorizedRole (htc_actorRoles context) AUTHORIZE_HIGH_RISK_RESOLUTION)
       FB_HUMAN_REVIEW ''evidence_not_trusted''
     else if requestedState = HS_RESOLVED \<and> hsc_severity current \<in> set HIGH_RISK
     then decideHighRiskResolution current context required
     else decision True requestedState
       (''human_safety.transitioned.'' @ toLowerCase (case_state_name requestedState))
       (Some required) (Some required) (Some role) FB_REJECT ''approved'')"

definition decideHumanSafetyTransition :: "HumanSafetyCase \<Rightarrow> HumanSafetyCaseState \<Rightarrow>
    HumanSafetyTransitionContext \<Rightarrow> HumanSafetyTransitionDecision" where
  "decideHumanSafetyTransition current requestedState context =
    (if \<not> nonEmpty (htc_actorId context) \<or> \<not> nonEmpty (htc_reason context) \<or>
        \<not> nonEmpty (htc_traceId context) \<or> dateParse (htc_occurredAt context) = None
     then decision False HS_HUMAN_REVIEW ''human_safety.invalid_transition_context'' None None None
       FB_HUMAN_REVIEW ''invalid_transition_context''
     else if requestedState \<notin> set (HUMAN_SAFETY_ALLOWED_TRANSITIONS (hsc_state current))
     then decision False (hsc_state current) ''human_safety.transition_rejected'' None None None
       FB_REJECT ''invalid_transition''
     else case authorityForTransition (hsc_state current) requestedState of
       None \<Rightarrow> decision False (hsc_state current) ''human_safety.authority_policy_missing'' None None None
         FB_REJECT ''transition_authority_undefined''
     | Some required \<Rightarrow>
       (case authorizedRole (htc_actorRoles context) required of
         None \<Rightarrow> decision False (hsc_state current) ''human_safety.authority_rejected'' (Some required)
           (Some required) None FB_REJECT ''actor_not_authorized''
       | Some role \<Rightarrow>
         if hsc_state current = HS_RESOLVED then decideReactivation requestedState context required role
         else decideActive current requestedState context required role))"

lemma decision_simps [simp]:
  "htd_allowed (decision ok st act q v role beh reason) = ok"
  "htd_nextState (decision ok st act q v role beh reason) = st"
  "htd_requiredAuthority (decision ok st act q v role beh reason) = q"
  "htd_authorizedByRole (decision ok st act q v role beh reason) = role"
  "htd_failureBehavior (decision ok st act q v role beh reason) = beh"
  "htd_reasonCode (decision ok st act q v role beh reason) = reason"
  by (simp_all add: decision_def)

section \<open>Signal envelopes\<close>

text \<open>\<open>input[key]\<close> of an object; \<open>None\<close> is \<open>undefined\<close>.\<close>
definition field :: "(string \<times> json) list \<Rightarrow> string \<Rightarrow> json option" where
  "field fs k = map_of fs k"

definition has_only :: "(string \<times> json) list \<Rightarrow> string list \<Rightarrow> bool" where
  "has_only fs ks \<longleftrightarrow> list_all (\<lambda>(k, v). k \<in> set ks) fs"

text \<open>\<open>names.includes(String(value))\<close> for names of letters, digits and underscores that do not read
  as a number, \<open>true\<close>, \<open>false\<close>, \<open>null\<close> or \<open>undefined\<close>: a string, or arrays around one.\<close>
fun string_among :: "string list \<Rightarrow> json \<Rightarrow> bool" where
  "string_among names (JStr s) = (s \<in> set names)"
| "string_among names (JArr [v]) = string_among names v"
| "string_among names _ = False"

definition string_among_opt :: "string list \<Rightarrow> json option \<Rightarrow> bool" where
  "string_among_opt names v = (case v of None \<Rightarrow> False | Some j \<Rightarrow> string_among names j)"

definition is_str :: "json option \<Rightarrow> (string \<Rightarrow> bool) \<Rightarrow> bool" where
  "is_str v p \<longleftrightarrow> (case v of Some (JStr s) \<Rightarrow> p s | _ \<Rightarrow> False)"

definition is_num :: "json option \<Rightarrow> (rat \<Rightarrow> bool) \<Rightarrow> bool" where
  "is_num v p \<longleftrightarrow> (case v of Some (JNum (Num q)) \<Rightarrow> p q | _ \<Rightarrow> False)"

definition validIdentifier :: "json option \<Rightarrow> bool" where
  "validIdentifier v = is_str v (token_pattern 2 127)"

definition probability :: "json option \<Rightarrow> bool" where
  "probability v = is_num v (\<lambda>q. 0 \<le> q \<and> q \<le> 1)"

definition payloadMatchesSource :: "json option \<Rightarrow> string \<Rightarrow> bool" where
  "payloadMatchesSource sourceType kind \<longleftrightarrow> (case sourceType of Some (JStr s) \<Rightarrow>
     (s, kind) \<in> set [(''PHONE'', ''PHONE_MOTION''), (''VEHICLE'', ''VEHICLE_EVENT''),
       (''PERSON'', ''PERSON_REPORT''), (''OPERATOR'', ''OPERATOR_OBSERVATION''),
       (''INFRASTRUCTURE'', ''INFRASTRUCTURE_METADATA''), (''SIMULATION'', ''SIMULATION_FIXTURE'')]
     | _ \<Rightarrow> False)"

definition payloadKeys :: "string \<Rightarrow> string list option" where
  "payloadKeys kind = map_of [(''PHONE_MOTION'', [''kind'', ''accelerationMagnitude'', ''impactDetected'']),
     (''VEHICLE_EVENT'', [''kind'', ''eventCode'', ''confidence'']),
     (''PERSON_REPORT'', [''kind'', ''indicatorCodes'']),
     (''OPERATOR_OBSERVATION'', [''kind'', ''indicatorCodes'']),
     (''INFRASTRUCTURE_METADATA'', [''kind'', ''sensorType'', ''confidence'']),
     (''SIMULATION_FIXTURE'', [''kind'', ''fixtureId''])] kind"

definition validIndicatorCodes :: "json option \<Rightarrow> bool" where
  "validIndicatorCodes v \<longleftrightarrow> (case v of Some (JArr xs) \<Rightarrow> xs \<noteq> [] \<and> distinct xs \<and>
     list_all (\<lambda>x. is_str (Some x) (\<lambda>s. s \<in> set SAFETY_INDICATOR_CODES)) xs | _ \<Rightarrow> False)"

definition validPayload :: "(string \<times> json) list \<Rightarrow> bool" where
  "validPayload p \<longleftrightarrow>
     (let kind = field p ''kind'' in
      if kind = Some (JStr ''PHONE_MOTION'') then
        is_num (field p ''accelerationMagnitude'') (\<lambda>q. 0 \<le> q) \<and>
        (case field p ''impactDetected'' of Some (JBool b) \<Rightarrow> True | _ \<Rightarrow> False)
      else if kind = Some (JStr ''VEHICLE_EVENT'') then
        string_among_opt [''IMPACT'', ''AIRBAG'', ''HARD_BRAKE'', ''ROLLOVER''] (field p ''eventCode'') \<and>
        probability (field p ''confidence'')
      else if kind = Some (JStr ''PERSON_REPORT'') \<or> kind = Some (JStr ''OPERATOR_OBSERVATION'') then
        validIndicatorCodes (field p ''indicatorCodes'')
      else if kind = Some (JStr ''INFRASTRUCTURE_METADATA'') then
        string_among_opt [''CAMERA_METADATA'', ''ROAD_SENSOR''] (field p ''sensorType'') \<and>
        probability (field p ''confidence'')
      else if kind = Some (JStr ''SIMULATION_FIXTURE'') then validIdentifier (field p ''fixtureId'')
      else False)"

definition validLocation :: "json option \<Rightarrow> bool" where
  "validLocation v \<longleftrightarrow> (case v of
       Some JNull \<Rightarrow> True
     | Some (JObj l) \<Rightarrow>
         has_only l [''latitude'', ''longitude'', ''accuracyMeters'', ''classification''] \<and>
         is_num (field l ''latitude'') (\<lambda>q. - 90 \<le> q \<and> q \<le> 90) \<and>
         is_num (field l ''longitude'') (\<lambda>q. - 180 \<le> q \<and> q \<le> 180) \<and>
         is_num (field l ''accuracyMeters'') (\<lambda>q. 0 < q \<and> q \<le> 100000) \<and>
         field l ''classification'' = Some (JStr ''PRECISE_RESTRICTED'')
     | _ \<Rightarrow> False)"

definition validPurposeBoundary :: "(string \<times> json) list \<Rightarrow> bool" where
  "validPurposeBoundary e \<longleftrightarrow>
     (if field e ''sourceType'' = Some (JStr ''SIMULATION'') then
        field e ''consentBasis'' = Some (JStr ''SIMULATION'') \<and>
        field e ''retentionClass'' = Some (JStr ''SIMULATION_ONLY'') \<and>
        field e ''dataClassification'' = Some (JStr ''OPERATIONAL'') \<and> field e ''location'' = Some JNull
      else if field e ''sourceType'' = Some (JStr ''OPERATOR'') then
        field e ''consentBasis'' = Some (JStr ''OPERATOR_ENTERED'') \<and>
        field e ''retentionClass'' = Some (JStr ''SHORT_LIVED_SIGNAL_METADATA'') \<and>
        field e ''dataClassification'' = Some (JStr ''SENSITIVE_RESTRICTED'')
      else string_among_opt [''EXPLICIT'', ''EMERGENCY_SAFETY_REVIEW''] (field e ''consentBasis'') \<and>
        field e ''retentionClass'' = Some (JStr ''SHORT_LIVED_SIGNAL_METADATA'') \<and>
        field e ''dataClassification'' = Some (JStr ''SENSITIVE_RESTRICTED''))"

datatype SignalValidationDisposition = SV_ACCEPT | SV_QUARANTINE | SV_HUMAN_REVIEW

record HumanSafetySignalValidationDecision =
  svd_accepted :: bool
  svd_disposition :: SignalValidationDisposition
  svd_reasonCode :: string

definition signalDecision ::
  "bool \<Rightarrow> SignalValidationDisposition \<Rightarrow> string \<Rightarrow> HumanSafetySignalValidationDecision" where
  "signalDecision ok disp reason = \<lparr>svd_accepted = ok, svd_disposition = disp, svd_reasonCode = reason\<rparr>"

definition str_time :: "json option \<Rightarrow> time_value" where
  "str_time v = (case v of Some (JStr s) \<Rightarrow> dateParse s | _ \<Rightarrow> None)"

definition envelopeKeys :: "string list" where
  "envelopeKeys = [''signalId'', ''schemaVersion'', ''purposePolicyVersion'', ''dataClassification'',
     ''retentionClass'', ''sourceType'', ''sourceId'', ''occurredAt'', ''receivedAt'', ''consentBasis'',
     ''integrity'', ''location'', ''payload'']"

definition chronological :: "time_value \<Rightarrow> time_value \<Rightarrow> bool" where
  "chronological occurredAt receivedAt \<longleftrightarrow> occurredAt \<noteq> None \<and> receivedAt \<noteq> None \<and> \<not> tv_lt receivedAt occurredAt"

definition validateHumanSafetySignalEnvelope :: "json \<Rightarrow> HumanSafetySignalValidationDecision" where
  "validateHumanSafetySignalEnvelope input = (case input of JObj e \<Rightarrow>
     (if \<not> has_only e envelopeKeys then signalDecision False SV_QUARANTINE ''unknown_envelope_field''
      else if field e ''schemaVersion'' \<noteq> Some (JStr ''ros-eye.signal.v1'') \<or>
        field e ''purposePolicyVersion'' \<noteq> Some (JStr ''ros-eye.purpose.v1'')
      then signalDecision False SV_QUARANTINE ''unsupported_policy_or_schema''
      else if \<not> validIdentifier (field e ''signalId'') \<or> \<not> validIdentifier (field e ''sourceId'')
      then signalDecision False SV_QUARANTINE ''invalid_identifier''
      else if \<not> chronological (str_time (field e ''occurredAt'')) (str_time (field e ''receivedAt''))
      then signalDecision False SV_QUARANTINE ''invalid_signal_chronology''
      else case field e ''integrity'' of Some (JObj i) \<Rightarrow>
        (if \<not> has_only i [''replayToken'', ''signatureStatus'', ''clockSkewMs''] \<or>
            \<not> is_str (field i ''replayToken'') nonEmpty \<or> \<not> is_num (field i ''clockSkewMs'') (\<lambda>q. True)
         then signalDecision False SV_QUARANTINE ''invalid_integrity_metadata''
         else if \<not> string_among_opt [''VERIFIED'', ''UNVERIFIED'', ''INVALID''] (field i ''signatureStatus'')
         then signalDecision False SV_QUARANTINE ''invalid_integrity_metadata''
         else if field i ''signatureStatus'' = Some (JStr ''INVALID'')
         then signalDecision False SV_QUARANTINE ''invalid_signature''
         else if field i ''signatureStatus'' \<noteq> Some (JStr ''VERIFIED'')
         then signalDecision False SV_HUMAN_REVIEW ''signature_unverified''
         else if is_num (field i ''clockSkewMs'') (\<lambda>q. of_int HUMAN_SAFETY_ALLOWED_CLOCK_SKEW_MS < \<bar>q\<bar>)
         then signalDecision False SV_HUMAN_REVIEW ''clock_skew_exceeded''
         else if \<not> validLocation (field e ''location'')
         then signalDecision False SV_QUARANTINE ''invalid_location''
         else case field e ''payload'' of Some (JObj p) \<Rightarrow>
           (case field p ''kind'' of Some (JStr kind) \<Rightarrow>
             (if \<not> payloadMatchesSource (field e ''sourceType'') kind
              then signalDecision False SV_HUMAN_REVIEW ''source_payload_mismatch''
              else if payloadKeys kind = None \<or> \<not> has_only p (the (payloadKeys kind))
              then signalDecision False SV_QUARANTINE ''unknown_or_sensitive_payload_field''
              else if \<not> validPayload p
              then signalDecision False SV_QUARANTINE ''invalid_payload_value''
              else if \<not> validPurposeBoundary e
              then signalDecision False SV_QUARANTINE ''purpose_classification_mismatch''
              else signalDecision False SV_HUMAN_REVIEW ''structurally_valid_replay_check_required'')
            | _ \<Rightarrow> signalDecision False SV_QUARANTINE ''invalid_payload'')
         | _ \<Rightarrow> signalDecision False SV_QUARANTINE ''invalid_payload'')
      | _ \<Rightarrow> signalDecision False SV_QUARANTINE ''invalid_integrity_metadata'')
   | _ \<Rightarrow> signalDecision False SV_QUARANTINE ''invalid_envelope'')"

text \<open>The strings of an envelope that \<open>isHumanSafetySignalEnvelope\<close> accepts.\<close>
record SignalStrings =
  ss_signalId :: string
  ss_sourceId :: string
  ss_occurredAt :: string
  ss_receivedAt :: string
  ss_replayToken :: string

definition isHumanSafetySignalEnvelope :: "json \<Rightarrow> SignalStrings option" where
  "isHumanSafetySignalEnvelope v = (case v of JObj e \<Rightarrow> (case field e ''integrity'' of Some (JObj i) \<Rightarrow>
       (case (field e ''signalId'', field e ''sourceId'', field e ''occurredAt'', field e ''receivedAt'',
           field i ''replayToken'') of
         (Some (JStr a), Some (JStr b), Some (JStr c), Some (JStr d), Some (JStr t)) \<Rightarrow>
           Some \<lparr>ss_signalId = a, ss_sourceId = b, ss_occurredAt = c, ss_receivedAt = d, ss_replayToken = t\<rparr>
       | _ \<Rightarrow> None)
     | _ \<Rightarrow> None) | _ \<Rightarrow> None)"

section \<open>Acceptance\<close>

datatype ReplayNonceConsumeResult = RN_CONSUMED | RN_DUPLICATE | RN_EXPIRED | RN_UNAVAILABLE | RN_NOT_ATTEMPTED

record ReplayNonceConsumeRequest =
  rq_policyVersion :: string
  rq_nonceDigest :: string
  rq_scopeDigest :: string
  rq_expiresAt :: string

record HumanSafetySignalAcceptanceDecision = HumanSafetySignalValidationDecision +
  sad_replayScopeDigest :: "string option"
  sad_replayConsumeResult :: ReplayNonceConsumeResult
  sad_replayExpiresAt :: "string option"

definition acceptanceDecision :: "HumanSafetySignalValidationDecision \<Rightarrow> string option \<Rightarrow>
    ReplayNonceConsumeResult \<Rightarrow> string option \<Rightarrow> HumanSafetySignalAcceptanceDecision" where
  "acceptanceDecision structural scopeDigest result expires =
     \<lparr>svd_accepted = svd_accepted structural, svd_disposition = svd_disposition structural,
       svd_reasonCode = svd_reasonCode structural, sad_replayScopeDigest = scopeDigest,
       sad_replayConsumeResult = result, sad_replayExpiresAt = expires\<rparr>"

text \<open>The scope material, its parts joined with \<open>|\<close>; the last part is \<open>String(900000)\<close>.\<close>
definition scopeMaterial :: "SignalStrings \<Rightarrow> string" where
  "scopeMaterial e = HUMAN_SAFETY_REPLAY_POLICY_VERSION @ ''|'' @ ss_sourceId e @ ''|'' @ ss_signalId e @
     ''|ros-eye.signal.v1|ros-eye.purpose.v1|900000''"

text \<open>The two ports: \<open>digest\<close> may throw, \<open>consume\<close> is an action on the state of the registry that may
  throw. \<open>Left ()\<close> is any exception; every one is caught. An expiry outside the range of dates makes
  \<open>toISOString\<close> throw a RangeError before the \<open>try\<close>: that is the outcome \<open>Left ()\<close> of the whole.\<close>
definition acceptHumanSafetySignalEnvelope ::
  "(string \<Rightarrow> unit + string) \<Rightarrow>
   (ReplayNonceConsumeRequest \<Rightarrow> ('s, unit, ReplayNonceConsumeResult) action) \<Rightarrow>
   json \<Rightarrow> string \<Rightarrow> ('s, unit, HumanSafetySignalAcceptanceDecision) action" where
  "acceptHumanSafetySignalEnvelope digest consume input evaluatedAt =
    (let structural = validateHumanSafetySignalEnvelope input in
     case isHumanSafetySignalEnvelope input of
       None \<Rightarrow> aret (acceptanceDecision structural None RN_NOT_ATTEMPTED None)
     | Some e \<Rightarrow>
       if svd_reasonCode structural \<noteq> ''structurally_valid_replay_check_required''
       then aret (acceptanceDecision structural None RN_NOT_ATTEMPTED None)
       else case (dateParse evaluatedAt, dateParse (ss_occurredAt e), dateParse (ss_receivedAt e)) of
         (Some evaluatedAtMs, Some occurredAtMs, Some receivedAtMs) \<Rightarrow>
           let latest = evaluatedAtMs + HUMAN_SAFETY_ALLOWED_CLOCK_SKEW_MS;
               expiresAtMs = min receivedAtMs evaluatedAtMs + HUMAN_SAFETY_REPLAY_TTL_MS in
           if latest < receivedAtMs \<or> latest < occurredAtMs
           then aret (acceptanceDecision (signalDecision False SV_QUARANTINE ''signal_timestamp_in_future'')
             None RN_NOT_ATTEMPTED None)
           else if HUMAN_SAFETY_MAX_SIGNAL_AGE_MS < evaluatedAtMs - occurredAtMs
           then aret (acceptanceDecision (signalDecision False SV_HUMAN_REVIEW
             ''stale_signal_requires_human_review'') None RN_NOT_ATTEMPTED None)
           else (case toISO expiresAtMs of None \<Rightarrow> athrow ()
             | Some replayExpiresAt \<Rightarrow>
               if expiresAtMs \<le> evaluatedAtMs
               then aret (acceptanceDecision (signalDecision False SV_QUARANTINE ''replay_token_expired'')
                 None RN_EXPIRED (Some replayExpiresAt))
               else acatch
                 (abind (alift (digest (ss_replayToken e))) (\<lambda>nonceDigest.
                  if \<not> hex64 nonceDigest
                  then aret (acceptanceDecision (signalDecision False SV_QUARANTINE
                    ''invalid_replay_token_digest'') None RN_UNAVAILABLE (Some replayExpiresAt))
                  else abind (alift (digest (scopeMaterial e))) (\<lambda>scopeDigest.
                  if \<not> hex64 scopeDigest
                  then aret (acceptanceDecision (signalDecision False SV_QUARANTINE
                    ''invalid_replay_scope_digest'') None RN_UNAVAILABLE (Some replayExpiresAt))
                  else abind (consume \<lparr>rq_policyVersion = HUMAN_SAFETY_REPLAY_POLICY_VERSION,
                      rq_nonceDigest = nonceDigest, rq_scopeDigest = scopeDigest,
                      rq_expiresAt = replayExpiresAt\<rparr>) (\<lambda>result.
                  if result \<noteq> RN_CONSUMED
                  then aret (acceptanceDecision (signalDecision False
                      (if result = RN_UNAVAILABLE then SV_HUMAN_REVIEW else SV_QUARANTINE)
                      (if result = RN_DUPLICATE then ''replay_detected''
                       else if result = RN_EXPIRED then ''replay_token_expired''
                       else ''replay_registry_unavailable''))
                    (Some scopeDigest) result (Some replayExpiresAt))
                  else aret (acceptanceDecision (signalDecision True SV_ACCEPT
                      ''accepted_after_atomic_replay_consume'')
                    (Some scopeDigest) result (Some replayExpiresAt))))))
                 (\<lambda>_. aret (acceptanceDecision (signalDecision False SV_HUMAN_REVIEW
                    ''replay_registry_unavailable'') None RN_UNAVAILABLE (Some replayExpiresAt))))
       | _ \<Rightarrow> aret (acceptanceDecision (signalDecision False SV_QUARANTINE ''invalid_acceptance_time'')
           None RN_NOT_ATTEMPTED None))"

section \<open>What a transition decision guarantees\<close>

lemma authorizedRole_Some:
  "authorizedRole roles q = Some r \<Longrightarrow> r \<in> set roles \<and> q \<in> set (HUMAN_SAFETY_ROLE_AUTHORITIES r)"
  by (auto simp: authorizedRole_def find_Some_iff)

lemma chronology_ok_iff: "chronology_ok x y z \<longleftrightarrow>
   (\<exists>occ from until. x = Some occ \<and> y = Some from \<and> z = Some until \<and> from \<le> occ \<and> occ < until)"
  by (auto simp: chronology_ok_def split: option.splits)

lemma UNRESOLVED_iff: "q \<in> set UNRESOLVED_EVIDENCE \<longleftrightarrow> q \<noteq> TRUSTED"
  by (cases q) (auto simp: UNRESOLVED_EVIDENCE_def)

text \<open>The four checks of an active case, as one condition.\<close>
definition active_checks ::
  "HumanSafetyCase \<Rightarrow> HumanSafetyCaseState \<Rightarrow> HumanSafetyTransitionContext \<Rightarrow> bool" where
  "active_checks current requested context \<longleftrightarrow>
     (htc_connectivity context = LOST \<longrightarrow> requested \<in> {HS_HUMAN_REVIEW, HS_ESCALATED}) \<and>
     (requested = HS_RESOLVED \<longrightarrow> htc_dependenciesHealthy context \<and> htc_evidenceQuality context = TRUSTED) \<and>
     (requested = HS_MONITORED \<and> hsc_state current \<in> set DEESCALATING_TO_MONITORED \<longrightarrow>
        htc_dependenciesHealthy context \<and>
        (htc_evidenceQuality context = TRUSTED \<or> validUncertaintyResolution current context))"

text \<open>What an approval of a case that is not resolved implies, beyond the table and the role.\<close>
definition approval_conditions ::
  "HumanSafetyCase \<Rightarrow> HumanSafetyCaseState \<Rightarrow> HumanSafetyTransitionContext \<Rightarrow> bool" where
  "approval_conditions current requested context \<longleftrightarrow> active_checks current requested context \<and>
     (requested = HS_RESOLVED \<and> hsc_severity current \<in> set HIGH_RISK \<longrightarrow>
        (\<exists>a. hsc_highRiskResolutionAuthorization current = Some a \<and> fresh_authorization current context a \<and>
          authorizedRole (htc_actorRoles context) AUTHORIZE_HIGH_RISK_RESOLUTION = Some (hra_role a)))"

definition approved_as :: "HumanSafetyCase \<Rightarrow> HumanSafetyCaseState \<Rightarrow> HumanSafetyTransitionContext \<Rightarrow>
    HumanSafetyTransitionDecision \<Rightarrow> bool" where
  "approved_as current requested context d \<longleftrightarrow>
     requested \<in> set (HUMAN_SAFETY_ALLOWED_TRANSITIONS (hsc_state current)) \<and>
     htd_nextState d = requested \<and>
     (\<exists>q r. authorityForTransition (hsc_state current) requested = Some q \<and>
       htd_requiredAuthority d = Some q \<and> htd_authorizedByRole d = Some r \<and>
       authorizedRole (htc_actorRoles context) q \<noteq> None \<and>
       (authorizedRole (htc_actorRoles context) q = Some r \<or>
        requested = HS_RESOLVED \<and> authorizedRole (htc_actorRoles context) RESOLVE = Some r)) \<and>
     (hsc_state current = HS_RESOLVED \<or> approval_conditions current requested context)"

lemma decideHighRisk_allowed:
  "decideHighRiskResolution current context required = d \<Longrightarrow> htd_allowed d \<Longrightarrow>
   htd_nextState d = HS_RESOLVED \<and> htd_requiredAuthority d = Some required \<and>
   htd_authorizedByRole d = authorizedRole (htc_actorRoles context) RESOLVE \<and>
   authorizedRole (htc_actorRoles context) RESOLVE \<noteq> None \<and>
   (\<exists>a. hsc_highRiskResolutionAuthorization current = Some a \<and> fresh_authorization current context a \<and>
     authorizedRole (htc_actorRoles context) AUTHORIZE_HIGH_RISK_RESOLUTION = Some (hra_role a))"
  by (auto simp: decideHighRiskResolution_def Let_def split: if_splits option.splits)

lemma decideReactivation_allowed:
  "decideReactivation requested context required role = d \<Longrightarrow> htd_allowed d \<Longrightarrow>
   htd_nextState d = requested \<and> htd_requiredAuthority d = Some required \<and>
   htd_authorizedByRole d = Some role \<and> (\<exists>cause \<in> set REACTIVATION_CAUSES. htc_reactivationCause context = Some cause)"
  by (auto simp: decideReactivation_def split: if_splits option.splits)

lemma decideActive_checked:
  assumes "active_checks current requested context"
  shows "decideActive current requested context required role =
    (if requested = HS_RESOLVED \<and> hsc_severity current \<in> set HIGH_RISK
     then decideHighRiskResolution current context required
     else decision True requested (''human_safety.transitioned.'' @ toLowerCase (case_state_name requested))
       (Some required) (Some required) (Some role) FB_REJECT ''approved'')"
proof -
  let ?deEscalating = "requested = HS_MONITORED \<and> hsc_state current \<in> set DEESCALATING_TO_MONITORED"
  have guards:
    "(htc_connectivity context = LOST \<and> requested \<notin> {HS_HUMAN_REVIEW, HS_ESCALATED}) = False"
    "(requested = HS_RESOLVED \<and> \<not> htc_dependenciesHealthy context) = False"
    "(?deEscalating \<and> \<not> htc_dependenciesHealthy context) = False"
    "(?deEscalating \<and> htc_evidenceQuality context \<noteq> TRUSTED \<and>
      \<not> validUncertaintyResolution current context) = False"
    "(htc_evidenceQuality context \<noteq> TRUSTED \<and> requested = HS_RESOLVED) = False"
    using assms unfolding active_checks_def by blast+
  show ?thesis unfolding decideActive_def Let_def UNRESOLVED_iff guards if_False ..
qed

lemma decideActive_unchecked:
  "\<not> active_checks current requested context \<Longrightarrow>
   \<not> htd_allowed (decideActive current requested context required role)"
  unfolding active_checks_def decideActive_def Let_def UNRESOLVED_iff
  by (simp only: decision_simps simp_thms if_distrib [of htd_allowed] split: if_split) blast

lemma decideActive_allowed:
  assumes "decideActive current requested context required role = d" and "htd_allowed d"
  shows "approval_conditions current requested context \<and> htd_nextState d = requested \<and>
    htd_requiredAuthority d = Some required \<and> (htd_authorizedByRole d = Some role \<or>
      requested = HS_RESOLVED \<and> htd_authorizedByRole d = authorizedRole (htc_actorRoles context) RESOLVE \<and>
      authorizedRole (htc_actorRoles context) RESOLVE \<noteq> None)"
proof -
  have checks: "active_checks current requested context"
    using assms decideActive_unchecked by blast
  note d = decideActive_checked [OF this, of required role, unfolded assms(1)]
  show ?thesis
  proof (cases "requested = HS_RESOLVED \<and> hsc_severity current \<in> set HIGH_RISK")
    case True
    then have "decideHighRiskResolution current context required = d" using d by simp
    note high = decideHighRisk_allowed [OF this assms(2)]
    then show ?thesis using True checks by (simp add: approval_conditions_def)
  next
    case False
    then have "approval_conditions current requested context"
      using checks by (auto simp: approval_conditions_def)
    then show ?thesis using d False by (simp split: if_splits)
  qed
qed

lemma decide_allowed:
  assumes d: "decideHumanSafetyTransition current requested context = d" and ok: "htd_allowed d"
  shows "approved_as current requested context d"
proof -
  have table: "requested \<in> set (HUMAN_SAFETY_ALLOWED_TRANSITIONS (hsc_state current))"
    using assms by (auto simp: decideHumanSafetyTransition_def split: if_splits)
  obtain q r where q: "authorityForTransition (hsc_state current) requested = Some q"
    and r: "authorizedRole (htc_actorRoles context) q = Some r"
    using assms by (auto simp: decideHumanSafetyTransition_def split: if_splits option.splits)
  have d: "d = (if hsc_state current = HS_RESOLVED then decideReactivation requested context q r
      else decideActive current requested context q r)"
    using assms q r table by (auto simp: decideHumanSafetyTransition_def split: if_splits)
  show ?thesis
  proof (cases "hsc_state current = HS_RESOLVED")
    case True
    then have "decideReactivation requested context q r = d" using d by simp
    from decideReactivation_allowed [OF this ok] show ?thesis using table q r True
      by (auto simp: approved_as_def)
  next
    case False
    then have "decideActive current requested context q r = d" using d by simp
    from decideActive_allowed [OF this ok] show ?thesis using table q r
      by (auto simp: approved_as_def)
  qed
qed

lemma resolved_from_monitored:
  "HS_RESOLVED \<in> set (HUMAN_SAFETY_ALLOWED_TRANSITIONS st) \<Longrightarrow> st = HS_MONITORED"
  by (cases st) simp_all

lemma monitored_resolution_authority: "authorityForTransition HS_MONITORED HS_RESOLVED = Some RESOLVE"
  by (simp add: authorityForTransition_def TRANSITION_AUTHORITIES_def)

lemma approved_role:
  assumes "approved_as current requested context d"
  obtains q r where "htd_requiredAuthority d = Some q" "htd_authorizedByRole d = Some r"
    "authorityForTransition (hsc_state current) requested = Some q"
    "authorizedRole (htc_actorRoles context) q = Some r"
proof -
  obtain q r where q: "authorityForTransition (hsc_state current) requested = Some q"
    "htd_requiredAuthority d = Some q" "htd_authorizedByRole d = Some r"
    and r: "authorizedRole (htc_actorRoles context) q = Some r \<or>
        requested = HS_RESOLVED \<and> authorizedRole (htc_actorRoles context) RESOLVE = Some r"
    using assms unfolding approved_as_def by blast
  have "q = RESOLVE" if "requested = HS_RESOLVED"
    using assms that q(1) resolved_from_monitored [of "hsc_state current"] monitored_resolution_authority
    by (auto simp: approved_as_def)
  then show thesis using that q r by blast
qed

text \<open>an approved transition follows the transition table, ends in the requested state, and names
  an authority and a role such that the acting actor has the role and the role has the authority the
  policy requires for exactly this transition.\<close>
theorem approved_transition_has_authority:
  assumes "htd_allowed (decideHumanSafetyTransition current requested context)"
  shows "requested \<in> set (HUMAN_SAFETY_ALLOWED_TRANSITIONS (hsc_state current)) \<and>
    htd_nextState (decideHumanSafetyTransition current requested context) = requested \<and>
    (\<exists>q r. authorityForTransition (hsc_state current) requested = Some q \<and>
      htd_requiredAuthority (decideHumanSafetyTransition current requested context) = Some q \<and>
      htd_authorizedByRole (decideHumanSafetyTransition current requested context) = Some r \<and>
      r \<in> set (htc_actorRoles context) \<and> q \<in> set (HUMAN_SAFETY_ROLE_AUTHORITIES r))"
proof -
  have ok: "approved_as current requested context (decideHumanSafetyTransition current requested context)"
    using decide_allowed [OF refl assms] .
  obtain q r where q: "htd_requiredAuthority (decideHumanSafetyTransition current requested context) = Some q"
    "htd_authorizedByRole (decideHumanSafetyTransition current requested context) = Some r"
    "authorityForTransition (hsc_state current) requested = Some q"
    "authorizedRole (htc_actorRoles context) q = Some r" by (rule approved_role [OF ok])
  then show ?thesis using ok authorizedRole_Some [OF q(4)] by (simp add: approved_as_def)
qed

definition sample_resolution :: HighRiskResolutionAuthorization where
  "sample_resolution = \<lparr>hra_caseId = ''case-1'', hra_decision = ''RESOLVE'', hra_actorId = ''lead-1'',
     hra_role = HR_SUPERVISOR, hra_authorizedAt = ''1970-01-01T00:00:01.000Z'',
     hra_expiresAt = ''1970-01-01T00:01:00.000Z'', hra_caseVersion = 7, hra_severityAssessmentVersion = 2,
     hra_evidenceRevision = 3, hra_indicatorRevision = 4, hra_connectivity = HEALTHY,
     hra_dependenciesHealthy = True\<rparr>"

definition sample_case :: "HumanSafetyCaseState \<Rightarrow> HumanSafetyCase" where
  "sample_case st = \<lparr>hsc_id = ''case-1'', hsc_state = st, hsc_severity = S4, hsc_version = 7,
     hsc_severityAssessmentVersion = 2, hsc_evidenceRevision = 3, hsc_indicatorRevision = 4,
     hsc_highRiskResolutionAuthorization = Some sample_resolution\<rparr>"

definition sample_context ::
  "HumanSafetyActorRole \<Rightarrow> EvidenceQuality \<Rightarrow> HumanSafetyTransitionContext" where
  "sample_context role quality = \<lparr>htc_actorId = ''lead-1'', htc_actorRoles = [role], htc_reason = ''checked'',
     htc_traceId = ''trace-1'', htc_occurredAt = ''1970-01-01T00:00:02.000Z'', htc_connectivity = HEALTHY,
     htc_evidenceQuality = quality, htc_dependenciesHealthy = True,
     htc_uncertaintyResolutionAuthorization = None, htc_reactivationCause = None\<rparr>"

lemma sample_context_strings [simp]:
  "nonEmpty ''lead-1''" "nonEmpty ''checked''" "nonEmpty ''trace-1''"
  "dateParse ''1970-01-01T00:00:01.000Z'' = Some 1000"
  "dateParse ''1970-01-01T00:00:02.000Z'' = Some 2000"
  "dateParse ''1970-01-01T00:01:00.000Z'' = Some 60000"
  by code_simp+

lemma sample_resolution_approved:
  "htd_allowed (decideHumanSafetyTransition (sample_case HS_MONITORED) HS_RESOLVED
     (sample_context HR_SUPERVISOR TRUSTED))"
  by (simp add: decideHumanSafetyTransition_def sample_case_def sample_context_def sample_resolution_def
      monitored_resolution_authority authorizedRole_def ROLE_PRIORITY_def decideActive_def Let_def
      decideHighRiskResolution_def fresh_authorization_def chronology_ok_def UNRESOLVED_iff
      DEESCALATING_TO_MONITORED_def HIGH_RISK_def)

theorem approved_transition_has_authority_witness:
  "htd_nextState (decideHumanSafetyTransition (sample_case HS_MONITORED) HS_RESOLVED
     (sample_context HR_SUPERVISOR TRUSTED)) = HS_RESOLVED"
  using approved_transition_has_authority [OF sample_resolution_approved] by simp



lemma judgement_authority:
  "authorityForTransition st requested = Some q \<Longrightarrow> requested \<in> {HS_TRANSFERRED, HS_MONITORED, HS_RESOLVED} \<Longrightarrow>
   q \<in> {TRANSFER, MONITOR, RESOLVE}"
  by (cases st; cases requested) (simp_all add: authorityForTransition_def TRANSITION_AUTHORITIES_def)



lemma decideActive_refused:
  assumes "\<not> htd_allowed (decideActive current requested context required role)"
  shows "htd_nextState (decideActive current requested context required role) = HS_ESCALATED \<or>
    hsc_state current \<noteq> HS_ESCALATED \<and>
      htd_nextState (decideActive current requested context required role) = HS_HUMAN_REVIEW \<or>
    requested = HS_RESOLVED \<and>
      htd_nextState (decideActive current requested context required role) = HS_HUMAN_REVIEW"
proof (cases "active_checks current requested context")
  case True
  have "htd_nextState (decideHighRiskResolution current context required) = HS_HUMAN_REVIEW"
    if "\<not> htd_allowed (decideHighRiskResolution current context required)"
    using that by (simp add: decideHighRiskResolution_def Let_def split: if_splits)
  then show ?thesis using assms by (simp add: decideActive_checked [OF True] split: if_splits)
next
  case False
  then show ?thesis
    unfolding active_checks_def decideActive_def Let_def UNRESOLVED_iff
    by (simp only: decision_simps simp_thms if_distrib [of htd_nextState] split: if_split) blast
qed

lemma decide_refused_context:
  "\<not> nonEmpty (htc_actorId context) \<or> \<not> nonEmpty (htc_reason context) \<or>
     \<not> nonEmpty (htc_traceId context) \<or> dateParse (htc_occurredAt context) = None \<Longrightarrow>
   decideHumanSafetyTransition current requested context = decision False HS_HUMAN_REVIEW
     ''human_safety.invalid_transition_context'' None None None FB_HUMAN_REVIEW ''invalid_transition_context''"
  unfolding decideHumanSafetyTransition_def by (simp only: if_True)

lemma decide_refused:
  assumes "\<not> htd_allowed (decideHumanSafetyTransition current requested context)"
    and ctx: "nonEmpty (htc_actorId context)" "nonEmpty (htc_reason context)" "nonEmpty (htc_traceId context)"
      "dateParse (htc_occurredAt context) \<noteq> None"
  shows "htd_nextState (decideHumanSafetyTransition current requested context) = hsc_state current \<or>
    (\<exists>q r. decideHumanSafetyTransition current requested context = decideActive current requested context q r \<and>
      requested \<in> set (HUMAN_SAFETY_ALLOWED_TRANSITIONS (hsc_state current)))"
proof -
  obtain occ where occ: "dateParse (htc_occurredAt context) = Some occ" using ctx(4) by blast
  note unfold = decideHumanSafetyTransition_def [of current requested "context"]
  note keep = HUMAN_SAFETY_ALLOWED_TRANSITIONS.simps
  show ?thesis
  proof (cases "requested \<in> set (HUMAN_SAFETY_ALLOWED_TRANSITIONS (hsc_state current))")
    case table: True
    show ?thesis
    proof (cases "authorityForTransition (hsc_state current) requested")
      case authority: (Some q)
      show ?thesis
      proof (cases "authorizedRole (htc_actorRoles context) q")
        case role: (Some r)
        have d: "decideHumanSafetyTransition current requested context =
            (if hsc_state current = HS_RESOLVED then decideReactivation requested context q r
             else decideActive current requested context q r)"
          by (simp only: unfold ctx occ table authority role simp_thms option.simps if_True if_False)
        show ?thesis
        proof (cases "hsc_state current = HS_RESOLVED")
          case True
          then show ?thesis using assms(1) d
            by (auto simp: decideReactivation_def split: if_splits option.splits)
        next
          case False
          then show ?thesis using d table by auto
        qed
      qed (simp only: unfold ctx occ table authority simp_thms option.simps if_True if_False decision_simps)
    qed (simp only: unfold ctx occ table simp_thms option.simps if_True if_False decision_simps)
  qed (simp only: unfold ctx occ simp_thms option.simps if_True if_False decision_simps)
qed

text \<open>A refused decision is fail-safe. It proposes no state but the current one, human review or
  escalation, and it never proposes to lower an escalated case as long as its context is well formed.\<close>
theorem refusal_is_fail_safe:
  assumes "\<not> htd_allowed (decideHumanSafetyTransition current requested context)"
  shows "htd_nextState (decideHumanSafetyTransition current requested context) \<in>
      {hsc_state current, HS_HUMAN_REVIEW, HS_ESCALATED} \<and>
    (hsc_state current = HS_ESCALATED \<longrightarrow>
      htd_reasonCode (decideHumanSafetyTransition current requested context) \<noteq> ''invalid_transition_context'' \<longrightarrow>
      htd_nextState (decideHumanSafetyTransition current requested context) = HS_ESCALATED)"
proof (cases "\<not> nonEmpty (htc_actorId context) \<or> \<not> nonEmpty (htc_reason context) \<or>
    \<not> nonEmpty (htc_traceId context) \<or> dateParse (htc_occurredAt context) = None")
  case True
  then show ?thesis by (simp add: decide_refused_context)
next
  case False
  then consider "htd_nextState (decideHumanSafetyTransition current requested context) = hsc_state current"
    | q r where "decideHumanSafetyTransition current requested context = decideActive current requested context q r"
        "requested \<in> set (HUMAN_SAFETY_ALLOWED_TRANSITIONS (hsc_state current))"
    using decide_refused [OF assms] by blast
  then show ?thesis
  proof cases
    case (2 q r)
    then show ?thesis using decideActive_refused [of current requested "context" q r] assms
        resolved_from_monitored [of "hsc_state current"] by auto
  qed simp
qed

theorem refusal_is_fail_safe_witness:
  "\<not> htd_allowed (decideHumanSafetyTransition (sample_case HS_ESCALATED) HS_MONITORED
     (sample_context HR_OPERATOR AMBIGUOUS)) \<and>
   htd_nextState (decideHumanSafetyTransition (sample_case HS_ESCALATED) HS_MONITORED
     (sample_context HR_OPERATOR AMBIGUOUS)) = HS_ESCALATED"
proof -
  have no: "\<not> htd_allowed (decideHumanSafetyTransition (sample_case HS_ESCALATED) HS_MONITORED
     (sample_context HR_OPERATOR AMBIGUOUS))"
    by (simp add: decideHumanSafetyTransition_def sample_case_def sample_context_def authorityForTransition_def
        TRANSITION_AUTHORITIES_def authorizedRole_def ROLE_PRIORITY_def decideActive_def Let_def
        UNRESOLVED_iff DEESCALATING_TO_MONITORED_def validUncertaintyResolution_def)
  have "htd_reasonCode (decideHumanSafetyTransition (sample_case HS_ESCALATED) HS_MONITORED
     (sample_context HR_OPERATOR AMBIGUOUS)) \<noteq> ''invalid_transition_context''"
    by (simp add: decideHumanSafetyTransition_def sample_case_def sample_context_def authorityForTransition_def
        TRANSITION_AUTHORITIES_def authorizedRole_def ROLE_PRIORITY_def decideActive_def Let_def
        UNRESOLVED_iff DEESCALATING_TO_MONITORED_def validUncertaintyResolution_def)
  with refusal_is_fail_safe [OF no] no show ?thesis by (simp add: sample_case_def)
qed

section \<open>What acceptance guarantees\<close>

lemma validate_never_accepts: "\<not> svd_accepted (validateHumanSafetySignalEnvelope input)"
  by (simp add: validateHumanSafetySignalEnvelope_def signalDecision_def split: json.splits option.splits)

lemma acceptanceDecision_accepted [simp]:
  "svd_accepted (acceptanceDecision d scope result expires) = svd_accepted d"
  by (simp add: acceptanceDecision_def)

lemma signalDecision_accepted [simp]: "svd_accepted (signalDecision ok disp reason) = ok"
  by (simp add: signalDecision_def)

text \<open>an envelope is accepted only after its replay token was consumed. The one call to the registry
  answered \<open>CONSUMED\<close> for the digest of the token and of the envelope's scope; the envelope is
  structurally valid, was received and occurred not later than the allowed clock skew after the
  evaluation, occurred at most 30 minutes before it, and its token has not expired.\<close>
theorem acceptance_consumes_the_token:
  assumes "acceptHumanSafetySignalEnvelope digest consume input evaluatedAt s = (Inr d, t)"
    and "svd_accepted d"
  shows "\<exists>e evaluated occurred received nonce scope expires.
    isHumanSafetySignalEnvelope input = Some e \<and>
    svd_reasonCode (validateHumanSafetySignalEnvelope input) = ''structurally_valid_replay_check_required'' \<and>
    dateParse evaluatedAt = Some evaluated \<and> dateParse (ss_occurredAt e) = Some occurred \<and>
    dateParse (ss_receivedAt e) = Some received \<and>
    occurred \<le> evaluated + HUMAN_SAFETY_ALLOWED_CLOCK_SKEW_MS \<and>
    received \<le> evaluated + HUMAN_SAFETY_ALLOWED_CLOCK_SKEW_MS \<and>
    evaluated - occurred \<le> HUMAN_SAFETY_MAX_SIGNAL_AGE_MS \<and>
    evaluated < received + HUMAN_SAFETY_REPLAY_TTL_MS \<and>
    toISO (min received evaluated + HUMAN_SAFETY_REPLAY_TTL_MS) = Some expires \<and>
    digest (ss_replayToken e) = Inr nonce \<and> hex64 nonce \<and>
    digest (scopeMaterial e) = Inr scope \<and> hex64 scope \<and> sad_replayScopeDigest d = Some scope \<and>
    consume \<lparr>rq_policyVersion = HUMAN_SAFETY_REPLAY_POLICY_VERSION, rq_nonceDigest = nonce,
      rq_scopeDigest = scope, rq_expiresAt = expires\<rparr> s = (Inr RN_CONSUMED, t)"
  using assms validate_never_accepts [of input]
  unfolding acceptHumanSafetySignalEnvelope_def Let_def
  by (auto simp: abind_def acatch_def acceptanceDecision_def
      split: option.split_asm if_split_asm sum.split_asm prod.split_asm)

definition sample_envelope :: "string \<Rightarrow> json" where
  "sample_envelope signalId = JObj [
     (''signalId'', JStr signalId), (''schemaVersion'', JStr ''ros-eye.signal.v1''),
     (''purposePolicyVersion'', JStr ''ros-eye.purpose.v1''),
     (''dataClassification'', JStr ''OPERATIONAL''), (''retentionClass'', JStr ''SIMULATION_ONLY''),
     (''sourceType'', JStr ''SIMULATION''), (''sourceId'', JStr ''source-001''),
     (''occurredAt'', JStr ''1970-01-01T00:00:01.000Z''), (''receivedAt'', JStr ''1970-01-01T00:00:02.000Z''),
     (''consentBasis'', JStr ''SIMULATION''),
     (''integrity'', JObj [(''replayToken'', JStr ''token-1''), (''signatureStatus'', JStr ''VERIFIED''),
        (''clockSkewMs'', JNum (Num 0))]),
     (''location'', JNull),
     (''payload'', JObj [(''kind'', JStr ''SIMULATION_FIXTURE''), (''fixtureId'', JStr ''fixture-1'')])]"

definition sample_digest :: "string \<Rightarrow> unit + string" where
  "sample_digest s = Inr (replicate 64 (CHR ''a''))"

lemma sample_envelope_valid:
  "svd_reasonCode (validateHumanSafetySignalEnvelope (sample_envelope ''signal-1'')) =
     ''structurally_valid_replay_check_required''"
  by code_simp

lemma sample_envelope_strings:
  "isHumanSafetySignalEnvelope (sample_envelope signalId) = Some \<lparr>ss_signalId = signalId,
     ss_sourceId = ''source-001'', ss_occurredAt = ''1970-01-01T00:00:01.000Z'',
     ss_receivedAt = ''1970-01-01T00:00:02.000Z'', ss_replayToken = ''token-1''\<rparr>"
  by (simp add: isHumanSafetySignalEnvelope_def sample_envelope_def field_def)

lemma sample_hex64: "hex64 (replicate 64 (CHR ''a''))"
  by code_simp

theorem acceptance_consumes_the_token_witness:
  "\<exists>d. acceptHumanSafetySignalEnvelope sample_digest (\<lambda>r s. (Inr RN_CONSUMED, r # s))
      (sample_envelope ''signal-1'') ''1970-01-01T00:00:02.000Z'' [] = (Inr d, [
        \<lparr>rq_policyVersion = HUMAN_SAFETY_REPLAY_POLICY_VERSION, rq_nonceDigest = replicate 64 (CHR ''a''),
          rq_scopeDigest = replicate 64 (CHR ''a''), rq_expiresAt = isoString 902000\<rparr>]) \<and>
    svd_accepted d"
proof -
  let ?req = "\<lparr>rq_policyVersion = HUMAN_SAFETY_REPLAY_POLICY_VERSION, rq_nonceDigest = replicate 64 (CHR ''a''),
      rq_scopeDigest = replicate 64 (CHR ''a''), rq_expiresAt = isoString 902000\<rparr>"
  have iso: "toISO 902000 = Some (isoString 902000)" by (simp add: toISO_def timeClip_def)
  obtain d where run: "acceptHumanSafetySignalEnvelope sample_digest (\<lambda>r s. (Inr RN_CONSUMED, r # s))
      (sample_envelope ''signal-1'') ''1970-01-01T00:00:02.000Z'' [] = (Inr d, [?req])" and ok: "svd_accepted d"
    using sample_hex64
    by (simp add: acceptHumanSafetySignalEnvelope_def sample_envelope_valid sample_envelope_strings
        human_safety_limits sample_digest_def acatch_def abind_def iso)
  from acceptance_consumes_the_token [OF run ok] run ok show ?thesis by blast
qed

end
