(* ===== verification/ReplayRegistry.thy ===== *)
theory ReplayRegistry
  imports HumanSafety
begin

text \<open>
  Replay protection of signal ingestion: the port \<open>RecoverableReplayAdmissionPort\<close>
  (\<open>apps/api/src/ros-eye/signal-ingestion.ts\<close>) as a locale, and the registry
  \<open>AtomicInMemoryReplayNonceRegistry\<close> (\<open>signal-ingestion-adapters.ts\<close>) that provides it. Each
  operation of the registry is one atomic step, so the results over sequences of operations hold
  for every interleaving of concurrent ingestions.
\<close>

section \<open>The port\<close>

datatype CommitResult = CM_COMMITTED | CM_ALREADY_COMMITTED | CM_UNAVAILABLE
datatype AbortResult = AB_ABORTED | AB_NOT_FOUND | AB_UNAVAILABLE

text \<open>The argument of \<open>commit\<close> and \<open>abort\<close>.\<close>
record Admission =
  adm_admissionId :: string
  adm_nonceDigest :: string
  adm_scopeDigest :: string

datatype registry_call = Reserve ReplayNonceConsumeRequest string | Commit Admission | Abort Admission

text \<open>What a call answered.\<close>
datatype registry_answer =
  Reserved ReplayNonceConsumeResult | Committed CommitResult | Aborted AbortResult

text \<open>\<open>holder s n\<close> is who holds nonce \<open>n\<close>: admission, scope and whether it is committed.\<close>
locale replay_admission =
  fixes holder :: "'s \<Rightarrow> string \<Rightarrow> (string \<times> string \<times> bool) option"
    and reserve :: "ReplayNonceConsumeRequest \<Rightarrow> string \<Rightarrow> ('s, unit, ReplayNonceConsumeResult) action"
    and commit :: "Admission \<Rightarrow> ('s, unit, CommitResult) action"
    and abort :: "Admission \<Rightarrow> ('s, unit, AbortResult) action"
  assumes reserve_consumed: "reserve q a s = (Inr RN_CONSUMED, t) \<Longrightarrow>
      (holder s (rq_nonceDigest q) = None \<or> holder s (rq_nonceDigest q) = Some (a, rq_scopeDigest q, False)) \<and>
      holder t = (holder s)(rq_nonceDigest q \<mapsto> (a, rq_scopeDigest q, False))"
    and reserve_refused: "reserve q a s = (rr, t) \<Longrightarrow> rr \<noteq> Inr RN_CONSUMED \<Longrightarrow> holder t = holder s"
    and commit_done: "commit x s = (Inr CM_COMMITTED, t) \<Longrightarrow>
      holder s (adm_nonceDigest x) = Some (adm_admissionId x, adm_scopeDigest x, False) \<and>
      holder t = (holder s)(adm_nonceDigest x \<mapsto> (adm_admissionId x, adm_scopeDigest x, True))"
    and commit_again: "commit x s = (Inr CM_ALREADY_COMMITTED, t) \<Longrightarrow>
      holder s (adm_nonceDigest x) = Some (adm_admissionId x, adm_scopeDigest x, True)"
    and commit_other: "commit x s = (rc, t) \<Longrightarrow> rc \<noteq> Inr CM_COMMITTED \<Longrightarrow> holder t = holder s"
    and abort_cases: "abort x s = (ra, t) \<Longrightarrow> holder t = holder s \<or>
      holder s (adm_nonceDigest x) = Some (adm_admissionId x, adm_scopeDigest x, False) \<and>
      holder t = (holder s)(adm_nonceDigest x := None)"

definition registry_step ::
  "(ReplayNonceConsumeRequest \<Rightarrow> string \<Rightarrow> ('s, unit, ReplayNonceConsumeResult) action) \<Rightarrow>
   (Admission \<Rightarrow> ('s, unit, CommitResult) action) \<Rightarrow> (Admission \<Rightarrow> ('s, unit, AbortResult) action) \<Rightarrow>
   registry_call \<Rightarrow> 's \<Rightarrow> (unit + registry_answer) \<times> 's" where
  "registry_step reserve commit abort c = (case c of
       Reserve q a \<Rightarrow> abind (reserve q a) (\<lambda>r. aret (Reserved r))
     | Commit x \<Rightarrow> abind (commit x) (\<lambda>r. aret (Committed r))
     | Abort x \<Rightarrow> abind (abort x) (\<lambda>r. aret (Aborted r)))"

text \<open>A history: each call with its answer, in order.\<close>
fun registry_history :: "(registry_call \<Rightarrow> 's \<Rightarrow> (unit + registry_answer) \<times> 's) \<Rightarrow> 's \<Rightarrow>
    (registry_call \<times> (unit + registry_answer)) list \<Rightarrow> 's \<Rightarrow> bool" where
  "registry_history step s [] t \<longleftrightarrow> t = s"
| "registry_history step s ((c, r) # h) t \<longleftrightarrow> (\<exists>u. step c s = (r, u) \<and> registry_history step u h t)"

lemma registry_history_append:
  "registry_history step s (h @ h') t \<longleftrightarrow> (\<exists>u. registry_history step s h u \<and> registry_history step u h' t)"
  by (induction h arbitrary: s) (auto, blast+)

context replay_admission
begin

lemma step_keeps_committed:
  assumes "registry_step reserve commit abort c s = (r, t)" and "holder s n = Some (a, sc, True)"
  shows "holder t n = Some (a, sc, True)"
proof (cases c)
  case (Reserve q b)
  then obtain r' where r': "reserve q b s = (r', t)"
    using assms(1) by (auto simp: registry_step_def abind_def split: prod.splits sum.splits)
  show ?thesis
  proof (cases "r' = Inr RN_CONSUMED")
    case True
    then show ?thesis using reserve_consumed r' assms(2) by fastforce
  next
    case False
    then show ?thesis using reserve_refused [OF r'] assms(2) by simp
  qed
next
  case (Commit x)
  then obtain r' where r': "commit x s = (r', t)"
    using assms(1) by (auto simp: registry_step_def abind_def split: prod.splits sum.splits)
  show ?thesis
  proof (cases "r' = Inr CM_COMMITTED")
    case True
    then show ?thesis using commit_done r' assms(2) by fastforce
  next
    case False
    then show ?thesis using commit_other [OF r'] assms(2) by simp
  qed
next
  case (Abort x)
  then obtain r' where "abort x s = (r', t)"
    using assms(1) by (auto simp: registry_step_def abind_def split: prod.splits sum.splits)
  then show ?thesis using abort_cases assms(2) by fastforce
qed

lemma history_keeps_committed:
  "registry_history (registry_step reserve commit abort) s h t \<Longrightarrow> holder s n = Some (a, sc, True) \<Longrightarrow>
   holder t n = Some (a, sc, True)"
  by (induction h arbitrary: s) (auto, metis step_keeps_committed)

lemma committed_refuses:
  assumes "holder s (rq_nonceDigest q) = Some (a, sc, True)"
  shows "registry_step reserve commit abort (Reserve q b) s \<noteq> (Inr (Reserved RN_CONSUMED), t)"
  using reserve_consumed assms
  by (fastforce simp: registry_step_def abind_def split: prod.splits sum.splits)

lemma commit_step:
  assumes "registry_step reserve commit abort (Commit x) s = (Inr (Committed CM_COMMITTED), t)"
  shows "holder s (adm_nonceDigest x) = Some (adm_admissionId x, adm_scopeDigest x, False) \<and>
    holder t (adm_nonceDigest x) = Some (adm_admissionId x, adm_scopeDigest x, True)"
  using assms commit_done
  by (fastforce simp: registry_step_def abind_def split: prod.splits sum.splits)

text \<open>A nonce is committed once, for one admission, and is then refused for good.\<close>
lemma committed_once:
  assumes "registry_history (registry_step reserve commit abort) s
      (h @ (Commit x, Inr (Committed CM_COMMITTED)) # h') t"
  shows "holder t (adm_nonceDigest x) = Some (adm_admissionId x, adm_scopeDigest x, True) \<and>
    (\<forall>(c, r) \<in> set h'. (\<forall>q b. c = Reserve q b \<longrightarrow> rq_nonceDigest q = adm_nonceDigest x \<longrightarrow>
        r \<noteq> Inr (Reserved RN_CONSUMED)) \<and>
      (\<forall>y. c = Commit y \<longrightarrow> adm_nonceDigest y = adm_nonceDigest x \<longrightarrow> r \<noteq> Inr (Committed CM_COMMITTED)))"
proof -
  obtain u v where u: "registry_step reserve commit abort (Commit x) u = (Inr (Committed CM_COMMITTED), v)"
    and v: "registry_history (registry_step reserve commit abort) v h' t"
    using assms by (auto simp: registry_history_append)
  note held = commit_step [OF u]
  have "(\<forall>q b. c = Reserve q b \<longrightarrow> rq_nonceDigest q = adm_nonceDigest x \<longrightarrow> r \<noteq> Inr (Reserved RN_CONSUMED)) \<and>
      (\<forall>y. c = Commit y \<longrightarrow> adm_nonceDigest y = adm_nonceDigest x \<longrightarrow> r \<noteq> Inr (Committed CM_COMMITTED))"
    if step: "(c, r) \<in> set h'" for c r
  proof -
    obtain h1 h2 where "h' = h1 @ (c, r) # h2" using split_list [OF step] by blast
    then obtain w w' where w: "registry_history (registry_step reserve commit abort) v h1 w"
      "registry_step reserve commit abort c w = (r, w')" using v by (auto simp: registry_history_append)
    have "holder w (adm_nonceDigest x) = Some (adm_admissionId x, adm_scopeDigest x, True)"
      using history_keeps_committed [OF w(1)] held by blast
    then show ?thesis using w(2) committed_refuses commit_step by fastforce
  qed
  then show ?thesis using history_keeps_committed [OF v] held by blast
qed

end

section \<open>The registry in memory\<close>

record AdmissionRecord =
  ar_admissionId :: string
  ar_scopeDigest :: string
  ar_expiresAtMs :: int
  ar_committed :: bool

text \<open>The public flags are switches the owner of the registry sets.\<close>
record registry =
  rg_admissions :: "string \<rightharpoonup> AdmissionRecord"
  rg_unavailable :: bool
  rg_failNextCommit :: bool
  rg_failNextAbort :: bool

definition reg_reserve ::
  "ReplayNonceConsumeRequest \<Rightarrow> string \<Rightarrow> (registry, unit, ReplayNonceConsumeResult) action" where
  "reg_reserve q admissionId g =
    (if rg_unavailable g then (Inr RN_UNAVAILABLE, g)
     else case dateParse (rq_expiresAt q) of
       None \<Rightarrow> (Inr RN_EXPIRED, g)
     | Some expiresAtMs \<Rightarrow> (case rg_admissions g (rq_nonceDigest q) of
         None \<Rightarrow> (Inr RN_CONSUMED, g\<lparr>rg_admissions := (rg_admissions g)(rq_nonceDigest q \<mapsto>
           \<lparr>ar_admissionId = admissionId, ar_scopeDigest = rq_scopeDigest q, ar_expiresAtMs = expiresAtMs,
             ar_committed = False\<rparr>)\<rparr>)
       | Some existing \<Rightarrow>
           if ar_admissionId existing = admissionId \<and> ar_scopeDigest existing = rq_scopeDigest q
           then (Inr (if \<not> ar_committed existing then RN_CONSUMED else RN_DUPLICATE), g)
           else (Inr RN_DUPLICATE, g)))"

definition reg_commit :: "Admission \<Rightarrow> (registry, unit, CommitResult) action" where
  "reg_commit x g =
    (if rg_unavailable g \<or> rg_failNextCommit g then (Inr CM_UNAVAILABLE, g\<lparr>rg_failNextCommit := False\<rparr>)
     else case rg_admissions g (adm_nonceDigest x) of
       None \<Rightarrow> (Inr CM_UNAVAILABLE, g)
     | Some existing \<Rightarrow>
         if ar_admissionId existing \<noteq> adm_admissionId x \<or> ar_scopeDigest existing \<noteq> adm_scopeDigest x
         then (Inr CM_UNAVAILABLE, g)
         else if ar_committed existing then (Inr CM_ALREADY_COMMITTED, g)
         else (Inr CM_COMMITTED, g\<lparr>rg_admissions := (rg_admissions g)(adm_nonceDigest x \<mapsto>
           existing\<lparr>ar_committed := True\<rparr>)\<rparr>))"

definition reg_abort :: "Admission \<Rightarrow> (registry, unit, AbortResult) action" where
  "reg_abort x g =
    (if rg_unavailable g \<or> rg_failNextAbort g then (Inr AB_UNAVAILABLE, g\<lparr>rg_failNextAbort := False\<rparr>)
     else case rg_admissions g (adm_nonceDigest x) of
       None \<Rightarrow> (Inr AB_NOT_FOUND, g)
     | Some existing \<Rightarrow>
         if ar_admissionId existing \<noteq> adm_admissionId x \<or> ar_scopeDigest existing \<noteq> adm_scopeDigest x \<or>
           ar_committed existing
         then (Inr AB_NOT_FOUND, g)
         else (Inr AB_ABORTED, g\<lparr>rg_admissions := (rg_admissions g)(adm_nonceDigest x := None)\<rparr>))"

definition reg_holder :: "registry \<Rightarrow> string \<Rightarrow> (string \<times> string \<times> bool) option" where
  "reg_holder g n = map_option (\<lambda>a. (ar_admissionId a, ar_scopeDigest a, ar_committed a)) (rg_admissions g n)"

abbreviation reg_step :: "registry_call \<Rightarrow> registry \<Rightarrow> (unit + registry_answer) \<times> registry" where
  "reg_step \<equiv> registry_step reg_reserve reg_commit reg_abort"

interpretation reg: replay_admission reg_holder reg_reserve reg_commit reg_abort
proof
  fix q a s t
  assume "reg_reserve q a s = (Inr RN_CONSUMED, t)"
  then show "(reg_holder s (rq_nonceDigest q) = None \<or>
      reg_holder s (rq_nonceDigest q) = Some (a, rq_scopeDigest q, False)) \<and>
    reg_holder t = (reg_holder s)(rq_nonceDigest q \<mapsto> (a, rq_scopeDigest q, False))"
    by (auto simp: reg_reserve_def reg_holder_def fun_eq_iff split: if_splits option.splits)
qed (auto simp: reg_reserve_def reg_commit_def reg_abort_def reg_holder_def fun_eq_iff
    split: if_splits option.splits)

text \<open>C12: replay protection is injective for every interleaving of callers. In any history of the
  registry, after a nonce was committed for an admission it stays committed for that admission and
  scope, no later reservation of it is granted to anybody, and no later commit of it succeeds.\<close>
theorem committed_nonce_is_never_granted_again:
  assumes "registry_history reg_step s (h @ (Commit x, Inr (Committed CM_COMMITTED)) # h') t"
  shows "reg_holder t (adm_nonceDigest x) = Some (adm_admissionId x, adm_scopeDigest x, True) \<and>
    (\<forall>(c, r) \<in> set h'. (\<forall>q b. c = Reserve q b \<longrightarrow> rq_nonceDigest q = adm_nonceDigest x \<longrightarrow>
        r \<noteq> Inr (Reserved RN_CONSUMED)) \<and>
      (\<forall>y. c = Commit y \<longrightarrow> adm_nonceDigest y = adm_nonceDigest x \<longrightarrow> r \<noteq> Inr (Committed CM_COMMITTED)))"
  using reg.committed_once [OF assms] .

definition empty_registry :: registry where
  "empty_registry = \<lparr>rg_admissions = Map.empty, rg_unavailable = False, rg_failNextCommit = False,
     rg_failNextAbort = False\<rparr>"

definition sample_request :: ReplayNonceConsumeRequest where
  "sample_request = \<lparr>rq_policyVersion = HUMAN_SAFETY_REPLAY_POLICY_VERSION, rq_nonceDigest = ''n'',
     rq_scopeDigest = ''s'', rq_expiresAt = ''1970-01-01T00:00:02.000Z''\<rparr>"

definition sample_admission :: Admission where
  "sample_admission = \<lparr>adm_admissionId = ''a'', adm_nonceDigest = ''n'', adm_scopeDigest = ''s''\<rparr>"

theorem committed_nonce_is_never_granted_again_witness:
  "\<exists>t. registry_history reg_step empty_registry
      ([(Reserve sample_request ''a'', Inr (Reserved RN_CONSUMED))] @
       (Commit sample_admission, Inr (Committed CM_COMMITTED)) #
       [(Reserve sample_request ''a'', Inr (Reserved RN_DUPLICATE))]) t \<and>
    reg_holder t ''n'' = Some (''a'', ''s'', True)"
proof -
  obtain t where t: "registry_history reg_step empty_registry
      ([(Reserve sample_request ''a'', Inr (Reserved RN_CONSUMED))] @
       (Commit sample_admission, Inr (Committed CM_COMMITTED)) #
       [(Reserve sample_request ''a'', Inr (Reserved RN_DUPLICATE))]) t"
    by (simp add: registry_step_def abind_def reg_reserve_def reg_commit_def empty_registry_def
        sample_request_def sample_admission_def)
  from committed_nonce_is_never_granted_again [OF t] t show ?thesis
    by (auto simp: sample_admission_def)
qed

end
