(* ===== verification/JsAction.thy ===== *)
theory JsAction
  imports JsBase
begin

text \<open>
  Prelude for the asynchronous services: \<open>attempt\<close> is a call whose exception the caller absorbs, \<open>on_part\<close>
  runs an action on a part of the state, and \<open>keeps I m\<close> says that the action \<open>m\<close> leaves the
  invariant \<open>I\<close> true, whatever it answers or throws. The rules of \<open>keeps_intros\<close> follow the syntax of
  an action, so an invariant of the ports becomes an invariant of the service that calls them.
  \<open>answers m x\<close> says that the action has answered \<open>x\<close> in some state.
\<close>

named_theorems keeps_intros "one rule for each way to build an action"

definition attempt :: "('s, 'e, 'a) action \<Rightarrow> ('s, 'e, 'a option) action" where
  "attempt m s = (case m s of (Inl e, t) \<Rightarrow> (Inr None, t) | (Inr x, t) \<Rightarrow> (Inr (Some x), t))"

definition on_part :: "('b \<Rightarrow> 's) \<Rightarrow> ('s \<Rightarrow> 'b \<Rightarrow> 'b) \<Rightarrow> ('s, 'e, 'a) action \<Rightarrow> ('b, 'e, 'a) action" where
  "on_part get put m b = (case m (get b) of (r, t) \<Rightarrow> (r, put t b))"

definition amodify :: "('s \<Rightarrow> 's) \<Rightarrow> ('s, 'e, unit) action" where
  "amodify f s = (Inr (), f s)"

definition aread :: "('s \<Rightarrow> 'a) \<Rightarrow> ('s, 'e, 'a) action" where
  "aread f s = (Inr (f s), s)"

lemma amodify_simps [simp]: "amodify f s = (Inr (), f s)" "aread g s = (Inr (g s), s)"
  by (simp_all add: amodify_def aread_def)

lemma abind_amodify [simp]: "abind (amodify f) g s = g () (f s)"
  by (simp add: abind_def)

lemma abind_aread [simp]: "abind (aread f) g s = g (f s) s"
  by (simp add: abind_def)

lemma abind_aret [simp]: "abind (aret x) g s = g x s"
  by (simp add: abind_def)

lemma attempt_Inr: "attempt m s = (Inr x, t) \<longleftrightarrow>
    (\<exists>y. x = Some y \<and> m s = (Inr y, t)) \<or> x = None \<and> (\<exists>e. m s = (Inl e, t))"
  by (auto simp: attempt_def split: prod.splits sum.splits)

lemma attempt_not_Inl [simp]: "attempt m s \<noteq> (Inl e, t)"
  by (auto simp: attempt_def split: prod.splits sum.splits)

lemma on_part_eq: "on_part get put m b = (r, c) \<longleftrightarrow> (\<exists>t. m (get b) = (r, t) \<and> c = put t b)"
  by (auto simp: on_part_def split: prod.splits)

definition keeps :: "('s \<Rightarrow> bool) \<Rightarrow> ('s, 'e, 'a) action \<Rightarrow> bool" where
  "keeps I m \<longleftrightarrow> (\<forall>s. I s \<longrightarrow> I (snd (m s)))"

lemma keepsI: "(\<And>s r t. I s \<Longrightarrow> m s = (r, t) \<Longrightarrow> I t) \<Longrightarrow> keeps I m"
  by (metis keeps_def prod.collapse)

lemma keepsD: "keeps I m \<Longrightarrow> m s = (r, t) \<Longrightarrow> I s \<Longrightarrow> I t"
  by (metis keeps_def snd_conv)

lemma keeps_basic [keeps_intros]:
  "keeps I (aret x)" "keeps I (athrow e)" "keeps I (alift r)" "keeps I (aread f)"
  by (simp_all add: keeps_def)

lemma keeps_amodify [keeps_intros]: "(\<And>s. I s \<Longrightarrow> I (f s)) \<Longrightarrow> keeps I (amodify f)"
  by (simp add: keeps_def)

lemma keeps_abind [keeps_intros]: "keeps I m \<Longrightarrow> (\<And>x. keeps I (f x)) \<Longrightarrow> keeps I (abind m f)"
  by (rule keepsI) (auto simp: abind_def dest: keepsD split: prod.splits sum.splits)

lemma keeps_abind_alift: "(\<And>x. r = Inr x \<Longrightarrow> keeps I (f x)) \<Longrightarrow> keeps I (abind (alift r) f)"
  by (cases r) (simp_all add: keeps_def)

lemma keeps_computed:
  "(\<And>x. r = Inr x \<Longrightarrow> keeps I (h (F x))) \<Longrightarrow> keeps I (abind (abind (alift r) (\<lambda>x. aret (F x))) h)"
  by (cases r) (simp_all add: keeps_def abind_def)

lemma keeps_result: "keeps I (abind m (\<lambda>x. aret (f x))) \<longleftrightarrow> keeps I m"
proof -
  have "snd (abind m (\<lambda>x. aret (f x)) s) = snd (m s)" for s
    by (simp add: abind_def split: prod.split sum.split)
  then show ?thesis by (simp add: keeps_def)
qed

lemma keeps_acatch [keeps_intros]: "keeps I m \<Longrightarrow> (\<And>e. keeps I (h e)) \<Longrightarrow> keeps I (acatch m h)"
  by (rule keepsI) (auto simp: acatch_def dest: keepsD split: prod.splits sum.splits)

lemma keeps_attempt [keeps_intros]: "keeps I m \<Longrightarrow> keeps I (attempt m)"
  by (rule keepsI) (auto simp: attempt_def dest: keepsD split: prod.splits sum.splits)

lemma keeps_on_part [keeps_intros]:
  "(\<And>t b. get (put t b) = t) \<Longrightarrow> keeps I m \<Longrightarrow> keeps (\<lambda>b. I (get b)) (on_part get put m)"
  by (rule keepsI) (auto simp: on_part_def dest: keepsD split: prod.splits)

lemma keeps_branches [keeps_intros]:
  "(b \<Longrightarrow> keeps I m) \<Longrightarrow> (\<not> b \<Longrightarrow> keeps I n) \<Longrightarrow> keeps I (if b then m else n)"
  "(v = None \<Longrightarrow> keeps I m) \<Longrightarrow> (\<And>x. v = Some x \<Longrightarrow> keeps I (f x)) \<Longrightarrow> keeps I (case v of None \<Rightarrow> m | Some x \<Rightarrow> f x)"
  "(\<And>x y. p = (x, y) \<Longrightarrow> keeps I (g x y)) \<Longrightarrow> keeps I (case p of (x, y) \<Rightarrow> g x y)"
  by (simp_all split: option.split prod.split)

text \<open>The action has answered \<open>x\<close> in some state.\<close>
definition answers :: "('s, 'e, 'a) action \<Rightarrow> 'a \<Rightarrow> bool" where
  "answers m x \<longleftrightarrow> (\<exists>u v. m u = (Inr x, v))"

lemma answersI: "m u = (Inr x, v) \<Longrightarrow> answers m x"
  by (auto simp: answers_def)

lemma answers_simps [simp]: "answers (aret y) x \<longleftrightarrow> x = y"
  by (auto simp: answers_def)

lemma answers_abind: "answers (abind m f) y \<Longrightarrow> \<exists>x. answers m x \<and> answers (f x) y"
  unfolding answers_def abind_Inr by blast

lemma answers_abindE:
  assumes "answers (abind m f) y"
  obtains x where "answers m x" "answers (f x) y"
  using answers_abind [OF assms] by blast

end
