(* ===== verification/SignalIngestion.thy ===== *)
theory SignalIngestion
  imports ReplayRegistry JsAction "HOL-Library.Word"
begin

text \<open>
  The ingestion service \<open>MultimodalSignalIngestionService\<close> (\<open>apps/api/src/ros-eye/signal-ingestion.ts\<close>):
  its request, decision and records, the ports it relies on as a record of actions, and \<open>ingest\<close>
  stage by stage. One call of \<open>ingest\<close> is one action on the state of the ports and the flag
  \<open>degraded\<close>. Fields the validation leaves untyped (JSON) stay JSON values in the records.
\<close>

section \<open>Data\<close>

definition ROS_EYE_INGESTION_POLICY_VERSION :: string where
  "ROS_EYE_INGESTION_POLICY_VERSION = ''ros-eye.ingestion.v2''"
definition HUMAN_SAFETY_TEMPORAL_POLICY_VERSION :: string where
  "HUMAN_SAFETY_TEMPORAL_POLICY_VERSION = ''ros-eye.signal-time.v1''"

datatype SignalDisposition = SD_ACCEPTED | SD_QUARANTINED | SD_HUMAN_REVIEW | SD_BACKPRESSURE
datatype SourceTrustState = TRUST_ACTIVE | TRUST_REVOKED | TRUST_UNKNOWN
datatype IngestionReadiness = ING_READY | ING_DEGRADED
datatype RateDecision = RATE_ALLOWED | RATE_LIMITED | RATE_UNAVAILABLE
datatype PutResult = PUT_CREATED | PUT_ALREADY_EXISTS
datatype AccuracyBand = BAND_NONE | BAND_PRECISE | BAND_COARSE | BAND_POOR

type_synonym bytes = "8 word list"

record RawEvidence =
  raw_mediaType :: string
  raw_bytes :: bytes

record MultimodalSignalIngestionRequest =
  mr_envelope :: json
  mr_correlationId :: string
  mr_traceId :: string
  mr_evaluatedAt :: string
  mr_rawEvidence :: "RawEvidence option"

record AcceptedSignalProvenance =
  pv_provenanceId :: string
  pv_signalId :: string
  pv_sourceId :: string
  pv_sourceType :: "json option"
  pv_correlationId :: string
  pv_traceId :: string
  pv_evaluatedAt :: string
  pv_occurredAt :: string
  pv_receivedAt :: string
  pv_schemaVersion :: "json option"
  pv_purposePolicyVersion :: "json option"
  pv_replayPolicyVersion :: string
  pv_temporalPolicyVersion :: string
  pv_ingestionPolicyVersion :: string
  pv_replayScopeDigest :: string
  pv_sourceTrustState :: SourceTrustState
  pv_confidenceInputs :: "(string \<times> json option) list"
  pv_locationQuality :: "bool \<times> AccuracyBand"
  pv_rawEvidenceRef :: "string option"
  pv_auditOutcome :: SignalDisposition

record SignalQuarantineRecord =
  qr_quarantineId :: string
  qr_signalId :: "string option"
  qr_sourceId :: "string option"
  qr_correlationId :: string
  qr_traceId :: string
  qr_evaluatedAt :: string
  qr_disposition :: SignalDisposition
  qr_reasonCode :: string
  qr_ingestionPolicyVersion :: string
  qr_replayPolicyVersion :: string
  qr_temporalPolicyVersion :: string

record SafetyIntentRecord =
  in_intentId :: string
  in_signalId :: string
  in_correlationId :: string
  in_provenanceId :: string
  in_kind :: "json option"
  in_createdAt :: string

record IngestionDecision =
  id_disposition :: SignalDisposition
  id_reasonCode :: string
  id_signalId :: "string option"
  id_provenanceId :: "string option"
  id_intentId :: "string option"
  id_readiness :: IngestionReadiness
  id_ingestionPolicyVersion :: string

text \<open>The ports, on a state \<open>'s\<close>. A call may throw; \<open>Left ()\<close> is any exception. The digester and the
  factory of identifiers have no state.\<close>
record 's MultimodalSignalIngestionPorts =
  ip_reserve :: "ReplayNonceConsumeRequest \<Rightarrow> string \<Rightarrow> ('s, unit, ReplayNonceConsumeResult) action"
  ip_commit :: "Admission \<Rightarrow> ('s, unit, CommitResult) action"
  ip_abort :: "Admission \<Rightarrow> ('s, unit, AbortResult) action"
  ip_digest :: "string \<Rightarrow> unit + string"
  ip_getTrustState :: "string \<Rightarrow> string \<Rightarrow> ('s, unit, SourceTrustState) action"
  ip_consumeRate :: "string \<Rightarrow> string \<Rightarrow> ('s, unit, RateDecision) action"
  ip_putProvenance :: "AcceptedSignalProvenance \<Rightarrow> ('s, unit, PutResult) action"
  ip_appendQuarantine :: "SignalQuarantineRecord \<Rightarrow> ('s, unit, unit) action"
  ip_putRawEvidence :: "string \<Rightarrow> RawEvidence \<Rightarrow> ('s, unit, string) action"
  ip_createIntent :: "SafetyIntentRecord \<Rightarrow> ('s, unit, PutResult) action"
  ip_createId :: "string \<Rightarrow> string \<Rightarrow> unit + string"

record MultimodalSignalIngestionOptions =
  io_maxQueueDepth :: js_num
  io_maximumAcceptedLocationAccuracyMeters :: js_num

definition DEFAULT_OPTIONS :: MultimodalSignalIngestionOptions where
  "DEFAULT_OPTIONS = \<lparr>io_maxQueueDepth = Num 128, io_maximumAcceptedLocationAccuracyMeters = Num 250\<rparr>"

text \<open>The checks of the constructor.\<close>
definition checkOptions :: "MultimodalSignalIngestionOptions \<Rightarrow> string + unit" where
  "checkOptions o' =
    (if \<not> isInteger (io_maxQueueDepth o') \<or> num_lt (io_maxQueueDepth o') (Num 1)
     then Inl ''maxQueueDepth must be a positive integer''
     else if \<not> isFinite (io_maximumAcceptedLocationAccuracyMeters o') \<or>
       \<not> num_lt (Num 0) (io_maximumAcceptedLocationAccuracyMeters o')
     then Inl ''maximumAcceptedLocationAccuracyMeters must be positive''
     else Inr ())"

section \<open>Reading the envelope\<close>

definition member :: "json option \<Rightarrow> string \<Rightarrow> json option" where
  "member v k = (case v of Some (JObj fs) \<Rightarrow> field fs k | _ \<Rightarrow> None)"

record EnvelopeView =
  ev_signalId :: string
  ev_sourceId :: string
  ev_occurredAt :: string
  ev_receivedAt :: string

text \<open>\<open>typeof v === 'object' && v !== null\<close>: an object or an array.\<close>
definition is_object :: "json option \<Rightarrow> bool" where
  "is_object v \<longleftrightarrow> (case v of Some (JObj fs) \<Rightarrow> True | Some (JArr xs) \<Rightarrow> True | _ \<Rightarrow> False)"

definition isEnvelope :: "json \<Rightarrow> EnvelopeView option" where
  "isEnvelope v = (case v of JObj e \<Rightarrow>
       (case (field e ''signalId'', field e ''sourceId'', field e ''occurredAt'', field e ''receivedAt'') of
         (Some (JStr a), Some (JStr b), Some (JStr c), Some (JStr d)) \<Rightarrow>
           if is_object (field e ''payload'')
           then Some \<lparr>ev_signalId = a, ev_sourceId = b, ev_occurredAt = c, ev_receivedAt = d\<rparr> else None
       | _ \<Rightarrow> None)
     | _ \<Rightarrow> None)"

definition validOpaqueId :: "string \<Rightarrow> bool" where
  "validOpaqueId v = token_pattern 2 127 v"

definition validTimestamp :: "string \<Rightarrow> bool" where
  "validTimestamp v \<longleftrightarrow> dateParse v \<noteq> None"

definition indicatorCount :: "json option \<Rightarrow> json option" where
  "indicatorCount v = (case v of Some (JArr xs) \<Rightarrow> Some (JNum (Num (of_nat (length xs)))) | _ \<Rightarrow> None)"

definition confidenceInputs :: "json \<Rightarrow> (string \<times> json option) list" where
  "confidenceInputs v = (let p = member (Some v) ''payload''; kind = member p ''kind'' in
     if kind = Some (JStr ''PHONE_MOTION'') then
       [(''impactDetected'', member p ''impactDetected''), (''accelerationMagnitude'', member p ''accelerationMagnitude'')]
     else if kind = Some (JStr ''VEHICLE_EVENT'') then
       [(''eventCode'', member p ''eventCode''), (''confidence'', member p ''confidence'')]
     else if kind = Some (JStr ''INFRASTRUCTURE_METADATA'') then
       [(''sensorType'', member p ''sensorType''), (''confidence'', member p ''confidence'')]
     else if kind = Some (JStr ''PERSON_REPORT'') \<or> kind = Some (JStr ''OPERATOR_OBSERVATION'') then
       [(''indicatorCount'', indicatorCount (member p ''indicatorCodes''))]
     else [(''simulation'', Some (JBool True))])"

definition accuracyMeters :: "json \<Rightarrow> rat option" where
  "accuracyMeters v = (case member (member (Some v) ''location'') ''accuracyMeters'' of
     Some (JNum (Num q)) \<Rightarrow> Some q | _ \<Rightarrow> None)"

definition locationQuality :: "json \<Rightarrow> bool \<times> AccuracyBand" where
  "locationQuality v =
    (if member (Some v) ''location'' = Some JNull then (False, BAND_NONE)
     else case accuracyMeters v of
       Some q \<Rightarrow> if q \<le> 25 then (True, BAND_PRECISE) else if q \<le> 100 then (True, BAND_COARSE) else (True, BAND_POOR)
     | None \<Rightarrow> (True, BAND_POOR))"

section \<open>The service\<close>

record 's Ingestion =
  ig_ports :: 's
  ig_degraded :: bool

abbreviation port :: "('s, unit, 'a) action \<Rightarrow> ('s Ingestion, unit, 'a) action" where
  "port m \<equiv> on_part ig_ports (\<lambda>w b. b\<lparr>ig_ports := w\<rparr>) m"

definition set_degraded :: "bool \<Rightarrow> ('s Ingestion, unit, unit) action" where
  "set_degraded d = amodify (\<lambda>s. s\<lparr>ig_degraded := d\<rparr>)"

definition getReadiness :: "'s Ingestion \<Rightarrow> IngestionReadiness" where
  "getReadiness s = (if ig_degraded s then ING_DEGRADED else ING_READY)"

definition safeAbort :: "'s MultimodalSignalIngestionPorts \<Rightarrow> Admission \<Rightarrow> ('s Ingestion, unit, unit) action" where
  "safeAbort P x = abind (attempt (port (ip_abort P x))) (\<lambda>_. aret ())"

definition safeSourceTrust ::
  "'s MultimodalSignalIngestionPorts \<Rightarrow> string \<Rightarrow> string \<Rightarrow> ('s Ingestion, unit, SourceTrustState) action" where
  "safeSourceTrust P sourceId evaluatedAt = abind (attempt (port (ip_getTrustState P sourceId evaluatedAt)))
     (\<lambda>r. aret (case r of None \<Rightarrow> TRUST_UNKNOWN | Some x \<Rightarrow> x))"

definition safeRateConsume ::
  "'s MultimodalSignalIngestionPorts \<Rightarrow> string \<Rightarrow> string \<Rightarrow> ('s Ingestion, unit, RateDecision) action" where
  "safeRateConsume P sourceId evaluatedAt = abind (attempt (port (ip_consumeRate P sourceId evaluatedAt)))
     (\<lambda>r. aret (case r of None \<Rightarrow> RATE_UNAVAILABLE | Some x \<Rightarrow> x))"

definition quarantine :: "'s MultimodalSignalIngestionPorts \<Rightarrow> MultimodalSignalIngestionRequest \<Rightarrow>
    SignalDisposition \<Rightarrow> string \<Rightarrow> ('s Ingestion, unit, IngestionDecision) action" where
  "quarantine P request disposition reasonCode =
    (let signalId = map_option ev_signalId (isEnvelope (mr_envelope request));
         sourceId = map_option ev_sourceId (isEnvelope (mr_envelope request)) in
     abind (alift (ip_createId P ''quarantine'' (mr_traceId request @ ''|'' @
       (case signalId of None \<Rightarrow> ''unknown'' | Some x \<Rightarrow> x) @ ''|'' @ reasonCode))) (\<lambda>quarantineId.
     abind (attempt (port (ip_appendQuarantine P \<lparr>qr_quarantineId = quarantineId, qr_signalId = signalId,
         qr_sourceId = sourceId, qr_correlationId = mr_correlationId request, qr_traceId = mr_traceId request,
         qr_evaluatedAt = mr_evaluatedAt request, qr_disposition = disposition, qr_reasonCode = reasonCode,
         qr_ingestionPolicyVersion = ROS_EYE_INGESTION_POLICY_VERSION,
         qr_replayPolicyVersion = HUMAN_SAFETY_REPLAY_POLICY_VERSION,
         qr_temporalPolicyVersion = HUMAN_SAFETY_TEMPORAL_POLICY_VERSION\<rparr>))) (\<lambda>stored.
     abind (if stored = None then set_degraded True else aret ()) (\<lambda>_.
     abind (aread getReadiness) (\<lambda>readiness.
     aret \<lparr>id_disposition = disposition, id_reasonCode = reasonCode, id_signalId = signalId,
       id_provenanceId = None, id_intentId = None, id_readiness = readiness,
       id_ingestionPolicyVersion = ROS_EYE_INGESTION_POLICY_VERSION\<rparr>)))))"

text \<open>The call of \<open>acceptHumanSafetySignalEnvelope\<close> with the registry wrapped: \<open>consume\<close> records the
  request it reserves in the variable \<open>reservation\<close>, the second component of the state.\<close>
definition reserving :: "'s MultimodalSignalIngestionPorts \<Rightarrow> string \<Rightarrow> ReplayNonceConsumeRequest \<Rightarrow>
    ('s \<times> ReplayNonceConsumeRequest option, unit, ReplayNonceConsumeResult) action" where
  "reserving P admissionId q s = (case ip_reserve P q admissionId (fst s) of (r, w) \<Rightarrow> (r, (w, Some q)))"

definition acceptReserving :: "'s MultimodalSignalIngestionPorts \<Rightarrow> string \<Rightarrow> json \<Rightarrow> string \<Rightarrow>
    ('s, unit, HumanSafetySignalAcceptanceDecision \<times> ReplayNonceConsumeRequest option) action" where
  "acceptReserving P admissionId envelope evaluatedAt s =
    (case acceptHumanSafetySignalEnvelope (ip_digest P) (reserving P admissionId) envelope evaluatedAt (s, None) of
       (Inl x, w, reservation) \<Rightarrow> (Inl x, w)
     | (Inr acceptance, w, reservation) \<Rightarrow> (Inr (acceptance, reservation), w))"

text \<open>The body of the \<open>try\<close>: raw evidence, provenance, intent, commit.\<close>
definition persist :: "'s MultimodalSignalIngestionPorts \<Rightarrow> MultimodalSignalIngestionRequest \<Rightarrow> EnvelopeView \<Rightarrow>
    string \<Rightarrow> string \<Rightarrow> string \<Rightarrow> Admission \<Rightarrow> ('s Ingestion, unit, CommitResult) action" where
  "persist P request e provenanceId intentId scopeDigest admission =
    abind (case mr_rawEvidence request of None \<Rightarrow> aret None
      | Some raw \<Rightarrow> abind (port (ip_putRawEvidence P (ev_signalId e) raw)) (\<lambda>ref. aret (Some ref)))
    (\<lambda>rawEvidenceRef.
    abind (port (ip_putProvenance P
      \<lparr>pv_provenanceId = provenanceId, pv_signalId = ev_signalId e, pv_sourceId = ev_sourceId e,
        pv_sourceType = member (Some (mr_envelope request)) ''sourceType'',
        pv_correlationId = mr_correlationId request, pv_traceId = mr_traceId request,
        pv_evaluatedAt = mr_evaluatedAt request, pv_occurredAt = ev_occurredAt e,
        pv_receivedAt = ev_receivedAt e,
        pv_schemaVersion = member (Some (mr_envelope request)) ''schemaVersion'',
        pv_purposePolicyVersion = member (Some (mr_envelope request)) ''purposePolicyVersion'',
        pv_replayPolicyVersion = HUMAN_SAFETY_REPLAY_POLICY_VERSION,
        pv_temporalPolicyVersion = HUMAN_SAFETY_TEMPORAL_POLICY_VERSION,
        pv_ingestionPolicyVersion = ROS_EYE_INGESTION_POLICY_VERSION, pv_replayScopeDigest = scopeDigest,
        pv_sourceTrustState = TRUST_ACTIVE, pv_confidenceInputs = confidenceInputs (mr_envelope request),
        pv_locationQuality = locationQuality (mr_envelope request), pv_rawEvidenceRef = rawEvidenceRef,
        pv_auditOutcome = SD_ACCEPTED\<rparr>)) (\<lambda>_.
    abind (port (ip_createIntent P
      \<lparr>in_intentId = intentId, in_signalId = ev_signalId e, in_correlationId = mr_correlationId request,
        in_provenanceId = provenanceId, in_kind = member (member (Some (mr_envelope request)) ''payload'') ''kind'',
        in_createdAt = mr_evaluatedAt request\<rparr>)) (\<lambda>_.
    port (ip_commit P admission))))"

text \<open>What follows the \<open>try\<close>, \<open>None\<close> being its \<open>catch\<close>. The quarantine of an unavailable commit is
  returned from inside the \<open>try\<close> without being awaited, so an exception of it is not caught.\<close>
definition conclude :: "'s MultimodalSignalIngestionPorts \<Rightarrow> MultimodalSignalIngestionRequest \<Rightarrow> EnvelopeView \<Rightarrow>
    string \<Rightarrow> string \<Rightarrow> Admission \<Rightarrow> CommitResult option \<Rightarrow> ('s Ingestion, unit, IngestionDecision) action" where
  "conclude P request e provenanceId intentId admission committed = (case committed of
       None \<Rightarrow> abind (set_degraded True) (\<lambda>_. abind (safeAbort P admission) (\<lambda>_.
         quarantine P request SD_HUMAN_REVIEW ''accepted_signal_persistence_unavailable''))
     | Some c \<Rightarrow>
         if c = CM_UNAVAILABLE
         then abind (set_degraded True) (\<lambda>_. quarantine P request SD_HUMAN_REVIEW ''replay_commit_unavailable'')
         else abind (set_degraded False) (\<lambda>_. abind (aread getReadiness) (\<lambda>readiness.
           aret \<lparr>id_disposition = SD_ACCEPTED, id_reasonCode = ''accepted_with_recoverable_provenance'',
             id_signalId = Some (ev_signalId e), id_provenanceId = Some provenanceId,
             id_intentId = Some intentId, id_readiness = readiness,
             id_ingestionPolicyVersion = ROS_EYE_INGESTION_POLICY_VERSION\<rparr>)))"

text \<open>From the reservation to the decision.\<close>
definition admitReserved :: "'s MultimodalSignalIngestionPorts \<Rightarrow> MultimodalSignalIngestionRequest \<Rightarrow> EnvelopeView \<Rightarrow>
    string \<Rightarrow> string \<Rightarrow> ReplayNonceConsumeRequest \<Rightarrow> ('s Ingestion, unit, IngestionDecision) action" where
  "admitReserved P request e admissionId scopeDigest reserved =
    (let admission = \<lparr>adm_admissionId = admissionId, adm_nonceDigest = rq_nonceDigest reserved,
       adm_scopeDigest = rq_scopeDigest reserved\<rparr> in
     abind (alift (ip_createId P ''provenance'' (ev_signalId e @ ''|'' @ scopeDigest))) (\<lambda>provenanceId.
     abind (alift (ip_createId P ''intent'' (ev_signalId e))) (\<lambda>intentId.
     abind (attempt (persist P request e provenanceId intentId scopeDigest admission))
       (conclude P request e provenanceId intentId admission))))"

text \<open>From the digest of the replay token to the reservation.\<close>
definition admit :: "'s MultimodalSignalIngestionPorts \<Rightarrow> MultimodalSignalIngestionRequest \<Rightarrow> EnvelopeView \<Rightarrow>
    ('s Ingestion, unit, IngestionDecision) action" where
  "admit P request e =
    (case (case member (member (Some (mr_envelope request)) ''integrity'') ''replayToken'' of
         Some (JStr token) \<Rightarrow> ip_digest P token | _ \<Rightarrow> Inl ()) of
       Inl _ \<Rightarrow> quarantine P request SD_HUMAN_REVIEW ''replay_registry_unavailable''
     | Inr nonceDigest \<Rightarrow>
       if \<not> hex64 nonceDigest then quarantine P request SD_QUARANTINED ''invalid_replay_token_digest''
       else abind (alift (ip_createId P ''admission''
           (ev_sourceId e @ ''|'' @ ev_signalId e @ ''|'' @ nonceDigest))) (\<lambda>admissionId.
         abind (port (acceptReserving P admissionId (mr_envelope request) (mr_evaluatedAt request)))
         (\<lambda>(acceptance, reservation).
           case (if svd_accepted acceptance \<and> svd_disposition acceptance = SV_ACCEPT then
               (case (sad_replayScopeDigest acceptance, reservation) of
                  (Some scopeDigest, Some reserved) \<Rightarrow> Some (scopeDigest, reserved) | _ \<Rightarrow> None) else None) of
             None \<Rightarrow> quarantine P request
               (if svd_disposition acceptance = SV_HUMAN_REVIEW then SD_HUMAN_REVIEW else SD_QUARANTINED)
               (svd_reasonCode acceptance)
           | Some (scopeDigest, reserved) \<Rightarrow> admitReserved P request e admissionId scopeDigest reserved)))"

text \<open>From the trust of the source to its rate and the accuracy of the location.\<close>
definition ingestEnvelope :: "'s MultimodalSignalIngestionPorts \<Rightarrow> MultimodalSignalIngestionOptions \<Rightarrow>
    MultimodalSignalIngestionRequest \<Rightarrow> EnvelopeView \<Rightarrow> ('s Ingestion, unit, IngestionDecision) action" where
  "ingestEnvelope P opts request e =
    abind (safeSourceTrust P (ev_sourceId e) (mr_evaluatedAt request)) (\<lambda>trustState.
      if trustState \<noteq> TRUST_ACTIVE
      then quarantine P request (if trustState = TRUST_REVOKED then SD_QUARANTINED else SD_HUMAN_REVIEW)
        (if trustState = TRUST_REVOKED then ''source_revoked'' else ''source_trust_unavailable'')
      else abind (safeRateConsume P (ev_sourceId e) (mr_evaluatedAt request)) (\<lambda>rateDecision.
        if rateDecision \<noteq> RATE_ALLOWED
        then abind (set_degraded True) (\<lambda>_. quarantine P request
          (if rateDecision = RATE_LIMITED then SD_BACKPRESSURE else SD_HUMAN_REVIEW)
          (if rateDecision = RATE_LIMITED then ''source_rate_limited'' else ''rate_limiter_unavailable''))
        else if (case accuracyMeters (mr_envelope request) of None \<Rightarrow> False
            | Some q \<Rightarrow> num_lt (io_maximumAcceptedLocationAccuracyMeters opts) (Num q))
        then quarantine P request SD_HUMAN_REVIEW ''location_accuracy_below_policy''
        else admit P request e))"

definition ingest :: "'s MultimodalSignalIngestionPorts \<Rightarrow> MultimodalSignalIngestionOptions \<Rightarrow>
    MultimodalSignalIngestionRequest \<Rightarrow> ('s Ingestion, unit, IngestionDecision) action" where
  "ingest P opts request =
    (if \<not> validOpaqueId (mr_correlationId request) \<or> \<not> validOpaqueId (mr_traceId request) \<or>
       \<not> validTimestamp (mr_evaluatedAt request)
     then quarantine P request SD_QUARANTINED ''invalid_ingestion_context''
     else let structural = validateHumanSafetySignalEnvelope (mr_envelope request) in
     case (if svd_reasonCode structural \<noteq> ''structurally_valid_replay_check_required'' then None
           else isEnvelope (mr_envelope request)) of
       None \<Rightarrow> quarantine P request
         (if svd_disposition structural = SV_HUMAN_REVIEW then SD_HUMAN_REVIEW else SD_QUARANTINED)
         (svd_reasonCode structural)
     | Some e \<Rightarrow> ingestEnvelope P opts request e)"

section \<open>What the ports promise\<close>

text \<open>The replay port of \<open>replay_admission\<close> together with the stores: no other port touches a reservation,
  and what a store answered for is there and stays while the attempt goes on.\<close>
locale ingestion_ports =
  replay_admission holder "ip_reserve P" "ip_commit P" "ip_abort P"
  for P :: "'s MultimodalSignalIngestionPorts" and holder :: "'s \<Rightarrow> string \<Rightarrow> (string \<times> string \<times> bool) option" +
  fixes provenance :: "'s \<Rightarrow> string \<Rightarrow> AcceptedSignalProvenance option"
    and intent :: "'s \<Rightarrow> string \<Rightarrow> SafetyIntentRecord option"
  assumes trust_holder: "ip_getTrustState P sid now s = (r1, t) \<Longrightarrow> holder t = holder s"
    and rate_holder: "ip_consumeRate P sid now s = (r2, t) \<Longrightarrow> holder t = holder s"
    and provenance_holder: "ip_putProvenance P v s = (r3, t) \<Longrightarrow> holder t = holder s"
    and quarantine_holder: "ip_appendQuarantine P q s = (r4, t) \<Longrightarrow> holder t = holder s"
    and raw_holder: "ip_putRawEvidence P sid raw s = (r5, t) \<Longrightarrow> holder t = holder s"
    and intent_holder: "ip_createIntent P i s = (r3, t) \<Longrightarrow> holder t = holder s"
    and provenance_stored: "ip_putProvenance P v s = (Inr x, t) \<Longrightarrow> provenance t (pv_provenanceId v) \<noteq> None"
    and intent_stored: "ip_createIntent P i s = (Inr x, t) \<Longrightarrow>
      intent t (in_signalId i) \<noteq> None \<and> provenance t = provenance s"
    and commit_stores: "ip_commit P adm s = (Inr c, t) \<Longrightarrow> provenance t = provenance s \<and> intent t = intent s"
begin

abbreviation committed_as :: "string \<Rightarrow> string \<times> string \<Rightarrow> 's \<Rightarrow> bool" where
  "committed_as n p s \<equiv> holder s n = Some (fst p, snd p, True)"

lemma keeps_ports [keeps_intros]:
  "keeps (committed_as n p) (ip_reserve P q b)"
  "keeps (committed_as n p) (ip_commit P x)"
  "keeps (committed_as n p) (ip_abort P x)"
  "keeps (committed_as n p) (ip_getTrustState P sid now)"
  "keeps (committed_as n p) (ip_consumeRate P sid now)"
  "keeps (committed_as n p) (ip_putProvenance P v)"
  "keeps (committed_as n p) (ip_appendQuarantine P qr)"
  "keeps (committed_as n p) (ip_putRawEvidence P sid raw)"
  "keeps (committed_as n p) (ip_createIntent P i)"
proof -
  have "keeps (committed_as n p) (registry_step (ip_reserve P) (ip_commit P) (ip_abort P) c)" for c
    by (rule keepsI) (blast dest: step_keeps_committed)
  from this [of "Reserve q b"] this [of "Commit x"] this [of "Abort x"]
  show "keeps (committed_as n p) (ip_reserve P q b)" "keeps (committed_as n p) (ip_commit P x)"
    "keeps (committed_as n p) (ip_abort P x)"
    by (simp_all add: registry_step_def keeps_result)
qed (rule keepsI, simp add: trust_holder rate_holder provenance_holder quarantine_holder raw_holder intent_holder)+

lemma acceptReserving_state:
  assumes "acceptReserving P admissionId input now s = (r, t)"
  shows "t = s \<or> (\<exists>q r'. ip_reserve P q admissionId s = (r', t))"
  using assms unfolding acceptReserving_def acceptHumanSafetySignalEnvelope_def Let_def
  by (auto simp: abind_def acatch_def reserving_def
      split: option.split_asm if_split_asm sum.split_asm prod.split_asm)

lemma keeps_acceptReserving [keeps_intros]:
  "keeps (committed_as n p) (acceptReserving P admissionId input now)"
  by (rule keepsI) (blast dest: acceptReserving_state keepsD [OF keeps_ports(1)])

lemma keeps_port [keeps_intros]:
  "keeps I m \<Longrightarrow> keeps (\<lambda>s. I (ig_ports s)) (port m)"
  by (rule keeps_on_part) simp

lemma keeps_quarantine [keeps_intros]:
  "keeps (\<lambda>s. committed_as n p (ig_ports s)) (quarantine P request d reason)"
  unfolding quarantine_def Let_def set_degraded_def
  by (intro keeps_intros keeps_port) auto

lemma keeps_admitReserved [keeps_intros]:
  "keeps (\<lambda>s. committed_as n p (ig_ports s)) (admitReserved P request e a sc q)"
  unfolding admitReserved_def conclude_def Let_def set_degraded_def persist_def safeAbort_def
  by (intro keeps_intros keeps_port) auto

lemma keeps_admit [keeps_intros]:
  "keeps (\<lambda>s. committed_as n p (ig_ports s)) (admit P request e)"
  unfolding admit_def
  by (auto intro!: keeps_intros split: sum.split prod.split option.split)

lemma ingest_keeps_committed:
  "keeps (\<lambda>s. committed_as n p (ig_ports s)) (ingest P opts request)"
  unfolding ingest_def ingestEnvelope_def Let_def set_degraded_def safeSourceTrust_def safeRateConsume_def
  by (intro keeps_intros keeps_port) auto

end
lemma replayToken_read:
  "isHumanSafetySignalEnvelope v = Some e \<Longrightarrow>
   member (member (Some v) ''integrity'') ''replayToken'' = Some (JStr (ss_replayToken e))"
  by (auto simp: isHumanSafetySignalEnvelope_def member_def split: json.split_asm option.split_asm)

lemma acceptReserving_accepted:
  assumes "acceptReserving P a input now s = (Inr (d, r), t)" and "svd_accepted d"
  shows "\<exists>q e. r = Some q \<and> isHumanSafetySignalEnvelope input = Some e \<and>
    ip_digest P (ss_replayToken e) = Inr (rq_nonceDigest q) \<and>
    sad_replayScopeDigest d = Some (rq_scopeDigest q) \<and> ip_reserve P q a s = (Inr RN_CONSUMED, t)"
  using assms validate_never_accepts [of input]
  unfolding acceptReserving_def acceptHumanSafetySignalEnvelope_def Let_def
  by (auto simp: abind_def acatch_def acceptanceDecision_def reserving_def
      split: option.split_asm if_split_asm sum.split_asm prod.split_asm)

lemma quarantine_disposition:
  "quarantine P request d reason s = (Inr x, t) \<Longrightarrow> id_disposition x = d"
  by (auto simp: quarantine_def Let_def abind_Inr)

lemma port_Inr: "port m s = (Inr x, t) \<longleftrightarrow> (\<exists>w. m (ig_ports s) = (Inr x, w) \<and> t = s\<lparr>ig_ports := w\<rparr>)"
  by (auto simp: on_part_eq)


context ingestion_ports
begin

lemma persist_stores:
  assumes "persist P request e pid iid scope adm s = (Inr c, t)"
  shows "\<exists>u. holder u = holder (ig_ports s) \<and> ip_commit P adm u = (Inr c, ig_ports t) \<and>
    provenance (ig_ports t) pid \<noteq> None \<and> intent (ig_ports t) (ev_signalId e) \<noteq> None"
proof -
  obtain u1 v u2 i u3 x y where
    u1: "holder u1 = holder (ig_ports s)"
    and u2: "ip_putProvenance P v u1 = (Inr x, u2)" "pv_provenanceId v = pid"
    and u3: "ip_createIntent P i u2 = (Inr y, u3)" "in_signalId i = ev_signalId e"
    and u4: "ip_commit P adm u3 = (Inr c, ig_ports t)"
  proof (cases "mr_rawEvidence request")
    case None
    then show thesis using assms unfolding persist_def by (auto simp: abind_Inr port_Inr intro: that [rotated])
  next
    case (Some raw)
    then show thesis using assms unfolding persist_def
      by (auto simp: abind_Inr port_Inr dest!: raw_holder intro: that [rotated])
  qed
  have "holder u3 = holder (ig_ports s)"
    using u1 provenance_holder [OF u2(1)] intent_holder [OF u3(1)] by simp
  moreover have "provenance (ig_ports t) pid \<noteq> None" "intent (ig_ports t) (ev_signalId e) \<noteq> None"
    using provenance_stored [OF u2(1)] intent_stored [OF u3(1)] commit_stores [OF u4] u2(2) u3(2) by auto
  ultimately show ?thesis using u4 by blast
qed

lemma conclude_accepted:
  assumes "conclude P request e pid iid adm r s = (Inr d, t)" and "id_disposition d = SD_ACCEPTED"
  shows "r \<in> {Some CM_COMMITTED, Some CM_ALREADY_COMMITTED} \<and> t = s\<lparr>ig_degraded := False\<rparr> \<and>
    id_provenanceId d = Some pid \<and> id_readiness d = ING_READY"
proof (cases r)
  case None
  then show ?thesis using assms
    by (auto simp: conclude_def abind_Inr set_degraded_def dest: quarantine_disposition)
next
  case (Some c)
  then show ?thesis using assms
    by (cases c) (auto simp: conclude_def set_degraded_def getReadiness_def dest: quarantine_disposition)
qed

lemma admitReserved_accepted:
  assumes "admitReserved P request e a scope q s = (Inr d, t)" and "id_disposition d = SD_ACCEPTED"
    and reserved: "holder (ig_ports s) (rq_nonceDigest q) = Some (a, rq_scopeDigest q, False)"
  shows "committed_as (rq_nonceDigest q) (a, rq_scopeDigest q) (ig_ports t) \<and> \<not> ig_degraded t \<and>
    id_readiness d = ING_READY \<and> (\<exists>pid. id_provenanceId d = Some pid \<and> provenance (ig_ports t) pid \<noteq> None) \<and>
    intent (ig_ports t) (ev_signalId e) \<noteq> None"
proof -
  let ?adm = "\<lparr>adm_admissionId = a, adm_nonceDigest = rq_nonceDigest q, adm_scopeDigest = rq_scopeDigest q\<rparr>"
  obtain pid iid r s1 where r: "attempt (persist P request e pid iid scope ?adm) s = (Inr r, s1)"
    and rest: "conclude P request e pid iid ?adm r s1 = (Inr d, t)"
    using assms(1) unfolding admitReserved_def Let_def by (auto simp: abind_Inr)
  note concl = conclude_accepted [OF rest assms(2)]
  obtain c where run: "persist P request e pid iid scope ?adm s = (Inr c, s1)"
    and c: "c = CM_COMMITTED \<or> c = CM_ALREADY_COMMITTED"
    using r concl by (auto simp: attempt_Inr)
  from persist_stores [OF run] obtain u where u: "holder u = holder (ig_ports s)"
    "ip_commit P ?adm u = (Inr c, ig_ports s1)" "provenance (ig_ports s1) pid \<noteq> None"
    "intent (ig_ports s1) (ev_signalId e) \<noteq> None" by blast
  have "committed_as (rq_nonceDigest q) (a, rq_scopeDigest q) (ig_ports s1)"
    using c
  proof
    assume "c = CM_COMMITTED"
    then show ?thesis using commit_done [of ?adm u "ig_ports s1"] u(2) by simp
  next
    assume "c = CM_ALREADY_COMMITTED"
    then have "holder u (rq_nonceDigest q) = Some (a, rq_scopeDigest q, True)"
      using commit_again [of ?adm u "ig_ports s1"] u(2) by simp
    then show ?thesis using reserved u(1) by simp
  qed
  then show ?thesis using u concl by auto
qed

lemma admit_accepted:
  assumes "admit P request e s = (Inr d, t)" and "id_disposition d = SD_ACCEPTED"
  shows "\<exists>token nonce a sc. member (member (Some (mr_envelope request)) ''integrity'') ''replayToken'' =
      Some (JStr token) \<and> ip_digest P token = Inr nonce \<and>
    (holder (ig_ports s) nonce = None \<or> holder (ig_ports s) nonce = Some (a, sc, False)) \<and>
    committed_as nonce (a, sc) (ig_ports t) \<and> \<not> ig_degraded t \<and>
    id_readiness d = ING_READY \<and> (\<exists>pid. id_provenanceId d = Some pid \<and> provenance (ig_ports t) pid \<noteq> None) \<and>
    intent (ig_ports t) (ev_signalId e) \<noteq> None"
proof -
  obtain a acceptance reservation w scope q where
    w: "acceptReserving P a (mr_envelope request) (mr_evaluatedAt request) (ig_ports s) =
      (Inr (acceptance, reservation), w)"
    and ok: "svd_accepted acceptance" and scope: "sad_replayScopeDigest acceptance = Some scope" "reservation = Some q"
    and rest: "admitReserved P request e a scope q (s\<lparr>ig_ports := w\<rparr>) = (Inr d, t)"
    using assms unfolding admit_def
    by (auto simp: abind_Inr on_part_eq dest: quarantine_disposition
        split: sum.split_asm if_split_asm option.split_asm prod.split_asm)
  from acceptReserving_accepted [OF w ok] obtain e' where
    e': "isHumanSafetySignalEnvelope (mr_envelope request) = Some e'"
    and nonce: "ip_digest P (ss_replayToken e') = Inr (rq_nonceDigest q)"
    and reserve: "ip_reserve P q a (ig_ports s) = (Inr RN_CONSUMED, w)"
    using scope by auto
  from reserve_consumed [OF reserve] admitReserved_accepted [OF rest assms(2)]
  show ?thesis using nonce replayToken_read [OF e'] by fastforce
qed

lemma ingestEnvelope_admits:
  assumes "ingestEnvelope P opts request e s = (Inr d, t)" and "id_disposition d = SD_ACCEPTED"
  obtains u w where "holder (ig_ports u) = holder (ig_ports s)" and "admit P request e u = (Inr d, t)"
    and "ip_getTrustState P (ev_sourceId e) (mr_evaluatedAt request) (ig_ports s) = (Inr TRUST_ACTIVE, w)"
proof -
  obtain trust s1 where trust: "safeSourceTrust P (ev_sourceId e) (mr_evaluatedAt request) s = (Inr trust, s1)"
    using assms(1) unfolding ingestEnvelope_def abind_Inr by blast
  then have s1: "holder (ig_ports s1) = holder (ig_ports s)"
    by (auto simp: safeSourceTrust_def abind_Inr attempt_Inr on_part_eq dest: trust_holder)
  obtain r s2 where rate: "safeRateConsume P (ev_sourceId e) (mr_evaluatedAt request) s1 = (Inr r, s2)"
    and active: "trust = TRUST_ACTIVE" and rest: "admit P request e s2 = (Inr d, t)"
    using assms trust unfolding ingestEnvelope_def
    by (auto simp: abind_Inr set_degraded_def dest: quarantine_disposition split: if_split_asm)
  have "holder (ig_ports s2) = holder (ig_ports s1)"
    using rate by (auto simp: safeRateConsume_def abind_Inr attempt_Inr on_part_eq dest: rate_holder)
  moreover obtain w where "ip_getTrustState P (ev_sourceId e) (mr_evaluatedAt request) (ig_ports s) = (Inr TRUST_ACTIVE, w)"
    using trust active by (auto simp: safeSourceTrust_def abind_Inr attempt_Inr on_part_eq)
  ultimately show thesis using that rest s1 by metis
qed

lemma ingest_accepted:
  assumes "ingest P opts request s = (Inr d, t)" and "id_disposition d = SD_ACCEPTED"
  shows "\<exists>e token nonce a sc w. isEnvelope (mr_envelope request) = Some e \<and>
    svd_reasonCode (validateHumanSafetySignalEnvelope (mr_envelope request)) =
      ''structurally_valid_replay_check_required'' \<and>
    ip_getTrustState P (ev_sourceId e) (mr_evaluatedAt request) (ig_ports s) = (Inr TRUST_ACTIVE, w) \<and>
    member (member (Some (mr_envelope request)) ''integrity'') ''replayToken'' = Some (JStr token) \<and>
    ip_digest P token = Inr nonce \<and>
    (holder (ig_ports s) nonce = None \<or> holder (ig_ports s) nonce = Some (a, sc, False)) \<and>
    committed_as nonce (a, sc) (ig_ports t) \<and> \<not> ig_degraded t \<and>
    id_readiness d = ING_READY \<and> (\<exists>pid. id_provenanceId d = Some pid \<and> provenance (ig_ports t) pid \<noteq> None) \<and>
    intent (ig_ports t) (ev_signalId e) \<noteq> None"
proof -
  obtain e where e: "isEnvelope (mr_envelope request) = Some e"
    and ok: "svd_reasonCode (validateHumanSafetySignalEnvelope (mr_envelope request)) =
      ''structurally_valid_replay_check_required''"
    and rest: "ingestEnvelope P opts request e s = (Inr d, t)"
    using assms unfolding ingest_def Let_def
    by (auto dest: quarantine_disposition split: if_split_asm option.split_asm)
  from rest assms(2) obtain u w where "holder (ig_ports u) = holder (ig_ports s)"
    and "ip_getTrustState P (ev_sourceId e) (mr_evaluatedAt request) (ig_ports s) = (Inr TRUST_ACTIVE, w)"
    and "admit P request e u = (Inr d, t)" by (rule ingestEnvelope_admits)
  with admit_accepted [OF this(3) assms(2)] e ok show ?thesis by metis
qed

end

end
