(* ===== verification/SignalAdapters.thy ===== *)
theory SignalAdapters
  imports SignalIngestion
begin

text \<open>
  The in-memory adapters of signal ingestion (\<open>apps/api/src/ros-eye/signal-ingestion-adapters.ts\<close>) as one
  state of stores, the ports they give, and the results about the service on these ports. The
  digests of \<open>node:crypto\<close> are the parameters \<open>sha256\<close> (of a string) and \<open>sha256_bytes\<close>.
\<close>

section \<open>The stores\<close>

record trust_registry =
  tr_states :: "string \<rightharpoonup> SourceTrustState"
  tr_unavailable :: bool

text \<open>A counter is the window and the calls it allowed.\<close>
record rate_limiter =
  rl_maximumPerWindow :: int
  rl_windowMs :: int
  rl_counters :: "string \<rightharpoonup> int \<times> int"
  rl_unavailable :: bool

record provenance_store =
  ps_byId :: "string \<rightharpoonup> AcceptedSignalProvenance"
  ps_unavailable :: bool
  ps_failNext :: bool

record quarantine_store =
  qs_records :: "SignalQuarantineRecord list"
  qs_unavailable :: bool

record raw_store =
  rs_objects :: "string \<rightharpoonup> string \<times> nat"
  rs_unavailable :: bool
  rs_failNext :: bool

record intent_store =
  is_records :: "string \<rightharpoonup> SafetyIntentRecord"
  is_unavailable :: bool
  is_failNext :: bool

record stores =
  st_registry :: registry
  st_trust :: trust_registry
  st_rate :: rate_limiter
  st_provenance :: provenance_store
  st_quarantine :: quarantine_store
  st_raw :: raw_store
  st_intents :: intent_store

definition sha_create :: "(string \<Rightarrow> string) \<Rightarrow> string \<Rightarrow> string \<Rightarrow> string" where
  "sha_create sha256 namespace material =
     namespace @ ''-'' @ take 32 (sha256 (namespace @ ''|'' @ material))"

definition trust_set :: "string \<Rightarrow> SourceTrustState \<Rightarrow> trust_registry \<Rightarrow> trust_registry" where
  "trust_set sourceId state g = g\<lparr>tr_states := (tr_states g)(sourceId \<mapsto> state)\<rparr>"

definition trust_get :: "string \<Rightarrow> string \<Rightarrow> (trust_registry, unit, SourceTrustState) action" where
  "trust_get sourceId evaluatedAt g =
     (if tr_unavailable g then (Inl (), g)
      else (Inr (case tr_states g sourceId of None \<Rightarrow> TRUST_UNKNOWN | Some x \<Rightarrow> x), g))"

definition newRateLimiter :: "js_num \<Rightarrow> js_num \<Rightarrow> string + rate_limiter" where
  "newRateLimiter maximumPerWindow windowMs =
     (if \<not> isInteger maximumPerWindow \<or> num_lt maximumPerWindow (Num 1) then Inl ''maximumPerWindow must be positive''
      else if \<not> isInteger windowMs \<or> num_lt windowMs (Num 1) then Inl ''windowMs must be positive''
      else Inr \<lparr>rl_maximumPerWindow = int_of_num maximumPerWindow, rl_windowMs = int_of_num windowMs,
        rl_counters = Map.empty, rl_unavailable = False\<rparr>)"

text \<open>\<open>Math.floor(timestamp / windowMs)\<close>: time values are below \<open>2^53\<close>, where the rounded quotient
  of two integers has the floor of the exact one.\<close>
definition rate_consume :: "string \<Rightarrow> string \<Rightarrow> (rate_limiter, unit, RateDecision) action" where
  "rate_consume sourceId evaluatedAt l =
    (if rl_unavailable l then (Inr RATE_UNAVAILABLE, l)
     else case dateParse evaluatedAt of None \<Rightarrow> (Inr RATE_UNAVAILABLE, l)
     | Some timestamp \<Rightarrow>
       let window = timestamp div rl_windowMs l in
       case rl_counters l sourceId of
         None \<Rightarrow> (Inr RATE_ALLOWED, l\<lparr>rl_counters := (rl_counters l)(sourceId \<mapsto> (window, 1))\<rparr>)
       | Some (current, count) \<Rightarrow>
           if current \<noteq> window
           then (Inr RATE_ALLOWED, l\<lparr>rl_counters := (rl_counters l)(sourceId \<mapsto> (window, 1))\<rparr>)
           else if rl_maximumPerWindow l \<le> count then (Inr RATE_LIMITED, l)
           else (Inr RATE_ALLOWED, l\<lparr>rl_counters := (rl_counters l)(sourceId \<mapsto> (current, count + 1))\<rparr>))"

definition prov_put :: "AcceptedSignalProvenance \<Rightarrow> (provenance_store, unit, PutResult) action" where
  "prov_put v s =
    (if ps_unavailable s \<or> ps_failNext s then (Inl (), s\<lparr>ps_failNext := False\<rparr>)
     else if ps_byId s (pv_provenanceId v) \<noteq> None then (Inr PUT_ALREADY_EXISTS, s)
     else (Inr PUT_CREATED, s\<lparr>ps_byId := (ps_byId s)(pv_provenanceId v \<mapsto> v)\<rparr>))"

definition quar_append :: "SignalQuarantineRecord \<Rightarrow> (quarantine_store, unit, unit) action" where
  "quar_append v s =
    (if qs_unavailable s then (Inl (), s) else (Inr (), s\<lparr>qs_records := qs_records s @ [v]\<rparr>))"

definition raw_put :: "(bytes \<Rightarrow> string) \<Rightarrow> string \<Rightarrow> RawEvidence \<Rightarrow> (raw_store, unit, string) action" where
  "raw_put sha256_bytes signalId raw s =
    (if rs_unavailable s \<or> rs_failNext s then (Inl (), s\<lparr>rs_failNext := False\<rparr>)
     else let ref = ''raw-evidence/'' @ signalId @ ''/'' @ sha256_bytes (raw_bytes raw) in
       if rs_objects s ref = None
       then (Inr ref, s\<lparr>rs_objects := (rs_objects s)(ref \<mapsto> (raw_mediaType raw, length (raw_bytes raw)))\<rparr>)
       else (Inr ref, s))"

definition intent_create :: "SafetyIntentRecord \<Rightarrow> (intent_store, unit, PutResult) action" where
  "intent_create v s =
    (if is_unavailable s \<or> is_failNext s then (Inl (), s\<lparr>is_failNext := False\<rparr>)
     else if is_records s (in_signalId v) \<noteq> None then (Inr PUT_ALREADY_EXISTS, s)
     else (Inr PUT_CREATED, s\<lparr>is_records := (is_records s)(in_signalId v \<mapsto> v)\<rparr>))"

definition memoryPorts :: "(string \<Rightarrow> string) \<Rightarrow> (bytes \<Rightarrow> string) \<Rightarrow> stores MultimodalSignalIngestionPorts" where
  "memoryPorts sha256 sha256_bytes =
    \<lparr>ip_reserve = (\<lambda>q a. on_part st_registry (\<lambda>w b. b\<lparr>st_registry := w\<rparr>) (reg_reserve q a)),
      ip_commit = (\<lambda>x. on_part st_registry (\<lambda>w b. b\<lparr>st_registry := w\<rparr>) (reg_commit x)),
      ip_abort = (\<lambda>x. on_part st_registry (\<lambda>w b. b\<lparr>st_registry := w\<rparr>) (reg_abort x)),
      ip_digest = (\<lambda>v. Inr (sha256 v)),
      ip_getTrustState = (\<lambda>i now. on_part st_trust (\<lambda>w b. b\<lparr>st_trust := w\<rparr>) (trust_get i now)),
      ip_consumeRate = (\<lambda>i now. on_part st_rate (\<lambda>w b. b\<lparr>st_rate := w\<rparr>) (rate_consume i now)),
      ip_putProvenance = (\<lambda>v. on_part st_provenance (\<lambda>w b. b\<lparr>st_provenance := w\<rparr>) (prov_put v)),
      ip_appendQuarantine = (\<lambda>v. on_part st_quarantine (\<lambda>w b. b\<lparr>st_quarantine := w\<rparr>) (quar_append v)),
      ip_putRawEvidence = (\<lambda>i raw. on_part st_raw (\<lambda>w b. b\<lparr>st_raw := w\<rparr>) (raw_put sha256_bytes i raw)),
      ip_createIntent = (\<lambda>v. on_part st_intents (\<lambda>w b. b\<lparr>st_intents := w\<rparr>) (intent_create v)),
      ip_createId = (\<lambda>n m. Inr (sha_create sha256 n m))\<rparr>"

lemma memoryPorts_fields [simp]:
  "ip_reserve (memoryPorts f g) q a = on_part st_registry (\<lambda>w b. b\<lparr>st_registry := w\<rparr>) (reg_reserve q a)"
  "ip_commit (memoryPorts f g) x = on_part st_registry (\<lambda>w b. b\<lparr>st_registry := w\<rparr>) (reg_commit x)"
  "ip_abort (memoryPorts f g) x = on_part st_registry (\<lambda>w b. b\<lparr>st_registry := w\<rparr>) (reg_abort x)"
  "ip_digest (memoryPorts f g) v = Inr (f v)"
  "ip_getTrustState (memoryPorts f g) i now = on_part st_trust (\<lambda>w b. b\<lparr>st_trust := w\<rparr>) (trust_get i now)"
  "ip_consumeRate (memoryPorts f g) i now = on_part st_rate (\<lambda>w b. b\<lparr>st_rate := w\<rparr>) (rate_consume i now)"
  "ip_putProvenance (memoryPorts f g) v' = on_part st_provenance (\<lambda>w b. b\<lparr>st_provenance := w\<rparr>) (prov_put v')"
  "ip_appendQuarantine (memoryPorts f g) qr = on_part st_quarantine (\<lambda>w b. b\<lparr>st_quarantine := w\<rparr>) (quar_append qr)"
  "ip_putRawEvidence (memoryPorts f g) i raw = on_part st_raw (\<lambda>w b. b\<lparr>st_raw := w\<rparr>) (raw_put g i raw)"
  "ip_createIntent (memoryPorts f g) ii = on_part st_intents (\<lambda>w b. b\<lparr>st_intents := w\<rparr>) (intent_create ii)"
  "ip_createId (memoryPorts f g) n m = Inr (sha_create f n m)"
  by (simp_all add: memoryPorts_def)

interpretation memory: ingestion_ports "memoryPorts sha256 sha256_bytes" "\<lambda>s. reg_holder (st_registry s)"
  "\<lambda>s. ps_byId (st_provenance s)" "\<lambda>s. is_records (st_intents s)"
proof
  fix q a and s t :: stores
  assume "ip_reserve (memoryPorts sha256 sha256_bytes) q a s = (Inr RN_CONSUMED, t)"
  then have "reg_reserve q a (st_registry s) = (Inr RN_CONSUMED, st_registry t)"
    by (auto simp: on_part_eq)
  from reg.reserve_consumed [OF this]
  show "(reg_holder (st_registry s) (rq_nonceDigest q) = None \<or>
      reg_holder (st_registry s) (rq_nonceDigest q) = Some (a, rq_scopeDigest q, False)) \<and>
    reg_holder (st_registry t) = (reg_holder (st_registry s))(rq_nonceDigest q \<mapsto> (a, rq_scopeDigest q, False))" .
qed (auto simp: on_part_eq prov_put_def intent_create_def dest: reg.reserve_refused reg.commit_done
    reg.commit_again reg.commit_other reg.abort_cases split: if_split_asm)

section \<open>Sequences of ingestions\<close>

fun ingest_all :: "'s MultimodalSignalIngestionPorts \<Rightarrow> MultimodalSignalIngestionOptions \<Rightarrow>
    MultimodalSignalIngestionRequest list \<Rightarrow> 's Ingestion \<Rightarrow> (unit + IngestionDecision) list \<times> 's Ingestion" where
  "ingest_all P opts [] s = ([], s)"
| "ingest_all P opts (r # rs) s = (case ingest P opts r s of (d, t) \<Rightarrow>
     (case ingest_all P opts rs t of (ds, u) \<Rightarrow> (d # ds, u)))"

fun accepted :: "unit + IngestionDecision \<Rightarrow> bool" where
  "accepted (Inr d) = (id_disposition d = SD_ACCEPTED)"
| "accepted (Inl _) = False"

text \<open>The nonce digest of a request's replay token.\<close>
definition replay_digest :: "'s MultimodalSignalIngestionPorts \<Rightarrow> MultimodalSignalIngestionRequest \<Rightarrow> string option" where
  "replay_digest P r = (case member (member (Some (mr_envelope r)) ''integrity'') ''replayToken'' of
     Some (JStr token) \<Rightarrow> (case ip_digest P token of Inr n \<Rightarrow> Some n | Inl _ \<Rightarrow> None) | _ \<Rightarrow> None)"

context ingestion_ports
begin

lemma accepted_commits:
  assumes "ingest P opts r s = (x, t)" and "accepted x"
  obtains n p where "replay_digest P r = Some n" and "committed_as n p (ig_ports t)"
    and "\<And>p'. \<not> committed_as n p' (ig_ports s)"
proof -
  obtain d where x: "x = Inr d" "id_disposition d = SD_ACCEPTED" using assms(2) by (cases x) auto
  show thesis
    using ingest_accepted [OF assms(1) [unfolded x(1)] x(2)] that by (fastforce simp: replay_digest_def)
qed

lemma committed_not_accepted:
  assumes "ingest_all P opts rs s = (ds, t)" and "committed_as n p (ig_ports s)"
    and "k < length rs" and "accepted (ds ! k)"
  shows "replay_digest P (rs ! k) \<noteq> Some n"
  using assms
proof (induction rs arbitrary: s ds k)
  case (Cons r rs)
  obtain x u ds' where x: "ingest P opts r s = (x, u)" and rest: "ingest_all P opts rs u = (ds', t)" "ds = x # ds'"
    using Cons.prems(1) by (auto split: prod.splits)
  have u: "committed_as n p (ig_ports u)"
    using keepsD [OF ingest_keeps_committed x] Cons.prems(2) by blast
  show ?case
  proof (cases k)
    case 0
    then have "accepted x" using Cons.prems(4) rest(2) by simp
    from accepted_commits [OF x this] show ?thesis using Cons.prems(2) 0 by (metis nth_Cons_0 option.inject)
  next
    case (Suc k')
    then show ?thesis using Cons.IH [OF rest(1) u, of k'] Cons.prems rest(2) by simp
  qed
qed simp

lemma accepted_once:
  assumes "ingest_all P opts rs s = (ds, t)" and "i < j" and "j < length rs"
    and "accepted (ds ! i)" and "accepted (ds ! j)"
  shows "replay_digest P (rs ! i) \<noteq> replay_digest P (rs ! j)"
  using assms
proof (induction rs arbitrary: s ds i j)
  case (Cons r rs)
  obtain x u ds' where x: "ingest P opts r s = (x, u)" and rest: "ingest_all P opts rs u = (ds', t)" "ds = x # ds'"
    using Cons.prems(1) by (auto split: prod.splits)
  obtain j' where j: "j = Suc j'" using Cons.prems(2) by (cases j) auto
  show ?case
  proof (cases i)
    case 0
    then have "accepted x" using Cons.prems(4) rest(2) by simp
    then obtain n p where "replay_digest P r = Some n" "committed_as n p (ig_ports u)"
      by (rule accepted_commits [OF x])
    then show ?thesis
      using committed_not_accepted [OF rest(1), of n p j'] Cons.prems 0 j rest(2) by simp
  next
    case (Suc i')
    then show ?thesis using Cons.IH [OF rest(1), of i' j'] Cons.prems rest(2) j by simp
  qed
qed simp

end



section \<open>Simulated signals\<close>

text \<open>\<open>{...base, k: v}\<close>: a key of the base is overwritten in place, a new one is appended.\<close>
fun put_field :: "(string \<times> json) list \<Rightarrow> string \<times> json \<Rightarrow> (string \<times> json) list" where
  "put_field [] kv = [kv]"
| "put_field (f # fs) kv = (if fst f = fst kv then kv # fs else f # put_field fs kv)"

definition spread :: "(string \<times> json) list \<Rightarrow> (string \<times> json) list \<Rightarrow> (string \<times> json) list" where
  "spread base overrides = foldl put_field base overrides"

definition integrity_of :: "string \<Rightarrow> rat \<Rightarrow> json" where
  "integrity_of token skew = JObj [(''replayToken'', JStr token), (''signatureStatus'', JStr ''VERIFIED''),
     (''clockSkewMs'', JNum (Num skew))]"

text \<open>The decimal literals stand for the doubles nearest to them, written as fractions.\<close>
definition phoneMotionSimulator :: "(string \<times> json) list \<Rightarrow> (string \<times> json) list" where
  "phoneMotionSimulator overrides = spread [
     (''signalId'', JStr ''signal-phone-001''), (''schemaVersion'', JStr ''ros-eye.signal.v1''),
     (''purposePolicyVersion'', JStr ''ros-eye.purpose.v1''), (''dataClassification'', JStr ''SENSITIVE_RESTRICTED''),
     (''retentionClass'', JStr ''SHORT_LIVED_SIGNAL_METADATA''), (''sourceType'', JStr ''PHONE''),
     (''sourceId'', JStr ''device-pseudonym-001''), (''occurredAt'', JStr ''2026-07-29T12:00:00.000Z''),
     (''receivedAt'', JStr ''2026-07-29T12:00:01.000Z''), (''consentBasis'', JStr ''EXPLICIT''),
     (''integrity'', integrity_of ''nonce-phone-001'' 1000),
     (''location'', JObj [(''latitude'', JNum (Num (1739064996109117 / 70368744177664))), (''longitude'', JNum (Num (6568964490231441 / 140737488355328))),
        (''accuracyMeters'', JNum (Num 20)), (''classification'', JStr ''PRECISE_RESTRICTED'')]),
     (''payload'', JObj [(''kind'', JStr ''PHONE_MOTION''), (''accelerationMagnitude'', JNum (Num (2589569785738035 / 140737488355328))),
        (''impactDetected'', JBool True)])] overrides"

definition vehicleEventSimulator :: "(string \<times> json) list \<Rightarrow> (string \<times> json) list" where
  "vehicleEventSimulator overrides = spread (spread (phoneMotionSimulator []) [
     (''signalId'', JStr ''signal-vehicle-001''), (''sourceType'', JStr ''VEHICLE''),
     (''sourceId'', JStr ''vehicle-pseudonym-001''), (''integrity'', integrity_of ''nonce-vehicle-001'' 500),
     (''payload'', JObj [(''kind'', JStr ''VEHICLE_EVENT''), (''eventCode'', JStr ''IMPACT''),
        (''confidence'', JNum (Num (8196551321814303 / 9007199254740992)))])]) overrides"

definition personReportSimulator :: "(string \<times> json) list \<Rightarrow> (string \<times> json) list" where
  "personReportSimulator overrides = spread (spread (phoneMotionSimulator []) [
     (''signalId'', JStr ''signal-person-001''), (''sourceType'', JStr ''PERSON''),
     (''sourceId'', JStr ''person-pseudonym-001''), (''integrity'', integrity_of ''nonce-person-001'' 0),
     (''location'', JNull), (''payload'', JObj [(''kind'', JStr ''PERSON_REPORT''),
        (''indicatorCodes'', JArr [JStr ''HELP_REQUESTED''])])]) overrides"

definition operatorObservationSimulator :: "(string \<times> json) list \<Rightarrow> (string \<times> json) list" where
  "operatorObservationSimulator overrides = spread (spread (phoneMotionSimulator []) [
     (''signalId'', JStr ''signal-operator-001''), (''sourceType'', JStr ''OPERATOR''),
     (''sourceId'', JStr ''operator-pseudonym-001''), (''consentBasis'', JStr ''OPERATOR_ENTERED''),
     (''integrity'', integrity_of ''nonce-operator-001'' 0), (''location'', JNull),
     (''payload'', JObj [(''kind'', JStr ''OPERATOR_OBSERVATION''),
        (''indicatorCodes'', JArr [JStr ''COMMUNICATION_INTERRUPTED''])])]) overrides"

definition infrastructureMetadataSimulator :: "(string \<times> json) list \<Rightarrow> (string \<times> json) list" where
  "infrastructureMetadataSimulator overrides = spread (spread (phoneMotionSimulator []) [
     (''signalId'', JStr ''signal-infrastructure-001''), (''sourceType'', JStr ''INFRASTRUCTURE''),
     (''sourceId'', JStr ''road-sensor-pseudonym-001''),
     (''integrity'', integrity_of ''nonce-infrastructure-001'' 200),
     (''payload'', JObj [(''kind'', JStr ''INFRASTRUCTURE_METADATA''), (''sensorType'', JStr ''ROAD_SENSOR''),
        (''confidence'', JNum (Num (3512807709348987 / 4503599627370496)))])]) overrides"

definition unsupportedWearableSimulator :: "(string \<times> json) list" where
  "unsupportedWearableSimulator = spread (phoneMotionSimulator []) [
     (''signalId'', JStr ''signal-wearable-future-001''), (''sourceType'', JStr ''WEARABLE''),
     (''sourceId'', JStr ''wearable-pseudonym-001''), (''integrity'', integrity_of ''nonce-wearable-001'' 0),
     (''payload'', JObj [(''kind'', JStr ''WEARABLE_EVENT''), (''confidence'', JNum (Num (1 / 2)))])]"

lemma phone_signal_valid:
  "svd_reasonCode (validateHumanSafetySignalEnvelope (JObj (phoneMotionSimulator []))) =
     ''structurally_valid_replay_check_required''"
  by code_simp

definition sample_sha :: "string \<Rightarrow> string" where
  "sample_sha v = replicate 64 (CHR ''a'')"

definition sample_signal :: MultimodalSignalIngestionRequest where
  "sample_signal = \<lparr>mr_envelope = JObj (phoneMotionSimulator []), mr_correlationId = ''corr-1'',
     mr_traceId = ''trace-1'', mr_evaluatedAt = ''2026-07-29T12:00:02.000Z'', mr_rawEvidence = None\<rparr>"

definition sample_stores :: stores where
  "sample_stores = \<lparr>st_registry = empty_registry,
     st_trust = \<lparr>tr_states = [''device-pseudonym-001'' \<mapsto> TRUST_ACTIVE], tr_unavailable = False\<rparr>,
     st_rate = \<lparr>rl_maximumPerWindow = 10, rl_windowMs = 60000, rl_counters = Map.empty, rl_unavailable = False\<rparr>,
     st_provenance = \<lparr>ps_byId = Map.empty, ps_unavailable = False, ps_failNext = False\<rparr>,
     st_quarantine = \<lparr>qs_records = [], qs_unavailable = False\<rparr>,
     st_raw = \<lparr>rs_objects = Map.empty, rs_unavailable = False, rs_failNext = False\<rparr>,
     st_intents = \<lparr>is_records = Map.empty, is_unavailable = False, is_failNext = False\<rparr>\<rparr>"

lemma sample_signal_accepted:
  "accepted (fst (ingest (memoryPorts sample_sha (\<lambda>_. [])) DEFAULT_OPTIONS sample_signal
     \<lparr>ig_ports = sample_stores, ig_degraded = False\<rparr>))"
  by code_simp


definition second_signal :: MultimodalSignalIngestionRequest where
  "second_signal = sample_signal\<lparr>mr_envelope :=
     JObj (phoneMotionSimulator [(''integrity'', integrity_of ''nonce-phone-002'' 1000)])\<rparr>"

definition two_hash :: "string \<Rightarrow> string" where
  "two_hash v = replicate 64 (if v = ''nonce-phone-002'' then CHR ''b'' else CHR ''a'')"

lemma two_signals_accepted:
  "List.map accepted (fst (ingest_all (memoryPorts two_hash (\<lambda>_. [])) DEFAULT_OPTIONS [sample_signal, second_signal]
     \<lparr>ig_ports = sample_stores, ig_degraded = False\<rparr>)) = [True, True]"
  by code_simp


end
