(* ===== verification/SignalQueue.thy ===== *)
theory SignalQueue
  imports SignalAdapters
begin

text \<open>
  The bounded queue of \<open>MultimodalSignalIngestionService\<close> (\<open>enqueue\<close>, \<open>drainQueue\<close>) as a step relation.
  \<open>processing\<close> holds exactly while an entry is being ingested: it is the field \<open>iq_current\<close>. A caller
  is a ticket; \<open>iq_settled\<close> lists the promises that were settled, \<open>iq_started\<close> the entries \<open>drainQueue\<close>
  finished with, in order. Between two steps of the queue any number of \<open>enqueue\<close> calls may happen.
\<close>

record 's IngestionQueue =
  iq_service :: "'s Ingestion"
  iq_queue :: "(nat \<times> MultimodalSignalIngestionRequest) list"
  iq_current :: "(nat \<times> MultimodalSignalIngestionRequest) option"
  iq_settled :: "(nat \<times> (unit + IngestionDecision)) list"
  iq_finished :: "nat list"
  iq_next :: nat

definition processing :: "'s IngestionQueue \<Rightarrow> bool" where
  "processing q \<longleftrightarrow> iq_current q \<noteq> None"

definition getQueueDepth :: "'s IngestionQueue \<Rightarrow> nat" where
  "getQueueDepth q = length (iq_queue q)"

text \<open>\<open>this.queue.shift()\<close>: the next entry, or the end of \<open>drainQueue\<close>.\<close>
definition shift :: "'s IngestionQueue \<Rightarrow> 's IngestionQueue" where
  "shift q = (case iq_queue q of [] \<Rightarrow> q\<lparr>iq_current := None\<rparr>
     | x # xs \<Rightarrow> q\<lparr>iq_current := Some x, iq_queue := xs\<rparr>)"

definition enqueue :: "'s MultimodalSignalIngestionPorts \<Rightarrow> nat \<Rightarrow> MultimodalSignalIngestionRequest \<Rightarrow>
    's IngestionQueue \<Rightarrow> 's IngestionQueue" where
  "enqueue P maxQueueDepth request q =
    (let ticket = iq_next q; outstanding = getQueueDepth q + (if processing q then 1 else 0) in
     if maxQueueDepth \<le> outstanding
     then case abind (set_degraded True)
         (\<lambda>_. quarantine P request SD_BACKPRESSURE ''queue_capacity_exceeded'') (iq_service q) of (r, s) \<Rightarrow>
       q\<lparr>iq_service := s, iq_settled := iq_settled q @ [(ticket, r)], iq_next := Suc ticket\<rparr>
     else let q' = q\<lparr>iq_queue := iq_queue q @ [(ticket, request)], iq_next := Suc ticket\<rparr> in
       if processing q then q' else shift q')"

text \<open>One turn of the loop of \<open>drainQueue\<close>. An exception of \<open>ingest\<close> ends the loop without settling the
  promise of its caller; the \<open>finally\<close> starts a new loop when entries are waiting.\<close>
definition finish :: "'s MultimodalSignalIngestionPorts \<Rightarrow> MultimodalSignalIngestionOptions \<Rightarrow>
    's IngestionQueue \<Rightarrow> 's IngestionQueue" where
  "finish P opts q = (case iq_current q of None \<Rightarrow> q
     | Some (ticket, request) \<Rightarrow> (case ingest P opts request (iq_service q) of
         (Inr d, s) \<Rightarrow> shift (q\<lparr>iq_service := s, iq_settled := iq_settled q @ [(ticket, Inr d)],
           iq_finished := iq_finished q @ [ticket]\<rparr>)
       | (Inl _, s) \<Rightarrow> shift (q\<lparr>iq_service := s, iq_finished := iq_finished q @ [ticket]\<rparr>)))"

inductive queue_step :: "'s MultimodalSignalIngestionPorts \<Rightarrow> MultimodalSignalIngestionOptions \<Rightarrow> nat \<Rightarrow>
    's IngestionQueue \<Rightarrow> 's IngestionQueue \<Rightarrow> bool" for P opts maxQueueDepth where
  enqueue_step: "queue_step P opts maxQueueDepth q (enqueue P maxQueueDepth request q)"
| finish_step: "iq_current q \<noteq> None \<Longrightarrow> queue_step P opts maxQueueDepth q (finish P opts q)"

definition idle :: "'s Ingestion \<Rightarrow> 's IngestionQueue" where
  "idle s = \<lparr>iq_service = s, iq_queue = [], iq_current = None, iq_settled = [], iq_finished = [], iq_next = 0\<rparr>"

inductive queue_reachable :: "'s MultimodalSignalIngestionPorts \<Rightarrow> MultimodalSignalIngestionOptions \<Rightarrow> nat \<Rightarrow>
    's IngestionQueue \<Rightarrow> bool" for P opts maxQueueDepth where
  start: "queue_reachable P opts maxQueueDepth (idle s)"
| step: "queue_reachable P opts maxQueueDepth q \<Longrightarrow> queue_step P opts maxQueueDepth q q' \<Longrightarrow>
    queue_reachable P opts maxQueueDepth q'"

inductive_cases queue_stepE: "queue_step P opts maxQueueDepth q q'"

definition pending :: "'s IngestionQueue \<Rightarrow> (nat \<times> MultimodalSignalIngestionRequest) list" where
  "pending q = (case iq_current q of None \<Rightarrow> [] | Some c \<Rightarrow> [c]) @ iq_queue q"

definition queue_ok :: "nat \<Rightarrow> 's IngestionQueue \<Rightarrow> bool" where
  "queue_ok maxQueueDepth q \<longleftrightarrow> (iq_current q = None \<longrightarrow> iq_queue q = []) \<and>
     length (pending q) \<le> maxQueueDepth \<and>
     sorted_wrt (<) (iq_finished q @ List.map fst (pending q)) \<and>
     (\<forall>n \<in> set (iq_finished q @ List.map fst (pending q)). n < iq_next q)"

lemma pending_shift [simp]: "pending (shift q) = iq_queue q"
  by (simp add: pending_def shift_def split: list.split)

lemma shift_fields [simp]: "iq_finished (shift q) = iq_finished q" "iq_next (shift q) = iq_next q"
  "iq_current (shift q) = None \<longleftrightarrow> iq_queue q = []" "iq_settled (shift q) = iq_settled q"
  "iq_current (shift q) = None \<Longrightarrow> iq_queue (shift q) = []"
  by (auto simp: shift_def split: list.splits)

lemma outstanding_pending: "getQueueDepth q + (if processing q then 1 else 0) = length (pending q)"
  by (simp add: getQueueDepth_def processing_def pending_def split: option.split)

lemma finish_pending:
  assumes "iq_current q = Some c"
  shows "pending (finish P opts q) = iq_queue q" "iq_finished (finish P opts q) = iq_finished q @ [fst c]"
    "iq_next (finish P opts q) = iq_next q"
    "iq_current (finish P opts q) = None \<longrightarrow> iq_queue (finish P opts q) = []"
  using assms by (auto simp: finish_def split: prod.split sum.split)

lemma finish_ok:
  assumes "queue_ok m q" and "iq_current q = Some c"
  shows "queue_ok m (finish P opts q)"
  using assms finish_pending [OF assms(2), of P opts] by (auto simp: queue_ok_def pending_def [of q])

lemma enqueue_pending:
  assumes "iq_current q = None \<longrightarrow> iq_queue q = []"
  shows "pending (enqueue P m r q) =
      (if m \<le> length (pending q) then pending q else pending q @ [(iq_next q, r)])"
    "iq_finished (enqueue P m r q) = iq_finished q" "iq_next (enqueue P m r q) = Suc (iq_next q)"
    "iq_current (enqueue P m r q) = None \<longrightarrow> iq_queue (enqueue P m r q) = []"
  using assms unfolding enqueue_def Let_def outstanding_pending
  by (auto simp: pending_def processing_def shift_def split: prod.split option.splits)

lemma enqueue_ok: "queue_ok m q \<Longrightarrow> queue_ok m (enqueue P m r q)"
  using enqueue_pending [of q P m r] by (auto simp: queue_ok_def sorted_wrt_append less_SucI)

lemma reachable_ok: "queue_reachable P opts m q \<Longrightarrow> queue_ok m q"
proof (induction rule: queue_reachable.induct)
  case (start s)
  then show ?case by (simp add: queue_ok_def idle_def pending_def)
next
  case (step q q')
  then show ?case by (auto elim!: queue_stepE intro: enqueue_ok finish_ok)
qed

text \<open>C15: the queue is bounded and first-in-first-out. Whatever the callers do, at most
  \<open>maxQueueDepth\<close> requests wait or are being ingested; a request waits only while another is being
  ingested; and entries are finished in the order in which they were admitted.\<close>
theorem queue_is_bounded_and_fifo:
  assumes "queue_reachable P opts maxQueueDepth q"
  shows "getQueueDepth q + (if processing q then 1 else 0) \<le> maxQueueDepth \<and>
    (\<not> processing q \<longrightarrow> getQueueDepth q = 0) \<and>
    sorted_wrt (<) (iq_finished q @ List.map fst (pending q))"
  using reachable_ok [OF assms] unfolding outstanding_pending
  by (auto simp: queue_ok_def processing_def getQueueDepth_def)

definition two_waiting :: "stores IngestionQueue" where
  "two_waiting = enqueue (memoryPorts sample_sha (\<lambda>_. [])) 2 sample_signal
     (enqueue (memoryPorts sample_sha (\<lambda>_. [])) 2 sample_signal
       (idle \<lparr>ig_ports = sample_stores, ig_degraded = False\<rparr>))"

lemma two_waiting_reachable:
  "queue_reachable (memoryPorts sample_sha (\<lambda>_. [])) DEFAULT_OPTIONS 2 two_waiting"
  unfolding two_waiting_def
  by (rule queue_reachable.step [OF queue_reachable.step [OF queue_reachable.start enqueue_step] enqueue_step])

lemma two_waiting_pending: "pending two_waiting = [(0, sample_signal), (1, sample_signal)]"
  by (simp add: two_waiting_def enqueue_def idle_def pending_def shift_def getQueueDepth_def processing_def Let_def)

theorem queue_is_bounded_and_fifo_witness:
  "getQueueDepth two_waiting + (if processing two_waiting then 1 else 0) \<le> 2 \<and> pending two_waiting \<noteq> []"
  using queue_is_bounded_and_fifo [OF two_waiting_reachable] two_waiting_pending by simp

lemma drained: "queue_ok m q \<Longrightarrow> length (pending q) = n \<Longrightarrow>
  iq_finished ((finish P opts ^^ n) q) = iq_finished q @ List.map fst (pending q) \<and>
  pending ((finish P opts ^^ n) q) = []"
proof (induction n arbitrary: q)
  case (Suc n)
  then obtain c where c: "iq_current q = Some c"
    by (cases "iq_current q") (auto simp: pending_def queue_ok_def)
  note f = finish_pending [OF c, of P opts]
  have p: "pending q = c # iq_queue q" using c by (simp add: pending_def)
  then have "length (pending (finish P opts q)) = n" using f(1) Suc.prems(2) by simp
  from Suc.IH [OF finish_ok [OF Suc.prems(1) c] this] show ?case
    using f(1,2) p by (simp add: funpow_swap1)
qed simp



end
