(* ===== verification/ContactProtocol.thy ===== *)
theory ContactProtocol
  imports HumanSafety JsAction
begin

text \<open>
  The human contact protocol (\<open>packages/contracts/src/human-contact-protocol.ts\<close>): the states of a
  contact session, who may move it between them, the decision on a transition, and the structured
  replies with their replay protection. The Arabic prompt texts are not modelled.
\<close>

section \<open>States, authorities and limits\<close>

definition HUMAN_CONTACT_PROTOCOL_VERSION :: string where "HUMAN_CONTACT_PROTOCOL_VERSION = ''ros-eye.contact.v1''"
definition HUMAN_CONTACT_PROMPT_POLICY_VERSION :: string where
  "HUMAN_CONTACT_PROMPT_POLICY_VERSION = ''ros-eye.contact-prompts.v1''"
definition HUMAN_CONTACT_ACCESSIBILITY_POLICY_VERSION :: string where
  "HUMAN_CONTACT_ACCESSIBILITY_POLICY_VERSION = ''ros-eye.accessibility.v1''"
definition HUMAN_CONTACT_AUTHORITY_POLICY_VERSION :: string where
  "HUMAN_CONTACT_AUTHORITY_POLICY_VERSION = ''ros-eye.contact-authority.v1''"
definition HUMAN_CONTACT_REPLY_TIME_POLICY_VERSION :: string where
  "HUMAN_CONTACT_REPLY_TIME_POLICY_VERSION = ''ros-eye.contact-reply-time.v1''"
definition HUMAN_CONTACT_REPLY_REPLAY_POLICY_VERSION :: string where
  "HUMAN_CONTACT_REPLY_REPLAY_POLICY_VERSION = ''ros-eye.contact-reply-replay.v1''"
definition HUMAN_CONTACT_MAX_AUTOMATED_ATTEMPTS :: int where "HUMAN_CONTACT_MAX_AUTOMATED_ATTEMPTS = 3"
definition HUMAN_CONTACT_RESPONSE_DEADLINE_MS :: int where "HUMAN_CONTACT_RESPONSE_DEADLINE_MS = 30000"
definition HUMAN_CONTACT_RETRY_BASE_DELAY_MS :: int where "HUMAN_CONTACT_RETRY_BASE_DELAY_MS = 15000"
definition HUMAN_CONTACT_REPLY_MAX_CLOCK_SKEW_MS :: int where
  "HUMAN_CONTACT_REPLY_MAX_CLOCK_SKEW_MS = 5 * 60 * 1000"
definition HUMAN_CONTACT_REPLY_MAX_AGE_MS :: int where "HUMAN_CONTACT_REPLY_MAX_AGE_MS = 24 * 60 * 60 * 1000"
definition HUMAN_CONTACT_REPLY_TTL_MS :: int where "HUMAN_CONTACT_REPLY_TTL_MS = 24 * 60 * 60 * 1000"

lemmas contact_limits = HUMAN_CONTACT_MAX_AUTOMATED_ATTEMPTS_def HUMAN_CONTACT_RESPONSE_DEADLINE_MS_def
  HUMAN_CONTACT_RETRY_BASE_DELAY_MS_def HUMAN_CONTACT_REPLY_MAX_CLOCK_SKEW_MS_def
  HUMAN_CONTACT_REPLY_MAX_AGE_MS_def HUMAN_CONTACT_REPLY_TTL_MS_def

datatype HumanContactState =
    HC_CREATED | HC_CONSENT_PENDING | HC_LANGUAGE_SELECTION | HC_CONTACTING
  | HC_AWAITING_RESPONSE | HC_PARTIAL_RESPONSE | HC_RESPONSE_CONFIRMED | HC_DISCONNECTED
  | HC_NO_RESPONSE | HC_UNREACHABLE | HC_OPERATOR_TAKEOVER | HC_HUMAN_REVIEW
  | HC_ESCALATED | HC_COMPLETED

datatype HumanContactLanguage = LANG_ar | LANG_en | LANG_UNKNOWN
datatype HumanContactIdentityConfidence = ID_UNVERIFIED | ID_PARTIAL | ID_CONFIRMED
datatype HumanContactAuthority = CA_START_CONTACT | CA_RECORD_RESPONSE | CA_RETRY_CONTACT | CA_ESCALATE_CONTACT
  | CA_TAKE_OVER_CONTACT | CA_COMPLETE_CONTACT

fun contact_state_name :: "HumanContactState \<Rightarrow> string" where
  "contact_state_name HC_CREATED = ''CREATED''"
| "contact_state_name HC_CONSENT_PENDING = ''CONSENT_PENDING''"
| "contact_state_name HC_LANGUAGE_SELECTION = ''LANGUAGE_SELECTION''"
| "contact_state_name HC_CONTACTING = ''CONTACTING''"
| "contact_state_name HC_AWAITING_RESPONSE = ''AWAITING_RESPONSE''"
| "contact_state_name HC_PARTIAL_RESPONSE = ''PARTIAL_RESPONSE''"
| "contact_state_name HC_RESPONSE_CONFIRMED = ''RESPONSE_CONFIRMED''"
| "contact_state_name HC_DISCONNECTED = ''DISCONNECTED''"
| "contact_state_name HC_NO_RESPONSE = ''NO_RESPONSE''"
| "contact_state_name HC_UNREACHABLE = ''UNREACHABLE''"
| "contact_state_name HC_OPERATOR_TAKEOVER = ''OPERATOR_TAKEOVER''"
| "contact_state_name HC_HUMAN_REVIEW = ''HUMAN_REVIEW''"
| "contact_state_name HC_ESCALATED = ''ESCALATED''"
| "contact_state_name HC_COMPLETED = ''COMPLETED''"

record HumanContactAccessibilityProfile =
  ac_screenReaderRequired :: bool
  ac_handsFreeRequired :: bool
  ac_largeControlsRequired :: bool
  ac_simpleLanguageRequired :: bool
  ac_visualAlternativeRequired :: bool
  ac_audioAlternativeRequired :: bool

record HumanContactSession =
  hc_sessionId :: string
  hc_caseId :: string
  hc_state :: HumanContactState
  hc_version :: int
  hc_protocolVersion :: string
  hc_promptPolicyVersion :: string
  hc_accessibilityPolicyVersion :: string
  hc_language :: HumanContactLanguage
  hc_identityConfidence :: HumanContactIdentityConfidence
  hc_activeChannel :: "HumanSafetyChannel option"
  hc_attemptCount :: int
  hc_responseDeadlineAt :: "string option"
  hc_lastInteractionAt :: string
  hc_assignedOperatorId :: "string option"
  hc_accessibility :: HumanContactAccessibilityProfile

record HumanContactTransitionContext =
  hx_actorId :: string
  hx_actorRoles :: "HumanSafetyActorRole list"
  hx_occurredAt :: string
  hx_reason :: string
  hx_traceId :: string
  hx_channelHealthy :: bool
  hx_accessibilitySatisfied :: bool
  hx_expectedVersion :: int

record HumanContactTransitionDecision =
  hd_allowed :: bool
  hd_nextState :: HumanContactState
  hd_reasonCode :: string
  hd_auditAction :: string
  hd_deadlineAt :: "string option"
  hd_requiresHumanAction :: bool
  hd_requiredAuthority :: "HumanContactAuthority option"
  hd_authorizedByRole :: "HumanSafetyActorRole option"
  hd_authorityPolicyVersion :: string

fun HUMAN_CONTACT_ROLE_AUTHORITIES :: "HumanSafetyActorRole \<Rightarrow> HumanContactAuthority list" where
  "HUMAN_CONTACT_ROLE_AUTHORITIES HR_SYSTEM = [CA_START_CONTACT, CA_RECORD_RESPONSE, CA_RETRY_CONTACT, CA_ESCALATE_CONTACT]"
| "HUMAN_CONTACT_ROLE_AUTHORITIES HR_OPERATOR = [CA_START_CONTACT, CA_RECORD_RESPONSE, CA_RETRY_CONTACT, CA_ESCALATE_CONTACT,
     CA_TAKE_OVER_CONTACT, CA_COMPLETE_CONTACT]"
| "HUMAN_CONTACT_ROLE_AUTHORITIES HR_SUPERVISOR = [CA_START_CONTACT, CA_RECORD_RESPONSE, CA_RETRY_CONTACT, CA_ESCALATE_CONTACT,
     CA_TAKE_OVER_CONTACT, CA_COMPLETE_CONTACT]"
| "HUMAN_CONTACT_ROLE_AUTHORITIES HR_SAFETY_LEAD = [CA_START_CONTACT, CA_RECORD_RESPONSE, CA_RETRY_CONTACT, CA_ESCALATE_CONTACT,
     CA_TAKE_OVER_CONTACT, CA_COMPLETE_CONTACT]"
| "HUMAN_CONTACT_ROLE_AUTHORITIES HR_AUDITOR = []"
| "HUMAN_CONTACT_ROLE_AUTHORITIES HR_SIMULATED_CHANNEL = []"

fun contactAllowed :: "HumanContactState \<Rightarrow> HumanContactState list" where
  "contactAllowed HC_CREATED = [HC_CONSENT_PENDING, HC_HUMAN_REVIEW, HC_ESCALATED]"
| "contactAllowed HC_CONSENT_PENDING = [HC_LANGUAGE_SELECTION, HC_HUMAN_REVIEW, HC_ESCALATED]"
| "contactAllowed HC_LANGUAGE_SELECTION = [HC_CONTACTING, HC_HUMAN_REVIEW, HC_ESCALATED]"
| "contactAllowed HC_CONTACTING = [HC_AWAITING_RESPONSE, HC_HUMAN_REVIEW, HC_ESCALATED]"
| "contactAllowed HC_AWAITING_RESPONSE = [HC_PARTIAL_RESPONSE, HC_RESPONSE_CONFIRMED, HC_DISCONNECTED, HC_NO_RESPONSE, HC_OPERATOR_TAKEOVER, HC_HUMAN_REVIEW, HC_ESCALATED]"
| "contactAllowed HC_PARTIAL_RESPONSE = [HC_AWAITING_RESPONSE, HC_RESPONSE_CONFIRMED, HC_DISCONNECTED, HC_OPERATOR_TAKEOVER, HC_HUMAN_REVIEW, HC_ESCALATED]"
| "contactAllowed HC_RESPONSE_CONFIRMED = [HC_OPERATOR_TAKEOVER, HC_HUMAN_REVIEW, HC_ESCALATED, HC_COMPLETED]"
| "contactAllowed HC_DISCONNECTED = [HC_CONTACTING, HC_OPERATOR_TAKEOVER, HC_HUMAN_REVIEW, HC_ESCALATED]"
| "contactAllowed HC_NO_RESPONSE = [HC_CONTACTING, HC_OPERATOR_TAKEOVER, HC_HUMAN_REVIEW, HC_ESCALATED]"
| "contactAllowed HC_UNREACHABLE = [HC_OPERATOR_TAKEOVER, HC_HUMAN_REVIEW, HC_ESCALATED]"
| "contactAllowed HC_OPERATOR_TAKEOVER = [HC_HUMAN_REVIEW, HC_ESCALATED, HC_COMPLETED]"
| "contactAllowed HC_HUMAN_REVIEW = [HC_OPERATOR_TAKEOVER, HC_ESCALATED, HC_COMPLETED]"
| "contactAllowed HC_ESCALATED = [HC_OPERATOR_TAKEOVER, HC_HUMAN_REVIEW]"
| "contactAllowed HC_COMPLETED = [HC_HUMAN_REVIEW, HC_ESCALATED]"

definition CONTACT_TRANSITION_AUTHORITIES ::
  "((HumanContactState \<times> HumanContactState) \<times> HumanContactAuthority) list" where
  "CONTACT_TRANSITION_AUTHORITIES = [
     ((HC_CREATED, HC_CONSENT_PENDING), CA_START_CONTACT), ((HC_CREATED, HC_HUMAN_REVIEW), CA_ESCALATE_CONTACT),
     ((HC_CREATED, HC_ESCALATED), CA_ESCALATE_CONTACT), ((HC_CONSENT_PENDING, HC_LANGUAGE_SELECTION), CA_RECORD_RESPONSE),
     ((HC_CONSENT_PENDING, HC_HUMAN_REVIEW), CA_ESCALATE_CONTACT), ((HC_CONSENT_PENDING, HC_ESCALATED), CA_ESCALATE_CONTACT),
     ((HC_LANGUAGE_SELECTION, HC_CONTACTING), CA_START_CONTACT), ((HC_LANGUAGE_SELECTION, HC_HUMAN_REVIEW), CA_ESCALATE_CONTACT),
     ((HC_LANGUAGE_SELECTION, HC_ESCALATED), CA_ESCALATE_CONTACT), ((HC_CONTACTING, HC_AWAITING_RESPONSE), CA_START_CONTACT),
     ((HC_CONTACTING, HC_HUMAN_REVIEW), CA_ESCALATE_CONTACT), ((HC_CONTACTING, HC_ESCALATED), CA_ESCALATE_CONTACT),
     ((HC_AWAITING_RESPONSE, HC_PARTIAL_RESPONSE), CA_RECORD_RESPONSE), ((HC_AWAITING_RESPONSE, HC_RESPONSE_CONFIRMED), CA_RECORD_RESPONSE),
     ((HC_AWAITING_RESPONSE, HC_DISCONNECTED), CA_RECORD_RESPONSE), ((HC_AWAITING_RESPONSE, HC_NO_RESPONSE), CA_RECORD_RESPONSE),
     ((HC_AWAITING_RESPONSE, HC_OPERATOR_TAKEOVER), CA_TAKE_OVER_CONTACT), ((HC_AWAITING_RESPONSE, HC_HUMAN_REVIEW), CA_ESCALATE_CONTACT),
     ((HC_AWAITING_RESPONSE, HC_ESCALATED), CA_ESCALATE_CONTACT), ((HC_PARTIAL_RESPONSE, HC_AWAITING_RESPONSE), CA_RETRY_CONTACT),
     ((HC_PARTIAL_RESPONSE, HC_RESPONSE_CONFIRMED), CA_RECORD_RESPONSE), ((HC_PARTIAL_RESPONSE, HC_DISCONNECTED), CA_RECORD_RESPONSE),
     ((HC_PARTIAL_RESPONSE, HC_OPERATOR_TAKEOVER), CA_TAKE_OVER_CONTACT), ((HC_PARTIAL_RESPONSE, HC_HUMAN_REVIEW), CA_ESCALATE_CONTACT),
     ((HC_PARTIAL_RESPONSE, HC_ESCALATED), CA_ESCALATE_CONTACT), ((HC_RESPONSE_CONFIRMED, HC_OPERATOR_TAKEOVER), CA_TAKE_OVER_CONTACT),
     ((HC_RESPONSE_CONFIRMED, HC_HUMAN_REVIEW), CA_ESCALATE_CONTACT), ((HC_RESPONSE_CONFIRMED, HC_ESCALATED), CA_ESCALATE_CONTACT),
     ((HC_RESPONSE_CONFIRMED, HC_COMPLETED), CA_COMPLETE_CONTACT), ((HC_DISCONNECTED, HC_CONTACTING), CA_RETRY_CONTACT),
     ((HC_DISCONNECTED, HC_OPERATOR_TAKEOVER), CA_TAKE_OVER_CONTACT), ((HC_DISCONNECTED, HC_HUMAN_REVIEW), CA_ESCALATE_CONTACT),
     ((HC_DISCONNECTED, HC_ESCALATED), CA_ESCALATE_CONTACT), ((HC_NO_RESPONSE, HC_CONTACTING), CA_RETRY_CONTACT),
     ((HC_NO_RESPONSE, HC_OPERATOR_TAKEOVER), CA_TAKE_OVER_CONTACT), ((HC_NO_RESPONSE, HC_HUMAN_REVIEW), CA_ESCALATE_CONTACT),
     ((HC_NO_RESPONSE, HC_ESCALATED), CA_ESCALATE_CONTACT), ((HC_UNREACHABLE, HC_OPERATOR_TAKEOVER), CA_TAKE_OVER_CONTACT),
     ((HC_UNREACHABLE, HC_HUMAN_REVIEW), CA_ESCALATE_CONTACT), ((HC_UNREACHABLE, HC_ESCALATED), CA_ESCALATE_CONTACT),
     ((HC_OPERATOR_TAKEOVER, HC_HUMAN_REVIEW), CA_ESCALATE_CONTACT), ((HC_OPERATOR_TAKEOVER, HC_ESCALATED), CA_ESCALATE_CONTACT),
     ((HC_OPERATOR_TAKEOVER, HC_COMPLETED), CA_COMPLETE_CONTACT), ((HC_HUMAN_REVIEW, HC_OPERATOR_TAKEOVER), CA_TAKE_OVER_CONTACT),
     ((HC_HUMAN_REVIEW, HC_ESCALATED), CA_ESCALATE_CONTACT), ((HC_HUMAN_REVIEW, HC_COMPLETED), CA_COMPLETE_CONTACT),
     ((HC_ESCALATED, HC_OPERATOR_TAKEOVER), CA_TAKE_OVER_CONTACT), ((HC_ESCALATED, HC_HUMAN_REVIEW), CA_ESCALATE_CONTACT),
     ((HC_COMPLETED, HC_HUMAN_REVIEW), CA_ESCALATE_CONTACT), ((HC_COMPLETED, HC_ESCALATED), CA_ESCALATE_CONTACT)]"

definition contactAuthorizedRole ::
  "HumanSafetyActorRole list \<Rightarrow> HumanContactAuthority \<Rightarrow> HumanSafetyActorRole option" where
  "contactAuthorizedRole roles authority =
     find (\<lambda>role. role \<in> set roles \<and> authority \<in> set (HUMAN_CONTACT_ROLE_AUTHORITIES role)) ROLE_PRIORITY"

section \<open>Deciding a transition\<close>

definition contact_allowed :: "HumanContactState \<Rightarrow> string \<Rightarrow> string option \<Rightarrow> bool \<Rightarrow> HumanContactAuthority \<Rightarrow>
    HumanSafetyActorRole \<Rightarrow> HumanContactTransitionDecision" where
  "contact_allowed nextState auditAction deadlineAt human authority role =
     \<lparr>hd_allowed = True, hd_nextState = nextState, hd_reasonCode = ''approved'', hd_auditAction = auditAction,
       hd_deadlineAt = deadlineAt, hd_requiresHumanAction = human, hd_requiredAuthority = Some authority,
       hd_authorizedByRole = Some role, hd_authorityPolicyVersion = HUMAN_CONTACT_AUTHORITY_POLICY_VERSION\<rparr>"

definition contact_denied :: "HumanContactState \<Rightarrow> string \<Rightarrow> bool \<Rightarrow> HumanContactAuthority option \<Rightarrow>
    HumanSafetyActorRole option \<Rightarrow> HumanContactTransitionDecision" where
  "contact_denied nextState reason human authority role =
     \<lparr>hd_allowed = False, hd_nextState = nextState, hd_reasonCode = reason,
       hd_auditAction = ''contact.rejected.'' @ reason, hd_deadlineAt = None, hd_requiresHumanAction = human,
       hd_requiredAuthority = authority, hd_authorizedByRole = role,
       hd_authorityPolicyVersion = HUMAN_CONTACT_AUTHORITY_POLICY_VERSION\<rparr>"

definition human_states :: "HumanContactState list" where
  "human_states = [HC_HUMAN_REVIEW, HC_ESCALATED, HC_OPERATOR_TAKEOVER]"

text \<open>The last steps, for an authorized actor. A deadline out of the range of dates is the RangeError of
  \<open>toISOString\<close>, the outcome \<open>Left ()\<close>.\<close>
definition decideAuthorizedContact :: "'a HumanContactSession_scheme \<Rightarrow> HumanContactState \<Rightarrow>
    HumanContactTransitionContext \<Rightarrow> int \<Rightarrow> HumanContactAuthority \<Rightarrow> HumanSafetyActorRole \<Rightarrow>
    unit + HumanContactTransitionDecision" where
  "decideAuthorizedContact current requested ctx now authority role =
    (let action = ''contact.'' @ toLowerCase (contact_state_name requested);
         refuse = (\<lambda>next reason. Inr (contact_denied next reason True (Some authority) (Some role)));
         deadline = (\<lambda>ms human. case toISO (now + ms) of None \<Rightarrow> Inl ()
           | Some at' \<Rightarrow> Inr (contact_allowed requested action (Some at') human authority role)) in
     if \<not> hx_channelHealthy ctx \<and> requested \<notin> set human_states
     then refuse HC_HUMAN_REVIEW ''channel_unavailable''
     else if \<not> hx_accessibilitySatisfied ctx \<and> requested \<notin> set human_states
     then refuse HC_HUMAN_REVIEW ''accessibility_path_unavailable''
     else if requested = HC_CONTACTING \<and> HUMAN_CONTACT_MAX_AUTOMATED_ATTEMPTS \<le> hc_attemptCount current
     then refuse HC_ESCALATED ''retry_limit_exhausted''
     else if requested = HC_NO_RESPONSE \<or> requested = HC_DISCONNECTED
     then deadline HUMAN_CONTACT_RETRY_BASE_DELAY_MS True
     else if requested = HC_AWAITING_RESPONSE then deadline HUMAN_CONTACT_RESPONSE_DEADLINE_MS False
     else if requested = HC_COMPLETED \<and> hc_identityConfidence current \<noteq> ID_CONFIRMED
     then refuse HC_HUMAN_REVIEW ''identity_not_confirmed''
     else Inr (contact_allowed requested action None (requested \<in> set human_states) authority role))"

definition decideHumanContactTransition :: "'a HumanContactSession_scheme \<Rightarrow> HumanContactState \<Rightarrow>
    HumanContactTransitionContext \<Rightarrow> unit + HumanContactTransitionDecision" where
  "decideHumanContactTransition current requested ctx = (case dateParse (hx_occurredAt ctx) of
       None \<Rightarrow> Inr (contact_denied HC_HUMAN_REVIEW ''invalid_or_stale_transition_context'' True None None)
     | Some now \<Rightarrow>
       if hx_expectedVersion ctx \<noteq> hc_version current \<or> \<not> nonEmpty (hx_actorId ctx) \<or>
         \<not> nonEmpty (hx_reason ctx) \<or> \<not> nonEmpty (hx_traceId ctx)
       then Inr (contact_denied HC_HUMAN_REVIEW ''invalid_or_stale_transition_context'' True None None)
       else if requested \<notin> set (contactAllowed (hc_state current))
       then Inr (contact_denied (hc_state current) ''invalid_contact_transition'' False None None)
       else case map_of CONTACT_TRANSITION_AUTHORITIES (hc_state current, requested) of
         None \<Rightarrow> Inr (contact_denied (hc_state current) ''transition_authority_undefined'' False None None)
       | Some authority \<Rightarrow> (case contactAuthorizedRole (hx_actorRoles ctx) authority of
           None \<Rightarrow> Inr (contact_denied (hc_state current) ''actor_role_not_authorized'' False (Some authority) None)
         | Some role \<Rightarrow> decideAuthorizedContact current requested ctx now authority role))"

section \<open>Structured replies\<close>

datatype ReplyDisposition = RD_PROCESS | RD_QUARANTINE | RD_HUMAN_REVIEW
datatype HumanContactReplyConsumeResult = RC_CONSUMED | RC_DUPLICATE | RC_UNAVAILABLE | RC_NOT_ATTEMPTED

definition REPLY_OPTIONS :: "string list" where
  "REPLY_OPTIONS = [''YES'', ''NO'', ''UNKNOWN'', ''HELP_REQUESTED'', ''CANNOT_SPEAK'', ''ACCESSIBILITY_SUPPORT_REQUIRED'']"

text \<open>\<open>Date.parse(String(v))\<close>: a string, an array around one, or a number of four digits.\<close>
fun loose_time :: "json \<Rightarrow> time_value" where
  "loose_time (JStr s) = dateParse s"
| "loose_time (JArr [v]) = loose_time v"
| "loose_time (JNum (Num q)) =
     (if rat_is_int q \<and> 1000 \<le> q \<and> q \<le> 9999 then dateParse (padded 4 \<lfloor>q\<rfloor>) else None)"
| "loose_time _ = None"

fun is_reference :: "json \<Rightarrow> bool" where
  "is_reference (JArr xs) = True"
| "is_reference (JObj fs) = True"
| "is_reference _ = False"

text \<open>\<open>new Set(xs).size === xs.length\<close>: objects and arrays are compared by identity.\<close>
definition all_different :: "json list \<Rightarrow> bool" where
  "all_different xs = distinct (filter (\<lambda>v. \<not> is_reference v) xs)"

definition validReplyOptions :: "json option \<Rightarrow> bool" where
  "validReplyOptions v \<longleftrightarrow> (case v of Some (JArr xs) \<Rightarrow>
     xs \<noteq> [] \<and> all_different xs \<and> list_all (string_among REPLY_OPTIONS) xs | _ \<Rightarrow> False)"

definition contradictory :: "json option \<Rightarrow> bool" where
  "contradictory v \<longleftrightarrow> (case v of Some (JArr xs) \<Rightarrow> JStr ''YES'' \<in> set xs \<and> JStr ''NO'' \<in> set xs | _ \<Rightarrow> False)"

definition positive_integer :: "json option \<Rightarrow> bool" where
  "positive_integer v \<longleftrightarrow> (case v of Some (JNum x) \<Rightarrow> isInteger x \<and> \<not> num_lt x (Num 1) | _ \<Rightarrow> False)"

definition validateHumanContactReply :: "json \<Rightarrow> bool \<times> ReplyDisposition \<times> string" where
  "validateHumanContactReply input = (case input of JObj r \<Rightarrow>
     (if \<not> has_only r [''replyId'', ''sessionId'', ''promptId'', ''promptVersion'', ''idempotencyKey'',
         ''receivedAt'', ''selectedOptions'']
      then (False, RD_QUARANTINE, ''free_text_or_unknown_field_prohibited'')
      else if \<not> list_all (\<lambda>k. validIdentifier (field r k)) [''replyId'', ''sessionId'', ''promptId'', ''idempotencyKey''] \<or>
        \<not> positive_integer (field r ''promptVersion'') \<or>
        Option.bind (field r ''receivedAt'') loose_time = None
      then (False, RD_QUARANTINE, ''invalid_reply_metadata'')
      else if \<not> validReplyOptions (field r ''selectedOptions'')
      then (False, RD_QUARANTINE, ''invalid_structured_options'')
      else if contradictory (field r ''selectedOptions'') then (False, RD_HUMAN_REVIEW, ''contradictory_reply'')
      else (True, RD_PROCESS, ''structured_reply_valid''))
   | _ \<Rightarrow> (False, RD_QUARANTINE, ''invalid_reply''))"

record HumanContactReply =
  rp_replyId :: string
  rp_sessionId :: string
  rp_promptId :: string
  rp_promptVersion :: js_num
  rp_idempotencyKey :: string
  rp_receivedAt :: string

definition isReply :: "json \<Rightarrow> HumanContactReply option" where
  "isReply v = (case v of JObj r \<Rightarrow>
     (case (field r ''replyId'', field r ''sessionId'', field r ''promptId'', field r ''promptVersion'',
        field r ''idempotencyKey'', field r ''receivedAt'', field r ''selectedOptions'') of
        (Some (JStr a), Some (JStr b), Some (JStr c), Some (JNum n), Some (JStr k), Some (JStr t), Some (JArr xs)) \<Rightarrow>
          Some \<lparr>rp_replyId = a, rp_sessionId = b, rp_promptId = c, rp_promptVersion = n, rp_idempotencyKey = k,
            rp_receivedAt = t\<rparr>
      | _ \<Rightarrow> None)
   | _ \<Rightarrow> None)"

record HumanContactReplyConsumeRequest =
  rcr_policyVersion :: string
  rcr_replyDigest :: string
  rcr_scopeDigest :: string
  rcr_expiresAt :: string

record HumanContactReplyAcceptanceDecision =
  ra_accepted :: bool
  ra_disposition :: ReplyDisposition
  ra_reasonCode :: string
  ra_consumeResult :: HumanContactReplyConsumeResult
  ra_replayPolicyVersion :: string
  ra_timePolicyVersion :: string
  ra_replyDigest :: "string option"
  ra_scopeDigest :: "string option"

definition reply_acceptance :: "bool \<Rightarrow> ReplyDisposition \<Rightarrow> string \<Rightarrow> HumanContactReplyConsumeResult \<Rightarrow>
    string option \<Rightarrow> string option \<Rightarrow> HumanContactReplyAcceptanceDecision" where
  "reply_acceptance ok disposition reason result replyDigest scopeDigest =
     \<lparr>ra_accepted = ok, ra_disposition = disposition, ra_reasonCode = reason, ra_consumeResult = result,
       ra_replayPolicyVersion = HUMAN_CONTACT_REPLY_REPLAY_POLICY_VERSION,
       ra_timePolicyVersion = HUMAN_CONTACT_REPLY_TIME_POLICY_VERSION, ra_replyDigest = replyDigest,
       ra_scopeDigest = scopeDigest\<rparr>"

text \<open>The body of the \<open>try\<close>.\<close>
definition consumeReply :: "(string \<Rightarrow> unit + string) \<Rightarrow>
    (HumanContactReplyConsumeRequest \<Rightarrow> ('s, unit, HumanContactReplyConsumeResult) action) \<Rightarrow> HumanContactReply \<Rightarrow>
    int \<Rightarrow> int \<Rightarrow> ('s, unit, HumanContactReplyAcceptanceDecision) action" where
  "consumeReply digest consume r receivedAtMs evaluatedAtMs =
    abind (alift (digest (HUMAN_CONTACT_REPLY_REPLAY_POLICY_VERSION @ ''|'' @ rp_replyId r))) (\<lambda>replyDigest.
    if \<not> hex64 replyDigest
    then aret (reply_acceptance False RD_QUARANTINE ''invalid_reply_digest'' RC_UNAVAILABLE None None)
    else abind (alift (digest (HUMAN_CONTACT_REPLY_REPLAY_POLICY_VERSION @ ''|'' @ rp_sessionId r @ ''|'' @
        rp_promptId r @ ''|'' @ decimal (nat (int_of_num (rp_promptVersion r))) @ ''|'' @ rp_idempotencyKey r)))
      (\<lambda>scopeDigest.
    if \<not> hex64 scopeDigest
    then aret (reply_acceptance False RD_QUARANTINE ''invalid_reply_scope_digest'' RC_UNAVAILABLE (Some replyDigest) None)
    else case toISO (min receivedAtMs evaluatedAtMs + HUMAN_CONTACT_REPLY_TTL_MS) of None \<Rightarrow> athrow ()
    | Some expiresAt \<Rightarrow>
      abind (consume \<lparr>rcr_policyVersion = HUMAN_CONTACT_REPLY_REPLAY_POLICY_VERSION, rcr_replyDigest = replyDigest,
        rcr_scopeDigest = scopeDigest, rcr_expiresAt = expiresAt\<rparr>) (\<lambda>result.
      if result \<noteq> RC_CONSUMED
      then aret (reply_acceptance False (if result = RC_DUPLICATE then RD_QUARANTINE else RD_HUMAN_REVIEW)
        (if result = RC_DUPLICATE then ''duplicate_reply'' else ''reply_registry_unavailable'') result
        (Some replyDigest) (Some scopeDigest))
      else aret (reply_acceptance True RD_PROCESS ''reply_consumed'' result (Some replyDigest) (Some scopeDigest)))))"

definition consumeHumanContactReply :: "(string \<Rightarrow> unit + string) \<Rightarrow>
    (HumanContactReplyConsumeRequest \<Rightarrow> ('s, unit, HumanContactReplyConsumeResult) action) \<Rightarrow> json \<Rightarrow> string \<Rightarrow>
    ('s, unit, HumanContactReplyAcceptanceDecision) action" where
  "consumeHumanContactReply digest consume input evaluatedAt =
    (case validateHumanContactReply input of (valid, disposition, reason) \<Rightarrow>
     case (if valid then isReply input else None) of
       None \<Rightarrow> aret (reply_acceptance False disposition reason RC_NOT_ATTEMPTED None None)
     | Some r \<Rightarrow> (case (dateParse evaluatedAt, dateParse (rp_receivedAt r)) of
         (Some evaluatedAtMs, Some receivedAtMs) \<Rightarrow>
           if evaluatedAtMs + HUMAN_CONTACT_REPLY_MAX_CLOCK_SKEW_MS < receivedAtMs
           then aret (reply_acceptance False RD_HUMAN_REVIEW ''reply_received_in_future'' RC_NOT_ATTEMPTED None None)
           else if HUMAN_CONTACT_REPLY_MAX_AGE_MS < evaluatedAtMs - receivedAtMs
           then aret (reply_acceptance False RD_QUARANTINE ''reply_too_old'' RC_NOT_ATTEMPTED None None)
           else acatch (consumeReply digest consume r receivedAtMs evaluatedAtMs)
             (\<lambda>_. aret (reply_acceptance False RD_HUMAN_REVIEW ''reply_registry_unavailable'' RC_UNAVAILABLE None None))
       | _ \<Rightarrow> aret (reply_acceptance False RD_QUARANTINE ''invalid_acceptance_time'' RC_NOT_ATTEMPTED None None)))"

section \<open>What a decision guarantees\<close>

lemma contact_decision_simps [simp]:
  "hd_allowed (contact_allowed n a dl h au r)" "hd_nextState (contact_allowed n a dl h au r) = n"
  "hd_requiredAuthority (contact_allowed n a dl h au r) = Some au"
  "hd_authorizedByRole (contact_allowed n a dl h au r) = Some r"
  "hd_deadlineAt (contact_allowed n a dl h au r) = dl"
  "\<not> hd_allowed (contact_denied n reason h au' r')" "hd_nextState (contact_denied n reason h au' r') = n"
  "hd_deadlineAt (contact_denied n reason h au' r') = None"
  "hd_requiredAuthority (contact_denied n reason h au' r') = au'"
  by (simp_all add: contact_allowed_def contact_denied_def)

lemma contactAuthorizedRole_Some:
  "contactAuthorizedRole roles a = Some r \<Longrightarrow> r \<in> set roles \<and> a \<in> set (HUMAN_CONTACT_ROLE_AUTHORITIES r)"
  by (auto simp: contactAuthorizedRole_def find_Some_iff)

lemma decideAuthorized_allowed:
  assumes "decideAuthorizedContact current requested ctx now authority role = Inr d" and "hd_allowed d"
  shows "hd_nextState d = requested \<and> hd_requiredAuthority d = Some authority \<and> hd_authorizedByRole d = Some role \<and>
    (requested \<notin> set human_states \<longrightarrow> hx_channelHealthy ctx \<and> hx_accessibilitySatisfied ctx) \<and>
    (requested = HC_CONTACTING \<longrightarrow> hc_attemptCount current < HUMAN_CONTACT_MAX_AUTOMATED_ATTEMPTS) \<and>
    (requested = HC_COMPLETED \<longrightarrow> hc_identityConfidence current = ID_CONFIRMED) \<and>
    hd_deadlineAt d = (if requested \<in> {HC_NO_RESPONSE, HC_DISCONNECTED} then toISO (now + HUMAN_CONTACT_RETRY_BASE_DELAY_MS)
      else if requested = HC_AWAITING_RESPONSE then toISO (now + HUMAN_CONTACT_RESPONSE_DEADLINE_MS) else None)"
  using assms unfolding decideAuthorizedContact_def Let_def
  by (auto split: if_split_asm option.split_asm)

lemma decideAuthorized_authority:
  "decideAuthorizedContact current requested ctx now authority role = Inr d \<Longrightarrow> hd_requiredAuthority d = Some authority"
  unfolding decideAuthorizedContact_def Let_def
  by (auto simp: contact_denied_def contact_allowed_def split: if_split_asm option.split_asm)

text \<open>The accepted transition, the checks of its context written out.\<close>
definition contact_granted :: "'a HumanContactSession_scheme \<Rightarrow> HumanContactState \<Rightarrow> HumanContactTransitionContext \<Rightarrow>
    HumanContactAuthority \<Rightarrow> HumanSafetyActorRole \<Rightarrow> bool" where
  "contact_granted current requested ctx authority role \<longleftrightarrow>
     hx_expectedVersion ctx = hc_version current \<and> nonEmpty (hx_actorId ctx) \<and> nonEmpty (hx_reason ctx) \<and>
     nonEmpty (hx_traceId ctx) \<and> requested \<in> set (contactAllowed (hc_state current)) \<and>
     map_of CONTACT_TRANSITION_AUTHORITIES (hc_state current, requested) = Some authority \<and>
     contactAuthorizedRole (hx_actorRoles ctx) authority = Some role"

lemma decideContact_allowed:
  assumes "decideHumanContactTransition current requested ctx = Inr d" and "hd_allowed d"
  obtains now authority role where "dateParse (hx_occurredAt ctx) = Some now"
    and "contact_granted current requested ctx authority role"
    and "decideAuthorizedContact current requested ctx now authority role = Inr d"
  using assms unfolding decideHumanContactTransition_def contact_granted_def
  by (auto split: option.split_asm if_split_asm)

lemma takeover_authority:
  "map_of CONTACT_TRANSITION_AUTHORITIES (s, HC_OPERATOR_TAKEOVER) = Some a \<Longrightarrow> a = CA_TAKE_OVER_CONTACT"
  "map_of CONTACT_TRANSITION_AUTHORITIES (s, HC_COMPLETED) = Some a \<Longrightarrow> a = CA_COMPLETE_CONTACT"
  by (cases s; simp add: CONTACT_TRANSITION_AUTHORITIES_def)+

lemma human_only_authority:
  "a \<in> set (HUMAN_CONTACT_ROLE_AUTHORITIES r) \<Longrightarrow> a = CA_TAKE_OVER_CONTACT \<or> a = CA_COMPLETE_CONTACT \<Longrightarrow>
   r \<in> {HR_OPERATOR, HR_SUPERVISOR, HR_SAFETY_LEAD}"
  by (cases r) auto

text \<open>C17: a transition of a contact session is allowed only to an authorized actor with a fresh view. The
  requested state follows the current one, the context carries the session's version, one of the
  actor's roles holds the authority of the transition; no automated contact starts after three
  attempts; only a human completes a session or takes it over, and a session completes only for
  a confirmed identity; an unhealthy channel leaves only the human states.\<close>
theorem contact_transition_is_authorized:
  assumes "decideHumanContactTransition current requested ctx = Inr d" and "hd_allowed d"
  shows "hd_nextState d = requested \<and> requested \<in> set (contactAllowed (hc_state current)) \<and>
    hx_expectedVersion ctx = hc_version current \<and>
    (\<exists>authority role. hd_requiredAuthority d = Some authority \<and> hd_authorizedByRole d = Some role \<and>
      role \<in> set (hx_actorRoles ctx) \<and> authority \<in> set (HUMAN_CONTACT_ROLE_AUTHORITIES role) \<and>
      (requested \<in> {HC_COMPLETED, HC_OPERATOR_TAKEOVER} \<longrightarrow> role \<in> {HR_OPERATOR, HR_SUPERVISOR, HR_SAFETY_LEAD})) \<and>
    (requested = HC_CONTACTING \<longrightarrow> hc_attemptCount current < HUMAN_CONTACT_MAX_AUTOMATED_ATTEMPTS) \<and>
    (requested = HC_COMPLETED \<longrightarrow> hc_identityConfidence current = ID_CONFIRMED) \<and>
    (requested \<notin> set human_states \<longrightarrow> hx_channelHealthy ctx \<and> hx_accessibilitySatisfied ctx)"
proof -
  obtain now authority role where g: "contact_granted current requested ctx authority role"
    and d: "decideAuthorizedContact current requested ctx now authority role = Inr d"
    using decideContact_allowed [OF assms] .
  have role: "role \<in> set (hx_actorRoles ctx)" "authority \<in> set (HUMAN_CONTACT_ROLE_AUTHORITIES role)"
    using g contactAuthorizedRole_Some by (auto simp: contact_granted_def)
  have "role \<in> {HR_OPERATOR, HR_SUPERVISOR, HR_SAFETY_LEAD}" if "requested \<in> {HC_COMPLETED, HC_OPERATOR_TAKEOVER}"
  proof (rule human_only_authority [OF role(2)])
    show "authority = CA_TAKE_OVER_CONTACT \<or> authority = CA_COMPLETE_CONTACT"
      using that g takeover_authority by (auto simp: contact_granted_def)
  qed
  then show ?thesis
    using g role decideAuthorized_allowed [OF d assms(2)] by (auto simp: contact_granted_def)
qed

definition sample_session :: "HumanContactState \<Rightarrow> int \<Rightarrow> HumanContactSession" where
  "sample_session state attempts = \<lparr>hc_sessionId = ''session-1'', hc_caseId = ''case-1'', hc_state = state, hc_version = 4,
     hc_protocolVersion = HUMAN_CONTACT_PROTOCOL_VERSION, hc_promptPolicyVersion = HUMAN_CONTACT_PROMPT_POLICY_VERSION,
     hc_accessibilityPolicyVersion = HUMAN_CONTACT_ACCESSIBILITY_POLICY_VERSION, hc_language = LANG_ar,
     hc_identityConfidence = ID_CONFIRMED, hc_activeChannel = None, hc_attemptCount = attempts,
     hc_responseDeadlineAt = None, hc_lastInteractionAt = ''1970-01-01T00:00:01.000Z'', hc_assignedOperatorId = None,
     hc_accessibility = \<lparr>ac_screenReaderRequired = True, ac_handsFreeRequired = True, ac_largeControlsRequired = True,
       ac_simpleLanguageRequired = True, ac_visualAlternativeRequired = True, ac_audioAlternativeRequired = True\<rparr>\<rparr>"

definition sample_contact_context :: "HumanSafetyActorRole list \<Rightarrow> HumanContactTransitionContext" where
  "sample_contact_context roles = \<lparr>hx_actorId = ''actor-1'', hx_actorRoles = roles,
     hx_occurredAt = ''1970-01-01T00:00:02.000Z'', hx_reason = ''reason'', hx_traceId = ''trace-1'',
     hx_channelHealthy = True, hx_accessibilitySatisfied = True, hx_expectedVersion = 4\<rparr>"

lemma sample_completion:
  "case decideHumanContactTransition (sample_session HC_HUMAN_REVIEW 1) HC_COMPLETED (sample_contact_context [HR_OPERATOR])
   of Inr d \<Rightarrow> hd_allowed d | Inl _ \<Rightarrow> False"
  by code_simp

theorem contact_transition_is_authorized_witness:
  "\<exists>d. decideHumanContactTransition (sample_session HC_HUMAN_REVIEW 1) HC_COMPLETED
      (sample_contact_context [HR_OPERATOR]) = Inr d \<and> hd_nextState d = HC_COMPLETED \<and>
    hd_authorizedByRole d = Some HR_OPERATOR"
proof -
  obtain d where d: "decideHumanContactTransition (sample_session HC_HUMAN_REVIEW 1) HC_COMPLETED
      (sample_contact_context [HR_OPERATOR]) = Inr d" and ok: "hd_allowed d"
    using sample_completion by (auto split: sum.split_asm)
  from contact_transition_is_authorized [OF d ok] d show ?thesis by (auto simp: sample_contact_context_def)
qed

text \<open>the table of authorities and the table of allowed transitions agree: a transition has an
  authority exactly when it is allowed, so no decision is ever refused for an undefined authority.\<close>
theorem authority_table_matches_transitions:
  "(map_of CONTACT_TRANSITION_AUTHORITIES (s, t) \<noteq> None \<longleftrightarrow> t \<in> set (contactAllowed s)) \<and>
   decideHumanContactTransition current t ctx \<noteq>
     Inr (contact_denied (hc_state current) ''transition_authority_undefined'' False None None)"
proof -
  have table: "map_of CONTACT_TRANSITION_AUTHORITIES (s, t) = None \<longleftrightarrow> t \<notin> set (contactAllowed s)" for s
    by (cases s; cases t; simp add: CONTACT_TRANSITION_AUTHORITIES_def)
  have "decideAuthorizedContact current t ctx now authority role \<noteq>
      Inr (contact_denied (hc_state current) ''transition_authority_undefined'' False None None)" for now authority role
    using decideAuthorized_authority [of current t ctx now authority role] by fastforce
  then show ?thesis
    using table table [of "hc_state current"] unfolding decideHumanContactTransition_def contact_denied_def
    by (auto split: option.split)
qed

text \<open>a reply is processed only once it was consumed. The reply is structurally valid, was received at
  most five minutes after and a day before the evaluation, and the registry answered \<open>CONSUMED\<close> for
  the digest of its identity, with an expiry at least as late as the evaluation.\<close>
theorem reply_is_consumed_before_processing:
  assumes "consumeHumanContactReply digest consume input evaluatedAt s = (Inr d, t)" and "ra_accepted d"
  shows "\<exists>r evaluated received replyDigest scopeDigest expires. isReply input = Some r \<and>
    fst (validateHumanContactReply input) \<and> dateParse evaluatedAt = Some evaluated \<and>
    dateParse (rp_receivedAt r) = Some received \<and>
    received \<le> evaluated + HUMAN_CONTACT_REPLY_MAX_CLOCK_SKEW_MS \<and>
    evaluated - received \<le> HUMAN_CONTACT_REPLY_MAX_AGE_MS \<and>
    digest (HUMAN_CONTACT_REPLY_REPLAY_POLICY_VERSION @ ''|'' @ rp_replyId r) = Inr replyDigest \<and> hex64 replyDigest \<and>
    hex64 scopeDigest \<and> toISO (min received evaluated + HUMAN_CONTACT_REPLY_TTL_MS) = Some expires \<and>
    evaluated \<le> min received evaluated + HUMAN_CONTACT_REPLY_TTL_MS \<and>
    consume \<lparr>rcr_policyVersion = HUMAN_CONTACT_REPLY_REPLAY_POLICY_VERSION, rcr_replyDigest = replyDigest,
      rcr_scopeDigest = scopeDigest, rcr_expiresAt = expires\<rparr> s = (Inr RC_CONSUMED, t)"
proof -
  obtain r evaluated received where r: "isReply input = Some r" "fst (validateHumanContactReply input)"
    and times: "dateParse evaluatedAt = Some evaluated" "dateParse (rp_receivedAt r) = Some received"
      "received \<le> evaluated + HUMAN_CONTACT_REPLY_MAX_CLOCK_SKEW_MS"
      "evaluated - received \<le> HUMAN_CONTACT_REPLY_MAX_AGE_MS"
    and run: "consumeReply digest consume r received evaluated s = (Inr d, t)"
    using assms unfolding consumeHumanContactReply_def
    by (auto simp: acatch_Inr reply_acceptance_def
        split: prod.split_asm option.split_asm if_split_asm)
  have "evaluated \<le> min received evaluated + HUMAN_CONTACT_REPLY_TTL_MS"
    using times(4) by (simp add: contact_limits)
  moreover have "\<exists>replyDigest scopeDigest expires.
      digest (HUMAN_CONTACT_REPLY_REPLAY_POLICY_VERSION @ ''|'' @ rp_replyId r) = Inr replyDigest \<and> hex64 replyDigest \<and>
      hex64 scopeDigest \<and> toISO (min received evaluated + HUMAN_CONTACT_REPLY_TTL_MS) = Some expires \<and>
      consume \<lparr>rcr_policyVersion = HUMAN_CONTACT_REPLY_REPLAY_POLICY_VERSION, rcr_replyDigest = replyDigest,
        rcr_scopeDigest = scopeDigest, rcr_expiresAt = expires\<rparr> s = (Inr RC_CONSUMED, t)"
    using run assms(2) unfolding consumeReply_def
    by (auto simp: abind_Inr reply_acceptance_def split: if_split_asm option.split_asm)
  ultimately show ?thesis using r times by blast
qed

definition sample_reply :: json where
  "sample_reply = JObj [(''replyId'', JStr ''reply-1''), (''sessionId'', JStr ''session-1''), (''promptId'', JStr ''contact.response''),
     (''promptVersion'', JNum (Num 1)), (''idempotencyKey'', JStr ''key-1''),
     (''receivedAt'', JStr ''1970-01-01T00:00:01.000Z''), (''selectedOptions'', JArr [JStr ''YES''])]"

lemma sample_reply_accepted:
  "case consumeHumanContactReply sample_digest (\<lambda>q s. (Inr RC_CONSUMED, Suc s)) sample_reply
     ''1970-01-01T00:00:02.000Z'' 0 of (Inr d, t) \<Rightarrow> ra_accepted d \<and> t = 1 | _ \<Rightarrow> False"
proof -
  have valid: "validateHumanContactReply sample_reply = (True, RD_PROCESS, ''structured_reply_valid'')" by code_simp
  have reply: "isReply sample_reply = Some \<lparr>rp_replyId = ''reply-1'', rp_sessionId = ''session-1'',
      rp_promptId = ''contact.response'', rp_promptVersion = Num 1, rp_idempotencyKey = ''key-1'',
      rp_receivedAt = ''1970-01-01T00:00:01.000Z''\<rparr>" by code_simp
  have times: "dateParse ''1970-01-01T00:00:02.000Z'' = Some 2000" "dateParse ''1970-01-01T00:00:01.000Z'' = Some 1000"
    by code_simp+
  have iso: "toISO 86401000 = Some (isoString 86401000)" by (simp add: toISO_def timeClip_def)
  show ?thesis using sample_hex64
    by (simp add: consumeHumanContactReply_def consumeReply_def valid reply times iso contact_limits sample_digest_def
        acatch_def abind_def reply_acceptance_def)
qed

theorem reply_is_consumed_before_processing_witness:
  "\<exists>d. consumeHumanContactReply sample_digest (\<lambda>q s. (Inr RC_CONSUMED, Suc s)) sample_reply
     ''1970-01-01T00:00:02.000Z'' 0 = (Inr d, 1) \<and> (\<exists>r. isReply sample_reply = Some r)"
proof -
  obtain d where d: "consumeHumanContactReply sample_digest (\<lambda>q s. (Inr RC_CONSUMED, Suc s)) sample_reply
     ''1970-01-01T00:00:02.000Z'' 0 = (Inr d, 1)" and ok: "ra_accepted d"
    using sample_reply_accepted by (auto split: prod.split_asm sum.split_asm)
  from reply_is_consumed_before_processing [OF d ok] d show ?thesis by blast
qed

end
