(* ===== verification/ContactRuntime.thy ===== *)
theory ContactRuntime
  imports ContactProtocol
begin

text \<open>
  The contact orchestration service (\<open>apps/api/src/ros-eye/contact-orchestration.ts\<close>): the session and
  outbox records, the transaction port as a record of actions, and the operations \<open>open\<close>,
  \<open>handleCallback\<close>, \<open>operatorTakeover\<close>, \<open>processDue\<close>, \<open>runDue\<close> and \<open>runOutbox\<close>.
\<close>

section \<open>Data\<close>

definition CONTACT_RUNTIME_POLICY_VERSION :: string where
  "CONTACT_RUNTIME_POLICY_VERSION = ''ros-eye.contact-runtime.v6''"
definition CONTACT_OPERATOR_AUTHORITY_POLICY_VERSION :: string where
  "CONTACT_OPERATOR_AUTHORITY_POLICY_VERSION = HUMAN_CONTACT_AUTHORITY_POLICY_VERSION"
definition CONTACT_OUTBOX_LEASE_MS :: int where "CONTACT_OUTBOX_LEASE_MS = 30000"
definition CONTACT_DELIVERY_TIMEOUT_MS :: int where "CONTACT_DELIVERY_TIMEOUT_MS = 5000"

datatype ContactChannel = CC_IN_APP | CC_PUSH | CC_SMS_SIM | CC_TELEPHONY_SIM
datatype ContactAuthorizedRole = CR_SYSTEM | CR_OPERATOR | CR_SUPERVISOR | CR_SAFETY_LEAD
datatype RuntimeDisposition = RT_APPLIED | RT_IDEMPOTENT | RT_HUMAN_REVIEW | RT_ESCALATED | RT_CONFLICT
datatype OutboxDeliveryDisposition = OD_DELIVERED | OD_RETRY | OD_CANCELLED | OD_CONFLICT
datatype ContactPromptId = CP_consent | CP_language | CP_response | CP_accessibility | CP_handoff
datatype ContactCallbackKind = CK_CONSENT_GRANTED | CK_CONSENT_DECLINED | CK_LANGUAGE_SELECTED | CK_PARTIAL_RESPONSE
  | CK_RESPONSE | CK_CONTRADICTORY | CK_DISCONNECTED | CK_CHANNEL_FAILURE | CK_ACCESSIBILITY_UNAVAILABLE
datatype SendResult = DS_SENT | DS_UNAVAILABLE
datatype UpdateResult = UP_UPDATED | UP_CONFLICT
datatype InsertResult = INS_INSERTED | INS_EXISTS

fun channel_name :: "ContactChannel \<Rightarrow> string" where
  "channel_name CC_IN_APP = ''IN_APP''"
| "channel_name CC_PUSH = ''PUSH''"
| "channel_name CC_SMS_SIM = ''SMS_SIM''"
| "channel_name CC_TELEPHONY_SIM = ''TELEPHONY_SIM''"

fun prompt_name :: "ContactPromptId \<Rightarrow> string" where
  "prompt_name CP_consent = ''contact.consent''"
| "prompt_name CP_language = ''contact.language''"
| "prompt_name CP_response = ''contact.response''"
| "prompt_name CP_accessibility = ''contact.accessibility''"
| "prompt_name CP_handoff = ''contact.handoff''"

fun callback_name :: "ContactCallbackKind \<Rightarrow> string" where
  "callback_name CK_CONSENT_GRANTED = ''CONSENT_GRANTED''"
| "callback_name CK_CONSENT_DECLINED = ''CONSENT_DECLINED''"
| "callback_name CK_LANGUAGE_SELECTED = ''LANGUAGE_SELECTED''"
| "callback_name CK_PARTIAL_RESPONSE = ''PARTIAL_RESPONSE''"
| "callback_name CK_RESPONSE = ''RESPONSE''"
| "callback_name CK_CONTRADICTORY = ''CONTRADICTORY''"
| "callback_name CK_DISCONNECTED = ''DISCONNECTED''"
| "callback_name CK_CHANNEL_FAILURE = ''CHANNEL_FAILURE''"
| "callback_name CK_ACCESSIBILITY_UNAVAILABLE = ''ACCESSIBILITY_UNAVAILABLE''"

fun authorized_human_role :: "ContactAuthorizedRole \<Rightarrow> HumanSafetyActorRole" where
  "authorized_human_role CR_SYSTEM = HR_SYSTEM"
| "authorized_human_role CR_OPERATOR = HR_OPERATOR"
| "authorized_human_role CR_SUPERVISOR = HR_SUPERVISOR"
| "authorized_human_role CR_SAFETY_LEAD = HR_SAFETY_LEAD"

record ContactScope =
  sc_tenantId :: string
  sc_caseId :: string
  sc_sessionId :: string

record ContactSessionRecord = HumanContactSession +
  cs_tenantId :: string
  cs_ownerActorId :: "string option"
  cs_automationSuppressed :: bool
  cs_nextActionAt :: "string option"
  cs_leaseOwner :: "string option"
  cs_leaseExpiresAt :: "string option"
  cs_updatedAt :: string

definition session_scope :: "ContactSessionRecord \<Rightarrow> ContactScope" where
  "session_scope s = \<lparr>sc_tenantId = cs_tenantId s, sc_caseId = hc_caseId s, sc_sessionId = hc_sessionId s\<rparr>"

record ContactAuditEvent =
  ca_scope :: ContactScope
  ca_eventId :: string
  ca_eventType :: string
  ca_state :: HumanContactState
  ca_version :: int
  ca_operatorActor :: bool
  ca_actorId :: string
  ca_authorizedByRole :: ContactAuthorizedRole
  ca_authorityPolicyVersion :: string
  ca_reasonCode :: string
  ca_occurredAt :: string
  ca_traceId :: string
  ca_runtimePolicyVersion :: string

record ContactOutboxMessage =
  cm_scope :: ContactScope
  cm_messageId :: string
  cm_channel :: ContactChannel
  cm_promptId :: ContactPromptId
  cm_idempotencyKey :: string
  cm_availableAt :: string
  cm_attempt :: int
  cm_leaseOwner :: "string option"
  cm_leaseExpiresAt :: "string option"
  cm_deliveredAt :: "string option"
  cm_cancelledAt :: "string option"
  cm_lastErrorCode :: "string option"

record OpenContactInput =
  oc_scope :: ContactScope
  oc_ownerActorId :: "string option"
  oc_language :: HumanContactLanguage
  oc_traceId :: string
  oc_occurredAt :: string
  oc_idempotencyKey :: string
  oc_preferredChannel :: ContactChannel

record CallbackInput =
  cb_scope :: ContactScope
  cb_ownerActorId :: "string option"
  cb_authenticatedTenantId :: string
  cb_authenticatedCaseId :: string
  cb_callbackId :: string
  cb_traceId :: string
  cb_occurredAt :: string
  cb_idempotencyKey :: string
  cb_kind :: ContactCallbackKind
  cb_selectedLanguage :: "HumanContactLanguage option"
  cb_identityConfidence :: "HumanContactIdentityConfidence option"

record OperatorTakeoverInput =
  ot_scope :: ContactScope
  ot_operatorId :: string
  ot_authenticatedTenantId :: string
  ot_authenticatedCaseId :: string
  ot_authorizedRole :: ContactAuthorizedRole
  ot_traceId :: string
  ot_occurredAt :: string
  ot_idempotencyKey :: string
  ot_authorityPolicyVersion :: string

text \<open>The transaction port and the factory of identifiers. \<open>tx_transaction\<close> is the transaction of the
  repository for the operations below, all of which answer a disposition.\<close>
record 's ContactRuntimeTransaction =
  tx_getSessionForUpdate :: "ContactScope \<Rightarrow> ('s, unit, ContactSessionRecord option) action"
  tx_insertSession :: "ContactSessionRecord \<Rightarrow> ('s, unit, unit) action"
  tx_updateSession :: "ContactSessionRecord \<Rightarrow> int \<Rightarrow> ('s, unit, UpdateResult) action"
  tx_insertInboxIfAbsent :: "ContactScope \<Rightarrow> string \<Rightarrow> ('s, unit, InsertResult) action"
  tx_insertAuditIfAbsent :: "ContactAuditEvent \<Rightarrow> ('s, unit, InsertResult) action"
  tx_insertOutboxIfAbsent :: "ContactOutboxMessage \<Rightarrow> ('s, unit, InsertResult) action"
  tx_cancelPendingAutomation :: "ContactScope \<Rightarrow> string \<Rightarrow> ('s, unit, unit) action"
  tx_transaction :: "('s, unit, RuntimeDisposition) action \<Rightarrow> ('s, unit, RuntimeDisposition) action"
  tx_createId :: "string \<Rightarrow> string \<Rightarrow> unit + string"

record ContactRuntimeOptions =
  co_outboxLeaseMs :: js_num
  co_deliveryTimeoutMs :: js_num

definition DEFAULT_RUNTIME_OPTIONS :: ContactRuntimeOptions where
  "DEFAULT_RUNTIME_OPTIONS = \<lparr>co_outboxLeaseMs = Num (of_int CONTACT_OUTBOX_LEASE_MS),
     co_deliveryTimeoutMs = Num (of_int CONTACT_DELIVERY_TIMEOUT_MS)\<rparr>"

definition checkRuntimeOptions :: "ContactRuntimeOptions \<Rightarrow> string + unit" where
  "checkRuntimeOptions o' =
    (if \<not> isInteger (co_outboxLeaseMs o') \<or> num_lt (co_outboxLeaseMs o') (Num 100)
     then Inl ''outboxLeaseMs must be an integer >= 100''
     else if \<not> isInteger (co_deliveryTimeoutMs o') \<or> num_lt (co_deliveryTimeoutMs o') (Num 1)
     then Inl ''deliveryTimeoutMs must be a positive integer''
     else if \<not> num_lt (co_deliveryTimeoutMs o') (co_outboxLeaseMs o')
     then Inl ''deliveryTimeoutMs must be shorter than outboxLeaseMs''
     else Inr ())"

section \<open>Helpers\<close>

definition validId :: "string \<Rightarrow> bool" where "validId v = token_pattern 2 127 v"
definition validTime :: "string \<Rightarrow> bool" where "validTime v \<longleftrightarrow> dateParse v \<noteq> None"
definition validScope :: "ContactScope \<Rightarrow> bool" where
  "validScope s \<longleftrightarrow> validId (sc_tenantId s) \<and> validId (sc_caseId s) \<and> validId (sc_sessionId s)"
definition validNullableOwnerActorId :: "string option \<Rightarrow> bool" where
  "validNullableOwnerActorId v \<longleftrightarrow> (case v of None \<Rightarrow> True | Some x \<Rightarrow> validId x)"
definition humanOperatorRole :: "ContactAuthorizedRole \<Rightarrow> bool" where
  "humanOperatorRole r \<longleftrightarrow> r = CR_OPERATOR \<or> r = CR_SUPERVISOR \<or> r = CR_SAFETY_LEAD"
definition boundedOutboxBackoff :: "int \<Rightarrow> int" where
  "boundedOutboxBackoff attempt' = min 60000 (HUMAN_CONTACT_RETRY_BASE_DELAY_MS * max 1 attempt')"

fun toSafetyChannel :: "ContactChannel \<Rightarrow> HumanSafetyChannel option" where
  "toSafetyChannel CC_IN_APP = Some IN_APP_CHAT"
| "toSafetyChannel CC_PUSH = Some CH_PUSH"
| "toSafetyChannel CC_SMS_SIM = Some SMS_SIMULATION"
| "toSafetyChannel CC_TELEPHONY_SIM = Some TELEPHONY_SIMULATION"

definition channelFromSession :: "'a HumanContactSession_scheme \<Rightarrow> ContactChannel" where
  "channelFromSession s =
    (if hc_activeChannel s = Some IN_APP_CHAT \<or> hc_activeChannel s = Some IN_APP_VOICE then CC_IN_APP
     else if hc_activeChannel s = Some SMS_SIMULATION then CC_SMS_SIM
     else if hc_activeChannel s = Some TELEPHONY_SIMULATION then CC_TELEPHONY_SIM
     else CC_PUSH)"

definition fallbackChannel :: "HumanSafetyChannel option \<Rightarrow> int \<Rightarrow> ContactChannel" where
  "fallbackChannel active attempt' =
    (if attempt' \<le> 1 then (if active = Some IN_APP_CHAT \<or> active = Some IN_APP_VOICE then CC_IN_APP else CC_PUSH)
     else if attempt' = 2 then CC_PUSH else CC_SMS_SIM)"

fun strongerIdentity :: "HumanContactIdentityConfidence \<Rightarrow> HumanContactIdentityConfidence option \<Rightarrow>
    HumanContactIdentityConfidence" where
  "strongerIdentity ID_CONFIRMED candidate = ID_CONFIRMED"
| "strongerIdentity current (Some ID_PARTIAL) = ID_PARTIAL"
| "strongerIdentity current candidate = current"

fun callbackRequestedState :: "HumanContactState \<Rightarrow> ContactCallbackKind \<Rightarrow> HumanContactState option" where
  "callbackRequestedState s CK_CONSENT_GRANTED = (if s = HC_CONSENT_PENDING then Some HC_LANGUAGE_SELECTION else None)"
| "callbackRequestedState s CK_CONSENT_DECLINED = (if s = HC_CONSENT_PENDING then Some HC_HUMAN_REVIEW else None)"
| "callbackRequestedState s CK_LANGUAGE_SELECTED = (if s = HC_LANGUAGE_SELECTION then Some HC_CONTACTING else None)"
| "callbackRequestedState s CK_PARTIAL_RESPONSE = (if s = HC_AWAITING_RESPONSE then Some HC_PARTIAL_RESPONSE else None)"
| "callbackRequestedState s CK_CONTRADICTORY = Some HC_HUMAN_REVIEW"
| "callbackRequestedState s CK_CHANNEL_FAILURE = Some HC_HUMAN_REVIEW"
| "callbackRequestedState s CK_ACCESSIBILITY_UNAVAILABLE = Some HC_HUMAN_REVIEW"
| "callbackRequestedState s CK_DISCONNECTED =
     (if s \<in> set [HC_AWAITING_RESPONSE, HC_PARTIAL_RESPONSE] then Some HC_DISCONNECTED else None)"
| "callbackRequestedState s CK_RESPONSE =
     (if s \<in> set [HC_AWAITING_RESPONSE, HC_PARTIAL_RESPONSE] then Some HC_RESPONSE_CONFIRMED else None)"

definition validCallback :: "CallbackInput \<Rightarrow> bool" where
  "validCallback i \<longleftrightarrow>
    (if \<not> validScope (cb_scope i) \<or> \<not> validNullableOwnerActorId (cb_ownerActorId i) \<or>
       cb_authenticatedTenantId i \<noteq> sc_tenantId (cb_scope i) \<or> cb_authenticatedCaseId i \<noteq> sc_caseId (cb_scope i) \<or>
       \<not> validId (cb_callbackId i) \<or> \<not> validId (cb_traceId i) \<or> \<not> validId (cb_idempotencyKey i) \<or>
       \<not> validTime (cb_occurredAt i)
     then False
     else if cb_kind i = CK_LANGUAGE_SELECTED
     then cb_selectedLanguage i = Some LANG_ar \<or> cb_selectedLanguage i = Some LANG_en
     else if cb_selectedLanguage i \<noteq> None then False
     else if cb_identityConfidence i \<noteq> None \<and> cb_kind i \<noteq> CK_RESPONSE \<and> cb_kind i \<noteq> CK_PARTIAL_RESPONSE then False
     else cb_identityConfidence i = None \<or> cb_identityConfidence i = Some ID_UNVERIFIED \<or>
       cb_identityConfidence i = Some ID_PARTIAL)"

text \<open>\<open>new Date(Date.parse(time) + ms).toISOString()\<close>, which throws for an invalid date.\<close>
definition iso_after :: "string \<Rightarrow> int \<Rightarrow> unit + string" where
  "iso_after time ms = (case dateParse time of None \<Rightarrow> Inl ()
     | Some t \<Rightarrow> (case toISO (t + ms) of None \<Rightarrow> Inl () | Some s \<Rightarrow> Inr s))"

definition contactOutbox :: "'s ContactRuntimeTransaction \<Rightarrow> ContactSessionRecord \<Rightarrow> ContactChannel \<Rightarrow> ContactPromptId \<Rightarrow>
    string \<Rightarrow> ('s, unit, ContactOutboxMessage) action" where
  "contactOutbox T s channel promptId availableAt =
    (let key = CONTACT_RUNTIME_POLICY_VERSION @ ''|'' @ cs_tenantId s @ ''|'' @ hc_caseId s @ ''|'' @ hc_sessionId s @
       ''|'' @ decimal (nat (hc_version s)) @ ''|'' @ channel_name channel @ ''|'' @ prompt_name promptId in
     abind (alift (tx_createId T ''contact-outbox'' key)) (\<lambda>messageId.
       aret \<lparr>cm_scope = session_scope s, cm_messageId = messageId, cm_channel = channel, cm_promptId = promptId,
         cm_idempotencyKey = key, cm_availableAt = availableAt, cm_attempt = hc_attemptCount s, cm_leaseOwner = None,
         cm_leaseExpiresAt = None, cm_deliveredAt = None, cm_cancelledAt = None, cm_lastErrorCode = None\<rparr>))"

definition contactAudit :: "'s ContactRuntimeTransaction \<Rightarrow> ContactSessionRecord \<Rightarrow> string \<Rightarrow> string \<Rightarrow> string \<Rightarrow> string \<Rightarrow>
    bool \<Rightarrow> string \<Rightarrow> ContactAuthorizedRole \<Rightarrow> ('s, unit, ContactAuditEvent) action" where
  "contactAudit T s eventType reasonCode traceId occurredAt operatorActor actorId role =
     abind (alift (tx_createId T ''contact-audit'' (cs_tenantId s @ ''|'' @ hc_caseId s @ ''|'' @ hc_sessionId s @
       ''|'' @ decimal (nat (hc_version s)) @ ''|'' @ eventType))) (\<lambda>eventId.
       aret \<lparr>ca_scope = session_scope s, ca_eventId = eventId, ca_eventType = eventType, ca_state = hc_state s,
         ca_version = hc_version s, ca_operatorActor = operatorActor, ca_actorId = actorId, ca_authorizedByRole = role,
         ca_authorityPolicyVersion = CONTACT_OPERATOR_AUTHORITY_POLICY_VERSION, ca_reasonCode = reasonCode,
         ca_occurredAt = occurredAt, ca_traceId = traceId, ca_runtimePolicyVersion = CONTACT_RUNTIME_POLICY_VERSION\<rparr>)"

text \<open>\<open>await tx.insertAuditIfAbsent(await this.audit(...))\<close> and the same of the outbox.\<close>
definition record_audit :: "'s ContactRuntimeTransaction \<Rightarrow> ContactSessionRecord \<Rightarrow> string \<Rightarrow> string \<Rightarrow> string \<Rightarrow> string \<Rightarrow>
    bool \<Rightarrow> string \<Rightarrow> ContactAuthorizedRole \<Rightarrow> ('s, unit, InsertResult) action" where
  "record_audit T s eventType reasonCode traceId occurredAt operatorActor actorId role =
     abind (contactAudit T s eventType reasonCode traceId occurredAt operatorActor actorId role) (tx_insertAuditIfAbsent T)"

definition queue_prompt :: "'s ContactRuntimeTransaction \<Rightarrow> ContactSessionRecord \<Rightarrow> ContactChannel \<Rightarrow> ContactPromptId \<Rightarrow>
    string \<Rightarrow> ('s, unit, InsertResult) action" where
  "queue_prompt T s channel promptId availableAt =
     abind (contactOutbox T s channel promptId availableAt) (tx_insertOutboxIfAbsent T)"

section \<open>Opening a session\<close>

text \<open>A transaction that starts by locking a session, and the inbox that answers a repeated request.\<close>
definition with_session :: "'s ContactRuntimeTransaction \<Rightarrow> ContactScope \<Rightarrow> RuntimeDisposition \<Rightarrow>
    (ContactSessionRecord \<Rightarrow> ('s, unit, RuntimeDisposition) action) \<Rightarrow> ('s, unit, RuntimeDisposition) action" where
  "with_session T scope missing rest = tx_transaction T (abind (tx_getSessionForUpdate T scope)
     (\<lambda>found. case found of None \<Rightarrow> aret missing | Some current \<Rightarrow> rest current))"

definition first_time :: "'s ContactRuntimeTransaction \<Rightarrow> ContactScope \<Rightarrow> string \<Rightarrow> ('s, unit, RuntimeDisposition) action \<Rightarrow>
    ('s, unit, RuntimeDisposition) action" where
  "first_time T scope key rest = abind (tx_insertInboxIfAbsent T scope key)
     (\<lambda>inbox. if inbox = INS_EXISTS then aret RT_IDEMPOTENT else rest)"

definition newSession :: "OpenContactInput \<Rightarrow> string \<Rightarrow> ContactSessionRecord" where
  "newSession i deadline =
    \<lparr>hc_sessionId = sc_sessionId (oc_scope i), hc_caseId = sc_caseId (oc_scope i), hc_state = HC_CONSENT_PENDING,
      hc_version = 1, hc_protocolVersion = HUMAN_CONTACT_PROTOCOL_VERSION,
      hc_promptPolicyVersion = HUMAN_CONTACT_PROMPT_POLICY_VERSION,
      hc_accessibilityPolicyVersion = HUMAN_CONTACT_ACCESSIBILITY_POLICY_VERSION, hc_language = oc_language i,
      hc_identityConfidence = ID_UNVERIFIED, hc_activeChannel = toSafetyChannel (oc_preferredChannel i),
      hc_attemptCount = 1, hc_responseDeadlineAt = Some deadline, hc_lastInteractionAt = oc_occurredAt i,
      hc_assignedOperatorId = None,
      hc_accessibility = \<lparr>ac_screenReaderRequired = True, ac_handsFreeRequired = True, ac_largeControlsRequired = True,
        ac_simpleLanguageRequired = True, ac_visualAlternativeRequired = True, ac_audioAlternativeRequired = True\<rparr>,
      cs_tenantId = sc_tenantId (oc_scope i), cs_ownerActorId = oc_ownerActorId i, cs_automationSuppressed = False,
      cs_nextActionAt = Some deadline, cs_leaseOwner = None, cs_leaseExpiresAt = None, cs_updatedAt = oc_occurredAt i\<rparr>"

definition inboxKey :: "string \<Rightarrow> ContactScope \<Rightarrow> string \<Rightarrow> string" where
  "inboxKey kind s rest = kind @ ''|'' @ sc_tenantId s @ ''|'' @ sc_caseId s @ ''|'' @ sc_sessionId s @ ''|'' @ rest"

text \<open>The session with its first prompt and its audit record.\<close>
definition storeNew :: "'s ContactRuntimeTransaction \<Rightarrow> OpenContactInput \<Rightarrow> ContactSessionRecord \<Rightarrow>
    ('s, unit, RuntimeDisposition) action" where
  "storeNew T i new = abind (tx_insertSession T new) (\<lambda>_.
     abind (queue_prompt T new (oc_preferredChannel i) CP_consent (oc_occurredAt i)) (\<lambda>_.
     abind (record_audit T new ''CONTACT_CONSENT_PENDING'' ''protocol_started_with_consent''
       (oc_traceId i) (oc_occurredAt i) False ''runtime'' CR_SYSTEM) (\<lambda>_.
     aret RT_APPLIED)))"

definition openNew :: "'s ContactRuntimeTransaction \<Rightarrow> OpenContactInput \<Rightarrow> ('s, unit, RuntimeDisposition) action" where
  "openNew T i = abind (tx_getSessionForUpdate T (oc_scope i)) (\<lambda>existing.
     if existing \<noteq> None then aret RT_CONFLICT
     else abind (alift (iso_after (oc_occurredAt i) HUMAN_CONTACT_RESPONSE_DEADLINE_MS))
       (\<lambda>deadline. storeNew T i (newSession i deadline)))"

definition openContact :: "'s ContactRuntimeTransaction \<Rightarrow> OpenContactInput \<Rightarrow> ('s, unit, RuntimeDisposition) action" where
  "openContact T i =
    (if \<not> validScope (oc_scope i) \<or> \<not> validNullableOwnerActorId (oc_ownerActorId i) \<or> \<not> validId (oc_traceId i) \<or>
       \<not> validId (oc_idempotencyKey i) \<or> \<not> validTime (oc_occurredAt i)
     then aret RT_HUMAN_REVIEW
     else tx_transaction T
       (first_time T (oc_scope i) (inboxKey ''open'' (oc_scope i) (oc_idempotencyKey i)) (openNew T i)))"

section \<open>Callbacks and takeover\<close>

definition system_context :: "string \<Rightarrow> string \<Rightarrow> string \<Rightarrow> string \<Rightarrow> bool \<Rightarrow> bool \<Rightarrow> int \<Rightarrow> HumanContactTransitionContext" where
  "system_context actor occurredAt reason traceId healthy accessible version =
     \<lparr>hx_actorId = actor, hx_actorRoles = [HR_SYSTEM], hx_occurredAt = occurredAt, hx_reason = reason,
       hx_traceId = traceId, hx_channelHealthy = healthy, hx_accessibilitySatisfied = accessible,
       hx_expectedVersion = version\<rparr>"

text \<open>The update of the session and what is written with it, \<open>CONFLICT\<close> when its version has moved.\<close>
definition apply_update :: "'s ContactRuntimeTransaction \<Rightarrow> ContactSessionRecord \<Rightarrow> int \<Rightarrow>
    ('s, unit, RuntimeDisposition) action \<Rightarrow> ('s, unit, RuntimeDisposition) action" where
  "apply_update T next expected rest = abind (tx_updateSession T next expected)
     (\<lambda>r. if r = UP_CONFLICT then aret RT_CONFLICT else rest)"

definition failToReview :: "'s ContactRuntimeTransaction \<Rightarrow> ContactSessionRecord \<Rightarrow> string \<Rightarrow> string \<Rightarrow> string \<Rightarrow>
    ('s, unit, RuntimeDisposition) action" where
  "failToReview T current traceId occurredAt reasonCode =
     abind (alift (decideHumanContactTransition current HC_HUMAN_REVIEW
       (system_context ''runtime'' occurredAt reasonCode traceId False False (hc_version current)))) (\<lambda>decision.
     let review = current\<lparr>hc_state := (if hd_allowed decision then hd_nextState decision else HC_HUMAN_REVIEW),
       cs_nextActionAt := None, hc_responseDeadlineAt := None, hc_version := hc_version current + 1,
       cs_updatedAt := occurredAt\<rparr> in
     abind (tx_cancelPendingAutomation T (session_scope current) occurredAt) (\<lambda>_.
     apply_update T review (hc_version current)
       (abind (record_audit T review ''CONTACT_RUNTIME_REJECTED'' reasonCode traceId occurredAt False ''runtime'' CR_SYSTEM)
         (\<lambda>_. aret RT_HUMAN_REVIEW))))"

definition callbackSession :: "ContactSessionRecord \<Rightarrow> CallbackInput \<Rightarrow> HumanContactState \<Rightarrow> string option \<Rightarrow>
    unit + ContactSessionRecord" where
  "callbackSession current i state protocolDeadline =
    ebind (if cb_kind i = CK_PARTIAL_RESPONSE
       then ebind (iso_after (cb_occurredAt i) HUMAN_CONTACT_RESPONSE_DEADLINE_MS) (\<lambda>x. Inr (Some x))
       else Inr protocolDeadline) (\<lambda>followup.
    ebind (if state \<in> set [HC_LANGUAGE_SELECTION, HC_PARTIAL_RESPONSE, HC_DISCONNECTED]
       then (case followup of Some x \<Rightarrow> Inr (Some x)
         | None \<Rightarrow> ebind (iso_after (cb_occurredAt i) HUMAN_CONTACT_RETRY_BASE_DELAY_MS) (\<lambda>x. Inr (Some x)))
       else Inr (if state = HC_CONTACTING then Some (cb_occurredAt i) else None)) (\<lambda>nextActionAt.
    Inr (current\<lparr>hc_state := state, hc_version := hc_version current + 1,
      hc_language := (case cb_selectedLanguage i of
          Some l \<Rightarrow> if cb_kind i = CK_LANGUAGE_SELECTED then l else hc_language current
        | None \<Rightarrow> hc_language current),
      hc_identityConfidence := strongerIdentity (hc_identityConfidence current) (cb_identityConfidence i),
      hc_lastInteractionAt := cb_occurredAt i, cs_nextActionAt := nextActionAt,
      hc_responseDeadlineAt := (if state = HC_LANGUAGE_SELECTION \<or> state = HC_PARTIAL_RESPONSE then followup else None),
      cs_updatedAt := cb_occurredAt i\<rparr>)))"

definition applyCallback :: "'s ContactRuntimeTransaction \<Rightarrow> CallbackInput \<Rightarrow> ContactSessionRecord \<Rightarrow>
    ('s, unit, RuntimeDisposition) action" where
  "applyCallback T i current = (case callbackRequestedState (hc_state current) (cb_kind i) of
       None \<Rightarrow> failToReview T current (cb_traceId i) (cb_occurredAt i) ''invalid_callback_transition''
     | Some requested \<Rightarrow>
       abind (alift (decideHumanContactTransition current requested (system_context ''callback'' (cb_occurredAt i)
         (toLowerCase (callback_name (cb_kind i))) (cb_traceId i) (cb_kind i \<noteq> CK_CHANNEL_FAILURE)
         (cb_kind i \<noteq> CK_ACCESSIBILITY_UNAVAILABLE) (hc_version current)))) (\<lambda>decision.
       if \<not> hd_allowed decision then failToReview T current (cb_traceId i) (cb_occurredAt i) (hd_reasonCode decision)
       else abind (tx_cancelPendingAutomation T (cb_scope i) (cb_occurredAt i)) (\<lambda>_.
         abind (alift (callbackSession current i (hd_nextState decision) (hd_deadlineAt decision))) (\<lambda>next.
         apply_update T next (hc_version current)
           (abind (if cb_kind i = CK_CONSENT_GRANTED
              then queue_prompt T next (channelFromSession next) CP_language (cb_occurredAt i) else aret INS_INSERTED) (\<lambda>_.
            abind (record_audit T next (''CALLBACK_'' @ callback_name (cb_kind i)) (toLowerCase (callback_name (cb_kind i)))
              (cb_traceId i) (cb_occurredAt i) False ''callback'' CR_SYSTEM) (\<lambda>_.
            aret (if hc_state next = HC_HUMAN_REVIEW then RT_HUMAN_REVIEW else RT_APPLIED))))))))"

definition handleCallback :: "'s ContactRuntimeTransaction \<Rightarrow> CallbackInput \<Rightarrow> ('s, unit, RuntimeDisposition) action" where
  "handleCallback T i =
    (if \<not> validCallback i then aret RT_HUMAN_REVIEW
     else with_session T (cb_scope i) RT_HUMAN_REVIEW (\<lambda>current.
       if cs_ownerActorId current \<noteq> cb_ownerActorId i then aret RT_HUMAN_REVIEW
       else first_time T (cb_scope i) (inboxKey ''callback'' (cb_scope i) (cb_callbackId i))
         (if cs_automationSuppressed current \<or>
            hc_state current \<in> set [HC_OPERATOR_TAKEOVER, HC_ESCALATED, HC_COMPLETED] then aret RT_IDEMPOTENT
          else applyCallback T i current)))"

definition takenOver :: "OperatorTakeoverInput \<Rightarrow> ContactSessionRecord \<Rightarrow> ContactSessionRecord" where
  "takenOver i current = current\<lparr>hc_state := HC_OPERATOR_TAKEOVER, hc_assignedOperatorId := Some (ot_operatorId i),
     cs_automationSuppressed := True, cs_nextActionAt := None, hc_responseDeadlineAt := None, cs_leaseOwner := None,
     cs_leaseExpiresAt := None, hc_version := hc_version current + 1, cs_updatedAt := ot_occurredAt i\<rparr>"

definition applyTakeover :: "'s ContactRuntimeTransaction \<Rightarrow> OperatorTakeoverInput \<Rightarrow> ContactSessionRecord \<Rightarrow>
    ('s, unit, RuntimeDisposition) action" where
  "applyTakeover T i current =
    abind (alift (decideHumanContactTransition current HC_OPERATOR_TAKEOVER
      \<lparr>hx_actorId = ot_operatorId i, hx_actorRoles = [authorized_human_role (ot_authorizedRole i)],
        hx_occurredAt = ot_occurredAt i, hx_reason = ''operator_takeover'', hx_traceId = ot_traceId i,
        hx_channelHealthy = True, hx_accessibilitySatisfied = True, hx_expectedVersion = hc_version current\<rparr>)) (\<lambda>decision.
    if \<not> hd_allowed decision then failToReview T current (ot_traceId i) (ot_occurredAt i) (hd_reasonCode decision)
    else abind (tx_cancelPendingAutomation T (ot_scope i) (ot_occurredAt i)) (\<lambda>_.
      apply_update T (takenOver i current) (hc_version current)
        (abind (record_audit T (takenOver i current) ''OPERATOR_TAKEOVER'' ''operator_takeover'' (ot_traceId i)
           (ot_occurredAt i) True (ot_operatorId i) (ot_authorizedRole i)) (\<lambda>_. aret RT_APPLIED))))"

definition operatorTakeover :: "'s ContactRuntimeTransaction \<Rightarrow> OperatorTakeoverInput \<Rightarrow>
    ('s, unit, RuntimeDisposition) action" where
  "operatorTakeover T i =
    (if \<not> validScope (ot_scope i) \<or> ot_authenticatedTenantId i \<noteq> sc_tenantId (ot_scope i) \<or>
       ot_authenticatedCaseId i \<noteq> sc_caseId (ot_scope i) \<or> \<not> humanOperatorRole (ot_authorizedRole i) \<or>
       \<not> validId (ot_operatorId i) \<or> \<not> validId (ot_traceId i) \<or> \<not> validId (ot_idempotencyKey i) \<or>
       \<not> validTime (ot_occurredAt i) \<or> ot_authorityPolicyVersion i \<noteq> CONTACT_OPERATOR_AUTHORITY_POLICY_VERSION
     then aret RT_HUMAN_REVIEW
     else with_session T (ot_scope i) RT_HUMAN_REVIEW (\<lambda>current.
       first_time T (ot_scope i) (inboxKey ''takeover'' (ot_scope i) (ot_operatorId i @ ''|'' @ ot_idempotencyKey i))
         (if cs_automationSuppressed current \<and> hc_assignedOperatorId current = Some (ot_operatorId i)
          then aret RT_IDEMPOTENT
          else applyTakeover T i current)))"

section \<open>Due sessions\<close>

text \<open>A transition decided for the worker, or the review of the session when it is refused.\<close>
definition due_transition :: "'s ContactRuntimeTransaction \<Rightarrow> ContactSessionRecord \<Rightarrow> HumanContactState \<Rightarrow> string \<Rightarrow> string \<Rightarrow>
    string \<Rightarrow> (HumanContactTransitionDecision \<Rightarrow> ('s, unit, RuntimeDisposition) action) \<Rightarrow>
    ('s, unit, RuntimeDisposition) action" where
  "due_transition T current requested workerId now reason rest =
     abind (alift (decideHumanContactTransition current requested
       (system_context workerId now reason (''worker-'' @ workerId) True True (hc_version current)))) (\<lambda>decision.
     if \<not> hd_allowed decision then failToReview T current (''worker-'' @ workerId) now (hd_reasonCode decision)
     else rest decision)"

definition awaitResponse :: "'s ContactRuntimeTransaction \<Rightarrow> ContactSessionRecord \<Rightarrow> string \<Rightarrow> string \<Rightarrow>
    ('s, unit, RuntimeDisposition) action" where
  "awaitResponse T current workerId now =
    due_transition T current HC_AWAITING_RESPONSE workerId now ''contact_channel_ready'' (\<lambda>decision.
      let channel = fallbackChannel (hc_activeChannel current) (hc_attemptCount current);
          awaiting = current\<lparr>hc_state := HC_AWAITING_RESPONSE, hc_activeChannel := toSafetyChannel channel,
            hc_responseDeadlineAt := hd_deadlineAt decision, cs_nextActionAt := hd_deadlineAt decision,
            hc_version := hc_version current + 1, cs_updatedAt := now\<rparr> in
      apply_update T awaiting (hc_version current)
        (abind (queue_prompt T awaiting channel CP_response now) (\<lambda>_.
         abind (record_audit T awaiting ''CONTACT_AWAITING_RESPONSE'' ''contact_channel_ready'' (''worker-'' @ workerId) now
           False workerId CR_SYSTEM) (\<lambda>_. aret RT_APPLIED))))"

definition noResponse :: "'s ContactRuntimeTransaction \<Rightarrow> ContactSessionRecord \<Rightarrow> string \<Rightarrow> string \<Rightarrow>
    ('s, unit, RuntimeDisposition) action" where
  "noResponse T current workerId now =
    due_transition T current HC_NO_RESPONSE workerId now ''response_deadline_elapsed'' (\<lambda>decision.
      let silent = current\<lparr>hc_state := HC_NO_RESPONSE, hc_responseDeadlineAt := None,
            cs_nextActionAt := hd_deadlineAt decision, hc_version := hc_version current + 1, cs_updatedAt := now\<rparr> in
      apply_update T silent (hc_version current)
        (abind (record_audit T silent ''CONTACT_NO_RESPONSE'' ''response_deadline_elapsed'' (''worker-'' @ workerId) now
           False workerId CR_SYSTEM) (\<lambda>_. aret RT_APPLIED)))"

definition partialFollowup :: "'s ContactRuntimeTransaction \<Rightarrow> ContactSessionRecord \<Rightarrow> string \<Rightarrow> string \<Rightarrow>
    ('s, unit, RuntimeDisposition) action" where
  "partialFollowup T current workerId now =
    due_transition T current HC_AWAITING_RESPONSE workerId now ''partial_response_followup_due'' (\<lambda>decision.
      let awaiting = current\<lparr>hc_state := HC_AWAITING_RESPONSE, hc_responseDeadlineAt := hd_deadlineAt decision,
            cs_nextActionAt := hd_deadlineAt decision, hc_version := hc_version current + 1, cs_updatedAt := now\<rparr> in
      apply_update T awaiting (hc_version current)
        (abind (queue_prompt T awaiting (channelFromSession awaiting) CP_response now) (\<lambda>_.
         abind (record_audit T awaiting ''CONTACT_PARTIAL_FOLLOWUP'' ''partial_response_followup_due''
           (''worker-'' @ workerId) now False workerId CR_SYSTEM) (\<lambda>_. aret RT_APPLIED))))"

definition escalateExhausted :: "'s ContactRuntimeTransaction \<Rightarrow> ContactSessionRecord \<Rightarrow> string \<Rightarrow> string \<Rightarrow>
    ('s, unit, RuntimeDisposition) action" where
  "escalateExhausted T current workerId now =
    due_transition T current HC_ESCALATED workerId now ''retry_limit_exhausted'' (\<lambda>decision.
      let escalated = current\<lparr>hc_state := HC_ESCALATED, cs_nextActionAt := None, hc_responseDeadlineAt := None,
            hc_version := hc_version current + 1, cs_updatedAt := now\<rparr> in
      apply_update T escalated (hc_version current)
        (abind (record_audit T escalated ''CONTACT_ESCALATED'' ''retry_limit_exhausted'' (''worker-'' @ workerId) now
           False workerId CR_SYSTEM) (\<lambda>_. aret RT_ESCALATED)))"

definition retryContact :: "'s ContactRuntimeTransaction \<Rightarrow> ContactSessionRecord \<Rightarrow> string \<Rightarrow> string \<Rightarrow>
    ('s, unit, RuntimeDisposition) action" where
  "retryContact T current workerId now =
    (let reason = (if hc_state current = HC_DISCONNECTED then ''channel_disconnected_retry'' else ''no_response_retry_due'') in
     due_transition T current HC_CONTACTING workerId now reason (\<lambda>decision.
      let contacting = current\<lparr>hc_state := HC_CONTACTING, hc_attemptCount := hc_attemptCount current + 1,
            hc_responseDeadlineAt := None, cs_nextActionAt := Some now, hc_version := hc_version current + 1,
            cs_updatedAt := now\<rparr> in
      apply_update T contacting (hc_version current)
        (abind (record_audit T contacting ''CONTACT_RETRY_CONTACTING'' reason (''worker-'' @ workerId) now
           False workerId CR_SYSTEM) (\<lambda>_. aret RT_APPLIED))))"

text \<open>The step a due session takes, by its state.\<close>
definition due_step :: "'s ContactRuntimeTransaction \<Rightarrow> ContactSessionRecord \<Rightarrow> string \<Rightarrow> string \<Rightarrow>
    ('s, unit, RuntimeDisposition) action" where
  "due_step T current workerId now =
    (if hc_state current = HC_CONSENT_PENDING \<or> hc_state current = HC_LANGUAGE_SELECTION
     then failToReview T current (''worker-'' @ workerId) now
       (if hc_state current = HC_CONSENT_PENDING then ''consent_deadline_elapsed'' else ''language_selection_deadline_elapsed'')
     else if hc_state current = HC_CONTACTING then awaitResponse T current workerId now
     else if hc_state current = HC_AWAITING_RESPONSE then noResponse T current workerId now
     else if hc_state current = HC_PARTIAL_RESPONSE then partialFollowup T current workerId now
     else if hc_state current \<noteq> HC_NO_RESPONSE \<and> hc_state current \<noteq> HC_DISCONNECTED
     then failToReview T current (''worker-'' @ workerId) now ''unexpected_due_state''
     else if HUMAN_CONTACT_MAX_AUTOMATED_ATTEMPTS \<le> hc_attemptCount current then escalateExhausted T current workerId now
     else retryContact T current workerId now)"

text \<open>\<open>Date.parse(nextActionAt) > Date.parse(now)\<close>\<close>
definition not_yet :: "string option \<Rightarrow> string \<Rightarrow> bool" where
  "not_yet nextActionAt now \<longleftrightarrow> (case nextActionAt of None \<Rightarrow> True | Some x \<Rightarrow> tv_lt (dateParse now) (dateParse x))"

definition processDue :: "'s ContactRuntimeTransaction \<Rightarrow> ContactScope \<Rightarrow> string \<Rightarrow> string \<Rightarrow>
    ('s, unit, RuntimeDisposition) action" where
  "processDue T scope workerId now = with_session T scope RT_IDEMPOTENT (\<lambda>current.
     if cs_leaseOwner current \<noteq> Some workerId \<or> cs_automationSuppressed current then aret RT_IDEMPOTENT
     else if not_yet (cs_nextActionAt current) now then aret RT_IDEMPOTENT
     else due_step T current workerId now)"

section \<open>The abstract step of a session\<close>

text \<open>Equal up to the text of the timestamps, which a store may rewrite.\<close>
definition same_core :: "ContactSessionRecord \<Rightarrow> ContactSessionRecord \<Rightarrow> bool" where
  "same_core a b \<longleftrightarrow> session_scope a = session_scope b \<and> hc_state a = hc_state b \<and> hc_version a = hc_version b \<and>
     hc_attemptCount a = hc_attemptCount b \<and> cs_automationSuppressed a = cs_automationSuppressed b \<and>
     hc_assignedOperatorId a = hc_assignedOperatorId b \<and>
     hc_identityConfidence a = hc_identityConfidence b \<and>
     (cs_nextActionAt a = None \<longleftrightarrow> cs_nextActionAt b = None) \<and>
     (hc_responseDeadlineAt a = None \<longleftrightarrow> hc_responseDeadlineAt b = None)"

definition no_action :: "ContactSessionRecord \<Rightarrow> bool" where
  "no_action s \<longleftrightarrow> cs_nextActionAt s = None \<and> hc_responseDeadlineAt s = None"

text \<open>What one operation may do to a session: its version moves by one, its owner stays, its state follows
  the protocol or falls back to human review, an attempt is added only for a new contact below the
  limit, automation is suppressed by a takeover alone and never resumed, and a session without
  automation has no action due.\<close>
definition contact_step :: "ContactSessionRecord \<Rightarrow> ContactSessionRecord \<Rightarrow> bool" where
  "contact_step old new \<longleftrightarrow> session_scope new = session_scope old \<and> hc_version new = hc_version old + 1 \<and>
     cs_ownerActorId new = cs_ownerActorId old \<and>
     (hc_state new = HC_HUMAN_REVIEW \<or> hc_state new \<in> set (contactAllowed (hc_state old))) \<and>
     (hc_attemptCount new = hc_attemptCount old \<or> hc_attemptCount new = hc_attemptCount old + 1 \<and>
       hc_state new = HC_CONTACTING \<and> hc_attemptCount old < HUMAN_CONTACT_MAX_AUTOMATED_ATTEMPTS) \<and>
     (cs_automationSuppressed new \<longleftrightarrow> cs_automationSuppressed old \<or> hc_state new = HC_OPERATOR_TAKEOVER) \<and>
     (cs_automationSuppressed old \<longrightarrow> hc_state new \<in> {HC_HUMAN_REVIEW, HC_OPERATOR_TAKEOVER}) \<and>
     (hc_state new \<in> {HC_HUMAN_REVIEW, HC_OPERATOR_TAKEOVER, HC_ESCALATED} \<longrightarrow> no_action new)"

lemma contact_step_core:
  "contact_step old new \<Longrightarrow> same_core new new' \<Longrightarrow> cs_ownerActorId new' = cs_ownerActorId old \<Longrightarrow> contact_step old new'"
  by (auto simp: contact_step_def same_core_def no_action_def)

lemma decideContact_next:
  assumes "decideHumanContactTransition current requested ctx = Inr d" and "hd_allowed d"
  shows "hd_nextState d = requested \<and> requested \<in> set (contactAllowed (hc_state current)) \<and>
    (requested = HC_CONTACTING \<longrightarrow> hc_attemptCount current < HUMAN_CONTACT_MAX_AUTOMATED_ATTEMPTS)"
proof -
  obtain now authority role where "contact_granted current requested ctx authority role"
    and d: "decideAuthorizedContact current requested ctx now authority role = Inr d"
    using decideContact_allowed [OF assms] .
  then show ?thesis using decideAuthorized_allowed [OF d assms(2)] by (auto simp: contact_granted_def)
qed

text \<open>The transaction port: who is stored under a scope, and which messages are still to be sent.\<close>
locale contact_repository =
  fixes T :: "'s ContactRuntimeTransaction"
    and session :: "'s \<Rightarrow> ContactScope \<Rightarrow> ContactSessionRecord option"
    and pending :: "'s \<Rightarrow> ContactScope \<Rightarrow> string set"
  assumes get: "tx_getSessionForUpdate T sc s = (Inr x, t) \<Longrightarrow> t = s \<and> x = session s sc"
    and get_frame: "tx_getSessionForUpdate T sc s = (r1, t) \<Longrightarrow> session t = session s \<and> pending t = pending s"
    and stored_scope: "session s sc = Some c \<Longrightarrow> session_scope c = sc"
    and insert_session: "tx_insertSession T c s = (Inr u, t) \<Longrightarrow> session s (session_scope c) = None \<and>
      (\<exists>c'. same_core c c' \<and> session t = (session s)(session_scope c \<mapsto> c'))"
    and update_done: "tx_updateSession T c v s = (Inr UP_UPDATED, t) \<Longrightarrow>
      (\<exists>old c'. session s (session_scope c) = Some old \<and> hc_version old = v \<and> same_core c c' \<and>
        cs_ownerActorId c' = cs_ownerActorId old \<and> session t = (session s)(session_scope c \<mapsto> c'))"
    and update_conflict: "tx_updateSession T c v s = (Inr UP_CONFLICT, t) \<Longrightarrow> session t = session s"
    and insert_pending: "tx_insertSession T c s = (r3, t) \<Longrightarrow> pending t = pending s"
    and update_pending: "tx_updateSession T c v s = (r4, t) \<Longrightarrow> pending t = pending s"
    and inbox_frame: "tx_insertInboxIfAbsent T sc k s = (r2, t) \<Longrightarrow> session t = session s \<and> pending t = pending s"
    and audit_frame: "tx_insertAuditIfAbsent T e s = (r2, t) \<Longrightarrow> session t = session s \<and> pending t = pending s"
    and outbox_frame: "tx_insertOutboxIfAbsent T m s = (r2, t) \<Longrightarrow> session t = session s \<and>
      (\<forall>sc. sc \<noteq> cm_scope m \<longrightarrow> pending t sc = pending s sc)"
    and cancel_frame: "tx_cancelPendingAutomation T sc now s = (r3, t) \<Longrightarrow> session t = session s \<and>
      (\<forall>sc'. pending t sc' \<subseteq> pending s sc')"
    and cancelled: "tx_cancelPendingAutomation T sc now s = (Inr u, t) \<Longrightarrow> pending t sc = {}"
    and transaction_done: "tx_transaction T m' s = (Inr d, t) \<Longrightarrow> m' s = (Inr d, t)"
    and transaction_undone: "tx_transaction T m' s = (Inl e', t) \<Longrightarrow> session t = session s \<and> pending t = pending s"
begin

abbreviation sessions_are :: "(ContactScope \<Rightarrow> ContactSessionRecord option) \<Rightarrow> 's \<Rightarrow> bool" where
  "sessions_are f s \<equiv> session s = f"

lemma keeps_sessions [keeps_intros]:
  "keeps (sessions_are f) (tx_getSessionForUpdate T sc)"
  "keeps (sessions_are f) (tx_insertInboxIfAbsent T sc k)"
  "keeps (sessions_are f) (tx_insertAuditIfAbsent T e)"
  "keeps (sessions_are f) (tx_insertOutboxIfAbsent T m)"
  "keeps (sessions_are f) (tx_cancelPendingAutomation T sc now)"
  by (rule keepsI, simp add: get_frame inbox_frame audit_frame outbox_frame cancel_frame)+

lemma keeps_writes [keeps_intros]:
  "keeps (sessions_are f) (queue_prompt T c channel prompt at')"
  "keeps (sessions_are f) (record_audit T c ev reason trace at' op actor role)"
  unfolding queue_prompt_def contactOutbox_def record_audit_def contactAudit_def Let_def
  by (intro keeps_intros)+

text \<open>What an operation on a scope does to the sessions.\<close>
definition moves :: "ContactScope \<Rightarrow> 's \<Rightarrow> 's \<Rightarrow> bool" where
  "moves sc s t \<longleftrightarrow> session t = session s \<or>
     (\<exists>old new. session s sc = Some old \<and> contact_step old new \<and> session t = (session s)(sc \<mapsto> new))"

lemma apply_update_done:
  assumes "apply_update T c v rest s = (Inr d, t)" and "d \<noteq> RT_CONFLICT"
  obtains x where "tx_updateSession T c v s = (Inr UP_UPDATED, x)" and "rest x = (Inr d, t)"
proof -
  obtain r x where r: "tx_updateSession T c v s = (Inr r, x)"
    and rest: "(if r = UP_CONFLICT then aret RT_CONFLICT else rest) x = (Inr d, t)"
    using assms(1) unfolding apply_update_def abind_Inr by blast
  then show thesis using that assms(2) by (cases r) auto
qed

lemma apply_update_effect:
  assumes "apply_update T c v rest s = (Inr d, t)" and "\<And>f. keeps (sessions_are f) rest"
  shows "session t = session s \<and> d = RT_CONFLICT \<or>
    (\<exists>new x. rest x = (Inr d, t) \<and> same_core c new \<and> session t = (session s)(session_scope c \<mapsto> new))"
proof -
  obtain r u where u: "tx_updateSession T c v s = (Inr r, u)"
    and rest: "(if r = UP_CONFLICT then aret RT_CONFLICT else rest) u = (Inr d, t)"
    using assms(1) unfolding apply_update_def abind_Inr by blast
  show ?thesis
  proof (cases r)
    case UP_CONFLICT
    then show ?thesis using rest update_conflict u by simp
  next
    case UP_UPDATED
    then have run: "rest u = (Inr d, t)" using rest by simp
    then have "session t = session u" using keepsD [OF assms(2)] by simp
    then show ?thesis using update_done u UP_UPDATED run by metis
  qed
qed

lemma apply_update_moves:
  assumes "apply_update T next (hc_version current) rest s = (Inr d, t)"
    and "\<And>f. keeps (sessions_are f) rest" and "session s sc = Some current" and "contact_step current next"
  shows "moves sc s t"
proof -
  have scope: "session_scope next = sc"
    using stored_scope [OF assms(3)] assms(4) by (simp add: contact_step_def)
  obtain r u where u: "tx_updateSession T next (hc_version current) s = (Inr r, u)"
    and rest: "(if r = UP_CONFLICT then aret RT_CONFLICT else rest) u = (Inr d, t)"
    using assms(1) by (auto simp: apply_update_def abind_Inr)
  show ?thesis
  proof (cases r)
    case UP_CONFLICT
    then show ?thesis using rest update_conflict u by (auto simp: moves_def)
  next
    case UP_UPDATED
    then have "session t = session u" using keepsD [OF assms(2)] rest by auto
    moreover obtain c' where "same_core next c'" "cs_ownerActorId c' = cs_ownerActorId current"
      "session u = (session s)(sc \<mapsto> c')"
      using update_done u UP_UPDATED scope assms(3) by (metis option.inject)
    ultimately show ?thesis using contact_step_core [OF assms(4)] assms(3) by (auto simp: moves_def)
  qed
qed

lemma moves_after: "session u = session s \<Longrightarrow> moves sc u t \<Longrightarrow> moves sc s t"
  by (simp add: moves_def)

definition reviewed :: "ContactSessionRecord \<Rightarrow> string \<Rightarrow> ContactSessionRecord" where
  "reviewed current at' = current\<lparr>hc_state := HC_HUMAN_REVIEW, cs_nextActionAt := None, hc_responseDeadlineAt := None,
     hc_version := hc_version current + 1, cs_updatedAt := at'\<rparr>"

lemma failToReview_run:
  assumes "failToReview T current trace at' reason s = (Inr d, t)"
  obtains u where "session u = session s"
    and "apply_update T (reviewed current at') (hc_version current)
      (abind (record_audit T (reviewed current at') ''CONTACT_RUNTIME_REJECTED'' reason trace at' False
        ''runtime'' CR_SYSTEM) (\<lambda>_. aret RT_HUMAN_REVIEW)) u = (Inr d, t)"
proof -
  have review: "(if hd_allowed decision then hd_nextState decision else HC_HUMAN_REVIEW) = HC_HUMAN_REVIEW"
    if "decideHumanContactTransition current HC_HUMAN_REVIEW ctx = Inr decision" for ctx decision
    using decideContact_next [OF that] by simp
  show thesis
    using assms that unfolding failToReview_def reviewed_def Let_def
    by (auto simp: abind_Inr review dest: cancel_frame)
qed

lemma failToReview_moves:
  assumes "failToReview T current trace at' reason s = (Inr d, t)" and "session s sc = Some current"
  shows "moves sc s t"
  using assms(1)
proof (rule failToReview_run)
  fix u
  assume u: "session u = session s" and run: "apply_update T (reviewed current at') (hc_version current)
      (abind (record_audit T (reviewed current at') ''CONTACT_RUNTIME_REJECTED'' reason trace at' False
        ''runtime'' CR_SYSTEM) (\<lambda>_. aret RT_HUMAN_REVIEW)) u = (Inr d, t)"
  have "moves sc u t"
  proof (rule apply_update_moves [OF run])
    show "session u sc = Some current" using u assms(2) by simp
    show "contact_step current (reviewed current at')"
      by (simp add: reviewed_def contact_step_def session_scope_def no_action_def)
  qed (intro keeps_intros)
  then show ?thesis using u by (rule moves_after [rotated])
qed

lemma callbackSession_step:
  assumes "callbackSession current i state' deadline = Inr n" and "state' \<in> set (contactAllowed (hc_state current))"
    and "\<not> cs_automationSuppressed current" and "state' \<notin> {HC_OPERATOR_TAKEOVER, HC_ESCALATED}"
  shows "contact_step current n \<and> hc_state n = state'"
proof -
  obtain followup nextAt where n: "n = current\<lparr>hc_state := state', hc_version := hc_version current + 1,
      hc_language := (case cb_selectedLanguage i of
          Some l \<Rightarrow> if cb_kind i = CK_LANGUAGE_SELECTED then l else hc_language current
        | None \<Rightarrow> hc_language current),
      hc_identityConfidence := strongerIdentity (hc_identityConfidence current) (cb_identityConfidence i),
      hc_lastInteractionAt := cb_occurredAt i, cs_nextActionAt := nextAt,
      hc_responseDeadlineAt := (if state' = HC_LANGUAGE_SELECTION \<or> state' = HC_PARTIAL_RESPONSE then followup else None),
      cs_updatedAt := cb_occurredAt i\<rparr>"
    and at': "(if state' \<in> set [HC_LANGUAGE_SELECTION, HC_PARTIAL_RESPONSE, HC_DISCONNECTED]
       then (case followup of Some x \<Rightarrow> Inr (Some x)
         | None \<Rightarrow> ebind (iso_after (cb_occurredAt i) HUMAN_CONTACT_RETRY_BASE_DELAY_MS) (\<lambda>x. Inr (Some x)))
       else Inr (if state' = HC_CONTACTING then Some (cb_occurredAt i) else None)) = Inr nextAt"
    using assms(1) unfolding callbackSession_def by (elim ebind_InrE) blast
  have "state' = HC_HUMAN_REVIEW \<Longrightarrow> nextAt = None" using at' by simp
  then show ?thesis unfolding n using assms(2-4)
    by (simp add: contact_step_def session_scope_def no_action_def)
qed

lemma requested_states: "callbackRequestedState st kind = Some q \<Longrightarrow> q \<notin> {HC_OPERATOR_TAKEOVER, HC_ESCALATED}"
  by (cases kind) (auto split: if_split_asm)

lemma applyCallback_moves:
  assumes "applyCallback T i current s = (Inr d, t)" and "session s (cb_scope i) = Some current"
    and "\<not> cs_automationSuppressed current"
  shows "moves (cb_scope i) s t"
proof (cases "callbackRequestedState (hc_state current) (cb_kind i)")
  case None
  then show ?thesis using assms failToReview_moves by (auto simp: applyCallback_def)
next
  case (Some requested)
  then obtain decision where d: "decideHumanContactTransition current requested (system_context ''callback'' (cb_occurredAt i)
      (toLowerCase (callback_name (cb_kind i))) (cb_traceId i) (cb_kind i \<noteq> CK_CHANNEL_FAILURE)
      (cb_kind i \<noteq> CK_ACCESSIBILITY_UNAVAILABLE) (hc_version current)) = Inr decision"
    using assms(1) by (auto simp: applyCallback_def abind_Inr)
  show ?thesis
  proof (cases "hd_allowed decision")
    case False
    then show ?thesis using assms failToReview_moves Some d by (auto simp: applyCallback_def)
  next
    case True
    note n = decideContact_next [OF d True] requested_states [OF Some]
    obtain u new rest where u: "session u = session s" and new: "callbackSession current i requested (hd_deadlineAt decision) = Inr new"
      and run: "apply_update T new (hc_version current) rest u = (Inr d, t)" and rest: "\<And>f. keeps (sessions_are f) rest"
    proof -
      have k: "keeps (sessions_are f) (abind (if cb_kind i = CK_CONSENT_GRANTED
              then queue_prompt T new (channelFromSession new) CP_language (cb_occurredAt i) else aret INS_INSERTED) (\<lambda>_.
            abind (record_audit T new (''CALLBACK_'' @ callback_name (cb_kind i)) (toLowerCase (callback_name (cb_kind i)))
              (cb_traceId i) (cb_occurredAt i) False ''callback'' CR_SYSTEM) (\<lambda>_.
            aret (if hc_state new = HC_HUMAN_REVIEW then RT_HUMAN_REVIEW else RT_APPLIED))))" for new f
        by (intro keeps_intros)
      show thesis
        using assms(1) Some d True n that [OF _ _ _ k] unfolding applyCallback_def
        by (auto simp: abind_Inr dest: cancel_frame)
    qed
    have "moves (cb_scope i) u t"
    proof (rule apply_update_moves [OF run rest])
      show "session u (cb_scope i) = Some current" using u assms(2) by simp
      show "contact_step current new" using callbackSession_step [OF new] n assms(3) by simp
    qed
    then show ?thesis using u by (rule moves_after [rotated])
  qed
qed

lemma applyTakeover_moves:
  assumes "applyTakeover T i current s = (Inr d, t)" and "session s (ot_scope i) = Some current"
  shows "moves (ot_scope i) s t"
proof -
  let ?ctx = "\<lparr>hx_actorId = ot_operatorId i, hx_actorRoles = [authorized_human_role (ot_authorizedRole i)],
        hx_occurredAt = ot_occurredAt i, hx_reason = ''operator_takeover'', hx_traceId = ot_traceId i,
        hx_channelHealthy = True, hx_accessibilitySatisfied = True, hx_expectedVersion = hc_version current\<rparr>"
  obtain decision where d: "decideHumanContactTransition current HC_OPERATOR_TAKEOVER ?ctx = Inr decision"
    using assms(1) by (auto simp: applyTakeover_def abind_Inr)
  show ?thesis
  proof (cases "hd_allowed decision")
    case False
    then show ?thesis using assms failToReview_moves d by (auto simp: applyTakeover_def)
  next
    case True
    obtain u where u: "session u = session s"
      and run: "apply_update T (takenOver i current) (hc_version current)
        (abind (record_audit T (takenOver i current) ''OPERATOR_TAKEOVER'' ''operator_takeover'' (ot_traceId i)
           (ot_occurredAt i) True (ot_operatorId i) (ot_authorizedRole i)) (\<lambda>_. aret RT_APPLIED)) u = (Inr d, t)"
      using assms(1) d True by (auto simp: applyTakeover_def abind_Inr dest: cancel_frame)
    have "moves (ot_scope i) u t"
    proof (rule apply_update_moves [OF run])
      show "session u (ot_scope i) = Some current" using u assms(2) by simp
      show "contact_step current (takenOver i current)"
        using decideContact_next [OF d True]
        by (simp add: contact_step_def takenOver_def session_scope_def no_action_def)
    qed (intro keeps_intros)
    then show ?thesis using u by (rule moves_after [rotated])
  qed
qed

lemma due_transition_moves:
  assumes "due_transition T current requested w now reason rest s = (Inr d, t)" and "session s sc = Some current"
    and "\<And>decision. rest decision s = (Inr d, t) \<Longrightarrow> requested \<in> set (contactAllowed (hc_state current)) \<Longrightarrow>
      (requested = HC_CONTACTING \<longrightarrow> hc_attemptCount current < HUMAN_CONTACT_MAX_AUTOMATED_ATTEMPTS) \<Longrightarrow> moves sc s t"
  shows "moves sc s t"
proof -
  obtain decision where d: "decideHumanContactTransition current requested
      (system_context w now reason (''worker-'' @ w) True True (hc_version current)) = Inr decision"
    and run: "(if \<not> hd_allowed decision then failToReview T current (''worker-'' @ w) now (hd_reasonCode decision)
      else rest decision) s = (Inr d, t)"
    using assms(1) by (auto simp: due_transition_def abind_Inr)
  show ?thesis
    using run decideContact_next [OF d] assms(3) failToReview_moves [OF _ assms(2)]
    by (cases "hd_allowed decision") auto
qed

lemma due_update_moves:
  assumes "due_transition T current requested w now reason
      (\<lambda>decision. apply_update T (upd decision) (hc_version current) (rest decision)) s = (Inr d, t)"
    and cur: "session s sc = Some current" and "\<And>decision f. keeps (sessions_are f) (rest decision)"
    and "\<And>decision. requested \<in> set (contactAllowed (hc_state current)) \<Longrightarrow>
      (requested = HC_CONTACTING \<longrightarrow> hc_attemptCount current < HUMAN_CONTACT_MAX_AUTOMATED_ATTEMPTS) \<Longrightarrow>
      contact_step current (upd decision)"
  shows "moves sc s t"
  using assms(1) cur
proof (rule due_transition_moves)
  fix decision
  assume "apply_update T (upd decision) (hc_version current) (rest decision) s = (Inr d, t)"
    and "requested \<in> set (contactAllowed (hc_state current))"
    and "requested = HC_CONTACTING \<longrightarrow> hc_attemptCount current < HUMAN_CONTACT_MAX_AUTOMATED_ATTEMPTS"
  then show "moves sc s t" using apply_update_moves assms(3,4) cur by blast
qed

lemma due_step_moves:
  assumes "due_step T current w now s = (Inr d, t)" and cur: "session s sc = Some current"
    and sup: "\<not> cs_automationSuppressed current"
  shows "moves sc s t"
proof -
  have await: "moves sc s t" if "awaitResponse T current w now s = (Inr d, t)"
    by (rule due_update_moves [OF that [unfolded awaitResponse_def Let_def] cur], intro keeps_intros)
      (use sup in \<open>simp add: contact_step_def session_scope_def\<close>)
  have silent: "moves sc s t" if "noResponse T current w now s = (Inr d, t)"
    by (rule due_update_moves [OF that [unfolded noResponse_def Let_def] cur], intro keeps_intros)
      (use sup in \<open>simp add: contact_step_def session_scope_def\<close>)
  have followup: "moves sc s t" if "partialFollowup T current w now s = (Inr d, t)"
    by (rule due_update_moves [OF that [unfolded partialFollowup_def Let_def] cur], intro keeps_intros)
      (use sup in \<open>simp add: contact_step_def session_scope_def\<close>)
  have escalate: "moves sc s t" if "escalateExhausted T current w now s = (Inr d, t)"
    by (rule due_update_moves [OF that [unfolded escalateExhausted_def Let_def] cur], intro keeps_intros)
      (use sup in \<open>simp add: contact_step_def session_scope_def no_action_def\<close>)
  have retry: "moves sc s t" if "retryContact T current w now s = (Inr d, t)"
    by (rule due_update_moves [OF that [unfolded retryContact_def Let_def] cur], intro keeps_intros)
      (use sup in \<open>simp add: contact_step_def session_scope_def\<close>)
  show ?thesis
    using assms(1) failToReview_moves [OF _ cur] await silent followup escalate retry
    unfolding due_step_def by (auto split: if_split_asm)
qed

lemma with_session_moves:
  assumes "with_session T sc missing rest s = (r, t)"
    and "\<And>current d. session s sc = Some current \<Longrightarrow> rest current s = (Inr d, t) \<Longrightarrow> moves sc s t"
  shows "moves sc s t"
proof (cases r)
  case (Inl e)
  then show ?thesis using assms(1) transaction_undone by (simp add: with_session_def moves_def)
next
  case (Inr d)
  then obtain found u where u: "tx_getSessionForUpdate T sc s = (Inr found, u)"
    and run: "(case found of None \<Rightarrow> aret missing | Some current \<Rightarrow> rest current) u = (Inr d, t)"
    using assms(1) transaction_done unfolding with_session_def abind_Inr [symmetric] by (fastforce simp: abind_Inr)
  have us: "u = s" "found = session s sc" using get [OF u] by simp_all
  show ?thesis
  proof (cases found)
    case None
    then show ?thesis using run us by (simp add: moves_def)
  next
    case (Some current)
    then show ?thesis using assms(2) [of current d] run us by simp
  qed
qed

lemma first_time_moves:
  assumes "first_time T sc' key rest s = (Inr d, t)"
    and "\<And>u. session u = session s \<Longrightarrow> rest u = (Inr d, t) \<Longrightarrow> moves sc u t"
  shows "moves sc s t"
proof -
  obtain r u where inbox: "tx_insertInboxIfAbsent T sc' key s = (Inr r, u)"
    and run: "(if r = INS_EXISTS then aret RT_IDEMPOTENT else rest) u = (Inr d, t)"
    using assms(1) by (auto simp: first_time_def abind_Inr)
  have u: "session u = session s" using inbox_frame [OF inbox] by simp
  show ?thesis using run assms(2) [OF u] u by (auto simp: moves_def split: if_split_asm)
qed

text \<open>An operation moves the session of its scope by one abstract step, or leaves every session as it was;
  \<open>open\<close> may also create the session.\<close>
lemma handleCallback_moves:
  assumes "handleCallback T i s = (r, t)"
  shows "moves (cb_scope i) s t"
proof (cases "validCallback i")
  case True
  show ?thesis
  proof (rule with_session_moves [of "cb_scope i" RT_HUMAN_REVIEW])
    show "with_session T (cb_scope i) RT_HUMAN_REVIEW (\<lambda>current.
       if cs_ownerActorId current \<noteq> cb_ownerActorId i then aret RT_HUMAN_REVIEW
       else first_time T (cb_scope i) (inboxKey ''callback'' (cb_scope i) (cb_callbackId i))
         (if cs_automationSuppressed current \<or>
            hc_state current \<in> set [HC_OPERATOR_TAKEOVER, HC_ESCALATED, HC_COMPLETED] then aret RT_IDEMPOTENT
          else applyCallback T i current)) s = (r, t)"
      using assms True by (simp add: handleCallback_def)
  next
    fix current d
    assume cur: "session s (cb_scope i) = Some current"
    assume "(if cs_ownerActorId current \<noteq> cb_ownerActorId i then aret RT_HUMAN_REVIEW
       else first_time T (cb_scope i) (inboxKey ''callback'' (cb_scope i) (cb_callbackId i))
         (if cs_automationSuppressed current \<or>
            hc_state current \<in> set [HC_OPERATOR_TAKEOVER, HC_ESCALATED, HC_COMPLETED] then aret RT_IDEMPOTENT
          else applyCallback T i current)) s = (Inr d, t)"
    then have "(cs_ownerActorId current \<noteq> cb_ownerActorId i \<and> t = s) \<or>
      first_time T (cb_scope i) (inboxKey ''callback'' (cb_scope i) (cb_callbackId i))
         (if cs_automationSuppressed current \<or>
            hc_state current \<in> set [HC_OPERATOR_TAKEOVER, HC_ESCALATED, HC_COMPLETED] then aret RT_IDEMPOTENT
          else applyCallback T i current) s = (Inr d, t)" by (auto split: if_split_asm)
    then show "moves (cb_scope i) s t"
    proof (elim disjE first_time_moves)
      fix u
      assume "session u = session s" "(if cs_automationSuppressed current \<or>
            hc_state current \<in> set [HC_OPERATOR_TAKEOVER, HC_ESCALATED, HC_COMPLETED] then aret RT_IDEMPOTENT
          else applyCallback T i current) u = (Inr d, t)"
      then show "moves (cb_scope i) u t"
        using cur applyCallback_moves [of i current u d t] by (simp add: moves_def split: if_split_asm)
    qed (simp add: moves_def)
  qed
qed (use assms in \<open>simp add: handleCallback_def moves_def\<close>)

lemma operatorTakeover_moves:
  assumes "operatorTakeover T i s = (r, t)"
  shows "moves (ot_scope i) s t"
proof -
  have "moves (ot_scope i) s t" if "with_session T (ot_scope i) RT_HUMAN_REVIEW (\<lambda>current.
       first_time T (ot_scope i) (inboxKey ''takeover'' (ot_scope i) (ot_operatorId i @ ''|'' @ ot_idempotencyKey i))
         (if cs_automationSuppressed current \<and> hc_assignedOperatorId current = Some (ot_operatorId i)
          then aret RT_IDEMPOTENT else applyTakeover T i current)) s = (r, t)"
    using that
  proof (rule with_session_moves, elim first_time_moves)
    fix current d u
    assume "session s (ot_scope i) = Some current" "session u = session s"
      "(if cs_automationSuppressed current \<and> hc_assignedOperatorId current = Some (ot_operatorId i)
          then aret RT_IDEMPOTENT else applyTakeover T i current) u = (Inr d, t)"
    then show "moves (ot_scope i) u t"
      using applyTakeover_moves [of i current u d t] by (auto simp: moves_def split: if_split_asm)
  qed
  then show ?thesis using assms by (auto simp: operatorTakeover_def moves_def split: if_split_asm)
qed

lemma processDue_moves:
  assumes "processDue T sc w now s = (r, t)"
  shows "moves sc s t"
  using assms unfolding processDue_def
proof (rule with_session_moves)
  fix current d
  assume "session s sc = Some current"
    "(if cs_leaseOwner current \<noteq> Some w \<or> cs_automationSuppressed current then aret RT_IDEMPOTENT
     else if not_yet (cs_nextActionAt current) now then aret RT_IDEMPOTENT
     else due_step T current w now) s = (Inr d, t)"
  then show "moves sc s t"
    using due_step_moves [of current w now s d t sc] by (auto simp: moves_def split: if_split_asm)
qed

definition opens :: "OpenContactInput \<Rightarrow> 's \<Rightarrow> 's \<Rightarrow> bool" where
  "opens i s t \<longleftrightarrow> session t = session s \<or>
     (\<exists>deadline new. session s (oc_scope i) = None \<and> same_core (newSession i deadline) new \<and>
        session t = (session s)(oc_scope i \<mapsto> new))"

lemma newSession_scope [simp]: "session_scope (newSession i deadline) = oc_scope i"
  by (simp add: newSession_def session_scope_def)

lemma storeNew_opens:
  assumes "storeNew T i (newSession i deadline) s = (Inr d, t)"
  shows "opens i s t"
proof -
  let ?rest = "\<lambda>_. abind (queue_prompt T (newSession i deadline) (oc_preferredChannel i) CP_consent (oc_occurredAt i)) (\<lambda>_.
     abind (record_audit T (newSession i deadline) ''CONTACT_CONSENT_PENDING'' ''protocol_started_with_consent''
       (oc_traceId i) (oc_occurredAt i) False ''runtime'' CR_SYSTEM) (\<lambda>_. aret RT_APPLIED))"
  obtain u where u: "tx_insertSession T (newSession i deadline) s = (Inr (), u)" and rest: "?rest () u = (Inr d, t)"
    using assms unfolding storeNew_def by (auto simp: abind_Inr [of "tx_insertSession T _"])
  have "keeps (sessions_are f) (?rest ())" for f by (intro keeps_intros)
  from keepsD [OF this rest refl] have "session t = session u" .
  then show ?thesis using insert_session [OF u] by (auto simp: opens_def)
qed

lemma openNew_opens:
  assumes "openNew T i s = (Inr d, t)"
  shows "opens i s t"
proof -
  obtain existing v where v: "tx_getSessionForUpdate T (oc_scope i) s = (Inr existing, v)"
    and rest: "(if existing \<noteq> None then aret RT_CONFLICT
     else abind (alift (iso_after (oc_occurredAt i) HUMAN_CONTACT_RESPONSE_DEADLINE_MS))
       (\<lambda>deadline. storeNew T i (newSession i deadline))) v = (Inr d, t)"
    using assms unfolding openNew_def abind_Inr [of "tx_getSessionForUpdate T (oc_scope i)"] by blast
  have vs: "v = s" using get [OF v] by simp
  show ?thesis
  proof (cases "iso_after (oc_occurredAt i) HUMAN_CONTACT_RESPONSE_DEADLINE_MS")
    case (Inl e)
    then show ?thesis using rest vs by (simp add: opens_def split: if_split_asm)
  next
    case (Inr deadline)
    then show ?thesis using rest vs storeNew_opens [of i deadline s d t]
      by (cases "existing = None") (auto simp: opens_def)
  qed
qed

lemma openContact_opens:
  assumes "openContact T i s = (r, t)"
  shows "opens i s t"
proof -
  have "opens i s t"
    if tx: "tx_transaction T (first_time T (oc_scope i) (inboxKey ''open'' (oc_scope i) (oc_idempotencyKey i)) (openNew T i)) s = (r, t)"
  proof (cases r)
    case (Inl e)
    then show ?thesis using tx transaction_undone by (auto simp: opens_def)
  next
    case (Inr d)
    have "first_time T (oc_scope i) (inboxKey ''open'' (oc_scope i) (oc_idempotencyKey i)) (openNew T i) s = (Inr d, t)"
      using transaction_done tx Inr by blast
    then obtain x u where inbox: "tx_insertInboxIfAbsent T (oc_scope i) (inboxKey ''open'' (oc_scope i) (oc_idempotencyKey i)) s = (Inr x, u)"
      and run: "(if x = INS_EXISTS then aret RT_IDEMPOTENT else openNew T i) u = (Inr d, t)"
      unfolding first_time_def abind_Inr by blast
    have "session u = session s" using inbox_frame [OF inbox] by simp
    then show ?thesis using run openNew_opens [of i u d t] by (auto simp: opens_def split: if_split_asm)
  qed
  then show ?thesis using assms by (auto simp: openContact_def opens_def split: if_split_asm)
qed

subsection \<open>Pending messages\<close>

text \<open>A predicate on sessions and pending messages only; a transaction that is undone restores both.\<close>
lemma keeps_transaction:
  assumes "keeps (\<lambda>s. J (session s) (pending s)) m'"
  shows "keeps (\<lambda>s. J (session s) (pending s)) (tx_transaction T m')"
proof (rule keepsI)
  fix s r t
  assume "J (session s) (pending s)" "tx_transaction T m' s = (r, t)"
  then show "J (session t) (pending t)"
    using transaction_done transaction_undone keepsD [OF assms] by (cases r) (fastforce+)
qed

abbreviation pending_below :: "ContactScope set \<Rightarrow> (ContactScope \<Rightarrow> string set) \<Rightarrow> 's \<Rightarrow> bool" where
  "pending_below A g s \<equiv> (\<forall>sc \<in> A. pending s sc \<subseteq> g sc)"

lemma keeps_pending [keeps_intros]:
  "keeps (pending_below A g) (tx_getSessionForUpdate T sc)"
  "keeps (pending_below A g) (tx_insertInboxIfAbsent T sc k)"
  "keeps (pending_below A g) (tx_insertAuditIfAbsent T e)"
  "keeps (pending_below A g) (tx_cancelPendingAutomation T sc now)"
  "keeps (pending_below A g) (record_audit T c ev reason trace at' op actor role)"
proof -
  show "keeps (pending_below A g) (tx_cancelPendingAutomation T sc now)"
    by (rule keepsI) (blast dest: cancel_frame)
  show audit: "keeps (pending_below A g) (tx_insertAuditIfAbsent T e)" for e
    by (rule keepsI) (simp add: audit_frame)
  show "keeps (pending_below A g) (record_audit T c ev reason trace at' op actor role)"
    unfolding record_audit_def contactAudit_def by (intro keeps_intros audit)
qed (rule keepsI, simp add: get_frame inbox_frame)+

lemma keeps_update [keeps_intros]:
  "keeps (pending_below A g) rest \<Longrightarrow> keeps (pending_below A g) (apply_update T c v rest)"
proof -
  have "keeps (pending_below A g) (tx_updateSession T c v)"
    by (rule keepsI) (simp add: update_pending)
  then show "keeps (pending_below A g) rest \<Longrightarrow> keeps (pending_below A g) (apply_update T c v rest)"
    unfolding apply_update_def by (intro keeps_intros)
qed

lemma keeps_prompt:
  assumes "session_scope c \<notin> A"
  shows "keeps (pending_below A g) (queue_prompt T c channel prompt at')"
proof -
  have insert: "keeps (pending_below A g) (tx_insertOutboxIfAbsent T m)" if "cm_scope m = session_scope c" for m
    by (rule keepsI) (use outbox_frame that assms in metis)
  show ?thesis
    unfolding queue_prompt_def contactOutbox_def Let_def by (rule keeps_computed) (rule insert, simp)
qed

lemma keeps_review [keeps_intros]: "keeps (pending_below A g) (failToReview T current trace at' reason)"
  unfolding failToReview_def Let_def by (intro keeps_intros)

lemma keeps_first_time [keeps_intros]:
  "keeps (pending_below A g) rest \<Longrightarrow> keeps (pending_below A g) (first_time T sc key rest)"
  unfolding first_time_def by (intro keeps_intros)

lemma with_session_pending:
  assumes run: "with_session T sc missing rest s = (r, t)" and s: "pending_below A g s"
    and rest: "\<And>current. session s sc = Some current \<Longrightarrow> session_scope current = sc \<Longrightarrow> keeps (pending_below A g) (rest current)"
  shows "pending_below A g t"
proof (cases r)
  case (Inl e)
  then show ?thesis using run s transaction_undone by (simp add: with_session_def)
next
  case (Inr d)
  then have "abind (tx_getSessionForUpdate T sc) (\<lambda>found. case found of None \<Rightarrow> aret missing | Some current \<Rightarrow> rest current) s = (Inr d, t)"
    using run transaction_done by (simp add: with_session_def)
  then obtain found u where u: "tx_getSessionForUpdate T sc s = (Inr found, u)"
    and run': "(case found of None \<Rightarrow> aret missing | Some current \<Rightarrow> rest current) u = (Inr d, t)"
    unfolding abind_Inr by blast
  have us: "u = s" "found = session s sc" using get [OF u] by simp_all
  show ?thesis
  proof (cases found)
    case None
    then show ?thesis using run' us s by simp
  next
    case (Some current)
    then show ?thesis using keepsD [OF rest [of current]] run' us s stored_scope by (metis option.simps(5))
  qed
qed

text \<open>Whoever is not the session of the operation gets no new message; neither does a session whose
  automation is suppressed.\<close>
definition quiet :: "ContactScope \<Rightarrow> ContactScope set \<Rightarrow> 's \<Rightarrow> bool" where
  "quiet sc A s \<longleftrightarrow> sc \<notin> A \<or> (\<exists>c. session s sc = Some c \<and> cs_automationSuppressed c)"

lemma applyCallback_pending:
  assumes "session_scope current = cb_scope i" and "cb_scope i \<notin> A"
  shows "keeps (pending_below A g) (applyCallback T i current)"
proof -
  have scope: "session_scope n = cb_scope i" if "callbackSession current i st dl = Inr n" for n st dl
    using that assms(1) by (auto simp: callbackSession_def session_scope_def elim!: ebind_InrE)
  show ?thesis
    unfolding applyCallback_def
    by (intro keeps_abind_alift keeps_prompt keeps_intros) (use scope assms(2) in auto)
qed

lemma handleCallback_pending:
  assumes run: "handleCallback T i s = (r, t)" and below: "pending_below A g s" and q: "quiet (cb_scope i) A s"
  shows "pending_below A g t"
proof (cases "validCallback i")
  case True
  show ?thesis
    using run True below unfolding handleCallback_def
  proof (simp only: not_True_eq_False if_False, elim with_session_pending)
    fix current
    assume cur: "session s (cb_scope i) = Some current" "session_scope current = cb_scope i"
    then have "cs_automationSuppressed current \<or> cb_scope i \<notin> A" using q by (auto simp: quiet_def)
    then have "keeps (pending_below A g) (if cs_automationSuppressed current \<or>
            hc_state current \<in> set [HC_OPERATOR_TAKEOVER, HC_ESCALATED, HC_COMPLETED] then aret RT_IDEMPOTENT
          else applyCallback T i current)"
      using applyCallback_pending [of current i A g] cur(2) keeps_basic(1) by auto
    then show "keeps (pending_below A g) (if cs_ownerActorId current \<noteq> cb_ownerActorId i then aret RT_HUMAN_REVIEW
       else first_time T (cb_scope i) (inboxKey ''callback'' (cb_scope i) (cb_callbackId i))
         (if cs_automationSuppressed current \<or>
            hc_state current \<in> set [HC_OPERATOR_TAKEOVER, HC_ESCALATED, HC_COMPLETED] then aret RT_IDEMPOTENT
          else applyCallback T i current))"
      by (rule keeps_branches(1) [OF keeps_basic(1) keeps_first_time])
  qed
qed (use run below in \<open>simp add: handleCallback_def\<close>)

lemma operatorTakeover_pending:
  assumes run: "operatorTakeover T i s = (r, t)" and below: "pending_below A g s"
  shows "pending_below A g t"
proof -
  have "pending_below A g t" if "with_session T (ot_scope i) RT_HUMAN_REVIEW (\<lambda>current.
       first_time T (ot_scope i) (inboxKey ''takeover'' (ot_scope i) (ot_operatorId i @ ''|'' @ ot_idempotencyKey i))
         (if cs_automationSuppressed current \<and> hc_assignedOperatorId current = Some (ot_operatorId i)
          then aret RT_IDEMPOTENT else applyTakeover T i current)) s = (r, t)"
    using that below
  proof (elim with_session_pending)
    fix current
    show "keeps (pending_below A g)
      (first_time T (ot_scope i) (inboxKey ''takeover'' (ot_scope i) (ot_operatorId i @ ''|'' @ ot_idempotencyKey i))
         (if cs_automationSuppressed current \<and> hc_assignedOperatorId current = Some (ot_operatorId i)
          then aret RT_IDEMPOTENT else applyTakeover T i current))"
      unfolding applyTakeover_def by (intro keeps_intros)
  qed
  then show ?thesis using run below by (auto simp: operatorTakeover_def split: if_split_asm)
qed

lemma due_transition_pending:
  "(\<And>decision. keeps (pending_below A g) (rest decision)) \<Longrightarrow>
   keeps (pending_below A g) (due_transition T current requested w now reason rest)"
  unfolding due_transition_def by (intro keeps_intros)

lemma due_step_pending:
  assumes "session_scope current \<notin> A"
  shows "keeps (pending_below A g) (due_step T current w now)"
  unfolding due_step_def awaitResponse_def noResponse_def partialFollowup_def escalateExhausted_def retryContact_def Let_def
  by (intro due_transition_pending keeps_prompt keeps_intros) (use assms in \<open>simp_all add: session_scope_def\<close>)

lemma processDue_pending:
  assumes run: "processDue T sc w now s = (r, t)" and below: "pending_below A g s" and q: "quiet sc A s"
  shows "pending_below A g t"
  using run below unfolding processDue_def
proof (elim with_session_pending)
  fix current
  assume cur: "session s sc = Some current" "session_scope current = sc"
  then have "cs_automationSuppressed current \<or> session_scope current \<notin> A" using q by (auto simp: quiet_def)
  then show "keeps (pending_below A g)
    (if cs_leaseOwner current \<noteq> Some w \<or> cs_automationSuppressed current then aret RT_IDEMPOTENT
     else if not_yet (cs_nextActionAt current) now then aret RT_IDEMPOTENT else due_step T current w now)"
    using due_step_pending by (auto intro!: keeps_intros)
qed

lemma storeNew_pending:
  assumes "oc_scope i \<notin> A"
  shows "keeps (pending_below A g) (storeNew T i (newSession i deadline))"
proof -
  have insert: "keeps (pending_below A g) (tx_insertSession T c)" for c
    by (rule keepsI) (simp add: insert_pending)
  show ?thesis
    unfolding storeNew_def
    by (rule keeps_abind [OF insert keeps_abind [OF keeps_prompt keeps_abind]]) (use assms in simp, intro keeps_intros)+
qed

lemma openContact_pending:
  assumes run: "openContact T i s = (r, t)" and below: "pending_below A g s" and q: "quiet (oc_scope i) A s"
  shows "pending_below A g t"
proof -
  have new: "pending_below A g t" if "openNew T i u = (r', t)" "session u = session s" "pending_below A g u" for u r'
  proof (cases "oc_scope i \<in> A")
    case False
    have "keeps (pending_below A g) (openNew T i)"
      unfolding openNew_def by (intro keeps_abind_alift storeNew_pending keeps_intros) (use False in simp)
    from keepsD [OF this that(1) that(3)] show ?thesis .
  next
    case True
    then have "session u (oc_scope i) \<noteq> None" using q that(2) by (auto simp: quiet_def)
    obtain x v where v: "tx_getSessionForUpdate T (oc_scope i) u = (x, v)" by fastforce
    show ?thesis
    proof (cases x)
      case (Inl e)
      then have "t = v" using that(1) v by (simp add: openNew_def abind_def)
      then show ?thesis using get_frame [OF v] that(3) by simp
    next
      case (Inr existing)
      then have "existing \<noteq> None" "v = u" using get v \<open>session u (oc_scope i) \<noteq> None\<close> by auto
      then have "t = u" using that(1) v Inr by (simp add: openNew_def abind_def)
      then show ?thesis using that(3) by simp
    qed
  qed
  have first: "pending_below A g t" if "first_time T (oc_scope i) key (openNew T i) s = (r', t)" for key r'
  proof (cases "tx_insertInboxIfAbsent T (oc_scope i) key s")
    case (Pair x u)
    then have u: "session u = session s" "pending u = pending s" using inbox_frame by blast+
    then show ?thesis
      using that Pair below new [of u] by (cases x) (auto simp: first_time_def abind_def split: if_split_asm)
  qed
  show ?thesis
  proof (cases "validScope (oc_scope i) \<and> validNullableOwnerActorId (oc_ownerActorId i) \<and> validId (oc_traceId i) \<and>
       validId (oc_idempotencyKey i) \<and> validTime (oc_occurredAt i)")
    case False
    then show ?thesis using run below by (auto simp: openContact_def)
  next
    case True
    then have tx: "tx_transaction T (first_time T (oc_scope i) (inboxKey ''open'' (oc_scope i) (oc_idempotencyKey i)) (openNew T i)) s = (r, t)"
      using run by (simp add: openContact_def)
    show ?thesis
    proof (cases r)
      case (Inl e)
      then show ?thesis using tx transaction_undone below by (metis old.unit.exhaust)
    next
      case (Inr d)
      then show ?thesis using first transaction_done tx by blast
    qed
  qed
qed

lemma failToReview_not_applied: "failToReview T current trace at' reason s \<noteq> (Inr RT_APPLIED, t)"
  by (auto simp: failToReview_def Let_def abind_Inr apply_update_def split: if_split_asm)

lemma applyTakeover_applied:
  assumes "applyTakeover T i current s = (Inr RT_APPLIED, t)" and cur: "session s (ot_scope i) = Some current"
  shows "pending t (ot_scope i) = {} \<and> (\<exists>c. session t (ot_scope i) = Some c \<and> hc_state c = HC_OPERATOR_TAKEOVER \<and>
    cs_automationSuppressed c \<and> hc_assignedOperatorId c = Some (ot_operatorId i) \<and> no_action c)"
proof -
  let ?ctx = "\<lparr>hx_actorId = ot_operatorId i, hx_actorRoles = [authorized_human_role (ot_authorizedRole i)],
        hx_occurredAt = ot_occurredAt i, hx_reason = ''operator_takeover'', hx_traceId = ot_traceId i,
        hx_channelHealthy = True, hx_accessibilitySatisfied = True, hx_expectedVersion = hc_version current\<rparr>"
  obtain decision where d: "decideHumanContactTransition current HC_OPERATOR_TAKEOVER ?ctx = Inr decision"
    using assms(1) by (auto simp: applyTakeover_def abind_Inr)
  have ok: "hd_allowed decision"
    using assms(1) d failToReview_not_applied by (cases "hd_allowed decision") (auto simp: applyTakeover_def)
  obtain u v where u: "tx_cancelPendingAutomation T (ot_scope i) (ot_occurredAt i) s = (Inr u, v)"
    and run: "apply_update T (takenOver i current) (hc_version current)
        (abind (record_audit T (takenOver i current) ''OPERATOR_TAKEOVER'' ''operator_takeover'' (ot_traceId i)
           (ot_occurredAt i) True (ot_operatorId i) (ot_authorizedRole i)) (\<lambda>_. aret RT_APPLIED)) v = (Inr RT_APPLIED, t)"
    using assms(1) d ok by (auto simp: applyTakeover_def abind_Inr [of "tx_cancelPendingAutomation T _ _"])
  obtain x where x: "tx_updateSession T (takenOver i current) (hc_version current) v = (Inr UP_UPDATED, x)"
    and audit: "abind (record_audit T (takenOver i current) ''OPERATOR_TAKEOVER'' ''operator_takeover'' (ot_traceId i)
           (ot_occurredAt i) True (ot_operatorId i) (ot_authorizedRole i)) (\<lambda>_. aret RT_APPLIED) x = (Inr RT_APPLIED, t)"
    using apply_update_done [OF run] by blast
  have "keeps (sessions_are f) (abind (record_audit T (takenOver i current) ''OPERATOR_TAKEOVER'' ''operator_takeover''
      (ot_traceId i) (ot_occurredAt i) True (ot_operatorId i) (ot_authorizedRole i)) (\<lambda>_. aret RT_APPLIED))" for f
    by (intro keeps_intros)
  from keepsD [OF this audit refl] have ses: "session t = session x" .
  have quiet: "keeps (pending_below {ot_scope i} (\<lambda>_. {})) (abind (record_audit T (takenOver i current) ''OPERATOR_TAKEOVER''
      ''operator_takeover'' (ot_traceId i) (ot_occurredAt i) True (ot_operatorId i) (ot_authorizedRole i)) (\<lambda>_. aret RT_APPLIED))"
    by (intro keeps_intros)
  have "pending t (ot_scope i) = {}"
    using keepsD [OF quiet audit] cancelled [OF u] update_pending [OF x] by simp
  moreover have "session_scope (takenOver i current) = ot_scope i"
    using stored_scope [OF cur] by (simp add: takenOver_def session_scope_def)
  then obtain c where "same_core (takenOver i current) c" "session x (ot_scope i) = Some c"
    using update_done [OF x] by auto
  then have "session t (ot_scope i) = Some c" "hc_state c = HC_OPERATOR_TAKEOVER" "cs_automationSuppressed c"
    "hc_assignedOperatorId c = Some (ot_operatorId i)" "no_action c"
    using ses by (simp_all add: same_core_def takenOver_def no_action_def)
  ultimately show ?thesis by blast
qed

end

end
