(* ===== verification/ContactHistory.thy ===== *)
theory ContactHistory
  imports ContactRuntime
begin

text \<open>
  Histories of the contact runtime: any interleaving of the four operations and of what the
  environment does (leases taken and released, messages delivered). Every session keeps its
  bounds, a takeover ends automation for good, and the automated retries of a session end.
\<close>

datatype contact_call =
    Open OpenContactInput | Callback CallbackInput | Takeover OperatorTakeoverInput | Due ContactScope string string

definition contact_call :: "'s ContactRuntimeTransaction \<Rightarrow> contact_call \<Rightarrow> ('s, unit, RuntimeDisposition) action" where
  "contact_call T c = (case c of Open i \<Rightarrow> openContact T i | Callback i \<Rightarrow> handleCallback T i
     | Takeover i \<Rightarrow> operatorTakeover T i | Due scope worker now \<Rightarrow> processDue T scope worker now)"

fun call_scope :: "contact_call \<Rightarrow> ContactScope" where
  "call_scope (Open i) = oc_scope i"
| "call_scope (Callback i) = cb_scope i"
| "call_scope (Takeover i) = ot_scope i"
| "call_scope (Due scope worker now) = scope"

inductive contact_reaches :: "'s ContactRuntimeTransaction \<Rightarrow> ('s \<Rightarrow> 's \<Rightarrow> bool) \<Rightarrow> 's \<Rightarrow> 's \<Rightarrow> bool" for T env s where
  start: "contact_reaches T env s s"
| call: "contact_reaches T env s t \<Longrightarrow> contact_call T c t = (r, u) \<Longrightarrow> contact_reaches T env s u"
| environment: "contact_reaches T env s t \<Longrightarrow> env t u \<Longrightarrow> contact_reaches T env s u"

text \<open>The processing of one due session, \<open>n\<close> of whose calls were applied.\<close>
inductive due_history :: "'s ContactRuntimeTransaction \<Rightarrow> ('s \<Rightarrow> 's \<Rightarrow> bool) \<Rightarrow> ContactScope \<Rightarrow> 's \<Rightarrow> nat \<Rightarrow> 's \<Rightarrow> bool"
  for T env sc s where
  start: "due_history T env sc s 0 s"
| due: "due_history T env sc s n t \<Longrightarrow> processDue T sc worker now t = (r, u) \<Longrightarrow>
    due_history T env sc s (if r = Inr RT_APPLIED then Suc n else n) u"
| environment: "due_history T env sc s n t \<Longrightarrow> env t u \<Longrightarrow> due_history T env sc s n u"

text \<open>The bounds of a stored session, which the checks of its table also demand.\<close>
definition session_ok :: "ContactSessionRecord \<Rightarrow> bool" where
  "session_ok c \<longleftrightarrow> 1 \<le> hc_attemptCount c \<and> hc_attemptCount c \<le> HUMAN_CONTACT_MAX_AUTOMATED_ATTEMPTS \<and>
     1 \<le> hc_version c \<and> (cs_automationSuppressed c \<longrightarrow> no_action c) \<and>
     (hc_state c = HC_OPERATOR_TAKEOVER \<longrightarrow> cs_automationSuppressed c)"

text \<open>What is left of the automated contact of a session: at most eleven steps.\<close>
definition contact_rank :: "ContactSessionRecord \<Rightarrow> nat" where
  "contact_rank c = (let left = 4 * nat (HUMAN_CONTACT_MAX_AUTOMATED_ATTEMPTS - hc_attemptCount c) in
     if hc_state c = HC_CONTACTING \<or> hc_state c = HC_PARTIAL_RESPONSE then left + 3
     else if hc_state c = HC_AWAITING_RESPONSE then left + 2
     else if hc_state c = HC_NO_RESPONSE \<or> hc_state c = HC_DISCONNECTED then left + 1
     else 0)"

lemma session_ok_core: "session_ok c \<Longrightarrow> same_core c c' \<Longrightarrow> session_ok c'"
  by (auto simp: session_ok_def same_core_def no_action_def)

lemma contact_step_ok:
  assumes "session_ok old" and "contact_step old new"
  shows "session_ok new"
proof -
  note ok = assms(1) [unfolded session_ok_def] and step = assms(2) [unfolded contact_step_def]
  have "1 \<le> hc_attemptCount new \<and> hc_attemptCount new \<le> HUMAN_CONTACT_MAX_AUTOMATED_ATTEMPTS"
    using ok step by linarith
  moreover have "1 \<le> hc_version new" using ok step by linarith
  moreover have "cs_automationSuppressed new \<longrightarrow> no_action new" using step by blast
  moreover have "hc_state new = HC_OPERATOR_TAKEOVER \<longrightarrow> cs_automationSuppressed new" using step by blast
  ultimately show ?thesis unfolding session_ok_def by blast
qed

lemma newSession_ok: "session_ok (newSession i deadline)"
  by (simp add: session_ok_def newSession_def contact_limits)

lemma contact_rank_core: "same_core c c' \<Longrightarrow> contact_rank c' = contact_rank c"
  by (auto simp: contact_rank_def same_core_def Let_def)

lemma contact_rank_bound: "session_ok c \<Longrightarrow> contact_rank c \<le> 11"
  by (auto simp: contact_rank_def session_ok_def contact_limits Let_def)

locale contact_environment = contact_repository +
  fixes env :: "'a \<Rightarrow> 'a \<Rightarrow> bool"
  assumes env_session: "env s t \<Longrightarrow> rel_option same_core (session s sc) (session t sc)"
    and env_pending: "env s t \<Longrightarrow> pending t sc \<subseteq> pending s sc"
begin

lemma call_moves:
  assumes "contact_call T c s = (r, t)"
  shows "moves (call_scope c) s t \<or> (\<exists>i. c = Open i \<and> opens i s t)"
  using assms by (cases c) (auto simp: contact_call_def handleCallback_moves operatorTakeover_moves processDue_moves
      openContact_opens)

lemma call_session:
  assumes "contact_call T c s = (r, t)" and "session t sc = Some new"
  shows "session s sc = Some new \<or> (\<exists>old. session s sc = Some old \<and> contact_step old new) \<or>
    (session s sc = None \<and> (\<exists>i deadline. same_core (newSession i deadline) new))"
  using call_moves [OF assms(1)] assms(2) by (auto simp: moves_def opens_def split: if_split_asm)

lemma call_keeps_session:
  assumes "contact_call T c s = (r, t)" and "session s sc = Some old"
  shows "session t sc = Some old \<or> (\<exists>new. session t sc = Some new \<and> contact_step old new)"
  using call_moves [OF assms(1)] assms(2) by (auto simp: moves_def opens_def split: if_split_asm)

lemma call_pending:
  assumes "contact_call T c s = (r, t)" and "session s sc = Some old" and "cs_automationSuppressed old"
  shows "pending t sc \<subseteq> pending s sc"
proof -
  have q: "quiet (call_scope c) {sc} s" using assms(2,3) by (auto simp: quiet_def)
  have "pending_below {sc} (pending s) t"
    using assms(1) q openContact_pending [of _ s r t "{sc}" "pending s"] handleCallback_pending [of _ s r t "{sc}" "pending s"]
      operatorTakeover_pending [of _ s r t "{sc}" "pending s"] processDue_pending [of _ _ _ s r t "{sc}" "pending s"]
    by (cases c) (simp_all add: contact_call_def)
  then show ?thesis by simp
qed

lemma reaches_ok:
  assumes "contact_reaches T env s t" and "\<forall>sc c. session s sc = Some c \<longrightarrow> session_ok c"
  shows "session t sc = Some c \<Longrightarrow> session_ok c"
  using assms
proof (induction arbitrary: sc c rule: contact_reaches.induct)
  case (call t c' r u)
  then show ?case
    using call_session [OF call.hyps(2) call.prems(1)] contact_step_ok newSession_ok session_ok_core by blast
next
  case (environment t u)
  then obtain x where "session t sc = Some x" "same_core x c"
    using env_session [OF environment.hyps(2), of sc] by (auto simp: option_rel_Some2)
  then show ?case using environment.IH environment.prems(2) session_ok_core by blast
qed simp

lemma reaches_monotone:
  assumes "contact_reaches T env s t" and "session s sc = Some c"
  shows "\<exists>c'. session t sc = Some c' \<and> hc_version c \<le> hc_version c' \<and> hc_attemptCount c \<le> hc_attemptCount c'"
  using assms
proof (induction rule: contact_reaches.induct)
  case (call t c' r u)
  then obtain d where "session t sc = Some d" "hc_version c \<le> hc_version d" "hc_attemptCount c \<le> hc_attemptCount d" by blast
  then show ?case using call_keeps_session [OF call.hyps(2)] by (fastforce simp: contact_step_def)
next
  case (environment t u)
  then show ?case using env_session [OF environment.hyps(2), of sc] by (auto simp: option_rel_Some1 same_core_def)
qed simp

lemma suppressed_for_good:
  assumes "contact_reaches T env s t" and "session s sc = Some c" and "cs_automationSuppressed c"
  shows "(\<exists>c'. session t sc = Some c' \<and> cs_automationSuppressed c') \<and> pending t sc \<subseteq> pending s sc"
  using assms
proof (induction rule: contact_reaches.induct)
  case (call t c' r u)
  then obtain d where d: "session t sc = Some d" "cs_automationSuppressed d" "pending t sc \<subseteq> pending s sc" by blast
  from call_pending [OF call.hyps(2) d(1,2)] call_keeps_session [OF call.hyps(2) d(1)] d
  show ?case by (auto simp: contact_step_def)
next
  case (environment t u)
  then show ?case
    using env_session [OF environment.hyps(2), of sc] env_pending [OF environment.hyps(2), of sc]
    by (auto simp: option_rel_Some1 same_core_def)
qed simp

subsection \<open>The rank of a due session\<close>

definition ranked :: "ContactScope \<Rightarrow> ContactSessionRecord \<Rightarrow> 'a \<Rightarrow> 'a \<Rightarrow> RuntimeDisposition \<Rightarrow> bool" where
  "ranked sc current s t d \<longleftrightarrow> session t = session s \<and> d \<noteq> RT_APPLIED \<or>
     (\<exists>new. session t = (session s)(sc \<mapsto> new) \<and>
       (contact_rank new < contact_rank current \<or> contact_rank new = 0 \<and> d \<noteq> RT_APPLIED))"

lemma review_ranked:
  assumes "failToReview T current trace at' reason s = (Inr d, t)" and "session s sc = Some current"
  shows "ranked sc current s t d"
  using assms(1)
proof (rule failToReview_run)
  fix u
  assume u: "session u = session s" and run: "apply_update T (reviewed current at') (hc_version current)
      (abind (record_audit T (reviewed current at') ''CONTACT_RUNTIME_REJECTED'' reason trace at' False
        ''runtime'' CR_SYSTEM) (\<lambda>_. aret RT_HUMAN_REVIEW)) u = (Inr d, t)"
  have scope: "session_scope (reviewed current at') = sc"
    using stored_scope [OF assms(2)] by (simp add: reviewed_def session_scope_def)
  have rank: "contact_rank (reviewed current at') = 0" by (simp add: reviewed_def contact_rank_def Let_def)
  have k: "keeps (sessions_are f) (abind (record_audit T (reviewed current at') ''CONTACT_RUNTIME_REJECTED'' reason trace at'
      False ''runtime'' CR_SYSTEM) (\<lambda>_. aret RT_HUMAN_REVIEW))" for f by (intro keeps_intros)
  have d: "d \<noteq> RT_APPLIED" using assms(1) failToReview_not_applied by blast
  from apply_update_effect [OF run k] show ?thesis
  proof (elim disjE exE conjE)
    fix new
    assume "same_core (reviewed current at') new" "session t = (session u)(session_scope (reviewed current at') \<mapsto> new)"
    then show ?thesis using contact_rank_core rank u scope d by (auto simp: ranked_def)
  qed (use u d in \<open>simp add: ranked_def\<close>)
qed

lemma due_update_ranked:
  assumes "due_transition T current requested w now reason
      (\<lambda>decision. apply_update T (upd decision) (hc_version current) (rest decision)) s = (Inr d, t)"
    and cur: "session s sc = Some current" and keep: "\<And>decision f. keeps (sessions_are f) (rest decision)"
    and less: "\<And>decision. requested \<in> set (contactAllowed (hc_state current)) \<Longrightarrow>
      (requested = HC_CONTACTING \<longrightarrow> hc_attemptCount current < HUMAN_CONTACT_MAX_AUTOMATED_ATTEMPTS) \<Longrightarrow>
      session_scope (upd decision) = session_scope current \<and> contact_rank (upd decision) < contact_rank current"
  shows "ranked sc current s t d"
proof -
  obtain decision where dec: "decideHumanContactTransition current requested
      (system_context w now reason (''worker-'' @ w) True True (hc_version current)) = Inr decision"
    and run: "(if \<not> hd_allowed decision then failToReview T current (''worker-'' @ w) now (hd_reasonCode decision)
      else apply_update T (upd decision) (hc_version current) (rest decision)) s = (Inr d, t)"
    using assms(1) by (auto simp: due_transition_def abind_Inr)
  show ?thesis
  proof (cases "hd_allowed decision")
    case False
    then show ?thesis using run review_ranked [OF _ cur] by auto
  next
    case True
    then have l: "session_scope (upd decision) = sc \<and> contact_rank (upd decision) < contact_rank current"
      using less decideContact_next [OF dec] stored_scope [OF cur] by blast
    have up: "apply_update T (upd decision) (hc_version current) (rest decision) s = (Inr d, t)" using run True by simp
    from apply_update_effect [OF up keep] show ?thesis
    proof (elim disjE exE conjE)
      fix new
      assume "same_core (upd decision) new" "session t = (session s)(session_scope (upd decision) \<mapsto> new)"
      then show ?thesis using contact_rank_core l by (auto simp: ranked_def)
    qed (simp add: ranked_def)
  qed
qed

lemma due_step_ranked:
  assumes "due_step T current w now s = (Inr d, t)" and cur: "session s sc = Some current"
  shows "ranked sc current s t d"
proof -
  have await: "ranked sc current s t d" if "awaitResponse T current w now s = (Inr d, t)" "hc_state current = HC_CONTACTING"
    by (rule due_update_ranked [OF that(1) [unfolded awaitResponse_def Let_def] cur], intro keeps_intros)
      (simp add: contact_rank_def session_scope_def that(2) Let_def)
  have silent: "ranked sc current s t d" if "noResponse T current w now s = (Inr d, t)" "hc_state current = HC_AWAITING_RESPONSE"
    by (rule due_update_ranked [OF that(1) [unfolded noResponse_def Let_def] cur], intro keeps_intros)
      (simp add: contact_rank_def session_scope_def that(2) Let_def)
  have followup: "ranked sc current s t d" if "partialFollowup T current w now s = (Inr d, t)" "hc_state current = HC_PARTIAL_RESPONSE"
    by (rule due_update_ranked [OF that(1) [unfolded partialFollowup_def Let_def] cur], intro keeps_intros)
      (simp add: contact_rank_def session_scope_def that(2) Let_def)
  have escalate: "ranked sc current s t d" if "escalateExhausted T current w now s = (Inr d, t)"
    "hc_state current = HC_NO_RESPONSE \<or> hc_state current = HC_DISCONNECTED"
    by (rule due_update_ranked [OF that(1) [unfolded escalateExhausted_def Let_def] cur], intro keeps_intros)
      (use that(2) in \<open>auto simp: contact_rank_def session_scope_def Let_def\<close>)
  have retry: "ranked sc current s t d" if "retryContact T current w now s = (Inr d, t)"
    "hc_state current = HC_NO_RESPONSE \<or> hc_state current = HC_DISCONNECTED"
    by (rule due_update_ranked [OF that(1) [unfolded retryContact_def Let_def] cur], intro keeps_intros)
      (use that(2) in \<open>auto simp: contact_rank_def session_scope_def Let_def\<close>)
  show ?thesis
    using assms(1) review_ranked [OF _ cur] await silent followup escalate retry
    unfolding due_step_def by (auto split: if_split_asm)
qed

lemma processDue_ranked:
  assumes "processDue T sc w now s = (r, t)" and cur: "session s sc = Some c"
  shows "\<exists>c'. session t sc = Some c' \<and> contact_rank c' \<le> contact_rank c \<and>
    (r = Inr RT_APPLIED \<longrightarrow> contact_rank c' < contact_rank c)"
proof (cases r)
  case (Inl e)
  then have "session t = session s" using assms(1) transaction_undone by (simp add: processDue_def with_session_def)
  then show ?thesis using cur Inl by simp
next
  case (Inr d)
  then have "abind (tx_getSessionForUpdate T sc) (\<lambda>found. case found of None \<Rightarrow> aret RT_IDEMPOTENT
     | Some current \<Rightarrow> if cs_leaseOwner current \<noteq> Some w \<or> cs_automationSuppressed current then aret RT_IDEMPOTENT
        else if not_yet (cs_nextActionAt current) now then aret RT_IDEMPOTENT
        else due_step T current w now) s = (Inr d, t)"
    using assms(1) transaction_done by (simp add: processDue_def with_session_def)
  then obtain found u where u: "tx_getSessionForUpdate T sc s = (Inr found, u)"
    and run: "(case found of None \<Rightarrow> aret RT_IDEMPOTENT
     | Some current \<Rightarrow> if cs_leaseOwner current \<noteq> Some w \<or> cs_automationSuppressed current then aret RT_IDEMPOTENT
        else if not_yet (cs_nextActionAt current) now then aret RT_IDEMPOTENT
        else due_step T current w now) u = (Inr d, t)"
    unfolding abind_Inr by blast
  have us: "u = s" "found = Some c" using get [OF u] cur by simp_all
  then consider "t = s" "d = RT_IDEMPOTENT" | "due_step T c w now s = (Inr d, t)"
    using run by (auto split: if_split_asm)
  then show ?thesis
  proof cases
    case 1
    then show ?thesis using cur Inr by simp
  next
    case 2
    from due_step_ranked [OF 2 cur] show ?thesis using cur Inr by (auto simp: ranked_def)
  qed
qed

lemma due_history_rank:
  assumes "due_history T env sc s n t" and "session s sc = Some c"
  shows "\<exists>c'. session t sc = Some c' \<and> n + contact_rank c' \<le> contact_rank c"
  using assms
proof (induction rule: due_history.induct)
  case (due n t w now r u)
  then obtain d where d: "session t sc = Some d" "n + contact_rank d \<le> contact_rank c" by blast
  from processDue_ranked [OF due.hyps(2) d(1)] d(2) show ?case by auto
next
  case (environment n t u)
  then show ?case
    using env_session [OF environment.hyps(2), of sc] contact_rank_core by (fastforce simp: option_rel_Some1)
qed simp

end

end
