(* ===== verification/ContactStore.thy ===== *)
theory ContactStore
  imports ContactHistory "HOL-Library.Product_Lexorder" "HOL-Library.List_Lexorder"
begin

text \<open>
  The Postgres repository of the contact runtime (\<open>apps/api/src/ros-eye/contact-orchestration-postgres.ts\<close>)
  on the tables of migration 0006: one definition per statement, with the constraints of the tables
  (a violated one is an exception), the deferred foreign key of the inbox and the roll back of a
  transaction. Timestamps are kept as the ISO text they are read back as, to the millisecond.
  Postgres itself is the parameter \<open>P\<close>: its casts of texts to timestamps and uuids and the sort key of
  its collation. Statements run one after the other, so no row is locked by another transaction and
  \<open>SKIP LOCKED\<close> skips nothing; the transactions of other workers are steps of \<open>store_environment\<close>.
\<close>

section \<open>Tables\<close>

record postgres =
  pg_timestamptz :: "string \<Rightarrow> int option"
  pg_uuid :: "string \<Rightarrow> string option"
  pg_collate :: "string \<Rightarrow> int list"

record ContactOutboxRow = ContactOutboxMessage +
  or_deliveryToken :: "string option"
  or_deliveryStartedAt :: "string option"
  or_deliveryDeadlineAt :: "string option"

record contact_db =
  db_sessions :: "ContactSessionRecord list"
  db_inbox :: "(ContactScope \<times> string) list"
  db_outbox :: "ContactOutboxRow list"
  db_audit :: "ContactAuditEvent list"
  db_clock :: string

definition stored_session :: "contact_db \<Rightarrow> ContactScope \<Rightarrow> ContactSessionRecord option" where
  "stored_session db sc = find (\<lambda>c. session_scope c = sc) (db_sessions db)"

definition message_open :: "ContactOutboxRow \<Rightarrow> bool" where
  "message_open m \<longleftrightarrow> cm_deliveredAt m = None \<and> cm_cancelledAt m = None"

definition pending_messages :: "contact_db \<Rightarrow> ContactScope \<Rightarrow> string set" where
  "pending_messages db sc = cm_messageId ` {m \<in> set (db_outbox db). cm_scope m = sc \<and> message_open m}"

text \<open>\<open>x::timestamptz\<close> as it is read back, \<open>x::uuid\<close>, and the cast of a nullable column.\<close>
definition timestamptz :: "postgres \<Rightarrow> string \<Rightarrow> unit + string" where
  "timestamptz P x = (case pg_timestamptz P x of None \<Rightarrow> Inl ()
     | Some t \<Rightarrow> (case toISO t of None \<Rightarrow> Inl () | Some s \<Rightarrow> Inr s))"

definition uuid_cast :: "postgres \<Rightarrow> string \<Rightarrow> unit + string" where
  "uuid_cast P x = (case pg_uuid P x of None \<Rightarrow> Inl () | Some u \<Rightarrow> Inr u)"

fun nullable :: "(string \<Rightarrow> unit + string) \<Rightarrow> string option \<Rightarrow> unit + string option" where
  "nullable f None = Inr None"
| "nullable f (Some x) = ebind (f x) (\<lambda>y. Inr (Some y))"

definition ts_le :: "string \<Rightarrow> string \<Rightarrow> bool" where
  "ts_le a b \<longleftrightarrow> (case (dateParse a, dateParse b) of (Some x, Some y) \<Rightarrow> x \<le> y | _ \<Rightarrow> False)"

definition ts_lt :: "string \<Rightarrow> string \<Rightarrow> bool" where
  "ts_lt a b \<longleftrightarrow> tv_lt (dateParse a) (dateParse b)"

definition lease_pair :: "string option \<Rightarrow> string option \<Rightarrow> bool" where
  "lease_pair owner expires \<longleftrightarrow> (owner = None \<longleftrightarrow> expires = None)"

text \<open>The row written for a session, as \<open>mapSession\<close> reads it back.\<close>
definition sessionRow :: "postgres \<Rightarrow> ContactSessionRecord \<Rightarrow> unit + ContactSessionRecord" where
  "sessionRow P c =
    ebind (nullable (uuid_cast P) (cs_ownerActorId c)) (\<lambda>owner.
    ebind (nullable (timestamptz P) (hc_responseDeadlineAt c)) (\<lambda>deadline.
    ebind (nullable (timestamptz P) (cs_nextActionAt c)) (\<lambda>action.
    ebind (timestamptz P (hc_lastInteractionAt c)) (\<lambda>interaction.
    ebind (nullable (timestamptz P) (cs_leaseExpiresAt c)) (\<lambda>expires.
    ebind (timestamptz P (cs_updatedAt c)) (\<lambda>updated.
    Inr (c\<lparr>cs_ownerActorId := owner, hc_responseDeadlineAt := deadline, cs_nextActionAt := action,
      hc_lastInteractionAt := interaction, cs_leaseExpiresAt := expires, cs_updatedAt := updated\<rparr>)))))))"

definition session_checks :: "ContactSessionRecord \<Rightarrow> bool" where
  "session_checks c \<longleftrightarrow> 0 < hc_version c \<and> hc_version c < 2 ^ 31 \<and> 0 \<le> hc_attemptCount c \<and> hc_attemptCount c \<le> 3 \<and>
     (cs_automationSuppressed c \<longrightarrow> no_action c) \<and> lease_pair (cs_leaseOwner c) (cs_leaseExpiresAt c)"

definition outbox_checks :: "ContactOutboxRow \<Rightarrow> bool" where
  "outbox_checks m \<longleftrightarrow> 0 < cm_attempt m \<and> cm_attempt m \<le> 3 \<and> lease_pair (cm_leaseOwner m) (cm_leaseExpiresAt m) \<and>
     (or_deliveryToken m = None \<longleftrightarrow> or_deliveryStartedAt m = None) \<and>
     (or_deliveryToken m = None \<longleftrightarrow> or_deliveryDeadlineAt m = None) \<and>
     (case (or_deliveryStartedAt m, or_deliveryDeadlineAt m) of (Some a, Some b) \<Rightarrow> ts_lt a b | _ \<Rightarrow> True) \<and>
     \<not> (cm_deliveredAt m \<noteq> None \<and> cm_cancelledAt m \<noteq> None)"

section \<open>The transaction\<close>

definition pg_getSessionForUpdate :: "ContactScope \<Rightarrow> (contact_db, unit, ContactSessionRecord option) action" where
  "pg_getSessionForUpdate sc = aread (\<lambda>db. stored_session db sc)"

definition pg_insertSession :: "postgres \<Rightarrow> ContactSessionRecord \<Rightarrow> (contact_db, unit, unit) action" where
  "pg_insertSession P c db = (case sessionRow P c of Inl e \<Rightarrow> (Inl e, db)
     | Inr row \<Rightarrow> if \<not> session_checks row \<or> stored_session db (session_scope row) \<noteq> None then (Inl (), db)
       else (Inr (), db\<lparr>db_sessions := db_sessions db @ [row]\<rparr>))"

definition replace_session :: "ContactSessionRecord \<Rightarrow> contact_db \<Rightarrow> contact_db" where
  "replace_session row db = db\<lparr>db_sessions :=
     map (\<lambda>c. if session_scope c = session_scope row then row else c) (db_sessions db)\<rparr>"

definition pg_updateSession :: "postgres \<Rightarrow> ContactSessionRecord \<Rightarrow> int \<Rightarrow> (contact_db, unit, UpdateResult) action" where
  "pg_updateSession P c expected db = (case sessionRow P c of Inl e \<Rightarrow> (Inl e, db)
     | Inr row \<Rightarrow> (case stored_session db (session_scope row) of None \<Rightarrow> (Inr UP_CONFLICT, db)
       | Some old \<Rightarrow> if cs_ownerActorId old \<noteq> cs_ownerActorId row \<or> hc_version old \<noteq> expected then (Inr UP_CONFLICT, db)
         else if \<not> session_checks row then (Inl (), db)
         else (Inr UP_UPDATED, replace_session row db)))"

definition pg_insertInboxIfAbsent :: "ContactScope \<Rightarrow> string \<Rightarrow> (contact_db, unit, InsertResult) action" where
  "pg_insertInboxIfAbsent sc key db = (if (sc, key) \<in> set (db_inbox db) then (Inr INS_EXISTS, db)
     else (Inr INS_INSERTED, db\<lparr>db_inbox := db_inbox db @ [(sc, key)]\<rparr>))"

definition same_event :: "ContactAuditEvent \<Rightarrow> ContactAuditEvent \<Rightarrow> bool" where
  "same_event e f \<longleftrightarrow> ca_scope e = ca_scope f \<and> (ca_eventId e = ca_eventId f \<or>
     ca_version e = ca_version f \<and> ca_eventType e = ca_eventType f)"

definition pg_insertAuditIfAbsent :: "postgres \<Rightarrow> ContactAuditEvent \<Rightarrow> (contact_db, unit, InsertResult) action" where
  "pg_insertAuditIfAbsent P event db = (case timestamptz P (ca_occurredAt event) of Inl e \<Rightarrow> (Inl e, db)
     | Inr occurred \<Rightarrow> if ca_version event \<le> 0 then (Inl (), db)
       else if \<exists>old \<in> set (db_audit db). same_event event old then (Inr INS_EXISTS, db)
       else if stored_session db (ca_scope event) = None then (Inl (), db)
       else (Inr INS_INSERTED, db\<lparr>db_audit := db_audit db @ [event\<lparr>ca_occurredAt := occurred\<rparr>]\<rparr>))"

definition same_message :: "'a ContactOutboxMessage_scheme \<Rightarrow> 'b ContactOutboxMessage_scheme \<Rightarrow> bool" where
  "same_message m n \<longleftrightarrow> cm_scope m = cm_scope n \<and>
     (cm_messageId m = cm_messageId n \<or> cm_idempotencyKey m = cm_idempotencyKey n)"

definition outboxRow :: "postgres \<Rightarrow> ContactOutboxMessage \<Rightarrow> unit + ContactOutboxRow" where
  "outboxRow P m =
    ebind (timestamptz P (cm_availableAt m)) (\<lambda>available.
    ebind (nullable (timestamptz P) (cm_leaseExpiresAt m)) (\<lambda>expires.
    ebind (nullable (timestamptz P) (cm_deliveredAt m)) (\<lambda>delivered.
    ebind (nullable (timestamptz P) (cm_cancelledAt m)) (\<lambda>cancelled.
    Inr \<lparr>cm_scope = cm_scope m, cm_messageId = cm_messageId m, cm_channel = cm_channel m, cm_promptId = cm_promptId m,
      cm_idempotencyKey = cm_idempotencyKey m, cm_availableAt = available, cm_attempt = cm_attempt m,
      cm_leaseOwner = cm_leaseOwner m, cm_leaseExpiresAt = expires, cm_deliveredAt = delivered,
      cm_cancelledAt = cancelled, cm_lastErrorCode = cm_lastErrorCode m, or_deliveryToken = None,
      or_deliveryStartedAt = None, or_deliveryDeadlineAt = None\<rparr>))))"

definition pg_insertOutboxIfAbsent :: "postgres \<Rightarrow> ContactOutboxMessage \<Rightarrow> (contact_db, unit, InsertResult) action" where
  "pg_insertOutboxIfAbsent P m db = (case outboxRow P m of Inl e \<Rightarrow> (Inl e, db)
     | Inr row \<Rightarrow> if \<not> outbox_checks row then (Inl (), db)
       else if \<exists>old \<in> set (db_outbox db). same_message row old then (Inr INS_EXISTS, db)
       else if stored_session db (cm_scope row) = None then (Inl (), db)
       else (Inr INS_INSERTED, db\<lparr>db_outbox := db_outbox db @ [row]\<rparr>))"

text \<open>\<open>UPDATE ros_eye_contact_outbox SET f WHERE p\<close>: the number of rows and the table it leaves.\<close>
definition update_outbox :: "(ContactOutboxRow \<Rightarrow> bool) \<Rightarrow> (ContactOutboxRow \<Rightarrow> ContactOutboxRow) \<Rightarrow> contact_db \<Rightarrow> contact_db" where
  "update_outbox p f db = db\<lparr>db_outbox := map (\<lambda>m. if p m then f m else m) (db_outbox db)\<rparr>"

definition outbox_count :: "(ContactOutboxRow \<Rightarrow> bool) \<Rightarrow> contact_db \<Rightarrow> nat" where
  "outbox_count p db = length (filter p (db_outbox db))"

definition no_lease :: "ContactOutboxRow \<Rightarrow> ContactOutboxRow" where
  "no_lease m = m\<lparr>cm_leaseOwner := None, cm_leaseExpiresAt := None\<rparr>"

definition no_delivery :: "ContactOutboxRow \<Rightarrow> ContactOutboxRow" where
  "no_delivery m = m\<lparr>or_deliveryToken := None, or_deliveryStartedAt := None, or_deliveryDeadlineAt := None\<rparr>"

definition pg_cancelPendingAutomation :: "postgres \<Rightarrow> ContactScope \<Rightarrow> string \<Rightarrow> (contact_db, unit, unit) action" where
  "pg_cancelPendingAutomation P sc occurredAt db = (case timestamptz P occurredAt of Inl e \<Rightarrow> (Inl e, db)
     | Inr at' \<Rightarrow> (Inr (), update_outbox (\<lambda>m. cm_scope m = sc \<and> message_open m)
         (\<lambda>m. no_delivery (no_lease (m\<lparr>cm_cancelledAt := Some at'\<rparr>))) db))"

text \<open>A transaction: rolled back when it throws, and when the foreign key of the inbox, checked as it
  commits, is violated.\<close>
definition inbox_references :: "contact_db \<Rightarrow> bool" where
  "inbox_references db \<longleftrightarrow> (\<forall>(sc, key) \<in> set (db_inbox db). stored_session db sc \<noteq> None)"

definition pg_transaction :: "(contact_db, unit, 'a) action \<Rightarrow> (contact_db, unit, 'a) action" where
  "pg_transaction m db = (case m db of (Inl e, t) \<Rightarrow> (Inl e, db)
     | (Inr x, t) \<Rightarrow> if inbox_references t then (Inr x, t) else (Inl (), db))"

definition contactTransaction :: "postgres \<Rightarrow> (string \<Rightarrow> string \<Rightarrow> unit + string) \<Rightarrow> contact_db ContactRuntimeTransaction" where
  "contactTransaction P createId =
    \<lparr>tx_getSessionForUpdate = pg_getSessionForUpdate, tx_insertSession = pg_insertSession P,
      tx_updateSession = pg_updateSession P, tx_insertInboxIfAbsent = pg_insertInboxIfAbsent,
      tx_insertAuditIfAbsent = pg_insertAuditIfAbsent P, tx_insertOutboxIfAbsent = pg_insertOutboxIfAbsent P,
      tx_cancelPendingAutomation = pg_cancelPendingAutomation P, tx_transaction = pg_transaction,
      tx_createId = createId\<rparr>"

section \<open>Leases and deliveries\<close>

text \<open>The sort keys of the claims: the time, then the texts of the key by their collation.\<close>
definition scope_key :: "postgres \<Rightarrow> ContactScope \<Rightarrow> int list list" where
  "scope_key P sc = map (pg_collate P) [sc_tenantId sc, sc_caseId sc, sc_sessionId sc]"

definition time_key :: "string \<Rightarrow> int" where
  "time_key x = (case dateParse x of Some t \<Rightarrow> t | None \<Rightarrow> 0)"

definition session_due :: "string \<Rightarrow> ContactSessionRecord \<Rightarrow> bool" where
  "session_due now c \<longleftrightarrow> \<not> cs_automationSuppressed c \<and>
     (case cs_nextActionAt c of None \<Rightarrow> False | Some x \<Rightarrow> ts_le x now) \<and>
     (case cs_leaseExpiresAt c of None \<Rightarrow> True | Some x \<Rightarrow> ts_le x now)"

definition due_sessions :: "postgres \<Rightarrow> string \<Rightarrow> nat \<Rightarrow> contact_db \<Rightarrow> ContactSessionRecord list" where
  "due_sessions P now limit db = take limit (sort_key
     (\<lambda>c. (time_key (case cs_nextActionAt c of Some x \<Rightarrow> x | None \<Rightarrow> []), scope_key P (session_scope c)))
     (filter (session_due now) (db_sessions db)))"

definition lease_session :: "string \<Rightarrow> string \<Rightarrow> ContactSessionRecord \<Rightarrow> ContactSessionRecord" where
  "lease_session worker expires c = c\<lparr>cs_leaseOwner := Some worker, cs_leaseExpiresAt := Some expires\<rparr>"

definition pg_claimDueSessions :: "postgres \<Rightarrow> string \<Rightarrow> string \<Rightarrow> int \<Rightarrow> nat \<Rightarrow>
    (contact_db, unit, ContactSessionRecord list) action" where
  "pg_claimDueSessions P worker now leaseMs limit = pg_transaction (\<lambda>db.
    case ebind (timestamptz P now) (\<lambda>at'. ebind (iso_after at' leaseMs) (\<lambda>expires. Inr (at', expires))) of
      Inl e \<Rightarrow> (Inl e, db)
    | Inr (at', expires) \<Rightarrow>
      (let due = due_sessions P at' limit db in
       (Inr (map (lease_session worker expires) due),
        db\<lparr>db_sessions := map (\<lambda>c. if session_scope c \<in> set (map session_scope due)
          then lease_session worker expires c else c) (db_sessions db)\<rparr>)))"

definition pg_releaseLease :: "ContactScope \<Rightarrow> string \<Rightarrow> (contact_db, unit, unit) action" where
  "pg_releaseLease sc worker = amodify (\<lambda>db. db\<lparr>db_sessions :=
     map (\<lambda>c. if session_scope c = sc \<and> cs_leaseOwner c = Some worker
        then c\<lparr>cs_leaseOwner := None, cs_leaseExpiresAt := None\<rparr> else c) (db_sessions db)\<rparr>)"

text \<open>A nullable timestamp that is not after \<open>now\<close>; a comparison with NULL is not true.\<close>
definition passed :: "string option \<Rightarrow> string \<Rightarrow> bool" where
  "passed x now \<longleftrightarrow> (case x of None \<Rightarrow> False | Some y \<Rightarrow> ts_le y now)"

definition message_due :: "string \<Rightarrow> ContactOutboxRow \<Rightarrow> bool" where
  "message_due now m \<longleftrightarrow> message_open m \<and> ts_le (cm_availableAt m) now \<and>
     (cm_leaseExpiresAt m = None \<or> passed (cm_leaseExpiresAt m) now \<or> passed (or_deliveryDeadlineAt m) now) \<and>
     (or_deliveryToken m = None \<or> passed (or_deliveryDeadlineAt m) now)"

definition message_key :: "'a ContactOutboxMessage_scheme \<Rightarrow> ContactScope \<times> string" where
  "message_key m = (cm_scope m, cm_messageId m)"

definition mapOutbox :: "ContactOutboxRow \<Rightarrow> ContactOutboxMessage" where
  "mapOutbox m = ContactOutboxMessage.truncate m"

definition due_messages :: "postgres \<Rightarrow> string \<Rightarrow> nat \<Rightarrow> contact_db \<Rightarrow> ContactOutboxRow list" where
  "due_messages P now limit db = take limit (sort_key
     (\<lambda>m. (time_key (cm_availableAt m), scope_key P (cm_scope m), pg_collate P (cm_messageId m)))
     (filter (message_due now) (db_outbox db)))"

definition lease_message :: "string \<Rightarrow> string \<Rightarrow> ContactOutboxRow \<Rightarrow> ContactOutboxRow" where
  "lease_message worker expires m = no_delivery (m\<lparr>cm_leaseOwner := Some worker, cm_leaseExpiresAt := Some expires\<rparr>)"

definition pg_claimDueOutbox :: "postgres \<Rightarrow> string \<Rightarrow> string \<Rightarrow> int \<Rightarrow> nat \<Rightarrow>
    (contact_db, unit, ContactOutboxMessage list) action" where
  "pg_claimDueOutbox P worker now leaseMs limit = pg_transaction (\<lambda>db.
    case ebind (timestamptz P now) (\<lambda>at'. ebind (iso_after at' leaseMs) (\<lambda>expires. Inr (at', expires))) of
      Inl e \<Rightarrow> (Inl e, db)
    | Inr (at', expires) \<Rightarrow>
      (let due = due_messages P at' limit db in
       (Inr (map (\<lambda>m. mapOutbox (lease_message worker expires m)) due),
        update_outbox (\<lambda>m. message_key m \<in> set (map message_key due)) (lease_message worker expires) db)))"

record ProcessClaimedOutboxInput =
  po_scope :: ContactScope
  po_messageId :: string
  po_workerId :: string
  po_now :: string
  po_retryAvailableAt :: string
  po_errorCode :: string
  po_deliveryToken :: string
  po_deliveryDeadlineAt :: string

definition claimed_by :: "ProcessClaimedOutboxInput \<Rightarrow> ContactOutboxRow \<Rightarrow> bool" where
  "claimed_by i m \<longleftrightarrow> message_key m = (po_scope i, po_messageId i) \<and> cm_leaseOwner m = Some (po_workerId i) \<and>
     message_open m"

definition reservable :: "ProcessClaimedOutboxInput \<Rightarrow> string \<Rightarrow> ContactOutboxRow \<Rightarrow> bool" where
  "reservable i now m \<longleftrightarrow> claimed_by i m \<and> (case cm_leaseExpiresAt m of None \<Rightarrow> False | Some x \<Rightarrow> ts_lt now x) \<and>
     (or_deliveryToken m = None \<or> passed (or_deliveryDeadlineAt m) now)"

definition reserved :: "ProcessClaimedOutboxInput \<Rightarrow> string \<Rightarrow> string \<Rightarrow> ContactOutboxRow \<Rightarrow> ContactOutboxRow" where
  "reserved i now deadline m = m\<lparr>or_deliveryToken := Some (po_deliveryToken i), or_deliveryStartedAt := Some now,
     or_deliveryDeadlineAt := Some deadline\<rparr>"

definition pg_reserveOutboxDelivery :: "postgres \<Rightarrow> ProcessClaimedOutboxInput \<Rightarrow>
    (contact_db, unit, ContactOutboxMessage option) action" where
  "pg_reserveOutboxDelivery P i = pg_transaction (\<lambda>db.
    case ebind (timestamptz P (po_now i)) (\<lambda>now. ebind (timestamptz P (po_deliveryDeadlineAt i)) (\<lambda>d. Inr (now, d))) of
      Inl e \<Rightarrow> (Inl e, db)
    | Inr (now, deadline) \<Rightarrow> (case filter (reservable i now) (db_outbox db) of [] \<Rightarrow> (Inr None, db)
       | m # ms \<Rightarrow> if \<not> ts_lt now deadline then (Inl (), db)
         else (Inr (Some (mapOutbox (reserved i now deadline m))),
           update_outbox (reservable i now) (reserved i now deadline) db)))"

definition fenced :: "ProcessClaimedOutboxInput \<Rightarrow> ContactOutboxRow \<Rightarrow> bool" where
  "fenced i m \<longleftrightarrow> claimed_by i m \<and> or_deliveryToken m = Some (po_deliveryToken i)"

definition deliverable :: "ProcessClaimedOutboxInput \<Rightarrow> string \<Rightarrow> ContactOutboxRow \<Rightarrow> bool" where
  "deliverable i clock m \<longleftrightarrow> fenced i m \<and> (case or_deliveryDeadlineAt m of None \<Rightarrow> False | Some d \<Rightarrow> ts_le clock d)"

definition delivered_row :: "string \<Rightarrow> ContactOutboxRow \<Rightarrow> ContactOutboxRow" where
  "delivered_row clock m = no_delivery (no_lease (m\<lparr>cm_deliveredAt := Some clock, cm_lastErrorCode := None\<rparr>))"

definition pg_markOutboxDelivered :: "ProcessClaimedOutboxInput \<Rightarrow> (contact_db, unit, nat) action" where
  "pg_markOutboxDelivered i db = (Inr (outbox_count (deliverable i (db_clock db)) db),
     update_outbox (deliverable i (db_clock db)) (delivered_row (db_clock db)) db)"

definition retried_row :: "string \<Rightarrow> string \<Rightarrow> ContactOutboxRow \<Rightarrow> ContactOutboxRow" where
  "retried_row available code m = no_delivery (no_lease (m\<lparr>cm_availableAt := available, cm_lastErrorCode := Some code\<rparr>))"

definition pg_markOutboxRetry :: "postgres \<Rightarrow> ProcessClaimedOutboxInput \<Rightarrow> string \<Rightarrow> (contact_db, unit, nat) action" where
  "pg_markOutboxRetry P i code db = (case timestamptz P (po_retryAvailableAt i) of Inl e \<Rightarrow> (Inl e, db)
     | Inr available \<Rightarrow> (Inr (outbox_count (fenced i) db), update_outbox (fenced i) (retried_row available code) db))"

definition readDisposition :: "ProcessClaimedOutboxInput \<Rightarrow> (contact_db, unit, OutboxDeliveryDisposition) action" where
  "readDisposition i = aread (\<lambda>db. case find (\<lambda>m. message_key m = (po_scope i, po_messageId i)) (db_outbox db) of
       None \<Rightarrow> OD_CONFLICT
     | Some m \<Rightarrow> if cm_cancelledAt m \<noteq> None then OD_CANCELLED else if cm_deliveredAt m \<noteq> None then OD_DELIVERED
       else OD_CONFLICT)"

text \<open>What follows the call of the provider.\<close>
definition retryOutbox :: "postgres \<Rightarrow> ProcessClaimedOutboxInput \<Rightarrow> string \<Rightarrow>
    (contact_db, unit, OutboxDeliveryDisposition) action" where
  "retryOutbox P i code = abind (pg_markOutboxRetry P i code)
     (\<lambda>rowCount. if rowCount = 1 then aret OD_RETRY else readDisposition i)"

definition finalizeOutbox :: "postgres \<Rightarrow> ProcessClaimedOutboxInput \<Rightarrow> SendResult \<Rightarrow>
    (contact_db, unit, OutboxDeliveryDisposition) action" where
  "finalizeOutbox P i delivery = pg_transaction
     (if delivery = DS_SENT
      then abind (pg_markOutboxDelivered i) (\<lambda>rowCount. if rowCount = 1 then aret OD_DELIVERED
        else retryOutbox P i ''delivery_deadline_expired'')
      else retryOutbox P i (po_errorCode i))"

text \<open>The provider runs between two transactions: \<open>deliver\<close> may do to the tables whatever other workers do.\<close>
definition pg_processClaimedOutbox :: "postgres \<Rightarrow> ProcessClaimedOutboxInput \<Rightarrow>
    (ContactOutboxMessage \<Rightarrow> (contact_db, unit, SendResult) action) \<Rightarrow>
    (contact_db, unit, OutboxDeliveryDisposition) action" where
  "pg_processClaimedOutbox P i deliver = abind (pg_reserveOutboxDelivery P i) (\<lambda>prepared.
     case prepared of None \<Rightarrow> readDisposition i
     | Some message \<Rightarrow> abind (deliver message) (finalizeOutbox P i))"

definition pg_releaseOutboxLease :: "ContactScope \<Rightarrow> string \<Rightarrow> string \<Rightarrow> (contact_db, unit, unit) action" where
  "pg_releaseOutboxLease sc messageId worker = amodify (\<lambda>db. update_outbox
     (\<lambda>m. message_key m = (sc, messageId) \<and> cm_leaseOwner m = Some worker \<and> message_open m \<and>
       (or_deliveryToken m = None \<or> passed (or_deliveryDeadlineAt m) (db_clock db))) no_lease db)"

text \<open>What happens between the calls of the service: other workers claim, deliver and release, and time passes.\<close>
inductive store_environment :: "postgres \<Rightarrow> contact_db \<Rightarrow> contact_db \<Rightarrow> bool" for P db where
  claim: "pg_claimDueSessions P worker now leaseMs limit db = (r, t) \<Longrightarrow> store_environment P db t"
| release: "pg_releaseLease sc worker db = (r, t) \<Longrightarrow> store_environment P db t"
| claim_outbox: "pg_claimDueOutbox P worker now leaseMs limit db = (r, t) \<Longrightarrow> store_environment P db t"
| reserve: "pg_reserveOutboxDelivery P i db = (r, t) \<Longrightarrow> store_environment P db t"
| finalize: "finalizeOutbox P i delivery db = (r, t) \<Longrightarrow> store_environment P db t"
| release_outbox: "pg_releaseOutboxLease sc messageId worker db = (r, t) \<Longrightarrow> store_environment P db t"
| time_passes: "store_environment P db (db\<lparr>db_clock := clock\<rparr>)"

section \<open>The repository keeps its contract\<close>

lemma find_append: "find p (xs @ ys) = (case find p xs of None \<Rightarrow> find p ys | Some x \<Rightarrow> Some x)"
  by (induction xs) auto

lemma find_map: "(\<And>x. p (g x) = p x) \<Longrightarrow> find p (map g xs) = map_option g (find p xs)"
  by (induction xs) auto

lemma stored_scope: "stored_session db sc = Some c \<Longrightarrow> session_scope c = sc"
  by (auto simp: stored_session_def find_Some_iff)

lemma stored_map:
  assumes "\<And>c. session_scope (g c) = session_scope c"
  shows "stored_session (db\<lparr>db_sessions := map g (db_sessions db)\<rparr>) sc = map_option g (stored_session db sc)"
  using assms by (simp add: stored_session_def find_map)

lemma stored_frame [simp]:
  "stored_session (update_outbox p f db) sc = stored_session db sc"
  "stored_session (db\<lparr>db_inbox := inbox\<rparr>) sc = stored_session db sc"
  "stored_session (db\<lparr>db_outbox := outbox\<rparr>) sc = stored_session db sc"
  "stored_session (db\<lparr>db_audit := audit\<rparr>) sc = stored_session db sc"
  "stored_session (db\<lparr>db_clock := clock\<rparr>) sc = stored_session db sc"
  by (simp_all add: stored_session_def update_outbox_def)

lemma pending_frame [simp]:
  "pending_messages (db\<lparr>db_sessions := sessions\<rparr>) sc = pending_messages db sc"
  "pending_messages (replace_session row db) sc = pending_messages db sc"
  "pending_messages (db\<lparr>db_inbox := inbox\<rparr>) sc = pending_messages db sc"
  "pending_messages (db\<lparr>db_audit := audit\<rparr>) sc = pending_messages db sc"
  "pending_messages (db\<lparr>db_clock := clock\<rparr>) sc = pending_messages db sc"
  by (simp_all add: pending_messages_def replace_session_def)

lemma update_outbox_rows: "set (db_outbox (update_outbox p f db)) = (\<lambda>m. if p m then f m else m) ` set (db_outbox db)"
  by (simp add: update_outbox_def)

lemma pending_update:
  assumes "\<And>m. p m \<Longrightarrow> message_key (f m) = message_key m \<and> (message_open (f m) \<longrightarrow> message_open m)"
  shows "pending_messages (update_outbox p f db) sc \<subseteq> pending_messages db sc"
  using assms by (fastforce simp: pending_messages_def update_outbox_def message_key_def)

lemma row_simps [simp]:
  "message_key (no_lease m) = message_key m" "message_key (no_delivery m) = message_key m"
  "message_open (no_lease m) = message_open m" "message_open (no_delivery m) = message_open m"
  "message_key (m\<lparr>cm_cancelledAt := x\<rparr>) = message_key m" "\<not> message_open (m\<lparr>cm_cancelledAt := Some y\<rparr>)"
  "message_key (lease_message worker expires m) = message_key m"
  "message_open (lease_message worker expires m) = message_open m"
  "message_key (reserved i now deadline m) = message_key m" "message_open (reserved i now deadline m) = message_open m"
  "message_key (delivered_row clock m) = message_key m" "\<not> message_open (delivered_row clock m)"
  "message_key (retried_row available code m) = message_key m"
  "message_open (retried_row available code m) = message_open m"
  by (simp_all add: no_lease_def no_delivery_def message_key_def message_open_def lease_message_def reserved_def
      delivered_row_def retried_row_def)

lemma nullable_None: "nullable f x = Inr y \<Longrightarrow> y = None \<longleftrightarrow> x = None"
  by (cases x) (auto elim: ebind_InrE)

lemma sessionRow_core: "sessionRow P c = Inr row \<Longrightarrow> same_core c row"
  by (auto simp: sessionRow_def same_core_def session_scope_def dest!: nullable_None elim!: ebind_InrE)

lemma replace_session_map:
  "stored_session (replace_session row db) sc =
    (if sc = session_scope row \<and> stored_session db sc \<noteq> None then Some row else stored_session db sc)"
proof -
  have "find (\<lambda>c. session_scope c = sc) (map (\<lambda>c. if session_scope c = session_scope row then row else c) xs) =
     (if sc = session_scope row \<and> find (\<lambda>c. session_scope c = sc) xs \<noteq> None then Some row
      else find (\<lambda>c. session_scope c = sc) xs)" for xs
    by (induction xs) auto
  then show ?thesis by (auto simp: stored_session_def replace_session_def)
qed

lemma insertSession_map:
  assumes "pg_insertSession P c db = (Inr u, t)"
  shows "stored_session db (session_scope c) = None \<and>
    (\<exists>c'. same_core c c' \<and> stored_session t = (stored_session db)(session_scope c \<mapsto> c'))"
proof -
  obtain row where row: "sessionRow P c = Inr row" "stored_session db (session_scope row) = None"
    and t: "t = db\<lparr>db_sessions := db_sessions db @ [row]\<rparr>"
    using assms by (auto simp: pg_insertSession_def split: sum.split_asm if_split_asm)
  have core: "same_core c row" using sessionRow_core [OF row(1)] .
  have "stored_session t = (stored_session db)(session_scope row \<mapsto> row)"
    using row(2) by (auto simp: t stored_session_def find_append fun_eq_iff split: option.split)
  then show ?thesis using core row(2) by (auto simp: same_core_def)
qed

lemma updateSession_map:
  assumes "pg_updateSession P c v db = (Inr UP_UPDATED, t)"
  shows "\<exists>old c'. stored_session db (session_scope c) = Some old \<and> hc_version old = v \<and> same_core c c' \<and>
    cs_ownerActorId c' = cs_ownerActorId old \<and> stored_session t = (stored_session db)(session_scope c \<mapsto> c')"
proof -
  obtain row old where row: "sessionRow P c = Inr row" and old: "stored_session db (session_scope row) = Some old"
    and eqs: "cs_ownerActorId old = cs_ownerActorId row" "hc_version old = v" and t: "t = replace_session row db"
    using assms by (auto simp: pg_updateSession_def split: sum.split_asm if_split_asm option.split_asm)
  have core: "same_core c row" using sessionRow_core [OF row] .
  have "stored_session t = (stored_session db)(session_scope row \<mapsto> row)"
    using old by (auto simp: t replace_session_map fun_eq_iff)
  then show ?thesis using core old eqs by (auto simp: same_core_def)
qed

lemma insertOutbox_frame:
  assumes "pg_insertOutboxIfAbsent P m db = (r, t)"
  shows "stored_session t = stored_session db \<and> (\<forall>sc. sc \<noteq> cm_scope m \<longrightarrow> pending_messages t sc = pending_messages db sc)"
proof -
  consider "t = db" | row where "outboxRow P m = Inr row" "t = db\<lparr>db_outbox := db_outbox db @ [row]\<rparr>"
    using assms by (auto simp: pg_insertOutboxIfAbsent_def split: sum.split_asm if_split_asm)
  then show ?thesis
  proof cases
    case 2
    then have "cm_scope row = cm_scope m" by (auto simp: outboxRow_def elim!: ebind_InrE)
    then show ?thesis using 2(2) by (auto simp: fun_eq_iff pending_messages_def)
  qed simp
qed

lemma cancel_frame:
  assumes "pg_cancelPendingAutomation P sc at' db = (r, t)"
  shows "stored_session t = stored_session db \<and> (\<forall>sc'. pending_messages t sc' \<subseteq> pending_messages db sc') \<and>
    (\<forall>u. r = Inr u \<longrightarrow> pending_messages t sc = {})"
proof (cases r)
  case (Inl e)
  then show ?thesis using assms by (auto simp: pg_cancelPendingAutomation_def split: sum.split_asm)
next
  case (Inr u)
  then obtain x where t: "t = update_outbox (\<lambda>m. cm_scope m = sc \<and> message_open m)
      (\<lambda>m. no_delivery (no_lease (m\<lparr>cm_cancelledAt := Some x\<rparr>))) db"
    using assms by (auto simp: pg_cancelPendingAutomation_def split: sum.split_asm)
  have "pending_messages t sc = {}"
  proof -
    have "\<not> message_open m" if m: "m \<in> set (db_outbox t)" "cm_scope m = sc" for m
    proof -
      obtain n where "m = (if cm_scope n = sc \<and> message_open n
          then no_delivery (no_lease (n\<lparr>cm_cancelledAt := Some x\<rparr>)) else n)"
        using m(1) unfolding t update_outbox_rows by blast
      then show ?thesis using m(2) by (cases "cm_scope n = sc \<and> message_open n") simp_all
    qed
    then show ?thesis by (auto simp only: pending_messages_def)
  qed
  moreover have "pending_messages t sc' \<subseteq> pending_messages db sc'" for sc'
    unfolding t by (rule pending_update) simp
  ultimately show ?thesis by (simp add: t fun_eq_iff)
qed

lemma transaction_cases:
  assumes "pg_transaction m db = (r, t)"
  obtains (committed) x where "r = Inr x" "m db = (Inr x, t)" | (rolled_back) "r = Inl ()" "t = db"
  using assms by (auto simp: pg_transaction_def split: prod.split_asm sum.split_asm if_split_asm)

lemma same_core_refl [simp]: "same_core c c"
  by (simp add: same_core_def)

lemma same_core_lease [simp]:
  "same_core c (lease_session worker expires c)" "same_core c (c\<lparr>cs_leaseOwner := x, cs_leaseExpiresAt := y\<rparr>)"
  by (simp_all add: same_core_def lease_session_def session_scope_def)

lemma session_scope_lease [simp]:
  "session_scope (lease_session worker expires c) = session_scope c"
  "session_scope (c\<lparr>cs_leaseOwner := x, cs_leaseExpiresAt := y\<rparr>) = session_scope c"
  by (simp_all add: lease_session_def session_scope_def)

definition quiet_step :: "contact_db \<Rightarrow> contact_db \<Rightarrow> bool" where
  "quiet_step db t \<longleftrightarrow> (\<forall>sc. rel_option same_core (stored_session db sc) (stored_session t sc) \<and>
     pending_messages t sc \<subseteq> pending_messages db sc)"

lemma quiet_refl [simp]: "quiet_step db db" "quiet_step db (db\<lparr>db_clock := clock\<rparr>)"
  by (simp_all add: quiet_step_def option.rel_refl_strong)

lemma same_core_trans: "same_core x y \<Longrightarrow> same_core y z \<Longrightarrow> same_core x z"
  by (simp add: same_core_def)

lemma quiet_trans:
  assumes "quiet_step a b" and "quiet_step b c"
  shows "quiet_step a c"
proof -
  have "rel_option same_core x z" if xy: "rel_option same_core x y" and yz: "rel_option same_core y z" for x y z
  proof (cases x)
    case (Some a)
    then obtain b where "y = Some b" "same_core a b" using xy by (auto simp: option_rel_Some1)
    then show ?thesis using yz Some same_core_trans by (fastforce simp: option_rel_Some1)
  qed (use xy yz in simp)
  then show ?thesis using assms unfolding quiet_step_def by (meson order_trans)
qed

lemma quiet_outbox:
  "(\<And>m. p m \<Longrightarrow> message_key (f m) = message_key m \<and> (message_open (f m) \<longrightarrow> message_open m)) \<Longrightarrow>
   quiet_step db (update_outbox p f db)"
  unfolding quiet_step_def using pending_update [of p f db] by (auto intro: option.rel_refl_strong)

lemma quiet_sessions:
  assumes "\<And>c. session_scope (g c) = session_scope c \<and> same_core c (g c)"
  shows "quiet_step db (db\<lparr>db_sessions := map g (db_sessions db)\<rparr>)"
proof -
  have "stored_session (db\<lparr>db_sessions := map g (db_sessions db)\<rparr>) sc = map_option g (stored_session db sc)" for sc
    by (rule stored_map) (simp add: assms)
  moreover have "rel_option same_core x (map_option g x)" for x
    by (cases x) (simp_all add: assms)
  ultimately show ?thesis by (simp add: quiet_step_def)
qed

lemma quiet_transaction:
  assumes "pg_transaction m db = (r, t)" and "\<And>x u. m db = (Inr x, u) \<Longrightarrow> quiet_step db u"
  shows "quiet_step db t"
  using assms(1) by (cases rule: transaction_cases) (auto intro: assms(2))

lemma claimDueSessions_quiet: "pg_claimDueSessions P worker now leaseMs limit db = (r, t) \<Longrightarrow> quiet_step db t"
  unfolding pg_claimDueSessions_def
  by (erule quiet_transaction) (auto simp: Let_def split: sum.split_asm intro!: quiet_sessions)

lemma claimDueOutbox_quiet: "pg_claimDueOutbox P worker now leaseMs limit db = (r, t) \<Longrightarrow> quiet_step db t"
  unfolding pg_claimDueOutbox_def
  by (erule quiet_transaction) (auto simp: Let_def split: sum.split_asm intro!: quiet_outbox)

lemma releaseLease_quiet: "pg_releaseLease sc worker db = (r, t) \<Longrightarrow> quiet_step db t"
  by (auto simp: pg_releaseLease_def intro!: quiet_sessions)

lemma releaseOutboxLease_quiet: "pg_releaseOutboxLease sc messageId worker db = (r, t) \<Longrightarrow> quiet_step db t"
  by (auto simp: pg_releaseOutboxLease_def intro!: quiet_outbox)

lemma reserve_quiet: "pg_reserveOutboxDelivery P i db = (r, t) \<Longrightarrow> quiet_step db t"
  unfolding pg_reserveOutboxDelivery_def
  by (erule quiet_transaction) (auto split: sum.split_asm list.split_asm if_split_asm intro!: quiet_outbox)

lemma markDelivered_quiet: "pg_markOutboxDelivered i db = (r, t) \<Longrightarrow> quiet_step db t"
  by (auto simp: pg_markOutboxDelivered_def intro!: quiet_outbox)

lemma retryOutbox_quiet: "retryOutbox P i code db = (r, t) \<Longrightarrow> quiet_step db t"
  by (auto simp: retryOutbox_def abind_def pg_markOutboxRetry_def readDisposition_def
      split: sum.split_asm if_split_asm intro!: quiet_outbox)

lemma finalize_quiet: "finalizeOutbox P i delivery db = (r, t) \<Longrightarrow> quiet_step db t"
  unfolding finalizeOutbox_def
proof (erule quiet_transaction)
  fix x u
  assume run: "(if delivery = DS_SENT
      then abind (pg_markOutboxDelivered i) (\<lambda>rowCount. if rowCount = 1 then aret OD_DELIVERED
        else retryOutbox P i ''delivery_deadline_expired'') else retryOutbox P i (po_errorCode i)) db = (Inr x, u)"
  show "quiet_step db u"
  proof (cases "delivery = DS_SENT")
    case True
    then obtain n v where v: "pg_markOutboxDelivered i db = (Inr n, v)"
      and rest: "(if n = 1 then aret OD_DELIVERED else retryOutbox P i ''delivery_deadline_expired'') v = (Inr x, u)"
      using run by (auto simp: abind_Inr)
    have "quiet_step v u"
      using rest retryOutbox_quiet by (cases "n = 1") auto
    with markDelivered_quiet [OF v] show ?thesis by (rule quiet_trans)
  qed (use run retryOutbox_quiet in auto)
qed

lemma store_environment_quiet: "store_environment P db t \<Longrightarrow> quiet_step db t"
  by (induction rule: store_environment.induct)
    (auto intro: claimDueSessions_quiet releaseLease_quiet claimDueOutbox_quiet reserve_quiet finalize_quiet
      releaseOutboxLease_quiet)

interpretation store: contact_environment "contactTransaction P createId" stored_session pending_messages
    "store_environment P" for P createId
proof (unfold_locales, goal_cases)
  case (1 sc s x t)
  then show ?case by (auto simp: contactTransaction_def pg_getSessionForUpdate_def)
next
  case (2 sc s r t)
  then show ?case by (simp add: contactTransaction_def pg_getSessionForUpdate_def)
next
  case (3 s sc c)
  then show ?case by (rule stored_scope)
next
  case (4 c s u t)
  then show ?case by (simp add: contactTransaction_def insertSession_map)
next
  case (5 c v s t)
  then have "pg_updateSession P c v s = (Inr UP_UPDATED, t)" by (simp add: contactTransaction_def)
  then show ?case by (rule updateSession_map)
next
  case (6 c v s t)
  then show ?case
    by (auto simp: contactTransaction_def pg_updateSession_def split: sum.split_asm option.split_asm if_split_asm)
next
  case (7 c s r t)
  then show ?case by (auto simp: contactTransaction_def pg_insertSession_def fun_eq_iff split: sum.split_asm if_split_asm)
next
  case (8 c v s r t)
  then show ?case
    by (auto simp: contactTransaction_def pg_updateSession_def fun_eq_iff split: sum.split_asm option.split_asm if_split_asm)
next
  case (9 sc k s r t)
  then show ?case by (auto simp: contactTransaction_def pg_insertInboxIfAbsent_def fun_eq_iff split: if_split_asm)
next
  case (10 e s r t)
  then show ?case by (auto simp: contactTransaction_def pg_insertAuditIfAbsent_def fun_eq_iff split: sum.split_asm if_split_asm)
next
  case (11 m s r t)
  then show ?case by (simp add: contactTransaction_def insertOutbox_frame)
next
  case (12 sc now s r t)
  then show ?case by (simp add: contactTransaction_def cancel_frame)
next
  case (13 sc now s u t)
  then show ?case using cancel_frame by (auto simp: contactTransaction_def)
next
  case (14 m s d t)
  then show ?case by (auto simp: contactTransaction_def elim: transaction_cases)
next
  case (15 m s e t)
  then show ?case by (auto simp: contactTransaction_def elim: transaction_cases)
next
  case (16 s t sc)
  then show ?case using store_environment_quiet by (auto simp: quiet_step_def)
next
  case (17 s t sc)
  then show ?case using store_environment_quiet by (auto simp: quiet_step_def)
qed

end
