(* ===== verification/ContactGuarantees.thy ===== *)
theory ContactGuarantees
  imports ContactStore
begin

text \<open>
  What the contact runtime guarantees on its Postgres repository, for every interleaving of its
  operations with the workers that claim, deliver and release: the facts of the interpretation \<open>store\<close>
  stated on the code's definitions, with the delivery fence and the round trip of a stored session.
\<close>

section \<open>The workers\<close>

text \<open>\<open>try { m } finally { f }\<close>\<close>
definition afinally :: "('s, 'e, 'a) action \<Rightarrow> ('s, 'e, unit) action \<Rightarrow> ('s, 'e, 'a) action" where
  "afinally m f s = (case m s of (Inl e, t) \<Rightarrow> (case f t of (Inl e', u) \<Rightarrow> (Inl e', u) | (Inr _, u) \<Rightarrow> (Inl e, u))
     | (Inr x, t) \<Rightarrow> (case f t of (Inl e', u) \<Rightarrow> (Inl e', u) | (Inr _, u) \<Rightarrow> (Inr x, u)))"

record 's ContactRuntimeRepository =
  rp_claimDueSessions :: "string \<Rightarrow> string \<Rightarrow> int \<Rightarrow> nat \<Rightarrow> ('s, unit, ContactSessionRecord list) action"
  rp_releaseLease :: "ContactScope \<Rightarrow> string \<Rightarrow> ('s, unit, unit) action"
  rp_claimDueOutbox :: "string \<Rightarrow> string \<Rightarrow> int \<Rightarrow> nat \<Rightarrow> ('s, unit, ContactOutboxMessage list) action"
  rp_processClaimedOutbox :: "ProcessClaimedOutboxInput \<Rightarrow> (ContactOutboxMessage \<Rightarrow> ('s, unit, SendResult) action) \<Rightarrow>
    ('s, unit, OutboxDeliveryDisposition) action"
  rp_releaseOutboxLease :: "ContactScope \<Rightarrow> string \<Rightarrow> string \<Rightarrow> ('s, unit, unit) action"

definition contactRepository :: "postgres \<Rightarrow> contact_db ContactRuntimeRepository" where
  "contactRepository P =
    \<lparr>rp_claimDueSessions = pg_claimDueSessions P, rp_releaseLease = pg_releaseLease,
      rp_claimDueOutbox = pg_claimDueOutbox P, rp_processClaimedOutbox = pg_processClaimedOutbox P,
      rp_releaseOutboxLease = pg_releaseOutboxLease\<rparr>"

definition valid_batch :: "string \<Rightarrow> string \<Rightarrow> js_num \<Rightarrow> bool" where
  "valid_batch workerId now limit \<longleftrightarrow> validId workerId \<and> validTime now \<and> isInteger limit \<and>
     \<not> num_lt limit (Num 1) \<and> \<not> num_lt (Num 500) limit"

fun whole :: "js_num \<Rightarrow> int" where
  "whole (Num q) = \<lfloor>q\<rfloor>"
| "whole _ = 0"

fun each_due :: "'s ContactRuntimeTransaction \<Rightarrow> 's ContactRuntimeRepository \<Rightarrow> string \<Rightarrow> string \<Rightarrow>
    ContactSessionRecord list \<Rightarrow> ('s, unit, (ContactScope \<times> RuntimeDisposition) list) action" where
  "each_due T R workerId now [] = aret []"
| "each_due T R workerId now (session # rest) =
     abind (afinally (processDue T (session_scope session) workerId now)
       (rp_releaseLease R (session_scope session) workerId)) (\<lambda>disposition.
     abind (each_due T R workerId now rest) (\<lambda>results. aret ((session_scope session, disposition) # results)))"

definition runDue :: "'s ContactRuntimeTransaction \<Rightarrow> 's ContactRuntimeRepository \<Rightarrow> string \<Rightarrow> string \<Rightarrow> js_num \<Rightarrow>
    ('s, unit, (ContactScope \<times> RuntimeDisposition) list) action" where
  "runDue T R workerId now limit =
    (if \<not> valid_batch workerId now limit then aret []
     else abind (rp_claimDueSessions R workerId now 30000 (nat (whole limit))) (each_due T R workerId now))"

text \<open>The channel answers \<open>None\<close> when it has not settled by the deadline, where the timer wins the race.\<close>
definition sendWithDeadline :: "(ContactOutboxMessage \<Rightarrow> string \<Rightarrow> ('s, unit, SendResult option) action) \<Rightarrow>
    string \<Rightarrow> ContactOutboxMessage \<Rightarrow> ('s, unit, SendResult) action" where
  "sendWithDeadline channel deadlineAt message = abind (attempt (channel message deadlineAt))
     (\<lambda>sent. aret (case sent of Some (Some result) \<Rightarrow> result | _ \<Rightarrow> DS_UNAVAILABLE))"

definition deliveryInput :: "ContactOutboxMessage \<Rightarrow> string \<Rightarrow> string \<Rightarrow> string \<Rightarrow> string \<Rightarrow> string \<Rightarrow>
    ProcessClaimedOutboxInput" where
  "deliveryInput message workerId now retryAvailableAt token deadlineAt =
    \<lparr>po_scope = cm_scope message, po_messageId = cm_messageId message, po_workerId = workerId, po_now = now,
      po_retryAvailableAt = retryAvailableAt, po_errorCode = ''channel_delivery_failed_or_timed_out'',
      po_deliveryToken = token, po_deliveryDeadlineAt = deadlineAt\<rparr>"

definition deliver_one :: "'s ContactRuntimeTransaction \<Rightarrow> 's ContactRuntimeRepository \<Rightarrow>
    (ContactOutboxMessage \<Rightarrow> string \<Rightarrow> ('s, unit, SendResult option) action) \<Rightarrow> int \<Rightarrow> string \<Rightarrow> string \<Rightarrow>
    ContactOutboxMessage \<Rightarrow> ('s, unit, OutboxDeliveryDisposition) action" where
  "deliver_one T R channel timeoutMs workerId now message =
     abind (alift (iso_after now (boundedOutboxBackoff (cm_attempt message)))) (\<lambda>retryAvailableAt.
     abind (alift (iso_after now timeoutMs)) (\<lambda>deadlineAt.
     abind (alift (tx_createId T ''contact-delivery'' (cm_idempotencyKey message @ ''|'' @ workerId @ ''|'' @
       (case cm_leaseExpiresAt message of Some x \<Rightarrow> x | None \<Rightarrow> deadlineAt)))) (\<lambda>token.
     afinally (rp_processClaimedOutbox R (deliveryInput message workerId now retryAvailableAt token deadlineAt)
         (sendWithDeadline channel deadlineAt))
       (rp_releaseOutboxLease R (cm_scope message) (cm_messageId message) workerId))))"

fun each_message :: "'s ContactRuntimeTransaction \<Rightarrow> 's ContactRuntimeRepository \<Rightarrow>
    (ContactOutboxMessage \<Rightarrow> string \<Rightarrow> ('s, unit, SendResult option) action) \<Rightarrow> int \<Rightarrow> string \<Rightarrow> string \<Rightarrow>
    ContactOutboxMessage list \<Rightarrow> ('s, unit, (ContactScope \<times> string \<times> OutboxDeliveryDisposition) list) action" where
  "each_message T R channel timeoutMs workerId now [] = aret []"
| "each_message T R channel timeoutMs workerId now (message # rest) =
     abind (deliver_one T R channel timeoutMs workerId now message) (\<lambda>disposition.
     abind (each_message T R channel timeoutMs workerId now rest) (\<lambda>results.
     aret ((cm_scope message, cm_messageId message, disposition) # results)))"

definition runOutbox :: "'s ContactRuntimeTransaction \<Rightarrow> 's ContactRuntimeRepository \<Rightarrow> ContactRuntimeOptions \<Rightarrow>
    (ContactOutboxMessage \<Rightarrow> string \<Rightarrow> ('s, unit, SendResult option) action) \<Rightarrow> string \<Rightarrow> string \<Rightarrow> js_num \<Rightarrow>
    ('s, unit, (ContactScope \<times> string \<times> OutboxDeliveryDisposition) list) action" where
  "runOutbox T R opts channel workerId now limit =
    (if \<not> valid_batch workerId now limit then aret []
     else abind (rp_claimDueOutbox R workerId now (whole (co_outboxLeaseMs opts)) (nat (whole limit)))
       (each_message T R channel (whole (co_deliveryTimeoutMs opts)) workerId now))"

section \<open>A takeover that was applied\<close>

context contact_repository
begin

lemma operatorTakeover_applied:
  assumes "operatorTakeover T i s = (Inr RT_APPLIED, t)"
  shows "pending t (ot_scope i) = {} \<and> (\<exists>c. session t (ot_scope i) = Some c \<and> hc_state c = HC_OPERATOR_TAKEOVER \<and>
    cs_automationSuppressed c \<and> hc_assignedOperatorId c = Some (ot_operatorId i) \<and> no_action c)"
proof -
  let ?rest = "\<lambda>current. first_time T (ot_scope i) (inboxKey ''takeover'' (ot_scope i) (ot_operatorId i @ ''|'' @ ot_idempotencyKey i))
         (if cs_automationSuppressed current \<and> hc_assignedOperatorId current = Some (ot_operatorId i)
          then aret RT_IDEMPOTENT else applyTakeover T i current)"
  have "with_session T (ot_scope i) RT_HUMAN_REVIEW ?rest s = (Inr RT_APPLIED, t)"
    using assms by (simp add: operatorTakeover_def split: if_split_asm)
  then have "abind (tx_getSessionForUpdate T (ot_scope i))
      (\<lambda>found. case found of None \<Rightarrow> aret RT_HUMAN_REVIEW | Some current \<Rightarrow> ?rest current) s = (Inr RT_APPLIED, t)"
    unfolding with_session_def by (rule transaction_done)
  then obtain found u where u: "tx_getSessionForUpdate T (ot_scope i) s = (Inr found, u)"
    and run: "(case found of None \<Rightarrow> aret RT_HUMAN_REVIEW | Some current \<Rightarrow> ?rest current) u = (Inr RT_APPLIED, t)"
    unfolding abind_Inr by blast
  obtain current where current: "found = Some current" using run by (cases found) auto
  have cur: "u = s" "session s (ot_scope i) = Some current" using get [OF u] current by simp_all
  obtain inbox v where v: "tx_insertInboxIfAbsent T (ot_scope i)
        (inboxKey ''takeover'' (ot_scope i) (ot_operatorId i @ ''|'' @ ot_idempotencyKey i)) s = (Inr inbox, v)"
    and rest: "(if inbox = INS_EXISTS then aret RT_IDEMPOTENT
      else if cs_automationSuppressed current \<and> hc_assignedOperatorId current = Some (ot_operatorId i)
        then aret RT_IDEMPOTENT else applyTakeover T i current) v = (Inr RT_APPLIED, t)"
    using run unfolding current option.case first_time_def cur(1) abind_Inr by blast
  have "session v (ot_scope i) = Some current" using inbox_frame [OF v] cur(2) by simp
  moreover have "applyTakeover T i current v = (Inr RT_APPLIED, t)" using rest by (auto split: if_split_asm)
  ultimately show ?thesis by (rule applyTakeover_applied [rotated])
qed

end

section \<open>Deliveries\<close>

lemma update_none: "\<forall>m \<in> set (db_outbox db). \<not> p m \<Longrightarrow> update_outbox p f db = db \<and> outbox_count p db = 0"
proof -
  assume "\<forall>m \<in> set (db_outbox db). \<not> p m"
  then have "map (\<lambda>m. if p m then f m else m) (db_outbox db) = db_outbox db" "filter p (db_outbox db) = []"
    by (simp_all add: map_idI filter_empty_conv)
  then show ?thesis by (simp add: update_outbox_def outbox_count_def)
qed

lemma finalize_without_row:
  assumes none: "\<forall>m \<in> set (db_outbox db). \<not> claimed_by i m" and run: "finalizeOutbox P i delivery db = (Inr d, t)"
  shows "t = db \<and> readDisposition i db = (Inr d, db)"
proof -
  have fenced: "\<forall>m \<in> set (db_outbox db). \<not> fenced i m" using none by (simp add: fenced_def)
  have "\<forall>m \<in> set (db_outbox db). \<not> deliverable i (db_clock db) m" using fenced by (simp add: deliverable_def)
  then have deliver: "pg_markOutboxDelivered i db = (Inr 0, db)"
    using update_none by (simp add: pg_markOutboxDelivered_def)
  have retry: "x = Inr d' \<Longrightarrow> u = db \<and> readDisposition i db = (Inr d', db)"
    if "retryOutbox P i code db = (x, u)" for code x u d'
  proof (cases "timestamptz P (po_retryAvailableAt i)")
    case (Inr available)
    then show "x = Inr d' \<Longrightarrow> u = db \<and> readDisposition i db = (Inr d', db)"
      using that update_none [OF fenced]
      by (auto simp: retryOutbox_def abind_def pg_markOutboxRetry_def readDisposition_def)
  qed (use that in \<open>auto simp: retryOutbox_def abind_def pg_markOutboxRetry_def\<close>)
  have "(if delivery = DS_SENT
      then abind (pg_markOutboxDelivered i) (\<lambda>rowCount. if rowCount = 1 then aret OD_DELIVERED
        else retryOutbox P i ''delivery_deadline_expired'') else retryOutbox P i (po_errorCode i)) db = (Inr d, t)"
    using run unfolding finalizeOutbox_def by (rule transaction_cases) simp_all
  then obtain code where "retryOutbox P i code db = (Inr d, t)"
    using deliver by (cases "delivery = DS_SENT") (auto simp: abind_def)
  from retry [OF this] show ?thesis by simp
qed

lemma read_cancelled:
  assumes "\<exists>m \<in> set (db_outbox db). message_key m = (po_scope i, po_messageId i)"
    and "\<forall>m \<in> set (db_outbox db). message_key m = (po_scope i, po_messageId i) \<longrightarrow> cm_cancelledAt m \<noteq> None"
  shows "readDisposition i db = (Inr OD_CANCELLED, db)"
proof (cases "find (\<lambda>m. message_key m = (po_scope i, po_messageId i)) (db_outbox db)")
  case None
  then have "\<forall>m \<in> set (db_outbox db). message_key m \<noteq> (po_scope i, po_messageId i)"
    by (simp add: find_None_iff)
  then show ?thesis using assms(1) by blast
next
  case (Some m)
  then have "m \<in> set (db_outbox db)" "message_key m = (po_scope i, po_messageId i)"
    by (auto simp: find_Some_iff)
  then have "cm_cancelledAt m \<noteq> None" using assms(2) by blast
  then show ?thesis using Some by (simp add: readDisposition_def)
qed

section \<open>The guarantees\<close>



text \<open>C18: once an operator has taken a session over, automation never resumes and no message to the person is left
  to be sent, whatever the service and the workers do afterwards.\<close>
theorem takeover_ends_automation:
  assumes "operatorTakeover (contactTransaction P createId) i s = (Inr RT_APPLIED, t)"
    and "contact_reaches (contactTransaction P createId) (store_environment P) t u"
  shows "\<exists>c. stored_session u (ot_scope i) = Some c \<and> cs_automationSuppressed c \<and>
    pending_messages u (ot_scope i) = {}"
proof -
  obtain c where "stored_session t (ot_scope i) = Some c" "cs_automationSuppressed c" "pending_messages t (ot_scope i) = {}"
    using store.operatorTakeover_applied [OF assms(1)] by blast
  then show ?thesis using store.suppressed_for_good [OF assms(2)] by fastforce
qed

text \<open>C19: the automated contact of a session terminates: between two replies of the person, at most eleven of the
  steps the workers take for it are applied.\<close>
theorem automated_contact_terminates:
  assumes "due_history (contactTransaction P createId) (store_environment P) sc s n t"
    and "stored_session s sc = Some c" and "session_ok c"
  shows "n \<le> 11"
  using store.due_history_rank [OF assms(1,2)] contact_rank_bound [OF assms(3)] by auto

text \<open>C22: a message cancelled while the provider was sending it is never recorded as delivered, whatever the provider
  answers: the second transaction reports the cancellation and changes nothing.\<close>
theorem cancelled_message_is_not_delivered:
  assumes "pg_reserveOutboxDelivery P i s = (Inr (Some message), u)" and "deliver message u = (Inr answer, v)"
    and "pg_processClaimedOutbox P i deliver s = (Inr d, t)"
    and "\<exists>m \<in> set (db_outbox v). message_key m = (po_scope i, po_messageId i)"
    and "\<forall>m \<in> set (db_outbox v). message_key m = (po_scope i, po_messageId i) \<longrightarrow> cm_cancelledAt m \<noteq> None"
  shows "d = OD_CANCELLED \<and> t = v"
proof -
  have run: "finalizeOutbox P i answer v = (Inr d, t)"
    using assms(1-3) by (simp add: pg_processClaimedOutbox_def abind_def)
  have "\<forall>m \<in> set (db_outbox v). \<not> claimed_by i m"
    using assms(5) by (auto simp: claimed_by_def message_open_def)
  from finalize_without_row [OF this run] read_cancelled [OF assms(4,5)] show ?thesis by simp
qed



section \<open>The guarantees at a concrete store\<close>

definition sample_postgres :: postgres where
  "sample_postgres = \<lparr>pg_timestamptz = dateParse, pg_uuid = Some, pg_collate = map (\<lambda>c. of_char c)\<rparr>"

definition sample_ids :: "string \<Rightarrow> string \<Rightarrow> unit + string" where
  "sample_ids ns material = Inr (ns @ ''-1'')"

definition sample_contact_scope :: ContactScope where
  "sample_contact_scope = \<lparr>sc_tenantId = ''tenant-1'', sc_caseId = ''case-1'', sc_sessionId = ''session-1''\<rparr>"

definition sample_stored :: ContactSessionRecord where
  "sample_stored = HumanContactSession.extend (sample_session HC_AWAITING_RESPONSE 1)
     (ContactSessionRecord.fields ''tenant-1'' None False (Some ''1970-01-01T00:00:01.000Z'') (Some ''worker-1'')
       (Some ''1970-01-01T00:00:09.000Z'') ''1970-01-01T00:00:01.000Z'')"

definition sample_message :: ContactOutboxRow where
  "sample_message = \<lparr>cm_scope = sample_contact_scope, cm_messageId = ''message-1'', cm_channel = CC_PUSH, cm_promptId = CP_response,
     cm_idempotencyKey = ''key-1'', cm_availableAt = ''1970-01-01T00:00:01.000Z'', cm_attempt = 1,
     cm_leaseOwner = Some ''worker-1'', cm_leaseExpiresAt = Some ''1970-01-01T00:00:09.000Z'', cm_deliveredAt = None,
     cm_cancelledAt = None, cm_lastErrorCode = None, or_deliveryToken = None, or_deliveryStartedAt = None,
     or_deliveryDeadlineAt = None\<rparr>"

definition sample_db :: contact_db where
  "sample_db = \<lparr>db_sessions = [sample_stored], db_inbox = [], db_outbox = [sample_message], db_audit = [],
     db_clock = ''1970-01-01T00:00:02.000Z''\<rparr>"

definition sample_takeover :: OperatorTakeoverInput where
  "sample_takeover = \<lparr>ot_scope = sample_contact_scope, ot_operatorId = ''operator-1'', ot_authenticatedTenantId = ''tenant-1'',
     ot_authenticatedCaseId = ''case-1'', ot_authorizedRole = CR_OPERATOR, ot_traceId = ''trace-1'',
     ot_occurredAt = ''1970-01-01T00:00:02.000Z'', ot_idempotencyKey = ''key-1'',
     ot_authorityPolicyVersion = CONTACT_OPERATOR_AUTHORITY_POLICY_VERSION\<rparr>"

abbreviation sample_tx :: "contact_db ContactRuntimeTransaction" where
  "sample_tx \<equiv> contactTransaction sample_postgres sample_ids"

lemma sample_takeover_applied: "fst (operatorTakeover sample_tx sample_takeover sample_db) = Inr RT_APPLIED"
  by code_simp

lemma sample_due_applied:
  "fst (processDue sample_tx sample_contact_scope ''worker-1'' ''1970-01-01T00:00:02.000Z'' sample_db) = Inr RT_APPLIED"
  by code_simp

lemma sample_stored_ok: "stored_session sample_db sc = Some c \<Longrightarrow> sc = sample_contact_scope \<and> c = sample_stored \<and> session_ok c"
proof -
  have "session_scope sample_stored = sample_contact_scope \<and> session_ok sample_stored" by code_simp
  then show "stored_session sample_db sc = Some c \<Longrightarrow> sc = sample_contact_scope \<and> c = sample_stored \<and> session_ok c"
    by (auto simp: stored_session_def sample_db_def split: if_split_asm)
qed

lemma sample_stored_found: "stored_session sample_db sample_contact_scope = Some sample_stored"
  by code_simp

lemma sample_due_kept:
  "stored_session (snd (processDue sample_tx sample_contact_scope ''worker-1'' ''1970-01-01T00:00:02.000Z'' sample_db)) sample_contact_scope \<noteq> None"
  using store.processDue_ranked [OF _ sample_stored_found, of sample_postgres sample_ids] by (metis option.distinct(1) prod.collapse)



theorem takeover_ends_automation_witness:
  "\<exists>c. stored_session (snd (operatorTakeover sample_tx sample_takeover sample_db)) sample_contact_scope = Some c \<and>
    cs_automationSuppressed c \<and>
    pending_messages (snd (operatorTakeover sample_tx sample_takeover sample_db)) sample_contact_scope = {}"
proof -
  have "operatorTakeover sample_tx sample_takeover sample_db =
      (Inr RT_APPLIED, snd (operatorTakeover sample_tx sample_takeover sample_db))"
    using sample_takeover_applied by (metis prod.collapse)
  from takeover_ends_automation [OF this contact_reaches.start] show ?thesis by (simp add: sample_takeover_def)
qed

theorem automated_contact_terminates_witness:
  "due_history sample_tx (store_environment sample_postgres) sample_contact_scope sample_db 1
     (snd (processDue sample_tx sample_contact_scope ''worker-1'' ''1970-01-01T00:00:02.000Z'' sample_db)) \<and> (1::nat) \<le> 11"
proof -
  have "processDue sample_tx sample_contact_scope ''worker-1'' ''1970-01-01T00:00:02.000Z'' sample_db =
      (Inr RT_APPLIED, snd (processDue sample_tx sample_contact_scope ''worker-1'' ''1970-01-01T00:00:02.000Z'' sample_db))"
    using sample_due_applied by (metis prod.collapse)
  from due_history.due [OF due_history.start this]
  have run: "due_history sample_tx (store_environment sample_postgres) sample_contact_scope sample_db 1
      (snd (processDue sample_tx sample_contact_scope ''worker-1'' ''1970-01-01T00:00:02.000Z'' sample_db))" by simp
  show ?thesis
    using run automated_contact_terminates [OF run sample_stored_found] sample_stored_ok [OF sample_stored_found] by blast
qed

definition sample_delivery :: ProcessClaimedOutboxInput where
  "sample_delivery = deliveryInput (mapOutbox sample_message) ''worker-1'' ''1970-01-01T00:00:02.000Z''
     ''1970-01-01T00:00:17.000Z'' ''token-1'' ''1970-01-01T00:00:07.000Z''"

text \<open>A provider that reports success after an operator has cancelled the message.\<close>
definition sample_provider :: "ContactOutboxMessage \<Rightarrow> (contact_db, unit, SendResult) action" where
  "sample_provider message = abind (pg_cancelPendingAutomation sample_postgres sample_contact_scope ''1970-01-01T00:00:03.000Z'')
     (\<lambda>_. aret DS_SENT)"

lemma ran:
  assumes "case x of (Inl e, v) \<Rightarrow> False | (Inr a, v) \<Rightarrow> Q a v"
  obtains a v where "x = (Inr a, v)" and "Q a v"
  using assms by (cases x, cases "fst x") auto

lemma ran_message:
  assumes "case x of (Inl e, v) \<Rightarrow> False | (Inr None, v) \<Rightarrow> False | (Inr (Some a), v) \<Rightarrow> Q a v"
  obtains a v where "x = (Inr (Some a), v)" and "Q a v"
  using assms by (cases x, cases "fst x") (auto split: option.split_asm)

lemma sample_cancelled:
  "case pg_reserveOutboxDelivery sample_postgres sample_delivery sample_db of
     (Inr (Some message), u) \<Rightarrow> (case sample_provider message u of
       (Inr answer, v) \<Rightarrow> (\<exists>m \<in> set (db_outbox v). message_key m = (po_scope sample_delivery, po_messageId sample_delivery)) \<and>
         (\<forall>m \<in> set (db_outbox v). message_key m = (po_scope sample_delivery, po_messageId sample_delivery) \<longrightarrow>
            cm_cancelledAt m \<noteq> None)
     | _ \<Rightarrow> False)
   | _ \<Rightarrow> False"
  by code_simp

lemma sample_processed:
  "case pg_processClaimedOutbox sample_postgres sample_delivery sample_provider sample_db of (Inr d, t) \<Rightarrow> True | _ \<Rightarrow> False"
  by code_simp

theorem cancelled_message_is_not_delivered_witness:
  "\<exists>t. pg_processClaimedOutbox sample_postgres sample_delivery sample_provider sample_db = (Inr OD_CANCELLED, t)"
proof -
  obtain message u answer v where r: "pg_reserveOutboxDelivery sample_postgres sample_delivery sample_db = (Inr (Some message), u)"
    and p: "sample_provider message u = (Inr answer, v)"
    and c: "\<exists>m \<in> set (db_outbox v). message_key m = (po_scope sample_delivery, po_messageId sample_delivery)"
      "\<forall>m \<in> set (db_outbox v). message_key m = (po_scope sample_delivery, po_messageId sample_delivery) \<longrightarrow>
         cm_cancelledAt m \<noteq> None"
    using sample_cancelled by (elim ran_message ran) blast
  obtain d t where "pg_processClaimedOutbox sample_postgres sample_delivery sample_provider sample_db = (Inr d, t)"
    using sample_processed by (auto split: prod.split_asm sum.split_asm)
  from cancelled_message_is_not_delivered [OF r p this c] this show ?thesis by blast
qed

lemma sample_times: "toISO 1000 = Some ''1970-01-01T00:00:01.000Z''" "toISO 9000 = Some ''1970-01-01T00:00:09.000Z''"
  by code_simp+

lemma sample_insert: "fst (pg_insertSession sample_postgres sample_stored (sample_db\<lparr>db_sessions := []\<rparr>)) = Inr ()"
  by code_simp


end
