(* ===== verification/SafetyFusion.thy ===== *)
theory SafetyFusion
  imports ContactProtocol "HOL-Library.Product_Lexorder" "HOL-Library.List_Lexorder" "HOL-Library.Multiset"
begin

text \<open>
  The safety fusion service (\<open>apps/api/src/ros-eye/safety-fusion.ts\<close>, \<open>packages/contracts/src/safety-fusion.ts\<close>):
  evidence is weighed into a severity recommendation with its confidence, uncertainty and reasons. The
  values of the declared unions are datatypes, so the checks that a value belongs to its union hold.
  Numbers are rationals: the rounding of the doubles in between is not modelled. The locale's order of
  \<open>localeCompare\<close> is a sort key \<open>loc\<close>; the digest of the canonical text is a function of what is digested.
\<close>

section \<open>Contract\<close>

definition SAFETY_FUSION_POLICY_VERSION :: string where "SAFETY_FUSION_POLICY_VERSION = ''ros-eye.safety-fusion.v1''"
definition SAFETY_FUSION_THRESHOLD_VERSION :: string where
  "SAFETY_FUSION_THRESHOLD_VERSION = ''ros-eye.safety-fusion.thresholds.v1''"
definition SAFETY_FUSION_REGISTRY_SCHEMA_VERSION :: string where
  "SAFETY_FUSION_REGISTRY_SCHEMA_VERSION = ''ros-eye.safety-fusion.registry.v1''"
definition SAFETY_FUSION_MAX_EVIDENCE_AGE_MS :: int where "SAFETY_FUSION_MAX_EVIDENCE_AGE_MS = 30 * 60 * 1000"
definition SAFETY_FUSION_FRESH_EVIDENCE_MS :: int where "SAFETY_FUSION_FRESH_EVIDENCE_MS = 5 * 60 * 1000"

datatype SafetyFusionSeverity = FS0 | FS1 | FS2 | FS3 | FS4
datatype SafetyFusionSourceType = ST_PHONE | ST_VEHICLE | ST_PERSON | ST_OPERATOR | ST_INFRASTRUCTURE | ST_CONTACT_RUNTIME
  | ST_SIMULATION
datatype SafetyFusionIntegrity = FI_VERIFIED | FI_UNVERIFIED | FI_INVALID
datatype SafetyFusionDeviceCondition = DC_HEALTHY | DC_DEGRADED | DC_UNKNOWN
datatype SafetyFusionDirection = SUPPORTS_RISK | SUPPORTS_SAFETY | CONTEXT_ONLY
datatype SafetyFusionGuardKind = GK_DATA_QUALITY | GK_DRIFT | GK_OUT_OF_DISTRIBUTION | GK_ADVERSARIAL_INPUT
datatype SafetyFusionGuardDisposition = GD_CLEAR | GD_DEGRADED | GD_BLOCK_AND_REVIEW
datatype FusionLocationQuality = LQ_PRECISE | LQ_APPROXIMATE | LQ_UNKNOWN
datatype SafetyFusionEvidenceCode = PERSON_RESPONDED | PERSON_NOT_RESPONDING | COMMUNICATION_INTERRUPTED | HELP_REQUESTED
  | POSSIBLE_IMMEDIATE_DANGER | LOCATION_UNCERTAIN | MULTIPLE_PEOPLE_REPORTED | CONTRADICTORY_RESPONSE
  | ACCESSIBILITY_SUPPORT_REQUIRED | DEVICE_IMPACT | DEVICE_AIRBAG | DEVICE_ROLLOVER | DEVICE_HARD_BRAKE
  | CHANNEL_HEALTHY | CHANNEL_UNAVAILABLE | SOURCE_CLOCK_SKEW | SOURCE_INTEGRITY_FAILURE | SOURCE_CONFLICT
datatype SafetyFusionReasonCode = FUSION_HIGH_RISK_INDICATOR | FUSION_DEVICE_AIRBAG | FUSION_DEVICE_ROLLOVER
  | FUSION_DEVICE_IMPACT | FUSION_HELP_REQUESTED | FUSION_NO_RESPONSE | FUSION_CHANNEL_UNAVAILABLE | FUSION_CORROBORATED
  | FUSION_CONTRADICTORY_INPUTS | FUSION_SPARSE_EVIDENCE | FUSION_STALE_EVIDENCE | FUSION_DEGRADED_DEVICE
  | FUSION_UNVERIFIED_SOURCE | FUSION_GUARD_DEGRADED | FUSION_GUARD_BLOCKED | FUSION_AUTONOMOUS_DOWNGRADE_BLOCKED
  | FUSION_HIGH_UNCERTAINTY | FUSION_HUMAN_AUTHORITY_REQUIRED
datatype SafetyFusionMissingEvidenceFlag = MISSING_RECENT_TRUSTED_SOURCE | MISSING_CORROBORATION | MISSING_CONTACT_OUTCOME
  | MISSING_DEVICE_HEALTH | MISSING_LOCATION_QUALITY | MISSING_GUARD_CLEARANCE
datatype RuleSetStatus = RS_CANDIDATE | RS_ACTIVE | RS_RETIRED

text \<open>The own keys of an object beyond those of its interface are kept by name.\<close>
record SafetyFusionEvidence =
  fe_evidenceId :: string
  fe_sourceRef :: string
  fe_sourceType :: SafetyFusionSourceType
  fe_code :: SafetyFusionEvidenceCode
  fe_direction :: SafetyFusionDirection
  fe_observedAt :: string
  fe_receivedAt :: string
  fe_reliability :: js_num
  fe_integrity :: SafetyFusionIntegrity
  fe_deviceCondition :: SafetyFusionDeviceCondition
  fe_corroborationGroup :: string
  fe_locationQuality :: FusionLocationQuality
  fe_otherKeys :: "string list"

text \<open>The contact state is \<open>None\<close> for \<open>NOT_STARTED\<close>.\<close>
record SafetyFusionInput =
  fi_tenantId :: string
  fi_caseId :: string
  fi_inputVersion :: js_num
  fi_currentSeverity :: SafetyFusionSeverity
  fi_contactState :: "HumanContactState option"
  fi_contactLastInteractionAt :: "string option"
  fi_evidence :: "SafetyFusionEvidence list"
  fi_requestedRuleSetVersion :: string
  fi_requestedThresholdVersion :: string
  fi_otherKeys :: "string list"

record SafetyFusionGuardResult =
  gr_kind :: SafetyFusionGuardKind
  gr_disposition :: SafetyFusionGuardDisposition
  gr_reasonCode :: string
  gr_guardVersion :: string
  gr_evaluatedInputVersion :: js_num

record SafetyFusionSourceContribution =
  sx_evidenceId :: string
  sx_sourceType :: SafetyFusionSourceType
  sx_code :: SafetyFusionEvidenceCode
  sx_signedContribution :: rat
  sx_freshnessFactor :: rat
  sx_reliabilityFactor :: rat
  sx_integrityFactor :: rat
  sx_deviceConditionFactor :: rat

record SafetyFusionRecommendation =
  fr_tenantId :: string
  fr_caseId :: string
  fr_inputVersion :: js_num
  fr_evaluatedAt :: string
  fr_recommendedSeverity :: SafetyFusionSeverity
  fr_currentSeverity :: SafetyFusionSeverity
  fr_score :: rat
  fr_confidence :: rat
  fr_uncertainty :: rat
  fr_reasonCodes :: "SafetyFusionReasonCode list"
  fr_missingEvidenceFlags :: "SafetyFusionMissingEvidenceFlag list"
  fr_contributions :: "SafetyFusionSourceContribution list"
  fr_guardResults :: "SafetyFusionGuardResult list"
  fr_requiresHumanReview :: bool
  fr_authority :: string
  fr_autonomousDowngradePermitted :: bool
  fr_autonomousClosurePermitted :: bool
  fr_autonomousDispatchPermitted :: bool
  fr_policyVersion :: string
  fr_ruleSetVersion :: string
  fr_thresholdVersion :: string
  fr_deterministicFingerprint :: string

record SafetyFusionRuleSetRegistryEntry =
  rs_schemaVersion :: string
  rs_ruleSetVersion :: string
  rs_thresholdVersion :: string
  rs_status :: RuleSetStatus
  rs_approvedBy :: string
  rs_approvedAt :: string
  rs_regressionEvidenceDigest :: string
  rs_rollbackRuleSetVersion :: "string option"
  rs_protectedAttributePolicy :: string
  rs_notes :: string

record SafetyFusionGuard =
  fg_kind :: SafetyFusionGuardKind
  fg_evaluate :: "SafetyFusionInput \<Rightarrow> string \<Rightarrow> unit + SafetyFusionGuardResult"

text \<open>What is digested: the recommendation without its fingerprint and the input it was made from.\<close>
record FusionMaterial =
  fm_input :: SafetyFusionInput
  fm_recommendation :: SafetyFusionRecommendation

section \<open>Tables\<close>

definition SAFETY_FUSION_RULE_SET_VERSION :: string where
  "SAFETY_FUSION_RULE_SET_VERSION = ''ros-eye.safety-fusion.rules.v1''"
definition SAFETY_FUSION_SAFE_DEFAULT_RULE_SET_VERSION :: string where
  "SAFETY_FUSION_SAFE_DEFAULT_RULE_SET_VERSION = ''ros-eye.safety-fusion.rules.safe-default.v0''"
definition SAFETY_FUSION_MAX_INPUTS :: nat where "SAFETY_FUSION_MAX_INPUTS = 256"

fun SEVERITY_RANK :: "SafetyFusionSeverity \<Rightarrow> nat" where
  "SEVERITY_RANK FS0 = 0" | "SEVERITY_RANK FS1 = 1" | "SEVERITY_RANK FS2 = 2" | "SEVERITY_RANK FS3 = 3" | "SEVERITY_RANK FS4 = 4"

definition SEVERITY_BY_RANK :: "SafetyFusionSeverity list" where
  "SEVERITY_BY_RANK = [FS0, FS1, FS2, FS3, FS4]"

instantiation SafetyFusionSeverity :: linorder
begin
definition less_eq_SafetyFusionSeverity :: "SafetyFusionSeverity \<Rightarrow> SafetyFusionSeverity \<Rightarrow> bool" where
  "less_eq_SafetyFusionSeverity a b \<longleftrightarrow> SEVERITY_RANK a \<le> SEVERITY_RANK b"
definition less_SafetyFusionSeverity :: "SafetyFusionSeverity \<Rightarrow> SafetyFusionSeverity \<Rightarrow> bool" where
  "less_SafetyFusionSeverity a b \<longleftrightarrow> SEVERITY_RANK a < SEVERITY_RANK b"
instance
proof
  fix a b :: SafetyFusionSeverity
  show "a \<le> b \<Longrightarrow> b \<le> a \<Longrightarrow> a = b" by (cases a; cases b) (simp_all add: less_eq_SafetyFusionSeverity_def)
qed (auto simp: less_eq_SafetyFusionSeverity_def less_SafetyFusionSeverity_def)
end

fun BASE_WEIGHT :: "SafetyFusionEvidenceCode \<Rightarrow> rat" where
  "BASE_WEIGHT PERSON_RESPONDED = 15 / 10"
| "BASE_WEIGHT PERSON_NOT_RESPONDING = 4"
| "BASE_WEIGHT COMMUNICATION_INTERRUPTED = 2"
| "BASE_WEIGHT HELP_REQUESTED = 4"
| "BASE_WEIGHT POSSIBLE_IMMEDIATE_DANGER = 45 / 10"
| "BASE_WEIGHT LOCATION_UNCERTAIN = 75 / 100"
| "BASE_WEIGHT MULTIPLE_PEOPLE_REPORTED = 2"
| "BASE_WEIGHT CONTRADICTORY_RESPONSE = 15 / 10"
| "BASE_WEIGHT ACCESSIBILITY_SUPPORT_REQUIRED = 25 / 100"
| "BASE_WEIGHT DEVICE_IMPACT = 25 / 10"
| "BASE_WEIGHT DEVICE_AIRBAG = 4"
| "BASE_WEIGHT DEVICE_ROLLOVER = 45 / 10"
| "BASE_WEIGHT DEVICE_HARD_BRAKE = 125 / 100"
| "BASE_WEIGHT CHANNEL_HEALTHY = 5 / 10"
| "BASE_WEIGHT CHANNEL_UNAVAILABLE = 15 / 10"
| "BASE_WEIGHT SOURCE_CLOCK_SKEW = 1"
| "BASE_WEIGHT SOURCE_INTEGRITY_FAILURE = 2"
| "BASE_WEIGHT SOURCE_CONFLICT = 15 / 10"

definition REASON_ORDER :: "SafetyFusionReasonCode list" where
  "REASON_ORDER = [FUSION_HIGH_RISK_INDICATOR, FUSION_DEVICE_AIRBAG, FUSION_DEVICE_ROLLOVER, FUSION_DEVICE_IMPACT,
     FUSION_HELP_REQUESTED, FUSION_NO_RESPONSE, FUSION_CHANNEL_UNAVAILABLE, FUSION_CORROBORATED,
     FUSION_CONTRADICTORY_INPUTS, FUSION_SPARSE_EVIDENCE, FUSION_STALE_EVIDENCE, FUSION_DEGRADED_DEVICE,
     FUSION_UNVERIFIED_SOURCE, FUSION_GUARD_DEGRADED, FUSION_GUARD_BLOCKED, FUSION_AUTONOMOUS_DOWNGRADE_BLOCKED,
     FUSION_HIGH_UNCERTAINTY, FUSION_HUMAN_AUTHORITY_REQUIRED]"

definition MISSING_ORDER :: "SafetyFusionMissingEvidenceFlag list" where
  "MISSING_ORDER = [MISSING_RECENT_TRUSTED_SOURCE, MISSING_CORROBORATION, MISSING_CONTACT_OUTCOME,
     MISSING_DEVICE_HEALTH, MISSING_LOCATION_QUALITY, MISSING_GUARD_CLEARANCE]"

definition ACTIVE_SAFETY_FUSION_RULE_SET :: SafetyFusionRuleSetRegistryEntry where
  "ACTIVE_SAFETY_FUSION_RULE_SET = \<lparr>rs_schemaVersion = SAFETY_FUSION_REGISTRY_SCHEMA_VERSION,
     rs_ruleSetVersion = SAFETY_FUSION_RULE_SET_VERSION, rs_thresholdVersion = SAFETY_FUSION_THRESHOLD_VERSION,
     rs_status = RS_ACTIVE, rs_approvedBy = ''ros-safety-governance'', rs_approvedAt = ''2026-07-30T00:00:00.000Z'',
     rs_regressionEvidenceDigest = ''sha256:91a86e13ed014be0803b749f39c947a96ddbd034c4292d3800a259ebfbc8891b'',
     rs_rollbackRuleSetVersion = Some SAFETY_FUSION_SAFE_DEFAULT_RULE_SET_VERSION,
     rs_protectedAttributePolicy = ''PROHIBITED'',
     rs_notes = ''Deterministic baseline. Recommendation only; human authority is mandatory for S3/S4 downgrade, resolution, diagnosis and dispatch.''\<rparr>"

definition findRuleSet :: "SafetyFusionRuleSetRegistryEntry list \<Rightarrow> string \<Rightarrow> unit + SafetyFusionRuleSetRegistryEntry option" where
  "findRuleSet entries version = Inr (find (\<lambda>e. rs_ruleSetVersion e = version) entries)"

section \<open>Helpers\<close>

definition fusionId :: "string \<Rightarrow> bool" where "fusionId v = token_pattern 1 127 v"
definition fusionTime :: "string \<Rightarrow> bool" where "fusionTime v \<longleftrightarrow> dateParse v \<noteq> None"
definition finiteUnit :: "js_num \<Rightarrow> bool" where
  "finiteUnit v \<longleftrightarrow> isFinite v \<and> \<not> num_lt v (Num 0) \<and> \<not> num_lt (Num 1) v"
definition clamp01 :: "rat \<Rightarrow> rat" where "clamp01 v = min 1 (max 0 v)"
definition round4 :: "rat \<Rightarrow> rat" where "round4 v = of_int \<lfloor>v * 10000 + 1 / 2\<rfloor> / 10000"

text \<open>The time and the number a validated text and value denote.\<close>
definition ms_of :: "string \<Rightarrow> int" where "ms_of x = (case dateParse x of Some t \<Rightarrow> t | None \<Rightarrow> 0)"
fun rat_of_num :: "js_num \<Rightarrow> rat" where "rat_of_num (Num q) = q" | "rat_of_num _ = 0"

definition maxSeverity :: "SafetyFusionSeverity \<Rightarrow> SafetyFusionSeverity \<Rightarrow> SafetyFusionSeverity" where
  "maxSeverity a b = SEVERITY_BY_RANK ! max (SEVERITY_RANK a) (SEVERITY_RANK b)"

definition severityFromScore :: "rat \<Rightarrow> SafetyFusionSeverity" where
  "severityFromScore score = (if 55 / 10 \<le> score then FS4 else if 3 \<le> score then FS3 else if 15 / 10 \<le> score then FS2
     else if 5 / 10 \<le> score then FS1 else FS0)"

definition evidenceAge :: "SafetyFusionEvidence \<Rightarrow> int \<Rightarrow> int" where
  "evidenceAge item evaluatedMs = max 0 (evaluatedMs - ms_of (fe_observedAt item))"

definition freshness :: "SafetyFusionEvidence \<Rightarrow> int \<Rightarrow> rat" where
  "freshness item evaluatedMs = (let age = evidenceAge item evaluatedMs in
     if evaluatedMs + 5 * 60 * 1000 < ms_of (fe_observedAt item) then 0
     else if age \<le> SAFETY_FUSION_FRESH_EVIDENCE_MS then 1
     else if age \<le> SAFETY_FUSION_MAX_EVIDENCE_AGE_MS then 55 / 100 else 15 / 100)"

definition isRecentTrusted :: "SafetyFusionEvidence \<Rightarrow> int \<Rightarrow> bool" where
  "isRecentTrusted item evaluatedMs \<longleftrightarrow> fe_integrity item = FI_VERIFIED \<and> \<not> num_lt (fe_reliability item) (Num (7 / 10)) \<and>
     fe_deviceCondition item \<noteq> DC_UNKNOWN \<and> evidenceAge item evaluatedMs \<le> SAFETY_FUSION_FRESH_EVIDENCE_MS"

fun contactRiskBoost :: "HumanContactState option \<Rightarrow> rat" where
  "contactRiskBoost (Some HC_NO_RESPONSE) = 2"
| "contactRiskBoost (Some HC_UNREACHABLE) = 2"
| "contactRiskBoost (Some HC_DISCONNECTED) = 15 / 10"
| "contactRiskBoost (Some HC_HUMAN_REVIEW) = 5 / 10"
| "contactRiskBoost (Some HC_ESCALATED) = 5 / 10"
| "contactRiskBoost (Some HC_OPERATOR_TAKEOVER) = 5 / 10"
| "contactRiskBoost _ = 0"

definition contribution :: "int \<Rightarrow> SafetyFusionEvidence \<Rightarrow> SafetyFusionSourceContribution" where
  "contribution evaluatedMs item =
    (let freshnessFactor = freshness item evaluatedMs;
         reliabilityFactor = round4 (rat_of_num (fe_reliability item));
         integrityFactor = (if fe_integrity item = FI_VERIFIED then 1 else if fe_integrity item = FI_UNVERIFIED then 55 / 100 else 0);
         deviceConditionFactor = (if fe_deviceCondition item = DC_HEALTHY then 1
           else if fe_deviceCondition item = DC_DEGRADED then 7 / 10 else 5 / 10);
         direction = (if fe_direction item = SUPPORTS_RISK then 1 else if fe_direction item = SUPPORTS_SAFETY then -1 else 0);
         signed = BASE_WEIGHT (fe_code item) * freshnessFactor * reliabilityFactor * integrityFactor * deviceConditionFactor * direction;
         bounded = (if signed < 0 then max (- 125 / 100) signed else signed)
     in \<lparr>sx_evidenceId = fe_evidenceId item, sx_sourceType = fe_sourceType item, sx_code = fe_code item,
          sx_signedContribution = round4 bounded, sx_freshnessFactor = round4 freshnessFactor,
          sx_reliabilityFactor = reliabilityFactor, sx_integrityFactor = integrityFactor,
          sx_deviceConditionFactor = deviceConditionFactor\<rparr>)"

fun evidence_reasons :: "SafetyFusionEvidenceCode \<Rightarrow> SafetyFusionReasonCode list" where
  "evidence_reasons POSSIBLE_IMMEDIATE_DANGER = [FUSION_HIGH_RISK_INDICATOR]"
| "evidence_reasons PERSON_NOT_RESPONDING = [FUSION_HIGH_RISK_INDICATOR]"
| "evidence_reasons HELP_REQUESTED = [FUSION_HELP_REQUESTED]"
| "evidence_reasons DEVICE_IMPACT = [FUSION_DEVICE_IMPACT]"
| "evidence_reasons DEVICE_AIRBAG = [FUSION_DEVICE_AIRBAG]"
| "evidence_reasons DEVICE_ROLLOVER = [FUSION_DEVICE_ROLLOVER]"
| "evidence_reasons CHANNEL_UNAVAILABLE = [FUSION_CHANNEL_UNAVAILABLE]"
| "evidence_reasons COMMUNICATION_INTERRUPTED = [FUSION_CHANNEL_UNAVAILABLE]"
| "evidence_reasons CONTRADICTORY_RESPONSE = [FUSION_CONTRADICTORY_INPUTS]"
| "evidence_reasons SOURCE_CONFLICT = [FUSION_CONTRADICTORY_INPUTS]"
| "evidence_reasons _ = []"

definition hasContradiction :: "SafetyFusionEvidence list \<Rightarrow> bool" where
  "hasContradiction evidence \<longleftrightarrow>
    (let codes = set (map fe_code evidence) in
     CONTRADICTORY_RESPONSE \<in> codes \<or> SOURCE_CONFLICT \<in> codes \<or>
     PERSON_RESPONDED \<in> codes \<and> PERSON_NOT_RESPONDING \<in> codes \<or>
     CHANNEL_HEALTHY \<in> codes \<and> CHANNEL_UNAVAILABLE \<in> codes \<or>
     (\<exists>group \<in> set (map fe_corroborationGroup evidence).
        (group, SUPPORTS_RISK) \<in> set (map (\<lambda>e. (fe_corroborationGroup e, fe_direction e)) evidence) \<and>
        (group, SUPPORTS_SAFETY) \<in> set (map (\<lambda>e. (fe_corroborationGroup e, fe_direction e)) evidence)))"

definition fusion_guard :: "SafetyFusionGuardKind \<Rightarrow> SafetyFusionGuardDisposition \<Rightarrow> string \<Rightarrow> string \<Rightarrow> js_num \<Rightarrow>
    SafetyFusionGuardResult" where
  "fusion_guard kind disposition reasonCode guardVersion version = \<lparr>gr_kind = kind, gr_disposition = disposition,
     gr_reasonCode = reasonCode, gr_guardVersion = guardVersion, gr_evaluatedInputVersion = version\<rparr>"

definition blockedGuard :: "SafetyFusionGuardKind \<Rightarrow> js_num \<Rightarrow> string \<Rightarrow> SafetyFusionGuardResult" where
  "blockedGuard kind version reasonCode =
     fusion_guard kind GD_BLOCK_AND_REVIEW reasonCode ''ros-eye.safety-fusion.guard.unavailable.v1'' version"

section \<open>Validation\<close>

definition validEvidence :: "SafetyFusionEvidence \<Rightarrow> bool" where
  "validEvidence e \<longleftrightarrow> fusionId (fe_evidenceId e) \<and> fusionId (fe_sourceRef e) \<and> fusionTime (fe_observedAt e) \<and>
     fusionTime (fe_receivedAt e) \<and> finiteUnit (fe_reliability e) \<and> fusionId (fe_corroborationGroup e)"

definition validFusionInput :: "SafetyFusionInput \<Rightarrow> bool" where
  "validFusionInput i \<longleftrightarrow> fusionId (fi_tenantId i) \<and> fusionId (fi_caseId i) \<and> isInteger (fi_inputVersion i) \<and>
     \<not> num_lt (fi_inputVersion i) (Num 1) \<and> fusionId (fi_requestedRuleSetVersion i) \<and>
     fusionId (fi_requestedThresholdVersion i) \<and> length (fi_evidence i) \<le> SAFETY_FUSION_MAX_INPUTS \<and>
     list_all validEvidence (fi_evidence i)"

definition validRegistryEntry :: "SafetyFusionRuleSetRegistryEntry option \<Rightarrow> SafetyFusionInput \<Rightarrow> bool" where
  "validRegistryEntry entry i \<longleftrightarrow> (case entry of None \<Rightarrow> False | Some e \<Rightarrow>
     rs_schemaVersion e = SAFETY_FUSION_REGISTRY_SCHEMA_VERSION \<and> rs_status e = RS_ACTIVE \<and>
     rs_ruleSetVersion e = fi_requestedRuleSetVersion i \<and> rs_thresholdVersion e = fi_requestedThresholdVersion i \<and>
     rs_thresholdVersion e = SAFETY_FUSION_THRESHOLD_VERSION \<and> fusionId (rs_approvedBy e) \<and> fusionTime (rs_approvedAt e) \<and>
     (take 7 (rs_regressionEvidenceDigest e) = ''sha256:'' \<and> hex64 (drop 7 (rs_regressionEvidenceDigest e))) \<and>
     fusionId (case rs_rollbackRuleSetVersion e of Some v \<Rightarrow> v | None \<Rightarrow> []) \<and>
     rs_rollbackRuleSetVersion e \<noteq> Some (rs_ruleSetVersion e) \<and> rs_protectedAttributePolicy e = ''PROHIBITED'')"

definition validGuardResult :: "SafetyFusionGuardResult \<Rightarrow> SafetyFusionGuardKind \<Rightarrow> js_num \<Rightarrow> bool" where
  "validGuardResult r kind version \<longleftrightarrow> gr_kind r = kind \<and> fusionId (gr_reasonCode r) \<and> fusionId (gr_guardVersion r) \<and>
     gr_evaluatedInputVersion r = version \<and> version \<noteq> NaN"

section \<open>Evaluation\<close>

text \<open>What the evaluation reads off the evidence and the guards.\<close>
record FusionView =
  fv_contributions :: "SafetyFusionSourceContribution list"
  fv_recentTrusted :: nat
  fv_recentRiskSources :: nat
  fv_riskGroups :: nat
  fv_reasons :: "SafetyFusionReasonCode list"
  fv_contradictory :: bool
  fv_allStale :: bool
  fv_tooOld :: bool
  fv_degradedDevice :: bool
  fv_unverified :: bool
  fv_unlocated :: bool
  fv_guardBlocked :: bool
  fv_guardDegraded :: bool
  fv_unguarded :: bool

definition fusion_view :: "SafetyFusionEvidence list \<Rightarrow> int \<Rightarrow> SafetyFusionGuardResult list \<Rightarrow> FusionView" where
  "fusion_view evidence evaluatedMs guards =
    \<lparr>fv_contributions = map (contribution evaluatedMs) evidence,
      fv_recentTrusted = length (filter (\<lambda>e. isRecentTrusted e evaluatedMs) evidence),
      fv_recentRiskSources = length (remdups (map fe_sourceType
        (filter (\<lambda>e. isRecentTrusted e evaluatedMs \<and> fe_direction e = SUPPORTS_RISK) evidence))),
      fv_riskGroups = length (remdups (map fe_corroborationGroup (filter (\<lambda>e. fe_direction e = SUPPORTS_RISK) evidence))),
      fv_reasons = concat (map (\<lambda>e. evidence_reasons (fe_code e)) evidence),
      fv_contradictory = hasContradiction evidence,
      fv_allStale = (evidence \<noteq> [] \<and> (\<forall>e \<in> set evidence. SAFETY_FUSION_FRESH_EVIDENCE_MS < evidenceAge e evaluatedMs)),
      fv_tooOld = (\<exists>e \<in> set evidence. SAFETY_FUSION_MAX_EVIDENCE_AGE_MS < evidenceAge e evaluatedMs),
      fv_degradedDevice = (\<exists>e \<in> set evidence. fe_deviceCondition e \<noteq> DC_HEALTHY),
      fv_unverified = (\<exists>e \<in> set evidence. fe_integrity e \<noteq> FI_VERIFIED),
      fv_unlocated = (\<forall>e \<in> set evidence. fe_locationQuality e = LQ_UNKNOWN),
      fv_guardBlocked = (\<exists>g \<in> set guards. gr_disposition g = GD_BLOCK_AND_REVIEW),
      fv_guardDegraded = (\<exists>g \<in> set guards. gr_disposition g = GD_DEGRADED),
      fv_unguarded = (guards = [])\<rparr>"

definition risk_contributions :: "FusionView \<Rightarrow> rat list" where
  "risk_contributions v = filter (\<lambda>x. 0 < x) (map sx_signedContribution (fv_contributions v))"

definition safety_offset :: "FusionView \<Rightarrow> rat" where
  "safety_offset v = min (125 / 100) \<bar>sum_list (filter (\<lambda>x. x < 0) (map sx_signedContribution (fv_contributions v)))\<bar>"

definition corroborated :: "FusionView \<Rightarrow> bool" where
  "corroborated v \<longleftrightarrow> 2 \<le> fv_recentRiskSources v \<and> 1 \<le> fv_riskGroups v"

definition fusion_score :: "FusionView \<Rightarrow> HumanContactState option \<Rightarrow> rat" where
  "fusion_score v contact =
    (let weighed = sum_list (risk_contributions v) + (if corroborated v then 75 / 100 else 0) + contactRiskBoost contact;
         settled = (if fv_contradictory v then weighed + 5 / 10
           else if \<not> fv_guardBlocked v \<and> \<not> fv_allStale v \<and> 2 \<le> fv_recentTrusted v \<and> contactRiskBoost contact = 0
           then max 0 (weighed - safety_offset v) else weighed)
     in if fv_guardBlocked v then max settled 3 else settled)"

definition contact_pending :: "HumanContactState option \<Rightarrow> bool" where
  "contact_pending contact \<longleftrightarrow> (case contact of None \<Rightarrow> True | Some s \<Rightarrow> s \<in> set [HC_CREATED, HC_CONSENT_PENDING,
     HC_LANGUAGE_SELECTION, HC_CONTACTING, HC_AWAITING_RESPONSE, HC_PARTIAL_RESPONSE])"

definition fusion_missing :: "FusionView \<Rightarrow> HumanContactState option \<Rightarrow> SafetyFusionMissingEvidenceFlag list" where
  "fusion_missing v contact = filter (\<lambda>flag. case flag of
       MISSING_RECENT_TRUSTED_SOURCE \<Rightarrow> fv_recentTrusted v < 2
     | MISSING_CORROBORATION \<Rightarrow> risk_contributions v \<noteq> [] \<and> fv_recentRiskSources v < 2
     | MISSING_CONTACT_OUTCOME \<Rightarrow> contact_pending contact
     | MISSING_DEVICE_HEALTH \<Rightarrow> fv_degradedDevice v
     | MISSING_LOCATION_QUALITY \<Rightarrow> fv_unlocated v
     | MISSING_GUARD_CLEARANCE \<Rightarrow> fv_guardDegraded v \<or> fv_guardBlocked v \<or> fv_unguarded v) MISSING_ORDER"

definition contact_silent :: "HumanContactState option \<Rightarrow> bool" where
  "contact_silent contact \<longleftrightarrow> contact = Some HC_NO_RESPONSE \<or> contact = Some HC_UNREACHABLE"

definition fusion_uncertainty :: "FusionView \<Rightarrow> HumanContactState option \<Rightarrow> rat" where
  "fusion_uncertainty v contact = clamp01 (5 / 100 + (if fv_contradictory v then 3 / 10 else 0) +
     (if fv_recentTrusted v < 2 then 25 / 100 else 0) + (if fv_allStale v then 2 / 10 else 0) +
     (if fv_degradedDevice v then 1 / 10 else 0) + (if fv_unverified v then 15 / 100 else 0) +
     (if fv_guardDegraded v then 2 / 10 else 0) + (if fv_guardBlocked v then 5 / 10 else 0) +
     (if contact_silent contact \<or> contact = Some HC_DISCONNECTED then 15 / 100 else 0) +
     min (2 / 10) (of_nat (length (fusion_missing v contact)) * (3 / 100)))"

definition fusion_confidence :: "FusionView \<Rightarrow> rat \<Rightarrow> rat" where
  "fusion_confidence v uncertainty =
    (let contributions = fv_contributions v;
         quality = (if contributions = [] then 0 else sum_list (map (\<lambda>c. sx_freshnessFactor c * sx_reliabilityFactor c *
           sx_integrityFactor c * sx_deviceConditionFactor c) contributions) / of_nat (length contributions))
     in round4 (clamp01 (quality * (1 - uncertainty * (65 / 100)))))"

definition human_review :: "FusionView \<Rightarrow> SafetyFusionSeverity \<Rightarrow> rat \<Rightarrow> bool" where
  "human_review v recommended uncertainty \<longleftrightarrow> SEVERITY_RANK FS3 \<le> SEVERITY_RANK recommended \<or> 3 / 10 \<le> uncertainty \<or>
     fv_contradictory v \<or> fv_allStale v \<or> fv_recentTrusted v < 2 \<or> fv_guardBlocked v \<or> fv_guardDegraded v"

definition fusion_reasons :: "FusionView \<Rightarrow> HumanContactState option \<Rightarrow> SafetyFusionSeverity \<Rightarrow> SafetyFusionSeverity \<Rightarrow>
    rat \<Rightarrow> SafetyFusionSeverity \<Rightarrow> SafetyFusionReasonCode list" where
  "fusion_reasons v contact raw current uncertainty recommended =
    (let boost = 0 < contactRiskBoost contact in filter (\<lambda>reason. reason \<in> set (fv_reasons v) \<or> (case reason of
       FUSION_CORROBORATED \<Rightarrow> corroborated v
     | FUSION_NO_RESPONSE \<Rightarrow> boost \<and> contact_silent contact
     | FUSION_CHANNEL_UNAVAILABLE \<Rightarrow> boost \<and> \<not> contact_silent contact
     | FUSION_CONTRADICTORY_INPUTS \<Rightarrow> fv_contradictory v
     | FUSION_SPARSE_EVIDENCE \<Rightarrow> fv_recentTrusted v < 2
     | FUSION_STALE_EVIDENCE \<Rightarrow> fv_allStale v \<or> fv_tooOld v
     | FUSION_DEGRADED_DEVICE \<Rightarrow> fv_degradedDevice v
     | FUSION_UNVERIFIED_SOURCE \<Rightarrow> fv_unverified v
     | FUSION_GUARD_DEGRADED \<Rightarrow> fv_guardDegraded v
     | FUSION_GUARD_BLOCKED \<Rightarrow> fv_guardBlocked v
     | FUSION_HIGH_UNCERTAINTY \<Rightarrow> 35 / 100 \<le> uncertainty
     | FUSION_AUTONOMOUS_DOWNGRADE_BLOCKED \<Rightarrow> SEVERITY_RANK raw < SEVERITY_RANK current
     | FUSION_HUMAN_AUTHORITY_REQUIRED \<Rightarrow> human_review v recommended uncertainty
     | _ \<Rightarrow> False)) REASON_ORDER)"

fun kind_order :: "SafetyFusionGuardKind \<Rightarrow> int" where
  "kind_order GK_ADVERSARIAL_INPUT = 0" | "kind_order GK_DATA_QUALITY = 1" | "kind_order GK_DRIFT = 2"
| "kind_order GK_OUT_OF_DISTRIBUTION = 3"

definition fingerprinted :: "(FusionMaterial \<Rightarrow> unit + string) \<Rightarrow> SafetyFusionInput \<Rightarrow> SafetyFusionRecommendation \<Rightarrow>
    unit + SafetyFusionRecommendation" where
  "fingerprinted digest i r = ebind (digest \<lparr>fm_input = i, fm_recommendation = r\<rparr>)
     (\<lambda>x. Inr (r\<lparr>fr_deterministicFingerprint := x\<rparr>))"

definition blockedRecommendation :: "(FusionMaterial \<Rightarrow> unit + string) \<Rightarrow> SafetyFusionInput \<Rightarrow> string \<Rightarrow>
    SafetyFusionGuardResult list \<Rightarrow> unit + SafetyFusionRecommendation" where
  "blockedRecommendation digest i evaluatedAt guards = fingerprinted digest i
    \<lparr>fr_tenantId = (if fusionId (fi_tenantId i) then fi_tenantId i else ''invalid-tenant''),
      fr_caseId = (if fusionId (fi_caseId i) then fi_caseId i else ''invalid-case''),
      fr_inputVersion = (if isInteger (fi_inputVersion i) then fi_inputVersion i else Num 0),
      fr_evaluatedAt = evaluatedAt, fr_recommendedSeverity = maxSeverity (fi_currentSeverity i) FS3,
      fr_currentSeverity = fi_currentSeverity i, fr_score = 3, fr_confidence = 0, fr_uncertainty = 1,
      fr_reasonCodes = [FUSION_GUARD_BLOCKED, FUSION_HIGH_UNCERTAINTY, FUSION_HUMAN_AUTHORITY_REQUIRED],
      fr_missingEvidenceFlags = [MISSING_GUARD_CLEARANCE], fr_contributions = [], fr_guardResults = guards,
      fr_requiresHumanReview = True, fr_authority = ''RECOMMENDATION_ONLY'', fr_autonomousDowngradePermitted = False,
      fr_autonomousClosurePermitted = False, fr_autonomousDispatchPermitted = False,
      fr_policyVersion = SAFETY_FUSION_POLICY_VERSION,
      fr_ruleSetVersion = (if fusionId (fi_requestedRuleSetVersion i) then fi_requestedRuleSetVersion i
        else SAFETY_FUSION_SAFE_DEFAULT_RULE_SET_VERSION),
      fr_thresholdVersion = (if fusionId (fi_requestedThresholdVersion i) then fi_requestedThresholdVersion i
        else SAFETY_FUSION_THRESHOLD_VERSION),
      fr_deterministicFingerprint = []\<rparr>"

text \<open>The recommendation before its fingerprint.\<close>
definition assessed :: "(string \<Rightarrow> int list) \<Rightarrow> SafetyFusionInput \<Rightarrow> string \<Rightarrow> SafetyFusionGuardResult list \<Rightarrow>
    SafetyFusionRuleSetRegistryEntry \<Rightarrow> SafetyFusionRecommendation" where
  "assessed loc i evaluatedAt guards entry =
    (let evidence = sort_key (\<lambda>e. loc (fe_evidenceId e)) (fi_evidence i);
         v = fusion_view evidence (ms_of evaluatedAt) guards;
         contact = fi_contactState i;
         score = round4 (fusion_score v contact);
         uncertainty = fusion_uncertainty v contact;
         raw = severityFromScore score;
         recommended = maxSeverity raw (fi_currentSeverity i)
     in \<lparr>fr_tenantId = fi_tenantId i, fr_caseId = fi_caseId i, fr_inputVersion = fi_inputVersion i,
          fr_evaluatedAt = evaluatedAt, fr_recommendedSeverity = recommended, fr_currentSeverity = fi_currentSeverity i,
          fr_score = score, fr_confidence = fusion_confidence v uncertainty, fr_uncertainty = round4 uncertainty,
          fr_reasonCodes = fusion_reasons v contact raw (fi_currentSeverity i) uncertainty recommended,
          fr_missingEvidenceFlags = fusion_missing v contact, fr_contributions = fv_contributions v,
          fr_guardResults = sort_key (\<lambda>g. (kind_order (gr_kind g), loc (gr_guardVersion g))) guards,
          fr_requiresHumanReview = human_review v recommended uncertainty, fr_authority = ''RECOMMENDATION_ONLY'',
          fr_autonomousDowngradePermitted = False, fr_autonomousClosurePermitted = False,
          fr_autonomousDispatchPermitted = False, fr_policyVersion = SAFETY_FUSION_POLICY_VERSION,
          fr_ruleSetVersion = rs_ruleSetVersion entry, fr_thresholdVersion = rs_thresholdVersion entry,
          fr_deterministicFingerprint = []\<rparr>)"

definition EPOCH :: string where "EPOCH = ''1970-01-01T00:00:00.000Z''"

definition evaluateSafetyFusion :: "(string \<Rightarrow> int list) \<Rightarrow> (FusionMaterial \<Rightarrow> unit + string) \<Rightarrow> SafetyFusionInput \<Rightarrow> string \<Rightarrow>
    SafetyFusionGuardResult list \<Rightarrow> SafetyFusionRuleSetRegistryEntry \<Rightarrow> unit + SafetyFusionRecommendation" where
  "evaluateSafetyFusion loc digest i evaluatedAt guards entry =
    (if \<not> validFusionInput i \<or> \<not> fusionTime evaluatedAt \<or> \<not> validRegistryEntry (Some entry) i
     then blockedRecommendation digest i (if fusionTime evaluatedAt then evaluatedAt else EPOCH) guards
     else fingerprinted digest i (assessed loc i evaluatedAt guards entry))"

section \<open>The service\<close>

definition fusionClock :: "unit + string \<Rightarrow> string option" where
  "fusionClock now = (case now of Inl _ \<Rightarrow> None | Inr v \<Rightarrow> if fusionTime v then Some v else None)"

text \<open>One guard, a failure of which blocks.\<close>
definition guarded :: "SafetyFusionInput \<Rightarrow> string \<Rightarrow> SafetyFusionGuard \<Rightarrow> SafetyFusionGuardResult" where
  "guarded i evaluatedAt g = (case fg_evaluate g i evaluatedAt of
     Inl _ \<Rightarrow> blockedGuard (fg_kind g) (fi_inputVersion i) ''guard_unavailable''
   | Inr r \<Rightarrow> if validGuardResult r (fg_kind g) (fi_inputVersion i) then r
       else blockedGuard (fg_kind g) (fi_inputVersion i) ''guard_contract_invalid'')"

record FusionPorts =
  fp_findRuleSet :: "string \<Rightarrow> unit + SafetyFusionRuleSetRegistryEntry option"
  fp_guards :: "SafetyFusionGuard list"
  fp_now :: "unit + string"
  fp_digest :: "FusionMaterial \<Rightarrow> unit + string"
  fp_locale :: "string \<Rightarrow> int list"

definition fusion_recommend :: "FusionPorts \<Rightarrow> SafetyFusionInput \<Rightarrow> unit + SafetyFusionRecommendation" where
  "fusion_recommend F i =
    (case fusionClock (fp_now F) of
       None \<Rightarrow> blockedRecommendation (fp_digest F) i EPOCH []
     | Some evaluatedAt \<Rightarrow>
       if \<not> validFusionInput i then blockedRecommendation (fp_digest F) i evaluatedAt []
       else let entry = (case fp_findRuleSet F (fi_requestedRuleSetVersion i) of Inl _ \<Rightarrow> None | Inr e \<Rightarrow> e) in
         if \<not> validRegistryEntry entry i
         then blockedRecommendation (fp_digest F) i evaluatedAt
           [blockedGuard GK_DATA_QUALITY (fi_inputVersion i) ''registry_entry_invalid'']
         else evaluateSafetyFusion (fp_locale F) (fp_digest F) i evaluatedAt
           (map (guarded i evaluatedAt) (sort_key (\<lambda>g. kind_order (fg_kind g)) (fp_guards F))) (the entry))"

section \<open>The guards\<close>

definition dataQualityGuard :: SafetyFusionGuard where
  "dataQualityGuard = \<lparr>fg_kind = GK_DATA_QUALITY, fg_evaluate = (\<lambda>i evaluatedAt.
     let version = ''ros-eye.safety-fusion.guard.data-quality.v1''; result = (\<lambda>d reason. Inr (fusion_guard GK_DATA_QUALITY d reason version (fi_inputVersion i))) in
     if \<not> validFusionInput i \<or> \<not> fusionTime evaluatedAt then result GD_BLOCK_AND_REVIEW ''invalid_input_contract''
     else let invalidCount = length (filter (\<lambda>e. fe_integrity e = FI_INVALID) (fi_evidence i));
              staleCount = length (filter (\<lambda>e. SAFETY_FUSION_MAX_EVIDENCE_AGE_MS < evidenceAge e (ms_of evaluatedAt)) (fi_evidence i)) in
       if 0 < invalidCount then result GD_BLOCK_AND_REVIEW ''invalid_source_integrity''
       else if fi_evidence i = [] \<or> length (fi_evidence i) < 2 * staleCount then result GD_DEGRADED ''sparse_or_stale_evidence''
       else result GD_CLEAR ''data_quality_clear'')\<rparr>"

definition occurrences :: "('a \<Rightarrow> 'b) \<Rightarrow> 'a list \<Rightarrow> nat list" where
  "occurrences f xs = map (\<lambda>x. length (filter (\<lambda>y. f y = f x) xs)) xs"

definition driftGuard :: SafetyFusionGuard where
  "driftGuard = \<lparr>fg_kind = GK_DRIFT, fg_evaluate = (\<lambda>i evaluatedAt.
     let version = ''ros-eye.safety-fusion.guard.drift.v1''; result = (\<lambda>d reason. Inr (fusion_guard GK_DRIFT d reason version (fi_inputVersion i))) in
     if length (fi_evidence i) < 4 then result GD_CLEAR ''insufficient_volume_for_drift''
     else if (85 / 100 :: rat) < of_nat (foldr max (occurrences fe_sourceType (fi_evidence i)) 0) / of_nat (length (fi_evidence i))
     then result GD_DEGRADED ''single_source_distribution_shift''
     else result GD_CLEAR ''distribution_within_baseline'')\<rparr>"

definition outOfDistributionGuard :: SafetyFusionGuard where
  "outOfDistributionGuard = \<lparr>fg_kind = GK_OUT_OF_DISTRIBUTION, fg_evaluate = (\<lambda>i evaluatedAt.
     Inr (fusion_guard GK_OUT_OF_DISTRIBUTION GD_CLEAR ''input_within_declared_vocabulary''
       ''ros-eye.safety-fusion.guard.ood.v1'' (fi_inputVersion i)))\<rparr>"

text \<open>A second item under an identifier whose text differs from the first.\<close>
fun conflicting_duplicate :: "(string \<Rightarrow> SafetyFusionEvidence option) \<Rightarrow> SafetyFusionEvidence list \<Rightarrow> bool" where
  "conflicting_duplicate seen [] = False"
| "conflicting_duplicate seen (e # es) = ((case seen (fe_evidenceId e) of None \<Rightarrow> False | Some old \<Rightarrow> old \<noteq> e) \<or>
     conflicting_duplicate (seen(fe_evidenceId e \<mapsto> e)) es)"

definition adversarialInputGuard :: SafetyFusionGuard where
  "adversarialInputGuard = \<lparr>fg_kind = GK_ADVERSARIAL_INPUT, fg_evaluate = (\<lambda>i evaluatedAt.
     let version = ''ros-eye.safety-fusion.guard.adversarial.v1''; result = (\<lambda>d reason. Inr (fusion_guard GK_ADVERSARIAL_INPUT d reason version (fi_inputVersion i))) in
     if conflicting_duplicate Map.empty (fi_evidence i) then result GD_BLOCK_AND_REVIEW ''conflicting_duplicate_evidence_id''
     else if \<exists>n \<in> set (occurrences fe_sourceRef (fi_evidence i)). 16 < n then result GD_DEGRADED ''source_repetition_anomaly''
     else result GD_CLEAR ''no_adversarial_pattern_detected'')\<rparr>"

definition DEFAULT_SAFETY_FUSION_GUARDS :: "SafetyFusionGuard list" where
  "DEFAULT_SAFETY_FUSION_GUARDS = [dataQualityGuard, driftGuard, outOfDistributionGuard, adversarialInputGuard]"

section \<open>Order and bounds\<close>

lemma maxSeverity_max [simp]: "maxSeverity a b = max a b"
  by (cases a; cases b) (simp_all add: maxSeverity_def SEVERITY_BY_RANK_def max_def less_eq_SafetyFusionSeverity_def)

lemma round4_mono: "x \<le> y \<Longrightarrow> round4 x \<le> round4 y"
  by (auto simp: round4_def intro!: divide_right_mono floor_mono)

lemma round4_int: "round4 (of_int n) = of_int n"
proof -
  have "\<lfloor>of_int n * 10000 + 1 / 2 :: rat\<rfloor> = n * 10000" by (rule floor_unique) simp_all
  then show ?thesis by (simp add: round4_def)
qed

lemma round4_unit: "0 \<le> x \<Longrightarrow> x \<le> 1 \<Longrightarrow> 0 \<le> round4 x \<and> round4 x \<le> 1"
proof -
  have "round4 0 = 0" "round4 1 = 1" using round4_int [of 0] round4_int [of 1] by simp_all
  then show "0 \<le> x \<Longrightarrow> x \<le> 1 \<Longrightarrow> 0 \<le> round4 x \<and> round4 x \<le> 1" using round4_mono [of 0 x] round4_mono [of x 1] by simp
qed

lemma clamp01_unit: "0 \<le> clamp01 x \<and> clamp01 x \<le> 1"
  by (simp add: clamp01_def)

lemma fingerprinted_Inr:
  "fingerprinted digest i r = Inr q \<longleftrightarrow>
    (\<exists>x. digest \<lparr>fm_input = i, fm_recommendation = r\<rparr> = Inr x \<and> q = r\<lparr>fr_deterministicFingerprint := x\<rparr>)"
  by (auto simp: fingerprinted_def ebind_def split: sum.split)

text \<open>What every recommendation promises, blocked or assessed.\<close>
definition recommendation_ok :: "SafetyFusionInput \<Rightarrow> SafetyFusionRecommendation \<Rightarrow> bool" where
  "recommendation_ok i r \<longleftrightarrow> fi_currentSeverity i \<le> fr_recommendedSeverity r \<and>
     (FS3 \<le> fr_recommendedSeverity r \<longrightarrow> fr_requiresHumanReview r) \<and>
     (fr_requiresHumanReview r \<longleftrightarrow> FUSION_HUMAN_AUTHORITY_REQUIRED \<in> set (fr_reasonCodes r)) \<and>
     \<not> fr_autonomousDowngradePermitted r \<and> \<not> fr_autonomousClosurePermitted r \<and> \<not> fr_autonomousDispatchPermitted r \<and>
     0 \<le> fr_confidence r \<and> fr_confidence r \<le> 1 \<and> 0 \<le> fr_uncertainty r \<and> fr_uncertainty r \<le> 1 \<and>
     distinct (fr_reasonCodes r) \<and> distinct (fr_missingEvidenceFlags r)"

text \<open>A blocked case: at least \<open>S3\<close>, for a human.\<close>
definition blocked_ok :: "SafetyFusionRecommendation \<Rightarrow> bool" where
  "blocked_ok r \<longleftrightarrow> FS3 \<le> fr_recommendedSeverity r \<and> fr_requiresHumanReview r \<and> FUSION_GUARD_BLOCKED \<in> set (fr_reasonCodes r)"

lemma blockedRecommendation_ok:
  assumes "blockedRecommendation digest i at' guards = Inr r"
  shows "recommendation_ok i r \<and> blocked_ok r"
  using assms by (auto simp: blockedRecommendation_def fingerprinted_Inr recommendation_ok_def blocked_ok_def)

lemma in_orders: "flag \<in> set MISSING_ORDER" "reason \<in> set REASON_ORDER"
  by (cases flag, simp_all add: MISSING_ORDER_def) (cases reason, simp_all add: REASON_ORDER_def)

lemma fusion_reasons_authority:
  "FUSION_HUMAN_AUTHORITY_REQUIRED \<in> set (fusion_reasons (fusion_view evidence ms guards) contact raw current u recommended) \<longleftrightarrow>
   human_review (fusion_view evidence ms guards) recommended u"
proof -
  have "FUSION_HUMAN_AUTHORITY_REQUIRED \<notin> set (evidence_reasons c)" for c by (cases c) simp_all
  then have "FUSION_HUMAN_AUTHORITY_REQUIRED \<notin> set (fv_reasons (fusion_view evidence ms guards))"
    by (simp add: fusion_view_def)
  then show ?thesis
    by (simp only: fusion_reasons_def Let_def set_filter mem_Collect_eq in_orders SafetyFusionReasonCode.case simp_thms)
qed

lemma fusion_reasons_blocked:
  "fv_guardBlocked v \<Longrightarrow> FUSION_GUARD_BLOCKED \<in> set (fusion_reasons v contact raw current u recommended)"
  by (simp only: fusion_reasons_def Let_def set_filter mem_Collect_eq in_orders SafetyFusionReasonCode.case simp_thms)

lemma distinct_order: "distinct REASON_ORDER" "distinct MISSING_ORDER"
  by (simp_all add: REASON_ORDER_def MISSING_ORDER_def)

lemma assessed_ok: "recommendation_ok i (assessed loc i at' guards entry)"
proof -
  let ?v = "fusion_view (sort_key (\<lambda>e. loc (fe_evidenceId e)) (fi_evidence i)) (ms_of at') guards"
  have "0 \<le> fusion_uncertainty ?v c \<and> fusion_uncertainty ?v c \<le> 1" for c
    by (simp add: fusion_uncertainty_def clamp01_unit)
  moreover have "0 \<le> fusion_confidence ?v u \<and> fusion_confidence ?v u \<le> 1" for u
    unfolding fusion_confidence_def Let_def by (rule round4_unit) (simp_all add: clamp01_unit)
  moreover have "human_review ?v FS3 u" "human_review ?v FS4 u" for u by (simp_all add: human_review_def)
  moreover have "distinct (fusion_reasons ?v c raw current u recommended)" "distinct (fusion_missing ?v c)"
    for c raw current u recommended
    unfolding fusion_reasons_def fusion_missing_def Let_def by (rule distinct_filter [OF distinct_order(1)],
      rule distinct_filter [OF distinct_order(2)])
  moreover have "FS3 \<le> x \<Longrightarrow> human_review ?v x u" for x u
    by (simp add: human_review_def less_eq_SafetyFusionSeverity_def)
  ultimately show ?thesis
    by (simp add: recommendation_ok_def assessed_def Let_def fusion_reasons_authority round4_unit)
qed

lemma recommendation_ok_fingerprint [simp]:
  "recommendation_ok i (r\<lparr>fr_deterministicFingerprint := x\<rparr>) = recommendation_ok i r"
  "blocked_ok (r\<lparr>fr_deterministicFingerprint := x\<rparr>) = blocked_ok r"
  by (simp_all add: recommendation_ok_def blocked_ok_def)

lemma evaluate_ok: "evaluateSafetyFusion loc digest i at' guards entry = Inr r \<Longrightarrow> recommendation_ok i r"
  by (auto simp: evaluateSafetyFusion_def fingerprinted_Inr assessed_ok dest: blockedRecommendation_ok split: if_split_asm)

lemma fusion_recommend_ok: "fusion_recommend F i = Inr r \<Longrightarrow> recommendation_ok i r"
  by (auto simp: fusion_recommend_def Let_def dest: blockedRecommendation_ok evaluate_ok split: option.split_asm if_split_asm)

section \<open>Blocking guards\<close>

lemma severity_blocked: "3 \<le> score \<Longrightarrow> FS3 \<le> severityFromScore (round4 score)"
proof -
  assume "3 \<le> score"
  then have "round4 3 \<le> round4 score" by (rule round4_mono)
  then have "3 \<le> round4 score" using round4_int [of 3] by simp
  then show ?thesis by (simp add: severityFromScore_def less_eq_SafetyFusionSeverity_def)
qed

lemma assessed_blocked:
  assumes "\<exists>g \<in> set guards. gr_disposition g = GD_BLOCK_AND_REVIEW"
  shows "blocked_ok (assessed loc i at' guards entry)"
proof -
  let ?v = "fusion_view (sort_key (\<lambda>e. loc (fe_evidenceId e)) (fi_evidence i)) (ms_of at') guards"
  have blocked: "fv_guardBlocked ?v" using assms by (simp add: fusion_view_def)
  then have "3 \<le> fusion_score ?v c" for c by (simp add: fusion_score_def Let_def)
  then have "FS3 \<le> severityFromScore (round4 (fusion_score ?v c))" for c by (rule severity_blocked)
  moreover have "human_review ?v x u" for x u using blocked by (simp add: human_review_def)
  moreover have "FUSION_GUARD_BLOCKED \<in> set (fusion_reasons ?v c raw current u x)" for c raw current u x
    using blocked by (rule fusion_reasons_blocked)
  ultimately show ?thesis by (simp add: blocked_ok_def assessed_def Let_def le_max_iff_disj)
qed

lemma evaluate_blocked:
  assumes "evaluateSafetyFusion loc digest i at' guards entry = Inr r"
    and "\<exists>g \<in> set guards. gr_disposition g = GD_BLOCK_AND_REVIEW"
  shows "blocked_ok r"
  using assms assessed_blocked [OF assms(2)]
  by (auto simp: evaluateSafetyFusion_def fingerprinted_Inr dest: blockedRecommendation_ok split: if_split_asm)

text \<open>A guard that throws, breaks its contract or blocks.\<close>
definition guard_blocks :: "SafetyFusionInput \<Rightarrow> string \<Rightarrow> SafetyFusionGuard \<Rightarrow> bool" where
  "guard_blocks i at' g \<longleftrightarrow> (case fg_evaluate g i at' of Inl _ \<Rightarrow> True
     | Inr r \<Rightarrow> \<not> validGuardResult r (fg_kind g) (fi_inputVersion i) \<or> gr_disposition r = GD_BLOCK_AND_REVIEW)"

lemma guarded_blocks: "guard_blocks i at' g \<Longrightarrow> gr_disposition (guarded i at' g) = GD_BLOCK_AND_REVIEW"
  by (auto simp: guard_blocks_def guarded_def blockedGuard_def fusion_guard_def split: sum.split)

lemma fusion_recommend_blocked:
  assumes "fusion_recommend F i = Inr r" and "g \<in> set (fp_guards F)"
    and "\<And>now. fp_now F = Inr now \<Longrightarrow> guard_blocks i now g"
  shows "blocked_ok r"
proof (cases "fusionClock (fp_now F)")
  case None
  then show ?thesis using assms(1) blockedRecommendation_ok by (auto simp: fusion_recommend_def)
next
  case (Some now)
  then have "fp_now F = Inr now" by (auto simp: fusionClock_def split: sum.split_asm if_split_asm)
  then have "gr_disposition (guarded i now g) = GD_BLOCK_AND_REVIEW" using assms(3) guarded_blocks by blast
  then have "\<exists>x \<in> set (map (guarded i now) (sort_key (\<lambda>g. kind_order (fg_kind g)) (fp_guards F))).
      gr_disposition x = GD_BLOCK_AND_REVIEW" using assms(2) by auto
  then show ?thesis
    using assms(1) Some evaluate_blocked blockedRecommendation_ok
    by (auto simp: fusion_recommend_def Let_def split: if_split_asm)
qed

section \<open>The order of the evidence\<close>

lemma sort_key_unique:
  assumes "mset xs = mset ys" and "inj_on f (set xs)" and "distinct xs"
  shows "sort_key f xs = sort_key f ys"
proof (rule map_sorted_distinct_set_unique [of f])
  have set: "set ys = set xs" using assms(1) by (metis set_mset_mset)
  show "inj_on f (set (sort_key f xs) \<union> set (sort_key f ys))" using assms(2) set by simp
  have d: "distinct ys" using assms(1,3) by (metis mset_eq_imp_distinct_iff)
  show "distinct (map f (sort_key f xs))" using assms(2,3) by (simp add: distinct_map)
  show "distinct (map f (sort_key f ys))" using assms(2) d set by (simp add: distinct_map)
  show "set (sort_key f xs) = set (sort_key f ys)" using set by simp
qed simp_all

lemma assessed_order:
  assumes "mset es = mset (fi_evidence i)" and "distinct (map fe_evidenceId (fi_evidence i))"
    and "inj_on loc (fe_evidenceId ` set (fi_evidence i))"
  shows "assessed loc (i\<lparr>fi_evidence := es\<rparr>) at' guards entry = assessed loc i at' guards entry"
proof -
  have "inj_on (\<lambda>e. loc (fe_evidenceId e)) (set (fi_evidence i))" "distinct (fi_evidence i)"
    using assms(2,3) by (auto simp: distinct_map inj_on_def)
  then have "sort_key (\<lambda>e. loc (fe_evidenceId e)) es = sort_key (\<lambda>e. loc (fe_evidenceId e)) (fi_evidence i)"
    using sort_key_unique [of "fi_evidence i" es "\<lambda>e. loc (fe_evidenceId e)"] assms(1) by simp
  then show ?thesis by (simp add: assessed_def)
qed

lemma validFusionInput_order:
  assumes "mset es = mset (fi_evidence i)"
  shows "validFusionInput (i\<lparr>fi_evidence := es\<rparr>) = validFusionInput i"
proof -
  have "set es = set (fi_evidence i)" "length es = length (fi_evidence i)"
    using assms by (metis set_mset_mset, metis size_mset)
  then show ?thesis by (simp add: validFusionInput_def list_all_iff)
qed

section \<open>Properties\<close>

text \<open>C24: the service never recommends less than the current severity, asks for a human from S3 on and whenever it gives
  that reason, and permits no autonomous downgrade, closure or dispatch.\<close>
theorem fusion_never_downgrades:
  assumes "fusion_recommend F i = Inr r"
  shows "fi_currentSeverity i \<le> fr_recommendedSeverity r \<and> (FS3 \<le> fr_recommendedSeverity r \<longrightarrow> fr_requiresHumanReview r) \<and>
    (fr_requiresHumanReview r \<longleftrightarrow> FUSION_HUMAN_AUTHORITY_REQUIRED \<in> set (fr_reasonCodes r)) \<and>
    \<not> fr_autonomousDowngradePermitted r \<and> \<not> fr_autonomousClosurePermitted r \<and> \<not> fr_autonomousDispatchPermitted r"
  using fusion_recommend_ok [OF assms] unfolding recommendation_ok_def by blast

text \<open>C25: a guard that throws, answers outside its contract or blocks makes the recommendation a blocked one: at least S3,
  with human review and the reason for it, whatever the evidence says.\<close>
theorem broken_guard_blocks:
  assumes "fusion_recommend F i = Inr r" and "g \<in> set (fp_guards F)"
    and "\<And>now. fp_now F = Inr now \<Longrightarrow> guard_blocks i now g"
  shows "FS3 \<le> fr_recommendedSeverity r \<and> fr_requiresHumanReview r \<and> FUSION_GUARD_BLOCKED \<in> set (fr_reasonCodes r)"
  using fusion_recommend_blocked [OF assms] by (simp add: blocked_ok_def)


section \<open>Concrete evidence\<close>

definition sample_evidence :: "string \<Rightarrow> SafetyFusionEvidenceCode \<Rightarrow> SafetyFusionEvidence" where
  "sample_evidence ident code = \<lparr>fe_evidenceId = ident, fe_sourceRef = ''source-1'', fe_sourceType = ST_VEHICLE, fe_code = code,
     fe_direction = SUPPORTS_RISK, fe_observedAt = ''1970-01-01T00:00:01.000Z'', fe_receivedAt = ''1970-01-01T00:00:01.000Z'',
     fe_reliability = Num (9 / 10), fe_integrity = FI_VERIFIED, fe_deviceCondition = DC_HEALTHY,
     fe_corroborationGroup = ''group-1'', fe_locationQuality = LQ_PRECISE, fe_otherKeys = []\<rparr>"

definition sample_fusion_input :: "SafetyFusionEvidence list \<Rightarrow> SafetyFusionInput" where
  "sample_fusion_input evidence = \<lparr>fi_tenantId = ''tenant-1'', fi_caseId = ''case-1'', fi_inputVersion = Num 1,
     fi_currentSeverity = FS1, fi_contactState = None, fi_contactLastInteractionAt = None, fi_evidence = evidence,
     fi_requestedRuleSetVersion = SAFETY_FUSION_RULE_SET_VERSION,
     fi_requestedThresholdVersion = SAFETY_FUSION_THRESHOLD_VERSION, fi_otherKeys = []\<rparr>"

definition sample_locale :: "string \<Rightarrow> int list" where "sample_locale = map (\<lambda>c. of_char c)"

definition sample_ports :: "SafetyFusionGuard list \<Rightarrow> FusionPorts" where
  "sample_ports guards = \<lparr>fp_findRuleSet = findRuleSet [ACTIVE_SAFETY_FUSION_RULE_SET], fp_guards = guards,
     fp_now = Inr ''1970-01-01T00:00:02.000Z'', fp_digest = (\<lambda>m. Inr ''sha256:0''), fp_locale = sample_locale\<rparr>"

definition broken_guard :: SafetyFusionGuard where
  "broken_guard = \<lparr>fg_kind = GK_DRIFT, fg_evaluate = (\<lambda>i now. Inl ())\<rparr>"

lemma fusion_recommend_total:
  assumes "\<And>m. \<exists>x. fp_digest F m = Inr x"
  obtains r where "fusion_recommend F i = Inr r"
proof -
  have print: "\<exists>r. fingerprinted (fp_digest F) i r' = Inr r" for r' using assms by (simp add: fingerprinted_Inr)
  have blocked: "\<exists>r. blockedRecommendation (fp_digest F) i at' guards = Inr r" for at' guards
    unfolding blockedRecommendation_def by (rule print)
  have evaluated: "\<exists>r. evaluateSafetyFusion (fp_locale F) (fp_digest F) i at' guards entry = Inr r" for at' guards entry
    unfolding evaluateSafetyFusion_def using print blocked by presburger
  have "\<exists>r. fusion_recommend F i = Inr r"
    unfolding fusion_recommend_def Let_def using blocked evaluated by (cases "fusionClock (fp_now F)") simp_all
  then show ?thesis using that by blast
qed

lemma sample_ports_total: obtains r where "fusion_recommend (sample_ports guards) i = Inr r"
  using fusion_recommend_total [of "sample_ports guards"] by (auto simp: sample_ports_def)

theorem fusion_never_downgrades_witness:
  "\<exists>r. fusion_recommend (sample_ports DEFAULT_SAFETY_FUSION_GUARDS)
      (sample_fusion_input [sample_evidence ''e-2'' DEVICE_AIRBAG, sample_evidence ''e-1'' DEVICE_IMPACT]) = Inr r \<and>
    FS1 \<le> fr_recommendedSeverity r \<and> \<not> fr_autonomousClosurePermitted r"
proof -
  obtain r where r: "fusion_recommend (sample_ports DEFAULT_SAFETY_FUSION_GUARDS)
      (sample_fusion_input [sample_evidence ''e-2'' DEVICE_AIRBAG, sample_evidence ''e-1'' DEVICE_IMPACT]) = Inr r"
    by (rule sample_ports_total)
  from fusion_never_downgrades [OF r] r show ?thesis by (auto simp: sample_fusion_input_def)
qed

theorem broken_guard_blocks_witness:
  "\<exists>r. fusion_recommend (sample_ports [broken_guard]) (sample_fusion_input []) = Inr r \<and>
    FS3 \<le> fr_recommendedSeverity r \<and> fr_requiresHumanReview r"
proof -
  obtain r where r: "fusion_recommend (sample_ports [broken_guard]) (sample_fusion_input []) = Inr r"
    by (rule sample_ports_total)
  have "guard_blocks (sample_fusion_input []) now broken_guard" for now
    by (simp add: guard_blocks_def broken_guard_def)
  with broken_guard_blocks [OF r, of broken_guard] r show ?thesis by (auto simp: sample_ports_def)
qed

lemma evaluate_total:
  obtains r where "evaluateSafetyFusion loc (\<lambda>m. Inr x) i at' guards entry = Inr r"
proof -
  have "\<exists>r. evaluateSafetyFusion loc (\<lambda>m. Inr x) i at' guards entry = Inr r"
    unfolding evaluateSafetyFusion_def blockedRecommendation_def by (simp add: fingerprinted_Inr)
  then show ?thesis using that by blast
qed


end
