(* ===== verification/GovernedFusion.thy ===== *)
theory GovernedFusion
  imports SafetyFusion
begin

text \<open>
  The governed orchestrator (\<open>apps/api/src/ros-eye/governed-safety-fusion.ts\<close>): evidence enters the fusion service
  only with a receipt of the evidence authority, the clock is read once, and whatever is missing ends in
  a blocked recommendation. Keys of the input beyond those of its interface are kept by name, so that
  the check of the exact keys is the check that there are none.
\<close>

definition SAFETY_FUSION_EVIDENCE_AUTHORITY_POLICY_VERSION :: string where
  "SAFETY_FUSION_EVIDENCE_AUTHORITY_POLICY_VERSION = ''ros-eye.safety-fusion.evidence-authority.v1''"
definition SAFETY_FUSION_ALLOWED_CLOCK_SKEW_MS :: int where "SAFETY_FUSION_ALLOWED_CLOCK_SKEW_MS = 5 * 60 * 1000"

definition REQUIRED_GUARDS :: "SafetyFusionGuardKind list" where
  "REQUIRED_GUARDS = [GK_ADVERSARIAL_INPUT, GK_DATA_QUALITY, GK_DRIFT, GK_OUT_OF_DISTRIBUTION]"

definition INPUT_KEYS :: "string list" where
  "INPUT_KEYS = [''tenantId'', ''caseId'', ''inputVersion'', ''currentSeverity'', ''contactState'',
     ''contactLastInteractionAt'', ''evidence'', ''requestedRuleSetVersion'', ''requestedThresholdVersion'']"
definition EVIDENCE_KEYS :: "string list" where
  "EVIDENCE_KEYS = [''evidenceId'', ''sourceRef'', ''sourceType'', ''code'', ''direction'', ''observedAt'', ''receivedAt'',
     ''reliability'', ''integrity'', ''deviceCondition'', ''corroborationGroup'', ''locationQuality'']"

datatype ReceiptStatus = AR_ACTIVE | AR_REVOKED | AR_EXPIRED

record SafetyFusionEvidenceAuthorityReceipt =
  ar_evidence :: SafetyFusionEvidence
  ar_tenantId :: string
  ar_caseId :: string
  ar_approvedPurpose :: string
  ar_status :: ReceiptStatus
  ar_policyVersion :: string
  ar_issuedAt :: string
  ar_expiresAt :: string

record GovernedPorts =
  gp_fusion :: FusionPorts
  gp_findEvidence :: "string \<Rightarrow> string \<Rightarrow> string \<Rightarrow> string \<Rightarrow> unit + SafetyFusionEvidenceAuthorityReceipt option"

definition validGuardConfiguration :: "SafetyFusionGuard list \<Rightarrow> bool" where
  "validGuardConfiguration guards \<longleftrightarrow> length guards = length REQUIRED_GUARDS \<and>
     sort_key kind_order (map fg_kind guards) = REQUIRED_GUARDS"

definition exactKeys :: "string list \<Rightarrow> string list \<Rightarrow> bool" where
  "exactKeys keys allowed \<longleftrightarrow> length keys = length allowed \<and> list_all (\<lambda>k. k \<in> set allowed) keys"

definition strictInputShape :: "SafetyFusionInput \<Rightarrow> bool" where
  "strictInputShape i \<longleftrightarrow> exactKeys (INPUT_KEYS @ fi_otherKeys i) INPUT_KEYS \<and>
     list_all (\<lambda>e. exactKeys (EVIDENCE_KEYS @ fe_otherKeys e) EVIDENCE_KEYS) (fi_evidence i)"

definition validContactTime :: "SafetyFusionInput \<Rightarrow> string \<Rightarrow> bool" where
  "validContactTime i trustedNow \<longleftrightarrow> (case fi_contactLastInteractionAt i of
       None \<Rightarrow> fi_contactState i = None \<or> fi_contactState i = Some HC_CREATED
     | Some x \<Rightarrow> (case dateParse x of None \<Rightarrow> False
         | Some t \<Rightarrow> t \<le> ms_of trustedNow + SAFETY_FUSION_ALLOWED_CLOCK_SKEW_MS))"

definition toEvidence :: "SafetyFusionEvidenceAuthorityReceipt \<Rightarrow> SafetyFusionEvidence" where
  "toEvidence r = (ar_evidence r)\<lparr>fe_otherKeys := []\<rparr>"

definition sameEvidence :: "SafetyFusionEvidenceAuthorityReceipt \<Rightarrow> SafetyFusionEvidence \<Rightarrow> bool" where
  "sameEvidence r requested \<longleftrightarrow> length EVIDENCE_KEYS = length (EVIDENCE_KEYS @ fe_otherKeys requested) \<and>
     fe_evidenceId (ar_evidence r) = fe_evidenceId requested \<and> fe_sourceRef (ar_evidence r) = fe_sourceRef requested \<and>
     fe_sourceType (ar_evidence r) = fe_sourceType requested \<and> fe_code (ar_evidence r) = fe_code requested \<and>
     fe_direction (ar_evidence r) = fe_direction requested \<and> fe_observedAt (ar_evidence r) = fe_observedAt requested \<and>
     fe_receivedAt (ar_evidence r) = fe_receivedAt requested \<and>
     (fe_reliability (ar_evidence r) = fe_reliability requested \<and> fe_reliability requested \<noteq> NaN) \<and>
     fe_integrity (ar_evidence r) = fe_integrity requested \<and>
     fe_deviceCondition (ar_evidence r) = fe_deviceCondition requested \<and>
     fe_corroborationGroup (ar_evidence r) = fe_corroborationGroup requested \<and>
     fe_locationQuality (ar_evidence r) = fe_locationQuality requested"

definition validAuthorityReceipt :: "SafetyFusionEvidenceAuthorityReceipt option \<Rightarrow> SafetyFusionEvidence \<Rightarrow> SafetyFusionInput \<Rightarrow>
    string \<Rightarrow> bool" where
  "validAuthorityReceipt receipt requested i trustedNow \<longleftrightarrow> (case receipt of None \<Rightarrow> False | Some r \<Rightarrow>
     ar_tenantId r = fi_tenantId i \<and> ar_caseId r = fi_caseId i \<and> ar_approvedPurpose r = ''HUMAN_SAFETY_FUSION'' \<and>
     ar_status r = AR_ACTIVE \<and> ar_policyVersion r = SAFETY_FUSION_EVIDENCE_AUTHORITY_POLICY_VERSION \<and>
     (case (dateParse (ar_issuedAt r), dateParse (ar_expiresAt r)) of
        (Some issued, Some expires) \<Rightarrow>
          issued \<le> ms_of trustedNow + SAFETY_FUSION_ALLOWED_CLOCK_SKEW_MS \<and> ms_of trustedNow < expires
      | _ \<Rightarrow> False) \<and>
     sameEvidence r requested \<and>
     (case (dateParse (fe_observedAt (ar_evidence r)), dateParse (fe_receivedAt (ar_evidence r))) of
        (Some observed, Some received) \<Rightarrow>
          observed \<le> received \<and> received \<le> ms_of trustedNow + SAFETY_FUSION_ALLOWED_CLOCK_SKEW_MS
      | _ \<Rightarrow> False))"

text \<open>The receipts of the evidence in order; \<open>Inl\<close> is the reason the first failure blocks with.\<close>
fun authoritative :: "GovernedPorts \<Rightarrow> SafetyFusionInput \<Rightarrow> string \<Rightarrow> SafetyFusionEvidence list \<Rightarrow>
    string + SafetyFusionEvidence list" where
  "authoritative G i trustedNow [] = Inr []"
| "authoritative G i trustedNow (requested # rest) =
     (case gp_findEvidence G (fi_tenantId i) (fi_caseId i) (fe_evidenceId requested) (fe_sourceRef requested) of
        Inl _ \<Rightarrow> Inl ''evidence_authority_unavailable''
      | Inr receipt \<Rightarrow> if \<not> validAuthorityReceipt receipt requested i trustedNow
          then Inl ''evidence_authority_receipt_invalid''
          else ebind (authoritative G i trustedNow rest) (\<lambda>es. Inr (toEvidence (the receipt) # es)))"

definition blockingGuard :: "string \<Rightarrow> SafetyFusionGuard" where
  "blockingGuard reasonCode = \<lparr>fg_kind = GK_DATA_QUALITY, fg_evaluate = (\<lambda>i now. Inr (fusion_guard GK_DATA_QUALITY
     GD_BLOCK_AND_REVIEW reasonCode ''ros-eye.safety-fusion.guard.governed-boundary.v1''
     (if isInteger (fi_inputVersion i) then fi_inputVersion i else Num 0)))\<rparr>"

definition safeGuards :: "SafetyFusionGuard list \<Rightarrow> string \<Rightarrow> SafetyFusionGuard list" where
  "safeGuards guards reasonCode = (if validGuardConfiguration guards
     then filter (\<lambda>g. fg_kind g \<noteq> GK_DATA_QUALITY) guards @ [blockingGuard reasonCode] else [blockingGuard reasonCode])"

definition governed_blocked :: "GovernedPorts \<Rightarrow> SafetyFusionInput \<Rightarrow> string \<Rightarrow> string \<Rightarrow> unit + SafetyFusionRecommendation" where
  "governed_blocked G i trustedNow reasonCode = fusion_recommend
     ((gp_fusion G)\<lparr>fp_guards := safeGuards (fp_guards (gp_fusion G)) reasonCode, fp_now := Inr trustedNow\<rparr>) i"

definition governed_recommend :: "GovernedPorts \<Rightarrow> SafetyFusionInput \<Rightarrow> unit + SafetyFusionRecommendation" where
  "governed_recommend G i =
    (let clock = fusionClock (fp_now (gp_fusion G)); guards = fp_guards (gp_fusion G) in
     case clock of
       None \<Rightarrow> governed_blocked G i EPOCH
         (if validGuardConfiguration guards then ''input_contract_invalid'' else ''required_guard_set_invalid'')
     | Some trustedNow \<Rightarrow>
       if \<not> validGuardConfiguration guards \<or> \<not> (strictInputShape i \<and> validContactTime i trustedNow)
       then governed_blocked G i trustedNow
         (if validGuardConfiguration guards then ''input_contract_invalid'' else ''required_guard_set_invalid'')
       else if \<not> distinct (map fe_evidenceId (fi_evidence i)) then governed_blocked G i trustedNow ''duplicate_evidence_id''
       else (case authoritative G i trustedNow (fi_evidence i) of
           Inl reason \<Rightarrow> governed_blocked G i trustedNow reason
         | Inr evidence \<Rightarrow> fusion_recommend ((gp_fusion G)\<lparr>fp_now := Inr trustedNow\<rparr>)
             (i\<lparr>fi_evidence := sort_key (\<lambda>e. fp_locale (gp_fusion G) (fe_evidenceId e)) evidence\<rparr>)))"

section \<open>Governance\<close>

lemma governed_blocked_ok:
  assumes "governed_blocked G i trustedNow reasonCode = Inr r"
  shows "recommendation_ok i r \<and> blocked_ok r"
proof -
  let ?F = "(gp_fusion G)\<lparr>fp_guards := safeGuards (fp_guards (gp_fusion G)) reasonCode, fp_now := Inr trustedNow\<rparr>"
  have run: "fusion_recommend ?F i = Inr r" using assms by (simp add: governed_blocked_def)
  have guard: "blockingGuard reasonCode \<in> set (fp_guards ?F)" by (simp add: safeGuards_def)
  have "guard_blocks i now (blockingGuard reasonCode)" for now
    by (simp add: guard_blocks_def blockingGuard_def fusion_guard_def)
  then show ?thesis using fusion_recommend_blocked [OF run guard] fusion_recommend_ok [OF run] by blast
qed

text \<open>An item the authority vouches for at the trusted time.\<close>
definition vouched :: "GovernedPorts \<Rightarrow> SafetyFusionInput \<Rightarrow> string \<Rightarrow> SafetyFusionEvidence \<Rightarrow> bool" where
  "vouched G i now e \<longleftrightarrow> (\<exists>receipt. gp_findEvidence G (fi_tenantId i) (fi_caseId i) (fe_evidenceId e) (fe_sourceRef e) =
     Inr (Some receipt) \<and> validAuthorityReceipt (Some receipt) e i now)"

lemma authoritative_vouched:
  "authoritative G i now es = Inr evidence \<Longrightarrow> list_all (vouched G i now) es \<and> length evidence = length es"
proof (induction es arbitrary: evidence)
  case (Cons e es)
  obtain receipt where receipt: "gp_findEvidence G (fi_tenantId i) (fi_caseId i) (fe_evidenceId e) (fe_sourceRef e) = Inr receipt"
    using Cons.prems by (auto split: sum.split_asm)
  then have valid: "validAuthorityReceipt receipt e i now" using Cons.prems by (auto split: if_split_asm)
  then obtain r where r: "receipt = Some r" by (cases receipt) (simp_all add: validAuthorityReceipt_def)
  obtain rest where "authoritative G i now es = Inr rest" "evidence = toEvidence r # rest"
    using Cons.prems receipt valid r by (auto elim!: ebind_InrE)
  then show ?case using Cons.IH receipt valid r by (auto simp: vouched_def)
qed simp

lemma recommendation_ok_evidence [simp]: "recommendation_ok (i\<lparr>fi_evidence := es\<rparr>) r = recommendation_ok i r"
  by (simp add: recommendation_ok_def)

lemma governed_recommend_cases:
  assumes "governed_recommend G i = Inr r"
  obtains (blocked) "blocked_ok r" "recommendation_ok i r"
    | (governed) now where "fusionClock (fp_now (gp_fusion G)) = Some now" "recommendation_ok i r"
        "validGuardConfiguration (fp_guards (gp_fusion G))" "strictInputShape i" "validContactTime i now"
        "distinct (map fe_evidenceId (fi_evidence i))" "list_all (vouched G i now) (fi_evidence i)"
proof (cases "fusionClock (fp_now (gp_fusion G))")
  case None
  then show ?thesis using assms governed_blocked_ok blocked by (auto simp: governed_recommend_def)
next
  case (Some now)
  let ?ok = "validGuardConfiguration (fp_guards (gp_fusion G)) \<and> strictInputShape i \<and> validContactTime i now \<and>
    distinct (map fe_evidenceId (fi_evidence i))"
  show ?thesis
  proof (cases ?ok)
    case False
    then obtain reason where "governed_blocked G i now reason = Inr r"
      using assms Some by (auto simp: governed_recommend_def Let_def split: if_split_asm)
    then show ?thesis using governed_blocked_ok blocked by blast
  next
    case ok: True
    show ?thesis
    proof (cases "authoritative G i now (fi_evidence i)")
      case (Inl reason)
      then have "governed_blocked G i now reason = Inr r"
        using assms Some ok by (simp add: governed_recommend_def)
      then show ?thesis using governed_blocked_ok blocked by blast
    next
      case (Inr evidence)
      then have "fusion_recommend ((gp_fusion G)\<lparr>fp_now := Inr now\<rparr>)
          (i\<lparr>fi_evidence := sort_key (\<lambda>e. fp_locale (gp_fusion G) (fe_evidenceId e)) evidence\<rparr>) = Inr r"
        using assms Some ok by (simp add: governed_recommend_def)
      then have "recommendation_ok i r" using fusion_recommend_ok by fastforce
      then show ?thesis using governed Some ok authoritative_vouched [OF Inr] by blast
    qed
  qed
qed


definition sample_governed :: GovernedPorts where
  "sample_governed = \<lparr>gp_fusion = sample_ports [
       \<lparr>fg_kind = GK_DATA_QUALITY, fg_evaluate = (\<lambda>i now. Inr (fusion_guard GK_DATA_QUALITY GD_CLEAR ''clear'' ''guard.v1'' (fi_inputVersion i)))\<rparr>,
       \<lparr>fg_kind = GK_DRIFT, fg_evaluate = (\<lambda>i now. Inr (fusion_guard GK_DRIFT GD_CLEAR ''clear'' ''guard.v1'' (fi_inputVersion i)))\<rparr>,
       \<lparr>fg_kind = GK_OUT_OF_DISTRIBUTION, fg_evaluate = (\<lambda>i now. Inr (fusion_guard GK_OUT_OF_DISTRIBUTION GD_CLEAR ''clear'' ''guard.v1'' (fi_inputVersion i)))\<rparr>,
       \<lparr>fg_kind = GK_ADVERSARIAL_INPUT, fg_evaluate = (\<lambda>i now. Inr (fusion_guard GK_ADVERSARIAL_INPUT GD_CLEAR ''clear'' ''guard.v1'' (fi_inputVersion i)))\<rparr>],
     gp_findEvidence = (\<lambda>tenantId caseId evidenceId sourceRef. Inr (Some
       \<lparr>ar_evidence = sample_evidence ''e-1'' DEVICE_HARD_BRAKE, ar_tenantId = ''tenant-1'', ar_caseId = ''case-1'',
         ar_approvedPurpose = ''HUMAN_SAFETY_FUSION'', ar_status = AR_ACTIVE,
         ar_policyVersion = SAFETY_FUSION_EVIDENCE_AUTHORITY_POLICY_VERSION, ar_issuedAt = ''1970-01-01T00:00:01.000Z'',
         ar_expiresAt = ''1970-01-02T00:00:00.000Z''\<rparr>))\<rparr>"

lemma sample_governed_low:
  "case governed_recommend sample_governed (sample_fusion_input [sample_evidence ''e-1'' DEVICE_HARD_BRAKE]) of
     Inl _ \<Rightarrow> False | Inr r \<Rightarrow> fr_recommendedSeverity r < FS3"
  by code_simp


end
