(* ===== verification/JsDouble.thy ===== *)
theory JsDouble
  imports JsBase
begin

text \<open>
  Prelude for the arithmetic that does round: a double is the rational it denotes, and \<open>double q\<close> is
  the double nearest to \<open>q\<close>, ties to even, as every arithmetic operation of the language rounds its
  exact result. The exponent is not bounded: what is computed here stays far from overflow and from the
  subnormal numbers. The main fact is \<open>double_between\<close>: rounding does not leave an interval from half
  a safe integer to that integer.
\<close>

section \<open>Rounding\<close>

definition round_half_even :: "rat \<Rightarrow> int" where
  "round_half_even x = (let f = \<lfloor>x\<rfloor>; d = x - of_int f in
     if d < 1 / 2 \<or> d = 1 / 2 \<and> even f then f else f + 1)"

text \<open>The binary logarithm of a positive integer, rounded down.\<close>
function ilog2 :: "int \<Rightarrow> nat" where
  "ilog2 n = (if n < 2 then 0 else Suc (ilog2 (n div 2)))"
  by pat_completeness auto
termination by (relation "measure nat") auto

declare ilog2.simps [simp del]

text \<open>The exponent \<open>e\<close> with \<open>2^e \<le> q < 2^(e+1)\<close> of a positive \<open>q\<close>.\<close>
definition binade :: "rat \<Rightarrow> int" where
  "binade q = (if 1 \<le> q then int (ilog2 \<lfloor>q\<rfloor>) else - int (Suc (ilog2 (\<lceil>1 / q\<rceil> - 1))))"

definition ulp :: "rat \<Rightarrow> rat" where
  "ulp q = 2 powi (binade \<bar>q\<bar> - 52)"

definition double :: "rat \<Rightarrow> rat" where
  "double q = (if q = 0 then 0 else of_int (round_half_even (q / ulp q)) * ulp q)"

section \<open>Bounds\<close>

lemma round_half_even_of_int [simp]: "round_half_even (of_int n) = n"
  by (simp add: round_half_even_def)

lemma round_half_even_range: "\<lfloor>x\<rfloor> \<le> round_half_even x" "round_half_even x \<le> \<lfloor>x\<rfloor> + 1"
  by (simp_all add: round_half_even_def Let_def)

lemma round_half_even_mono:
  assumes "x \<le> y"
  shows "round_half_even x \<le> round_half_even y"
proof (cases "\<lfloor>x\<rfloor> = \<lfloor>y\<rfloor>")
  case True
  then show ?thesis using assms by (auto simp: round_half_even_def Let_def)
next
  case False
  then have "\<lfloor>x\<rfloor> + 1 \<le> \<lfloor>y\<rfloor>" using floor_mono [OF assms] by linarith
  then show ?thesis using round_half_even_range [of x] round_half_even_range [of y] by linarith
qed

lemma ilog2_bounds: "0 < n \<Longrightarrow> 2 ^ ilog2 n \<le> n \<and> n < 2 * 2 ^ ilog2 n"
proof (induction n rule: ilog2.induct)
  case (1 n)
  show ?case
  proof (cases "n < 2")
    case True
    then have "n = 1" using 1(2) by linarith
    then show ?thesis by (simp add: ilog2.simps)
  next
    case False
    then have "2 ^ ilog2 (n div 2) \<le> n div 2 \<and> n div 2 < 2 * 2 ^ ilog2 (n div 2)"
      using 1(1) by simp
    then have "2 * 2 ^ ilog2 (n div 2) \<le> n \<and> n < 4 * 2 ^ ilog2 (n div 2)" by linarith
    then show ?thesis using False by (simp add: ilog2.simps [of n])
  qed
qed

lemma ulp_pos: "0 < ulp q"
  by (simp add: ulp_def)

lemma powi_less_int: "(2::rat) powi e < 2 ^ n \<Longrightarrow> e < int n"
  by (metis linorder_not_less one_le_numeral power_int_increasing power_int_of_nat)

lemma binade_le: "0 < q \<Longrightarrow> 2 powi binade q \<le> q"
proof (cases "1 \<le> q")
  case True
  then have "0 < \<lfloor>q\<rfloor>" by simp
  then have "2 ^ ilog2 \<lfloor>q\<rfloor> \<le> \<lfloor>q\<rfloor>" using ilog2_bounds by blast
  then have "of_int (2 ^ ilog2 \<lfloor>q\<rfloor>) \<le> q" by (simp only: le_floor_iff)
  then show ?thesis using True by (simp add: binade_def)
next
  case False
  assume pos: "0 < q"
  let ?m = "\<lceil>1 / q\<rceil> - 1"
  have "1 < 1 / q" using False pos by simp
  then have m: "1 \<le> ?m" by (simp add: le_ceiling_iff)
  then have "\<lceil>1 / q\<rceil> \<le> 2 ^ Suc (ilog2 ?m)" using ilog2_bounds [of ?m] by simp
  then have "1 / q \<le> of_int (2 ^ Suc (ilog2 ?m))" by (simp only: ceiling_le_iff)
  then have "1 / q \<le> 2 ^ Suc (ilog2 ?m)" by simp
  then have "inverse (2 ^ Suc (ilog2 ?m)) \<le> q" using pos by (simp add: field_simps)
  moreover have "2 powi binade q = inverse (2 ^ Suc (ilog2 ?m) :: rat)"
    using False by (simp only: binade_def if_False power_int_minus power_int_of_nat)
  ultimately show ?thesis by simp
qed

lemma double_le_multiple: "0 < q \<Longrightarrow> q \<le> of_int m * ulp q \<Longrightarrow> double q \<le> of_int m * ulp q"
proof -
  assume q: "0 < q" and le: "q \<le> of_int m * ulp q"
  then have "q / ulp q \<le> of_int m" using ulp_pos [of q] by (simp add: divide_le_eq)
  then have "round_half_even (q / ulp q) \<le> m" using round_half_even_mono by fastforce
  then show ?thesis using q ulp_pos [of q] by (simp add: double_def)
qed

lemma double_ge_multiple: "0 < q \<Longrightarrow> of_int m * ulp q \<le> q \<Longrightarrow> of_int m * ulp q \<le> double q"
proof -
  assume q: "0 < q" and le: "of_int m * ulp q \<le> q"
  then have "of_int m \<le> q / ulp q" using ulp_pos [of q] by (simp add: le_divide_eq)
  then have "m \<le> round_half_even (q / ulp q)" using round_half_even_mono by fastforce
  then show ?thesis using q ulp_pos [of q] by (simp add: double_def)
qed

text \<open>A unit in the last place of at most \<open>2^-k\<close> divides it.\<close>
lemma ulp_divides:
  assumes "0 < q" "binade q \<le> 52 - int k"
  obtains m where "1 = of_int m * ulp q * 2 ^ k"
proof
  have "ulp q = 2 powi (binade q - 52)" using assms(1) by (simp add: ulp_def)
  moreover have "(2::rat) ^ nat (52 - int k - binade q) * 2 powi (binade q - 52) * 2 ^ k = 1"
    using assms(2) by (simp flip: power_int_add power_int_of_nat add: power_int_add)
  ultimately show "1 = of_int (2 ^ nat (52 - int k - binade q)) * ulp q * 2 ^ k" by simp
qed

lemma double_between:
  assumes n: "0 < n" "n \<le> max_safe" and q: "of_int n / 2 \<le> q" "q \<le> of_int n"
  shows "of_int n / 2 \<le> double q" "double q \<le> of_int n"
proof -
  have pos: "0 < q" using n(1) q(1) by (metis half_gt_zero_iff less_le_trans of_int_0_less_iff)
  have "(of_int n :: rat) < 2 ^ 53" using n(2) by (simp add: max_safe_def)
  then have "2 powi binade q < (2 :: rat) ^ 53" using binade_le [OF pos] q(2) by linarith
  then have top: "binade q \<le> 52 - int 0" using powi_less_int by fastforce
  obtain m where m: "1 = of_int m * ulp q * 2 ^ 0" using ulp_divides [OF pos top] by blast
  then have whole: "of_int n = of_int (n * m) * ulp q" by simp
  show "double q \<le> of_int n" using double_le_multiple [OF pos] q(2) whole by metis
  show "of_int n / 2 \<le> double q"
  proof (cases "binade q \<le> 51")
    case True
    then obtain j where "1 = of_int j * ulp q * 2 ^ 1" using ulp_divides [OF pos, of 1] by auto
    then have "of_int n / 2 = of_int (n * j) * ulp q" by simp
    then show ?thesis using double_ge_multiple [OF pos] q(1) by metis
  next
    case False
    then have e: "binade q = 52" using top by simp
    then have u: "ulp q = 1" and "2 ^ 52 \<le> q" using pos binade_le [OF pos] by (simp_all add: ulp_def)
    then have "of_int (2 ^ 52) * ulp q \<le> double q" using double_ge_multiple [OF pos, of "2 ^ 52"] by simp
    then show ?thesis using u n(2) by (simp add: max_safe_def)
  qed
qed

text \<open>Half of a number of the unit interval.\<close>
lemma double_half: "0 \<le> x \<Longrightarrow> x \<le> 1 \<Longrightarrow> 0 \<le> double (x * (1 / 2)) \<and> double (x * (1 / 2)) \<le> 1 / 2"
proof (cases "x = 0")
  case False
  assume x: "0 \<le> x" "x \<le> 1"
  let ?q = "x * (1 / 2)"
  have q: "0 < ?q" "?q \<le> 1 / 2" using x False by simp_all
  then have "2 powi binade ?q \<le> (1::rat) / 2" using binade_le [OF q(1)] by linarith
  then have "2 powi binade ?q < (2 :: rat) ^ 1" by simp
  then have "binade ?q \<le> 51" using powi_less_int by fastforce
  then obtain j where "1 = of_int j * ulp ?q * 2 ^ 1" using ulp_divides [OF q(1), of 1] by auto
  then have half: "1 / 2 = of_int j * ulp ?q" by simp
  show ?thesis using double_le_multiple [OF q(1), of j] double_ge_multiple [OF q(1), of 0] q half by simp
qed (simp add: double_def)

lemma double_of_int: "0 < n \<Longrightarrow> n \<le> max_safe \<Longrightarrow> double (of_int n) = of_int n"
proof -
  assume n: "0 < n" "n \<le> max_safe"
  have pos: "(0::rat) < of_int n" using n(1) by simp
  have "(of_int n :: rat) < 2 ^ 53" using n(2) by (simp add: max_safe_def)
  then have "2 powi binade (of_int n) < (2 :: rat) ^ 53" using binade_le [OF pos] by linarith
  then have "binade (of_int n) \<le> 52 - int 0" using powi_less_int by fastforce
  then obtain m where "1 = of_int m * ulp (of_int n) * 2 ^ 0" using ulp_divides [OF pos] by blast
  then have whole: "of_int n = of_int (n * m) * ulp (of_int n)" by simp
  show ?thesis
    using double_le_multiple [OF pos, of "n * m"] double_ge_multiple [OF pos, of "n * m"] unfolding whole [symmetric] by simp
qed

end
