(* ===== verification/Outbox.thy ===== *)
theory Outbox
  imports JsAction JsDouble RoadEventService "HOL-Library.Product_Lexorder" "HOL-Library.List_Lexorder"
begin

text \<open>
  The transactional outbox of the road events (\<open>apps/api/src/messaging/outbox-types.ts\<close>,
  \<open>outbox-worker.ts\<close>, \<open>postgres-outbox-repository.ts\<close>): the worker \<open>runOnce\<close> over its ports, the
  delay before a retry in the arithmetic of doubles, and the repository on the table \<open>outbox_events\<close>, one
  definition per statement. The database clock counts milliseconds and every statement is one
  transaction; the statements of other workers run between those of a worker, inside its calls of the
  ports. Exceptions are their messages. The metrics port only counts and is left out.
\<close>

section \<open>Messages and ports\<close>

record OutboxMessage =
  om_id :: string
  om_aggregateType :: string
  om_aggregateId :: string
  om_eventType :: string
  om_payload :: "(string \<times> json) list"
  om_correlationId :: string
  om_causationId :: "string option"
  om_traceId :: "string option"
  om_tenantId :: "string option"
  om_purpose :: "string option"
  om_occurredAt :: int
  om_retryCount :: int

text \<open>
  \<open>op_publish\<close> is the broker's \<open>publish\<close> with the time-out of its abort signal, \<open>op_aborted\<close> the message of
  the signal the worker was called with, when it is aborted.
\<close>
record 'w outbox_ports =
  op_claimBatch :: "string \<Rightarrow> js_num \<Rightarrow> js_num \<Rightarrow> ('w, string, OutboxMessage list) action"
  op_markPublished :: "string \<Rightarrow> string \<Rightarrow> time_value \<Rightarrow> ('w, string, unit) action"
  op_markFailed :: "string \<Rightarrow> string \<Rightarrow> string \<Rightarrow> time_value \<Rightarrow> time_value option \<Rightarrow> ('w, string, unit) action"
  op_publish :: "OutboxMessage \<Rightarrow> int \<Rightarrow> ('w, string, unit) action"
  op_now :: "('w, string, time_value) action"
  op_random :: "('w, string, js_num) action"
  op_aborted :: "('w, string, string option) action"

record OutboxWorkerOptions =
  wo_workerId :: string
  wo_batchSize :: js_num
  wo_lockDurationMs :: js_num
  wo_publishTimeoutMs :: js_num
  wo_maximumAttempts :: js_num
  wo_baseRetryDelayMs :: js_num
  wo_maximumRetryDelayMs :: js_num

record OutboxRunResult =
  rr_claimed :: nat
  rr_published :: nat
  rr_retried :: nat
  rr_deadLettered :: nat

section \<open>The worker\<close>

definition requirePositiveInteger :: "js_num \<Rightarrow> string \<Rightarrow> string + int" where
  "requirePositiveInteger value field =
     (if \<not> isSafeInteger value \<or> num_lt value (Num 1) then Inl (field @ '' must be a positive safe integer'')
      else Inr (int_of_num value))"

text \<open>\<open>replace(/\s+/g, ' ')\<close>\<close>
function collapse :: "string \<Rightarrow> string" where
  "collapse [] = []"
| "collapse (c # cs) = (if is_space c then CHR '' '' # collapse (dropWhile is_space cs) else c # collapse cs)"
  by pat_completeness auto
termination by (relation "measure length") (auto intro: le_imp_less_Suc length_dropWhile_le)

definition normalizeError :: "string \<Rightarrow> string" where
  "normalizeError message = (let normalized = collapse (trim message) in
     take 1000 (if length normalized = 0 then ''unknown delivery failure'' else normalized))"

definition throwIfWorkerAborted :: "'w outbox_ports \<Rightarrow> ('w, string, unit) action" where
  "throwIfWorkerAborted P = abind (op_aborted P)
     (\<lambda>signal. case signal of None \<Rightarrow> aret () | Some reason \<Rightarrow> athrow reason)"

text \<open>\<open>Math.min(Math.max(x, 0), 1)\<close>; NaN stays NaN.\<close>
fun clamp_unit :: "js_num \<Rightarrow> js_num" where
  "clamp_unit (Num q) = Num (min (max q 0) 1)"
| "clamp_unit PosInfinity = Num 1"
| "clamp_unit NegInfinity = Num 0"
| "clamp_unit NaN = NaN"

text \<open>A safe integer times a power of two is exact.\<close>
definition calculateRetryDelayMs :: "js_num \<Rightarrow> js_num \<Rightarrow> js_num \<Rightarrow> js_num \<Rightarrow> string + js_num" where
  "calculateRetryDelayMs retryCount baseDelayMs maximumDelayMs random =
     ebind (requirePositiveInteger retryCount ''retryCount'') (\<lambda>retries.
     ebind (requirePositiveInteger baseDelayMs ''baseDelayMs'') (\<lambda>base.
     ebind (requirePositiveInteger maximumDelayMs ''maximumDelayMs'') (\<lambda>maximum.
     if maximum < base then Inl ''baseDelayMs cannot exceed maximumDelayMs''
     else let exponent = min (retries - 1) 30;
              uncapped = base * 2 ^ nat exponent;
              capped = min uncapped maximum
       in Inr (case clamp_unit random of
            Num x \<Rightarrow> (let jitter = double (1 / 2 + double (x * (1 / 2)))
              in Num (of_int (max 1 \<lfloor>double (of_int capped * jitter)\<rfloor>)))
          | _ \<Rightarrow> NaN))))"

definition new_OutboxWorker :: "OutboxWorkerOptions \<Rightarrow> string + OutboxWorkerOptions" where
  "new_OutboxWorker opts =
     ebind (ensure (length (trim (wo_workerId opts)) \<noteq> 0 \<and> length (wo_workerId opts) \<le> 128)
       ''workerId must contain between 1 and 128 characters'') (\<lambda>_.
     ebind (requirePositiveInteger (wo_batchSize opts) ''batchSize'') (\<lambda>_.
     ebind (requirePositiveInteger (wo_lockDurationMs opts) ''lockDurationMs'') (\<lambda>lock.
     ebind (requirePositiveInteger (wo_publishTimeoutMs opts) ''publishTimeoutMs'') (\<lambda>timeout.
     ebind (requirePositiveInteger (wo_maximumAttempts opts) ''maximumAttempts'') (\<lambda>_.
     ebind (requirePositiveInteger (wo_baseRetryDelayMs opts) ''baseRetryDelayMs'') (\<lambda>base.
     ebind (requirePositiveInteger (wo_maximumRetryDelayMs opts) ''maximumRetryDelayMs'') (\<lambda>maximum.
     ebind (ensure (base \<le> maximum) ''baseRetryDelayMs cannot exceed maximumRetryDelayMs'') (\<lambda>_.
     ebind (ensure (timeout + 1000 \<le> lock) ''publishTimeoutMs must leave at least 1000ms inside lockDurationMs'')
       (\<lambda>_. Inr opts)))))))))"

text \<open>The body of the \<open>try\<close> and of the \<open>catch\<close> of \<open>runOnce\<close>; the latter tells whether it was a dead letter.\<close>
definition deliver :: "'w outbox_ports \<Rightarrow> OutboxWorkerOptions \<Rightarrow> OutboxMessage \<Rightarrow> ('w, string, unit) action" where
  "deliver P opts message =
     abind (op_publish P message (int_of_num (wo_publishTimeoutMs opts))) (\<lambda>_.
     abind (op_now P) (\<lambda>publishedAt. op_markPublished P (om_id message) (wo_workerId opts) publishedAt))"

definition date_after :: "time_value \<Rightarrow> js_num \<Rightarrow> time_value" where
  "date_after t delay = (case (t, delay) of (Some ms, Num d) \<Rightarrow> timeClip (ms + \<lfloor>d\<rfloor>) | _ \<Rightarrow> None)"

definition recordFailure :: "'w outbox_ports \<Rightarrow> OutboxWorkerOptions \<Rightarrow> OutboxMessage \<Rightarrow> string \<Rightarrow>
    ('w, string, bool) action" where
  "recordFailure P opts message error =
     abind (throwIfWorkerAborted P) (\<lambda>_.
     abind (op_now P) (\<lambda>failedAt.
     let attempt = om_retryCount message + 1;
         isDeadLetter = (int_of_num (wo_maximumAttempts opts) \<le> attempt)
     in abind (op_random P) (\<lambda>random.
        abind (alift (calculateRetryDelayMs (Num (of_int attempt)) (wo_baseRetryDelayMs opts)
          (wo_maximumRetryDelayMs opts) random)) (\<lambda>delayMs.
        abind (op_markFailed P (om_id message) (wo_workerId opts) (normalizeError error)
          (date_after failedAt delayMs) (if isDeadLetter then Some failedAt else None)) (\<lambda>_.
        aret isDeadLetter)))))"

text \<open>What an action answers or throws, as a value.\<close>
definition outcome :: "('w, 'e, 'a) action \<Rightarrow> ('w, 'e, 'e + 'a) action" where
  "outcome m w = (case m w of (r, w') \<Rightarrow> (Inr r, w'))"

definition tally :: "OutboxRunResult \<Rightarrow> bool + unit \<Rightarrow> OutboxRunResult" where
  "tally acc settled = (let acc = acc\<lparr>rr_claimed := rr_claimed acc + 1\<rparr> in
     case settled of Inr _ \<Rightarrow> acc\<lparr>rr_published := rr_published acc + 1\<rparr>
     | Inl True \<Rightarrow> acc\<lparr>rr_deadLettered := rr_deadLettered acc + 1\<rparr>
     | Inl False \<Rightarrow> acc\<lparr>rr_retried := rr_retried acc + 1\<rparr>)"

text \<open>The rounds of the \<open>for\<close> loop that are left.\<close>
fun rounds :: "'w outbox_ports \<Rightarrow> OutboxWorkerOptions \<Rightarrow> nat \<Rightarrow> OutboxRunResult \<Rightarrow>
    ('w, string, OutboxRunResult) action" where
  "rounds P opts 0 acc = aret acc"
| "rounds P opts (Suc n) acc =
     abind (throwIfWorkerAborted P) (\<lambda>_.
     abind (op_claimBatch P (wo_workerId opts) (Num 1) (wo_lockDurationMs opts)) (\<lambda>messages.
     case messages of [] \<Rightarrow> aret acc
     | [message] \<Rightarrow> abind (outcome (deliver P opts message)) (\<lambda>delivered.
         case delivered of Inr _ \<Rightarrow> rounds P opts n (tally acc (Inr ()))
         | Inl error \<Rightarrow> abind (recordFailure P opts message error) (\<lambda>dead. aret (tally acc (Inl dead))))
     | _ \<Rightarrow> athrow ''Outbox repository returned more rows than requested''))"

definition runOnce :: "'w outbox_ports \<Rightarrow> OutboxWorkerOptions \<Rightarrow> ('w, string, OutboxRunResult) action" where
  "runOnce P opts = rounds P opts (nat (int_of_num (wo_batchSize opts)))
     \<lparr>rr_claimed = 0, rr_published = 0, rr_retried = 0, rr_deadLettered = 0\<rparr>"

section \<open>The repository\<close>

record OutboxRow = OutboxMessage +
  ob_publishedAt :: "int option"
  ob_nextAttemptAt :: int
  ob_lockedBy :: "string option"
  ob_lockedUntil :: "int option"
  ob_deadLetteredAt :: "int option"
  ob_lastError :: "string option"

record outbox_db =
  od_rows :: "OutboxRow list"
  od_now :: int

definition requireMessageUuid :: "string \<Rightarrow> string \<Rightarrow> string + string" where
  "requireMessageUuid value field = (if UUID_PATTERN value then Inr value else Inl (field @ '' must be a UUID''))"

definition requireWorkerId :: "string \<Rightarrow> string + string" where
  "requireWorkerId value = (let normalized = trim value in
     if length normalized = 0 \<or> 128 < length normalized
     then Inl ''workerId must contain between 1 and 128 characters'' else Inr normalized)"

definition requireIntegerUpTo :: "js_num \<Rightarrow> string \<Rightarrow> int \<Rightarrow> string + int" where
  "requireIntegerUpTo value field maximum =
     (if \<not> isSafeInteger value \<or> num_lt value (Num 1) \<or> num_lt (Num (of_int maximum)) value
      then Inl (field @ '' must be between 1 and '' @ decimal (nat maximum)) else Inr (int_of_num value))"

definition unscoped_road_event :: "('a) OutboxMessage_scheme \<Rightarrow> bool" where
  "unscoped_road_event m \<longleftrightarrow> om_aggregateType m = ''RoadEvent'' \<and> (om_tenantId m = None \<or> om_purpose m = None)"

definition mapMessage :: "OutboxRow \<Rightarrow> string + OutboxMessage" where
  "mapMessage row =
     (if timeClip (om_occurredAt row) = None then Inl ''Outbox occurred_at is invalid''
      else if unscoped_road_event row
        then Inl (''RoadEvent outbox message '' @ om_id row @ '' is missing trusted access scope'')
      else Inr (OutboxMessage.truncate row))"

definition claimable :: "int \<Rightarrow> OutboxRow \<Rightarrow> bool" where
  "claimable now r \<longleftrightarrow> ob_publishedAt r = None \<and> ob_deadLetteredAt r = None \<and> ob_nextAttemptAt r \<le> now \<and>
     (case ob_lockedUntil r of None \<Rightarrow> True | Some t \<Rightarrow> t < now) \<and> \<not> unscoped_road_event r"

text \<open>\<open>ORDER BY occurred_at, id\<close>: uuids in their canonical text are ordered as their bytes.\<close>
definition claim_order :: "OutboxRow \<Rightarrow> int \<times> int list" where
  "claim_order r = (om_occurredAt r, map of_char (om_id r))"

definition candidates :: "outbox_db \<Rightarrow> int \<Rightarrow> OutboxRow list" where
  "candidates db limit = take (nat limit) (sort_key claim_order (filter (claimable (od_now db)) (od_rows db)))"

definition lease :: "string \<Rightarrow> int \<Rightarrow> OutboxRow \<Rightarrow> OutboxRow" where
  "lease owner expires r = r\<lparr>ob_lockedBy := Some owner, ob_lockedUntil := Some expires\<rparr>"

definition lease_candidates :: "string \<Rightarrow> int \<Rightarrow> int \<Rightarrow> (outbox_db, string, OutboxRow list) action" where
  "lease_candidates owner limit duration db =
    (let rows = candidates db limit; taken = lease owner (od_now db + duration)
     in (Inr (map taken rows),
         db\<lparr>od_rows := map (\<lambda>r. if om_id r \<in> set (map om_id rows) then taken r else r) (od_rows db)\<rparr>))"

definition claimBatch :: "string \<Rightarrow> js_num \<Rightarrow> js_num \<Rightarrow> (outbox_db, string, OutboxMessage list) action" where
  "claimBatch workerId batchSize lockDurationMs =
     abind (alift (requireWorkerId workerId)) (\<lambda>owner.
     abind (alift (requireIntegerUpTo batchSize ''batchSize'' 500)) (\<lambda>limit.
     abind (alift (requireIntegerUpTo lockDurationMs ''lockDurationMs'' 3600000)) (\<lambda>duration.
     abind (lease_candidates owner limit duration) (\<lambda>rows. alift (mapE mapMessage rows)))))"

text \<open>The rows \<open>WHERE id = $1::uuid AND locked_by = $2 AND published_at IS NULL AND dead_lettered_at IS NULL\<close>.\<close>
definition owned :: "string \<Rightarrow> string \<Rightarrow> OutboxRow \<Rightarrow> bool" where
  "owned messageId owner r \<longleftrightarrow> om_id r = toLowerCase messageId \<and> ob_lockedBy r = Some owner \<and>
     ob_publishedAt r = None \<and> ob_deadLetteredAt r = None"

definition executeOwnedUpdate :: "(OutboxRow \<Rightarrow> OutboxRow) \<Rightarrow> string \<Rightarrow> string \<Rightarrow> (outbox_db, string, unit) action" where
  "executeOwnedUpdate change messageId owner db =
    (if length (filter (owned messageId owner) (od_rows db)) = 1 then Inr ()
     else Inl (''Outbox message '' @ messageId @ '' is no longer owned by this worker''),
     db\<lparr>od_rows := map (\<lambda>r. if owned messageId owner r then change r else r) (od_rows db)\<rparr>)"

definition published_row :: "int \<Rightarrow> OutboxRow \<Rightarrow> OutboxRow" where
  "published_row ms r = r\<lparr>ob_publishedAt := Some ms, ob_lockedBy := None, ob_lockedUntil := None, ob_lastError := None\<rparr>"

definition failed_row :: "int \<Rightarrow> int option \<Rightarrow> string \<Rightarrow> OutboxRow \<Rightarrow> OutboxRow" where
  "failed_row next dead error r = r\<lparr>om_retryCount := om_retryCount r + 1, ob_nextAttemptAt := next,
     ob_deadLetteredAt := dead, ob_lastError := Some error, ob_lockedBy := None, ob_lockedUntil := None\<rparr>"

definition valid_date :: "time_value \<Rightarrow> string \<Rightarrow> string + int" where
  "valid_date t message = (case t of None \<Rightarrow> Inl message | Some ms \<Rightarrow> Inr ms)"

definition markPublished :: "string \<Rightarrow> string \<Rightarrow> time_value \<Rightarrow> (outbox_db, string, unit) action" where
  "markPublished messageId workerId publishedAt =
     abind (alift (requireMessageUuid messageId ''messageId'')) (\<lambda>_.
     abind (alift (requireWorkerId workerId)) (\<lambda>owner.
     abind (alift (valid_date publishedAt ''publishedAt is invalid'')) (\<lambda>ms.
     executeOwnedUpdate (published_row ms) messageId owner)))"

definition markFailed :: "string \<Rightarrow> string \<Rightarrow> string \<Rightarrow> time_value \<Rightarrow> time_value option \<Rightarrow>
    (outbox_db, string, unit) action" where
  "markFailed messageId workerId errorMessage nextAttemptAt deadLetteredAt =
     abind (alift (requireMessageUuid messageId ''messageId'')) (\<lambda>_.
     abind (alift (requireWorkerId workerId)) (\<lambda>owner.
     let error = take 1000 (trim errorMessage) in
     abind (alift (ensure (length error \<noteq> 0) ''errorMessage cannot be empty'')) (\<lambda>_.
     abind (alift (valid_date nextAttemptAt ''nextAttemptAt is invalid'')) (\<lambda>next.
     abind (alift (case deadLetteredAt of None \<Rightarrow> Inr None
        | Some t \<Rightarrow> ebind (valid_date t ''deadLetteredAt is invalid'') (\<lambda>ms. Inr (Some ms)))) (\<lambda>dead.
     executeOwnedUpdate (failed_row next dead error) messageId owner)))))"


section \<open>The interface of the worker\<close>

text \<open>Every run of the action is a path of \<open>R\<close>.\<close>
definition takes :: "('w \<Rightarrow> 'w \<Rightarrow> bool) \<Rightarrow> ('w, 'e, 'a) action \<Rightarrow> bool" where
  "takes R m \<longleftrightarrow> (\<forall>s r t. m s = (r, t) \<longrightarrow> R\<^sup>*\<^sup>* s t)"

lemma takesD: "takes R m \<Longrightarrow> m s = (r, t) \<Longrightarrow> R\<^sup>*\<^sup>* s t"
  by (simp add: takes_def)

lemma takes_still [simp]: "takes R (aret x)" "takes R (athrow e)"
  by (simp_all add: takes_def)

lemma takes_abind: "takes R m \<Longrightarrow> (\<And>x. takes R (f x)) \<Longrightarrow> takes R (abind m f)"
  unfolding takes_def abind_def by (auto split: prod.splits sum.splits intro: rtranclp_trans) (meson rtranclp_trans)

lemma takes_throwIf: "takes R (op_aborted P) \<Longrightarrow> takes R (throwIfWorkerAborted P)"
  unfolding throwIfWorkerAborted_def by (rule takes_abind) (auto split: option.split)

lemma outcome_eq: "outcome m s = (r, t) \<longleftrightarrow> (\<exists>x. r = Inr x \<and> m s = (x, t))"
  by (auto simp: outcome_def split: prod.splits)

text \<open>
  \<open>others w\<close> is what may happen between two calls of worker \<open>w\<close>, \<open>held w m\<close> that a row \<open>w\<close> still owns
  is the one it claimed as \<open>m\<close>.
\<close>
locale outbox_repository =
  fixes claim :: "string \<Rightarrow> js_num \<Rightarrow> js_num \<Rightarrow> ('w, string, OutboxMessage list) action"
    and published :: "string \<Rightarrow> string \<Rightarrow> time_value \<Rightarrow> ('w, string, unit) action"
    and failed :: "string \<Rightarrow> string \<Rightarrow> string \<Rightarrow> time_value \<Rightarrow> time_value option \<Rightarrow> ('w, string, unit) action"
    and ok :: "'w \<Rightarrow> bool" and step :: "'w \<Rightarrow> 'w \<Rightarrow> bool" and others :: "string \<Rightarrow> 'w \<Rightarrow> 'w \<Rightarrow> bool"
    and held :: "string \<Rightarrow> OutboxMessage \<Rightarrow> 'w \<Rightarrow> bool" and limit :: int
  assumes ok_step: "step s t \<Longrightarrow> ok s \<Longrightarrow> ok t"
    and claim_step: "claim w n d s = (rs, t) \<Longrightarrow> step s t"
    and claim_held: "claim w n d s = (Inr ms, t) \<Longrightarrow> ok s \<Longrightarrow> m \<in> set ms \<Longrightarrow> held w m t"
    and published_step: "published i w date s = (u, t) \<Longrightarrow> step s t"
    and published_held: "published i w date s = (u, t) \<Longrightarrow> held w m s \<Longrightarrow> held w m t"
    and failed_step: "failed (om_id m) w e next dead s = (u, t) \<Longrightarrow> ok s \<Longrightarrow> held w m s \<Longrightarrow>
      (dead \<noteq> None \<longleftrightarrow> limit \<le> om_retryCount m + 1) \<Longrightarrow> step s t"
    and others_step: "others w s t \<Longrightarrow> step s t"
    and others_held: "others w s t \<Longrightarrow> held w m s \<Longrightarrow> held w m t"
begin

lemma steps_ok: "step\<^sup>*\<^sup>* s t \<Longrightarrow> ok s \<Longrightarrow> ok t"
  by (induction rule: rtranclp_induct) (auto intro: ok_step)

lemma others_steps: "(others w)\<^sup>*\<^sup>* s t \<Longrightarrow> step\<^sup>*\<^sup>* s t"
  by (induction rule: rtranclp_induct) (auto intro: others_step rtranclp.rtrancl_into_rtrancl)

lemma others_kept: "(others w)\<^sup>*\<^sup>* s t \<Longrightarrow> held w m s \<Longrightarrow> held w m t"
  by (induction rule: rtranclp_induct) (auto intro: others_held)

text \<open>The ports of worker \<open>opts\<close>, the others being at work inside the calls that do not reach the table.\<close>
definition surrounds :: "'w outbox_ports \<Rightarrow> OutboxWorkerOptions \<Rightarrow> bool" where
  "surrounds P opts \<longleftrightarrow> op_claimBatch P = claim \<and> op_markPublished P = published \<and> op_markFailed P = failed \<and>
     limit = int_of_num (wo_maximumAttempts opts) \<and>
     (\<forall>m d. takes (others (wo_workerId opts)) (op_publish P m d)) \<and> takes (others (wo_workerId opts)) (op_now P) \<and>
     takes (others (wo_workerId opts)) (op_random P) \<and> takes (others (wo_workerId opts)) (op_aborted P)"

lemma surroundsD:
  assumes "surrounds P opts"
  shows "op_claimBatch P = claim" "op_markPublished P = published" "op_markFailed P = failed"
    "limit = int_of_num (wo_maximumAttempts opts)" "takes (others (wo_workerId opts)) (op_publish P m d)"
    "takes (others (wo_workerId opts)) (op_now P)" "takes (others (wo_workerId opts)) (op_random P)"
    "takes (others (wo_workerId opts)) (throwIfWorkerAborted P)"
  using assms by (auto simp: surrounds_def intro: takes_throwIf)

lemma deliver_steps:
  assumes P: "surrounds P opts" and run: "deliver P opts m s = (r, t)" and held: "held (wo_workerId opts) m s"
  shows "step\<^sup>*\<^sup>* s t \<and> held (wo_workerId opts) m t"
proof -
  let ?o = "(others (wo_workerId opts))\<^sup>*\<^sup>*"
  obtain x u where u: "op_publish P m (int_of_num (wo_publishTimeoutMs opts)) s = (x, u)" by force
  have su: "?o s u" using u surroundsD(5) [OF P] by (blast dest: takesD)
  obtain y v where v: "op_now P u = (y, v)" by force
  have uv: "?o u v" using v surroundsD(6) [OF P] by (blast dest: takesD)
  consider "t = u" | "t = v" | d where "published (om_id m) (wo_workerId opts) d v = (r, t)"
    using run u v surroundsD(2) [OF P] by (cases x; cases y) (auto simp: deliver_def abind_def)
  then show ?thesis
  proof cases
    case 1
    then show ?thesis using su held others_steps others_kept by blast
  next
    case 2
    then show ?thesis using rtranclp_trans [OF su uv] held others_steps others_kept by blast
  next
    case 3
    have "step\<^sup>*\<^sup>* s v" "held (wo_workerId opts) m v"
      using rtranclp_trans [OF su uv] held others_steps others_kept by blast+
    then show ?thesis using published_step [OF 3] published_held [OF 3] by (meson rtranclp.rtrancl_into_rtrancl)
  qed
qed

lemma recordFailure_steps:
  assumes P: "surrounds P opts" and run: "recordFailure P opts m e s = (r, t)"
    and held: "held (wo_workerId opts) m s" and ok: "ok s"
  shows "step\<^sup>*\<^sup>* s t"
proof -
  let ?o = "(others (wo_workerId opts))\<^sup>*\<^sup>*"
  obtain x u where u: "throwIfWorkerAborted P s = (x, u)" by force
  obtain y v where v: "op_now P u = (y, v)" by force
  obtain z w where w: "op_random P v = (z, w)" by force
  have su: "?o s u" and uv: "?o u v" and vw: "?o v w"
    using u v w surroundsD [OF P] by (blast dest: takesD)+
  note sv = rtranclp_trans [OF su uv]
  note sw = rtranclp_trans [OF sv vw]
  consider "t = u" | "t = v" | "t = w" | q later dead where
      "failed (om_id m) (wo_workerId opts) (normalizeError e) later dead w = (q, t)"
      "dead \<noteq> None \<longleftrightarrow> limit \<le> om_retryCount m + 1"
    using run u v w surroundsD(3,4) [OF P]
    by (cases x; cases y; cases z)
      (auto simp: recordFailure_def Let_def abind_def split: sum.splits prod.splits if_splits)
  then show ?thesis
  proof cases
    case 4
    have "step\<^sup>*\<^sup>* s w" "held (wo_workerId opts) m w" using sw held others_steps others_kept by blast+
    moreover have "ok w" using calculation(1) ok by (rule steps_ok)
    ultimately show ?thesis using failed_step [OF 4(1)] 4(2) by (meson rtranclp.rtrancl_into_rtrancl)
  qed (use su sv sw others_steps in blast)+
qed

lemma rounds_steps: "rounds P opts n acc s = (r, t) \<Longrightarrow> surrounds P opts \<Longrightarrow> ok s \<Longrightarrow> step\<^sup>*\<^sup>* s t"
proof (induction n arbitrary: acc s)
  case 0
  then show ?case by simp
next
  case (Suc n)
  note P = Suc.prems(2)
  let ?w = "wo_workerId opts"
  obtain x u where u: "throwIfWorkerAborted P s = (x, u)" by force
  obtain y v where v: "claim ?w (Num 1) (wo_lockDurationMs opts) u = (y, v)" by force
  have su: "step\<^sup>*\<^sup>* s u" using u surroundsD(8) [OF P] by (blast dest: takesD others_steps)
  then have sv: "step\<^sup>*\<^sup>* s v" using claim_step [OF v] by (rule rtranclp.rtrancl_into_rtrancl)
  have oku: "ok u" and okv: "ok v" using su sv Suc.prems(3) steps_ok by blast+
  consider "t = u" | "t = v" | m where "y = Inr [m]" "abind (outcome (deliver P opts m)) (\<lambda>delivered.
         case delivered of Inr _ \<Rightarrow> rounds P opts n (tally acc (Inr ()))
         | Inl error \<Rightarrow> abind (recordFailure P opts m error) (\<lambda>dead. aret (tally acc (Inl dead)))) v = (r, t)"
    using Suc.prems(1) u v surroundsD(1) [OF P]
    by (cases x; cases y) (auto simp: abind_def split: list.splits)
  then show ?case
  proof cases
    case 3
    have held: "held ?w m v" using claim_held [OF v [unfolded 3(1)] oku] by simp
    obtain d z where d: "deliver P opts m v = (d, z)" by force
    have vz: "step\<^sup>*\<^sup>* v z" and hz: "held ?w m z" using deliver_steps [OF P d held] by simp_all
    have sz: "step\<^sup>*\<^sup>* s z" using rtranclp_trans [OF sv vz] .
    have okz: "ok z" using vz okv by (rule steps_ok)
    show ?thesis
    proof (cases d)
      case (Inr q)
      then have "rounds P opts n (tally acc (Inr ())) z = (r, t)" using 3(2) d by (simp add: abind_def outcome_def)
      then show ?thesis using Suc.IH P okz sz by (meson rtranclp_trans)
    next
      case (Inl error)
      obtain f y' where f: "recordFailure P opts m error z = (f, y')" by force
      then have "y' = t" using 3(2) d Inl by (cases f) (simp_all add: abind_def outcome_def)
      then have "step\<^sup>*\<^sup>* z t" using recordFailure_steps [OF P f hz okz] by simp
      then show ?thesis using sz by (meson rtranclp_trans)
    qed
  qed (use su sv in simp_all)
qed

lemma runOnce_steps: "runOnce P opts s = (r, t) \<Longrightarrow> surrounds P opts \<Longrightarrow> ok s \<Longrightarrow> step\<^sup>*\<^sup>* s t"
  unfolding runOnce_def by (rule rounds_steps)

end


section \<open>The table under all workers\<close>

text \<open>A message that may be attempted \<open>N\<close> times.\<close>
definition row_ok :: "int \<Rightarrow> OutboxRow \<Rightarrow> bool" where
  "row_ok N r \<longleftrightarrow> 0 \<le> om_retryCount r \<and> om_retryCount r \<le> N \<and>
     (ob_deadLetteredAt r \<noteq> None \<longleftrightarrow> om_retryCount r = N) \<and>
     (ob_publishedAt r = None \<or> ob_deadLetteredAt r = None) \<and>
     (ob_lockedBy r = None \<longleftrightarrow> ob_lockedUntil r = None) \<and>
     (ob_publishedAt r \<noteq> None \<or> ob_deadLetteredAt r \<noteq> None \<longrightarrow> ob_lockedBy r = None)"

definition outbox_ok :: "int \<Rightarrow> outbox_db \<Rightarrow> bool" where
  "outbox_ok N db \<longleftrightarrow> distinct (map om_id (od_rows db)) \<and>
     (\<forall>r \<in> set (od_rows db). row_ok N r \<and> toLowerCase (om_id r) = om_id r)"

definition fresh_row :: "outbox_db \<Rightarrow> OutboxRow \<Rightarrow> bool" where
  "fresh_row db r \<longleftrightarrow> om_id r \<notin> om_id ` set (od_rows db) \<and> toLowerCase (om_id r) = om_id r \<and> om_retryCount r = 0 \<and>
     ob_publishedAt r = None \<and> ob_deadLetteredAt r = None \<and> ob_lockedBy r = None \<and> ob_lockedUntil r = None"

text \<open>What one worker may do: it dead-letters exactly the rows whose last attempt has failed.\<close>
inductive worker_step :: "int \<Rightarrow> string \<Rightarrow> outbox_db \<Rightarrow> outbox_db \<Rightarrow> bool" for N w where
  claim: "claimBatch w n d db = (rs, db') \<Longrightarrow> worker_step N w db db'"
| publish: "markPublished i w date db = (u, db') \<Longrightarrow> worker_step N w db db'"
| fail: "markFailed i w e later dead db = (u, db') \<Longrightarrow>
    (\<And>r. r \<in> set (od_rows db) \<Longrightarrow> owned i (trim w) r \<Longrightarrow> (dead \<noteq> None) = (N \<le> om_retryCount r + 1)) \<Longrightarrow>
    worker_step N w db db'"

text \<open>A transaction of the application adds a message, and the clock of the database runs.\<close>
inductive environment_step :: "int \<Rightarrow> outbox_db \<Rightarrow> outbox_db \<Rightarrow> bool" for N where
  enqueue: "fresh_row db r \<Longrightarrow> 0 < N \<Longrightarrow> environment_step N db (db\<lparr>od_rows := od_rows db @ [r]\<rparr>)"
| tick: "od_now db \<le> t \<Longrightarrow> environment_step N db (db\<lparr>od_now := t\<rparr>)"

definition delivery_step :: "int \<Rightarrow> outbox_db \<Rightarrow> outbox_db \<Rightarrow> bool" where
  "delivery_step N db db' \<longleftrightarrow> environment_step N db db' \<or> (\<exists>w. worker_step N w db db')"

definition others_step :: "int \<Rightarrow> string \<Rightarrow> outbox_db \<Rightarrow> outbox_db \<Rightarrow> bool" where
  "others_step N w db db' \<longleftrightarrow> environment_step N db db' \<or> (\<exists>v. trim v \<noteq> trim w \<and> worker_step N v db db')"

definition held :: "string \<Rightarrow> OutboxMessage \<Rightarrow> outbox_db \<Rightarrow> bool" where
  "held w m db \<longleftrightarrow> (\<forall>r \<in> set (od_rows db). om_id r = toLowerCase (om_id m) \<and> ob_lockedBy r = Some (trim w) \<longrightarrow>
     om_retryCount r = om_retryCount m)"

lemma requireWorkerId_Inr: "requireWorkerId w = Inr v \<Longrightarrow> v = trim w"
  by (simp add: requireWorkerId_def Let_def split: if_splits)

text \<open>A statement that throws before it reaches the table leaves it; otherwise the table is mapped.\<close>
lemma claimBatch_cases:
  assumes "claimBatch w n d db = (rs, db')"
  obtains "db' = db" "\<And>ms. rs \<noteq> Inr ms"
  | k e where "lease_candidates (trim w) k e db = (Inr (map (lease (trim w) (od_now db + e)) (candidates db k)), db')"
      "rs = mapE mapMessage (map (lease (trim w) (od_now db + e)) (candidates db k))"
  using assms unfolding claimBatch_def
  by (cases "requireWorkerId w"; cases "requireIntegerUpTo n ''batchSize'' 500";
      cases "requireIntegerUpTo d ''lockDurationMs'' 3600000")
    (auto simp: abind_def lease_candidates_def Let_def dest: requireWorkerId_Inr)

lemma markPublished_cases:
  assumes "markPublished i w date db = (u, db')"
  obtains "db' = db"
  | ms where "db' = db\<lparr>od_rows := map (\<lambda>r. if owned i (trim w) r then published_row ms r else r) (od_rows db)\<rparr>"
  using assms unfolding markPublished_def
  by (cases "requireMessageUuid i ''messageId''"; cases "requireWorkerId w"; cases "valid_date date ''publishedAt is invalid''")
    (auto simp: abind_def executeOwnedUpdate_def dest: requireWorkerId_Inr)

lemma markFailed_cases:
  assumes "markFailed i w e later dead db = (u, db')"
  obtains "db' = db"
  | ms stamp msg where "db' = db\<lparr>od_rows := map (\<lambda>r. if owned i (trim w) r then failed_row ms stamp msg r else r) (od_rows db)\<rparr>"
      "stamp = None \<longleftrightarrow> dead = None"
  using assms unfolding markFailed_def
  by (cases "requireMessageUuid i ''messageId''"; cases "requireWorkerId w"; cases "valid_date later ''nextAttemptAt is invalid''";
      cases dead; cases "trim e = []")
    (auto simp: abind_def executeOwnedUpdate_def valid_date_def dest: requireWorkerId_Inr split: if_splits option.splits)

lemma candidates_claimable: "r \<in> set (candidates db k) \<Longrightarrow> r \<in> set (od_rows db) \<and> claimable (od_now db) r"
  by (auto simp: candidates_def dest: in_set_takeD)

lemma outbox_ok_map:
  assumes "outbox_ok N db" and "\<And>r. r \<in> set (od_rows db) \<Longrightarrow> row_ok N r \<Longrightarrow> om_id (f r) = om_id r \<and> row_ok N (f r)"
  shows "outbox_ok N (db\<lparr>od_rows := map f (od_rows db)\<rparr>)"
proof -
  have "map om_id (map f (od_rows db)) = map om_id (od_rows db)" using assms by (auto simp: outbox_ok_def)
  then have "distinct (map om_id (map f (od_rows db)))" using assms(1) by (simp only: outbox_ok_def)
  then show ?thesis using assms by (auto simp: outbox_ok_def simp del: map_map)
qed

lemma rows_settled [simp]:
  "om_id (published_row ms r) = om_id r" "om_id (failed_row ms stamp msg r) = om_id r" "om_id (lease w ms r) = om_id r"
  "ob_lockedBy (published_row ms r) = None" "ob_lockedBy (failed_row ms stamp msg r) = None"
  "ob_lockedBy (lease w ms r) = Some w" "om_retryCount (lease w ms r) = om_retryCount r"
  by (simp_all add: published_row_def failed_row_def lease_def)

lemma row_ok_lease: "row_ok N r \<Longrightarrow> claimable now r \<Longrightarrow> row_ok N (lease w ms r)"
  by (auto simp: row_ok_def claimable_def lease_def)

lemma row_ok_published: "row_ok N r \<Longrightarrow> owned i w r \<Longrightarrow> row_ok N (published_row ms r)"
  by (auto simp: row_ok_def owned_def published_row_def)

lemma row_ok_failed: "row_ok N r \<Longrightarrow> owned i w r \<Longrightarrow> (stamp \<noteq> None) = (N \<le> om_retryCount r + 1) \<Longrightarrow>
    row_ok N (failed_row ms stamp msg r)"
  by (auto simp: row_ok_def owned_def failed_row_def)

text \<open>The rows of a claim, found by their identifiers.\<close>
lemma claimed_rows:
  assumes "outbox_ok N db" "r \<in> set (od_rows db)" "om_id r \<in> om_id ` set (candidates db k)"
  shows "r \<in> set (candidates db k)"
proof -
  obtain c where c: "c \<in> set (candidates db k)" "om_id c = om_id r" using assms(3) by auto
  have "c \<in> set (od_rows db)" using candidates_claimable [OF c(1)] by simp
  moreover have "inj_on om_id (set (od_rows db))" using assms(1) by (simp add: outbox_ok_def distinct_map)
  ultimately have "c = r" using c(2) assms(2) by (meson inj_onD)
  then show ?thesis using c(1) by simp
qed

lemma worker_step_ok: "worker_step N w db db' \<Longrightarrow> outbox_ok N db \<Longrightarrow> outbox_ok N db'"
proof (induction rule: worker_step.induct)
  case (claim n d db rs db')
  from claim(1) show ?case
  proof (cases rule: claimBatch_cases)
    case 1
    then show ?thesis using claim(2) by simp
  next
    case (2 k e)
    let ?f = "\<lambda>r. if om_id r \<in> om_id ` set (candidates db k) then lease (trim w) (od_now db + e) r else r"
    have "db' = db\<lparr>od_rows := map ?f (od_rows db)\<rparr>" using 2(1) by (auto simp: lease_candidates_def Let_def)
    moreover have "om_id (?f r) = om_id r \<and> row_ok N (?f r)" if r: "r \<in> set (od_rows db)" "row_ok N r" for r
    proof (cases "om_id r \<in> om_id ` set (candidates db k)")
      case True
      then have "claimable (od_now db) r" using claimed_rows [OF claim(2) r(1)] candidates_claimable by blast
      then show ?thesis using r(2) by (simp add: row_ok_lease)
    qed (use r in simp)
    ultimately show ?thesis using outbox_ok_map [OF claim(2)] by simp
  qed
next
  case (publish i date db u db')
  from publish(1) show ?case
    by (cases rule: markPublished_cases) (auto simp: publish(2) intro!: outbox_ok_map row_ok_published)
next
  case (fail i e later dead db u db')
  from fail(1) show ?case
  proof (cases rule: markFailed_cases)
    case 1
    then show ?thesis using fail(3) by simp
  next
    case (2 ms stamp msg)
    have "row_ok N (failed_row ms stamp msg r)" if "r \<in> set (od_rows db)" "row_ok N r" "owned i (trim w) r" for r
      using that 2(2) fail(2) [OF that(1,3)] by (intro row_ok_failed) auto
    then show ?thesis unfolding 2(1) using fail(3) by (intro outbox_ok_map) auto
  qed
qed

lemma environment_step_ok: "environment_step N db db' \<Longrightarrow> outbox_ok N db \<Longrightarrow> outbox_ok N db'"
  by (induction rule: environment_step.induct) (auto simp: outbox_ok_def fresh_row_def row_ok_def)

lemma delivery_step_ok: "delivery_step N db db' \<Longrightarrow> outbox_ok N db \<Longrightarrow> outbox_ok N db'"
  unfolding delivery_step_def by (auto intro: worker_step_ok environment_step_ok)

lemma mapMessage_Inr: "mapMessage row = Inr m \<Longrightarrow> om_id m = om_id row \<and> om_retryCount m = om_retryCount row"
  by (auto simp: mapMessage_def OutboxMessage.truncate_def split: if_splits)

lemma list_all2_partner: "list_all2 Q xs ys \<Longrightarrow> y \<in> set ys \<Longrightarrow> \<exists>x \<in> set xs. Q x y"
  by (induction rule: list_all2_induct) auto

lemma claim_held:
  assumes run: "claimBatch w n d db = (Inr ms, db')" and ok: "outbox_ok N db" and m: "m \<in> set ms"
  shows "held w m db'"
  using run
proof (cases rule: claimBatch_cases)
  case (2 k e)
  let ?taken = "lease (trim w) (od_now db + e)"
  have "list_all2 (\<lambda>c m. mapMessage (?taken c) = Inr m) (candidates db k) ms"
    using 2(2) [symmetric] by (simp add: mapE_Inr list.rel_map)
  from list_all2_partner [OF this m]
  obtain c where c: "c \<in> set (candidates db k)" "mapMessage (?taken c) = Inr m" by (elim bexE)
  have id: "om_id m = om_id c" "om_retryCount m = om_retryCount c" using mapMessage_Inr [OF c(2)] by simp_all
  have c_row: "c \<in> set (od_rows db)" using candidates_claimable [OF c(1)] by simp
  have low: "toLowerCase (om_id m) = om_id c" using ok c_row id by (simp add: outbox_ok_def)
  have inj: "inj_on om_id (set (od_rows db))" using ok by (simp add: outbox_ok_def distinct_map)
  have rows: "od_rows db' = map (\<lambda>r. if om_id r \<in> om_id ` set (candidates db k) then ?taken r else r) (od_rows db)"
    using 2(1) by (auto simp: lease_candidates_def Let_def)
  show ?thesis unfolding held_def
  proof (intro ballI impI)
    fix r assume r: "r \<in> set (od_rows db')" and own: "om_id r = toLowerCase (om_id m) \<and> ob_lockedBy r = Some (trim w)"
    from r rows obtain q where q: "q \<in> set (od_rows db)" "om_id r = om_id q" "om_retryCount r = om_retryCount q"
      by (auto split: if_splits)
    then have "q = c" using own low c_row inj by (metis inj_onD)
    then show "om_retryCount r = om_retryCount m" using q(3) id(2) by simp
  qed
qed blast

text \<open>A worker changes only rows it takes or gives back.\<close>
lemma worker_step_rows:
  assumes "worker_step N v db db'" "r \<in> set (od_rows db')"
  shows "r \<in> set (od_rows db) \<or> ob_lockedBy r = None \<or> ob_lockedBy r = Some (trim v)"
  using assms
proof (induction rule: worker_step.induct)
  case (claim n d db rs db')
  from claim(1) show ?case
  proof (cases rule: claimBatch_cases)
    case 1
    then show ?thesis using claim(2) by simp
  next
    case (2 k e)
    then show ?thesis using claim(2) by (auto simp: lease_candidates_def Let_def)
  qed
next
  case (publish i date db u db')
  from publish(1) show ?case by (cases rule: markPublished_cases) (use publish(2) in auto)
next
  case (fail i e later dead db u db')
  from fail(1) show ?case by (cases rule: markFailed_cases) (use fail(3) in auto)
qed

lemma others_held: "others_step N w db db' \<Longrightarrow> held w m db \<Longrightarrow> held w m db'"
  unfolding others_step_def
proof (elim disjE exE conjE)
  assume "environment_step N db db'" and "held w m db"
  then show "held w m db'" by (induction rule: environment_step.induct) (auto simp: held_def fresh_row_def)
next
  fix v assume "trim v \<noteq> trim w" "worker_step N v db db'" "held w m db"
  then show "held w m db'" unfolding held_def using worker_step_rows by fastforce
qed

lemma published_held: "markPublished i w date db = (u, db') \<Longrightarrow> held w m db \<Longrightarrow> held w m db'"
  by (erule markPublished_cases) (auto simp: held_def)

lemma failed_is_step:
  assumes run: "markFailed (om_id m) w e later dead db = (u, db')" and held: "held w m db"
    and dead: "(dead \<noteq> None) = (N \<le> om_retryCount m + 1)"
  shows "delivery_step N db db'"
proof -
  have "worker_step N w db db'"
    using run by (rule worker_step.fail) (use held dead in \<open>auto simp: held_def owned_def\<close>)
  then show ?thesis by (auto simp: delivery_step_def)
qed

interpretation outbox: outbox_repository claimBatch markPublished markFailed "outbox_ok N" "delivery_step N"
    "others_step N" held N for N
proof (unfold_locales, goal_cases)
  case (1 s t)
  then show ?case by (rule delivery_step_ok)
next
  case (2 w n d s rs t)
  then show ?case by (auto simp: delivery_step_def intro: worker_step.claim)
next
  case (3 w n d s ms t m)
  then show ?case by (rule claim_held)
next
  case (4 i w date s u t)
  then show ?case by (auto simp: delivery_step_def intro: worker_step.publish)
next
  case (5 i w date s u t m)
  then show ?case by (rule published_held)
next
  case (6 m w e later dead s u t)
  then show ?case by (blast intro: failed_is_step)
next
  case (7 w s t)
  then show ?case by (auto simp: others_step_def delivery_step_def)
next
  case (8 w s t m)
  then show ?case by (rule others_held)
qed


section \<open>The delay before a retry\<close>

lemma requirePositiveInteger_Inr: "requirePositiveInteger x f = Inr n \<longleftrightarrow> x = Num (of_int n) \<and> 1 \<le> n \<and> n \<le> max_safe"
  by (auto simp: requirePositiveInteger_def isSafeInteger_iff max_safe_def split: if_splits)

lemma jitter_range:
  assumes "0 \<le> x" "x \<le> 1"
  shows "1 / 2 \<le> double (1 / 2 + double (x * (1 / 2)))" "double (1 / 2 + double (x * (1 / 2))) \<le> 1"
proof -
  have "0 \<le> double (x * (1 / 2)) \<and> double (x * (1 / 2)) \<le> 1 / 2"
    using assms double_half by simp
  then show "1 / 2 \<le> double (1 / 2 + double (x * (1 / 2)))" "double (1 / 2 + double (x * (1 / 2))) \<le> 1"
    using double_between [of 1 "1 / 2 + double (x * (1 / 2))"] by (simp_all add: max_safe_def)
qed

lemma clamp_unit_range: "clamp_unit r = Num x \<Longrightarrow> 0 \<le> x \<and> x \<le> 1"
  by (cases r) auto

lemma scaled_floor:
  assumes c: "1 \<le> c" "c \<le> max_safe" and j: "1 / 2 \<le> j" "j \<le> 1"
  shows "c div 2 \<le> \<lfloor>double (of_int c * j)\<rfloor>" "\<lfloor>double (of_int c * j)\<rfloor> \<le> c"
proof -
  have "(of_int c :: rat) / 2 \<le> of_int c * j" "(of_int c :: rat) * j \<le> of_int c"
    using c(1) j mult_left_mono [OF j(1), of "of_int c"] mult_left_mono [OF j(2), of "of_int c"] by simp_all
  then have b: "(of_int c :: rat) / 2 \<le> double (of_int c * j)" "double (of_int c * j) \<le> of_int c"
    using double_between [of c "of_int c * j"] c by simp_all
  show "c div 2 \<le> \<lfloor>double (of_int c * j)\<rfloor>" using b(1) by (simp add: le_floor_iff)
  show "\<lfloor>double (of_int c * j)\<rfloor> \<le> c" using b(2) by linarith
qed

text \<open>The delay before retry \<open>n\<close> lies between half of \<open>min (base * 2^(n-1)) maximum\<close> and all of it, and is never below a millisecond, whatever the source of randomness answers, short of NaN.\<close>
theorem retry_delay_is_bounded:
  assumes "calculateRetryDelayMs (Num (of_int n)) (Num (of_int base)) (Num (of_int maximum)) random = Inr delay"
    and "random \<noteq> NaN"
  shows "\<exists>d. delay = Num (of_int d) \<and> 1 \<le> d \<and> d \<le> maximum \<and>
    min (base * 2 ^ nat (min (n - 1) 30)) maximum div 2 \<le> d \<and> d \<le> min (base * 2 ^ nat (min (n - 1) 30)) maximum"
proof -
  let ?c = "min (base * 2 ^ nat (min (n - 1) 30)) maximum"
  have pos: "1 \<le> base" "1 \<le> maximum" "maximum \<le> max_safe"
    using assms(1) by (auto simp: calculateRetryDelayMs_def ebind_eq_Inr requirePositiveInteger_Inr)
  obtain x where x: "clamp_unit random = Num x" using assms(2) by (cases random) auto
  let ?j = "double (1 / 2 + double (x * (1 / 2)))"
  have delay: "delay = Num (of_int (max 1 \<lfloor>double (of_int ?c * ?j)\<rfloor>))"
    using assms(1) x by (auto simp: calculateRetryDelayMs_def ebind_eq_Inr requirePositiveInteger_Inr Let_def split: if_splits)
  have "1 * 1 \<le> base * 2 ^ nat (min (n - 1) 30)" using pos(1) by (intro mult_mono) auto
  then have c: "1 \<le> ?c" "?c \<le> max_safe" using pos by auto
  have j: "1 / 2 \<le> ?j" "?j \<le> 1" using jitter_range clamp_unit_range [OF x] by blast+
  obtain f where f: "f = \<lfloor>double (of_int ?c * ?j)\<rfloor>" by blast
  then have "?c div 2 \<le> f" "f \<le> ?c" using scaled_floor [OF c j] by blast+
  moreover have "delay = Num (of_int (max 1 f))" using delay f by blast
  ultimately show ?thesis using c(1) by (intro exI [of _ "max 1 f"]) auto
qed

theorem retry_delay_is_bounded_witness:
  "\<exists>d. calculateRetryDelayMs (Num (of_int 4)) (Num (of_int 500)) (Num (of_int 30000)) (Num (1 / 10)) = Inr (Num (of_int d)) \<and>
     2000 \<le> d \<and> d \<le> 4000"
proof -
  have run: "calculateRetryDelayMs (Num (of_int 4)) (Num (of_int 500)) (Num (of_int 30000)) (Num (1 / 10)) = Inr (Num 2200)"
    by code_simp
  show ?thesis using retry_delay_is_bounded [OF run] run by simp
qed

section \<open>The result of a run\<close>

definition balanced :: "OutboxRunResult \<Rightarrow> bool" where
  "balanced res \<longleftrightarrow> rr_claimed res = rr_published res + rr_retried res + rr_deadLettered res"

lemma rounds_result:
  "rounds P opts n acc s = (Inr res, t) \<Longrightarrow> balanced acc \<Longrightarrow> balanced res \<and> rr_claimed res \<le> rr_claimed acc + n \<and>
     rr_retried res + rr_deadLettered res \<le> rr_retried acc + rr_deadLettered acc + 1"
proof (induction n arbitrary: acc s)
  case 0
  then show ?case by simp
next
  case (Suc n)
  have failed: "balanced (tally acc (Inl dead)) \<and> rr_claimed (tally acc (Inl dead)) \<le> rr_claimed acc + Suc n \<and>
      rr_retried (tally acc (Inl dead)) + rr_deadLettered (tally acc (Inl dead)) \<le> rr_retried acc + rr_deadLettered acc + 1" for dead
    using Suc.prems(2) by (cases dead) (simp_all add: tally_def balanced_def)
  have ok: "balanced (tally acc (Inr ()))" "rr_claimed (tally acc (Inr ())) = rr_claimed acc + 1"
      "rr_retried (tally acc (Inr ())) = rr_retried acc" "rr_deadLettered (tally acc (Inr ())) = rr_deadLettered acc"
    using Suc.prems(2) by (simp_all add: tally_def balanced_def)
  from Suc.prems(1) obtain u ms v where run: "(case ms of [] \<Rightarrow> aret acc
     | [message] \<Rightarrow> abind (outcome (deliver P opts message)) (\<lambda>delivered.
         case delivered of Inr _ \<Rightarrow> rounds P opts n (tally acc (Inr ()))
         | Inl error \<Rightarrow> abind (recordFailure P opts message error) (\<lambda>dead. aret (tally acc (Inl dead))))
     | _ \<Rightarrow> athrow ''Outbox repository returned more rows than requested'') v = (Inr res, t)"
    by (auto simp: abind_Inr)
  show ?case
  proof (cases ms)
    case Nil
    then show ?thesis using run Suc.prems(2) by simp
  next
    case (Cons m rest)
    then have "rest = []" using run by (cases rest) auto
    let ?settle = "\<lambda>delivered :: string + unit. case delivered of Inr _ \<Rightarrow> rounds P opts n (tally acc (Inr ()))
         | Inl error \<Rightarrow> abind (recordFailure P opts m error) (\<lambda>dead. aret (tally acc (Inl dead)))"
    have "abind (outcome (deliver P opts m)) ?settle v = (Inr res, t)" using run Cons \<open>rest = []\<close> by simp
    then obtain d w where dw: "?settle d w = (Inr res, t)" unfolding abind_Inr by blast
    show ?thesis
    proof (cases d)
      case (Inl error)
      then obtain dead where "res = tally acc (Inl dead)" using dw by (auto simp: abind_Inr)
      then show ?thesis using failed by simp
    next
      case (Inr q)
      then show ?thesis using dw Suc.IH [OF _ ok(1)] ok by fastforce
    qed
  qed
qed


section \<open>What the outbox guarantees\<close>

definition settled :: "OutboxRow \<Rightarrow> bool" where
  "settled r \<longleftrightarrow> ob_publishedAt r \<noteq> None \<or> ob_deadLetteredAt r \<noteq> None"

lemma worker_keeps_settled:
  assumes "worker_step N w db db'" "outbox_ok N db" "r \<in> set (od_rows db)" "settled r"
  shows "r \<in> set (od_rows db')"
proof -
  have unowned: "\<not> owned i v r" for i v using assms(4) by (auto simp: settled_def owned_def)
  from assms(1) show ?thesis
  proof cases
    case (claim n d rs)
    from claim show ?thesis
    proof (cases rule: claimBatch_cases)
      case (2 k e)
      have "om_id r \<notin> om_id ` set (candidates db k)"
        using claimed_rows [OF assms(2,3)] candidates_claimable [of r db k] assms(4)
        by (auto simp: settled_def claimable_def)
      then show ?thesis using 2(1) assms(3) by (force simp: lease_candidates_def Let_def)
    qed (use assms(3) in simp)
  next
    case (publish i date u)
    then show ?thesis by (cases rule: markPublished_cases) (use assms(3) unowned in force)+
  next
    case (fail i e later dead u)
    from fail(1) show ?thesis by (cases rule: markFailed_cases) (use assms(3) unowned in force)+
  qed
qed

lemma step_keeps_settled:
  assumes "delivery_step N db db'" "outbox_ok N db" "r \<in> set (od_rows db)" "settled r"
  shows "r \<in> set (od_rows db')"
proof -
  have "r \<in> set (od_rows db')" if "environment_step N db db'"
    using that assms(3) by cases auto
  then show ?thesis using assms worker_keeps_settled unfolding delivery_step_def by blast
qed

lemma path_keeps_settled:
  "(delivery_step N)\<^sup>*\<^sup>* db db' \<Longrightarrow> outbox_ok N db \<Longrightarrow> r \<in> set (od_rows db) \<Longrightarrow> settled r \<Longrightarrow> r \<in> set (od_rows db')"
  by (induction rule: rtranclp_induct) (auto intro: step_keeps_settled dest: outbox.steps_ok)

lemma row_ok_outcome: "row_ok N r \<Longrightarrow> \<not> (ob_publishedAt r \<noteq> None \<and> ob_deadLetteredAt r \<noteq> None) \<and>
    0 \<le> om_retryCount r \<and> om_retryCount r \<le> N \<and> (ob_deadLetteredAt r \<noteq> None \<longleftrightarrow> om_retryCount r = N)"
  by (auto simp: row_ok_def)

text \<open>C29: whatever the workers and the application do, a message has one outcome: it is never both published and dead-lettered, it is dead-lettered exactly when its last permitted attempt has failed, and once it has an outcome its row never changes.\<close>
theorem every_message_has_one_outcome:
  assumes "(delivery_step N)\<^sup>*\<^sup>* db db'" and "outbox_ok N db"
  shows "(\<forall>r \<in> set (od_rows db'). \<not> (ob_publishedAt r \<noteq> None \<and> ob_deadLetteredAt r \<noteq> None) \<and>
      0 \<le> om_retryCount r \<and> om_retryCount r \<le> N \<and> (ob_deadLetteredAt r \<noteq> None \<longleftrightarrow> om_retryCount r = N)) \<and>
    (\<forall>r \<in> set (od_rows db). settled r \<longrightarrow> r \<in> set (od_rows db'))"
proof -
  have "outbox_ok N db'" using assms by (rule outbox.steps_ok)
  then show ?thesis
    by (intro conjI ballI impI path_keeps_settled [OF assms]) (auto simp: outbox_ok_def dest: row_ok_outcome)
qed

definition worker_ports :: "(OutboxMessage \<Rightarrow> int \<Rightarrow> (outbox_db, string, unit) action) \<Rightarrow> (outbox_db, string, time_value) action \<Rightarrow>
    (outbox_db, string, js_num) action \<Rightarrow> (outbox_db, string, string option) action \<Rightarrow> outbox_db outbox_ports" where
  "worker_ports publish now random aborted =
    \<lparr>op_claimBatch = claimBatch, op_markPublished = markPublished, op_markFailed = markFailed, op_publish = publish,
      op_now = now, op_random = random, op_aborted = aborted\<rparr>"

text \<open>C28: a run of a worker on the repository, with the other workers at work inside its calls of the broker, the clock and the signal, is a path of steps that dead-letter exactly the messages whose last attempt has failed; its result accounts for every message it claimed, at most one of them failed.\<close>
theorem run_refines_delivery:
  assumes "runOnce (worker_ports publish now random aborted) opts db = (r, db')"
    and "outbox_ok (int_of_num (wo_maximumAttempts opts)) db"
    and "\<And>m d. takes (others_step (int_of_num (wo_maximumAttempts opts)) (wo_workerId opts)) (publish m d)"
    and "takes (others_step (int_of_num (wo_maximumAttempts opts)) (wo_workerId opts)) now"
    and "takes (others_step (int_of_num (wo_maximumAttempts opts)) (wo_workerId opts)) random"
    and "takes (others_step (int_of_num (wo_maximumAttempts opts)) (wo_workerId opts)) aborted"
  shows "(delivery_step (int_of_num (wo_maximumAttempts opts)))\<^sup>*\<^sup>* db db' \<and>
    (\<forall>res. r = Inr res \<longrightarrow> rr_claimed res = rr_published res + rr_retried res + rr_deadLettered res \<and>
       rr_claimed res \<le> nat (int_of_num (wo_batchSize opts)) \<and> rr_retried res + rr_deadLettered res \<le> 1)"
proof -
  let ?N = "int_of_num (wo_maximumAttempts opts)"
  have "outbox.surrounds ?N (worker_ports publish now random aborted) opts"
    using assms(3-6) by (simp add: outbox.surrounds_def worker_ports_def)
  then have "(delivery_step ?N)\<^sup>*\<^sup>* db db'" using outbox.runOnce_steps assms(1,2) by blast
  moreover have "balanced res \<and> rr_claimed res \<le> nat (int_of_num (wo_batchSize opts)) \<and>
      rr_retried res + rr_deadLettered res \<le> 1" if "r = Inr res" for res
    using rounds_result [OF assms(1) [unfolded runOnce_def that]] by (simp add: balanced_def)
  ultimately show ?thesis by (auto simp: balanced_def)
qed

section \<open>A sample run\<close>

definition sample_id :: string where
  "sample_id = ''22222222-2222-4222-8222-222222222222''"

definition sample_row :: OutboxRow where
  "sample_row = \<lparr>om_id = sample_id, om_aggregateType = ''RoadEvent'', om_aggregateId = sample_id,
    om_eventType = ''RoadEventConfirmed'', om_payload = [], om_correlationId = sample_id, om_causationId = None,
    om_traceId = None, om_tenantId = Some ''riyadh'', om_purpose = Some ''road-safety'', om_occurredAt = 1000,
    om_retryCount = 0, ob_publishedAt = None, ob_nextAttemptAt = 1000, ob_lockedBy = None, ob_lockedUntil = None,
    ob_deadLetteredAt = None, ob_lastError = None\<rparr>"

definition sample_outbox :: outbox_db where
  "sample_outbox = \<lparr>od_rows = [sample_row], od_now = 5000\<rparr>"

definition sample_options :: OutboxWorkerOptions where
  "sample_options = \<lparr>wo_workerId = ''worker-a'', wo_batchSize = Num 5, wo_lockDurationMs = Num 30000,
    wo_publishTimeoutMs = Num 5000, wo_maximumAttempts = Num 1, wo_baseRetryDelayMs = Num 500,
    wo_maximumRetryDelayMs = Num 30000\<rparr>"

definition sample_outbox_run :: "(string + OutboxRunResult) \<times> outbox_db" where
  "sample_outbox_run = runOnce (worker_ports (\<lambda>_ _. athrow ''broker down'') (aret (Some 6000)) (aret (Num 1)) (aret None))
     sample_options sample_outbox"

lemma sample_outbox_run_value: "sample_outbox_run = (Inr \<lparr>rr_claimed = 1, rr_published = 0, rr_retried = 0, rr_deadLettered = 1\<rparr>,
    sample_outbox\<lparr>od_rows := [sample_row\<lparr>om_retryCount := 1, ob_nextAttemptAt := 6500, ob_deadLetteredAt := Some 6000,
      ob_lastError := Some ''broker down''\<rparr>]\<rparr>)"
  by code_simp

lemma sample_outbox_ok: "outbox_ok 1 sample_outbox"
  by code_simp

theorem run_refines_delivery_witness:
  "\<exists>db' res. sample_outbox_run = (Inr res, db') \<and> (delivery_step 1)\<^sup>*\<^sup>* sample_outbox db' \<and> rr_deadLettered res = 1 \<and>
     rr_claimed res = rr_published res + rr_retried res + rr_deadLettered res"
proof -
  obtain db' res where run: "sample_outbox_run = (Inr res, db')" "rr_deadLettered res = 1" using sample_outbox_run_value by simp
  have "int_of_num (wo_maximumAttempts sample_options) = 1" by (simp add: sample_options_def)
  then show ?thesis
    using run run_refines_delivery [OF run(1) [unfolded sample_outbox_run_def]] sample_outbox_ok
    by (intro exI [of _ db'] exI [of _ res]) auto
qed

theorem every_message_has_one_outcome_witness:
  "\<exists>r. r \<in> set (od_rows (snd sample_outbox_run)) \<and> ob_deadLetteredAt r = Some 6000 \<and> ob_publishedAt r = None \<and> om_retryCount r = 1"
proof -
  let ?r = "hd (od_rows (snd sample_outbox_run))"
  have r: "?r \<in> set (od_rows (snd sample_outbox_run))" "ob_deadLetteredAt ?r = Some 6000"
    unfolding sample_outbox_run_value by simp_all
  have "int_of_num (wo_maximumAttempts sample_options) = 1" by (simp add: sample_options_def)
  moreover have "outbox.surrounds 1 (worker_ports (\<lambda>_ _. athrow ''broker down'') (aret (Some 6000)) (aret (Num 1)) (aret None)) sample_options"
    by (simp add: outbox.surrounds_def worker_ports_def sample_options_def)
  ultimately have "(delivery_step 1)\<^sup>*\<^sup>* sample_outbox (snd sample_outbox_run)"
    using outbox.runOnce_steps sample_outbox_ok unfolding sample_outbox_run_def by (metis prod.collapse)
  from every_message_has_one_outcome [OF this sample_outbox_ok] r show ?thesis by (intro exI [of _ ?r]) auto
qed

end
