(* ===== verification/Messaging.thy ===== *)
theory Messaging
  imports Outbox
begin

text \<open>
  The two ends of the outbox: the broker that writes a message to a Redis stream
  (\<open>apps/api/src/messaging/redis-stream-broker.ts\<close>), the consumer of an agency with its idempotency
  ledger on the table \<open>processed_integration_events\<close> (\<open>simulated-agency-consumer.ts\<close>,
  \<open>postgres-outbox-repository.ts\<close>), and the options of the worker process
  (\<open>apps/api/src/runtime/outbox-worker-runtime.ts\<close>). \<open>JSON.stringify\<close> is the parameter \<open>stringify\<close>, the
  Redis client and the agency's sink are ports.
\<close>

section \<open>The broker\<close>

definition requireStreamName :: "string \<Rightarrow> string + string" where
  "requireStreamName value = (let normalized = trim value in
     if length normalized = 0 \<or> 256 < length normalized then Inl ''Redis stream name is invalid'' else Inr normalized)"

definition optional_field :: "string \<Rightarrow> string option \<Rightarrow> (string \<times> string) list" where
  "optional_field name value = (case value of None \<Rightarrow> [] | Some text \<Rightarrow> [(name, text)])"

definition stream_fields :: "(json \<Rightarrow> string) \<Rightarrow> bool \<Rightarrow> OutboxMessage \<Rightarrow> string \<Rightarrow> (string \<times> string) list" where
  "stream_fields stringify simulationMode message occurredAt =
     [(''eventId'', om_id message), (''aggregateType'', om_aggregateType message),
      (''aggregateId'', om_aggregateId message), (''eventType'', om_eventType message),
      (''payload'', stringify (JObj (om_payload message))), (''correlationId'', om_correlationId message),
      (''occurredAt'', occurredAt), (''retryCount'', decimal (nat (om_retryCount message))),
      (''simulationMode'', if simulationMode then ''true'' else ''false''),
      (''deliveryMode'', if simulationMode then ''simulation'' else ''runtime'')] @
     optional_field ''causationId'' (om_causationId message) @ optional_field ''traceId'' (om_traceId message) @
     optional_field ''tenantId'' (om_tenantId message) @ optional_field ''purpose'' (om_purpose message)"

definition broker_publish :: "(json \<Rightarrow> string) \<Rightarrow> (string \<Rightarrow> (string \<times> string) list \<Rightarrow> int \<Rightarrow> ('w, string, string) action) \<Rightarrow>
    string \<Rightarrow> bool \<Rightarrow> OutboxMessage \<Rightarrow> int \<Rightarrow> ('w, string, unit) action" where
  "broker_publish stringify xadd stream simulationMode message timeoutMs =
     (if unscoped_road_event message
      then athrow (''RoadEvent outbox message '' @ om_id message @ '' is missing trusted access scope'')
      else case toISO (om_occurredAt message) of None \<Rightarrow> athrow ''Invalid time value''
        | Some occurredAt \<Rightarrow> abind (xadd stream (stream_fields stringify simulationMode message occurredAt) timeoutMs)
            (\<lambda>_. aret ()))"

text \<open>A stream entry of a road event names its tenant and its purpose.\<close>
lemma stream_entry_is_scoped:
  assumes "om_aggregateType message = ''RoadEvent''" "\<not> unscoped_road_event message"
  shows "\<exists>tenant purpose. (''tenantId'', tenant) \<in> set (stream_fields stringify simulationMode message occurredAt) \<and>
    (''purpose'', purpose) \<in> set (stream_fields stringify simulationMode message occurredAt)"
  using assms by (auto simp: unscoped_road_event_def stream_fields_def optional_field_def split: option.splits)

section \<open>The ledger of the consumers\<close>

record ProcessedRow =
  pr_consumer :: string
  pr_event :: string
  pr_lockedUntil :: "int option"
  pr_completedAt :: "int option"

record ledger =
  lg_rows :: "ProcessedRow list"
  lg_now :: int

definition ledger_row :: "ledger \<Rightarrow> string \<Rightarrow> string \<Rightarrow> ProcessedRow option" where
  "ledger_row db consumer event = find (\<lambda>r. pr_consumer r = consumer \<and> pr_event r = event) (lg_rows db)"

definition requireConsumerName :: "string \<Rightarrow> string + string" where
  "requireConsumerName value = (let name = trim value in
     if length name = 0 \<or> 128 < length name then Inl ''consumerName is invalid'' else Inr name)"

definition change_row :: "string \<Rightarrow> string \<Rightarrow> (ProcessedRow \<Rightarrow> ProcessedRow) \<Rightarrow> ledger \<Rightarrow> ledger" where
  "change_row consumer event f db = db\<lparr>lg_rows := map (\<lambda>r. if pr_consumer r = consumer \<and> pr_event r = event then f r else r) (lg_rows db)\<rparr>"

text \<open>The statement of \<open>tryBegin\<close>; \<open>status\<close> is \<open>COMPLETED\<close> exactly when \<open>completed_at\<close> is set.\<close>
definition begin_processing :: "string \<Rightarrow> string \<Rightarrow> int \<Rightarrow> (ledger, string, bool) action" where
  "begin_processing name event leaseMs db = (case ledger_row db name event of
     None \<Rightarrow> (Inr True, db\<lparr>lg_rows := lg_rows db @ [\<lparr>pr_consumer = name, pr_event = event,
       pr_lockedUntil = Some (lg_now db + leaseMs), pr_completedAt = None\<rparr>]\<rparr>)
   | Some r \<Rightarrow> (if pr_completedAt r = None \<and> (case pr_lockedUntil r of None \<Rightarrow> False | Some t \<Rightarrow> t < lg_now db)
       then (Inr True, change_row name event (\<lambda>r. r\<lparr>pr_lockedUntil := Some (lg_now db + leaseMs)\<rparr>) db)
       else (Inr False, db)))"

definition tryBegin :: "string \<Rightarrow> string \<Rightarrow> js_num \<Rightarrow> (ledger, string, bool) action" where
  "tryBegin consumerName messageId leaseDurationMs =
     abind (alift (requireConsumerName consumerName)) (\<lambda>name.
     abind (alift (requireMessageUuid messageId ''messageId'')) (\<lambda>_.
     abind (alift (requireIntegerUpTo leaseDurationMs ''leaseDurationMs'' 3600000)) (\<lambda>leaseMs.
     begin_processing name (toLowerCase messageId) leaseMs)))"

definition updateState :: "string \<Rightarrow> string \<Rightarrow> (string \<Rightarrow> string \<Rightarrow> ledger \<Rightarrow> ledger) \<Rightarrow> (ledger, string, unit) action" where
  "updateState consumerName messageId statement =
     abind (alift (requireConsumerName consumerName)) (\<lambda>name.
     abind (alift (requireMessageUuid messageId ''messageId'')) (\<lambda>_.
     amodify (statement name (toLowerCase messageId))))"

definition complete :: "string \<Rightarrow> string \<Rightarrow> (ledger, string, unit) action" where
  "complete consumerName messageId = updateState consumerName messageId (\<lambda>name event db.
     change_row name event (\<lambda>r. if pr_completedAt r = None then r\<lparr>pr_completedAt := Some (lg_now db), pr_lockedUntil := None\<rparr> else r) db)"

definition release_processing :: "string \<Rightarrow> string \<Rightarrow> (ledger, string, unit) action" where
  "release_processing consumerName messageId = updateState consumerName messageId (\<lambda>name event db.
     db\<lparr>lg_rows := filter (\<lambda>r. \<not> (pr_consumer r = name \<and> pr_event r = event \<and> pr_completedAt r = None)) (lg_rows db)\<rparr>)"

section \<open>The consumer of an agency\<close>

datatype SimulatedAgency = AMBULANCE | TRAFFIC_OPERATIONS | TOWING

definition agency_name :: "SimulatedAgency \<Rightarrow> string" where
  "agency_name agency = (case agency of AMBULANCE \<Rightarrow> ''AMBULANCE'' | TRAFFIC_OPERATIONS \<Rightarrow> ''TRAFFIC_OPERATIONS''
     | TOWING \<Rightarrow> ''TOWING'')"

definition ROUTES :: "SimulatedAgency \<Rightarrow> string list" where
  "ROUTES agency = (case agency of
     AMBULANCE \<Rightarrow> [''SafetyEscalated'', ''AmbulanceNotificationRequested'']
   | TRAFFIC_OPERATIONS \<Rightarrow> [''RoadEventConfirmed'', ''TrafficActionRequested'', ''RoadRestored'']
   | TOWING \<Rightarrow> [''TowingNotificationRequested'', ''RoadClearanceStarted''])"

record SimulatedAgencyNotification =
  an_agency :: SimulatedAgency
  an_eventId :: string
  an_roadEventId :: string
  an_eventType :: string
  an_correlationId :: string
  an_tenantId :: string
  an_purpose :: string
  an_traceId :: "string option"

record 'w consumer_ports =
  cp_tryBegin :: "string \<Rightarrow> string \<Rightarrow> js_num \<Rightarrow> ('w, string, bool) action"
  cp_complete :: "string \<Rightarrow> string \<Rightarrow> ('w, string, unit) action"
  cp_release :: "string \<Rightarrow> string \<Rightarrow> ('w, string, unit) action"
  cp_record :: "SimulatedAgencyNotification \<Rightarrow> ('w, string, unit) action"

datatype ConsumeResult = Processed | Duplicate

definition consumer_name :: "SimulatedAgency \<Rightarrow> string" where
  "consumer_name agency = ''simulated-'' @ toLowerCase (agency_name agency)"

definition notification_of :: "SimulatedAgency \<Rightarrow> OutboxMessage \<Rightarrow> string \<Rightarrow> string \<Rightarrow> SimulatedAgencyNotification" where
  "notification_of agency message tenantId purpose =
    \<lparr>an_agency = agency, an_eventId = om_id message, an_roadEventId = om_aggregateId message,
      an_eventType = om_eventType message, an_correlationId = om_correlationId message,
      an_tenantId = tenantId, an_purpose = purpose, an_traceId = om_traceId message\<rparr>"

text \<open>The part of \<open>consume\<close> behind its guards.\<close>
definition process :: "'w consumer_ports \<Rightarrow> SimulatedAgency \<Rightarrow> js_num \<Rightarrow> OutboxMessage \<Rightarrow> SimulatedAgencyNotification \<Rightarrow>
    ('w, string, ConsumeResult) action" where
  "process P agency duration message n =
     abind (cp_tryBegin P (consumer_name agency) (om_id message) duration) (\<lambda>acquired.
       if \<not> acquired then aret Duplicate
       else acatch (abind (cp_record P n) (\<lambda>_.
               abind (cp_complete P (consumer_name agency) (om_id message)) (\<lambda>_. aret Processed)))
            (\<lambda>error. abind (cp_release P (consumer_name agency) (om_id message)) (\<lambda>_. athrow error)))"

definition consume :: "'w consumer_ports \<Rightarrow> SimulatedAgency \<Rightarrow> js_num \<Rightarrow> OutboxMessage \<Rightarrow> ('w, string, ConsumeResult) action" where
  "consume P agency leaseDurationMs message =
     (if om_eventType message \<notin> set (ROUTES agency) then aret Processed
      else case (om_tenantId message, om_purpose message) of
        (Some tenantId, Some purpose) \<Rightarrow>
          (if om_aggregateType message \<noteq> ''RoadEvent''
           then athrow ''Agency-routed RoadEvent message is missing trusted tenant/purpose scope''
           else process P agency leaseDurationMs message (notification_of agency message tenantId purpose))
      | _ \<Rightarrow> athrow ''Agency-routed RoadEvent message is missing trusted tenant/purpose scope'')"


section \<open>A message is processed once\<close>

record consumer_world =
  cw_ledger :: ledger
  cw_recorded :: "SimulatedAgencyNotification list"

definition on_ledger :: "(ledger, string, 'a) action \<Rightarrow> (consumer_world, string, 'a) action" where
  "on_ledger = on_part cw_ledger (\<lambda>db w. w\<lparr>cw_ledger := db\<rparr>)"

text \<open>A sink that records what \<open>accepts\<close> admits and throws on the rest.\<close>
definition agency_ports :: "(SimulatedAgencyNotification \<Rightarrow> bool) \<Rightarrow> consumer_world consumer_ports" where
  "agency_ports accepts =
    \<lparr>cp_tryBegin = (\<lambda>name event duration. on_ledger (tryBegin name event duration)),
      cp_complete = (\<lambda>name event. on_ledger (complete name event)),
      cp_release = (\<lambda>name event. on_ledger (release_processing name event)),
      cp_record = (\<lambda>n w. if accepts n then (Inr (), w\<lparr>cw_recorded := cw_recorded w @ [n]\<rparr>) else (Inl ''sink failed'', w))\<rparr>"

inductive consumer_step :: "consumer_world \<Rightarrow> consumer_world \<Rightarrow> bool" where
  consumes: "consume (agency_ports accepts) agency duration message w = (r, w') \<Longrightarrow> consumer_step w w'"
| passes: "lg_now (cw_ledger w) \<le> t \<Longrightarrow> consumer_step w (w\<lparr>cw_ledger := (cw_ledger w)\<lparr>lg_now := t\<rparr>\<rparr>)"

definition completed :: "string \<Rightarrow> string \<Rightarrow> ledger \<Rightarrow> bool" where
  "completed name event db \<longleftrightarrow> (\<exists>r. ledger_row db name event = Some r \<and> pr_completedAt r \<noteq> None)"

lemma agency_ports_simps [simp]:
  "cp_tryBegin (agency_ports accepts) name event d = on_ledger (tryBegin name event d)"
  "cp_complete (agency_ports accepts) name event = on_ledger (complete name event)"
  "cp_release (agency_ports accepts) name event = on_ledger (release_processing name event)"
  "cp_record (agency_ports accepts) n w =
     (if accepts n then (Inr (), w\<lparr>cw_recorded := cw_recorded w @ [n]\<rparr>) else (Inl ''sink failed'', w))"
  by (simp_all add: agency_ports_def)

lemma find_map_key: "(\<And>r. Q (f r) = Q r) \<Longrightarrow> find Q (map f xs) = map_option f (find Q xs)"
  by (induction xs) auto

lemma find_filter_kept: "find Q xs = Some r \<Longrightarrow> keep r \<Longrightarrow> find Q (filter keep xs) = Some r"
  by (induction xs) (auto split: if_splits)

lemma find_join: "find Q (xs @ ys) = (case find Q xs of None \<Rightarrow> find Q ys | Some x \<Rightarrow> Some x)"
  by (induction xs) auto

lemma ledger_row_change:
  assumes "\<And>r. pr_consumer (f r) = pr_consumer r" "\<And>r. pr_event (f r) = pr_event r"
  shows "ledger_row (change_row n e f db) n' e' = map_option (\<lambda>r. if pr_consumer r = n \<and> pr_event r = e then f r else r) (ledger_row db n' e')"
  by (simp add: ledger_row_def change_row_def find_map_key assms)

lemma completed_change:
  assumes "completed n e db" "\<And>r. pr_consumer (f r) = pr_consumer r" "\<And>r. pr_event (f r) = pr_event r"
    and "\<And>r. pr_completedAt r \<noteq> None \<Longrightarrow> pr_completedAt (f r) \<noteq> None"
  shows "completed n e (change_row n' e' f db)"
proof -
  obtain r where "ledger_row db n e = Some r" "pr_completedAt r \<noteq> None" using assms(1) by (auto simp: completed_def)
  then show ?thesis using assms(4) by (simp add: completed_def ledger_row_change assms(2,3))
qed

lemma begin_keeps_completed:
  assumes run: "begin_processing n e ms db = (r, db')" and c: "completed n' e' db"
  shows "completed n' e' db'"
proof -
  consider "db' = db" | row where "db' = db\<lparr>lg_rows := lg_rows db @ [row]\<rparr>"
    | t where "db' = change_row n e (\<lambda>r. r\<lparr>pr_lockedUntil := t\<rparr>) db"
    using run by (auto simp: begin_processing_def split: option.splits if_splits)
  then show ?thesis
  proof cases
    case 2
    then show ?thesis using c by (auto simp: completed_def ledger_row_def find_join)
  next
    case 3
    then show ?thesis using c by (auto intro: completed_change)
  qed (use c in simp)
qed

lemma tryBegin_cases:
  assumes "tryBegin n e l db = (r, db')"
  obtains "db' = db" | ms where "begin_processing (trim n) (toLowerCase e) ms db = (r, db')"
  using assms unfolding tryBegin_def
  by (cases "requireConsumerName n"; cases "requireMessageUuid e ''messageId''";
      cases "requireIntegerUpTo l ''leaseDurationMs'' 3600000")
    (auto simp: requireConsumerName_def Let_def split: if_splits)

lemma keeps_completed_ledger:
  "keeps (completed n e) (tryBegin n' e' l)" "keeps (completed n e) (complete n' e')"
  "keeps (completed n e) (release_processing n' e')"
proof -
  show "keeps (completed n e) (tryBegin n' e' l)"
    by (rule keepsI) (auto elim!: tryBegin_cases intro: begin_keeps_completed)
  show "keeps (completed n e) (complete n' e')"
    unfolding complete_def updateState_def
    by (intro keeps_intros) (auto intro: completed_change)
  show "keeps (completed n e) (release_processing n' e')"
    unfolding release_processing_def updateState_def
    by (intro keeps_intros) (auto simp: completed_def ledger_row_def intro!: find_filter_kept)
qed

lemma keeps_on_ledger: "keeps I m \<Longrightarrow> keeps (\<lambda>w. I (cw_ledger w)) (on_ledger m)"
  unfolding on_ledger_def by (rule keeps_on_part) simp_all

lemma consume_keeps_completed: "keeps (\<lambda>w. completed n e (cw_ledger w)) (consume (agency_ports accepts) agency duration message)"
  unfolding consume_def process_def agency_ports_def consumer_ports.simps
  by (auto intro!: keeps_intros keeps_on_ledger keeps_completed_ledger split: option.split)
    (auto simp: keeps_def)

lemma completed_stays: "consumer_step\<^sup>*\<^sup>* w w' \<Longrightarrow> completed n e (cw_ledger w) \<Longrightarrow> completed n e (cw_ledger w')"
proof (induction rule: rtranclp_induct)
  case (step y z)
  from step.hyps(2) show ?case
  proof cases
    case (consumes accepts agency duration message r)
    then show ?thesis using keepsD [OF consume_keeps_completed] step by blast
  next
    case (passes t)
    then show ?thesis using step by (simp add: completed_def ledger_row_def)
  qed
qed


lemma tryBegin_Inr:
  assumes "tryBegin n e l db = (Inr b, db')"
  obtains ms where "\<And>db. tryBegin n e l db = begin_processing (trim n) (toLowerCase e) ms db"
  using assms unfolding tryBegin_def
  by (cases "requireConsumerName n"; cases "requireMessageUuid e ''messageId''";
      cases "requireIntegerUpTo l ''leaseDurationMs'' 3600000")
    (auto simp: requireConsumerName_def Let_def split: if_splits)

lemma begin_True:
  assumes "begin_processing n e ms db = (Inr True, db')"
  shows "\<exists>r. ledger_row db' n e = Some r"
proof (cases "ledger_row db n e")
  case None
  then show ?thesis using assms by (auto simp: begin_processing_def) (auto simp: ledger_row_def find_join)
next
  case (Some r)
  then show ?thesis using assms by (auto simp: begin_processing_def ledger_row_change split: if_splits)
qed

lemma begin_completed: "completed n e db \<Longrightarrow> begin_processing n e ms db = (Inr False, db)"
  by (auto simp: begin_processing_def completed_def)

lemma complete_Inr:
  assumes "complete n e db = (Inr u, db')" "ledger_row db (trim n) (toLowerCase e) = Some r"
  shows "completed (trim n) (toLowerCase e) db'"
proof -
  have key: "pr_consumer r = trim n \<and> pr_event r = toLowerCase e"
    using assms(2) unfolding ledger_row_def by (metis (mono_tags, lifting) find_Some_iff)
  show ?thesis using assms key unfolding complete_def updateState_def
    by (cases "requireConsumerName n"; cases "requireMessageUuid e ''messageId''")
      (auto simp: requireConsumerName_def Let_def completed_def ledger_row_change split: if_splits)
qed

lemma on_ledger_eq: "on_ledger m w = (r, w') \<longleftrightarrow> (\<exists>db. m (cw_ledger w) = (r, db) \<and> w' = w\<lparr>cw_ledger := db\<rparr>)"
  by (simp add: on_ledger_def on_part_eq)

lemma consume_routed:
  assumes "consume P agency duration message w = (Inr r, w')" "om_eventType message \<in> set (ROUTES agency)"
  obtains n where "\<And>P :: 'w consumer_ports. consume P agency duration message = process P agency duration message n"
  using assms unfolding consume_def
  by (cases "om_tenantId message"; cases "om_purpose message") (auto split: if_splits)

lemma process_Processed:
  assumes "process (agency_ports accepts) agency duration message n w = (Inr Processed, w')"
  shows "completed (trim (consumer_name agency)) (toLowerCase (om_id message)) (cw_ledger w') \<and>
    (\<exists>ms. \<forall>db. tryBegin (consumer_name agency) (om_id message) duration db =
       begin_processing (trim (consumer_name agency)) (toLowerCase (om_id message)) ms db)"
proof -
  let ?n = "consumer_name agency" and ?e = "om_id message"
  obtain b u where b: "on_ledger (tryBegin ?n ?e duration) w = (Inr b, u)" and
    rest: "(if \<not> b then aret Duplicate else acatch (abind (cp_record (agency_ports accepts) n) (\<lambda>_.
               abind (on_ledger (complete ?n ?e)) (\<lambda>_. aret Processed)))
            (\<lambda>error. abind (on_ledger (release_processing ?n ?e)) (\<lambda>_. athrow error))) u = (Inr Processed, w')"
    using assms unfolding process_def abind_Inr agency_ports_simps by blast
  have b_True: "b" using rest by (cases b) auto
  obtain db where db: "tryBegin ?n ?e duration (cw_ledger w) = (Inr True, db)" "u = w\<lparr>cw_ledger := db\<rparr>"
    using b b_True by (auto simp: on_ledger_eq)
  obtain ms where ms: "\<And>db. tryBegin ?n ?e duration db = begin_processing (trim ?n) (toLowerCase ?e) ms db"
    using tryBegin_Inr [OF db(1)] by blast
  obtain r where r: "ledger_row db (trim ?n) (toLowerCase ?e) = Some r" using begin_True db(1) ms by metis
  obtain v x w2 where v: "cp_record (agency_ports accepts) n u = (Inr x, v)" and w2: "on_ledger (complete ?n ?e) v = (Inr w2, w')"
    using rest b_True by (auto simp: acatch_Inr abind_Inr)
  have "cw_ledger v = db" using v db(2) by (auto split: if_splits)
  then have "completed (trim ?n) (toLowerCase ?e) (cw_ledger w')"
    using w2 complete_Inr [OF _ r] by (auto simp: on_ledger_eq)
  then show ?thesis using ms by blast
qed


definition sample_world :: consumer_world where
  "sample_world = \<lparr>cw_ledger = \<lparr>lg_rows = [], lg_now = 0\<rparr>, cw_recorded = []\<rparr>"



section \<open>The options of the worker process\<close>

record OutboxRuntimeOptions =
  uo_workerId :: string
  uo_stream :: string
  uo_batchSize :: int
  uo_lockDurationMs :: int
  uo_publishTimeoutMs :: int
  uo_maximumAttempts :: int
  uo_baseRetryDelayMs :: int
  uo_maximumRetryDelayMs :: int
  uo_idlePollMs :: int

text \<open>A variable of the environment; digits denote a safe integer exactly or a number above all bounds.\<close>
definition boundedInteger :: "(string \<Rightarrow> string option) \<Rightarrow> string \<Rightarrow> int \<Rightarrow> int \<Rightarrow> int \<Rightarrow> string + int" where
  "boundedInteger environment name fallback minimum maximum =
     (let raw = (case environment name of None \<Rightarrow> [] | Some text \<Rightarrow> trim text); value = digits_value raw in
      if raw = [] then Inr fallback
      else if \<not> list_all is_digit raw then Inl (name @ '' must be an integer'')
      else if max_safe < value \<or> value < minimum \<or> maximum < value
        then Inl (name @ '' must be between '' @ decimal (nat minimum) @ '' and '' @ decimal (nat maximum))
      else Inr value)"

definition readOutboxRuntimeOptions :: "(string \<Rightarrow> string option) \<Rightarrow> string + OutboxRuntimeOptions" where
  "readOutboxRuntimeOptions environment =
    (let nodeEnvironment = toLowerCase (trim (case environment ''NODE_ENV'' of None \<Rightarrow> ''development'' | Some e \<Rightarrow> e));
         workerId = (case environment ''ROS_OUTBOX_WORKER_ID'' of None \<Rightarrow> [] | Some e \<Rightarrow> trim e);
         stream = trim (case environment ''ROS_OUTBOX_STREAM'' of None \<Rightarrow> ''ros:integration-events'' | Some e \<Rightarrow> e) in
     ebind (ensure (\<not> ((nodeEnvironment = ''production'' \<or> nodeEnvironment = ''staging'') \<and> workerId = []))
       ''ROS_OUTBOX_WORKER_ID is required outside development/test'') (\<lambda>_.
     ebind (boundedInteger environment ''ROS_OUTBOX_BATCH_SIZE'' 5 1 100) (\<lambda>batchSize.
     ebind (boundedInteger environment ''ROS_OUTBOX_LOCK_DURATION_MS'' 30000 1000 3600000) (\<lambda>lockDurationMs.
     ebind (boundedInteger environment ''ROS_OUTBOX_PUBLISH_TIMEOUT_MS'' 5000 100 60000) (\<lambda>publishTimeoutMs.
     ebind (boundedInteger environment ''ROS_OUTBOX_MAXIMUM_ATTEMPTS'' 8 1 100) (\<lambda>maximumAttempts.
     ebind (boundedInteger environment ''ROS_OUTBOX_BASE_RETRY_DELAY_MS'' 500 10 60000) (\<lambda>baseRetryDelayMs.
     ebind (boundedInteger environment ''ROS_OUTBOX_MAXIMUM_RETRY_DELAY_MS'' 30000 10 3600000) (\<lambda>maximumRetryDelayMs.
     ebind (boundedInteger environment ''ROS_OUTBOX_IDLE_POLL_MS'' 250 25 60000) (\<lambda>idlePollMs.
     ebind (ensure (stream \<noteq> [] \<and> length stream \<le> 256) ''ROS_OUTBOX_STREAM must contain between 1 and 256 characters'') (\<lambda>_.
     ebind (ensure (baseRetryDelayMs \<le> maximumRetryDelayMs)
       ''ROS_OUTBOX_BASE_RETRY_DELAY_MS cannot exceed ROS_OUTBOX_MAXIMUM_RETRY_DELAY_MS'') (\<lambda>_.
     ebind (ensure (publishTimeoutMs + 1000 \<le> lockDurationMs)
       ''ROS_OUTBOX_PUBLISH_TIMEOUT_MS must leave at least 1000ms inside ROS_OUTBOX_LOCK_DURATION_MS'') (\<lambda>_.
     Inr \<lparr>uo_workerId = (if workerId = [] then ''local-outbox-worker'' else workerId), uo_stream = stream,
       uo_batchSize = batchSize, uo_lockDurationMs = lockDurationMs, uo_publishTimeoutMs = publishTimeoutMs,
       uo_maximumAttempts = maximumAttempts, uo_baseRetryDelayMs = baseRetryDelayMs,
       uo_maximumRetryDelayMs = maximumRetryDelayMs, uo_idlePollMs = idlePollMs\<rparr>))))))))))))"

text \<open>The options the constructor of \<open>OutboxWorkerRuntime\<close> hands to the worker.\<close>
definition worker_options :: "OutboxRuntimeOptions \<Rightarrow> OutboxWorkerOptions" where
  "worker_options opts = \<lparr>wo_workerId = uo_workerId opts, wo_batchSize = Num (of_int (uo_batchSize opts)),
     wo_lockDurationMs = Num (of_int (uo_lockDurationMs opts)), wo_publishTimeoutMs = Num (of_int (uo_publishTimeoutMs opts)),
     wo_maximumAttempts = Num (of_int (uo_maximumAttempts opts)), wo_baseRetryDelayMs = Num (of_int (uo_baseRetryDelayMs opts)),
     wo_maximumRetryDelayMs = Num (of_int (uo_maximumRetryDelayMs opts))\<rparr>"

lemma boundedInteger_range:
  "boundedInteger environment name fallback lo hi = Inr n \<Longrightarrow> lo \<le> fallback \<Longrightarrow> fallback \<le> hi \<Longrightarrow> lo \<le> n \<and> n \<le> hi"
  by (auto simp: boundedInteger_def Let_def split: if_splits)

lemma requirePositiveInteger_of_int [simp]:
  "1 \<le> n \<Longrightarrow> n \<le> max_safe \<Longrightarrow> requirePositiveInteger (Num (of_int n)) f = Inr n"
  by (simp add: requirePositiveInteger_Inr)

text \<open>Options that are read are options the worker accepts, unless the name of the worker is too long for it.\<close>
lemma options_are_accepted:
  assumes "readOutboxRuntimeOptions environment = Inr opts" "length (uo_workerId opts) \<le> 128"
  shows "new_OutboxWorker (worker_options opts) = Inr (worker_options opts)"
proof -
  from assms(1) obtain b l p m base top idle where
    ranges: "boundedInteger environment ''ROS_OUTBOX_BATCH_SIZE'' 5 1 100 = Inr b"
      "boundedInteger environment ''ROS_OUTBOX_LOCK_DURATION_MS'' 30000 1000 3600000 = Inr l"
      "boundedInteger environment ''ROS_OUTBOX_PUBLISH_TIMEOUT_MS'' 5000 100 60000 = Inr p"
      "boundedInteger environment ''ROS_OUTBOX_MAXIMUM_ATTEMPTS'' 8 1 100 = Inr m"
      "boundedInteger environment ''ROS_OUTBOX_BASE_RETRY_DELAY_MS'' 500 10 60000 = Inr base"
      "boundedInteger environment ''ROS_OUTBOX_MAXIMUM_RETRY_DELAY_MS'' 30000 10 3600000 = Inr top"
    and order: "base \<le> top" "p + 1000 \<le> l"
    and opts: "uo_batchSize opts = b" "uo_lockDurationMs opts = l" "uo_publishTimeoutMs opts = p" "uo_maximumAttempts opts = m"
      "uo_baseRetryDelayMs opts = base" "uo_maximumRetryDelayMs opts = top"
      "uo_workerId opts = (let w = (case environment ''ROS_OUTBOX_WORKER_ID'' of None \<Rightarrow> [] | Some e \<Rightarrow> trim e) in
         if w = [] then ''local-outbox-worker'' else w)"
    unfolding readOutboxRuntimeOptions_def Let_def by (elim ebind_InrE) auto
  have range: "1 \<le> b \<and> b \<le> 100" "1000 \<le> l \<and> l \<le> 3600000" "100 \<le> p \<and> p \<le> 60000" "1 \<le> m \<and> m \<le> 100"
    "10 \<le> base \<and> base \<le> 60000" "10 \<le> top \<and> top \<le> 3600000"
    by (rule boundedInteger_range [OF ranges(1)] boundedInteger_range [OF ranges(2)] boundedInteger_range [OF ranges(3)]
        boundedInteger_range [OF ranges(4)] boundedInteger_range [OF ranges(5)] boundedInteger_range [OF ranges(6)]; simp)+
  have "trim ''local-outbox-worker'' \<noteq> []" by code_simp
  then have name: "trim (uo_workerId opts) \<noteq> []" by (auto simp: opts(7) Let_def split: option.split)
  note opts = opts(1-6) range order
  show ?thesis using opts name assms(2) by (simp add: new_OutboxWorker_def worker_options_def max_safe_def)
qed

end
