(* ===== verification/Privacy.thy ===== *)
theory Privacy
  imports JsAction JsDate JsDouble
begin

text \<open>
  Privacy and security oversight (\<open>apps/api/src/ros-eye/privacy-security-oversight.ts\<close>): the pure policy
  \<open>evaluateAccess\<close>, the orchestrator that verifies consent and grants break-glass access in a
  transaction of the grant repository, the execution of recommendations, the break-glass lease and the
  redaction of telemetry. The ports (clock, consent authority, grant repository, recommendation
  authority, identifiers) are actions on a state of their own.
\<close>

section \<open>Vocabulary\<close>

definition BREAK_GLASS_MAX_MS :: int where "BREAK_GLASS_MAX_MS = 900000"

datatype DataKind = DK_SIGNAL | DK_INDICATOR | DK_CONVERSATION_METADATA | DK_CONVERSATION_RAW | DK_EVIDENCE_METADATA |
  DK_EVIDENCE_RAW | DK_PRECISE_LOCATION | DK_RAW_TOKEN | DK_OPERATOR_VIEW

datatype Purpose = PU_SAFETY_CONTACT | PU_INCIDENT_TRIAGE | PU_OPERATOR_REVIEW | PU_SECURITY_INVESTIGATION | PU_RETENTION_ADMIN

datatype Lifecycle = LC_INACTIVE | LC_CONSENT_PENDING | LC_LANGUAGE_SELECTION | LC_ACTIVE | LC_REVOKED | LC_EXPIRED |
  LC_LEGAL_HOLD | LC_DELETION_PENDING

datatype Role = RO_SYSTEM_WORKER | RO_SAFETY_OPERATOR | RO_SECURITY_REVIEWER | RO_RETENTION_ADMIN | RO_AUDITOR

datatype Action = AC_READ | AC_MASKED_READ | AC_WRITE | AC_DELETE | AC_EXPORT

datatype AccessMode = AM_DENY | AM_MASKED | AM_FULL

record Scope =
  sp_tenantId :: string
  sp_caseId :: string

record BreakGlassLease = Scope +
  bl_leaseId :: string
  bl_actorId :: string
  bl_role :: Role
  bl_purpose :: Purpose
  bl_reasonCode :: string
  bl_issuedAt :: string
  bl_expiresAt :: string
  bl_reviewedAt :: "string option"
  bl_revokedAt :: "string option"

record AccessRequest = Scope +
  ar_actorId :: string
  ar_actorTenantId :: string
  ar_actorCaseId :: string
  ar_role :: Role
  ar_purpose :: Purpose
  ar_lifecycle :: Lifecycle
  ar_dataKind :: DataKind
  ar_action :: Action
  ar_now :: string
  ar_breakGlass :: "BreakGlassLease option"
  ar_sessionId :: "string option"
  ar_subjectId :: "string option"
  ar_consentGrantId :: "string option"
  ar_idempotencyKey :: "string option"

record AccessDecision =
  ad_allowed :: bool
  ad_mode :: AccessMode
  ad_reasonCode :: string
  ad_receiptId :: "string option"

datatype ContactStateName = CN_CONTACTING | CN_AWAITING_RESPONSE | CN_HUMAN_REVIEW | CN_ESCALATED
datatype GrantStatus = GS_ACTIVE | GS_REVOKED | GS_EXPIRED

record ConsentGrantReceipt = Scope +
  cg_grantId :: string
  cg_sessionId :: string
  cg_subjectId :: string
  cg_purposes :: "Purpose list"
  cg_dataKinds :: "DataKind list"
  cg_actions :: "Action list"
  cg_disclosureLanguage :: string
  cg_contactState :: ContactStateName
  cg_protocolVersion :: string
  cg_consentPolicyVersion :: string
  cg_grantedAt :: string
  cg_expiresAt :: string
  cg_revokedAt :: "string option"
  cg_status :: GrantStatus

section \<open>The policy\<close>

definition minimum_data :: "Purpose \<Rightarrow> DataKind list" where
  "minimum_data p = (case p of
     PU_SAFETY_CONTACT \<Rightarrow> [DK_SIGNAL, DK_INDICATOR, DK_CONVERSATION_METADATA]
   | PU_INCIDENT_TRIAGE \<Rightarrow> [DK_SIGNAL, DK_INDICATOR, DK_EVIDENCE_METADATA]
   | PU_OPERATOR_REVIEW \<Rightarrow> [DK_SIGNAL, DK_INDICATOR, DK_CONVERSATION_METADATA, DK_EVIDENCE_METADATA, DK_OPERATOR_VIEW]
   | PU_SECURITY_INVESTIGATION \<Rightarrow> [DK_SIGNAL, DK_INDICATOR, DK_CONVERSATION_METADATA, DK_EVIDENCE_METADATA, DK_OPERATOR_VIEW]
   | PU_RETENTION_ADMIN \<Rightarrow> [DK_CONVERSATION_METADATA, DK_EVIDENCE_METADATA])"

definition rolePurposes :: "Role \<Rightarrow> Purpose list" where
  "rolePurposes r = (case r of RO_SYSTEM_WORKER \<Rightarrow> [PU_SAFETY_CONTACT, PU_INCIDENT_TRIAGE]
   | RO_SAFETY_OPERATOR \<Rightarrow> [PU_OPERATOR_REVIEW] | RO_SECURITY_REVIEWER \<Rightarrow> [PU_SECURITY_INVESTIGATION]
   | RO_RETENTION_ADMIN \<Rightarrow> [PU_RETENTION_ADMIN] | RO_AUDITOR \<Rightarrow> [PU_SECURITY_INVESTIGATION])"

definition restrictedRaw :: "DataKind list" where
  "restrictedRaw = [DK_EVIDENCE_RAW, DK_CONVERSATION_RAW, DK_PRECISE_LOCATION]"

definition privacyId :: "string \<Rightarrow> bool" where "privacyId v = token_pattern 2 127 v"
definition privacyTime :: "string \<Rightarrow> bool" where "privacyTime v \<longleftrightarrow> dateParse v \<noteq> None"

definition privacyScope :: "'a Scope_scheme \<Rightarrow> bool" where
  "privacyScope v \<longleftrightarrow> privacyId (sp_tenantId v) \<and> privacyId (sp_caseId v)"

definition deny :: "string \<Rightarrow> AccessDecision" where
  "deny reasonCode = \<lparr>ad_allowed = False, ad_mode = AM_DENY, ad_reasonCode = reasonCode, ad_receiptId = None\<rparr>"

definition allow :: "AccessMode \<Rightarrow> string \<Rightarrow> string option \<Rightarrow> AccessDecision" where
  "allow mode reasonCode receiptId =
    \<lparr>ad_allowed = True, ad_mode = mode, ad_reasonCode = reasonCode, ad_receiptId = receiptId\<rparr>"

definition lifecycleAllows :: "Lifecycle \<Rightarrow> Purpose \<Rightarrow> bool" where
  "lifecycleAllows l p =
    (if l \<in> set [LC_REVOKED, LC_EXPIRED, LC_INACTIVE, LC_DELETION_PENDING] then p = PU_RETENTION_ADMIN
     else if l = LC_CONSENT_PENDING \<or> l = LC_LANGUAGE_SELECTION then False
     else if l = LC_LEGAL_HOLD then p = PU_RETENTION_ADMIN \<or> p = PU_SECURITY_INVESTIGATION
     else l = LC_ACTIVE)"

definition requiresConsent :: "Purpose \<Rightarrow> bool" where
  "requiresConsent p \<longleftrightarrow> p = PU_SAFETY_CONTACT \<or> p = PU_INCIDENT_TRIAGE \<or> p = PU_OPERATOR_REVIEW"

definition validateCommon :: "AccessRequest \<Rightarrow> AccessDecision option" where
  "validateCommon r =
    (if \<not> privacyScope r \<or> \<not> privacyId (ar_actorId r) \<or> ar_actorTenantId r \<noteq> sp_tenantId r \<or> ar_actorCaseId r \<noteq> sp_caseId r
       then Some (deny ''scope_or_actor_mismatch'')
     else if \<not> privacyTime (ar_now r) \<or> ar_purpose r \<notin> set (rolePurposes (ar_role r)) then Some (deny ''role_or_time_denied'')
     else if \<not> lifecycleAllows (ar_lifecycle r) (ar_purpose r) then Some (deny ''lifecycle_denied'')
     else None)"

definition read_mode :: "Action \<Rightarrow> AccessMode" where
  "read_mode a = (if a = AC_MASKED_READ then AM_MASKED else AM_FULL)"

definition evaluateAccess :: "AccessRequest \<Rightarrow> AccessDecision" where
  "evaluateAccess r = (case validateCommon r of Some d \<Rightarrow> d | None \<Rightarrow>
     if ar_dataKind r = DK_RAW_TOKEN then deny ''raw_token_denied''
     else if ar_action r = AC_EXPORT \<and> ar_dataKind r \<in> set restrictedRaw then deny ''restricted_export_denied''
     else if ar_action r = AC_DELETE \<and> ar_role r \<noteq> RO_RETENTION_ADMIN then deny ''delete_role_denied''
     else if requiresConsent (ar_purpose r) then deny ''authoritative_consent_required''
     else if ar_dataKind r \<in> set restrictedRaw then deny ''break_glass_orchestration_required''
     else if ar_dataKind r \<notin> set (minimum_data (ar_purpose r)) then deny ''minimum_necessary_denied''
     else allow (read_mode (ar_action r)) ''policy_allow'' None)"

text \<open>\<open>Date.parse(now) >= Date.parse(from) && Date.parse(now) < Date.parse(until)\<close>, behind \<open>validTime\<close>.\<close>
definition in_force :: "string \<Rightarrow> string \<Rightarrow> string \<Rightarrow> bool" where
  "in_force now since until = (case (dateParse now, dateParse since, dateParse until) of
     (Some t, Some a, Some b) \<Rightarrow> a \<le> t \<and> t < b | _ \<Rightarrow> False)"

definition validBreakGlass :: "BreakGlassLease option \<Rightarrow> AccessRequest \<Rightarrow> bool" where
  "validBreakGlass lease r = (case lease of None \<Rightarrow> False | Some l \<Rightarrow>
     sp_tenantId l = sp_tenantId r \<and> sp_caseId l = sp_caseId r \<and> bl_actorId l = ar_actorId r \<and> bl_role l = ar_role r \<and>
     bl_purpose l = ar_purpose r \<and> in_force (ar_now r) (bl_issuedAt l) (bl_expiresAt l) \<and>
     bl_reviewedAt l = None \<and> bl_revokedAt l = None \<and> privacyId (bl_leaseId l) \<and> privacyId (bl_reasonCode l))"

section \<open>Access\<close>

datatype AbuseVerdict = AV_ALLOW | AV_RATE_LIMIT | AV_ANOMALY_REVIEW
datatype AlertStatus = AS_RESERVED | AS_EXISTS | AS_FAILED
datatype AuditStatus = AU_APPENDED | AU_IDEMPOTENT | AU_FAILED
datatype FinalizeStatus = FS_AUTHORIZED | FS_IDEMPOTENT | FS_CONFLICT

record BreakGlassGrantInput = Scope +
  gi_grantId :: string
  gi_idempotencyKey :: string
  gi_actorId :: string
  gi_leaseId :: string
  gi_role :: Role
  gi_purpose :: Purpose
  gi_dataKind :: DataKind
  gi_action :: Action
  gi_reasonCode :: string
  gi_occurredAt :: string

record BreakGlassLeaseLookup = Scope +
  ll_leaseId :: string
  ll_actorId :: string
  ll_role :: Role
  ll_purpose :: Purpose

text \<open>A receipt is known by its grant; \<open>bg_findAuthorized\<close> takes scope, grant, actor and lease.\<close>
record 's privacy_ports =
  bg_clock :: "('s, unit, string) action"
  bg_createId :: "string \<Rightarrow> string \<Rightarrow> ('s, unit, string) action"
  bg_findConsentGrant :: "Scope \<Rightarrow> string \<Rightarrow> string \<Rightarrow> string \<Rightarrow> ('s, unit, ConsentGrantReceipt option) action"
  bg_transaction :: "('s, unit, AccessDecision) action \<Rightarrow> ('s, unit, AccessDecision) action"
  bg_findLeaseForUpdate :: "BreakGlassLeaseLookup \<Rightarrow> ('s, unit, BreakGlassLease option) action"
  bg_findAuthorized :: "Scope \<Rightarrow> string \<Rightarrow> string \<Rightarrow> string \<Rightarrow> ('s, unit, string option) action"
  bg_consumeAbuse :: "BreakGlassGrantInput \<Rightarrow> ('s, unit, AbuseVerdict) action"
  bg_reserveAlert :: "BreakGlassGrantInput \<Rightarrow> ('s, unit, AlertStatus \<times> string option) action"
  bg_appendAudit :: "BreakGlassGrantInput \<Rightarrow> string \<Rightarrow> ('s, unit, AuditStatus \<times> string option) action"
  bg_finalizeGrant :: "BreakGlassGrantInput \<Rightarrow> string \<Rightarrow> string \<Rightarrow> ('s, unit, FinalizeStatus \<times> string option) action"

definition scope_of :: "'a Scope_scheme \<Rightarrow> Scope" where
  "scope_of v = \<lparr>sp_tenantId = sp_tenantId v, sp_caseId = sp_caseId v\<rparr>"

definition text_or_empty :: "string option \<Rightarrow> string" where
  "text_or_empty v = (case v of None \<Rightarrow> [] | Some t \<Rightarrow> t)"

definition consent_valid :: "ConsentGrantReceipt \<Rightarrow> AccessRequest \<Rightarrow> bool" where
  "consent_valid g r \<longleftrightarrow>
     cg_status g = GS_ACTIVE \<and> cg_revokedAt g = None \<and> in_force (ar_now r) (cg_grantedAt g) (cg_expiresAt g) \<and>
     sp_tenantId g = sp_tenantId r \<and> sp_caseId g = sp_caseId r \<and> Some (cg_sessionId g) = ar_sessionId r \<and>
     Some (cg_subjectId g) = ar_subjectId r \<and> ar_purpose r \<in> set (cg_purposes g) \<and>
     ar_dataKind r \<in> set (cg_dataKinds g) \<and> ar_action r \<in> set (cg_actions g) \<and>
     cg_contactState g \<in> set [CN_CONTACTING, CN_AWAITING_RESPONSE, CN_HUMAN_REVIEW, CN_ESCALATED] \<and>
     privacyId (cg_disclosureLanguage g) \<and> privacyId (cg_protocolVersion g) \<and> privacyId (cg_consentPolicyVersion g)"

definition verifyConsent :: "'s privacy_ports \<Rightarrow> AccessRequest \<Rightarrow> ('s, unit, AccessDecision option) action" where
  "verifyConsent P r =
    (if \<not> privacyId (text_or_empty (ar_consentGrantId r)) \<or> \<not> privacyId (text_or_empty (ar_sessionId r)) \<or>
        \<not> privacyId (text_or_empty (ar_subjectId r)) then aret (Some (deny ''consent_record_required''))
     else abind (bg_findConsentGrant P (scope_of r) (text_or_empty (ar_consentGrantId r)) (text_or_empty (ar_sessionId r))
       (text_or_empty (ar_subjectId r))) (\<lambda>grant. case grant of None \<Rightarrow> aret (Some (deny ''consent_record_missing''))
       | Some g \<Rightarrow> aret (if consent_valid g r then None else Some (deny ''consent_record_invalid''))))"

definition lease_lookup :: "AccessRequest \<Rightarrow> string \<Rightarrow> BreakGlassLeaseLookup" where
  "lease_lookup r leaseId = \<lparr>sp_tenantId = sp_tenantId r, sp_caseId = sp_caseId r, ll_leaseId = leaseId,
     ll_actorId = ar_actorId r, ll_role = ar_role r, ll_purpose = ar_purpose r\<rparr>"

definition grant_input :: "AccessRequest \<Rightarrow> BreakGlassLease \<Rightarrow> string \<Rightarrow> string \<Rightarrow> string \<Rightarrow> BreakGlassGrantInput" where
  "grant_input r lease grantId key now = \<lparr>sp_tenantId = sp_tenantId r, sp_caseId = sp_caseId r, gi_grantId = grantId,
     gi_idempotencyKey = key, gi_actorId = ar_actorId r, gi_leaseId = bl_leaseId lease, gi_role = ar_role r,
     gi_purpose = ar_purpose r, gi_dataKind = ar_dataKind r, gi_action = ar_action r,
     gi_reasonCode = bl_reasonCode lease, gi_occurredAt = now\<rparr>"

definition finalize :: "'s privacy_ports \<Rightarrow> AccessRequest \<Rightarrow> BreakGlassLeaseLookup \<Rightarrow> BreakGlassGrantInput \<Rightarrow> string \<Rightarrow> string \<Rightarrow>
    ('s, unit, AccessDecision) action" where
  "finalize P r lookup input alertId auditId =
     abind (bg_clock P) (\<lambda>finalNow.
     if \<not> privacyTime finalNow then aret (deny ''trusted_clock_unavailable'')
     else abind (bg_findLeaseForUpdate P lookup) (\<lambda>finalLease.
     if \<not> validBreakGlass finalLease (r\<lparr>ar_now := finalNow\<rparr>) then aret (deny ''break_glass_lease_invalidated'')
     else abind (bg_finalizeGrant P (input\<lparr>gi_occurredAt := finalNow\<rparr>) alertId auditId) (\<lambda>finalized.
     aret (case finalized of (status, Some receipt) \<Rightarrow>
         if status = FS_AUTHORIZED \<or> status = FS_IDEMPOTENT then allow AM_FULL ''break_glass_authorized'' (Some receipt)
         else deny ''break_glass_grant_conflict''
       | (_, None) \<Rightarrow> deny ''break_glass_grant_conflict''))))"

definition grant_new :: "'s privacy_ports \<Rightarrow> AccessRequest \<Rightarrow> BreakGlassLeaseLookup \<Rightarrow> BreakGlassGrantInput \<Rightarrow>
    ('s, unit, AccessDecision) action" where
  "grant_new P r lookup input =
     abind (bg_consumeAbuse P input) (\<lambda>abuse.
     if abuse \<noteq> AV_ALLOW
     then aret (deny (if abuse = AV_RATE_LIMIT then ''break_glass_rate_limited'' else ''break_glass_anomaly_review''))
     else abind (bg_reserveAlert P input) (\<lambda>alert. case alert of
         (_, None) \<Rightarrow> aret (deny ''break_glass_alert_not_durable'')
       | (alertStatus, Some alertId) \<Rightarrow>
         if alertStatus = AS_FAILED then aret (deny ''break_glass_alert_not_durable'')
         else abind (bg_appendAudit P input alertId) (\<lambda>audit. case audit of
             (_, None) \<Rightarrow> aret (deny ''break_glass_audit_not_durable'')
           | (auditStatus, Some auditId) \<Rightarrow>
             if auditStatus = AU_FAILED then aret (deny ''break_glass_audit_not_durable'')
             else finalize P r lookup input alertId auditId)))"

text \<open>The work of the transaction.\<close>
definition break_glass :: "'s privacy_ports \<Rightarrow> AccessRequest \<Rightarrow> string \<Rightarrow> string \<Rightarrow> string \<Rightarrow> ('s, unit, AccessDecision) action" where
  "break_glass P r leaseId key grantId =
     abind (bg_findLeaseForUpdate P (lease_lookup r leaseId)) (\<lambda>found.
     case found of None \<Rightarrow> aret (deny ''break_glass_authoritative_lease_invalid'')
     | Some lease \<Rightarrow>
       if \<not> validBreakGlass (Some lease) r then aret (deny ''break_glass_authoritative_lease_invalid'')
       else abind (bg_findAuthorized P (scope_of r) grantId (ar_actorId r) (bl_leaseId lease)) (\<lambda>existing.
         case existing of Some receipt \<Rightarrow> aret (allow AM_FULL ''break_glass_authorized'' (Some receipt))
         | None \<Rightarrow> grant_new P r (lease_lookup r leaseId) (grant_input r lease grantId key (ar_now r))))"

definition data_kind_name :: "DataKind \<Rightarrow> string" where
  "data_kind_name k = (case k of DK_SIGNAL \<Rightarrow> ''SIGNAL'' | DK_INDICATOR \<Rightarrow> ''INDICATOR''
   | DK_CONVERSATION_METADATA \<Rightarrow> ''CONVERSATION_METADATA'' | DK_CONVERSATION_RAW \<Rightarrow> ''CONVERSATION_RAW''
   | DK_EVIDENCE_METADATA \<Rightarrow> ''EVIDENCE_METADATA'' | DK_EVIDENCE_RAW \<Rightarrow> ''EVIDENCE_RAW''
   | DK_PRECISE_LOCATION \<Rightarrow> ''PRECISE_LOCATION'' | DK_RAW_TOKEN \<Rightarrow> ''RAW_TOKEN'' | DK_OPERATOR_VIEW \<Rightarrow> ''OPERATOR_VIEW'')"

definition purpose_name :: "Purpose \<Rightarrow> string" where
  "purpose_name p = (case p of PU_SAFETY_CONTACT \<Rightarrow> ''SAFETY_CONTACT'' | PU_INCIDENT_TRIAGE \<Rightarrow> ''INCIDENT_TRIAGE''
   | PU_OPERATOR_REVIEW \<Rightarrow> ''OPERATOR_REVIEW'' | PU_SECURITY_INVESTIGATION \<Rightarrow> ''SECURITY_INVESTIGATION''
   | PU_RETENTION_ADMIN \<Rightarrow> ''RETENTION_ADMIN'')"

definition action_name :: "Action \<Rightarrow> string" where
  "action_name a = (case a of AC_READ \<Rightarrow> ''READ'' | AC_MASKED_READ \<Rightarrow> ''MASKED_READ'' | AC_WRITE \<Rightarrow> ''WRITE''
   | AC_DELETE \<Rightarrow> ''DELETE'' | AC_EXPORT \<Rightarrow> ''EXPORT'')"

definition grant_material :: "AccessRequest \<Rightarrow> string \<Rightarrow> string \<Rightarrow> string" where
  "grant_material r leaseId key = sp_tenantId r @ ''|'' @ sp_caseId r @ ''|'' @ ar_actorId r @ ''|'' @ leaseId @ ''|'' @
     purpose_name (ar_purpose r) @ ''|'' @ data_kind_name (ar_dataKind r) @ ''|'' @ action_name (ar_action r) @ ''|'' @ key"

definition restricted_access :: "'s privacy_ports \<Rightarrow> AccessRequest \<Rightarrow> ('s, unit, AccessDecision) action" where
  "restricted_access P r = (case ar_breakGlass r of None \<Rightarrow> aret (deny ''break_glass_required'')
   | Some requested \<Rightarrow>
     if \<not> privacyId (bl_leaseId requested) then aret (deny ''break_glass_required'')
     else if \<not> privacyId (text_or_empty (ar_idempotencyKey r)) then aret (deny ''idempotency_required'')
     else (let key = text_or_empty (ar_idempotencyKey r) in
       abind (bg_createId P ''break-glass-grant'' (grant_material r (bl_leaseId requested) key)) (\<lambda>grantId.
       bg_transaction P (break_glass P r (bl_leaseId requested) key grantId))))"

definition after_consent :: "'s privacy_ports \<Rightarrow> AccessRequest \<Rightarrow> ('s, unit, AccessDecision) action" where
  "after_consent P r =
    (if ar_dataKind r \<notin> set restrictedRaw then
       aret (if ar_action r = AC_DELETE \<and> ar_role r \<noteq> RO_RETENTION_ADMIN then deny ''delete_role_denied''
         else if ar_dataKind r \<notin> set (minimum_data (ar_purpose r)) then deny ''minimum_necessary_denied''
         else allow (read_mode (ar_action r)) ''policy_allow'' None)
     else restricted_access P r)"

definition decide_access :: "'s privacy_ports \<Rightarrow> AccessRequest \<Rightarrow> ('s, unit, AccessDecision) action" where
  "decide_access P r = (case validateCommon r of Some d \<Rightarrow> aret d | None \<Rightarrow>
     if ar_dataKind r = DK_RAW_TOKEN then aret (deny ''raw_token_denied'')
     else if ar_action r = AC_EXPORT \<and> ar_dataKind r \<in> set restrictedRaw then aret (deny ''restricted_export_denied'')
     else if requiresConsent (ar_purpose r)
       then abind (verifyConsent P r) (\<lambda>refused. case refused of Some d \<Rightarrow> aret d | None \<Rightarrow> after_consent P r)
     else after_consent P r)"

definition authorizeAccess :: "'s privacy_ports \<Rightarrow> AccessRequest \<Rightarrow> ('s, unit, AccessDecision) action" where
  "authorizeAccess P request =
     abind (bg_clock P) (\<lambda>trustedNow.
     if \<not> privacyTime trustedNow then aret (deny ''trusted_clock_unavailable'')
     else decide_access P (request\<lparr>ar_now := trustedNow\<rparr>))"

section \<open>What an access rests on\<close>

lemma decisions [simp]:
  "\<not> ad_allowed (deny c)" "ad_allowed (allow mode c receipt)" "ad_mode (allow mode c receipt) = mode"
  by (simp_all add: deny_def allow_def)

definition freshly_granted :: "'s privacy_ports \<Rightarrow> AccessRequest \<Rightarrow> BreakGlassLeaseLookup \<Rightarrow> BreakGlassGrantInput \<Rightarrow> bool" where
  "freshly_granted P r lookup input \<longleftrightarrow> answers (bg_consumeAbuse P input) AV_ALLOW \<and>
    (\<exists>alertStatus alertId auditStatus auditId now lease.
      answers (bg_reserveAlert P input) (alertStatus, Some alertId) \<and> alertStatus \<noteq> AS_FAILED \<and>
      answers (bg_appendAudit P input alertId) (auditStatus, Some auditId) \<and> auditStatus \<noteq> AU_FAILED \<and>
      answers (bg_clock P) now \<and> answers (bg_findLeaseForUpdate P lookup) (Some lease) \<and>
      validBreakGlass (Some lease) (r\<lparr>ar_now := now\<rparr>))"

definition lease_backed :: "'s privacy_ports \<Rightarrow> AccessRequest \<Rightarrow> string \<Rightarrow> bool" where
  "lease_backed P r leaseId \<longleftrightarrow> (\<exists>lease grantId key.
     answers (bg_findLeaseForUpdate P (lease_lookup r leaseId)) (Some lease) \<and> validBreakGlass (Some lease) r \<and>
     ((\<exists>receipt. answers (bg_findAuthorized P (scope_of r) grantId (ar_actorId r) (bl_leaseId lease)) (Some receipt)) \<or>
      freshly_granted P r (lease_lookup r leaseId) (grant_input r lease grantId key (ar_now r))))"

definition consent_backed :: "'s privacy_ports \<Rightarrow> AccessRequest \<Rightarrow> bool" where
  "consent_backed P r \<longleftrightarrow> (\<exists>grant. consent_valid grant r \<and>
     answers (bg_findConsentGrant P (scope_of r) (text_or_empty (ar_consentGrantId r)) (text_or_empty (ar_sessionId r))
       (text_or_empty (ar_subjectId r))) (Some grant))"

lemma finalize_allowed:
  assumes "answers (finalize P r lookup input alertId auditId) d" "ad_allowed d"
  shows "\<exists>now lease. answers (bg_clock P) now \<and> answers (bg_findLeaseForUpdate P lookup) (Some lease) \<and>
    validBreakGlass (Some lease) (r\<lparr>ar_now := now\<rparr>) \<and> ad_mode d = AM_FULL"
proof -
  from assms obtain now lease where "answers (bg_clock P) now" "answers (bg_findLeaseForUpdate P lookup) lease"
    "validBreakGlass lease (r\<lparr>ar_now := now\<rparr>)" "ad_mode d = AM_FULL"
    unfolding finalize_def by (auto elim!: answers_abindE split: if_splits prod.splits option.splits)
  moreover then obtain l where "lease = Some l" by (cases lease) (auto simp: validBreakGlass_def)
  ultimately show ?thesis by blast
qed

lemma grant_new_allowed:
  assumes "answers (grant_new P r lookup input) d" "ad_allowed d"
  shows "freshly_granted P r lookup input \<and> ad_mode d = AM_FULL"
proof -
  from assms obtain alertStatus alertId auditStatus auditId where
    steps: "answers (bg_consumeAbuse P input) AV_ALLOW" "answers (bg_reserveAlert P input) (alertStatus, Some alertId)"
      "alertStatus \<noteq> AS_FAILED" "answers (bg_appendAudit P input alertId) (auditStatus, Some auditId)"
      "auditStatus \<noteq> AU_FAILED"
    and last: "answers (finalize P r lookup input alertId auditId) d"
    unfolding grant_new_def by (auto elim!: answers_abindE split: if_splits prod.splits option.splits)
  show ?thesis using steps finalize_allowed [OF last assms(2)] unfolding freshly_granted_def by blast
qed

lemma break_glass_allowed:
  assumes "answers (break_glass P r leaseId key grantId) d" "ad_allowed d"
  shows "lease_backed P r leaseId \<and> ad_mode d = AM_FULL"
proof -
  from assms obtain lease existing where lease: "answers (bg_findLeaseForUpdate P (lease_lookup r leaseId)) (Some lease)"
      "validBreakGlass (Some lease) r"
    and existing: "answers (bg_findAuthorized P (scope_of r) grantId (ar_actorId r) (bl_leaseId lease)) existing"
      "answers (case existing of Some receipt \<Rightarrow> aret (allow AM_FULL ''break_glass_authorized'' (Some receipt))
         | None \<Rightarrow> grant_new P r (lease_lookup r leaseId) (grant_input r lease grantId key (ar_now r))) d"
    unfolding break_glass_def by (auto elim!: answers_abindE split: if_splits option.splits)
  show ?thesis
  proof (cases existing)
    case None
    then have "freshly_granted P r (lease_lookup r leaseId) (grant_input r lease grantId key (ar_now r)) \<and> ad_mode d = AM_FULL"
      using existing(2) grant_new_allowed [OF _ assms(2)] by simp
    then show ?thesis using lease unfolding lease_backed_def by blast
  next
    case (Some receipt)
    then have "ad_mode d = AM_FULL" using existing(2) by simp
    then show ?thesis using existing(1) lease unfolding Some lease_backed_def by blast
  qed
qed

lemma restricted_access_allowed:
  assumes "answers (restricted_access P r) d" "ad_allowed d"
    and "\<And>w d. answers (bg_transaction P w) d \<Longrightarrow> answers w d"
  shows "\<exists>requested. ar_breakGlass r = Some requested \<and> lease_backed P r (bl_leaseId requested) \<and> ad_mode d = AM_FULL"
proof -
  from assms(1,2) obtain requested key grantId where "ar_breakGlass r = Some requested"
    "answers (bg_transaction P (break_glass P r (bl_leaseId requested) key grantId)) d"
    unfolding restricted_access_def by (auto simp: Let_def elim!: answers_abindE split: if_splits option.splits)
  then show ?thesis using assms(3) break_glass_allowed [OF _ assms(2)] by blast
qed

lemma after_consent_allowed:
  assumes "answers (after_consent P r) d" "ad_allowed d" "ar_dataKind r \<in> set restrictedRaw"
  shows "answers (restricted_access P r) d"
  using assms by (simp add: after_consent_def)

lemma validateCommon_refuses: "validateCommon r = Some d \<Longrightarrow> \<not> ad_allowed d"
  by (auto simp: validateCommon_def split: if_splits)

lemma verifyConsent_refuses: "answers (verifyConsent P r) (Some d) \<Longrightarrow> \<not> ad_allowed d"
  by (auto simp: verifyConsent_def elim!: answers_abindE split: if_splits option.splits)

lemma verifyConsent_passed: "answers (verifyConsent P r) None \<Longrightarrow> consent_backed P r"
  by (auto simp: verifyConsent_def consent_backed_def elim!: answers_abindE split: if_splits option.splits)

lemma decide_access_allowed:
  assumes run: "answers (decide_access P r) d" and allowed: "ad_allowed d" and raw: "ar_dataKind r \<in> set restrictedRaw"
    and tx: "\<And>w d. answers (bg_transaction P w) d \<Longrightarrow> answers w d"
  shows "ad_mode d = AM_FULL \<and> ar_action r \<noteq> AC_EXPORT \<and> validateCommon r = None \<and>
    (\<exists>requested. ar_breakGlass r = Some requested \<and> lease_backed P r (bl_leaseId requested)) \<and>
    (requiresConsent (ar_purpose r) \<longrightarrow> consent_backed P r)"
proof -
  have common: "validateCommon r = None"
    using run allowed validateCommon_refuses unfolding decide_access_def by (cases "validateCommon r") auto
  note rest = run [unfolded decide_access_def common option.case]
  have export: "ar_action r \<noteq> AC_EXPORT" and token: "ar_dataKind r \<noteq> DK_RAW_TOKEN"
    using rest allowed raw by (auto split: if_splits)
  have consent: "answers (after_consent P r) d \<and> (requiresConsent (ar_purpose r) \<longrightarrow> consent_backed P r)"
  proof (cases "requiresConsent (ar_purpose r)")
    case True
    then have "answers (abind (verifyConsent P r) (\<lambda>refused. case refused of Some d \<Rightarrow> aret d | None \<Rightarrow> after_consent P r)) d"
      using rest export token by simp
    then obtain refused where v: "answers (verifyConsent P r) refused"
      and d: "answers (case refused of Some d \<Rightarrow> aret d | None \<Rightarrow> after_consent P r) d" by (rule answers_abindE)
    have "refused = None" using verifyConsent_refuses v d allowed by (cases refused) auto
    then show ?thesis using d v verifyConsent_passed by auto
  next
    case False
    then show ?thesis using rest export token by simp
  qed
  then have "answers (restricted_access P r) d" using after_consent_allowed allowed raw by blast
  from restricted_access_allowed [OF this allowed tx] show ?thesis using common export consent by blast
qed


definition sample_lease :: BreakGlassLease where
  "sample_lease = \<lparr>sp_tenantId = ''riyadh'', sp_caseId = ''case-1'', bl_leaseId = ''lease-1'', bl_actorId = ''actor-1'',
    bl_role = RO_SECURITY_REVIEWER, bl_purpose = PU_SECURITY_INVESTIGATION, bl_reasonCode = ''fraud-report'',
    bl_issuedAt = ''2026-01-01T00:00:00.000Z'', bl_expiresAt = ''2026-01-01T00:10:00.000Z'', bl_reviewedAt = None,
    bl_revokedAt = None\<rparr>"

definition sample_privacy_ports :: "unit privacy_ports" where
  "sample_privacy_ports = \<lparr>bg_clock = aret ''2026-01-01T00:05:00.000Z'', bg_createId = (\<lambda>_ _. aret ''grant-1''),
    bg_findConsentGrant = (\<lambda>_ _ _ _. aret None), bg_transaction = (\<lambda>w. w),
    bg_findLeaseForUpdate = (\<lambda>_. aret (Some sample_lease)), bg_findAuthorized = (\<lambda>_ _ _ _. aret None),
    bg_consumeAbuse = (\<lambda>_. aret AV_ALLOW), bg_reserveAlert = (\<lambda>_. aret (AS_RESERVED, Some ''alert-1'')),
    bg_appendAudit = (\<lambda>_ _. aret (AU_APPENDED, Some ''audit-1'')),
    bg_finalizeGrant = (\<lambda>_ _ _. aret (FS_AUTHORIZED, Some ''grant-1''))\<rparr>"

definition sample_access :: AccessRequest where
  "sample_access = \<lparr>sp_tenantId = ''riyadh'', sp_caseId = ''case-1'', ar_actorId = ''actor-1'', ar_actorTenantId = ''riyadh'',
    ar_actorCaseId = ''case-1'', ar_role = RO_SECURITY_REVIEWER, ar_purpose = PU_SECURITY_INVESTIGATION,
    ar_lifecycle = LC_ACTIVE, ar_dataKind = DK_EVIDENCE_RAW, ar_action = AC_READ, ar_now = [],
    ar_breakGlass = Some sample_lease, ar_sessionId = None, ar_subjectId = None, ar_consentGrantId = None,
    ar_idempotencyKey = Some ''key-1''\<rparr>"


section \<open>Recommendations\<close>

datatype Risk = RK_LOW | RK_MODERATE | RK_HIGH | RK_CRITICAL
datatype ApprovalStatus = AP_APPROVED | AP_REVOKED | AP_EXPIRED
datatype ExecutionResult = EX_AUTHORIZED | EX_IDEMPOTENT | EX_DENIED | EX_AUDIT_FAILED

record RecommendationApprovalReceipt = Scope +
  ap_approvalId :: string
  ap_recommendationId :: string
  ap_recommendationVersion :: js_num
  ap_actionId :: string
  ap_risk :: Risk
  ap_approverId :: string
  ap_approverRole :: Role
  ap_proposerId :: string
  ap_explanationArtifactHash :: string
  ap_approvedAt :: string
  ap_expiresAt :: string
  ap_revokedAt :: "string option"
  ap_status :: ApprovalStatus

record RecommendationExecutionRequest = Scope +
  rx_recommendationId :: string
  rx_recommendationVersion :: js_num
  rx_actionId :: string
  rx_risk :: Risk
  rx_proposerId :: string
  rx_approvalId :: "string option"
  rx_explanationArtifactHash :: string
  rx_now :: string
  rx_idempotencyKey :: string

record 's authority_port =
  au_findApproval :: "Scope \<Rightarrow> string \<Rightarrow> string \<Rightarrow> js_num \<Rightarrow> string \<Rightarrow> ('s, unit, RecommendationApprovalReceipt option) action"
  au_authorizeExecution :: "RecommendationExecutionRequest \<Rightarrow> RecommendationApprovalReceipt option \<Rightarrow> ('s, unit, ExecutionResult) action"

text \<open>\<open>===\<close> on numbers: NaN differs from itself.\<close>
definition num_same :: "js_num \<Rightarrow> js_num \<Rightarrow> bool" where
  "num_same a b \<longleftrightarrow> a = b \<and> a \<noteq> NaN"

definition approval_valid :: "RecommendationApprovalReceipt \<Rightarrow> RecommendationExecutionRequest \<Rightarrow> bool" where
  "approval_valid approval input \<longleftrightarrow>
     ap_status approval = AP_APPROVED \<and> ap_revokedAt approval = None \<and> sp_tenantId approval = sp_tenantId input \<and>
     sp_caseId approval = sp_caseId input \<and> ap_recommendationId approval = rx_recommendationId input \<and>
     num_same (ap_recommendationVersion approval) (rx_recommendationVersion input) \<and>
     ap_actionId approval = rx_actionId input \<and> ap_risk approval = rx_risk input \<and>
     ap_proposerId approval = rx_proposerId input \<and> ap_approverId approval \<noteq> rx_proposerId input \<and>
     ap_explanationArtifactHash approval = rx_explanationArtifactHash input \<and>
     in_force (rx_now input) (ap_approvedAt approval) (ap_expiresAt approval)"

definition authorize_recommendation :: "'s authority_port \<Rightarrow> RecommendationExecutionRequest \<Rightarrow> ('s, unit, bool) action" where
  "authorize_recommendation A input =
    (if \<not> privacyScope input \<or> \<not> privacyId (rx_recommendationId input) \<or> \<not> privacyId (rx_actionId input) \<or>
        \<not> privacyId (rx_proposerId input) \<or> \<not> privacyId (rx_explanationArtifactHash input) \<or>
        \<not> privacyId (rx_idempotencyKey input) \<or> \<not> privacyTime (rx_now input) then aret False
     else if rx_risk input = RK_LOW \<or> rx_risk input = RK_MODERATE
       then abind (au_authorizeExecution A input None) (\<lambda>result. aret (result = EX_AUTHORIZED))
     else if \<not> privacyId (text_or_empty (rx_approvalId input)) then aret False
     else abind (au_findApproval A (scope_of input) (text_or_empty (rx_approvalId input)) (rx_recommendationId input)
         (rx_recommendationVersion input) (rx_actionId input)) (\<lambda>found.
       case found of None \<Rightarrow> aret False
       | Some approval \<Rightarrow> if \<not> approval_valid approval input then aret False
         else abind (au_authorizeExecution A input (Some approval))
           (\<lambda>result. aret (result = EX_AUTHORIZED \<or> result = EX_IDEMPOTENT))))"

text \<open>a recommendation of high or critical risk is executed only under an approval the authority has on record for this version, action and explanation, in force at the time of the request, given by somebody else than the proposer, and only when the authority answers that the execution is authorized.\<close>
theorem risky_recommendation_needs_second_person:
  assumes "authorize_recommendation A input s = (Inr True, t)" and "rx_risk input = RK_HIGH \<or> rx_risk input = RK_CRITICAL"
  shows "\<exists>approval result. answers (au_findApproval A (scope_of input) (text_or_empty (rx_approvalId input))
        (rx_recommendationId input) (rx_recommendationVersion input) (rx_actionId input)) (Some approval) \<and>
    approval_valid approval input \<and> ap_approverId approval \<noteq> rx_proposerId input \<and>
    answers (au_authorizeExecution A input (Some approval)) result \<and> (result = EX_AUTHORIZED \<or> result = EX_IDEMPOTENT)"
proof -
  have "answers (authorize_recommendation A input) True" using assms(1) by (rule answersI)
  then obtain approval result where "answers (au_findApproval A (scope_of input) (text_or_empty (rx_approvalId input))
        (rx_recommendationId input) (rx_recommendationVersion input) (rx_actionId input)) (Some approval)"
    "approval_valid approval input" "answers (au_authorizeExecution A input (Some approval)) result"
    "result = EX_AUTHORIZED \<or> result = EX_IDEMPOTENT"
    using assms(2) unfolding authorize_recommendation_def
    by (auto elim!: answers_abindE split: if_splits option.splits)
  then show ?thesis unfolding approval_valid_def by blast
qed

definition sample_recommendation :: RecommendationExecutionRequest where
  "sample_recommendation = \<lparr>sp_tenantId = ''riyadh'', sp_caseId = ''case-1'', rx_recommendationId = ''rec-1'',
    rx_recommendationVersion = Num 1, rx_actionId = ''close-lane'', rx_risk = RK_HIGH, rx_proposerId = ''model-1'',
    rx_approvalId = Some ''approval-1'', rx_explanationArtifactHash = ''hash-1'', rx_now = ''2026-01-01T00:05:00.000Z'',
    rx_idempotencyKey = ''key-1''\<rparr>"

definition sample_approval :: RecommendationApprovalReceipt where
  "sample_approval = \<lparr>sp_tenantId = ''riyadh'', sp_caseId = ''case-1'', ap_approvalId = ''approval-1'',
    ap_recommendationId = ''rec-1'', ap_recommendationVersion = Num 1, ap_actionId = ''close-lane'', ap_risk = RK_HIGH,
    ap_approverId = ''operator-1'', ap_approverRole = RO_SAFETY_OPERATOR, ap_proposerId = ''model-1'',
    ap_explanationArtifactHash = ''hash-1'', ap_approvedAt = ''2026-01-01T00:00:00.000Z'',
    ap_expiresAt = ''2026-01-01T00:10:00.000Z'', ap_revokedAt = None, ap_status = AP_APPROVED\<rparr>"

definition sample_authority :: "unit authority_port" where
  "sample_authority = \<lparr>au_findApproval = (\<lambda>_ _ _ _ _. aret (Some sample_approval)),
     au_authorizeExecution = (\<lambda>_ _. aret EX_AUTHORIZED)\<rparr>"

theorem risky_recommendation_needs_second_person_witness:
  "authorize_recommendation sample_authority sample_recommendation () = (Inr True, ()) \<and>
   (\<exists>approval. approval_valid approval sample_recommendation \<and> ap_approverId approval \<noteq> ''model-1'')"
proof -
  have run: "authorize_recommendation sample_authority sample_recommendation () = (Inr True, ())" by code_simp
  have "rx_risk sample_recommendation = RK_HIGH \<or> rx_risk sample_recommendation = RK_CRITICAL"
    by (simp add: sample_recommendation_def)
  from risky_recommendation_needs_second_person [OF run this] show ?thesis
    using run by (auto simp: sample_recommendation_def)
qed

section \<open>The break-glass lease\<close>

text \<open>\<open>new Date(x)\<close> drops the fraction of a millisecond; NaN makes \<open>toISOString\<close> throw.\<close>
definition date_of_double :: "rat \<Rightarrow> int" where
  "date_of_double q = (if q < 0 then \<lceil>q\<rceil> else \<lfloor>q\<rfloor>)"

definition createBreakGlassLease :: "BreakGlassLease \<Rightarrow> js_num \<Rightarrow> unit + BreakGlassLease option" where
  "createBreakGlassLease input durationMs =
    (if \<not> privacyScope input \<or> \<not> privacyTime (bl_issuedAt input) \<or> num_lt durationMs (Num 1) \<or>
        num_lt (Num (of_int BREAK_GLASS_MAX_MS)) durationMs then Inr None
     else if \<not> privacyId (bl_reasonCode input) \<or> \<not> privacyId (bl_actorId input) \<or> \<not> privacyId (bl_leaseId input) then Inr None
     else case (dateParse (bl_issuedAt input), durationMs) of
         (Some issued, Num d) \<Rightarrow> (case toISO (date_of_double (double (of_int issued + d))) of None \<Rightarrow> Inl ()
           | Some expires \<Rightarrow> Inr (Some (input\<lparr>bl_expiresAt := expires, bl_reviewedAt := None, bl_revokedAt := None\<rparr>)))
       | _ \<Rightarrow> Inl ())"

text \<open>A lease of a whole number of milliseconds ends that long after it was issued, at most a quarter of an hour.\<close>
lemma lease_is_short:
  assumes "createBreakGlassLease l (Num (of_int n)) = Inr (Some l')" "dateParse (bl_issuedAt l) = Some t" "0 \<le> t"
  shows "dateParse (bl_expiresAt l') = Some (t + n) \<and> 1 \<le> n \<and> n \<le> BREAK_GLASS_MAX_MS"
proof -
  have n: "1 \<le> n" "n \<le> BREAK_GLASS_MAX_MS"
    using assms(1) by (auto simp: createBreakGlassLease_def not_less split: if_splits)
  have "double (of_int (t + n)) = of_int (t + n)"
    using n assms(3) dateParse_range [OF assms(2)] by (intro double_of_int) (auto simp: max_safe_def BREAK_GLASS_MAX_MS_def)
  then have sum: "double (of_int t + of_int n) = of_int (t + n)" by simp
  obtain e where "toISO (t + n) = Some e" "l' = l\<lparr>bl_expiresAt := e, bl_reviewedAt := None, bl_revokedAt := None\<rparr>"
    using assms(1,2) by (auto simp: createBreakGlassLease_def sum date_of_double_def split: if_splits option.splits)
  then show ?thesis using n toISO_parse by simp
qed

section \<open>Telemetry\<close>

definition PRIVACY_POLICY_VERSION :: string where "PRIVACY_POLICY_VERSION = ''ros-eye.privacy-security.v4''"

definition lifecycle_names :: "string list" where
  "lifecycle_names = [''INACTIVE'', ''CONSENT_PENDING'', ''LANGUAGE_SELECTION'', ''ACTIVE'', ''REVOKED'', ''EXPIRED'',
     ''LEGAL_HOLD'', ''DELETION_PENDING'']"

definition TELEMETRY_STRING_VOCABULARY :: "(string \<times> string list) list" where
  "TELEMETRY_STRING_VOCABULARY = [
    (''eventType'', [''privacy_decision'', ''break_glass_decision'', ''consent_decision'',
      ''recommendation_execution_decision'', ''retention_decision'']),
    (''state'', lifecycle_names @ [''CONTACTING'', ''AWAITING_RESPONSE'', ''HUMAN_REVIEW'', ''ESCALATED'', ''APPROVED'',
      ''AUTHORIZED'', ''DENIED'', ''MASKED'', ''FULL'', ''FAILED'', ''IDEMPOTENT'', ''RATE_LIMIT'', ''ANOMALY_REVIEW'']),
    (''reasonCode'', [''raw_token_denied'', ''restricted_export_denied'', ''delete_role_denied'',
      ''authoritative_consent_required'', ''break_glass_orchestration_required'', ''minimum_necessary_denied'',
      ''policy_allow'', ''purpose_allowed'', ''trusted_clock_unavailable'', ''break_glass_required'',
      ''idempotency_required'', ''break_glass_authoritative_lease_invalid'', ''break_glass_authorized'',
      ''break_glass_rate_limited'', ''break_glass_anomaly_review'', ''break_glass_alert_not_durable'',
      ''break_glass_audit_not_durable'', ''break_glass_lease_invalidated'', ''break_glass_grant_conflict'',
      ''consent_record_required'', ''consent_record_missing'', ''consent_record_invalid'', ''scope_or_actor_mismatch'',
      ''role_or_time_denied'', ''lifecycle_denied'', ''immediate_safety_review'', ''review_required'']),
    (''policyVersion'', [PRIVACY_POLICY_VERSION]),
    (''role'', [''SYSTEM_WORKER'', ''SAFETY_OPERATOR'', ''SECURITY_REVIEWER'', ''RETENTION_ADMIN'', ''AUDITOR'']),
    (''purpose'', [''SAFETY_CONTACT'', ''INCIDENT_TRIAGE'', ''OPERATOR_REVIEW'', ''SECURITY_INVESTIGATION'', ''RETENTION_ADMIN'']),
    (''lifecycle'', lifecycle_names),
    (''dataKind'', [''SIGNAL'', ''INDICATOR'', ''CONVERSATION_METADATA'', ''CONVERSATION_RAW'', ''EVIDENCE_METADATA'',
      ''EVIDENCE_RAW'', ''PRECISE_LOCATION'', ''RAW_TOKEN'', ''OPERATOR_VIEW'']),
    (''action'', [''READ'', ''MASKED_READ'', ''WRITE'', ''DELETE'', ''EXPORT'']),
    (''outcome'', [''ALLOW'', ''DENY'', ''MASKED'', ''FULL'', ''AUTHORIZED'', ''IDEMPOTENT'', ''FAILED'', ''RATE_LIMIT'',
      ''ANOMALY_REVIEW''])]"

definition TELEMETRY_NUMBER_BOUNDS :: "(string \<times> (int \<times> int)) list" where
  "TELEMETRY_NUMBER_BOUNDS = [(''attempt'', (1, 100)), (''durationMs'', (0, 3600000))]"

definition telemetry_entry :: "string \<Rightarrow> json \<Rightarrow> bool" where
  "telemetry_entry key entry = (case map_of TELEMETRY_STRING_VOCABULARY key of
     Some allowed \<Rightarrow> (case entry of JStr s \<Rightarrow> s \<in> set allowed | _ \<Rightarrow> False)
   | None \<Rightarrow> (case map_of TELEMETRY_NUMBER_BOUNDS key of
       Some (lo, hi) \<Rightarrow> (case entry of JNum x \<Rightarrow> isSafeInteger x \<and> \<not> num_lt x (Num (of_int lo)) \<and> \<not> num_lt (Num (of_int hi)) x
         | _ \<Rightarrow> False)
     | None \<Rightarrow> False))"

definition telemetry_key :: "string \<Rightarrow> bool" where
  "telemetry_key key \<longleftrightarrow> key \<in> set (map fst TELEMETRY_STRING_VOCABULARY @ map fst TELEMETRY_NUMBER_BOUNDS)"

fun redact_from :: "(string \<times> json) list \<Rightarrow> (string \<times> json) list \<Rightarrow> (string \<times> json) list" where
  "redact_from kept [] = kept"
| "redact_from kept ((key, entry) # rest) =
    (if \<not> telemetry_key key then redact_from kept rest
     else if \<not> telemetry_entry key entry then []
     else redact_from (kept @ [(key, entry)]) rest)"

definition redactForGeneralTelemetry :: "(string \<times> json) list \<Rightarrow> (string \<times> json) list" where
  "redactForGeneralTelemetry event = redact_from [] event"

lemma redact_from_entries:
  "(key, entry) \<in> set (redact_from kept event) \<Longrightarrow> (\<forall>(k, e) \<in> set kept. telemetry_entry k e) \<Longrightarrow> telemetry_entry key entry"
  by (induction kept event rule: redact_from.induct) (auto split: if_splits)

text \<open>Nothing but registered codes and bounded integers leaves the redaction, and one malformed field drops all.\<close>
lemma telemetry_is_registered: "(key, entry) \<in> set (redactForGeneralTelemetry event) \<Longrightarrow> telemetry_entry key entry"
  unfolding redactForGeneralTelemetry_def by (erule redact_from_entries) simp

lemma malformed_telemetry_is_dropped:
  "(key, entry) \<in> set event \<Longrightarrow> telemetry_key key \<Longrightarrow> \<not> telemetry_entry key entry \<Longrightarrow> redactForGeneralTelemetry event = []"
proof -
  have "redact_from kept event = []" if "(key, entry) \<in> set event" "telemetry_key key" "\<not> telemetry_entry key entry" for kept
    using that by (induction kept event rule: redact_from.induct) auto
  then show "(key, entry) \<in> set event \<Longrightarrow> telemetry_key key \<Longrightarrow> \<not> telemetry_entry key entry \<Longrightarrow> redactForGeneralTelemetry event = []"
    by (simp add: redactForGeneralTelemetry_def)
qed

end
