(* ===== verification/FieldCompanion.thy ===== *)
theory FieldCompanion
  imports ContactProtocol JsAction
begin

text \<open>
  The safety companion of the field user (\<open>apps/mobile/src/field-companion.ts\<close>): the controller with its
  offline queue, the validators and the simulated gateway. A controller call is an action on the current
  state of the companion and the state \<open>'s\<close> of its ports (storage, gateway, identifiers, clock). The
  Arabic messages of the exceptions are the constructors of \<open>companion_error\<close>; the privacy notice, a
  constant text, and the views for rendering and telemetry are left out. What comes back from the storage
  is taken to have the declared type.
\<close>

section \<open>Data\<close>

definition FIELD_COMPANION_MAX_QUEUE :: nat where "FIELD_COMPANION_MAX_QUEUE = 100"
definition FIELD_COMPANION_LOCAL_RETENTION_MS :: int where "FIELD_COMPANION_LOCAL_RETENTION_MS = 24 * 60 * 60 * 1000"

definition FIELD_COMPANION_SCHEMA_VERSION :: string where
  "FIELD_COMPANION_SCHEMA_VERSION = ''ros-eye.field-companion.v1''"
definition FIELD_COMPANION_PRIVACY_POLICY_VERSION :: string where
  "FIELD_COMPANION_PRIVACY_POLICY_VERSION = ''ros-eye.field-privacy.v1''"

datatype FieldCompanionConsent = FC_NOT_REQUESTED | FC_GRANTED | FC_DECLINED | FC_EMERGENCY_SAFETY_REVIEW
datatype FieldCompanionNetwork = FN_ONLINE | FN_DEGRADED | FN_OFFLINE
datatype FieldCompanionBattery = FB_NORMAL | FB_LOW | FB_CRITICAL
datatype FieldCompanionLocationQuality = FL_PRECISE_AVAILABLE_RESTRICTED | FL_APPROXIMATE | FL_UNAVAILABLE
datatype FieldCompanionMotion = FM_STABLE | FM_HARD_BRAKE | FM_POSSIBLE_IMPACT | FM_POSSIBLE_ROLLOVER
datatype FieldCompanionPhase = FP_BOOTING | FP_READY | FP_OFFLINE | FP_HUMAN_REVIEW | FP_OPERATOR_TAKEOVER | FP_COMPLETED | FP_FAILURE
datatype FieldCompanionLanguage = FLANG_ar | FLANG_en
datatype FieldCompanionShareCategory = SC_CONTACT_STATUS | SC_STRUCTURED_REPLY | SC_DEVICE_CONDITION | SC_MOTION_INDICATOR |
  SC_LOCATION_QUALITY_ONLY
datatype FieldCompanionOperationKind = OK_CONSENT | OK_LANGUAGE_SELECTION | OK_STRUCTURED_REPLY | OK_DEVICE_METADATA | OK_RECONNECT

record FieldCompanionDeviceSnapshot =
  fd_network :: FieldCompanionNetwork
  fd_battery :: FieldCompanionBattery
  fd_locationQuality :: FieldCompanionLocationQuality
  fd_motion :: FieldCompanionMotion
  fd_clockSkewMs :: js_num
  fd_observedAt :: string
  fd_appInstanceId :: string

record FieldCompanionSession =
  fs_tenantId :: string
  fs_caseId :: string
  fs_sessionId :: string
  fs_language :: FieldCompanionLanguage
  fs_contactState :: HumanContactState
  fs_phase :: FieldCompanionPhase
  fs_consent :: FieldCompanionConsent
  fs_consentOccurredAt :: "string option"
  fs_activePromptId :: "string option"
  fs_allowedReplyOptions :: "string list"
  fs_operatorTakeoverVisible :: bool
  fs_simulation :: bool
  fs_statusMessageCode :: string
  fs_lastServerReceiptAt :: "string option"

record FieldCompanionDeviceMetadata =
  fm_network :: FieldCompanionNetwork
  fm_battery :: FieldCompanionBattery
  fm_locationQuality :: FieldCompanionLocationQuality
  fm_motion :: FieldCompanionMotion
  fm_withinPolicy :: bool
  fm_observedAt :: string
  fm_sharedCategories :: "FieldCompanionShareCategory list"

text \<open>\<open>ReplyPayload\<close> holds prompt, version, options and time; \<open>fm_withinPolicy\<close> is the bucket of the clock skew.\<close>
datatype FieldCompanionPayload =
    ConsentPayload FieldCompanionConsent string
  | LanguagePayload FieldCompanionLanguage string
  | ReplyPayload string int "string list" string
  | DevicePayload FieldCompanionDeviceMetadata
  | EmptyPayload

record FieldCompanionQueuedOperation =
  fo_operationId :: string
  fo_idempotencyKey :: string
  fo_kind :: FieldCompanionOperationKind
  fo_createdAt :: string
  fo_expiresAt :: string
  fo_attemptCount :: nat
  fo_payload :: FieldCompanionPayload

record FieldCompanionPersistedState =
  fc_schemaVersion :: string
  fc_privacyPolicyVersion :: string
  fc_savedAt :: string
  fc_session :: FieldCompanionSession
  fc_device :: FieldCompanionDeviceSnapshot
  fc_pending :: "FieldCompanionQueuedOperation list"
  fc_acknowledged :: "string list"

record FieldCompanionState = FieldCompanionPersistedState +
  fc_error :: "string option"

datatype ReceiptDisposition = DI_ACCEPTED | DI_DUPLICATE | DI_HUMAN_REVIEW | DI_OPERATOR_TAKEOVER

record FieldCompanionDeliveryReceipt =
  fr_idempotencyKey :: string
  fr_disposition :: ReceiptDisposition
  fr_contactState :: HumanContactState
  fr_statusMessageCode :: string
  fr_receivedAt :: string

record FieldCompanionBootstrap =
  fb_tenantId :: string
  fb_caseId :: string
  fb_sessionId :: string
  fb_language :: FieldCompanionLanguage
  fb_appInstanceId :: string
  fb_now :: string

datatype companion_error = NotReady | ConsentRequired | NoActiveQuestion | InvalidReply | ConflictingReply | QueueFull |
  StillOffline | UntrustedDeviceTime | InvalidBootstrap | InvalidBootTime | InvalidClockSkew | InvalidDevice | InvalidTime |
  PortFailure

record 's companion_ports =
  cp_load :: "('s, companion_error, FieldCompanionPersistedState option) action"
  cp_save :: "FieldCompanionPersistedState \<Rightarrow> ('s, companion_error, unit) action"
  cp_deliver :: "string \<Rightarrow> string \<Rightarrow> string \<Rightarrow> FieldCompanionQueuedOperation \<Rightarrow> ('s, companion_error, FieldCompanionDeliveryReceipt) action"
  cp_create :: "string \<Rightarrow> ('s, companion_error, string) action"
  cp_now :: "('s, companion_error, int) action"
  cp_simulation :: bool

record 's companion =
  ca_current :: FieldCompanionState
  ca_ports :: 's

section \<open>Pure helpers\<close>

definition validCompanionId :: "string \<Rightarrow> bool" where "validCompanionId v = token_pattern 2 127 v"

definition phaseForNetwork :: "FieldCompanionNetwork \<Rightarrow> FieldCompanionPhase \<Rightarrow> FieldCompanionPhase" where
  "phaseForNetwork network phase =
    (if phase = FP_OPERATOR_TAKEOVER \<or> phase = FP_HUMAN_REVIEW \<or> phase = FP_COMPLETED then phase
     else if network = FN_OFFLINE then FP_OFFLINE else FP_READY)"

text \<open>\<open>Math.abs(x) > limit\<close>\<close>
definition skew_exceeds :: "js_num \<Rightarrow> int \<Rightarrow> bool" where
  "skew_exceeds x limit \<longleftrightarrow> num_lt (Num (of_int limit)) x \<or> num_lt x (Num (- of_int limit))"

definition deviceStatusCode :: "FieldCompanionDeviceSnapshot \<Rightarrow> string" where
  "deviceStatusCode device =
    (if fd_network device = FN_OFFLINE then ''offline_queue_active''
     else if fd_battery device = FB_CRITICAL then ''critical_battery_reduce_activity''
     else if skew_exceeds (fd_clockSkewMs device) HUMAN_CONTACT_REPLY_MAX_CLOCK_SKEW_MS then ''device_time_untrusted''
     else if fd_locationQuality device = FL_UNAVAILABLE then ''location_quality_unavailable''
     else ''device_status_updated'')"

definition validateDevice :: "FieldCompanionDeviceSnapshot \<Rightarrow> companion_error + FieldCompanionDeviceSnapshot" where
  "validateDevice d =
    (if \<not> isFinite (fd_clockSkewMs d) \<or> skew_exceeds (fd_clockSkewMs d) (24 * 60 * 60 * 1000) then Inl InvalidClockSkew
     else if dateParse (fd_observedAt d) = None \<or> \<not> validCompanionId (fd_appInstanceId d) then Inl InvalidDevice
     else Inr d)"

text \<open>\<open>[...new Set(xs)]\<close>: every element where it occurs first.\<close>
fun set_add :: "'a list \<Rightarrow> 'a \<Rightarrow> 'a list" where
  "set_add seen x = (if x \<in> set seen then seen else seen @ [x])"

definition new_set :: "'a list \<Rightarrow> 'a list" where
  "new_set xs = foldl set_add [] xs"

definition validateReplyOptions :: "string list \<Rightarrow> string list \<Rightarrow> companion_error + string list" where
  "validateReplyOptions selected allowed =
    (let unique = new_set selected in
     if length unique = 0 \<or> 3 < length unique \<or> (\<exists>x \<in> set unique. x \<notin> set allowed) then Inl InvalidReply
     else if ''YES'' \<in> set unique \<and> ''NO'' \<in> set unique then Inl ConflictingReply
     else Inr unique)"

definition deliveryDisposition :: "FieldCompanionQueuedOperation \<Rightarrow> ReceiptDisposition" where
  "deliveryDisposition op =
    (case fo_payload op of
       ConsentPayload d _ \<Rightarrow> if fo_kind op = OK_CONSENT \<and> d = FC_DECLINED then DI_HUMAN_REVIEW else DI_ACCEPTED
     | ReplyPayload _ _ options _ \<Rightarrow>
        (if fo_kind op \<noteq> OK_STRUCTURED_REPLY then DI_ACCEPTED
         else if ''HELP_REQUESTED'' \<in> set options \<or> ''CANNOT_SPEAK'' \<in> set options then DI_OPERATOR_TAKEOVER
         else if ''UNKNOWN'' \<in> set options then DI_HUMAN_REVIEW else DI_ACCEPTED)
     | _ \<Rightarrow> DI_ACCEPTED)"

fun uniqueFrom :: "string list \<Rightarrow> FieldCompanionQueuedOperation list \<Rightarrow> FieldCompanionQueuedOperation list" where
  "uniqueFrom seen [] = []"
| "uniqueFrom seen (item # items) = (if fo_idempotencyKey item \<in> set seen then uniqueFrom seen items
     else item # uniqueFrom (fo_idempotencyKey item # seen) items)"

definition uniqueOperations :: "FieldCompanionQueuedOperation list \<Rightarrow> FieldCompanionQueuedOperation list" where
  "uniqueOperations items = uniqueFrom [] items"

text \<open>\<open>replace(/[^\p{L}\p{N} ._-]/gu, '').slice(0, 80)\<close> on the characters below 256.\<close>
definition label_char :: "char \<Rightarrow> bool" where
  "label_char c \<longleftrightarrow> is_alnum c \<or> c \<in> set '' ._-'' \<or>
     code_unit c \<in> set [170, 178, 179, 181, 185, 186, 188, 189, 190] \<or> (192 \<le> code_unit c \<and> code_unit c \<noteq> 215 \<and> code_unit c \<noteq> 247)"

definition safeLabel :: "string \<Rightarrow> string" where
  "safeLabel value = take 80 (filter label_char value)"

definition initialState :: "FieldCompanionBootstrap \<Rightarrow> bool \<Rightarrow> FieldCompanionState" where
  "initialState input simulation =
    \<lparr>fc_schemaVersion = FIELD_COMPANION_SCHEMA_VERSION, fc_privacyPolicyVersion = FIELD_COMPANION_PRIVACY_POLICY_VERSION,
      fc_savedAt = fb_now input,
      fc_session = \<lparr>fs_tenantId = fb_tenantId input, fs_caseId = fb_caseId input, fs_sessionId = fb_sessionId input,
        fs_language = fb_language input, fs_contactState = HC_CONSENT_PENDING, fs_phase = FP_READY,
        fs_consent = FC_NOT_REQUESTED, fs_consentOccurredAt = None, fs_activePromptId = Some ''contact.consent'',
        fs_allowedReplyOptions = [''YES'', ''NO'', ''UNKNOWN''], fs_operatorTakeoverVisible = False,
        fs_simulation = simulation, fs_statusMessageCode = ''consent_pending'', fs_lastServerReceiptAt = None\<rparr>,
      fc_device = \<lparr>fd_network = FN_ONLINE, fd_battery = FB_NORMAL, fd_locationQuality = FL_APPROXIMATE,
        fd_motion = FM_STABLE, fd_clockSkewMs = Num 0, fd_observedAt = fb_now input,
        fd_appInstanceId = fb_appInstanceId input\<rparr>,
      fc_pending = [], fc_acknowledged = [], fc_error = None\<rparr>"

definition failureState :: "string \<Rightarrow> FieldCompanionState" where
  "failureState code =
    \<lparr>fc_schemaVersion = FIELD_COMPANION_SCHEMA_VERSION, fc_privacyPolicyVersion = FIELD_COMPANION_PRIVACY_POLICY_VERSION,
      fc_savedAt = isoString 0,
      fc_session = \<lparr>fs_tenantId = ''invalid'', fs_caseId = ''invalid'', fs_sessionId = ''invalid'',
        fs_language = FLANG_ar, fs_contactState = HC_HUMAN_REVIEW, fs_phase = FP_FAILURE,
        fs_consent = FC_NOT_REQUESTED, fs_consentOccurredAt = None, fs_activePromptId = None,
        fs_allowedReplyOptions = [], fs_operatorTakeoverVisible = False, fs_simulation = False,
        fs_statusMessageCode = code, fs_lastServerReceiptAt = None\<rparr>,
      fc_device = \<lparr>fd_network = FN_OFFLINE, fd_battery = FB_CRITICAL, fd_locationQuality = FL_UNAVAILABLE,
        fd_motion = FM_STABLE, fd_clockSkewMs = Num 0, fd_observedAt = isoString 0, fd_appInstanceId = ''invalid''\<rparr>,
      fc_pending = [], fc_acknowledged = [], fc_error = Some code\<rparr>"

definition validPersisted :: "FieldCompanionPersistedState \<Rightarrow> FieldCompanionBootstrap \<Rightarrow> int \<Rightarrow> bool \<Rightarrow> bool" where
  "validPersisted v input now simulation \<longleftrightarrow>
     fc_schemaVersion v = FIELD_COMPANION_SCHEMA_VERSION \<and>
     fc_privacyPolicyVersion v = FIELD_COMPANION_PRIVACY_POLICY_VERSION \<and>
     fs_tenantId (fc_session v) = fb_tenantId input \<and> fs_caseId (fc_session v) = fb_caseId input \<and>
     fs_sessionId (fc_session v) = fb_sessionId input \<and> fs_simulation (fc_session v) = simulation \<and>
     (if fs_consent (fc_session v) = FC_NOT_REQUESTED then fs_consentOccurredAt (fc_session v) = None
      else case fs_consentOccurredAt (fc_session v) of None \<Rightarrow> False | Some t \<Rightarrow> dateParse t \<noteq> None) \<and>
     (case dateParse (fc_savedAt v) of None \<Rightarrow> False | Some t \<Rightarrow> now - t \<le> FIELD_COMPANION_LOCAL_RETENTION_MS) \<and>
     length (fc_pending v) \<le> FIELD_COMPANION_MAX_QUEUE"

definition validateBootstrap :: "FieldCompanionBootstrap \<Rightarrow> companion_error + unit" where
  "validateBootstrap input =
    (if \<not> list_all validCompanionId [fb_tenantId input, fb_caseId input, fb_sessionId input, fb_appInstanceId input]
       then Inl InvalidBootstrap
     else if dateParse (fb_now input) = None then Inl InvalidBootTime else Inr ())"

section \<open>The controller\<close>

type_synonym ('s, 'a) controller = "('s companion, companion_error, 'a) action"

definition via_port :: "('s, companion_error, 'a) action \<Rightarrow> ('s, 'a) controller" where
  "via_port = on_part ca_ports (\<lambda>t a. a\<lparr>ca_ports := t\<rparr>)"

definition current :: "('s, FieldCompanionState) controller" where
  "current = aread ca_current"

definition modify_current :: "(FieldCompanionState \<Rightarrow> FieldCompanionState) \<Rightarrow> ('s, unit) controller" where
  "modify_current f = amodify (\<lambda>a. a\<lparr>ca_current := f (ca_current a)\<rparr>)"

definition on_session :: "(FieldCompanionSession \<Rightarrow> FieldCompanionSession) \<Rightarrow> FieldCompanionState \<Rightarrow> FieldCompanionState" where
  "on_session f c = c\<lparr>fc_session := f (fc_session c)\<rparr>"

text \<open>\<open>this.now().toISOString()\<close>\<close>
definition now_text :: "'s companion_ports \<Rightarrow> ('s, string) controller" where
  "now_text P = abind (via_port (cp_now P)) (\<lambda>t. case toISO t of None \<Rightarrow> athrow InvalidTime | Some text \<Rightarrow> aret text)"

definition persist_state :: "'s companion_ports \<Rightarrow> ('s, unit) controller" where
  "persist_state P = abind (now_text P) (\<lambda>savedAt. abind current (\<lambda>c.
     let persisted = \<lparr>fc_schemaVersion = FIELD_COMPANION_SCHEMA_VERSION,
           fc_privacyPolicyVersion = FIELD_COMPANION_PRIVACY_POLICY_VERSION, fc_savedAt = savedAt,
           fc_session = fc_session c, fc_device = fc_device c, fc_pending = fc_pending c,
           fc_acknowledged = fc_acknowledged c\<rparr>
     in abind (via_port (cp_save P persisted)) (\<lambda>_.
        modify_current (\<lambda>c. FieldCompanionPersistedState.extend persisted \<lparr>fc_error = fc_error c\<rparr>))))"

definition requireBooted :: "('s, unit) controller" where
  "requireBooted = abind current (\<lambda>c. if fs_phase (fc_session c) = FP_FAILURE \<or> fs_phase (fc_session c) = FP_BOOTING
     then athrow NotReady else aret ())"

definition requireConsent :: "('s, unit) controller" where
  "requireConsent = abind requireBooted (\<lambda>_. abind current (\<lambda>c.
     if fs_consent (fc_session c) \<noteq> FC_GRANTED \<and> fs_consent (fc_session c) \<noteq> FC_EMERGENCY_SAFETY_REVIEW
     then athrow ConsentRequired else aret ()))"

definition requireShareAuthority :: "('s, unit) controller" where
  "requireShareAuthority = abind requireConsent (\<lambda>_. abind current (\<lambda>c.
     if skew_exceeds (fd_clockSkewMs (fc_device c)) HUMAN_CONTACT_REPLY_MAX_CLOCK_SKEW_MS
     then athrow UntrustedDeviceTime else aret ()))"

definition new_operation :: "'s companion_ports \<Rightarrow> FieldCompanionOperationKind \<Rightarrow> FieldCompanionPayload \<Rightarrow>
    ('s, FieldCompanionQueuedOperation) controller" where
  "new_operation P kind payload =
     abind (now_text P) (\<lambda>createdAt.
     abind (via_port (cp_create P ''field-op'')) (\<lambda>operationId.
     abind (via_port (cp_create P ''field-idem'')) (\<lambda>idempotencyKey.
     case Option.bind (dateParse createdAt) (\<lambda>t. toISO (t + FIELD_COMPANION_LOCAL_RETENTION_MS)) of
       None \<Rightarrow> athrow InvalidTime
     | Some expiresAt \<Rightarrow> aret \<lparr>fo_operationId = operationId, fo_idempotencyKey = idempotencyKey, fo_kind = kind,
         fo_createdAt = createdAt, fo_expiresAt = expiresAt, fo_attemptCount = 0, fo_payload = payload\<rparr>)))"

definition enqueue_operation :: "FieldCompanionQueuedOperation \<Rightarrow> ('s, unit) controller" where
  "enqueue_operation op = abind current (\<lambda>c.
     if FIELD_COMPANION_MAX_QUEUE \<le> length (fc_pending c) then athrow QueueFull
     else modify_current (\<lambda>c. c\<lparr>fc_pending := fc_pending c @ [op]\<rparr>))"

definition applyReceipt :: "FieldCompanionDeliveryReceipt \<Rightarrow> FieldCompanionState \<Rightarrow> FieldCompanionState" where
  "applyReceipt receipt c =
    (let phase = (if fr_disposition receipt = DI_OPERATOR_TAKEOVER then FP_OPERATOR_TAKEOVER
        else if fr_disposition receipt = DI_HUMAN_REVIEW then FP_HUMAN_REVIEW
        else if fr_contactState receipt = HC_COMPLETED then FP_COMPLETED
        else phaseForNetwork (fd_network (fc_device c)) FP_READY) in
     on_session (\<lambda>s. s\<lparr>fs_contactState := fr_contactState receipt, fs_phase := phase,
       fs_operatorTakeoverVisible := (fr_disposition receipt = DI_OPERATOR_TAKEOVER \<or> fs_operatorTakeoverVisible s),
       fs_statusMessageCode := fr_statusMessageCode receipt,
       fs_lastServerReceiptAt := Some (fr_receivedAt receipt)\<rparr>) c)"

text \<open>\<open>Date.parse(expiresAt) <= now\<close> and \<open>Date.parse(expiresAt) > now\<close>\<close>
definition expired_by :: "FieldCompanionQueuedOperation \<Rightarrow> int \<Rightarrow> bool" where
  "expired_by op now = (case dateParse (fo_expiresAt op) of None \<Rightarrow> False | Some e \<Rightarrow> e \<le> now)"

definition alive_at :: "FieldCompanionQueuedOperation \<Rightarrow> int \<Rightarrow> bool" where
  "alive_at op now = (case dateParse (fo_expiresAt op) of None \<Rightarrow> False | Some e \<Rightarrow> now < e)"

definition deliver_operation :: "'s companion_ports \<Rightarrow> FieldCompanionQueuedOperation \<Rightarrow>
    ('s, FieldCompanionDeliveryReceipt option) controller" where
  "deliver_operation P op = abind current (\<lambda>c. attempt (via_port (cp_deliver P (fs_tenantId (fc_session c))
     (fs_caseId (fc_session c)) (fs_sessionId (fc_session c)) op)))"

definition attempted :: "FieldCompanionQueuedOperation \<Rightarrow> FieldCompanionQueuedOperation" where
  "attempted op = op\<lparr>fo_attemptCount := fo_attemptCount op + 1\<rparr>"

text \<open>The loop of \<open>flush\<close>: the set of acknowledged keys and the operations that remain.\<close>
fun deliver_each :: "'s companion_ports \<Rightarrow> FieldCompanionQueuedOperation list \<Rightarrow> string list \<Rightarrow>
    FieldCompanionQueuedOperation list \<Rightarrow> ('s, string list \<times> FieldCompanionQueuedOperation list) controller" where
  "deliver_each P [] acknowledged remaining = aret (acknowledged, remaining)"
| "deliver_each P (op # ops) acknowledged remaining =
     abind (via_port (cp_now P)) (\<lambda>now.
     if expired_by op now then deliver_each P ops acknowledged remaining
     else if fo_idempotencyKey op \<in> set acknowledged then deliver_each P ops acknowledged remaining
     else abind (deliver_operation P op) (\<lambda>receipt. case receipt of
         Some r \<Rightarrow> abind (modify_current (applyReceipt r)) (\<lambda>_.
           deliver_each P ops (set_add acknowledged (fr_idempotencyKey r)) remaining)
       | None \<Rightarrow> abind current (\<lambda>c. if fd_network (fc_device c) = FN_DEGRADED
           then aret (acknowledged, remaining @ [attempted op])
           else deliver_each P ops acknowledged (remaining @ [attempted op]))))"

text \<open>The filter that finds what the loop has left; it reads the clock for each candidate that gets that far.\<close>
fun unprocessed :: "'s companion_ports \<Rightarrow> string list \<Rightarrow> FieldCompanionQueuedOperation list \<Rightarrow>
    FieldCompanionQueuedOperation list \<Rightarrow> ('s, FieldCompanionQueuedOperation list) controller" where
  "unprocessed P acknowledged remaining [] = aret []"
| "unprocessed P acknowledged remaining (op # ops) =
     (if fo_operationId op \<in> fo_operationId ` set remaining \<or> fo_idempotencyKey op \<in> set acknowledged
      then unprocessed P acknowledged remaining ops
      else abind (via_port (cp_now P)) (\<lambda>now. abind (unprocessed P acknowledged remaining ops)
        (\<lambda>rest. aret (if alive_at op now then op # rest else rest))))"

definition last_entries :: "nat \<Rightarrow> 'a list \<Rightarrow> 'a list" where
  "last_entries n xs = drop (length xs - n) xs"

definition flush_queue :: "'s companion_ports \<Rightarrow> ('s, unit) controller" where
  "flush_queue P = abind current (\<lambda>c.
     abind (deliver_each P (fc_pending c) (new_set (fc_acknowledged c)) []) (\<lambda>(acknowledged, remaining).
     abind current (\<lambda>c. abind (unprocessed P acknowledged remaining (fc_pending c)) (\<lambda>rest.
     abind (modify_current (\<lambda>c. c\<lparr>fc_pending := uniqueOperations (remaining @ rest),
       fc_acknowledged := last_entries 200 acknowledged\<rparr>)) (\<lambda>_.
     persist_state P)))))"

definition flush :: "'s companion_ports \<Rightarrow> ('s, unit) controller" where
  "flush P = abind requireBooted (\<lambda>_. abind current (\<lambda>c.
     if fd_network (fc_device c) = FN_OFFLINE then aret () else flush_queue P))"

definition flush_if_connected :: "'s companion_ports \<Rightarrow> ('s, unit) controller" where
  "flush_if_connected P = abind current (\<lambda>c. if fd_network (fc_device c) \<noteq> FN_OFFLINE then flush P else aret ())"

definition persist_and_flush :: "'s companion_ports \<Rightarrow> ('s, unit) controller" where
  "persist_and_flush P = abind (persist_state P) (\<lambda>_. flush_if_connected P)"

text \<open>What the storage holds, if it may be taken up again.\<close>
definition boot_choice :: "'s companion_ports \<Rightarrow> FieldCompanionBootstrap \<Rightarrow> FieldCompanionPersistedState option \<Rightarrow>
    ('s, FieldCompanionPersistedState option) controller" where
  "boot_choice P input persisted = (case persisted of None \<Rightarrow> aret None
     | Some p \<Rightarrow> abind (via_port (cp_now P)) (\<lambda>now. aret (if validPersisted p input now (cp_simulation P) then Some p else None)))"

definition take_up :: "'s companion_ports \<Rightarrow> FieldCompanionBootstrap \<Rightarrow> FieldCompanionPersistedState option \<Rightarrow> ('s, unit) controller" where
  "take_up P input valid = (case valid of
       Some p \<Rightarrow> modify_current (\<lambda>_. on_session (\<lambda>s. s\<lparr>fs_phase := phaseForNetwork (fd_network (fc_device p)) (fs_phase s)\<rparr>)
         (FieldCompanionPersistedState.extend p \<lparr>fc_error = None\<rparr>))
     | None \<Rightarrow> abind (modify_current (\<lambda>_. initialState input (cp_simulation P))) (\<lambda>_. persist_state P))"

definition boot :: "'s companion_ports \<Rightarrow> FieldCompanionBootstrap \<Rightarrow> ('s, unit) controller" where
  "boot P input =
     abind (alift (validateBootstrap input)) (\<lambda>_.
     abind (via_port (cp_load P)) (\<lambda>persisted.
     abind (boot_choice P input persisted) (\<lambda>valid.
     abind (take_up P input valid) (\<lambda>_. flush_if_connected P))))"

definition setConsent :: "'s companion_ports \<Rightarrow> bool \<Rightarrow> ('s, unit) controller" where
  "setConsent P granted =
     abind requireBooted (\<lambda>_.
     abind (now_text P) (\<lambda>occurredAt.
     abind (new_operation P OK_CONSENT (ConsentPayload (if granted then FC_GRANTED else FC_DECLINED) occurredAt)) (\<lambda>op.
     abind (enqueue_operation op) (\<lambda>_.
     abind (modify_current (\<lambda>c. on_session (\<lambda>s. s\<lparr>fs_consent := (if granted then FC_GRANTED else FC_DECLINED),
         fs_consentOccurredAt := Some occurredAt,
         fs_contactState := (if granted then HC_LANGUAGE_SELECTION else HC_HUMAN_REVIEW),
         fs_phase := (if granted then phaseForNetwork (fd_network (fc_device c)) FP_READY else FP_HUMAN_REVIEW),
         fs_activePromptId := (if granted then Some ''contact.language'' else None),
         fs_allowedReplyOptions := (if granted then [''YES'', ''NO''] else []),
         fs_statusMessageCode := (if granted then ''consent_granted'' else ''consent_declined_human_review'')\<rparr>) c)) (\<lambda>_.
     persist_and_flush P)))))"

definition selectLanguage :: "'s companion_ports \<Rightarrow> FieldCompanionLanguage \<Rightarrow> ('s, unit) controller" where
  "selectLanguage P lang =
     abind requireConsent (\<lambda>_.
     abind (now_text P) (\<lambda>occurredAt.
     abind (new_operation P OK_LANGUAGE_SELECTION (LanguagePayload lang occurredAt)) (\<lambda>op.
     abind (enqueue_operation op) (\<lambda>_.
     abind (modify_current (on_session (\<lambda>s. s\<lparr>fs_language := lang, fs_contactState := HC_AWAITING_RESPONSE,
         fs_activePromptId := Some ''contact.response'',
         fs_allowedReplyOptions := [''YES'', ''NO'', ''CANNOT_SPEAK'', ''HELP_REQUESTED'', ''UNKNOWN''],
         fs_statusMessageCode := ''awaiting_structured_response''\<rparr>))) (\<lambda>_.
     persist_and_flush P)))))"

definition respond :: "'s companion_ports \<Rightarrow> string list \<Rightarrow> ('s, unit) controller" where
  "respond P options =
     abind requireConsent (\<lambda>_. abind current (\<lambda>c.
     case fs_activePromptId (fc_session c) of None \<Rightarrow> athrow NoActiveQuestion
     | Some promptId \<Rightarrow>
       abind (alift (validateReplyOptions options (fs_allowedReplyOptions (fc_session c)))) (\<lambda>selected.
       abind (now_text P) (\<lambda>occurredAt.
       abind (new_operation P OK_STRUCTURED_REPLY (ReplyPayload promptId 1 selected occurredAt)) (\<lambda>op.
       abind (enqueue_operation op) (\<lambda>_.
       abind (modify_current (\<lambda>c. let urgent = ''HELP_REQUESTED'' \<in> set selected \<or> ''CANNOT_SPEAK'' \<in> set selected in
           on_session (\<lambda>s. s\<lparr>fs_contactState := (if urgent then HC_HUMAN_REVIEW else HC_PARTIAL_RESPONSE),
             fs_phase := (if urgent then FP_HUMAN_REVIEW else phaseForNetwork (fd_network (fc_device c)) FP_READY),
             fs_statusMessageCode := (if ''HELP_REQUESTED'' \<in> set selected then ''help_requested_human_review''
               else if ''CANNOT_SPEAK'' \<in> set selected then ''cannot_speak_human_review'' else ''reply_queued'')\<rparr>) c)) (\<lambda>_.
       persist_and_flush P)))))))"

text \<open>The partial snapshot, as the function that overwrites the fields it has.\<close>
definition updateDevice :: "'s companion_ports \<Rightarrow> (FieldCompanionDeviceSnapshot \<Rightarrow> FieldCompanionDeviceSnapshot) \<Rightarrow> ('s, unit) controller" where
  "updateDevice P update =
     abind requireBooted (\<lambda>_. abind current (\<lambda>c.
     abind (now_text P) (\<lambda>observedAt.
     abind (alift (validateDevice ((update (fc_device c))\<lparr>fd_observedAt := observedAt,
       fd_appInstanceId := fd_appInstanceId (fc_device c)\<rparr>))) (\<lambda>device.
     abind (modify_current (\<lambda>c. on_session (\<lambda>s. s\<lparr>fs_phase := phaseForNetwork (fd_network device) (fs_phase s),
         fs_statusMessageCode := deviceStatusCode device\<rparr>) (c\<lparr>fc_device := device\<rparr>))) (\<lambda>_.
     persist_and_flush P)))))"

definition shareDeviceMetadata :: "'s companion_ports \<Rightarrow> ('s, unit) controller" where
  "shareDeviceMetadata P =
     abind requireShareAuthority (\<lambda>_. abind current (\<lambda>c. let d = fc_device c in
     abind (new_operation P OK_DEVICE_METADATA (DevicePayload
       \<lparr>fm_network = fd_network d, fm_battery = fd_battery d, fm_locationQuality = fd_locationQuality d,
         fm_motion = fd_motion d,
         fm_withinPolicy = (isFinite (fd_clockSkewMs d) \<and> \<not> skew_exceeds (fd_clockSkewMs d) HUMAN_CONTACT_REPLY_MAX_CLOCK_SKEW_MS),
         fm_observedAt = fd_observedAt d,
         fm_sharedCategories = [SC_DEVICE_CONDITION, SC_MOTION_INDICATOR, SC_LOCATION_QUALITY_ONLY]\<rparr>)) (\<lambda>op.
     abind (enqueue_operation op) (\<lambda>_. persist_and_flush P))))"

definition reconnect :: "'s companion_ports \<Rightarrow> ('s, unit) controller" where
  "reconnect P =
     abind requireBooted (\<lambda>_. abind current (\<lambda>c.
     if fd_network (fc_device c) = FN_OFFLINE then athrow StillOffline
     else abind (new_operation P OK_RECONNECT EmptyPayload) (\<lambda>op.
       abind (enqueue_operation op) (\<lambda>_. abind (persist_state P) (\<lambda>_. flush P)))))"

definition receiveOperatorTakeover :: "'s companion_ports \<Rightarrow> string \<Rightarrow> ('s, unit) controller" where
  "receiveOperatorTakeover P operatorLabel =
     abind requireBooted (\<lambda>_.
     abind (modify_current (on_session (\<lambda>s. s\<lparr>fs_contactState := HC_OPERATOR_TAKEOVER, fs_phase := FP_OPERATOR_TAKEOVER,
       fs_operatorTakeoverVisible := True, fs_activePromptId := None, fs_allowedReplyOptions := [],
       fs_statusMessageCode := ''operator_takeover:'' @ safeLabel operatorLabel\<rparr>))) (\<lambda>_. persist_state P))"

definition complete_contact :: "'s companion_ports \<Rightarrow> ('s, unit) controller" where
  "complete_contact P =
     abind requireBooted (\<lambda>_.
     abind (modify_current (on_session (\<lambda>s. s\<lparr>fs_contactState := HC_COMPLETED, fs_phase := FP_COMPLETED,
       fs_activePromptId := None, fs_allowedReplyOptions := [], fs_statusMessageCode := ''contact_completed''\<rparr>)))
       (\<lambda>_. persist_state P))"

section \<open>The queue\<close>

abbreviation pending_of :: "'s companion \<Rightarrow> FieldCompanionQueuedOperation list" where
  "pending_of a \<equiv> fc_pending (ca_current a)"

lemma current_eq [simp]: "current a = (Inr (ca_current a), a)"
  by (simp add: current_def)

lemma abind_current [simp]: "abind current f a = f (ca_current a) a"
  by (simp add: abind_def)

lemma modify_current_eq [simp]: "modify_current f a = (Inr (), a\<lparr>ca_current := f (ca_current a)\<rparr>)"
  by (simp add: modify_current_def)

lemma via_port_frame: "via_port m a = (r, b) \<Longrightarrow> ca_current b = ca_current a"
  by (auto simp: via_port_def on_part_eq)

lemma via_port_answers: "via_port m a = (Inr x, b) \<Longrightarrow> answers m x"
  by (auto simp: via_port_def on_part_eq answers_def)

lemma now_text_frame: "now_text P a = (r, b) \<Longrightarrow> ca_current b = ca_current a"
  unfolding now_text_def by (auto simp: abind_def dest: via_port_frame split: prod.splits sum.splits option.splits)

lemma on_session_frame [simp]: "fc_pending (on_session f c) = fc_pending c" "fc_device (on_session f c) = fc_device c"
  "fc_acknowledged (on_session f c) = fc_acknowledged c"
  by (simp_all add: on_session_def)

lemma applyReceipt_frame [simp]: "fc_pending (applyReceipt r c) = fc_pending c"
  by (simp add: applyReceipt_def Let_def)

lemma persist_state_frame: "persist_state P a = (r, b) \<Longrightarrow> pending_of b = pending_of a"
  unfolding persist_state_def Let_def
  by (auto simp: abind_def FieldCompanionPersistedState.extend_def dest!: now_text_frame via_port_frame split: prod.splits sum.splits)

text \<open>What \<open>deliver_each\<close> leaves comes from the queue, and what it acknowledges was acknowledged by the gateway.\<close>
definition acknowledged_by_gateway :: "'s companion_ports \<Rightarrow> string \<Rightarrow> bool" where
  "acknowledged_by_gateway P key \<longleftrightarrow> (\<exists>tenant case_id session op r.
     answers (cp_deliver P tenant case_id session op) r \<and> fr_idempotencyKey r = key)"

lemma gateway_acknowledges:
  "via_port (cp_deliver P tenant case_id session op) a = (Inr r, b) \<Longrightarrow> acknowledged_by_gateway P (fr_idempotencyKey r)"
  unfolding acknowledged_by_gateway_def by (blast dest: via_port_answers)

lemma deliver_operation_eq:
  assumes "deliver_operation P op a = (r, b)"
  shows "ca_current b = ca_current a \<and> (\<exists>x. r = Inr x \<and> (\<forall>receipt. x = Some receipt \<longrightarrow>
    acknowledged_by_gateway P (fr_idempotencyKey receipt)))"
  using assms unfolding deliver_operation_def
  by (cases r) (auto simp: attempt_Inr dest: via_port_frame gateway_acknowledges)

lemma deliver_each_frame:
  "deliver_each P ops acks remaining a = (r, b) \<Longrightarrow> pending_of b = pending_of a \<and>
   (\<forall>acks' remaining'. r = Inr (acks', remaining') \<longrightarrow> set remaining' \<subseteq> set remaining \<union> attempted ` set ops \<and>
     (\<forall>k \<in> set acks'. k \<in> set acks \<or> acknowledged_by_gateway P k))"
proof (induction ops arbitrary: acks remaining a)
  case Nil
  then show ?case by auto
next
  case (Cons op ops)
  obtain x c where x: "via_port (cp_now P) a = (x, c)" by force
  have ac: "ca_current c = ca_current a" using via_port_frame [OF x] .
  show ?case
  proof (cases x)
    case (Inl e)
    then show ?thesis using Cons.prems x ac by (simp add: abind_def) blast
  next
    case (Inr now)
    have run: "(if expired_by op now then deliver_each P ops acks remaining
       else if fo_idempotencyKey op \<in> set acks then deliver_each P ops acks remaining
       else abind (deliver_operation P op) (\<lambda>receipt. case receipt of
         Some r \<Rightarrow> abind (modify_current (applyReceipt r)) (\<lambda>_.
           deliver_each P ops (set_add acks (fr_idempotencyKey r)) remaining)
       | None \<Rightarrow> abind current (\<lambda>c. if fd_network (fc_device c) = FN_DEGRADED
           then aret (acks, remaining @ [attempted op])
           else deliver_each P ops acks (remaining @ [attempted op])))) c = (r, b)"
      using Cons.prems x Inr by (simp add: abind_def)
    show ?thesis
    proof (cases "expired_by op now \<or> fo_idempotencyKey op \<in> set acks")
      case True
      then show ?thesis using run Cons.IH ac by (fastforce split: if_splits)
    next
      case False
      obtain y d where y: "deliver_operation P op c = (Inr y, d)" "ca_current d = ca_current c"
        "\<And>receipt. y = Some receipt \<Longrightarrow> acknowledged_by_gateway P (fr_idempotencyKey receipt)"
        using deliver_operation_eq by (metis surj_pair)
      show ?thesis
      proof (cases y)
        case None
        then show ?thesis using run False y ac Cons.IH by (fastforce simp: abind_def split: if_splits)
      next
        case (Some receipt)
        then have "deliver_each P ops (set_add acks (fr_idempotencyKey receipt)) remaining
            (d\<lparr>ca_current := applyReceipt receipt (ca_current d)\<rparr>) = (r, b)"
          using run False y by (simp add: abind_def)
        from Cons.IH [OF this] show ?thesis using y(2) y(3) [OF Some] ac by (auto split: if_splits)
      qed
    qed
  qed
qed

lemma unprocessed_frame:
  "unprocessed P acks remaining ops a = (r, b) \<Longrightarrow> ca_current b = ca_current a \<and>
   (\<forall>rest. r = Inr rest \<longrightarrow> set rest \<subseteq> set ops \<and> (\<forall>op \<in> set ops. op \<in> set rest \<or>
     fo_operationId op \<in> fo_operationId ` set remaining \<or> fo_idempotencyKey op \<in> set acks \<or>
     (\<exists>now. answers (cp_now P) now \<and> \<not> alive_at op now)))"
proof (induction ops arbitrary: a r b)
  case Nil
  then show ?case by auto
next
  case (Cons op ops)
  show ?case
  proof (cases "fo_operationId op \<in> fo_operationId ` set remaining \<or> fo_idempotencyKey op \<in> set acks")
    case True
    then have "unprocessed P acks remaining ops a = (r, b)" using Cons.prems by auto
    from Cons.IH [OF this] True show ?thesis by auto
  next
    case False
    obtain x c where x: "via_port (cp_now P) a = (x, c)" by force
    obtain y d where y: "unprocessed P acks remaining ops c = (y, d)" by force
    have ac: "ca_current c = ca_current a" using via_port_frame [OF x] .
    show ?thesis
    proof (cases x)
      case (Inl e)
      then show ?thesis using Cons.prems False x ac by (auto simp: abind_def)
    next
      case (Inr now)
      have now: "answers (cp_now P) now" using x unfolding Inr by (rule via_port_answers)
      have db: "d = b" using Cons.prems False x y Inr by (cases y) (auto simp: abind_def)
      show ?thesis
      proof (cases y)
        case (Inl e)
        then show ?thesis using Cons.prems Cons.IH [OF y] False x y Inr ac by (auto simp: abind_def)
      next
        case rest: (Inr rest)
        then have "r = Inr (if alive_at op now then op # rest else rest)"
          using Cons.prems False x y Inr by (simp add: abind_def)
        then show ?thesis using Cons.IH [OF y] rest now db ac by auto
      qed
    qed
  qed
qed

lemma uniqueFrom_keys:
  "set (uniqueFrom seen items) \<subseteq> set items \<and> distinct (map fo_idempotencyKey (uniqueFrom seen items)) \<and>
   fo_idempotencyKey ` set (uniqueFrom seen items) \<inter> set seen = {} \<and>
   (\<forall>item \<in> set items. fo_idempotencyKey item \<in> set seen \<or> fo_idempotencyKey item \<in> fo_idempotencyKey ` set (uniqueFrom seen items))"
  by (induction seen items rule: uniqueFrom.induct) auto

lemma attempted_frame [simp]: "fo_idempotencyKey (attempted op) = fo_idempotencyKey op" "fo_operationId (attempted op) = fo_operationId op"
  by (simp_all add: attempted_def)

lemma unique_length:
  assumes "fo_idempotencyKey ` set items \<subseteq> fo_idempotencyKey ` set ops"
  shows "length (uniqueOperations items) \<le> length ops"
proof -
  let ?u = "uniqueOperations items"
  have "distinct (map fo_idempotencyKey ?u)" "set ?u \<subseteq> set items"
    using uniqueFrom_keys [of "[]" items] by (auto simp: uniqueOperations_def)
  then have "length ?u = card (fo_idempotencyKey ` set ?u)" by (metis distinct_card image_set length_map)
  also have "\<dots> \<le> card (fo_idempotencyKey ` set ops)"
    using assms \<open>set ?u \<subseteq> set items\<close> by (intro card_mono) auto
  also have "\<dots> \<le> card (set ops)" by (simp add: card_image_le)
  also have "\<dots> \<le> length ops" by (rule card_length)
  finally show ?thesis .
qed

lemma flush_queue_cases:
  assumes "flush_queue P a = (r, b)"
  obtains "pending_of b = pending_of a" "\<And>u. r \<noteq> Inr u"
  | acks remaining rest where "pending_of b = uniqueOperations (remaining @ rest)"
      "set remaining \<subseteq> attempted ` set (pending_of a)" "set rest \<subseteq> set (pending_of a)"
      "\<And>k. k \<in> set acks \<Longrightarrow> k \<in> set (new_set (fc_acknowledged (ca_current a))) \<or> acknowledged_by_gateway P k"
      "\<And>op. op \<in> set (pending_of a) \<Longrightarrow> op \<in> set rest \<or> fo_operationId op \<in> fo_operationId ` set remaining \<or>
         fo_idempotencyKey op \<in> set acks \<or> (\<exists>now. answers (cp_now P) now \<and> \<not> alive_at op now)"
proof -
  obtain x c where x: "deliver_each P (pending_of a) (new_set (fc_acknowledged (ca_current a))) [] a = (x, c)" by force
  note each = deliver_each_frame [OF x]
  show thesis
  proof (cases x)
    case (Inl e)
    then have "b = c" "\<And>u. r \<noteq> Inr u" using assms x by (auto simp: flush_queue_def abind_def)
    then show thesis using that(1) each by simp
  next
    case (Inr p)
    obtain acks remaining where p: "p = (acks, remaining)" by force
    obtain y d where y: "unprocessed P acks remaining (pending_of c) c = (y, d)" by force
    note left = unprocessed_frame [OF y]
    show thesis
    proof (cases y)
      case (Inl e)
      then have "b = d" "\<And>u. r \<noteq> Inr u" using assms x Inr p y by (auto simp: flush_queue_def abind_def)
      then show thesis using that(1) each left by simp
    next
      case rest: (Inr rest)
      have "persist_state P (d\<lparr>ca_current := (ca_current d)\<lparr>fc_pending := uniqueOperations (remaining @ rest),
          fc_acknowledged := last_entries 200 acks\<rparr>\<rparr>) = (r, b)"
        using assms x Inr p y rest by (simp add: flush_queue_def abind_def)
      then have pending: "pending_of b = uniqueOperations (remaining @ rest)" using persist_state_frame by fastforce
      have frame: "pending_of c = pending_of a" "set remaining \<subseteq> attempted ` set (pending_of a)"
        "\<And>k. k \<in> set acks \<Longrightarrow> k \<in> set (new_set (fc_acknowledged (ca_current a))) \<or> acknowledged_by_gateway P k"
        using each Inr p by auto
      have kept: "set rest \<subseteq> set (pending_of a)"
        "\<And>op. op \<in> set (pending_of a) \<Longrightarrow> op \<in> set rest \<or> fo_operationId op \<in> fo_operationId ` set remaining \<or>
           fo_idempotencyKey op \<in> set acks \<or> (\<exists>now. answers (cp_now P) now \<and> \<not> alive_at op now)"
        using left rest frame(1) by auto
      show thesis by (rule that(2) [OF pending frame(2) kept(1) frame(3) kept(2)])
    qed
  qed
qed

lemma new_set_elements [simp]: "set (new_set xs) = set xs"
proof -
  have "set (foldl set_add seen xs) = set seen \<union> set xs" for seen :: "'a list"
    by (induction xs arbitrary: seen) auto
  then show ?thesis by (simp add: new_set_def)
qed

lemma flush_queue_length:
  assumes "flush_queue P a = (r, b)"
  shows "length (pending_of b) \<le> length (pending_of a)"
  using assms
proof (cases rule: flush_queue_cases)
  case (2 acks remaining rest)
  then have "fo_idempotencyKey ` set (remaining @ rest) \<subseteq> fo_idempotencyKey ` set (pending_of a)" by force
  then show ?thesis using 2(1) unique_length by metis
qed simp

section \<open>The queue is bounded\<close>

definition queue_bounded :: "'s companion \<Rightarrow> bool" where
  "queue_bounded a \<longleftrightarrow> length (pending_of a) \<le> FIELD_COMPANION_MAX_QUEUE"

lemma keeps_frame: "(\<And>a r b. m a = (r, b) \<Longrightarrow> pending_of b = pending_of a) \<Longrightarrow> keeps queue_bounded m"
  by (rule keepsI) (simp add: queue_bounded_def)

lemma bounded_frames [keeps_intros]:
  "keeps queue_bounded (via_port m)" "keeps queue_bounded (now_text P)" "keeps queue_bounded (persist_state P)"
  "keeps queue_bounded current"
  by (rule keeps_frame, simp add: via_port_frame now_text_frame persist_state_frame)+

lemma bounded_modify [keeps_intros]:
  assumes "\<And>c. length (fc_pending (f c)) \<le> max (length (fc_pending c)) FIELD_COMPANION_MAX_QUEUE"
  shows "keeps queue_bounded (modify_current f)"
proof (rule keepsI)
  fix a r b
  assume a: "queue_bounded a" and "modify_current f a = (r, b)"
  then have "length (pending_of b) \<le> max (length (pending_of a)) FIELD_COMPANION_MAX_QUEUE" using assms by auto
  then show "queue_bounded b" using a by (simp add: queue_bounded_def)
qed

lemma bounded_enqueue [keeps_intros]: "keeps queue_bounded (enqueue_operation op)"
  by (rule keepsI) (auto simp: enqueue_operation_def queue_bounded_def split: if_splits)

lemma bounded_guards [keeps_intros]:
  "keeps queue_bounded requireBooted" "keeps queue_bounded requireConsent" "keeps queue_bounded requireShareAuthority"
  "keeps queue_bounded (new_operation P kind payload)"
  unfolding requireBooted_def requireConsent_def requireShareAuthority_def new_operation_def
  by (intro keeps_intros)+

lemma bounded_flush [keeps_intros]:
  "keeps queue_bounded (flush_queue P)" "keeps queue_bounded (flush P)" "keeps queue_bounded (flush_if_connected P)"
  "keeps queue_bounded (persist_and_flush P)"
proof -
  show queue: "keeps queue_bounded (flush_queue P)"
    by (rule keepsI) (auto simp: queue_bounded_def dest: flush_queue_length)
  show flush: "keeps queue_bounded (flush P)" unfolding flush_def by (intro keeps_intros queue)
  then show conn: "keeps queue_bounded (flush_if_connected P)" unfolding flush_if_connected_def by (intro keeps_intros)
  then show "keeps queue_bounded (persist_and_flush P)" unfolding persist_and_flush_def by (intro keeps_intros)
qed

lemma keeps_abind_result:
  "keeps I m \<Longrightarrow> (\<And>x s t. m s = (Inr x, t) \<Longrightarrow> keeps I (f x)) \<Longrightarrow> keeps I (abind m f)"
  unfolding keeps_def abind_def by (auto split: prod.splits sum.splits)

lemma boot_restores:
  assumes "boot_choice P input persisted s = (Inr (Some p), t)"
  shows "length (fc_pending p) \<le> FIELD_COMPANION_MAX_QUEUE"
  using assms by (auto simp: boot_choice_def abind_def validPersisted_def split: option.splits prod.splits sum.splits if_splits)

lemma bounded_boot [keeps_intros]: "keeps queue_bounded (boot P input)"
proof -
  have choice: "keeps queue_bounded (boot_choice P input persisted)" for persisted
    unfolding boot_choice_def by (intro keeps_intros)
  have taken: "keeps queue_bounded (take_up P input valid)"
    if "boot_choice P input persisted s = (Inr valid, t)" for persisted valid s t
    using that unfolding take_up_def by (intro keeps_intros)
      (auto simp: FieldCompanionPersistedState.extend_def initialState_def dest!: boot_restores intro: max.coboundedI2)
  have resumed: "keeps queue_bounded (abind (boot_choice P input persisted)
      (\<lambda>valid. abind (take_up P input valid) (\<lambda>_. flush_if_connected P)))" for persisted
    by (rule keeps_abind_result [OF choice]) (rule keeps_abind, rule taken, assumption, rule bounded_flush(3))
  show ?thesis unfolding boot_def
    by (rule keeps_abind, rule keeps_basic(3), rule keeps_abind, rule bounded_frames(1), rule resumed)
qed

text \<open>The calls the user interface makes.\<close>
datatype companion_call = CallBoot FieldCompanionBootstrap | CallSetConsent bool | CallSelectLanguage FieldCompanionLanguage |
  CallRespond "string list" | CallUpdateDevice "FieldCompanionDeviceSnapshot \<Rightarrow> FieldCompanionDeviceSnapshot" |
  CallShareDeviceMetadata | CallReconnect | CallTakeover string | CallComplete | CallFlush

definition perform :: "'s companion_ports \<Rightarrow> companion_call \<Rightarrow> ('s, unit) controller" where
  "perform P call = (case call of CallBoot input \<Rightarrow> boot P input | CallSetConsent granted \<Rightarrow> setConsent P granted
   | CallSelectLanguage lang \<Rightarrow> selectLanguage P lang | CallRespond options \<Rightarrow> respond P options
   | CallUpdateDevice update \<Rightarrow> updateDevice P update | CallShareDeviceMetadata \<Rightarrow> shareDeviceMetadata P
   | CallReconnect \<Rightarrow> reconnect P | CallTakeover label \<Rightarrow> receiveOperatorTakeover P label
   | CallComplete \<Rightarrow> complete_contact P | CallFlush \<Rightarrow> flush P)"

fun perform_all :: "'s companion_ports \<Rightarrow> companion_call list \<Rightarrow> 's companion \<Rightarrow> 's companion" where
  "perform_all P [] a = a"
| "perform_all P (call # calls) a = perform_all P calls (snd (perform P call a))"

lemma bounded_perform: "keeps queue_bounded (perform P call)"
  unfolding perform_def setConsent_def selectLanguage_def respond_def updateDevice_def shareDeviceMetadata_def
    reconnect_def receiveOperatorTakeover_def complete_contact_def
  by (cases call) (auto intro!: keeps_intros simp: Let_def)

lemma bounded_perform_all: "queue_bounded a \<Longrightarrow> queue_bounded (perform_all P calls a)"
proof (induction calls arbitrary: a)
  case (Cons call calls)
  obtain r b where "perform P call a = (r, b)" by force
  then show ?case using Cons keepsD [OF bounded_perform] by fastforce
qed simp

text \<open>Whatever the user interface calls and whatever storage, gateway, clock and identifiers answer, the queue of the companion never holds more than a hundred operations.\<close>
theorem companion_queue_is_bounded:
  "length (fc_pending (ca_current (perform_all P calls \<lparr>ca_current = failureState code, ca_ports = w\<rparr>))) \<le> FIELD_COMPANION_MAX_QUEUE"
proof -
  have "queue_bounded \<lparr>ca_current = failureState code, ca_ports = w\<rparr>"
    by (simp add: queue_bounded_def failureState_def)
  from bounded_perform_all [OF this] show ?thesis by (simp add: queue_bounded_def)
qed

lemma uniqueOperations_kept: "op \<in> set items \<Longrightarrow> \<exists>q \<in> set (uniqueOperations items). fo_idempotencyKey q = fo_idempotencyKey op"
  using uniqueFrom_keys [of "[]" items] by (force simp: uniqueOperations_def)

lemma flushed_operation_is_accounted:
  assumes b: "pending_of b = uniqueOperations (remaining @ rest)" and remaining: "set remaining \<subseteq> attempted ` set (pending_of a)"
    and acks: "\<And>k. k \<in> set acks \<Longrightarrow> k \<in> set (new_set (fc_acknowledged (ca_current a))) \<or> acknowledged_by_gateway P k"
    and each: "op \<in> set rest \<or> fo_operationId op \<in> fo_operationId ` set remaining \<or> fo_idempotencyKey op \<in> set acks \<or>
       (\<exists>now. answers (cp_now P) now \<and> \<not> alive_at op now)"
    and op: "op \<in> set (pending_of a)" "distinct (map fo_operationId (pending_of a))"
  shows "(\<exists>q \<in> set (pending_of b). fo_idempotencyKey q = fo_idempotencyKey op) \<or>
    fo_idempotencyKey op \<in> set (fc_acknowledged (ca_current a)) \<or> acknowledged_by_gateway P (fo_idempotencyKey op) \<or>
    (\<exists>now. answers (cp_now P) now \<and> \<not> alive_at op now)"
proof -
  have inj: "inj_on fo_operationId (set (pending_of a))" using op(2) by (simp add: distinct_map)
  have kept: "\<exists>q \<in> set (pending_of b). fo_idempotencyKey q = fo_idempotencyKey op"
    if "op \<in> set rest \<or> op' \<in> set remaining \<and> fo_idempotencyKey op' = fo_idempotencyKey op" for op op'
    using that uniqueOperations_kept unfolding b by (metis Un_iff set_append)
  consider "op \<in> set rest" | "fo_operationId op \<in> fo_operationId ` set remaining" | "fo_idempotencyKey op \<in> set acks" |
      "\<exists>now. answers (cp_now P) now \<and> \<not> alive_at op now" using each by blast
  then show ?thesis
  proof cases
    case 1
    then show ?thesis using kept by blast
  next
    case 2
    then obtain p where p: "p \<in> set (pending_of a)" "attempted p \<in> set remaining" "fo_operationId p = fo_operationId op"
      using remaining by force
    then have "p = op" using inj op(1) by (meson inj_onD)
    then show ?thesis using kept [of op "attempted op"] p(2) by simp
  next
    case 3
    then show ?thesis using acks by auto
  qed blast
qed


section \<open>The simulated ports\<close>

record simulation =
  si_stored :: "FieldCompanionPersistedState option"
  si_sequence :: nat
  si_clock :: int
  si_deliveries :: "FieldCompanionQueuedOperation list"
  si_receipts :: "(string \<times> FieldCompanionDeliveryReceipt) list"
  si_unavailable :: bool

definition padStart6 :: "string \<Rightarrow> string" where
  "padStart6 text = replicate (6 - length text) CHR ''0'' @ text"

definition simulated_create :: "string \<Rightarrow> (simulation, companion_error, string) action" where
  "simulated_create prefix s = (let n = si_sequence s + 1 in
     (Inr (prefix @ ''-'' @ padStart6 (decimal n)), s\<lparr>si_sequence := n\<rparr>))"

definition simulated_receipt :: "FieldCompanionQueuedOperation \<Rightarrow> string \<Rightarrow> FieldCompanionDeliveryReceipt" where
  "simulated_receipt op receivedAt = (let disposition = deliveryDisposition op in
    \<lparr>fr_idempotencyKey = fo_idempotencyKey op, fr_disposition = disposition,
      fr_contactState = (if disposition = DI_OPERATOR_TAKEOVER then HC_OPERATOR_TAKEOVER
        else if disposition = DI_HUMAN_REVIEW then HC_HUMAN_REVIEW else HC_AWAITING_RESPONSE),
      fr_statusMessageCode = (if disposition = DI_OPERATOR_TAKEOVER then ''operator_takeover_requested''
        else if disposition = DI_HUMAN_REVIEW then ''human_review_requested'' else ''delivery_accepted''),
      fr_receivedAt = receivedAt\<rparr>)"

definition simulated_deliver :: "FieldCompanionQueuedOperation \<Rightarrow> (simulation, companion_error, FieldCompanionDeliveryReceipt) action" where
  "simulated_deliver op s =
    (if si_unavailable s then (Inl PortFailure, s)
     else case map_of (si_receipts s) (fo_idempotencyKey op) of
       Some existing \<Rightarrow> (Inr (existing\<lparr>fr_disposition := DI_DUPLICATE\<rparr>), s)
     | None \<Rightarrow> (let t = s\<lparr>si_deliveries := si_deliveries s @ [op]\<rparr> in
         case toISO (si_clock s) of None \<Rightarrow> (Inl InvalidTime, t)
         | Some received \<Rightarrow> (Inr (simulated_receipt op received),
             t\<lparr>si_receipts := (fo_idempotencyKey op, simulated_receipt op received) # si_receipts t\<rparr>)))"

definition simulated_ports :: "simulation companion_ports" where
  "simulated_ports = \<lparr>cp_load = aread si_stored, cp_save = (\<lambda>p. amodify (\<lambda>s. s\<lparr>si_stored := Some p\<rparr>)),
    cp_deliver = (\<lambda>_ _ _ op. simulated_deliver op), cp_create = simulated_create,
    cp_now = aread si_clock, cp_simulation = True\<rparr>"

text \<open>The simulated gateway takes an operation once, however often it is sent.\<close>
lemma simulated_delivery_is_idempotent:
  assumes "simulated_deliver op s = (Inr r, t)" "simulated_deliver op t = (r', t')"
  shows "t' = t \<and> (\<exists>q. r' = Inr q \<and> fr_disposition q = DI_DUPLICATE)"
  using assms by (auto simp: simulated_deliver_def Let_def split: if_splits option.splits)

definition sample_boot :: FieldCompanionBootstrap where
  "sample_boot = \<lparr>fb_tenantId = ''riyadh'', fb_caseId = ''case-1'', fb_sessionId = ''session-1'', fb_language = FLANG_ar,
     fb_appInstanceId = ''app-1'', fb_now = ''2026-01-01T00:00:00.000Z''\<rparr>"

definition sample_simulation :: simulation where
  "sample_simulation = \<lparr>si_stored = None, si_sequence = 0, si_clock = 1767225600000, si_deliveries = [], si_receipts = [],
     si_unavailable = True\<rparr>"

definition sample_companion :: "simulation companion" where
  "sample_companion = perform_all simulated_ports [CallBoot sample_boot, CallSetConsent True]
     \<lparr>ca_current = failureState ''companion_not_booted'', ca_ports = sample_simulation\<rparr>"

lemma sample_pending: "map fo_operationId (fc_pending (ca_current sample_companion)) = [''field-op-000001'']"
  by code_simp


end
