(* ===== verification/Integration.thy ===== *)
theory Integration
  imports JsAction JsDate
begin

text \<open>
  The partner sandbox (\<open>apps/api/src/integrations/integration-lifecycle.ts\<close>) on the tables of
  \<open>database/migrations/0014_integration_delivery_lifecycle.sql\<close>: the trusted profile, the projection of a
  road event to what a partner needs, and the operations \<open>prepare\<close>, \<open>send\<close>, \<open>status\<close>, \<open>cancel\<close> and
  \<open>handleCallback\<close>, each statement of SQL with the constraints and the trigger it meets.

  Each transaction locks the row it works on before it looks at it, so the operations run one after the
  other. Timestamps are kept in milliseconds. Parameters: \<open>sha256\<close> of a text and of \<open>JSON.stringify\<close>, what
  the column type \<open>jsonb\<close> gives back for a document, and the cast of a text to \<open>timestamptz\<close>. Texts hold no NUL
  character and the connection does not fail.
\<close>

section \<open>Data\<close>

datatype IntegrationPartner = IP_EMERGENCY | IP_TRAFFIC | IP_ROAD_OPERATOR | IP_INSURANCE | IP_TOWING | IP_ROUTING

datatype IntegrationPurpose = IU_INCIDENT_TRIAGE | IU_EMERGENCY_COORDINATION | IU_TRAFFIC_COORDINATION |
  IU_INSURANCE_COORDINATION | IU_TOWING_COORDINATION | IU_ROUTE_COORDINATION

datatype IntegrationDeliveryState = DS_PREPARED | DS_ACCEPTED | DS_ACKNOWLEDGED | DS_COMPLETED | DS_FAILED | DS_CANCELLED

fun partner_name :: "IntegrationPartner \<Rightarrow> string" where
  "partner_name IP_EMERGENCY = ''EMERGENCY''"
| "partner_name IP_TRAFFIC = ''TRAFFIC''"
| "partner_name IP_ROAD_OPERATOR = ''ROAD_OPERATOR''"
| "partner_name IP_INSURANCE = ''INSURANCE''"
| "partner_name IP_TOWING = ''TOWING''"
| "partner_name IP_ROUTING = ''ROUTING''"

fun integration_purpose_name :: "IntegrationPurpose \<Rightarrow> string" where
  "integration_purpose_name IU_INCIDENT_TRIAGE = ''INCIDENT_TRIAGE''"
| "integration_purpose_name IU_EMERGENCY_COORDINATION = ''EMERGENCY_COORDINATION''"
| "integration_purpose_name IU_TRAFFIC_COORDINATION = ''TRAFFIC_COORDINATION''"
| "integration_purpose_name IU_INSURANCE_COORDINATION = ''INSURANCE_COORDINATION''"
| "integration_purpose_name IU_TOWING_COORDINATION = ''TOWING_COORDINATION''"
| "integration_purpose_name IU_ROUTE_COORDINATION = ''ROUTE_COORDINATION''"

fun delivery_state_name :: "IntegrationDeliveryState \<Rightarrow> string" where
  "delivery_state_name DS_PREPARED = ''PREPARED''"
| "delivery_state_name DS_ACCEPTED = ''ACCEPTED''"
| "delivery_state_name DS_ACKNOWLEDGED = ''ACKNOWLEDGED''"
| "delivery_state_name DS_COMPLETED = ''COMPLETED''"
| "delivery_state_name DS_FAILED = ''FAILED''"
| "delivery_state_name DS_CANCELLED = ''CANCELLED''"

fun PURPOSE_BY_PARTNER :: "IntegrationPartner \<Rightarrow> IntegrationPurpose" where
  "PURPOSE_BY_PARTNER IP_EMERGENCY = IU_EMERGENCY_COORDINATION"
| "PURPOSE_BY_PARTNER IP_TRAFFIC = IU_TRAFFIC_COORDINATION"
| "PURPOSE_BY_PARTNER IP_ROAD_OPERATOR = IU_TRAFFIC_COORDINATION"
| "PURPOSE_BY_PARTNER IP_INSURANCE = IU_INSURANCE_COORDINATION"
| "PURPOSE_BY_PARTNER IP_TOWING = IU_TOWING_COORDINATION"
| "PURPOSE_BY_PARTNER IP_ROUTING = IU_ROUTE_COORDINATION"

fun TERMINAL_STATES :: "IntegrationDeliveryState \<Rightarrow> bool" where
  "TERMINAL_STATES DS_COMPLETED = True"
| "TERMINAL_STATES DS_FAILED = True"
| "TERMINAL_STATES DS_CANCELLED = True"
| "TERMINAL_STATES _ = False"

record TrustedIntegrationProfile =
  tp_profileId :: string
  tp_partner :: IntegrationPartner
  tp_purpose :: IntegrationPurpose
  tp_tenantId :: string
  tp_mode :: string

record SourceLocation =
  sl_latitude :: js_num
  sl_longitude :: js_num

record SourceSeverity =
  ss_level :: string
  ss_score :: js_num
  ss_reasonCodes :: "string list"

record SourceHumanSafety =
  sh_status :: string
  sh_responseRequired :: bool

record SourceRoad =
  so_segmentId :: string
  so_lanesBlocked :: js_num
  so_closureState :: string

record SourceVehicle =
  sv_vehicleClass :: string
  sv_mobility :: string

record SourcePersonal =
  sp_contactReference :: string
  sp_identityReference :: string

text \<open>Fields whose values the code compares at run time are texts; \<open>is_insurance\<close> is the policy reference.\<close>
record IntegrationSourceSnapshot =
  in_roadEventId :: string
  in_tenantId :: string
  in_occurredAt :: string
  in_location :: SourceLocation
  in_severity :: SourceSeverity
  in_humanSafety :: SourceHumanSafety
  in_road :: SourceRoad
  in_vehicle :: "SourceVehicle option"
  in_insurance :: "string option"
  in_personal :: "SourcePersonal option"
  in_evidenceRefs :: "string list"

record IntegrationPrepareInput =
  pi_logicalOperationId :: string
  pi_requestId :: string
  pi_idempotencyKey :: string
  pi_correlationId :: string
  pi_causationId :: string
  pi_source :: IntegrationSourceSnapshot
  pi_preparedAt :: string

record PreparedIntegrationRequest =
  pq_logicalOperationId :: string
  pq_profileId :: string
  pq_partner :: IntegrationPartner
  pq_purpose :: IntegrationPurpose
  pq_tenantId :: string
  pq_requestId :: string
  pq_idempotencyKey :: string
  pq_correlationId :: string
  pq_causationId :: string
  pq_projection :: json
  pq_preparedAt :: string

record IntegrationSendReceipt =
  sr_logicalOperationId :: string
  sr_providerRequestId :: string
  sr_profileId :: string
  sr_partner :: IntegrationPartner
  sr_acceptedAt :: string

record IntegrationStatus =
  it_logicalOperationId :: string
  it_providerRequestId :: "string option"
  it_profileId :: string
  it_partner :: IntegrationPartner
  it_purpose :: IntegrationPurpose
  it_tenantId :: string
  it_state :: IntegrationDeliveryState
  it_attemptCount :: int
  it_acceptedAt :: "string option"
  it_updatedAt :: string
  it_reason :: "string option"

record IntegrationCallbackInput =
  cb_callbackId :: string
  cb_providerRequestId :: string
  cb_state :: string
  cb_reason :: "string option"
  cb_occurredAt :: string

record DeliveryRow =
  dr_logicalOperationId :: string
  dr_profileId :: string
  dr_partner :: IntegrationPartner
  dr_purpose :: IntegrationPurpose
  dr_tenantId :: string
  dr_requestId :: string
  dr_idempotencyKey :: string
  dr_requestFingerprint :: string
  dr_correlationId :: string
  dr_causationId :: string
  dr_projection :: json
  dr_state :: IntegrationDeliveryState
  dr_providerRequestId :: "string option"
  dr_attemptCount :: int
  dr_preparedAt :: int
  dr_acceptedAt :: "int option"
  dr_updatedAt :: int
  dr_reason :: "string option"

record CallbackRow =
  cw_profileId :: string
  cw_callbackId :: string
  cw_logicalOperationId :: string
  cw_semanticFingerprint :: string

record integration_db =
  id_deliveries :: "DeliveryRow list"
  id_callbacks :: "CallbackRow list"

text \<open>An \<open>IntegrationLifecycleError\<close> with its message, or what Postgres raises: a cast, a check, a unique
  constraint or the trigger.\<close>
datatype integration_error = LifecycleError string | CastFailed | CheckFailed | UniqueFailed | TriggerRaised

record integration_env =
  ie_sha256 :: "string \<Rightarrow> string"
  ie_sha256_json :: "json \<Rightarrow> string"
  ie_jsonb :: "json \<Rightarrow> json"
  ie_timestamptz :: "string \<Rightarrow> int option"

section \<open>Validation\<close>

definition required_text :: "string \<Rightarrow> string \<Rightarrow> nat \<Rightarrow> nat \<Rightarrow> integration_error + string" where
  "required_text v field maximum minimum = (let normalized = trim v in
     if length normalized < minimum \<or> maximum < length normalized
     then Inl (LifecycleError (field @ '' must contain between '' @ decimal minimum @ '' and '' @ decimal maximum @
       '' characters''))
     else Inr normalized)"

text \<open>\<open>/^[A-Za-z0-9][A-Za-z0-9._:-]*$/\<close>\<close>
definition PROFILE_ID_PATTERN :: "string \<Rightarrow> bool" where
  "PROFILE_ID_PATTERN s = (case s of [] \<Rightarrow> False | c # cs \<Rightarrow> is_alnum c \<and> list_all is_token_char cs)"

definition requireProfile :: "TrustedIntegrationProfile \<Rightarrow> integration_error + TrustedIntegrationProfile" where
  "requireProfile p =
     (if length (tp_profileId p) < 1 \<or> 128 < length (tp_profileId p) \<or> tp_profileId p \<noteq> trim (tp_profileId p) \<or>
         \<not> PROFILE_ID_PATTERN (tp_profileId p)
      then Inl (LifecycleError ''profileId must be a canonical token between 1 and 128 characters'')
      else if tp_mode p \<noteq> ''SIMULATION_ONLY''
      then Inl (LifecycleError ''Only SIMULATION_ONLY integration profiles are enabled'')
      else if tp_purpose p \<noteq> PURPOSE_BY_PARTNER (tp_partner p)
      then Inl (LifecycleError (partner_name (tp_partner p) @ '' requires purpose '' @
        integration_purpose_name (PURPOSE_BY_PARTNER (tp_partner p))))
      else ebind (required_text (tp_tenantId p) ''profile tenantId'' 128 1) (\<lambda>tenant.
        Inr (p\<lparr>tp_tenantId := tenant, tp_mode := ''SIMULATION_ONLY''\<rparr>)))"

definition iso_text :: "string \<Rightarrow> string \<Rightarrow> integration_error + string" where
  "iso_text v field = (case dateParse v of
     None \<Rightarrow> Inl (LifecycleError (field @ '' must be an ISO timestamp'')) | Some t \<Rightarrow> Inr (isoString t))"

definition rowIso :: "int \<Rightarrow> string \<Rightarrow> integration_error + string" where
  "rowIso v field = (case toISO v of
     None \<Rightarrow> Inl (LifecycleError (''Persisted '' @ field @ '' is invalid'')) | Some text \<Rightarrow> Inr text)"

definition projected_location :: "IntegrationSourceSnapshot \<Rightarrow> integration_error + json" where
  "projected_location source =
     (if \<not> num_between (- 90) 90 (sl_latitude (in_location source)) then Inl (LifecycleError ''location.latitude is invalid'')
      else if \<not> num_between (- 180) 180 (sl_longitude (in_location source))
      then Inl (LifecycleError ''location.longitude is invalid'')
      else Inr (JObj [(''latitude'', JNum (sl_latitude (in_location source))),
        (''longitude'', JNum (sl_longitude (in_location source)))]))"

definition projected_road :: "IntegrationSourceSnapshot \<Rightarrow> integration_error + json" where
  "projected_road source = (let r = in_road source in
     if \<not> isSafeInteger (so_lanesBlocked r) \<or> num_lt (so_lanesBlocked r) (Num 0) \<or> num_lt (Num 16) (so_lanesBlocked r)
     then Inl (LifecycleError ''road.lanesBlocked is invalid'')
     else if so_closureState r \<notin> set [''OPEN'', ''RESTRICTED'', ''CLOSED'']
     then Inl (LifecycleError ''road.closureState is invalid'')
     else ebind (required_text (so_segmentId r) ''road.segmentId'' 128 1) (\<lambda>segment.
       Inr (JObj [(''segmentId'', JStr segment), (''lanesBlocked'', JNum (so_lanesBlocked r)),
         (''closureState'', JStr (so_closureState r))])))"

text \<open>The switch over the partner, behind the fields that are read for every partner.\<close>
fun partner_projection :: "IntegrationPartner \<Rightarrow> IntegrationSourceSnapshot \<Rightarrow> string \<Rightarrow> string \<Rightarrow> json \<Rightarrow> string \<Rightarrow> json \<Rightarrow>
    integration_error + json" where
  "partner_projection IP_EMERGENCY source roadEventId occurredAt eventLocation severityLevel roadState =
     (if sh_status (in_humanSafety source) \<notin> set [''UNKNOWN'', ''OK'', ''NEEDS_HELP'']
      then Inl (LifecycleError ''humanSafety.status is invalid'')
      else Inr (JObj [(''roadEventId'', JStr roadEventId), (''occurredAt'', JStr occurredAt), (''location'', eventLocation),
        (''severityLevel'', JStr severityLevel),
        (''humanSafety'', JObj [(''status'', JStr (sh_status (in_humanSafety source))),
          (''responseRequired'', JBool (sh_responseRequired (in_humanSafety source)))])]))"
| "partner_projection IP_TRAFFIC source roadEventId occurredAt eventLocation severityLevel roadState =
     Inr (JObj [(''roadEventId'', JStr roadEventId), (''occurredAt'', JStr occurredAt), (''location'', eventLocation),
       (''severityLevel'', JStr severityLevel), (''road'', roadState)])"
| "partner_projection IP_ROAD_OPERATOR source roadEventId occurredAt eventLocation severityLevel roadState =
     Inr (JObj [(''roadEventId'', JStr roadEventId), (''occurredAt'', JStr occurredAt), (''location'', eventLocation),
       (''road'', roadState)])"
| "partner_projection IP_INSURANCE source roadEventId occurredAt eventLocation severityLevel roadState =
     (case in_insurance source of None \<Rightarrow> Inl (LifecycleError ''insurance policy reference is required'')
      | Some policy \<Rightarrow> ebind (required_text policy ''insurance.policyReference'' 128 1) (\<lambda>reference.
          Inr (JObj [(''roadEventId'', JStr roadEventId), (''occurredAt'', JStr occurredAt), (''location'', eventLocation),
            (''policyReference'', JStr reference)])))"
| "partner_projection IP_TOWING source roadEventId occurredAt eventLocation severityLevel roadState =
     (case in_vehicle source of None \<Rightarrow> Inl (LifecycleError ''vehicle mobility data is required'')
      | Some vehicle \<Rightarrow>
          if sv_mobility vehicle \<notin> set [''DRIVABLE'', ''DISABLED''] then Inl (LifecycleError ''vehicle.mobility is invalid'')
          else ebind (required_text (sv_vehicleClass vehicle) ''vehicle.vehicleClass'' 64 1) (\<lambda>vehicleClass.
            Inr (JObj [(''roadEventId'', JStr roadEventId), (''location'', eventLocation),
              (''vehicle'', JObj [(''vehicleClass'', JStr vehicleClass), (''mobility'', JStr (sv_mobility vehicle))])])))"
| "partner_projection IP_ROUTING source roadEventId occurredAt eventLocation severityLevel roadState =
     Inr (JObj [(''roadEventId'', JStr roadEventId), (''road'', roadState)])"

definition projectMinimumNecessary :: "IntegrationPartner \<Rightarrow> IntegrationSourceSnapshot \<Rightarrow> integration_error + json" where
  "projectMinimumNecessary partner source =
     ebind (required_text (in_roadEventId source) ''roadEventId'' 128 1) (\<lambda>roadEventId.
     ebind (iso_text (in_occurredAt source) ''occurredAt'') (\<lambda>occurredAt.
     ebind (projected_location source) (\<lambda>eventLocation.
     ebind (required_text (ss_level (in_severity source)) ''severity.level'' 32 1) (\<lambda>severityLevel.
     ebind (projected_road source) (\<lambda>roadState.
     partner_projection partner source roadEventId occurredAt eventLocation severityLevel roadState)))))"

definition requestFingerprint :: "integration_env \<Rightarrow> TrustedIntegrationProfile \<Rightarrow> IntegrationPrepareInput \<Rightarrow> json \<Rightarrow> string" where
  "requestFingerprint E p i projection = ie_sha256_json E (JObj [(''logicalOperationId'', JStr (pi_logicalOperationId i)),
     (''profileId'', JStr (tp_profileId p)), (''partner'', JStr (partner_name (tp_partner p))),
     (''purpose'', JStr (integration_purpose_name (tp_purpose p))), (''tenantId'', JStr (tp_tenantId p)),
     (''requestId'', JStr (pi_requestId i)), (''idempotencyKey'', JStr (pi_idempotencyKey i)),
     (''correlationId'', JStr (pi_correlationId i)), (''causationId'', JStr (pi_causationId i)),
     (''projection'', projection)])"

definition callbackFingerprint :: "integration_env \<Rightarrow> IntegrationCallbackInput \<Rightarrow> integration_error + string" where
  "callbackFingerprint E i = ebind (iso_text (cb_occurredAt i) ''callback occurredAt'') (\<lambda>occurredAt.
     Inr (ie_sha256_json E (JObj [(''providerRequestId'', JStr (cb_providerRequestId i)), (''state'', JStr (cb_state i)),
       (''reason'', case cb_reason i of None \<Rightarrow> JNull | Some reason \<Rightarrow> JStr (trim reason)),
       (''occurredAt'', JStr occurredAt)])))"

definition providerRequestId :: "integration_env \<Rightarrow> string \<Rightarrow> string \<Rightarrow> string" where
  "providerRequestId E profileId logicalOperationId =
     ''sim-'' @ take 32 (ie_sha256 E (profileId @ [char_of (0 :: nat)] @ logicalOperationId))"

definition preparedFromRow :: "DeliveryRow \<Rightarrow> integration_error + PreparedIntegrationRequest" where
  "preparedFromRow r = ebind (rowIso (dr_preparedAt r) ''prepared_at'') (\<lambda>preparedAt.
     Inr \<lparr>pq_logicalOperationId = dr_logicalOperationId r, pq_profileId = dr_profileId r, pq_partner = dr_partner r,
       pq_purpose = dr_purpose r, pq_tenantId = dr_tenantId r, pq_requestId = dr_requestId r,
       pq_idempotencyKey = dr_idempotencyKey r, pq_correlationId = dr_correlationId r, pq_causationId = dr_causationId r,
       pq_projection = dr_projection r, pq_preparedAt = preparedAt\<rparr>)"

definition statusFromRow :: "DeliveryRow \<Rightarrow> integration_error + IntegrationStatus" where
  "statusFromRow r =
     ebind (case dr_acceptedAt r of None \<Rightarrow> Inr None
       | Some t \<Rightarrow> ebind (rowIso t ''accepted_at'') (\<lambda>text. Inr (Some text))) (\<lambda>acceptedAt.
     ebind (rowIso (dr_updatedAt r) ''updated_at'') (\<lambda>updatedAt.
     Inr \<lparr>it_logicalOperationId = dr_logicalOperationId r, it_providerRequestId = dr_providerRequestId r,
       it_profileId = dr_profileId r, it_partner = dr_partner r, it_purpose = dr_purpose r, it_tenantId = dr_tenantId r,
       it_state = dr_state r, it_attemptCount = dr_attemptCount r, it_acceptedAt = acceptedAt, it_updatedAt = updatedAt,
       it_reason = dr_reason r\<rparr>))"

definition receiptFromRow :: "DeliveryRow \<Rightarrow> integration_error + IntegrationSendReceipt" where
  "receiptFromRow r = (case (dr_providerRequestId r, dr_acceptedAt r) of
     (Some provider, Some t) \<Rightarrow> ebind (rowIso t ''accepted_at'') (\<lambda>acceptedAt.
       Inr \<lparr>sr_logicalOperationId = dr_logicalOperationId r, sr_providerRequestId = provider, sr_profileId = dr_profileId r,
         sr_partner = dr_partner r, sr_acceptedAt = acceptedAt\<rparr>)
   | _ \<Rightarrow> Inl (LifecycleError ''Persisted delivery does not contain an acceptance receipt''))"

section \<open>The tables\<close>

text \<open>The \<open>CHECK\<close> constraints of a delivery.\<close>
definition lower_hex64 :: "string \<Rightarrow> bool" where
  "lower_hex64 s \<longleftrightarrow> length s = 64 \<and> list_all is_lower_hex s"

definition text_between :: "nat \<Rightarrow> nat \<Rightarrow> string \<Rightarrow> bool" where
  "text_between lo hi s \<longleftrightarrow> lo \<le> length s \<and> length s \<le> hi"

definition json_object :: "json \<Rightarrow> bool" where
  "json_object j = (case j of JObj _ \<Rightarrow> True | _ \<Rightarrow> False)"

definition transport_shape :: "DeliveryRow \<Rightarrow> bool" where
  "transport_shape r \<longleftrightarrow>
     (dr_state r = DS_PREPARED \<and> dr_providerRequestId r = None \<and> dr_acceptedAt r = None \<and> dr_attemptCount r = 0) \<or>
     (dr_state r \<noteq> DS_PREPARED \<and> dr_providerRequestId r \<noteq> None \<and> dr_acceptedAt r \<noteq> None \<and> 1 \<le> dr_attemptCount r)"

definition time_order :: "DeliveryRow \<Rightarrow> bool" where
  "time_order r \<longleftrightarrow> dr_preparedAt r \<le> dr_updatedAt r \<and>
     (case dr_acceptedAt r of None \<Rightarrow> True | Some t \<Rightarrow> dr_preparedAt r \<le> t)"

definition delivery_checks :: "DeliveryRow \<Rightarrow> bool" where
  "delivery_checks r \<longleftrightarrow> text_between 1 128 (dr_profileId r) \<and> dr_purpose r \<noteq> IU_INCIDENT_TRIAGE \<and>
     text_between 1 128 (dr_tenantId r) \<and> text_between 1 128 (dr_requestId r) \<and>
     text_between 16 128 (dr_idempotencyKey r) \<and> lower_hex64 (dr_requestFingerprint r) \<and>
     text_between 1 128 (dr_correlationId r) \<and> text_between 1 128 (dr_causationId r) \<and>
     json_object (dr_projection r) \<and> 0 \<le> dr_attemptCount r \<and> transport_shape r \<and> time_order r"

text \<open>The unique keys, over pairs of rows; null is distinct from null.\<close>
definition same_key :: "DeliveryRow \<Rightarrow> DeliveryRow \<Rightarrow> bool" where
  "same_key a b \<longleftrightarrow> dr_logicalOperationId a = dr_logicalOperationId b \<or>
     (dr_profileId a = dr_profileId b \<and> (dr_idempotencyKey a = dr_idempotencyKey b \<or>
       (dr_providerRequestId a \<noteq> None \<and> dr_providerRequestId a = dr_providerRequestId b)))"

text \<open>The successors the trigger lets a state have.\<close>
fun trigger_allows :: "IntegrationDeliveryState \<Rightarrow> IntegrationDeliveryState \<Rightarrow> bool" where
  "trigger_allows DS_PREPARED s \<longleftrightarrow> s = DS_ACCEPTED"
| "trigger_allows DS_ACCEPTED s \<longleftrightarrow> s \<in> set [DS_ACKNOWLEDGED, DS_COMPLETED, DS_FAILED, DS_CANCELLED]"
| "trigger_allows DS_ACKNOWLEDGED s \<longleftrightarrow> s \<in> set [DS_COMPLETED, DS_FAILED, DS_CANCELLED]"
| "trigger_allows _ s \<longleftrightarrow> False"

definition same_identity :: "DeliveryRow \<Rightarrow> DeliveryRow \<Rightarrow> bool" where
  "same_identity old new \<longleftrightarrow> dr_logicalOperationId new = dr_logicalOperationId old \<and> dr_profileId new = dr_profileId old \<and>
     dr_partner new = dr_partner old \<and> dr_purpose new = dr_purpose old \<and> dr_tenantId new = dr_tenantId old \<and>
     dr_requestId new = dr_requestId old \<and> dr_idempotencyKey new = dr_idempotencyKey old \<and>
     dr_requestFingerprint new = dr_requestFingerprint old \<and> dr_correlationId new = dr_correlationId old \<and>
     dr_causationId new = dr_causationId old \<and> dr_projection new = dr_projection old \<and>
     dr_preparedAt new = dr_preparedAt old"

definition enforce_integration_delivery_update :: "DeliveryRow \<Rightarrow> DeliveryRow \<Rightarrow> bool" where
  "enforce_integration_delivery_update old new \<longleftrightarrow> same_identity old new \<and>
     (dr_providerRequestId old \<noteq> None \<longrightarrow> dr_providerRequestId new = dr_providerRequestId old) \<and>
     (dr_acceptedAt old \<noteq> None \<longrightarrow> dr_acceptedAt new = dr_acceptedAt old) \<and>
     dr_attemptCount old \<le> dr_attemptCount new \<and> dr_updatedAt old \<le> dr_updatedAt new \<and>
     (dr_state new \<noteq> dr_state old \<longrightarrow> trigger_allows (dr_state old) (dr_state new))"

text \<open>\<open>WHERE\<close> clauses on the scope of a profile.\<close>
definition in_profile :: "TrustedIntegrationProfile \<Rightarrow> DeliveryRow \<Rightarrow> bool" where
  "in_profile p r \<longleftrightarrow> dr_profileId r = tp_profileId p \<and> dr_partner r = tp_partner p \<and> dr_purpose r = tp_purpose p \<and>
     dr_tenantId r = tp_tenantId p"

definition by_operation :: "TrustedIntegrationProfile \<Rightarrow> string \<Rightarrow> DeliveryRow \<Rightarrow> bool" where
  "by_operation p operation r \<longleftrightarrow> dr_logicalOperationId r = operation \<and> in_profile p r"

definition by_provider :: "TrustedIntegrationProfile \<Rightarrow> string \<Rightarrow> DeliveryRow \<Rightarrow> bool" where
  "by_provider p provider r \<longleftrightarrow> in_profile p r \<and> dr_providerRequestId r = Some provider"

text \<open>\<open>INSERT ... ON CONFLICT DO NOTHING RETURNING *\<close>\<close>
definition insert_delivery :: "DeliveryRow \<Rightarrow> (integration_db, integration_error, DeliveryRow option) action" where
  "insert_delivery row db =
     (if \<not> delivery_checks row then (Inl CheckFailed, db)
      else if list_ex (same_key row) (id_deliveries db) then (Inr None, db)
      else (Inr (Some row), db\<lparr>id_deliveries := id_deliveries db @ [row]\<rparr>))"

definition select_deliveries :: "(DeliveryRow \<Rightarrow> bool) \<Rightarrow> (integration_db, integration_error, DeliveryRow list) action" where
  "select_deliveries matches = aread (\<lambda>db. filter matches (id_deliveries db))"

text \<open>\<open>UPDATE ... SET f WHERE matches RETURNING *\<close>\<close>
definition update_deliveries :: "(DeliveryRow \<Rightarrow> bool) \<Rightarrow> (DeliveryRow \<Rightarrow> DeliveryRow) \<Rightarrow>
    (integration_db, integration_error, DeliveryRow list) action" where
  "update_deliveries matches f db = (let old = filter matches (id_deliveries db) in
     if \<not> list_all (\<lambda>r. enforce_integration_delivery_update r (f r)) old then (Inl TriggerRaised, db)
     else if \<not> list_all (\<lambda>r. delivery_checks (f r)) old then (Inl CheckFailed, db)
     else if list_ex (\<lambda>r. list_ex (\<lambda>q. dr_logicalOperationId q \<noteq> dr_logicalOperationId r \<and>
         same_key (f r) (if matches q then f q else q)) (id_deliveries db)) old then (Inl UniqueFailed, db)
     else (Inr (map f old), db\<lparr>id_deliveries := map (\<lambda>r. if matches r then f r else r) (id_deliveries db)\<rparr>))"

text \<open>\<open>INSERT ... ON CONFLICT (profile_id, callback_id) DO NOTHING\<close>: whether a row was inserted.\<close>
definition insert_callback :: "CallbackRow \<Rightarrow> (integration_db, integration_error, bool) action" where
  "insert_callback row db =
     (if \<not> (text_between 1 128 (cw_profileId row) \<and> text_between 1 128 (cw_callbackId row) \<and>
         lower_hex64 (cw_semanticFingerprint row)) then (Inl CheckFailed, db)
      else if list_ex (\<lambda>c. cw_profileId c = cw_profileId row \<and> cw_callbackId c = cw_callbackId row) (id_callbacks db)
      then (Inr False, db)
      else (Inr True, db\<lparr>id_callbacks := id_callbacks db @ [row]\<rparr>))"

definition select_callbacks :: "string \<Rightarrow> string \<Rightarrow> (integration_db, integration_error, CallbackRow list) action" where
  "select_callbacks profileId callbackId =
     aread (\<lambda>db. filter (\<lambda>c. cw_profileId c = profileId \<and> cw_callbackId c = callbackId) (id_callbacks db))"

definition timestamptz_of :: "integration_env \<Rightarrow> string \<Rightarrow> (integration_db, integration_error, int) action" where
  "timestamptz_of E text = (case ie_timestamptz E text of None \<Rightarrow> athrow CastFailed | Some ms \<Rightarrow> aret ms)"

definition sandbox_transaction :: "(integration_db, integration_error, 'a) action \<Rightarrow> (integration_db, integration_error, 'a) action" where
  "sandbox_transaction work db = (case work db of (Inl e, _) \<Rightarrow> (Inl e, db) | (Inr x, db') \<Rightarrow> (Inr x, db'))"

text \<open>The single row of a query, as every operation wants it.\<close>
definition the_row :: "string \<Rightarrow> DeliveryRow list \<Rightarrow> integration_error + DeliveryRow" where
  "the_row message rows = (case rows of [r] \<Rightarrow> Inr r | _ \<Rightarrow> Inl (LifecycleError message))"

definition lockByOperation :: "TrustedIntegrationProfile \<Rightarrow> string \<Rightarrow> (integration_db, integration_error, DeliveryRow) action" where
  "lockByOperation p operation = abind (select_deliveries (by_operation p operation)) (\<lambda>rows.
     alift (the_row ''Integration delivery was not found'' rows))"

definition lockByProvider :: "TrustedIntegrationProfile \<Rightarrow> string \<Rightarrow> (integration_db, integration_error, DeliveryRow) action" where
  "lockByProvider p provider = abind (select_deliveries (by_provider p provider)) (\<lambda>rows.
     alift (the_row ''Integration delivery was not found'' rows))"

text \<open>\<open>new Date(a).getTime() < new Date(rowIso(b)).getTime()\<close>\<close>
definition older_than :: "string \<Rightarrow> int \<Rightarrow> string \<Rightarrow> integration_error + bool" where
  "older_than text ms field = ebind (rowIso ms field) (\<lambda>persisted. Inr (tv_lt (dateParse text) (dateParse persisted)))"

section \<open>The operations\<close>

text \<open>The input with the normalized texts, and its projection.\<close>
definition normalized_request :: "TrustedIntegrationProfile \<Rightarrow> IntegrationPrepareInput \<Rightarrow>
    integration_error + IntegrationPrepareInput \<times> json" where
  "normalized_request p i =
     ebind (required_text (in_tenantId (pi_source i)) ''source tenantId'' 128 1) (\<lambda>tenant.
     if tenant \<noteq> tp_tenantId p then Inl (LifecycleError ''Source tenant does not match trusted integration profile'')
     else ebind (required_text (pi_logicalOperationId i) ''logicalOperationId'' 128 1) (\<lambda>operation.
     ebind (required_text (pi_requestId i) ''requestId'' 128 1) (\<lambda>requestId.
     ebind (required_text (pi_idempotencyKey i) ''idempotencyKey'' 128 16) (\<lambda>key.
     ebind (required_text (pi_correlationId i) ''correlationId'' 128 1) (\<lambda>correlationId.
     ebind (required_text (pi_causationId i) ''causationId'' 128 1) (\<lambda>causationId.
     ebind (iso_text (pi_preparedAt i) ''preparedAt'') (\<lambda>preparedAt.
     ebind (projectMinimumNecessary (tp_partner p) (pi_source i)) (\<lambda>projection.
     Inr (i\<lparr>pi_logicalOperationId := operation, pi_requestId := requestId, pi_idempotencyKey := key,
       pi_correlationId := correlationId, pi_causationId := causationId, pi_preparedAt := preparedAt\<rparr>, projection)))))))))"

definition new_delivery :: "TrustedIntegrationProfile \<Rightarrow> IntegrationPrepareInput \<Rightarrow> string \<Rightarrow> json \<Rightarrow> int \<Rightarrow> DeliveryRow" where
  "new_delivery p i fingerprint document preparedAt =
     \<lparr>dr_logicalOperationId = pi_logicalOperationId i, dr_profileId = tp_profileId p, dr_partner = tp_partner p,
      dr_purpose = tp_purpose p, dr_tenantId = tp_tenantId p, dr_requestId = pi_requestId i,
      dr_idempotencyKey = pi_idempotencyKey i, dr_requestFingerprint = fingerprint, dr_correlationId = pi_correlationId i,
      dr_causationId = pi_causationId i, dr_projection = document, dr_state = DS_PREPARED, dr_providerRequestId = None,
      dr_attemptCount = 0, dr_preparedAt = preparedAt, dr_acceptedAt = None, dr_updatedAt = preparedAt, dr_reason = None\<rparr>"

definition prior_request :: "TrustedIntegrationProfile \<Rightarrow> IntegrationPrepareInput \<Rightarrow> DeliveryRow \<Rightarrow> bool" where
  "prior_request p i r \<longleftrightarrow> dr_logicalOperationId r = pi_logicalOperationId i \<or>
     (in_profile p r \<and> dr_idempotencyKey r = pi_idempotencyKey i)"

definition same_request :: "TrustedIntegrationProfile \<Rightarrow> IntegrationPrepareInput \<Rightarrow> string \<Rightarrow> DeliveryRow \<Rightarrow> bool" where
  "same_request p i fingerprint r \<longleftrightarrow> dr_logicalOperationId r = pi_logicalOperationId i \<and> in_profile p r \<and>
     dr_idempotencyKey r = pi_idempotencyKey i \<and> dr_requestFingerprint r = fingerprint"

definition prepare_request :: "integration_env \<Rightarrow> TrustedIntegrationProfile \<Rightarrow> IntegrationPrepareInput \<Rightarrow>
    (integration_db, integration_error, PreparedIntegrationRequest) action" where
  "prepare_request E profileInput input =
     abind (alift (requireProfile profileInput)) (\<lambda>p.
     abind (alift (normalized_request p input)) (\<lambda>(i, projection).
     let fingerprint = requestFingerprint E p i projection in
     sandbox_transaction (
       abind (timestamptz_of E (pi_preparedAt i)) (\<lambda>preparedAt.
       abind (insert_delivery (new_delivery p i fingerprint (ie_jsonb E projection) preparedAt)) (\<lambda>inserted. case inserted of
         Some row \<Rightarrow> alift (preparedFromRow row)
       | None \<Rightarrow>
           abind (select_deliveries (prior_request p i)) (\<lambda>rows.
           abind (alift (the_row ''Integration logical operation or idempotency identity conflicts with another delivery'' rows)) (\<lambda>row.
           if \<not> same_request p i fingerprint row
           then athrow (LifecycleError ''Integration idempotency key or logical operation was reused with different semantics'')
           else alift (preparedFromRow row))))))))"

definition accepted_row :: "string \<Rightarrow> int \<Rightarrow> DeliveryRow \<Rightarrow> DeliveryRow" where
  "accepted_row provider t r = r\<lparr>dr_state := DS_ACCEPTED, dr_providerRequestId := Some provider,
     dr_attemptCount := dr_attemptCount r + 1, dr_acceptedAt := Some t, dr_updatedAt := t\<rparr>"

definition send_request :: "integration_env \<Rightarrow> TrustedIntegrationProfile \<Rightarrow> string \<Rightarrow> string \<Rightarrow>
    (integration_db, integration_error, IntegrationSendReceipt) action" where
  "send_request E profileInput operationInput sentAtInput =
     abind (alift (requireProfile profileInput)) (\<lambda>p.
     abind (alift (required_text operationInput ''logicalOperationId'' 128 1)) (\<lambda>operation.
     abind (alift (iso_text sentAtInput ''sentAt'')) (\<lambda>sentAt.
     sandbox_transaction (
       abind (lockByOperation p operation) (\<lambda>row.
       if dr_providerRequestId row \<noteq> None then alift (receiptFromRow row)
       else if dr_state row \<noteq> DS_PREPARED then athrow (LifecycleError ''Only a prepared delivery may be sent'')
       else abind (alift (older_than sentAt (dr_preparedAt row) ''prepared_at'')) (\<lambda>early.
       if early then athrow (LifecycleError ''sentAt cannot precede preparedAt'')
       else abind (timestamptz_of E sentAt) (\<lambda>t.
       abind (update_deliveries (by_operation p operation)
         (accepted_row (providerRequestId E (tp_profileId p) operation) t)) (\<lambda>rows.
       abind (alift (the_row ''Integration delivery could not be accepted'' rows)) (\<lambda>updated.
       alift (receiptFromRow updated))))))))))"

definition delivery_status :: "TrustedIntegrationProfile \<Rightarrow> string \<Rightarrow> (integration_db, integration_error, IntegrationStatus) action" where
  "delivery_status profileInput providerInput =
     abind (alift (requireProfile profileInput)) (\<lambda>p.
     abind (alift (required_text providerInput ''providerRequestId'' 128 1)) (\<lambda>provider.
     abind (select_deliveries (by_provider p provider)) (\<lambda>rows.
     abind (alift (the_row ''Integration delivery was not found'' rows)) (\<lambda>row.
     alift (statusFromRow row)))))"

definition moved_row :: "IntegrationDeliveryState \<Rightarrow> string option \<Rightarrow> int \<Rightarrow> DeliveryRow \<Rightarrow> DeliveryRow" where
  "moved_row s reason t r = r\<lparr>dr_state := s, dr_reason := reason, dr_updatedAt := t\<rparr>"

text \<open>The cancellation under the lock of its delivery.\<close>
definition cancel_row :: "integration_env \<Rightarrow> TrustedIntegrationProfile \<Rightarrow> string \<Rightarrow> string \<Rightarrow> DeliveryRow \<Rightarrow>
    (integration_db, integration_error, IntegrationStatus) action" where
  "cancel_row E p reason cancelledAt row =
     (if dr_state row = DS_CANCELLED
      then if dr_reason row \<noteq> Some reason then athrow (LifecycleError ''Cancellation replay changed its reason'')
        else alift (statusFromRow row)
      else if dr_state row = DS_COMPLETED \<or> dr_state row = DS_FAILED
      then athrow (LifecycleError (''Terminal '' @ delivery_state_name (dr_state row) @ '' delivery cannot be cancelled''))
      else abind (alift (older_than cancelledAt (dr_updatedAt row) ''updated_at'')) (\<lambda>early.
      if early then athrow (LifecycleError ''Cancellation timestamp is older than current delivery state'')
      else abind (timestamptz_of E cancelledAt) (\<lambda>t.
      abind (update_deliveries (by_operation p (dr_logicalOperationId row)) (moved_row DS_CANCELLED (Some reason) t)) (\<lambda>rows.
      abind (alift (the_row ''Integration cancellation could not be persisted'' rows)) (\<lambda>updated.
      alift (statusFromRow updated))))))"

definition cancel_delivery :: "integration_env \<Rightarrow> TrustedIntegrationProfile \<Rightarrow> string \<Rightarrow> string \<Rightarrow> string \<Rightarrow>
    (integration_db, integration_error, IntegrationStatus) action" where
  "cancel_delivery E profileInput providerInput reasonInput cancelledAtInput =
     abind (alift (requireProfile profileInput)) (\<lambda>p.
     abind (alift (required_text providerInput ''providerRequestId'' 128 1)) (\<lambda>provider.
     abind (alift (required_text reasonInput ''cancel reason'' 500 1)) (\<lambda>reason.
     abind (alift (iso_text cancelledAtInput ''cancelledAt'')) (\<lambda>cancelledAt.
     sandbox_transaction (abind (lockByProvider p provider) (cancel_row E p reason cancelledAt))))))"

definition callback_state :: "string \<Rightarrow> IntegrationDeliveryState option" where
  "callback_state s = (if s = ''ACKNOWLEDGED'' then Some DS_ACKNOWLEDGED else if s = ''COMPLETED'' then Some DS_COMPLETED
     else if s = ''FAILED'' then Some DS_FAILED else None)"

definition optional_reason :: "string option \<Rightarrow> integration_error + string option" where
  "optional_reason reason = (case reason of None \<Rightarrow> Inr None
     | Some text \<Rightarrow> ebind (required_text text ''callback reason'' 500 1) (\<lambda>t. Inr (Some t)))"

text \<open>The callback with its normalized texts, the state it reports and its fingerprint.\<close>
definition normalized_callback :: "integration_env \<Rightarrow> IntegrationCallbackInput \<Rightarrow>
    integration_error + IntegrationCallbackInput \<times> IntegrationDeliveryState \<times> string" where
  "normalized_callback E input =
     ebind (required_text (cb_callbackId input) ''callbackId'' 128 1) (\<lambda>callbackId.
     ebind (required_text (cb_providerRequestId input) ''providerRequestId'' 128 1) (\<lambda>provider.
     case callback_state (cb_state input) of None \<Rightarrow> Inl (LifecycleError ''Callback state is invalid'')
     | Some next_state \<Rightarrow>
       ebind (iso_text (cb_occurredAt input) ''callback occurredAt'') (\<lambda>occurredAt.
       ebind (optional_reason (cb_reason input)) (\<lambda>reason.
       let i = input\<lparr>cb_callbackId := callbackId, cb_providerRequestId := provider, cb_reason := reason,
         cb_occurredAt := occurredAt\<rparr> in
       ebind (callbackFingerprint E i) (\<lambda>fingerprint. Inr (i, next_state, fingerprint))))))"

definition same_callback :: "string \<Rightarrow> string \<Rightarrow> CallbackRow list \<Rightarrow> bool" where
  "same_callback operation fingerprint rows = (case rows of
     [prior] \<Rightarrow> cw_logicalOperationId prior = operation \<and> cw_semanticFingerprint prior = fingerprint | _ \<Rightarrow> False)"

text \<open>What a callback that was not seen before does to the delivery.\<close>
definition apply_callback :: "integration_env \<Rightarrow> TrustedIntegrationProfile \<Rightarrow> IntegrationCallbackInput \<Rightarrow>
    IntegrationDeliveryState \<Rightarrow> DeliveryRow \<Rightarrow> (integration_db, integration_error, IntegrationStatus) action" where
  "apply_callback E p i next_state row =
     (if dr_state row = next_state then alift (statusFromRow row)
      else if TERMINAL_STATES (dr_state row)
      then athrow (LifecycleError (''Callback cannot transition delivery from terminal '' @ delivery_state_name (dr_state row)))
      else abind (alift (older_than (cb_occurredAt i) (dr_updatedAt row) ''updated_at'')) (\<lambda>early.
      if early then athrow (LifecycleError ''Callback timestamp is older than current delivery state'')
      else abind (timestamptz_of E (cb_occurredAt i)) (\<lambda>t.
      abind (update_deliveries (by_operation p (dr_logicalOperationId row)) (moved_row next_state (cb_reason i) t)) (\<lambda>rows.
      abind (alift (the_row ''Integration callback state could not be persisted'' rows)) (\<lambda>updated.
      alift (statusFromRow updated))))))"

text \<open>The callback under the lock of its delivery.\<close>
definition record_callback :: "integration_env \<Rightarrow> TrustedIntegrationProfile \<Rightarrow> IntegrationCallbackInput \<Rightarrow>
    IntegrationDeliveryState \<Rightarrow> string \<Rightarrow> DeliveryRow \<Rightarrow> (integration_db, integration_error, IntegrationStatus) action" where
  "record_callback E p i next_state fingerprint row =
     abind (insert_callback \<lparr>cw_profileId = tp_profileId p, cw_callbackId = cb_callbackId i,
       cw_logicalOperationId = dr_logicalOperationId row, cw_semanticFingerprint = fingerprint\<rparr>) (\<lambda>inserted.
     if inserted then apply_callback E p i next_state row
     else abind (select_callbacks (tp_profileId p) (cb_callbackId i)) (\<lambda>prior.
       if \<not> same_callback (dr_logicalOperationId row) fingerprint prior
       then athrow (LifecycleError ''Callback id was replayed with different semantics'')
       else alift (statusFromRow row)))"

definition handle_integration_callback :: "integration_env \<Rightarrow> TrustedIntegrationProfile \<Rightarrow> IntegrationCallbackInput \<Rightarrow>
    (integration_db, integration_error, IntegrationStatus) action" where
  "handle_integration_callback E profileInput input =
     abind (alift (requireProfile profileInput)) (\<lambda>p.
     abind (alift (normalized_callback E input)) (\<lambda>(i, next_state, fingerprint).
     sandbox_transaction (
       abind (lockByProvider p (cb_providerRequestId i)) (record_callback E p i next_state fingerprint))))"

end
