(* ===== verification/IntegrationEffects.thy ===== *)
theory IntegrationEffects
  imports Integration
begin

text \<open>
  What the calls of the partner sandbox do to its tables: every call is one \<open>sandbox_effect\<close>, the abstract
  step in which a delivery is prepared, moves along its life or a callback is recorded. The properties of
  the sandbox are statements about these steps.
\<close>

section \<open>What a call does to the tables\<close>

definition put_row :: "DeliveryRow \<Rightarrow> DeliveryRow list \<Rightarrow> DeliveryRow list" where
  "put_row new ds = map (\<lambda>r. if dr_logicalOperationId r = dr_logicalOperationId new then new else r) ds"

definition keys_ok :: "DeliveryRow list \<Rightarrow> bool" where
  "keys_ok ds \<longleftrightarrow> distinct (map dr_logicalOperationId ds) \<and>
     (\<forall>a \<in> set ds. \<forall>b \<in> set ds. dr_logicalOperationId a \<noteq> dr_logicalOperationId b \<longrightarrow> \<not> same_key a b)"

definition delivery_fits :: "DeliveryRow \<Rightarrow> bool" where
  "delivery_fits r \<longleftrightarrow> delivery_checks r \<and> (dr_state r = DS_PREPARED \<longrightarrow> dr_updatedAt r = dr_preparedAt r) \<and>
     dr_attemptCount r \<le> 1"

definition callback_key :: "CallbackRow \<Rightarrow> string \<times> string" where
  "callback_key c = (cw_profileId c, cw_callbackId c)"

definition sandbox_ok :: "integration_db \<Rightarrow> bool" where
  "sandbox_ok db \<longleftrightarrow> keys_ok (id_deliveries db) \<and> (\<forall>r \<in> set (id_deliveries db). delivery_fits r) \<and>
     distinct (map callback_key (id_callbacks db))"

text \<open>The moves of a delivery: it is sent once, then reported or cancelled.\<close>
inductive delivery_move :: "DeliveryRow \<Rightarrow> DeliveryRow \<Rightarrow> bool" where
  sent: "dr_state r = DS_PREPARED \<Longrightarrow> dr_updatedAt r \<le> t \<Longrightarrow> delivery_move r (accepted_row provider t r)"
| reported: "dr_state r \<noteq> DS_PREPARED \<Longrightarrow> trigger_allows (dr_state r) s \<Longrightarrow> dr_updatedAt r \<le> t \<Longrightarrow>
    delivery_move r (moved_row s reason t r)"

definition replaceable :: "DeliveryRow \<Rightarrow> DeliveryRow list \<Rightarrow> bool" where
  "replaceable new ds \<longleftrightarrow> delivery_checks new \<and>
     (\<forall>q \<in> set ds. dr_logicalOperationId q \<noteq> dr_logicalOperationId new \<longrightarrow> \<not> same_key new q)"

inductive sandbox_effect :: "TrustedIntegrationProfile \<Rightarrow> integration_db \<Rightarrow> integration_db \<Rightarrow> bool" for p where
  nothing: "sandbox_effect p db db"
| prepared: "in_profile p r \<Longrightarrow> dr_state r = DS_PREPARED \<Longrightarrow> delivery_fits r \<Longrightarrow>
    \<not> list_ex (same_key r) (id_deliveries db) \<Longrightarrow> sandbox_effect p db (db\<lparr>id_deliveries := id_deliveries db @ [r]\<rparr>)"
| moved: "r \<in> set (id_deliveries db) \<Longrightarrow> in_profile p r \<Longrightarrow> delivery_move r new \<Longrightarrow> replaceable new (id_deliveries db) \<Longrightarrow>
    sandbox_effect p db (db\<lparr>id_deliveries := put_row new (id_deliveries db)\<rparr>)"
| called: "callback_key c \<notin> callback_key ` set (id_callbacks db) \<Longrightarrow> cw_profileId c = tp_profileId p \<Longrightarrow>
    sandbox_effect p (db\<lparr>id_callbacks := id_callbacks db @ [c]\<rparr>) db' \<Longrightarrow> id_callbacks db' = id_callbacks db @ [c] \<Longrightarrow>
    sandbox_effect p db db'"

lemma operation_row: "keys_ok ds \<Longrightarrow> a \<in> set ds \<Longrightarrow> b \<in> set ds \<Longrightarrow>
    dr_logicalOperationId a = dr_logicalOperationId b \<Longrightarrow> a = b"
  by (auto simp: keys_ok_def distinct_map dest: inj_onD)

lemma filter_self: "distinct xs \<Longrightarrow> x \<in> set xs \<Longrightarrow> filter (\<lambda>y. y = x) xs = [x]"
  by (induction xs) (auto simp: filter_empty_conv)

lemma by_operation_single:
  assumes "keys_ok ds" "r \<in> set ds" "in_profile p r"
  shows "filter (by_operation p (dr_logicalOperationId r)) ds = [r]"
proof -
  have "filter (by_operation p (dr_logicalOperationId r)) ds = filter (\<lambda>q. q = r) ds"
    using assms operation_row by (intro filter_cong) (auto simp: by_operation_def)
  also have "\<dots> = [r]" using assms by (intro filter_self) (auto simp: keys_ok_def distinct_map)
  finally show ?thesis .
qed

lemma the_row_Inr: "the_row message rows = Inr r \<longleftrightarrow> rows = [r]"
  by (auto simp: the_row_def split: list.splits)

lemma filter_eq_single: "filter P xs = [x] \<Longrightarrow> x \<in> set xs \<and> P x"
proof -
  assume "filter P xs = [x]"
  then have "x \<in> set (filter P xs)" by simp
  then show ?thesis by simp
qed

lemma lock_Inr:
  "lockByOperation p operation db = (Inr r, t) \<longleftrightarrow> t = db \<and> filter (by_operation p operation) (id_deliveries db) = [r]"
  "lockByProvider p provider db = (Inr r, t) \<longleftrightarrow> t = db \<and> filter (by_provider p provider) (id_deliveries db) = [r]"
  by (auto simp: lockByOperation_def lockByProvider_def select_deliveries_def the_row_Inr)

lemma lock_row:
  "filter (by_operation p operation) ds = [r] \<Longrightarrow> r \<in> set ds \<and> in_profile p r \<and> dr_logicalOperationId r = operation"
  "filter (by_provider p provider) ds = [r] \<Longrightarrow> r \<in> set ds \<and> in_profile p r \<and> dr_providerRequestId r = Some provider"
  by (auto dest!: filter_eq_single simp: by_operation_def by_provider_def)

lemma transaction_Inr: "sandbox_transaction work db = (Inr x, t) \<longleftrightarrow> work db = (Inr x, t)"
  by (auto simp: sandbox_transaction_def split: prod.splits sum.splits)

lemma transaction_Inl: "sandbox_transaction work db = (Inl e, t) \<longleftrightarrow> t = db \<and> (\<exists>u. work db = (Inl e, u))"
  by (auto simp: sandbox_transaction_def split: prod.splits sum.splits)

lemma timestamptz_of_Inr: "timestamptz_of E text db = (Inr t, u) \<longleftrightarrow> u = db \<and> ie_timestamptz E text = Some t"
  by (auto simp: timestamptz_of_def split: option.splits)

lemma update_single:
  assumes "update_deliveries (by_operation p (dr_logicalOperationId r)) f db = (Inr rows, db')"
    and "keys_ok (id_deliveries db)" "r \<in> set (id_deliveries db)" "in_profile p r"
  shows "rows = [f r] \<and> enforce_integration_delivery_update r (f r) \<and> replaceable (f r) (id_deliveries db) \<and>
    db' = db\<lparr>id_deliveries := put_row (f r) (id_deliveries db)\<rparr>"
proof -
  let ?w = "by_operation p (dr_logicalOperationId r)" and ?ds = "id_deliveries db"
  have single: "filter ?w ?ds = [r]" using assms(2-4) by (rule by_operation_single)
  have w: "?w q \<longleftrightarrow> dr_logicalOperationId q = dr_logicalOperationId r" "?w q \<Longrightarrow> q = r" if "q \<in> set ?ds" for q
    using that assms(2-4) operation_row by (auto simp: by_operation_def)
  have u: "rows = [f r]" "enforce_integration_delivery_update r (f r)" "delivery_checks (f r)"
      "\<forall>q \<in> set ?ds. dr_logicalOperationId q \<noteq> dr_logicalOperationId r \<longrightarrow> \<not> same_key (f r) (if ?w q then f q else q)"
      "db' = db\<lparr>id_deliveries := map (\<lambda>q. if ?w q then f q else q) ?ds\<rparr>"
    using assms(1) by (auto simp: update_deliveries_def single list_ex_iff Let_def split: if_splits)
  have identity: "dr_logicalOperationId (f r) = dr_logicalOperationId r"
    using u(2) by (simp add: enforce_integration_delivery_update_def same_identity_def)
  have "map (\<lambda>q. if ?w q then f q else q) ?ds = put_row (f r) ?ds"
    unfolding put_row_def identity using w by (intro map_cong) auto
  then show ?thesis using u identity w(1) by (simp add: replaceable_def)
qed
lemma update_effect:
  assumes "update_deliveries (by_operation p (dr_logicalOperationId r)) f db = (Inr rows, db')"
    and "sandbox_ok db" "r \<in> set (id_deliveries db)" "in_profile p r"
    and "enforce_integration_delivery_update r (f r) \<Longrightarrow> delivery_move r (f r)"
  shows "rows = [f r] \<and> sandbox_effect p db db'"
proof -
  have "keys_ok (id_deliveries db)" using assms(2) by (simp add: sandbox_ok_def)
  from update_single [OF assms(1) this assms(3,4)] show ?thesis
    using sandbox_effect.moved [OF assms(3,4)] assms(5) by auto
qed

lemma update_frame: "update_deliveries w f db = (Inr rows, db') \<Longrightarrow> id_callbacks db' = id_callbacks db"
  by (auto simp: update_deliveries_def Let_def split: if_splits)

lemma accepted_is_move: "dr_state r = DS_PREPARED \<Longrightarrow>
    enforce_integration_delivery_update r (accepted_row provider t r) \<Longrightarrow> delivery_move r (accepted_row provider t r)"
  by (rule delivery_move.sent) (auto simp: enforce_integration_delivery_update_def accepted_row_def)

lemma moved_is_move: "dr_state r \<noteq> DS_PREPARED \<Longrightarrow> dr_state r \<noteq> s \<Longrightarrow>
    enforce_integration_delivery_update r (moved_row s reason t r) \<Longrightarrow> delivery_move r (moved_row s reason t r)"
  by (rule delivery_move.reported) (auto simp: enforce_integration_delivery_update_def moved_row_def)

lemma provided_not_prepared: "sandbox_ok db \<Longrightarrow> r \<in> set (id_deliveries db) \<Longrightarrow> dr_providerRequestId r = Some provider \<Longrightarrow>
    dr_state r \<noteq> DS_PREPARED"
  by (auto simp: sandbox_ok_def delivery_fits_def delivery_checks_def transport_shape_def)

lemma prepare_effect:
  assumes "prepare_request E prof input db = (Inr x, db')"
  shows "\<exists>p. requireProfile prof = Inr p \<and> sandbox_effect p db db'"
proof -
  from assms obtain p i projection t row where p: "requireProfile prof = Inr p"
    and row: "row = new_delivery p i (requestFingerprint E p i projection) (ie_jsonb E projection) t"
    and "db' = db \<or> (delivery_checks row \<and> \<not> list_ex (same_key row) (id_deliveries db) \<and>
      db' = db\<lparr>id_deliveries := id_deliveries db @ [row]\<rparr>)"
    by (fastforce simp: prepare_request_def abind_Inr transaction_Inr timestamptz_of_Inr insert_delivery_def
        select_deliveries_def Let_def split: if_splits option.splits)
  then show ?thesis using p
    by (auto intro!: sandbox_effect.intros(1,2) simp: in_profile_def new_delivery_def delivery_fits_def)
qed

lemma send_effect:
  assumes "send_request E prof operation sentAt db = (Inr x, db')" "sandbox_ok db"
  shows "\<exists>p. requireProfile prof = Inr p \<and> sandbox_effect p db db'"
proof -
  from assms(1) obtain p o' row where p: "requireProfile prof = Inr p"
    and row: "filter (by_operation p o') (id_deliveries db) = [row]"
    and db': "db' = db \<or> (dr_state row = DS_PREPARED \<and>
      (\<exists>t rows. update_deliveries (by_operation p o') (accepted_row (providerRequestId E (tp_profileId p) o') t) db = (Inr rows, db')))"
    by (fastforce simp: send_request_def abind_Inr transaction_Inr timestamptz_of_Inr lock_Inr split: if_splits)
  note lock_row(1) [OF row]
  then show ?thesis using db' p update_effect [OF _ assms(2), of p row] accepted_is_move
    by (auto intro: sandbox_effect.nothing)
qed

lemma cancel_effect:
  assumes "cancel_delivery E prof provider reason cancelledAt db = (Inr x, db')" "sandbox_ok db"
  shows "\<exists>p. requireProfile prof = Inr p \<and> sandbox_effect p db db'"
proof -
  from assms(1) obtain p v row where p: "requireProfile prof = Inr p"
    and row: "filter (by_provider p v) (id_deliveries db) = [row]"
    and db': "db' = db \<or> (dr_state row \<noteq> DS_CANCELLED \<and> (\<exists>t rows text. update_deliveries
      (by_operation p (dr_logicalOperationId row)) (moved_row DS_CANCELLED (Some text) t) db = (Inr rows, db')))"
    by (fastforce simp: cancel_delivery_def cancel_row_def abind_Inr transaction_Inr timestamptz_of_Inr lock_Inr split: if_splits)
  note row = lock_row(2) [OF row]
  then have "dr_state row \<noteq> DS_PREPARED" using provided_not_prepared [OF assms(2)] by blast
  then show ?thesis using row db' p update_effect [OF _ assms(2), of p row] moved_is_move [of row DS_CANCELLED]
    by (auto intro: sandbox_effect.nothing)
qed

lemma apply_callback_Inr:
  assumes "apply_callback E p i s row db = (Inr x, db')" "sandbox_ok db" "row \<in> set (id_deliveries db)" "in_profile p row"
    and "dr_state row \<noteq> DS_PREPARED"
  shows "sandbox_effect p db db' \<and> id_callbacks db' = id_callbacks db"
proof -
  from assms(1) have "db' = db \<or> (dr_state row \<noteq> s \<and> (\<exists>t rows. update_deliveries (by_operation p (dr_logicalOperationId row))
      (moved_row s (cb_reason i) t) db = (Inr rows, db')))"
    by (fastforce simp: apply_callback_def abind_Inr timestamptz_of_Inr split: if_splits)
  then show ?thesis
  proof (elim disjE conjE exE)
    fix t rows
    assume u: "dr_state row \<noteq> s" "update_deliveries (by_operation p (dr_logicalOperationId row)) (moved_row s (cb_reason i) t) db = (Inr rows, db')"
    then have "sandbox_effect p db db'" using update_effect [OF u(2) assms(2-4)] moved_is_move [OF assms(5)] by blast
    then show ?thesis using update_frame [OF u(2)] by simp
  qed (simp add: sandbox_effect.nothing)
qed

lemma sandbox_ok_called: "sandbox_ok db \<Longrightarrow> callback_key c \<notin> callback_key ` set (id_callbacks db) \<Longrightarrow>
    sandbox_ok (db\<lparr>id_callbacks := id_callbacks db @ [c]\<rparr>)"
  by (auto simp: sandbox_ok_def)

lemma record_callback_effect:
  assumes "record_callback E p i s fingerprint row db = (Inr x, db')" "sandbox_ok db" "row \<in> set (id_deliveries db)"
    and "in_profile p row" "dr_state row \<noteq> DS_PREPARED"
  shows "sandbox_effect p db db'"
proof -
  define c where "c = \<lparr>cw_profileId = tp_profileId p, cw_callbackId = cb_callbackId i,
         cw_logicalOperationId = dr_logicalOperationId row, cw_semanticFingerprint = fingerprint\<rparr>"
  let ?db = "db\<lparr>id_callbacks := id_callbacks db @ [c]\<rparr>"
  have "db' = db \<or> callback_key c \<notin> callback_key ` set (id_callbacks db) \<and> apply_callback E p i s row ?db = (Inr x, db')"
    using assms(1) unfolding record_callback_def c_def [symmetric]
    by (auto simp: abind_Inr insert_callback_def select_callbacks_def callback_key_def list_ex_iff split: if_splits)
  then show ?thesis
  proof
    assume "db' = db"
    then show ?thesis using sandbox_effect.nothing by blast
  next
    assume a: "callback_key c \<notin> callback_key ` set (id_callbacks db) \<and> apply_callback E p i s row ?db = (Inr x, db')"
    then have "sandbox_effect p ?db db' \<and> id_callbacks db' = id_callbacks ?db"
      using apply_callback_Inr [of E p i s row ?db x db'] sandbox_ok_called [OF assms(2)] assms(3-5) by simp
    then show ?thesis using a sandbox_effect.called [of c db p db'] by (auto simp: c_def)
  qed
qed

lemma callback_effect:
  assumes "handle_integration_callback E prof input db = (Inr x, db')" "sandbox_ok db"
  shows "\<exists>p. requireProfile prof = Inr p \<and> sandbox_effect p db db'"
proof -
  from assms(1) obtain p i s fingerprint row where p: "requireProfile prof = Inr p"
    and row: "filter (by_provider p (cb_providerRequestId i)) (id_deliveries db) = [row]"
    and rest: "record_callback E p i s fingerprint row db = (Inr x, db')"
    unfolding handle_integration_callback_def by (auto simp: abind_Inr transaction_Inr lock_Inr)
  note row = lock_row(2) [OF row]
  then show ?thesis using p record_callback_effect [OF rest assms(2)] provided_not_prepared [OF assms(2)] by blast
qed

lemma status_effect:
  "delivery_status prof provider db = (r, db') \<Longrightarrow> db' = db"
  by (auto simp: delivery_status_def select_deliveries_def abind_def split: sum.splits)

section \<open>Calls\<close>

datatype sandbox_call =
    Prepare TrustedIntegrationProfile IntegrationPrepareInput
  | Send TrustedIntegrationProfile string string
  | Status TrustedIntegrationProfile string
  | Cancel TrustedIntegrationProfile string string string
  | Report TrustedIntegrationProfile IntegrationCallbackInput

fun profile_of :: "sandbox_call \<Rightarrow> TrustedIntegrationProfile" where
  "profile_of (Prepare p _) = p"
| "profile_of (Send p _ _) = p"
| "profile_of (Status p _) = p"
| "profile_of (Cancel p _ _ _) = p"
| "profile_of (Report p _) = p"

datatype sandbox_answer = Request PreparedIntegrationRequest | Receipt IntegrationSendReceipt | Delivery IntegrationStatus

definition answer_with :: "('a \<Rightarrow> sandbox_answer) \<Rightarrow> (integration_db, integration_error, 'a) action \<Rightarrow>
    (integration_db, integration_error, sandbox_answer) action" where
  "answer_with f m = abind m (\<lambda>x. aret (f x))"

fun sandbox_perform :: "integration_env \<Rightarrow> sandbox_call \<Rightarrow> (integration_db, integration_error, sandbox_answer) action" where
  "sandbox_perform E (Prepare p i) = answer_with Request (prepare_request E p i)"
| "sandbox_perform E (Send p operation t) = answer_with Receipt (send_request E p operation t)"
| "sandbox_perform E (Status p provider) = answer_with Delivery (delivery_status p provider)"
| "sandbox_perform E (Cancel p provider reason t) = answer_with Delivery (cancel_delivery E p provider reason t)"
| "sandbox_perform E (Report p i) = answer_with Delivery (handle_integration_callback E p i)"

lemma answer_with_eq:
  "answer_with f m db = (Inr y, db') \<longleftrightarrow> (\<exists>x. m db = (Inr x, db') \<and> y = f x)"
  "answer_with f m db = (Inl e, db') \<longleftrightarrow> m db = (Inl e, db')"
  by (auto simp: answer_with_def abind_Inr abind_Inl)

text \<open>A call that throws is rolled back.\<close>
lemma failed_call_rolls_back: "sandbox_perform E call db = (Inl e, db') \<Longrightarrow> db' = db"
  by (cases call) (auto simp: answer_with_eq prepare_request_def send_request_def cancel_delivery_def handle_integration_callback_def
      abind_Inl transaction_Inl Let_def dest: status_effect)

lemma call_effect:
  assumes "sandbox_perform E call db = (Inr x, db')" "sandbox_ok db"
  shows "\<exists>p. requireProfile (profile_of call) = Inr p \<and> sandbox_effect p db db'"
proof (cases call)
  case (Status prof provider)
  then obtain y where y: "delivery_status prof provider db = (Inr y, db')" using assms(1) by (auto simp: answer_with_eq)
  then have "\<exists>p. requireProfile prof = Inr p" by (auto simp: delivery_status_def abind_Inr)
  then show ?thesis using Status status_effect [OF y] sandbox_effect.nothing by auto
qed (use assms in \<open>auto simp: answer_with_eq dest: prepare_effect send_effect cancel_effect callback_effect\<close>)

section \<open>Steps keep their promises\<close>

lemma same_key_sym: "same_key a b \<longleftrightarrow> same_key b a"
  by (cases "dr_providerRequestId a"; cases "dr_providerRequestId b") (auto simp: same_key_def)

text \<open>What a move changes and what it does not.\<close>
definition delivery_later :: "DeliveryRow \<Rightarrow> DeliveryRow \<Rightarrow> bool" where
  "delivery_later r new \<longleftrightarrow> same_identity r new \<and> trigger_allows\<^sup>*\<^sup>* (dr_state r) (dr_state new) \<and>
     dr_updatedAt r \<le> dr_updatedAt new \<and> (TERMINAL_STATES (dr_state r) \<longrightarrow> new = r) \<and>
     (dr_state r \<noteq> DS_PREPARED \<longrightarrow> dr_providerRequestId new = dr_providerRequestId r \<and>
       dr_acceptedAt new = dr_acceptedAt r \<and> dr_attemptCount new = dr_attemptCount r)"

lemma move_later:
  assumes "delivery_move r new"
  shows "delivery_later r new" "dr_state new \<noteq> DS_PREPARED"
proof -
  have "same_identity r new \<and> trigger_allows (dr_state r) (dr_state new) \<and> dr_updatedAt r \<le> dr_updatedAt new \<and>
      \<not> TERMINAL_STATES (dr_state r) \<and> dr_state new \<noteq> DS_PREPARED \<and>
     (dr_state r \<noteq> DS_PREPARED \<longrightarrow> dr_providerRequestId new = dr_providerRequestId r \<and>
       dr_acceptedAt new = dr_acceptedAt r \<and> dr_attemptCount new = dr_attemptCount r)"
    using assms
  proof cases
    case (reported s t reason)
    then show ?thesis
      by (cases "dr_state r") (auto simp: moved_row_def same_identity_def)
  qed (auto simp: accepted_row_def same_identity_def)
  then show "delivery_later r new" "dr_state new \<noteq> DS_PREPARED" by (auto simp: delivery_later_def)
qed

lemma later_refl: "delivery_later r r"
  by (simp add: delivery_later_def same_identity_def)

lemma prepared_is_first: "trigger_allows\<^sup>*\<^sup>* s DS_PREPARED \<Longrightarrow> s = DS_PREPARED"
proof (induction rule: converse_rtranclp_induct)
  case (step s t)
  then show ?case by (cases s) auto
qed simp

lemma later_trans: "delivery_later a b \<Longrightarrow> delivery_later b c \<Longrightarrow> delivery_later a c"
  unfolding delivery_later_def same_identity_def using prepared_is_first [of "dr_state a"]
  by (auto intro: rtranclp_trans)

lemma put_row_set: "q \<in> set (put_row new ds) \<Longrightarrow> q = new \<or> q \<in> set ds"
  by (auto simp: put_row_def split: if_splits)

lemma put_row_keys:
  assumes "keys_ok ds" "r \<in> set ds" "delivery_move r new" "replaceable new ds"
  shows "keys_ok (put_row new ds)"
proof -
  have identity: "dr_logicalOperationId new = dr_logicalOperationId r"
    using move_later(1) [OF assms(3)] by (simp add: delivery_later_def same_identity_def)
  have "map dr_logicalOperationId (put_row new ds) = map dr_logicalOperationId ds" by (simp add: put_row_def)
  then have "distinct (map dr_logicalOperationId (put_row new ds))" using assms(1) by (metis keys_ok_def)
  moreover have "\<not> same_key a b" if "a \<in> set (put_row new ds)" "b \<in> set (put_row new ds)"
      "dr_logicalOperationId a \<noteq> dr_logicalOperationId b" for a b
    using that assms(1,4) same_key_sym [of a new] by (auto simp: keys_ok_def replaceable_def dest!: put_row_set)
  ultimately show ?thesis by (auto simp: keys_ok_def)
qed

lemma move_fits:
  assumes "delivery_move r new" "delivery_fits r" "delivery_checks new"
  shows "delivery_fits new"
  using assms(1)
proof cases
  case (sent t provider)
  then show ?thesis using assms(2,3)
    by (auto simp: delivery_fits_def accepted_row_def delivery_checks_def transport_shape_def)
next
  case (reported s t reason)
  then show ?thesis using assms(2,3) by (cases "dr_state r") (auto simp: delivery_fits_def moved_row_def)
qed

lemma put_row_later:
  assumes "keys_ok ds" "r \<in> set ds" "delivery_move r new" "q \<in> set ds"
  shows "\<exists>q' \<in> set (put_row new ds). delivery_later q q'"
proof (cases "dr_logicalOperationId q = dr_logicalOperationId new")
  case True
  have "dr_logicalOperationId new = dr_logicalOperationId r"
    using move_later(1) [OF assms(3)] by (simp add: delivery_later_def same_identity_def)
  then have "q = r" using True operation_row [OF assms(1,4,2)] by simp
  moreover have "new \<in> set (put_row new ds)" using True assms(4) by (force simp: put_row_def)
  ultimately show ?thesis using move_later(1) [OF assms(3)] by blast
next
  case False
  then have "q \<in> set (put_row new ds)" using assms(4) by (force simp: put_row_def)
  then show ?thesis using later_refl by blast
qed

lemma effect_promises:
  "sandbox_effect p db db' \<Longrightarrow> sandbox_ok db \<Longrightarrow> sandbox_ok db' \<and>
     (\<forall>r \<in> set (id_deliveries db). \<exists>r' \<in> set (id_deliveries db'). delivery_later r r') \<and>
     set (id_callbacks db) \<subseteq> set (id_callbacks db')"
proof (induction rule: sandbox_effect.induct)
  case (nothing db)
  then show ?case using later_refl by auto
next
  case (prepared r db)
  then have "keys_ok (id_deliveries db @ [r])" using same_key_sym [of r]
    by (auto simp: sandbox_ok_def keys_ok_def list_ex_iff same_key_def)
  then show ?case using prepared later_refl by (auto simp: sandbox_ok_def)
next
  case (moved r db new)
  then show ?case using put_row_keys [of "id_deliveries db" r new] move_fits [of r new] put_row_later [of "id_deliveries db" r new]
    by (auto simp: sandbox_ok_def replaceable_def dest: put_row_set)
next
  case (called c db db')
  then show ?case using sandbox_ok_called [OF called.prems called.hyps(1)] by auto
qed

fun sandbox_run :: "integration_env \<Rightarrow> sandbox_call list \<Rightarrow> integration_db \<Rightarrow> integration_db" where
  "sandbox_run E [] db = db"
| "sandbox_run E (call # calls) db = sandbox_run E calls (snd (sandbox_perform E call db))"

lemma perform_promises:
  assumes "sandbox_ok db"
  shows "sandbox_ok (snd (sandbox_perform E call db)) \<and>
     (\<forall>r \<in> set (id_deliveries db). \<exists>r' \<in> set (id_deliveries (snd (sandbox_perform E call db))). delivery_later r r') \<and>
     set (id_callbacks db) \<subseteq> set (id_callbacks (snd (sandbox_perform E call db)))"
proof (cases "sandbox_perform E call db")
  case (Pair r db')
  then show ?thesis
  proof (cases r)
    case (Inl e)
    then show ?thesis using assms Pair failed_call_rolls_back [of E call db e db'] later_refl by auto
  next
    case (Inr x)
    then obtain p where "sandbox_effect p db db'" using call_effect assms Pair by blast
    then show ?thesis using effect_promises assms Pair by simp
  qed
qed

lemma run_promises:
  "sandbox_ok db \<Longrightarrow> sandbox_ok (sandbox_run E calls db) \<and>
     (\<forall>r \<in> set (id_deliveries db). \<exists>r' \<in> set (id_deliveries (sandbox_run E calls db)). delivery_later r r') \<and>
     set (id_callbacks db) \<subseteq> set (id_callbacks (sandbox_run E calls db))"
proof (induction calls arbitrary: db)
  case Nil
  then show ?case using later_refl by auto
next
  case (Cons call calls)
  let ?db = "snd (sandbox_perform E call db)"
  note one = perform_promises [OF Cons.prems, of E call]
  note rest = Cons.IH [of ?db]
  have "\<exists>r'' \<in> set (id_deliveries (sandbox_run E calls ?db)). delivery_later r r''" if "r \<in> set (id_deliveries db)" for r
    using one rest that later_trans by meson
  then show ?case using one rest by auto
qed

section \<open>The life of a delivery\<close>

text \<open>C33: whatever the callers do, a delivery stays what was prepared and only moves forward: its identity and projection are fixed, its state follows the life cycle, its time never goes back, it is sent at most once under one provider identifier, and a completed, failed or cancelled delivery never changes again.\<close>
theorem delivery_moves_forward_only:
  assumes "sandbox_ok db" and "r \<in> set (id_deliveries db)"
  shows "\<exists>r' \<in> set (id_deliveries (sandbox_run E calls db)).
    same_identity r r' \<and> trigger_allows\<^sup>*\<^sup>* (dr_state r) (dr_state r') \<and> dr_updatedAt r \<le> dr_updatedAt r' \<and>
    dr_attemptCount r' = (if dr_state r' = DS_PREPARED then 0 else 1) \<and>
    (dr_state r \<noteq> DS_PREPARED \<longrightarrow> dr_providerRequestId r' = dr_providerRequestId r \<and> dr_acceptedAt r' = dr_acceptedAt r) \<and>
    (TERMINAL_STATES (dr_state r) \<longrightarrow> r' = r)"
proof -
  obtain r' where r': "r' \<in> set (id_deliveries (sandbox_run E calls db))" "delivery_later r r'"
    using run_promises [OF assms(1), of E calls] assms(2) by blast
  then have "delivery_fits r'" using run_promises [OF assms(1), of E calls] by (simp add: sandbox_ok_def)
  then have "dr_attemptCount r' = (if dr_state r' = DS_PREPARED then 0 else 1)"
    by (auto simp: delivery_fits_def delivery_checks_def transport_shape_def)
  then show ?thesis using r' by (auto simp: delivery_later_def)
qed

section \<open>Prepared requests\<close>

lemma later_prepared: "delivery_later r r' \<Longrightarrow> preparedFromRow r' = preparedFromRow r"
  by (simp add: delivery_later_def same_identity_def preparedFromRow_def)

lemma later_fields: "delivery_later r r' \<Longrightarrow> dr_logicalOperationId r' = dr_logicalOperationId r \<and>
    in_profile p r' = in_profile p r \<and> same_request p i fingerprint r' = same_request p i fingerprint r \<and>
    dr_idempotencyKey r' = dr_idempotencyKey r \<and> dr_profileId r' = dr_profileId r"
  by (simp add: delivery_later_def same_identity_def in_profile_def same_request_def)

text \<open>What is stored behind an answer of \<open>prepare\<close>.\<close>
lemma prepare_cases:
  assumes "prepare_request E prof input db = (Inr q, db')" "sandbox_ok db"
  obtains p i projection row t where "requireProfile prof = Inr p" "normalized_request p input = Inr (i, projection)"
    "ie_timestamptz E (pi_preparedAt i) = Some t"
    "delivery_checks (new_delivery p i (requestFingerprint E p i projection) (ie_jsonb E projection) t)"
    "row \<in> set (id_deliveries db')" "same_request p i (requestFingerprint E p i projection) row"
    "preparedFromRow row = Inr q"
    "db' = db \<and> row \<in> set (id_deliveries db) \<or> db' = db\<lparr>id_deliveries := id_deliveries db @ [row]\<rparr> \<and>
      \<not> list_ex (same_key row) (id_deliveries db)"
proof -
  from assms(1) obtain p i projection t where p: "requireProfile prof = Inr p"
    and i: "normalized_request p input = Inr (i, projection)" and t: "ie_timestamptz E (pi_preparedAt i) = Some t"
    and rest: "abind (insert_delivery (new_delivery p i (requestFingerprint E p i projection) (ie_jsonb E projection) t))
        (\<lambda>inserted. case inserted of Some row \<Rightarrow> alift (preparedFromRow row)
       | None \<Rightarrow>
           abind (select_deliveries (prior_request p i)) (\<lambda>rows.
           abind (alift (the_row ''Integration logical operation or idempotency identity conflicts with another delivery'' rows)) (\<lambda>row.
           if \<not> same_request p i (requestFingerprint E p i projection) row
           then athrow (LifecycleError ''Integration idempotency key or logical operation was reused with different semantics'')
           else alift (preparedFromRow row)))) db = (Inr q, db')"
    by (auto simp: prepare_request_def abind_Inr transaction_Inr timestamptz_of_Inr Let_def)
  define row where "row = new_delivery p i (requestFingerprint E p i projection) (ie_jsonb E projection) t"
  have checks: "delivery_checks row" using rest by (auto simp: abind_Inr insert_delivery_def row_def split: if_splits)
  have new: "same_request p i (requestFingerprint E p i projection) row"
    by (simp add: row_def same_request_def new_delivery_def in_profile_def)
  note answer = that [OF p i t checks [unfolded row_def]]
  have "db' = db \<and> (\<exists>r \<in> set (id_deliveries db). same_request p i (requestFingerprint E p i projection) r \<and> preparedFromRow r = Inr q) \<or>
      \<not> list_ex (same_key row) (id_deliveries db) \<and> preparedFromRow row = Inr q \<and>
      db' = db\<lparr>id_deliveries := id_deliveries db @ [row]\<rparr>"
    using rest [folded row_def] checks
    by (fastforce simp: abind_Inr insert_delivery_def select_deliveries_def the_row_Inr dest!: filter_eq_single split: if_splits)
  then show thesis
  proof (elim disjE conjE bexE)
    fix r assume "db' = db" "r \<in> set (id_deliveries db)" "same_request p i (requestFingerprint E p i projection) r"
      "preparedFromRow r = Inr q"
    then show thesis using answer by blast
  next
    assume "\<not> list_ex (same_key row) (id_deliveries db)" "preparedFromRow row = Inr q"
      "db' = db\<lparr>id_deliveries := id_deliveries db @ [row]\<rparr>"
    then show thesis using answer [of row] new by simp
  qed
qed

lemma prepared_row:
  assumes "prepare_request E prof input db = (Inr q, db1)" "sandbox_ok db"
  obtains p i projection r t where "requireProfile prof = Inr p" "normalized_request p input = Inr (i, projection)"
    "ie_timestamptz E (pi_preparedAt i) = Some t"
    "delivery_checks (new_delivery p i (requestFingerprint E p i projection) (ie_jsonb E projection) t)"
    "sandbox_ok (sandbox_run E calls db1)" "r \<in> set (id_deliveries (sandbox_run E calls db1))"
    "same_request p i (requestFingerprint E p i projection) r" "preparedFromRow r = Inr q"
proof -
  from assms(1) have "sandbox_perform E (Prepare prof input) db = (Inr (Request q), db1)" by (simp add: answer_with_eq)
  then have ok: "sandbox_ok db1" using perform_promises [OF assms(2), of E "Prepare prof input"] by simp
  from assms obtain p i projection row t where a: "requireProfile prof = Inr p" "normalized_request p input = Inr (i, projection)"
    "ie_timestamptz E (pi_preparedAt i) = Some t"
    "delivery_checks (new_delivery p i (requestFingerprint E p i projection) (ie_jsonb E projection) t)"
    "row \<in> set (id_deliveries db1)" "same_request p i (requestFingerprint E p i projection) row" "preparedFromRow row = Inr q"
    by (rule prepare_cases)
  note later = run_promises [OF ok, of E calls]
  then obtain r where r: "r \<in> set (id_deliveries (sandbox_run E calls db1))" "delivery_later row r" using a(5) by blast
  show thesis
    using that [OF a(1-4) _ r(1)] later a(6,7) later_fields [OF r(2)] later_prepared [OF r(2)] by simp
qed

lemma key_row: "keys_ok ds \<Longrightarrow> a \<in> set ds \<Longrightarrow> b \<in> set ds \<Longrightarrow> same_key a b \<Longrightarrow> a = b"
  using operation_row unfolding keys_ok_def by blast

lemma prior_single:
  assumes "sandbox_ok db" "r \<in> set (id_deliveries db)" "same_request p i fingerprint r"
  shows "filter (prior_request p i) (id_deliveries db) = [r]"
proof -
  have keys: "keys_ok (id_deliveries db)" using assms(1) by (simp add: sandbox_ok_def)
  have "q = r" if "q \<in> set (id_deliveries db)" "prior_request p i q" for q
    using that(2) assms(3) by (intro key_row [OF keys that(1) assms(2)])
      (auto simp: prior_request_def same_request_def in_profile_def same_key_def)
  then have "filter (prior_request p i) (id_deliveries db) = filter (\<lambda>q. q = r) (id_deliveries db)"
    using assms(3) by (intro filter_cong) (auto simp: prior_request_def same_request_def)
  also have "\<dots> = [r]" using assms(2) keys by (intro filter_self) (auto simp: keys_ok_def distinct_map)
  finally show ?thesis .
qed

text \<open>Preparing is idempotent for ever: once a request was prepared, preparing it again gives the same request and changes nothing, whatever happened to the deliveries in between.\<close>
theorem prepared_request_replays:
  assumes "prepare_request E prof input db = (Inr q, db1)" and "sandbox_ok db"
  shows "prepare_request E prof input (sandbox_run E calls db1) = (Inr q, sandbox_run E calls db1)"
proof -
  let ?db = "sandbox_run E calls db1"
  obtain p i projection r t where
    a: "requireProfile prof = Inr p" "normalized_request p input = Inr (i, projection)" "ie_timestamptz E (pi_preparedAt i) = Some t"
    and checks: "delivery_checks (new_delivery p i (requestFingerprint E p i projection) (ie_jsonb E projection) t)"
    and r: "sandbox_ok ?db" "r \<in> set (id_deliveries ?db)" "same_request p i (requestFingerprint E p i projection) r"
      "preparedFromRow r = Inr q" by (rule prepared_row [OF assms, of calls])
  let ?new = "new_delivery p i (requestFingerprint E p i projection) (ie_jsonb E projection) t"
  have "same_key ?new r" using r(3) by (simp add: same_key_def new_delivery_def same_request_def)
  then have "insert_delivery ?new ?db = (Inr None, ?db)"
    using checks r(2) by (auto simp: insert_delivery_def list_ex_iff)
  then have "prepare_request E prof input ?db = sandbox_transaction (alift (preparedFromRow r)) ?db"
    using prior_single [OF r(1-3)] r(3) a
    by (simp add: prepare_request_def sandbox_transaction_def timestamptz_of_def select_deliveries_def the_row_def abind_def Let_def)
  then show ?thesis using r(4) by (simp add: sandbox_transaction_def)
qed

text \<open>A logical operation belongs to one request, and so does an idempotency key of a profile: two prepared requests that share one of them are the same request, however much later the second is prepared, and the second changes nothing.\<close>
theorem operation_belongs_to_one_request:
  assumes "prepare_request E prof input db = (Inr q, db1)" and "sandbox_ok db"
    and "prepare_request E prof2 input2 (sandbox_run E calls db1) = (Inr q2, db2)"
    and "pq_logicalOperationId q2 = pq_logicalOperationId q \<or>
      (pq_profileId q2 = pq_profileId q \<and> pq_idempotencyKey q2 = pq_idempotencyKey q)"
  shows "q2 = q \<and> db2 = sandbox_run E calls db1"
proof -
  let ?db = "sandbox_run E calls db1"
  obtain r where r: "sandbox_ok ?db" "r \<in> set (id_deliveries ?db)" "preparedFromRow r = Inr q"
    by (rule prepared_row [OF assms(1,2), of calls])
  obtain row where row: "preparedFromRow row = Inr q2"
    and cases: "db2 = ?db \<and> row \<in> set (id_deliveries ?db) \<or> db2 = ?db\<lparr>id_deliveries := id_deliveries ?db @ [row]\<rparr> \<and>
      \<not> list_ex (same_key row) (id_deliveries ?db)" by (rule prepare_cases [OF assms(3) r(1)])
  have key: "same_key row r"
    using assms(4) row r(3) by (auto simp: preparedFromRow_def ebind_eq_Inr same_key_def)
  then have "db2 = ?db" "row \<in> set (id_deliveries ?db)" using cases r(2) by (auto simp: list_ex_iff)
  moreover from this have "row = r"
    using key r(1,2) key_row [of "id_deliveries ?db" row r] by (simp add: sandbox_ok_def)
  ultimately show ?thesis using row r(3) by simp
qed

section \<open>Callbacks\<close>

lemma callback_recorded:
  assumes "record_callback E p i s fingerprint row db = (Inr x, db')"
  shows "\<exists>c \<in> set (id_callbacks db'). callback_key c = (tp_profileId p, cb_callbackId i) \<and> cw_semanticFingerprint c = fingerprint"
proof -
  define c where "c = \<lparr>cw_profileId = tp_profileId p, cw_callbackId = cb_callbackId i,
         cw_logicalOperationId = dr_logicalOperationId row, cw_semanticFingerprint = fingerprint\<rparr>"
  have frame: "apply_callback E p i s row u = (Inr x, db') \<Longrightarrow> id_callbacks db' = id_callbacks u" for u
    by (auto simp: apply_callback_def abind_Inr timestamptz_of_Inr dest: update_frame split: if_splits)
  have c: "callback_key c = (tp_profileId p, cb_callbackId i)" "cw_semanticFingerprint c = fingerprint"
    by (simp_all add: c_def callback_key_def)
  have "apply_callback E p i s row (db\<lparr>id_callbacks := id_callbacks db @ [c]\<rparr>) = (Inr x, db') \<or>
      db' = db \<and> (\<exists>d \<in> set (id_callbacks db). callback_key d = (tp_profileId p, cb_callbackId i) \<and> cw_semanticFingerprint d = fingerprint)"
    using assms unfolding record_callback_def c_def [symmetric]
    by (auto simp: abind_Inr insert_callback_def select_callbacks_def same_callback_def callback_key_def
      dest!: filter_eq_single split: if_splits list.splits)
  then show ?thesis using frame c by fastforce
qed

lemma recorded_callback_changes_nothing:
  assumes "record_callback E p i s fingerprint row db = (Inr x, db')" "sandbox_ok db"
    and "c \<in> set (id_callbacks db)" "callback_key c = (tp_profileId p, cb_callbackId i)"
  shows "db' = db \<and> cw_semanticFingerprint c = fingerprint"
proof -
  have known: "list_ex (\<lambda>d. cw_profileId d = tp_profileId p \<and> cw_callbackId d = cb_callbackId i) (id_callbacks db)"
    using assms(3,4) by (auto simp: list_ex_iff callback_key_def)
  obtain prior where "db' = db" "filter (\<lambda>d. cw_profileId d = tp_profileId p \<and> cw_callbackId d = cb_callbackId i) (id_callbacks db) = [prior]"
    "cw_semanticFingerprint prior = fingerprint"
    using assms(1) known unfolding record_callback_def
    by (auto simp: abind_Inr insert_callback_def select_callbacks_def same_callback_def split: if_splits list.splits)
  moreover have "c \<in> set (filter (\<lambda>d. cw_profileId d = tp_profileId p \<and> cw_callbackId d = cb_callbackId i) (id_callbacks db))"
    using assms(3,4) by (simp add: callback_key_def)
  ultimately show ?thesis by simp
qed

text \<open>C34: a callback takes effect once: after a callback was taken, no callback of the same identifier and profile changes anything, whatever happened in between, and one that says something else is refused.\<close>
theorem callback_takes_effect_once:
  assumes "handle_integration_callback E prof input db = (Inr status, db1)" and "sandbox_ok db"
    and "normalized_callback E input = Inr (i, s, fingerprint)"
    and "normalized_callback E input2 = Inr (i2, s2, fingerprint2)" and "cb_callbackId i2 = cb_callbackId i"
    and "handle_integration_callback E prof input2 (sandbox_run E calls db1) = (answer, db2)"
  shows "db2 = sandbox_run E calls db1 \<and> (fingerprint2 \<noteq> fingerprint \<longrightarrow> (\<exists>e. answer = Inl e))"
proof (cases answer)
  case (Inl e)
  then have "sandbox_perform E (Report prof input2) (sandbox_run E calls db1) = (Inl e, db2)"
    using assms(6) by (simp add: answer_with_eq)
  then show ?thesis using failed_call_rolls_back Inl by blast
next
  case (Inr x)
  from assms(1,3) obtain p row where p: "requireProfile prof = Inr p" and first: "record_callback E p i s fingerprint row db = (Inr status, db1)"
    unfolding handle_integration_callback_def by (auto simp: abind_Inr transaction_Inr lock_Inr)
  obtain c where c: "c \<in> set (id_callbacks db1)" "callback_key c = (tp_profileId p, cb_callbackId i)" "cw_semanticFingerprint c = fingerprint"
    using callback_recorded [OF first] by blast
  from assms(1) have "sandbox_perform E (Report prof input) db = (Inr (Delivery status), db1)" by (simp add: answer_with_eq)
  then have "sandbox_ok db1" using perform_promises [OF assms(2), of E "Report prof input"] by simp
  from run_promises [OF this, of E calls] c(1)
  have ok: "sandbox_ok (sandbox_run E calls db1)" and c': "c \<in> set (id_callbacks (sandbox_run E calls db1))" by auto
  from assms(4,6) p Inr obtain row2 where
    "record_callback E p i2 s2 fingerprint2 row2 (sandbox_run E calls db1) = (Inr x, db2)"
    unfolding handle_integration_callback_def by (auto simp: abind_Inr transaction_Inr lock_Inr)
  from recorded_callback_changes_nothing [OF this ok c'] c(2,3) assms(5) show ?thesis by simp
qed

section \<open>The guards of the database\<close>

text \<open>What Postgres and the hash do: a text written by \<open>toISOString\<close> is cast to the time it denotes, when the cast
  accepts it; a digest is 64 hexadecimal digits; \<open>jsonb\<close> keeps an object an object.\<close>
definition postgres_agrees :: "integration_env \<Rightarrow> bool" where
  "postgres_agrees E \<longleftrightarrow> (\<forall>t ms. \<bar>t\<bar> \<le> 8640000000000000 \<longrightarrow> ie_timestamptz E (isoString t) = Some ms \<longrightarrow> ms = t) \<and>
     (\<forall>j. lower_hex64 (ie_sha256_json E j)) \<and> (\<forall>entries. json_object (ie_jsonb E (JObj entries)))"

definition benign :: "integration_error \<Rightarrow> bool" where
  "benign e \<longleftrightarrow> e \<noteq> TriggerRaised \<and> e \<noteq> CheckFailed"

lemma benign_simps [simp]:
  "benign (LifecycleError m)" "benign CastFailed" "benign UniqueFailed" "\<not> benign TriggerRaised" "\<not> benign CheckFailed"
  by (simp_all add: benign_def)

lemma required_text_result:
  "required_text v field hi lo = Inl e \<Longrightarrow> benign e"
  "required_text v field hi lo = Inr s \<Longrightarrow> text_between lo hi s"
  by (auto simp: required_text_def text_between_def Let_def split: if_splits)

definition iso_written :: "string \<Rightarrow> bool" where
  "iso_written s \<longleftrightarrow> (\<exists>t. s = isoString t \<and> \<bar>t\<bar> \<le> 8640000000000000)"

lemma iso_text_result:
  "iso_text v field = Inl e \<Longrightarrow> benign e"
  "iso_text v field = Inr s \<Longrightarrow> iso_written s"
  by (auto simp: iso_text_def iso_written_def dest: dateParse_range split: option.splits)

lemma requireProfile_result:
  "requireProfile p = Inl e \<Longrightarrow> benign e"
  "requireProfile p = Inr q \<Longrightarrow> text_between 1 128 (tp_profileId q) \<and> text_between 1 128 (tp_tenantId q) \<and>
    tp_purpose q \<noteq> IU_INCIDENT_TRIAGE"
proof -
  show "requireProfile p = Inl e \<Longrightarrow> benign e"
    unfolding requireProfile_def by (auto simp: ebind_eq_Inl dest: required_text_result(1) simp del: PURPOSE_BY_PARTNER.simps split: if_splits)
  have "PURPOSE_BY_PARTNER x \<noteq> IU_INCIDENT_TRIAGE" for x by (cases x) simp_all
  then show "requireProfile p = Inr q \<Longrightarrow> text_between 1 128 (tp_profileId q) \<and> text_between 1 128 (tp_tenantId q) \<and>
    tp_purpose q \<noteq> IU_INCIDENT_TRIAGE"
    unfolding requireProfile_def
    by (auto simp: ebind_eq_Inr text_between_def not_less Suc_le_eq simp del: PURPOSE_BY_PARTNER.simps dest!: required_text_result(2) split: if_splits)
qed

lemma row_result:
  "rowIso v field = Inl e \<Longrightarrow> benign e" "preparedFromRow r = Inl e \<Longrightarrow> benign e" "statusFromRow r = Inl e \<Longrightarrow> benign e"
  "receiptFromRow r = Inl e \<Longrightarrow> benign e" "the_row m rows = Inl e \<Longrightarrow> benign e" "older_than text v field = Inl e \<Longrightarrow> benign e"
  by (auto simp: rowIso_def preparedFromRow_def statusFromRow_def receiptFromRow_def the_row_def older_than_def ebind_eq_Inl
      split: option.splits list.splits)

lemma projection_result:
  "projectMinimumNecessary partner source = Inl e \<Longrightarrow> benign e"
  "projectMinimumNecessary partner source = Inr j \<Longrightarrow> \<exists>entries. j = JObj entries"
  by (cases partner; auto simp: projectMinimumNecessary_def projected_location_def projected_road_def ebind_eq_Inl ebind_eq_Inr Let_def
      dest: required_text_result iso_text_result split: if_splits option.splits)+

lemma normalized_request_result:
  "normalized_request p i = Inl e \<Longrightarrow> benign e"
  "normalized_request p i = Inr (n, j) \<Longrightarrow> text_between 1 128 (pi_requestId n) \<and> text_between 16 128 (pi_idempotencyKey n) \<and>
     text_between 1 128 (pi_correlationId n) \<and> text_between 1 128 (pi_causationId n) \<and> (\<exists>entries. j = JObj entries)"
  by (auto simp: normalized_request_def ebind_eq_Inl ebind_eq_Inr dest: required_text_result iso_text_result projection_result
      split: if_splits)

lemma callback_state_result: "callback_state text = Some s \<Longrightarrow> s \<noteq> DS_PREPARED \<and> s \<noteq> DS_ACCEPTED"
  by (simp add: callback_state_def split: if_splits)

lemma optional_reason_result: "optional_reason reason = Inl e \<Longrightarrow> benign e"
  by (auto simp: optional_reason_def ebind_eq_Inl dest: required_text_result(1) split: option.splits)

lemma normalized_callback_result:
  "normalized_callback E i = Inl e \<Longrightarrow> benign e"
  "normalized_callback E i = Inr (n, s, f) \<Longrightarrow> text_between 1 128 (cb_callbackId n) \<and> (\<exists>j. f = ie_sha256_json E j) \<and>
     iso_written (cb_occurredAt n) \<and> s \<noteq> DS_PREPARED \<and> s \<noteq> DS_ACCEPTED"
   unfolding normalized_callback_def callbackFingerprint_def Let_def
   by (auto simp: ebind_eq_Inl dest: required_text_result(1) iso_text_result(1) optional_reason_result split: option.splits)
     (auto simp: ebind_eq_Inr dest!: required_text_result(2) iso_text_result(2) callback_state_result split: option.splits)

lemma cast_agrees:
  assumes "postgres_agrees E" "ie_timestamptz E text = Some t" "iso_written text"
    and "older_than text ms field = Inr early"
  shows "early \<longleftrightarrow> t < ms"
proof -
  obtain u where u: "text = isoString u" "\<bar>u\<bar> \<le> 8640000000000000" using assms(3) by (auto simp: iso_written_def)
  then have "t = u" using assms(1,2) unfolding postgres_agrees_def by blast
  then have "dateParse text = Some t" using u dateParse_isoString by simp
  then show ?thesis using assms(4) by (auto simp: older_than_def rowIso_def ebind_eq_Inr dest: toISO_parse split: option.splits)
qed

lemma update_error:
  assumes "update_deliveries w f db = (Inl e, db')"
    and "\<And>r. r \<in> set (id_deliveries db) \<Longrightarrow> w r \<Longrightarrow> enforce_integration_delivery_update r (f r) \<and> delivery_checks (f r)"
  shows "benign e"
  using assms by (auto simp: update_deliveries_def list_all_iff Let_def split: if_splits)

lemma accepted_allowed:
  "delivery_fits r \<Longrightarrow> dr_state r = DS_PREPARED \<Longrightarrow> dr_preparedAt r \<le> t \<Longrightarrow>
    enforce_integration_delivery_update r (accepted_row provider t r) \<and> delivery_checks (accepted_row provider t r)"
  by (auto simp: delivery_fits_def enforce_integration_delivery_update_def same_identity_def accepted_row_def delivery_checks_def
      transport_shape_def time_order_def)

lemma moved_allowed:
  "delivery_fits r \<Longrightarrow> trigger_allows (dr_state r) s \<Longrightarrow> dr_state r \<noteq> DS_PREPARED \<Longrightarrow> dr_updatedAt r \<le> t \<Longrightarrow>
    enforce_integration_delivery_update r (moved_row s reason t r) \<and> delivery_checks (moved_row s reason t r)"
  by (cases "dr_state r") (auto simp: delivery_fits_def enforce_integration_delivery_update_def same_identity_def moved_row_def
      delivery_checks_def transport_shape_def time_order_def)

lemma update_error_single:
  assumes "update_deliveries (by_operation p (dr_logicalOperationId r)) f db = (Inl e, db')"
    and "sandbox_ok db" "r \<in> set (id_deliveries db)"
    and "enforce_integration_delivery_update r (f r) \<and> delivery_checks (f r)"
  shows "benign e"
proof (rule update_error [OF assms(1)])
  fix q assume "q \<in> set (id_deliveries db)" "by_operation p (dr_logicalOperationId r) q"
  then have "q = r" using operation_row [of "id_deliveries db" q r] assms(2,3) by (auto simp: by_operation_def sandbox_ok_def)
  then show "enforce_integration_delivery_update q (f q) \<and> delivery_checks (f q)" using assms(4) by simp
qed

lemma lock_Inl:
  "lockByOperation p operation db = (Inl e, t) \<Longrightarrow> benign e"
  "lockByProvider p provider db = (Inl e, t) \<Longrightarrow> benign e"
  by (auto simp: lockByOperation_def lockByProvider_def select_deliveries_def dest: row_result)

lemma timestamptz_of_Inl: "timestamptz_of E text db = (Inl e, u) \<Longrightarrow> benign e"
  by (auto simp: timestamptz_of_def split: option.splits)

lemmas benign_results = required_text_result(1) iso_text_result(1) requireProfile_result(1) row_result projection_result(1)
  normalized_request_result(1) normalized_callback_result(1) lock_Inl timestamptz_of_Inl

lemma prepare_benign:
  assumes "prepare_request E prof input db = (Inl e, db')" "postgres_agrees E"
  shows "benign e"
proof (cases "\<exists>p i j. requireProfile prof = Inr p \<and> normalized_request p input = Inr (i, j)")
  case False
  then show ?thesis using assms(1) unfolding prepare_request_def by (auto simp: abind_Inl Let_def dest: benign_results)
next
  case True
  then obtain p i j where p: "requireProfile prof = Inr p" and i: "normalized_request p input = Inr (i, j)" by blast
  have checks: "delivery_checks (new_delivery p i (requestFingerprint E p i j) (ie_jsonb E j) t)" for t
    using requireProfile_result(2) [OF p] normalized_request_result(2) [OF i] assms(2)
    by (auto simp: delivery_checks_def new_delivery_def postgres_agrees_def requestFingerprint_def transport_shape_def time_order_def)
  show ?thesis using assms(1) p i checks unfolding prepare_request_def
    by (auto simp: abind_Inl abind_Inr transaction_Inl timestamptz_of_Inr insert_delivery_def select_deliveries_def Let_def
        dest: benign_results split: if_splits option.splits)
qed

lemma send_benign:
  assumes "send_request E prof operation sentAtInput db = (Inl e, db')" "postgres_agrees E" "sandbox_ok db"
  shows "benign e"
proof -
  have "benign e" if u: "update_deliveries (by_operation p o') (accepted_row provider t) db = (Inl e, u)"
      and row: "filter (by_operation p o') (id_deliveries db) = [row]" "dr_state row = DS_PREPARED"
      and times: "iso_text sentAtInput ''sentAt'' = Inr sentAt" "older_than sentAt (dr_preparedAt row) ''prepared_at'' = Inr False"
        "ie_timestamptz E sentAt = Some t" for p o' provider t row sentAt u
  proof -
    have r: "row \<in> set (id_deliveries db)" "dr_logicalOperationId row = o'" using lock_row(1) [OF row(1)] by auto
    then have "delivery_fits row" using assms(3) by (simp add: sandbox_ok_def)
    moreover have "dr_preparedAt row \<le> t"
      using cast_agrees [OF assms(2) times(3) iso_text_result(2) [OF times(1)] times(2)] by simp
    ultimately show ?thesis
      using update_error_single [OF u [folded r(2)] assms(3) r(1)] accepted_allowed [of row t provider] row(2) by simp
  qed
  then show ?thesis using assms(1) unfolding send_request_def
    by (fastforce simp: abind_Inl abind_Inr transaction_Inl lock_Inr timestamptz_of_Inr dest: benign_results split: if_splits)
qed

lemma cancel_row_benign:
  assumes "cancel_row E p reason cancelledAt row db = (Inl e, db')" "postgres_agrees E" "sandbox_ok db"
    and "row \<in> set (id_deliveries db)" "dr_state row \<noteq> DS_PREPARED" "iso_written cancelledAt"
  shows "benign e"
proof -
  have "benign e" if u: "update_deliveries (by_operation p (dr_logicalOperationId row)) (moved_row DS_CANCELLED (Some reason) t) db = (Inl e, u)"
      and row: "dr_state row \<noteq> DS_CANCELLED" "dr_state row \<noteq> DS_COMPLETED" "dr_state row \<noteq> DS_FAILED"
      and times: "older_than cancelledAt (dr_updatedAt row) ''updated_at'' = Inr False" "ie_timestamptz E cancelledAt = Some t"
    for t u
  proof -
    have "delivery_fits row" using assms(3,4) by (simp add: sandbox_ok_def)
    moreover have "dr_updatedAt row \<le> t" using cast_agrees [OF assms(2) times(2) assms(6) times(1)] by simp
    moreover have "trigger_allows (dr_state row) DS_CANCELLED" using row assms(5) by (cases "dr_state row") auto
    ultimately show ?thesis
      using update_error_single [OF u assms(3,4)] moved_allowed [of row DS_CANCELLED t "Some reason"] assms(5) by simp
  qed
  then show ?thesis using assms(1) unfolding cancel_row_def
    by (fastforce simp: abind_Inl abind_Inr timestamptz_of_Inr dest: benign_results split: if_splits)
qed

lemma cancel_benign:
  assumes "cancel_delivery E prof provider reasonInput cancelledAtInput db = (Inl e, db')" "postgres_agrees E" "sandbox_ok db"
  shows "benign e"
proof -
  have "benign e" if u: "cancel_row E p reason cancelledAt row db = (Inl e, u)"
      and row: "filter (by_provider p v) (id_deliveries db) = [row]" and t: "iso_text cancelledAtInput ''cancelledAt'' = Inr cancelledAt"
    for p v reason cancelledAt row u
    using cancel_row_benign [OF u assms(2,3)] lock_row(2) [OF row] provided_not_prepared [OF assms(3)] iso_text_result(2) [OF t]
    by blast
  then show ?thesis using assms(1) unfolding cancel_delivery_def
    by (auto simp: abind_Inl abind_Inr transaction_Inl lock_Inr dest: benign_results)
qed

lemma apply_callback_benign:
  assumes "apply_callback E p i s row db = (Inl e, db')" "postgres_agrees E" "sandbox_ok db"
    and "row \<in> set (id_deliveries db)" "dr_state row \<noteq> DS_PREPARED" "iso_written (cb_occurredAt i)"
    and "s \<noteq> DS_PREPARED" "s \<noteq> DS_ACCEPTED"
  shows "benign e"
proof -
  have "benign e" if u: "update_deliveries (by_operation p (dr_logicalOperationId row)) (moved_row s (cb_reason i) t) db = (Inl e, u)"
      and row: "dr_state row \<noteq> s" "\<not> TERMINAL_STATES (dr_state row)"
      and times: "older_than (cb_occurredAt i) (dr_updatedAt row) ''updated_at'' = Inr False"
        "ie_timestamptz E (cb_occurredAt i) = Some t" for t u
  proof -
    have "delivery_fits row" using assms(3,4) by (simp add: sandbox_ok_def)
    moreover have "dr_updatedAt row \<le> t" using cast_agrees [OF assms(2) times(2) assms(6) times(1)] by simp
    moreover have "trigger_allows (dr_state row) s" using row assms(5,7,8) by (cases "dr_state row"; cases s) auto
    ultimately show ?thesis
      using update_error_single [OF u assms(3,4)] moved_allowed [of row s t "cb_reason i"] assms(5) by simp
  qed
  then show ?thesis using assms(1) unfolding apply_callback_def
    by (fastforce simp: abind_Inl abind_Inr timestamptz_of_Inr dest: benign_results split: if_splits)
qed

lemma callback_benign:
  assumes "handle_integration_callback E prof input db = (Inl e, db')" "postgres_agrees E" "sandbox_ok db"
  shows "benign e"
proof -
  have "benign e" if u: "record_callback E p i s fingerprint row db = (Inl e, u)" and p: "requireProfile prof = Inr p"
      and n: "normalized_callback E input = Inr (i, s, fingerprint)"
      and row: "filter (by_provider p (cb_providerRequestId i)) (id_deliveries db) = [row]" for p i s fingerprint row u
  proof -
    define c where "c = \<lparr>cw_profileId = tp_profileId p, cw_callbackId = cb_callbackId i,
         cw_logicalOperationId = dr_logicalOperationId row, cw_semanticFingerprint = fingerprint\<rparr>"
    let ?db = "db\<lparr>id_callbacks := id_callbacks db @ [c]\<rparr>"
    have r: "row \<in> set (id_deliveries db)" "dr_state row \<noteq> DS_PREPARED"
      using lock_row(2) [OF row] provided_not_prepared [OF assms(3)] by auto
    note facts = normalized_callback_result(2) [OF n]
    then have c: "text_between 1 128 (cw_profileId c)" "text_between 1 128 (cw_callbackId c)" "lower_hex64 (cw_semanticFingerprint c)"
      using requireProfile_result(2) [OF p] assms(2) by (auto simp: c_def postgres_agrees_def)
    have "benign e \<or> callback_key c \<notin> callback_key ` set (id_callbacks db) \<and> apply_callback E p i s row ?db = (Inl e, u)"
      using u c unfolding record_callback_def c_def [symmetric]
      by (auto simp: abind_Inl abind_Inr insert_callback_def select_callbacks_def callback_key_def list_ex_iff
        dest: benign_results split: if_splits)
    then show ?thesis
      using apply_callback_benign [of E p i s row ?db e u] assms(2) sandbox_ok_called [OF assms(3), of c] r facts by auto
  qed
  then show ?thesis using assms(1) unfolding handle_integration_callback_def
    by (fastforce simp: abind_Inl abind_Inr transaction_Inl lock_Inr dest: benign_results)
qed

lemma status_benign: "delivery_status prof provider db = (Inl e, db') \<Longrightarrow> benign e"
  by (auto simp: delivery_status_def abind_Inl select_deliveries_def dest: benign_results)


section \<open>What a partner sees\<close>

text \<open>The sources agree on what the partner needs to know.\<close>
fun sees_same :: "IntegrationPartner \<Rightarrow> IntegrationSourceSnapshot \<Rightarrow> IntegrationSourceSnapshot \<Rightarrow> bool" where
  "sees_same IP_EMERGENCY a b \<longleftrightarrow> in_occurredAt b = in_occurredAt a \<and> in_location b = in_location a \<and>
     ss_level (in_severity b) = ss_level (in_severity a) \<and> in_humanSafety b = in_humanSafety a"
| "sees_same IP_TRAFFIC a b \<longleftrightarrow> in_occurredAt b = in_occurredAt a \<and> in_location b = in_location a \<and>
     ss_level (in_severity b) = ss_level (in_severity a) \<and> in_road b = in_road a"
| "sees_same IP_ROAD_OPERATOR a b \<longleftrightarrow> in_occurredAt b = in_occurredAt a \<and> in_location b = in_location a \<and> in_road b = in_road a"
| "sees_same IP_INSURANCE a b \<longleftrightarrow> in_occurredAt b = in_occurredAt a \<and> in_location b = in_location a \<and>
     in_insurance b = in_insurance a"
| "sees_same IP_TOWING a b \<longleftrightarrow> in_location b = in_location a \<and> in_vehicle b = in_vehicle a"
| "sees_same IP_ROUTING a b \<longleftrightarrow> in_road b = in_road a"

lemma projection_sees:
  assumes "projectMinimumNecessary partner a = Inr j" "projectMinimumNecessary partner b = Inr k"
    and "sees_same partner a b" "in_roadEventId b = in_roadEventId a"
  shows "k = j"
proof -
  obtain t where t: "iso_text (in_occurredAt a) ''occurredAt'' = Inr t" using assms(1)
    by (auto simp: projectMinimumNecessary_def ebind_eq_Inr)
  have l: "projected_location b = projected_location a" if "in_location b = in_location a"
    using that by (simp add: projected_location_def)
  have r: "projected_road b = projected_road a" if "in_road b = in_road a"
    using that by (simp add: projected_road_def)
  show ?thesis using assms t l r
    by (cases partner) (auto simp: projectMinimumNecessary_def ebind_eq_Inr split: if_splits option.splits)
qed

text \<open>C36: a partner gets the minimum: of two prepared requests that agree on the road event and on the few fields the partner needs, the partner, the caller and the database see the same, whatever the sources say of the people, the evidence and everything else.\<close>
theorem partner_sees_the_minimum:
  assumes "prepare_request E prof input db = (Inr q, db1)"
    and "prepare_request E prof (input\<lparr>pi_source := other\<rparr>) db = (Inr q2, db2)"
    and "in_roadEventId other = in_roadEventId (pi_source input)" and "sees_same (tp_partner prof) (pi_source input) other"
  shows "q2 = q \<and> db2 = db1"
proof -
  obtain p where p: "requireProfile prof = Inr p" using assms(1) by (auto simp: prepare_request_def abind_Inr)
  then have partner: "tp_partner p = tp_partner prof" by (auto simp: requireProfile_def ebind_eq_Inr split: if_splits)
  obtain i j where n: "normalized_request p input = Inr (i, j)"
    using assms(1) p by (auto simp: prepare_request_def abind_Inr)
  obtain i2 j2 where n2: "normalized_request p (input\<lparr>pi_source := other\<rparr>) = Inr (i2, j2)"
    using assms(2) p by (auto simp: prepare_request_def abind_Inr)
  have j: "projectMinimumNecessary (tp_partner p) (pi_source input) = Inr j" "projectMinimumNecessary (tp_partner p) other = Inr j2"
      "i2 = i\<lparr>pi_source := other\<rparr>"
    using n n2 by (auto simp: normalized_request_def ebind_eq_Inr split: if_splits)
  then have "j2 = j" using projection_sees assms(3,4) partner by metis
  then have "prepare_request E prof (input\<lparr>pi_source := other\<rparr>) db = prepare_request E prof input db"
    using p n n2 j(3) by (simp add: prepare_request_def requestFingerprint_def new_delivery_def prior_request_def [abs_def]
      same_request_def [abs_def])
  then show ?thesis using assms(1,2) by simp
qed

section \<open>A sample delivery\<close>

definition sample_env :: integration_env where
  "sample_env = \<lparr>ie_sha256 = (\<lambda>_. replicate 64 CHR ''a''), ie_sha256_json = (\<lambda>_. replicate 64 CHR ''b''),
    ie_jsonb = (\<lambda>j. j), ie_timestamptz = dateParse\<rparr>"

definition sample_profile :: TrustedIntegrationProfile where
  "sample_profile = \<lparr>tp_profileId = ''traffic-1'', tp_partner = IP_TRAFFIC, tp_purpose = IU_TRAFFIC_COORDINATION,
    tp_tenantId = ''riyadh'', tp_mode = ''SIMULATION_ONLY''\<rparr>"

definition sample_source :: IntegrationSourceSnapshot where
  "sample_source = \<lparr>in_roadEventId = ''event-1'', in_tenantId = ''riyadh'', in_occurredAt = ''2026-01-01T00:00:00Z'',
    in_location = \<lparr>sl_latitude = Num (49 / 2), sl_longitude = Num (93 / 2)\<rparr>,
    in_severity = \<lparr>ss_level = ''HIGH'', ss_score = Num (1 / 2), ss_reasonCodes = []\<rparr>,
    in_humanSafety = \<lparr>sh_status = ''UNKNOWN'', sh_responseRequired = False\<rparr>,
    in_road = \<lparr>so_segmentId = ''segment-1'', so_lanesBlocked = Num 2, so_closureState = ''RESTRICTED''\<rparr>,
    in_vehicle = None, in_insurance = None, in_personal = None, in_evidenceRefs = []\<rparr>"

definition sample_prepare :: IntegrationPrepareInput where
  "sample_prepare = \<lparr>pi_logicalOperationId = ''operation-1'', pi_requestId = ''request-1'',
    pi_idempotencyKey = ''idempotency-key-1'', pi_correlationId = ''correlation-1'', pi_causationId = ''causation-1'',
    pi_source = sample_source, pi_preparedAt = ''2026-01-01T00:00:01Z''\<rparr>"

definition sample_sandbox :: integration_db where
  "sample_sandbox = \<lparr>id_deliveries = [], id_callbacks = []\<rparr>"

definition sample_prepared :: integration_db where
  "sample_prepared = sandbox_run sample_env [Prepare sample_profile sample_prepare] sample_sandbox"

definition sample_send :: sandbox_call where
  "sample_send = Send sample_profile ''operation-1'' ''2026-01-01T00:00:02Z''"

definition sample_callback :: IntegrationCallbackInput where
  "sample_callback = \<lparr>cb_callbackId = ''callback-1'', cb_providerRequestId = ''sim-'' @ replicate 32 CHR ''a'',
    cb_state = ''COMPLETED'', cb_reason = None, cb_occurredAt = ''2026-01-01T00:00:03Z''\<rparr>"

lemma sample_sandbox_ok: "sandbox_ok (sandbox_run sample_env calls sample_sandbox)"
proof -
  have "sandbox_ok sample_sandbox" by (simp add: sandbox_ok_def keys_ok_def sample_sandbox_def)
  then show ?thesis using run_promises by blast
qed

lemma sample_request: "fst (prepare_request sample_env sample_profile sample_prepare sample_sandbox) =
    Inr \<lparr>pq_logicalOperationId = ''operation-1'', pq_profileId = ''traffic-1'', pq_partner = IP_TRAFFIC,
      pq_purpose = IU_TRAFFIC_COORDINATION, pq_tenantId = ''riyadh'', pq_requestId = ''request-1'',
      pq_idempotencyKey = ''idempotency-key-1'', pq_correlationId = ''correlation-1'', pq_causationId = ''causation-1'',
      pq_projection = JObj [(''roadEventId'', JStr ''event-1''), (''occurredAt'', JStr ''2026-01-01T00:00:00.000Z''),
        (''location'', JObj [(''latitude'', JNum (Num (49 / 2))), (''longitude'', JNum (Num (93 / 2)))]),
        (''severityLevel'', JStr ''HIGH''), (''road'', JObj [(''segmentId'', JStr ''segment-1''), (''lanesBlocked'', JNum (Num 2)),
          (''closureState'', JStr ''RESTRICTED'')])],
      pq_preparedAt = ''2026-01-01T00:00:01.000Z''\<rparr>"
  by code_simp

lemma sample_prepared_run: "\<exists>q. prepare_request sample_env sample_profile sample_prepare sample_sandbox = (Inr q, sample_prepared)"
proof (cases "prepare_request sample_env sample_profile sample_prepare sample_sandbox")
  case (Pair r db)
  then have "sample_prepared = db" by (cases r) (simp_all add: sample_prepared_def answer_with_def abind_def)
  moreover obtain q where "r = Inr q" using sample_request Pair by auto
  ultimately show ?thesis using Pair by blast
qed

text \<open>The sample delivery is sent and reported as completed.\<close>
lemma sample_completed: "fst (handle_integration_callback sample_env sample_profile sample_callback (sandbox_run sample_env [sample_send] sample_prepared)) =
    Inr \<lparr>it_logicalOperationId = ''operation-1'', it_providerRequestId = Some (''sim-'' @ replicate 32 CHR ''a''),
      it_profileId = ''traffic-1'', it_partner = IP_TRAFFIC, it_purpose = IU_TRAFFIC_COORDINATION, it_tenantId = ''riyadh'',
      it_state = DS_COMPLETED, it_attemptCount = 1, it_acceptedAt = Some ''2026-01-01T00:00:02.000Z'',
      it_updatedAt = ''2026-01-01T00:00:03.000Z'', it_reason = None\<rparr>"
  by code_simp

theorem delivery_moves_forward_only_witness:
  "\<exists>r \<in> set (id_deliveries sample_prepared). \<exists>r' \<in> set (id_deliveries (sandbox_run sample_env [sample_send] sample_prepared)).
     same_identity r r' \<and> dr_updatedAt r \<le> dr_updatedAt r'"
proof -
  obtain q where q: "prepare_request sample_env sample_profile sample_prepare sample_sandbox = (Inr q, sample_prepared)"
    using sample_prepared_run by blast
  obtain r where r: "r \<in> set (id_deliveries sample_prepared)"
    using prepared_row [OF q sample_sandbox_ok [of "[]", simplified], of "[]"] by (metis sandbox_run.simps(1))
  have "sandbox_ok sample_prepared" unfolding sample_prepared_def by (rule sample_sandbox_ok)
  from delivery_moves_forward_only [OF this r, of sample_env "[sample_send]"] show ?thesis using r by blast
qed

theorem prepared_request_replays_witness:
  "\<exists>q. prepare_request sample_env sample_profile sample_prepare (sandbox_run sample_env [sample_send] sample_prepared) =
     (Inr q, sandbox_run sample_env [sample_send] sample_prepared)"
proof -
  obtain q where "prepare_request sample_env sample_profile sample_prepare sample_sandbox = (Inr q, sample_prepared)"
    using sample_prepared_run by blast
  from prepared_request_replays [OF this sample_sandbox_ok [of "[]", simplified]] show ?thesis by blast
qed

theorem callback_takes_effect_once_witness:
  "\<exists>status db. handle_integration_callback sample_env sample_profile sample_callback (sandbox_run sample_env [sample_send] sample_prepared) = (Inr status, db) \<and>
     snd (handle_integration_callback sample_env sample_profile sample_callback db) = db"
proof -
  let ?sent = "sandbox_run sample_env [sample_send] sample_prepared"
  have "?sent = sandbox_run sample_env [Prepare sample_profile sample_prepare, sample_send] sample_sandbox"
    by (simp add: sample_prepared_def)
  then have ok: "sandbox_ok ?sent" using sample_sandbox_ok by metis
  obtain status db where first: "handle_integration_callback sample_env sample_profile sample_callback ?sent = (Inr status, db)"
    using sample_completed by (metis prod.collapse)
  then obtain i s fingerprint where n: "normalized_callback sample_env sample_callback = Inr (i, s, fingerprint)"
    unfolding handle_integration_callback_def by (auto simp: abind_Inr)
  obtain answer db2 where second: "handle_integration_callback sample_env sample_profile sample_callback db = (answer, db2)" by force
  then have "db2 = db" using callback_takes_effect_once [OF first ok n n refl, of "[]"] by simp
  then show ?thesis using first second by auto
qed

lemma sample_env_agrees: "postgres_agrees sample_env"
  by (auto simp: postgres_agrees_def sample_env_def dateParse_isoString lower_hex64_def list_all_iff json_object_def
      is_lower_hex_def code_unit_def)


definition other_source :: IntegrationSourceSnapshot where
  "other_source = sample_source\<lparr>in_humanSafety := \<lparr>sh_status = ''NEEDS_HELP'', sh_responseRequired = True\<rparr>,
    in_insurance := Some ''policy-1'', in_personal := Some \<lparr>sp_contactReference = ''contact-1'', sp_identityReference = ''identity-1''\<rparr>,
    in_evidenceRefs := [''evidence-1'']\<rparr>"

theorem partner_sees_the_minimum_witness:
  "\<exists>q. prepare_request sample_env sample_profile (sample_prepare\<lparr>pi_source := other_source\<rparr>) sample_sandbox = (Inr q, sample_prepared) \<and>
     prepare_request sample_env sample_profile sample_prepare sample_sandbox = (Inr q, sample_prepared)"
proof -
  obtain q where q: "prepare_request sample_env sample_profile sample_prepare sample_sandbox = (Inr q, sample_prepared)"
    using sample_prepared_run by blast
  have "is_ok (fst (prepare_request sample_env sample_profile (sample_prepare\<lparr>pi_source := other_source\<rparr>) sample_sandbox))" by code_simp
  then obtain q2 db where q2: "prepare_request sample_env sample_profile (sample_prepare\<lparr>pi_source := other_source\<rparr>) sample_sandbox = (Inr q2, db)"
    by (metis is_ok_iff prod.collapse)
  have "in_roadEventId other_source = in_roadEventId (pi_source sample_prepare)"
    "sees_same (tp_partner sample_profile) (pi_source sample_prepare) other_source"
    by (simp_all add: other_source_def sample_prepare_def sample_profile_def)
  from partner_sees_the_minimum [OF q q2 this] show ?thesis using q q2 by simp
qed

end
