(* ===== verification/Perception.thy ===== *)
theory Perception
  imports JsAction JsDate "HOL-Library.List_Lexorder" "HOL-Library.Char_ord"
begin

text \<open>
  The evidence the perception services work on: sensor observations and their admission
  (\<open>packages/contracts/src/sensor-perception.ts\<close>), independence leases
  (\<open>packages/contracts/src/evidence-assurance.ts\<close>) and the assessment of claims by independent evidence
  (\<open>apps/api/src/perception/evidence-assurance.ts\<close>). Values that the code checks while it runs (schemas,
  authorities, digests) are texts, the other unions are datatypes. Of the payload of an observation only
  tracks and the environment are looked at by the services; the other payloads keep their kind.
\<close>

section \<open>Numbers and sets\<close>

fun num_add :: "js_num \<Rightarrow> js_num \<Rightarrow> js_num" where
  "num_add (Num a) (Num b) = Num (a + b)"
| "num_add NaN y = NaN"
| "num_add x NaN = NaN"
| "num_add PosInfinity NegInfinity = NaN"
| "num_add NegInfinity PosInfinity = NaN"
| "num_add PosInfinity y = PosInfinity"
| "num_add x PosInfinity = PosInfinity"
| "num_add NegInfinity y = NegInfinity"
| "num_add x NegInfinity = NegInfinity"

text \<open>\<open>Math.max\<close> and \<open>Math.min\<close> of two numbers: NaN when one of them is.\<close>
definition num_max :: "js_num \<Rightarrow> js_num \<Rightarrow> js_num" where
  "num_max x y = (if x = NaN \<or> y = NaN then NaN else if num_lt x y then y else x)"

definition num_min :: "js_num \<Rightarrow> js_num \<Rightarrow> js_num" where
  "num_min x y = (if x = NaN \<or> y = NaN then NaN else if num_lt x y then x else y)"

text \<open>\<open>a <= b\<close>; false as soon as one side is NaN.\<close>
definition num_le :: "js_num \<Rightarrow> js_num \<Rightarrow> bool" where
  "num_le x y \<longleftrightarrow> x \<noteq> NaN \<and> y \<noteq> NaN \<and> \<not> num_lt y x"

text \<open>\<open>Date.parse\<close> as a number.\<close>
definition parsed_time :: "string \<Rightarrow> js_num" where
  "parsed_time s = (case dateParse s of None \<Rightarrow> NaN | Some t \<Rightarrow> Num (of_int t))"

text \<open>\<open>[...new Set(xs)]\<close>: the elements in the order of their first occurrence.\<close>
definition set_of_list :: "'a list \<Rightarrow> 'a list" where
  "set_of_list xs = rev (remdups (rev xs))"

text \<open>\<open>[...new Set(xs)].sort()\<close>: texts are sorted by their code units.\<close>
definition uniqueSorted :: "string list \<Rightarrow> string list" where
  "uniqueSorted xs = sort (remdups xs)"

lemma set_of_list [simp]: "set (set_of_list xs) = set xs" "distinct (set_of_list xs)"
  by (simp_all add: set_of_list_def)

lemma uniqueSorted [simp]: "set (uniqueSorted xs) = set xs" "distinct (uniqueSorted xs)"
  by (simp_all add: uniqueSorted_def)

lemma length_uniqueSorted: "length (uniqueSorted xs) = card (set xs)"
  using distinct_card [of "uniqueSorted xs"] by simp

lemma parsed_time_Num: "parsed_time s = Num q \<longleftrightarrow> (\<exists>t. dateParse s = Some t \<and> q = of_int t)"
  by (auto simp: parsed_time_def split: option.splits)

text \<open>\<open>/^[a-f0-9]{64}$/\<close>\<close>
definition SHA256_HEX :: "string \<Rightarrow> bool" where
  "SHA256_HEX s \<longleftrightarrow> length s = 64 \<and> list_all is_lower_hex s"

section \<open>Observations\<close>

definition SENSOR_OBSERVATION_SCHEMA :: string where
  "SENSOR_OBSERVATION_SCHEMA = ''ros.sensor-observation/v1''"

datatype SensorHealthState = SH_HEALTHY | SH_DEGRADED | SH_QUARANTINED | SH_UNAVAILABLE

datatype CalibrationState = CS_VALID | CS_STALE | CS_UNKNOWN | CS_INVALID

record TimingQuality =
  tq_estimatedClockErrorMs :: js_num
  tq_transportLatencyMs :: js_num
  tq_freshnessTtlMs :: js_num
  tq_timeSource :: string

record CalibrationReference =
  ca_state :: CalibrationState
  ca_calibrationDigest :: "string option"

record SensorHealth =
  sh_state :: SensorHealthState
  sh_score :: js_num
  sh_degradationCauses :: "string list"
  sh_assessedAt :: string

record SourceProvenance =
  sv_adapterName :: string
  sv_adapterVersion :: string
  sv_rawPayloadSha256 :: string
  sv_normalizedPayloadSha256 :: string
  sv_jurisdiction :: string
  sv_purpose :: string

record EstimatedKinematicState =
  ek_positionM :: "js_num list"
  ek_estimatedVelocityMps :: "js_num list"
  ek_estimatedAccelerationMps2 :: "js_num list option"
  ek_covariance :: "js_num list"
  ek_estimator :: string

record ObservedTrack =
  tk_trackId :: string
  tk_objectClass :: string
  tk_state :: EstimatedKinematicState
  tk_laneId :: "string option"
  tk_roadSegmentId :: "string option"
  tk_confidence :: js_num
  tk_supportingObservationIds :: "string list"

text \<open>The payload: a set of tracks, the entries of an environment object, or another kind.\<close>
datatype SensorObservationPayload =
    TRACK_SET "ObservedTrack list"
  | ENVIRONMENT "(string \<times> json) list"
  | OTHER_PAYLOAD string

record SensorObservationEnvelope =
  ob_schema :: string
  ob_observationId :: string
  ob_sourceId :: string
  ob_sourceClass :: string
  ob_capturedAt :: string
  ob_receivedAt :: string
  ob_sourceSequence :: js_num
  ob_timing :: TimingQuality
  ob_calibration :: CalibrationReference
  ob_health :: SensorHealth
  ob_provenance :: SourceProvenance
  ob_payload :: SensorObservationPayload

datatype ObservationAdmissionDisposition = OA_ACCEPT | OA_DEGRADED_USABLE | OA_CONTEXT_ONLY | OA_QUARANTINE

fun disposition_name :: "ObservationAdmissionDisposition \<Rightarrow> string" where
  "disposition_name OA_ACCEPT = ''ACCEPT''"
| "disposition_name OA_DEGRADED_USABLE = ''DEGRADED_USABLE''"
| "disposition_name OA_CONTEXT_ONLY = ''CONTEXT_ONLY''"
| "disposition_name OA_QUARANTINE = ''QUARANTINE''"

record ObservationAdmissionAssessment =
  oa_disposition :: ObservationAdmissionDisposition
  oa_reasonCodes :: "string list"
  oa_requiresCorroboration :: bool
  oa_usableForCurrentState :: bool

definition isFiniteNonNegative :: "js_num \<Rightarrow> bool" where
  "isFiniteNonNegative x \<longleftrightarrow> isFinite x \<and> num_le (Num 0) x"

definition hasValidDigest :: "string option \<Rightarrow> bool" where
  "hasValidDigest v = (case v of None \<Rightarrow> False | Some s \<Rightarrow> SHA256_HEX s)"

definition parseTimestamp :: "string \<Rightarrow> int option" where
  "parseTimestamp s = dateParse s"

text \<open>\<open>if (b) reasons.push(r)\<close>\<close>
definition reason_if :: "bool \<Rightarrow> string \<Rightarrow> string list" where
  "reason_if b r = (if b then [r] else [])"

text \<open>The reasons that follow from the time of capture.\<close>
definition capture_reasons :: "SensorObservationEnvelope \<Rightarrow> js_num \<Rightarrow> string list" where
  "capture_reasons ob now = (case parseTimestamp (ob_capturedAt ob) of None \<Rightarrow> []
     | Some t \<Rightarrow>
        (let captured = Num (of_int t);
             maxFutureSkewMs = num_max (Num 250) (num_add (tq_estimatedClockErrorMs (ob_timing ob)) (Num 250));
             expiry = num_add captured (tq_freshnessTtlMs (ob_timing ob))
         in reason_if (num_lt (num_add now maxFutureSkewMs) captured) ''CAPTURE_TIME_IN_FUTURE'' @
            reason_if (num_lt expiry now) ''STALE_OBSERVATION''))"

definition admission_reasons :: "SensorObservationEnvelope \<Rightarrow> js_num \<Rightarrow> string list" where
  "admission_reasons ob now = (let pv = ob_provenance ob; ti = ob_timing ob; he = ob_health ob; ca = ob_calibration ob in
     reason_if (ob_schema ob \<noteq> SENSOR_OBSERVATION_SCHEMA) ''UNSUPPORTED_SCHEMA'' @
     reason_if (trim (ob_observationId ob) = []) ''MISSING_OBSERVATION_ID'' @
     reason_if (trim (ob_sourceId ob) = []) ''MISSING_SOURCE_ID'' @
     reason_if (parseTimestamp (ob_capturedAt ob) = None \<or> parseTimestamp (ob_receivedAt ob) = None \<or>
       parseTimestamp (sh_assessedAt he) = None) ''INVALID_TIMESTAMP'' @
     reason_if (\<not> isSafeInteger (ob_sourceSequence ob) \<or> num_lt (ob_sourceSequence ob) (Num 0)) ''INVALID_SOURCE_SEQUENCE'' @
     reason_if (\<not> isFiniteNonNegative (tq_estimatedClockErrorMs ti)) ''INVALID_CLOCK_ERROR'' @
     reason_if (\<not> isFiniteNonNegative (tq_transportLatencyMs ti)) ''INVALID_TRANSPORT_LATENCY'' @
     reason_if (\<not> isSafeInteger (tq_freshnessTtlMs ti) \<or> num_le (tq_freshnessTtlMs ti) (Num 0)) ''INVALID_FRESHNESS_TTL'' @
     reason_if (\<not> num_between 0 1 (sh_score he)) ''INVALID_HEALTH_SCORE'' @
     reason_if (\<not> hasValidDigest (Some (sv_rawPayloadSha256 pv))) ''INVALID_RAW_PAYLOAD_DIGEST'' @
     reason_if (\<not> hasValidDigest (Some (sv_normalizedPayloadSha256 pv))) ''INVALID_NORMALIZED_PAYLOAD_DIGEST'' @
     reason_if (trim (sv_adapterName pv) = [] \<or> trim (sv_adapterVersion pv) = []) ''MISSING_ADAPTER_PROVENANCE'' @
     reason_if (trim (sv_jurisdiction pv) = []) ''MISSING_JURISDICTION'' @
     reason_if (trim (sv_purpose pv) = []) ''MISSING_PURPOSE'' @
     reason_if (ca_state ca = CS_VALID \<and> \<not> hasValidDigest (ca_calibrationDigest ca)) ''INVALID_CALIBRATION_DIGEST'' @
     capture_reasons ob now @
     reason_if (sh_state he = SH_QUARANTINED) ''SENSOR_QUARANTINED'' @
     reason_if (sh_state he = SH_UNAVAILABLE) ''SENSOR_UNAVAILABLE'' @
     reason_if (ca_state ca = CS_INVALID) ''CALIBRATION_INVALID'')"

definition hardFailureReasons :: "string list" where
  "hardFailureReasons = [''UNSUPPORTED_SCHEMA'', ''MISSING_OBSERVATION_ID'', ''MISSING_SOURCE_ID'', ''INVALID_TIMESTAMP'',
     ''INVALID_SOURCE_SEQUENCE'', ''INVALID_FRESHNESS_TTL'', ''INVALID_HEALTH_SCORE'', ''INVALID_RAW_PAYLOAD_DIGEST'',
     ''INVALID_NORMALIZED_PAYLOAD_DIGEST'', ''MISSING_ADAPTER_PROVENANCE'', ''MISSING_JURISDICTION'', ''MISSING_PURPOSE'',
     ''INVALID_CALIBRATION_DIGEST'', ''CAPTURE_TIME_IN_FUTURE'', ''SENSOR_QUARANTINED'', ''SENSOR_UNAVAILABLE'',
     ''CALIBRATION_INVALID'']"

definition assessSensorObservationAdmission :: "SensorObservationEnvelope \<Rightarrow> js_num \<Rightarrow> ObservationAdmissionAssessment" where
  "assessSensorObservationAdmission ob now = (let reasons = admission_reasons ob now in
     if list_ex (\<lambda>r. r \<in> set hardFailureReasons) reasons
     then \<lparr>oa_disposition = OA_QUARANTINE, oa_reasonCodes = reasons, oa_requiresCorroboration = True, oa_usableForCurrentState = False\<rparr>
     else if ''STALE_OBSERVATION'' \<in> set reasons
     then \<lparr>oa_disposition = OA_CONTEXT_ONLY, oa_reasonCodes = reasons, oa_requiresCorroboration = True, oa_usableForCurrentState = False\<rparr>
     else if sh_state (ob_health ob) = SH_DEGRADED \<or> ca_state (ob_calibration ob) = CS_STALE \<or>
         ca_state (ob_calibration ob) = CS_UNKNOWN \<or> sh_degradationCauses (ob_health ob) \<noteq> []
     then \<lparr>oa_disposition = OA_DEGRADED_USABLE, oa_reasonCodes = (if reasons \<noteq> [] then reasons else [''SENSOR_DEGRADED'']),
       oa_requiresCorroboration = True, oa_usableForCurrentState = True\<rparr>
     else \<lparr>oa_disposition = OA_ACCEPT, oa_reasonCodes = reasons, oa_requiresCorroboration = False, oa_usableForCurrentState = True\<rparr>)"

section \<open>Leases and claims\<close>

definition EPISTEMIC_INDEPENDENCE_LEASE_SCHEMA :: string where
  "EPISTEMIC_INDEPENDENCE_LEASE_SCHEMA = ''ros.epistemic-independence-lease/v1''"

record EpistemicIndependenceLease =
  il_schema :: string
  il_leaseId :: string
  il_independenceClassDigest :: string
  il_observationIds :: "string list"
  il_purpose :: string
  il_jurisdiction :: string
  il_eventEpoch :: string
  il_objectBinding :: string
  il_roadStateDigest :: string
  il_sourceLineageDigest :: string
  il_issuedAt :: string
  il_expiresAt :: string
  il_authority :: string

definition lease_times :: "EpistemicIndependenceLease \<Rightarrow> js_num \<Rightarrow> string list" where
  "lease_times l now = (case (dateParse (il_issuedAt l), dateParse (il_expiresAt l)) of
     (Some issued, Some expires) \<Rightarrow>
        reason_if (num_lt (num_add now (Num 1000)) (Num (of_int issued))) ''LEASE_FROM_FUTURE'' @
        reason_if (num_le (Num (of_int expires)) now) ''LEASE_EXPIRED'' @
        reason_if (expires \<le> issued) ''INVALID_LEASE_WINDOW''
   | _ \<Rightarrow> [''INVALID_LEASE_TIME''])"

definition validateEpistemicIndependenceLease :: "EpistemicIndependenceLease \<Rightarrow> js_num \<Rightarrow> string list" where
  "validateEpistemicIndependenceLease l now =
     reason_if (il_schema l \<noteq> EPISTEMIC_INDEPENDENCE_LEASE_SCHEMA) ''UNSUPPORTED_SCHEMA'' @
     reason_if (trim (il_leaseId l) = []) ''MISSING_LEASE_ID'' @
     reason_if (\<not> SHA256_HEX (il_independenceClassDigest l)) ''INVALID_INDEPENDENCE_CLASS_DIGEST'' @
     reason_if (\<not> SHA256_HEX (il_roadStateDigest l)) ''INVALID_ROAD_STATE_DIGEST'' @
     reason_if (\<not> SHA256_HEX (il_sourceLineageDigest l)) ''INVALID_SOURCE_LINEAGE_DIGEST'' @
     reason_if (il_observationIds l = []) ''MISSING_OBSERVATION_BINDING'' @
     reason_if (trim (il_purpose l) = []) ''MISSING_PURPOSE'' @
     reason_if (trim (il_jurisdiction l) = []) ''MISSING_JURISDICTION'' @
     reason_if (trim (il_eventEpoch l) = []) ''MISSING_EVENT_EPOCH'' @
     reason_if (trim (il_objectBinding l) = []) ''MISSING_OBJECT_BINDING'' @
     reason_if (il_authority l \<noteq> ''NONE'') ''AUTHORITY_IMPORT_FORBIDDEN'' @
     lease_times l now"

datatype EvidenceClaimValue = CV_PRESENT | CV_ABSENT | CV_UNKNOWN

record EvidenceClaim =
  ec_claimId :: string
  ec_observationId :: string
  ec_objectBinding :: string
  ec_claimType :: string
  ec_value :: EvidenceClaimValue
  ec_confidence :: js_num

datatype EvidenceAssuranceDecision = ED_CORROBORATED | ED_INSUFFICIENT_INDEPENDENCE | ED_CONTRADICTED | ED_ABSTAIN

record EvidenceAssuranceResult =
  ea_objectBinding :: string
  ea_claimType :: string
  ea_decision :: EvidenceAssuranceDecision
  ea_effectiveIndependentEvidence :: nat
  ea_rawClaimCount :: nat
  ea_supportingIndependenceClasses :: "string list"
  ea_contradictingIndependenceClasses :: "string list"
  ea_reasonCodes :: "string list"
  ea_authority :: string

record EvidenceAssuranceInput =
  ei_trustedNowEpochMs :: js_num
  ei_purpose :: string
  ei_jurisdiction :: string
  ei_eventEpoch :: string
  ei_roadStateDigest :: string
  ei_objectBinding :: string
  ei_claimType :: string
  ei_minimumIndependentEvidence :: js_num
  ei_observations :: "SensorObservationEnvelope list"
  ei_leases :: "EpistemicIndependenceLease list"
  ei_claims :: "EvidenceClaim list"

record QualifiedClaim =
  qc_claim :: EvidenceClaim
  qc_independenceClassDigest :: string

text \<open>The map from identifier to observation: the first one of an identifier counts.\<close>
definition observation_named :: "SensorObservationEnvelope list \<Rightarrow> string \<Rightarrow> SensorObservationEnvelope option" where
  "observation_named observations i = find (\<lambda>ob. ob_observationId ob = i) observations"

definition lease_context :: "EvidenceAssuranceInput \<Rightarrow> EpistemicIndependenceLease \<Rightarrow> bool" where
  "lease_context i l \<longleftrightarrow> il_purpose l = ei_purpose i \<and> il_jurisdiction l = ei_jurisdiction i \<and> il_eventEpoch l = ei_eventEpoch i \<and>
     il_roadStateDigest l = ei_roadStateDigest i \<and> il_objectBinding l = ei_objectBinding i"

definition lease_refused :: "EvidenceAssuranceInput \<Rightarrow> EpistemicIndependenceLease \<Rightarrow> string option" where
  "lease_refused i l = (if validateEpistemicIndependenceLease l (ei_trustedNowEpochMs i) \<noteq> [] then Some ''INVALID_OR_EXPIRED_LEASE''
     else if \<not> lease_context i l then Some ''LEASE_CONTEXT_MISMATCH'' else None)"

text \<open>The leases of an observation.\<close>
definition matchingLeases :: "EvidenceAssuranceInput \<Rightarrow> string \<Rightarrow> EpistemicIndependenceLease list" where
  "matchingLeases i observationId =
     filter (\<lambda>l. lease_refused i l = None \<and> observationId \<in> set (il_observationIds l)) (ei_leases i)"

text \<open>One round of the loop over the claims: the reason a claim is passed over, or the claim with its class.\<close>
definition qualify :: "EvidenceAssuranceInput \<Rightarrow> EvidenceClaim \<Rightarrow> string + QualifiedClaim" where
  "qualify i c =
     (if ec_objectBinding c \<noteq> ei_objectBinding i \<or> ec_claimType c \<noteq> ei_claimType i then Inl ''CLAIM_CONTEXT_MISMATCH''
      else if \<not> num_between 0 1 (ec_confidence c) then Inl ''INVALID_CLAIM_CONFIDENCE''
      else case observation_named (ei_observations i) (ec_observationId c) of None \<Rightarrow> Inl ''CLAIM_OBSERVATION_NOT_FOUND''
      | Some ob \<Rightarrow>
        (let admission = assessSensorObservationAdmission ob (ei_trustedNowEpochMs i) in
         if \<not> oa_usableForCurrentState admission then Inl (''OBSERVATION_'' @ disposition_name (oa_disposition admission))
         else if matchingLeases i (ec_observationId c) = [] then Inl ''NO_INDEPENDENCE_LEASE''
         else case set_of_list (map il_independenceClassDigest (matchingLeases i (ec_observationId c))) of
           [class_digest] \<Rightarrow> Inr \<lparr>qc_claim = c, qc_independenceClassDigest = class_digest\<rparr>
         | _ \<Rightarrow> Inl ''AMBIGUOUS_INDEPENDENCE_BINDING''))"

fun lefts :: "('a + 'b) list \<Rightarrow> 'a list" where
  "lefts [] = []"
| "lefts (Inl a # xs) = a # lefts xs"
| "lefts (Inr b # xs) = lefts xs"

fun rights :: "('a + 'b) list \<Rightarrow> 'b list" where
  "rights [] = []"
| "rights (Inl a # xs) = rights xs"
| "rights (Inr b # xs) = b # rights xs"

lemma set_rights: "b \<in> set (rights xs) \<longleftrightarrow> Inr b \<in> set xs"
  by (induction xs rule: rights.induct) auto

definition values_of_class :: "QualifiedClaim list \<Rightarrow> string \<Rightarrow> EvidenceClaimValue list" where
  "values_of_class qualified k = set_of_list (map (\<lambda>q. ec_value (qc_claim q)) (filter (\<lambda>q. qc_independenceClassDigest q = k) qualified))"

definition material_values :: "QualifiedClaim list \<Rightarrow> string \<Rightarrow> EvidenceClaimValue list" where
  "material_values qualified k = filter (\<lambda>v. v \<noteq> CV_UNKNOWN) (values_of_class qualified k)"

definition class_digests :: "QualifiedClaim list \<Rightarrow> string list" where
  "class_digests qualified = set_of_list (map qc_independenceClassDigest qualified)"

definition duplicate_ids :: "SensorObservationEnvelope list \<Rightarrow> bool" where
  "duplicate_ids observations \<longleftrightarrow> \<not> distinct (map ob_observationId observations)"

text \<open>The reasons of the leases that were passed over.\<close>
definition lease_reasons :: "EvidenceAssuranceInput \<Rightarrow> string list" where
  "lease_reasons i = List.map_filter (lease_refused i) (ei_leases i)"

text \<open>The classes whose only material value is \<open>v\<close>.\<close>
definition classes_claiming :: "EvidenceClaimValue \<Rightarrow> QualifiedClaim list \<Rightarrow> string list" where
  "classes_claiming v quals = sort (filter (\<lambda>k. material_values quals k = [v]) (class_digests quals))"

definition assurance_decision :: "int \<Rightarrow> string list \<Rightarrow> string list \<Rightarrow> EvidenceAssuranceDecision" where
  "assurance_decision minimum supporting contradicting =
     (if supporting \<noteq> [] \<and> contradicting \<noteq> [] then ED_CONTRADICTED
      else if minimum \<le> int (length supporting) then ED_CORROBORATED
      else ED_INSUFFICIENT_INDEPENDENCE)"

definition assessEvidenceClaims :: "EvidenceAssuranceInput \<Rightarrow> string + EvidenceAssuranceResult" where
  "assessEvidenceClaims i =
     (if \<not> isSafeInteger (ei_minimumIndependentEvidence i) \<or> num_lt (ei_minimumIndependentEvidence i) (Num 1)
      then Inl ''INVALID_MINIMUM_INDEPENDENT_EVIDENCE''
      else let outcomes = map (qualify i) (ei_claims i);
        quals = rights outcomes;
        divided = filter (\<lambda>k. 1 < length (material_values quals k)) (class_digests quals);
        supporting = classes_claiming CV_PRESENT quals;
        contradicting = classes_claiming CV_ABSENT quals;
        reasons = reason_if (duplicate_ids (ei_observations i)) ''DUPLICATE_OBSERVATION_ID'' @ lease_reasons i @ lefts outcomes @
          reason_if (divided \<noteq> []) ''INTRA_CLASS_CONTRADICTION'';
        decision = assurance_decision (int_of_num (ei_minimumIndependentEvidence i)) supporting contradicting
      in Inr \<lparr>ea_objectBinding = ei_objectBinding i, ea_claimType = ei_claimType i, ea_decision = decision,
        ea_effectiveIndependentEvidence = length (set_of_list (supporting @ contradicting)),
        ea_rawClaimCount = length (ei_claims i), ea_supportingIndependenceClasses = supporting,
        ea_contradictingIndependenceClasses = contradicting,
        ea_reasonCodes = uniqueSorted (reasons @ reason_if (decision = ED_CONTRADICTED) ''MATERIAL_CONTRADICTION'' @
          reason_if (decision = ED_INSUFFICIENT_INDEPENDENCE) ''INSUFFICIENT_INDEPENDENT_EVIDENCE''),
        ea_authority = ''NONE''\<rparr>)"

section \<open>What an admission means\<close>

lemma in_reason_if [simp]: "x \<in> set (reason_if b r) \<longleftrightarrow> b \<and> x = r"
  by (auto simp: reason_if_def)

lemma reason_if_Nil [simp]: "reason_if b r = [] \<longleftrightarrow> \<not> b"
  by (simp add: reason_if_def)

lemma usable_reasons:
  "oa_usableForCurrentState (assessSensorObservationAdmission ob now) \<Longrightarrow>
    (\<forall>r \<in> set (admission_reasons ob now). r \<notin> set hardFailureReasons) \<and> ''STALE_OBSERVATION'' \<notin> set (admission_reasons ob now)"
  by (auto simp: assessSensorObservationAdmission_def list_ex_iff Let_def split: if_splits)

lemma hard_reason:
  assumes "oa_usableForCurrentState (assessSensorObservationAdmission ob now)" "r \<in> set hardFailureReasons"
  shows "r \<notin> set (admission_reasons ob now)"
  using usable_reasons [OF assms(1)] assms(2) by blast

lemma capture_in_reasons: "set (capture_reasons ob now) \<subseteq> set (admission_reasons ob now)"
  by (auto simp: admission_reasons_def Let_def)

lemma usable_observation:
  assumes "oa_usableForCurrentState (assessSensorObservationAdmission ob now)"
  shows "ob_schema ob = SENSOR_OBSERVATION_SCHEMA"
    and "SHA256_HEX (sv_rawPayloadSha256 (ob_provenance ob))" "SHA256_HEX (sv_normalizedPayloadSha256 (ob_provenance ob))"
    and "sh_state (ob_health ob) \<noteq> SH_QUARANTINED" "sh_state (ob_health ob) \<noteq> SH_UNAVAILABLE"
    and "ca_state (ob_calibration ob) \<noteq> CS_INVALID"
proof -
  note hard = hard_reason [OF assms]
  have "''UNSUPPORTED_SCHEMA'' \<notin> set (admission_reasons ob now)" by (rule hard) (simp add: hardFailureReasons_def)
  then show "ob_schema ob = SENSOR_OBSERVATION_SCHEMA" by (auto simp: admission_reasons_def Let_def)
  have "''INVALID_RAW_PAYLOAD_DIGEST'' \<notin> set (admission_reasons ob now)" by (rule hard) (simp add: hardFailureReasons_def)
  then show "SHA256_HEX (sv_rawPayloadSha256 (ob_provenance ob))" by (auto simp: admission_reasons_def Let_def hasValidDigest_def)
  have "''INVALID_NORMALIZED_PAYLOAD_DIGEST'' \<notin> set (admission_reasons ob now)" by (rule hard) (simp add: hardFailureReasons_def)
  then show "SHA256_HEX (sv_normalizedPayloadSha256 (ob_provenance ob))" by (auto simp: admission_reasons_def Let_def hasValidDigest_def)
  have "''SENSOR_QUARANTINED'' \<notin> set (admission_reasons ob now)" by (rule hard) (simp add: hardFailureReasons_def)
  then show "sh_state (ob_health ob) \<noteq> SH_QUARANTINED" by (auto simp: admission_reasons_def Let_def)
  have "''SENSOR_UNAVAILABLE'' \<notin> set (admission_reasons ob now)" by (rule hard) (simp add: hardFailureReasons_def)
  then show "sh_state (ob_health ob) \<noteq> SH_UNAVAILABLE" by (auto simp: admission_reasons_def Let_def)
  have "''CALIBRATION_INVALID'' \<notin> set (admission_reasons ob now)" by (rule hard) (simp add: hardFailureReasons_def)
  then show "ca_state (ob_calibration ob) \<noteq> CS_INVALID" by (auto simp: admission_reasons_def Let_def)
qed

lemma usable_times:
  assumes "oa_usableForCurrentState (assessSensorObservationAdmission ob (Num now))"
  obtains t ttl where "dateParse (ob_capturedAt ob) = Some t" "tq_freshnessTtlMs (ob_timing ob) = Num (of_int ttl)"
    "1 \<le> ttl" "ttl \<le> max_safe" "now \<le> of_int (t + ttl)"
    "\<And>e. tq_estimatedClockErrorMs (ob_timing ob) = Num e \<Longrightarrow> of_int t \<le> now + max 250 (e + 250)"
proof -
  note hard = hard_reason [OF assms]
  have "''INVALID_TIMESTAMP'' \<notin> set (admission_reasons ob (Num now))" by (rule hard) (simp add: hardFailureReasons_def)
  then have "dateParse (ob_capturedAt ob) \<noteq> None" by (auto simp: admission_reasons_def Let_def parseTimestamp_def)
  then obtain t where t: "dateParse (ob_capturedAt ob) = Some t" by blast
  have "''INVALID_FRESHNESS_TTL'' \<notin> set (admission_reasons ob (Num now))" by (rule hard) (simp add: hardFailureReasons_def)
  then have "isSafeInteger (tq_freshnessTtlMs (ob_timing ob)) \<and> \<not> num_le (tq_freshnessTtlMs (ob_timing ob)) (Num 0)"
    by (auto simp: admission_reasons_def Let_def)
  then obtain ttl where ttl: "tq_freshnessTtlMs (ob_timing ob) = Num (of_int ttl)" "1 \<le> ttl" "ttl \<le> max_safe"
    by (auto simp: isSafeInteger_iff num_le_def)
  have "''STALE_OBSERVATION'' \<notin> set (capture_reasons ob (Num now))"
    using usable_reasons [OF assms] capture_in_reasons by blast
  then have fresh: "now \<le> of_int (t + ttl)"
    by (auto simp: capture_reasons_def parseTimestamp_def t ttl Let_def not_less split: if_splits)
  have "''CAPTURE_TIME_IN_FUTURE'' \<notin> set (admission_reasons ob (Num now))" by (rule hard) (simp add: hardFailureReasons_def)
  then have "''CAPTURE_TIME_IN_FUTURE'' \<notin> set (capture_reasons ob (Num now))" using capture_in_reasons by blast
  then have "of_int t \<le> now + max 250 (e + 250)" if "tq_estimatedClockErrorMs (ob_timing ob) = Num e" for e
    using that by (auto simp: capture_reasons_def parseTimestamp_def t num_max_def Let_def not_less max_def split: if_splits)
  then show thesis using that [OF t ttl fresh] by blast
qed

lemma lease_valid:
  assumes "validateEpistemicIndependenceLease l (Num now) = []"
  obtains issued expires where "dateParse (il_issuedAt l) = Some issued" "dateParse (il_expiresAt l) = Some expires"
    "of_int issued \<le> now + 1000" "now < of_int expires" "issued < expires" "SHA256_HEX (il_independenceClassDigest l)"
    "il_authority l = ''NONE''"
proof -
  have times: "lease_times l (Num now) = []" "SHA256_HEX (il_independenceClassDigest l)" "il_authority l = ''NONE''"
    using assms by (simp_all add: validateEpistemicIndependenceLease_def)
  from times(1) obtain issued expires where "dateParse (il_issuedAt l) = Some issued" "dateParse (il_expiresAt l) = Some expires"
    "of_int issued \<le> now + 1000" "now < of_int expires" "issued < expires"
    by (auto simp: lease_times_def num_le_def not_less not_le split: option.splits)
  then show thesis using that times(2,3) by blast
qed

section \<open>Independent evidence\<close>

text \<open>A claim counts for a class: it is on the object and claim type, its observation is usable now, and a valid lease of
  the context binds the observation to the class.\<close>
definition counts_for :: "EvidenceAssuranceInput \<Rightarrow> EvidenceClaim \<Rightarrow> string \<Rightarrow> bool" where
  "counts_for i c k \<longleftrightarrow> c \<in> set (ei_claims i) \<and> ec_objectBinding c = ei_objectBinding i \<and> ec_claimType c = ei_claimType i \<and>
     (\<exists>ob \<in> set (ei_observations i). ob_observationId ob = ec_observationId c \<and>
       oa_usableForCurrentState (assessSensorObservationAdmission ob (ei_trustedNowEpochMs i))) \<and>
     (\<exists>l \<in> set (ei_leases i). validateEpistemicIndependenceLease l (ei_trustedNowEpochMs i) = [] \<and> lease_context i l \<and>
       ec_observationId c \<in> set (il_observationIds l) \<and> il_independenceClassDigest l = k)"

lemma lease_refused_None: "lease_refused i l = None \<longleftrightarrow>
    validateEpistemicIndependenceLease l (ei_trustedNowEpochMs i) = [] \<and> lease_context i l"
  by (auto simp: lease_refused_def)

lemma qualify_counts:
  assumes "qualify i c = Inr q" "c \<in> set (ei_claims i)"
  shows "qc_claim q = c \<and> counts_for i c (qc_independenceClassDigest q)"
proof -
  from assms(1) obtain ob where c: "ec_objectBinding c = ei_objectBinding i" "ec_claimType c = ei_claimType i"
    and ob: "observation_named (ei_observations i) (ec_observationId c) = Some ob"
      "oa_usableForCurrentState (assessSensorObservationAdmission ob (ei_trustedNowEpochMs i))"
    and single: "set_of_list (map il_independenceClassDigest (matchingLeases i (ec_observationId c))) = [qc_independenceClassDigest q]"
    and q: "qc_claim q = c"
    by (auto simp: qualify_def Let_def split: if_splits option.splits list.splits)
  have "qc_independenceClassDigest q \<in> set (set_of_list (map il_independenceClassDigest (matchingLeases i (ec_observationId c))))"
    unfolding single by simp
  then have "\<exists>l \<in> set (matchingLeases i (ec_observationId c)). il_independenceClassDigest l = qc_independenceClassDigest q" by auto
  then have lease: "\<exists>l \<in> set (ei_leases i). validateEpistemicIndependenceLease l (ei_trustedNowEpochMs i) = [] \<and> lease_context i l \<and>
       ec_observationId c \<in> set (il_observationIds l) \<and> il_independenceClassDigest l = qc_independenceClassDigest q"
    by (auto simp: matchingLeases_def lease_refused_None)
  have "ob \<in> set (ei_observations i) \<and> ob_observationId ob = ec_observationId c"
    using ob(1) by (auto simp: observation_named_def find_Some_iff)
  then show ?thesis using assms(2) c ob(2) lease q by (auto simp: counts_for_def)
qed

lemma material_single:
  assumes "material_values qualified k = [v]"
  shows "\<exists>q \<in> set qualified. qc_independenceClassDigest q = k \<and> ec_value (qc_claim q) = v"
    and "\<forall>q \<in> set qualified. qc_independenceClassDigest q = k \<longrightarrow> ec_value (qc_claim q) = v \<or> ec_value (qc_claim q) = CV_UNKNOWN"
proof -
  have mem: "w \<in> set (material_values qualified k) \<longleftrightarrow>
      w \<noteq> CV_UNKNOWN \<and> (\<exists>q \<in> set qualified. qc_independenceClassDigest q = k \<and> ec_value (qc_claim q) = w)" for w
    by (auto simp: material_values_def values_of_class_def)
  show "\<exists>q \<in> set qualified. qc_independenceClassDigest q = k \<and> ec_value (qc_claim q) = v"
    using mem [of v] assms by simp
  show "\<forall>q \<in> set qualified. qc_independenceClassDigest q = k \<longrightarrow> ec_value (qc_claim q) = v \<or> ec_value (qc_claim q) = CV_UNKNOWN"
    using mem assms by (metis list.set_intros(1) set_ConsD empty_iff empty_set)
qed


section \<open>Samples\<close>

definition hex_text :: "char \<Rightarrow> string" where
  "hex_text c = replicate 64 c"

definition sample_observation :: "string \<Rightarrow> string \<Rightarrow> js_num \<Rightarrow> SensorObservationEnvelope" where
  "sample_observation name captured clockError = \<lparr>ob_schema = SENSOR_OBSERVATION_SCHEMA, ob_observationId = name,
     ob_sourceId = ''camera-1'', ob_sourceClass = ''RGB_CAMERA'', ob_capturedAt = captured, ob_receivedAt = captured,
     ob_sourceSequence = Num 1,
     ob_timing = \<lparr>tq_estimatedClockErrorMs = clockError, tq_transportLatencyMs = Num 5, tq_freshnessTtlMs = Num 60000, tq_timeSource = ''gnss''\<rparr>,
     ob_calibration = \<lparr>ca_state = CS_VALID, ca_calibrationDigest = Some (hex_text CHR ''a'')\<rparr>,
     ob_health = \<lparr>sh_state = SH_HEALTHY, sh_score = Num 1, sh_degradationCauses = [], sh_assessedAt = captured\<rparr>,
     ob_provenance = \<lparr>sv_adapterName = ''adapter'', sv_adapterVersion = ''1'', sv_rawPayloadSha256 = hex_text CHR ''b'',
       sv_normalizedPayloadSha256 = hex_text CHR ''c'', sv_jurisdiction = ''SA'', sv_purpose = ''road-safety''\<rparr>,
     ob_payload = OTHER_PAYLOAD ''CAMERA_FRAME''\<rparr>"

text \<open>2026-01-01T00:00:00Z\<close>
definition sample_now :: js_num where
  "sample_now = Num 1767225600000"

definition sample_independence_lease :: "string \<Rightarrow> string \<Rightarrow> char \<Rightarrow> EpistemicIndependenceLease" where
  "sample_independence_lease name object c = \<lparr>il_schema = EPISTEMIC_INDEPENDENCE_LEASE_SCHEMA, il_leaseId = ''lease-'' @ name,
     il_independenceClassDigest = hex_text c, il_observationIds = [name], il_purpose = ''road-safety'', il_jurisdiction = ''SA'',
     il_eventEpoch = ''epoch-1'', il_objectBinding = object, il_roadStateDigest = hex_text CHR ''d'',
     il_sourceLineageDigest = hex_text CHR ''e'', il_issuedAt = ''2025-12-31T23:59:00Z'', il_expiresAt = ''2026-01-01T00:05:00Z'',
     il_authority = ''NONE''\<rparr>"

definition sample_claim :: "string \<Rightarrow> EvidenceClaim" where
  "sample_claim name = \<lparr>ec_claimId = ''claim-'' @ name, ec_observationId = name, ec_objectBinding = ''track-1'',
     ec_claimType = ''VEHICLE'', ec_value = CV_PRESENT, ec_confidence = Num (9 / 10)\<rparr>"

definition sample_assurance :: EvidenceAssuranceInput where
  "sample_assurance = \<lparr>ei_trustedNowEpochMs = sample_now, ei_purpose = ''road-safety'', ei_jurisdiction = ''SA'',
     ei_eventEpoch = ''epoch-1'', ei_roadStateDigest = hex_text CHR ''d'', ei_objectBinding = ''track-1'', ei_claimType = ''VEHICLE'',
     ei_minimumIndependentEvidence = Num 2,
     ei_observations = [sample_observation ''ob-1'' ''2025-12-31T23:59:30Z'' (Num 5), sample_observation ''ob-2'' ''2025-12-31T23:59:40Z'' (Num 5)],
     ei_leases = [sample_independence_lease ''ob-1'' ''track-1'' CHR ''1'', sample_independence_lease ''ob-2'' ''track-1'' CHR ''2''],
     ei_claims = [sample_claim ''ob-1'', sample_claim ''ob-2'']\<rparr>"

lemma perception_digests: "SHA256_HEX (hex_text c) \<longleftrightarrow> is_lower_hex c"
  by (simp add: SHA256_HEX_def hex_text_def list_all_iff)

lemma perception_hex: "is_lower_hex CHR ''a''" "is_lower_hex CHR ''b''" "is_lower_hex CHR ''c''" "is_lower_hex CHR ''d''"
  "is_lower_hex CHR ''e''" "is_lower_hex CHR ''1''" "is_lower_hex CHR ''2''"
  by (simp_all add: is_lower_hex_def is_digit_def code_unit_def)

lemma perception_texts: "trim ''camera-1'' \<noteq> []" "trim ''adapter'' \<noteq> []" "trim ''1'' \<noteq> []" "trim ''SA'' \<noteq> []"
  "trim ''road-safety'' \<noteq> []" "trim ''ob-1'' \<noteq> []" "trim ''ob-2'' \<noteq> []" "trim ''epoch-1'' \<noteq> []" "trim ''track-1'' \<noteq> []"
  "trim ''lease-ob-1'' \<noteq> []" "trim ''lease-ob-2'' \<noteq> []"
  by (simp_all add: trim_def is_space_def code_unit_def)

lemma perception_times:
  "dateParse ''2025-12-31T23:59:00Z'' = Some 1767225540000" "dateParse ''2025-12-31T23:59:30Z'' = Some 1767225570000"
  "dateParse ''2025-12-31T23:59:40Z'' = Some 1767225580000" "dateParse ''2026-01-01T00:05:00Z'' = Some 1767225900000"
  "dateParse ''2030-01-01T00:00:00Z'' = Some 1893456000000"
  by code_simp+

text \<open>A clock error that is no number is a reason but not a failure, and it switches the check of the future off: an
  observation captured four years from now is accepted.\<close>
lemma future_observation_accepted:
  "oa_disposition (assessSensorObservationAdmission (sample_observation ''ob-1'' ''2030-01-01T00:00:00Z'' NaN) sample_now) = OA_ACCEPT"
  by (simp add: assessSensorObservationAdmission_def admission_reasons_def capture_reasons_def reason_if_def parseTimestamp_def
      sample_observation_def sample_now_def perception_digests perception_hex perception_texts perception_times hasValidDigest_def max_safe_def
      num_max_def num_le_def isFiniteNonNegative_def hardFailureReasons_def Let_def)

lemma sample_admitted:
  assumes "dateParse captured = Some t" "1767225550000 \<le> t" "t \<le> 1767225600000" "trim name \<noteq> []"
  shows "assessSensorObservationAdmission (sample_observation name captured (Num 5)) sample_now =
    \<lparr>oa_disposition = OA_ACCEPT, oa_reasonCodes = [], oa_requiresCorroboration = False, oa_usableForCurrentState = True\<rparr>"
proof -
  have "(of_int t :: rat) \<le> 1767225600000" "(1767225550000 :: rat) \<le> of_int t" using assms(2,3)
    by (metis of_int_le_iff of_int_numeral)+
  then have t: "\<not> 1767225600000 + max 250 255 < (of_int t :: rat)" "\<not> (of_int t :: rat) + 60000 < 1767225600000" by simp_all
  show ?thesis using t
    by (simp add: assessSensorObservationAdmission_def admission_reasons_def capture_reasons_def reason_if_def parseTimestamp_def
      sample_observation_def sample_now_def perception_digests perception_hex perception_texts assms(1,4) hasValidDigest_def max_safe_def
      num_max_def num_le_def isFiniteNonNegative_def hardFailureReasons_def Let_def)
qed

lemma sample_lease_valid:
  assumes "is_lower_hex c" "trim (''lease-'' @ name) \<noteq> []" "trim object \<noteq> []"
  shows "validateEpistemicIndependenceLease (sample_independence_lease name object c) sample_now = []"
  using assms by (simp add: validateEpistemicIndependenceLease_def sample_independence_lease_def lease_times_def reason_if_def
      perception_digests perception_hex perception_texts perception_times sample_now_def num_le_def)

lemma sample_qualified:
  "qualify sample_assurance (sample_claim ''ob-1'') = Inr \<lparr>qc_claim = sample_claim ''ob-1'', qc_independenceClassDigest = hex_text CHR ''1''\<rparr>"
  "qualify sample_assurance (sample_claim ''ob-2'') = Inr \<lparr>qc_claim = sample_claim ''ob-2'', qc_independenceClassDigest = hex_text CHR ''2''\<rparr>"
proof -
  have obs: "observation_named (ei_observations sample_assurance) ''ob-1'' = Some (sample_observation ''ob-1'' ''2025-12-31T23:59:30Z'' (Num 5))"
    "observation_named (ei_observations sample_assurance) ''ob-2'' = Some (sample_observation ''ob-2'' ''2025-12-31T23:59:40Z'' (Num 5))"
    by (simp_all add: observation_named_def sample_assurance_def sample_observation_def)
  have none: "lease_refused sample_assurance (sample_independence_lease ''ob-1'' ''track-1'' CHR ''1'') = None"
    "lease_refused sample_assurance (sample_independence_lease ''ob-2'' ''track-1'' CHR ''2'') = None"
    using sample_lease_valid [of "CHR ''1''" "''ob-1''" "''track-1''"] sample_lease_valid [of "CHR ''2''" "''ob-2''" "''track-1''"]
    by (simp_all add: lease_refused_def lease_context_def perception_hex perception_texts) (simp_all add: sample_assurance_def sample_independence_lease_def)
  have leases: "matchingLeases sample_assurance ''ob-1'' = [sample_independence_lease ''ob-1'' ''track-1'' CHR ''1'']"
    "matchingLeases sample_assurance ''ob-2'' = [sample_independence_lease ''ob-2'' ''track-1'' CHR ''2'']"
    using none by (simp_all add: matchingLeases_def sample_assurance_def sample_independence_lease_def)
  have now: "ei_trustedNowEpochMs sample_assurance = sample_now" by (simp add: sample_assurance_def)
  show "qualify sample_assurance (sample_claim ''ob-1'') = Inr \<lparr>qc_claim = sample_claim ''ob-1'', qc_independenceClassDigest = hex_text CHR ''1''\<rparr>"
    "qualify sample_assurance (sample_claim ''ob-2'') = Inr \<lparr>qc_claim = sample_claim ''ob-2'', qc_independenceClassDigest = hex_text CHR ''2''\<rparr>"
    by (simp_all add: qualify_def sample_claim_def obs leases now sample_admitted perception_times perception_texts set_of_list_def)
      (simp_all add: sample_assurance_def sample_independence_lease_def)
qed

lemma sample_corroborated: "\<exists>r. assessEvidenceClaims sample_assurance = Inr r \<and> ea_decision r = ED_CORROBORATED"
proof -
  let ?quals = "rights (map (qualify sample_assurance) (ei_claims sample_assurance))"
  have claims: "ei_claims sample_assurance = [sample_claim ''ob-1'', sample_claim ''ob-2'']"
    and least: "ei_minimumIndependentEvidence sample_assurance = Num 2" by (simp_all add: sample_assurance_def)
  have classes: "hex_text CHR ''1'' \<noteq> hex_text CHR ''2''" by (simp add: hex_text_def)
  have quals: "?quals = [\<lparr>qc_claim = sample_claim ''ob-1'', qc_independenceClassDigest = hex_text CHR ''1''\<rparr>,
      \<lparr>qc_claim = sample_claim ''ob-2'', qc_independenceClassDigest = hex_text CHR ''2''\<rparr>]"
    by (simp add: claims sample_qualified)
  have present: "ec_value (sample_claim name) = CV_PRESENT" for name by (simp add: sample_claim_def)
  have "class_digests ?quals = [hex_text CHR ''1'', hex_text CHR ''2'']"
    "\<And>k. k = hex_text CHR ''1'' \<or> k = hex_text CHR ''2'' \<Longrightarrow> material_values ?quals k = [CV_PRESENT]"
    using classes by (auto simp: quals present class_digests_def set_of_list_def material_values_def values_of_class_def)
  then have "length (classes_claiming CV_PRESENT ?quals) = 2" "classes_claiming CV_ABSENT ?quals = []"
    by (simp_all add: classes_claiming_def)
  then have "assurance_decision 2 (classes_claiming CV_PRESENT ?quals) (classes_claiming CV_ABSENT ?quals) = ED_CORROBORATED"
    by (simp add: assurance_decision_def)
  then show ?thesis by (simp add: assessEvidenceClaims_def least max_safe_def Let_def)
qed


end
