(* ===== verification/RoadState.thy ===== *)
theory RoadState
  imports Perception
begin

text \<open>
  The cognitive road state and what is recommended on it
  (\<open>packages/contracts/src/cognitive-road-state.ts\<close>, \<open>apps/api/src/perception/spatial-counterfactual.ts\<close>): the
  lexicographic order of the protected outcomes, the check of the candidates and the choice of one.
  \<open>localeCompare\<close> is the parameter \<open>collate\<close>. The geometry of conflicts rests on square roots of doubles and
  is left out.
\<close>

section \<open>The state\<close>

definition COGNITIVE_ROAD_STATE_SCHEMA :: string where
  "COGNITIVE_ROAD_STATE_SCHEMA = ''ros.cognitive-road-state/v1''"

datatype EpistemicState = ES_CORROBORATED | ES_UNCERTAIN | ES_CONTRADICTED | ES_UNKNOWN

record CognitiveEntity =
  en_entityId :: string
  en_entityClass :: string
  en_state :: EstimatedKinematicState
  en_laneId :: "string option"
  en_roadSegmentId :: "string option"
  en_supportingObservationIds :: "string list"
  en_contradictingObservationIds :: "string list"
  en_confidence :: js_num
  en_epistemicState :: EpistemicState
  en_validUntil :: string

record CognitiveContradiction =
  ct_contradictionId :: string
  ct_observationIds :: "string list"
  ct_material :: bool
  ct_reason :: string

record EpistemicSummary =
  es_known :: "string list"
  es_uncertain :: "string list"
  es_unknown :: "string list"

text \<open>The hazards, which no service computes, and the constant parts of the state are left out.\<close>
record CognitiveRoadState =
  rs_schema :: string
  rs_crsId :: string
  rs_zoneId :: string
  rs_stateTime :: string
  rs_validUntil :: string
  rs_stateDigest :: string
  rs_sensorHealthDigest :: string
  rs_entities :: "CognitiveEntity list"
  rs_environment :: "(string \<times> json) list"
  rs_evidenceObservationIds :: "string list"
  rs_contradictions :: "CognitiveContradiction list"
  rs_epistemicSummary :: EpistemicSummary

definition cognitiveStateRequiresAbstention :: "CognitiveRoadState \<Rightarrow> bool" where
  "cognitiveStateRequiresAbstention s \<longleftrightarrow> list_ex ct_material (rs_contradictions s) \<or>
     list_ex (\<lambda>e. en_epistemicState e = ES_CONTRADICTED) (rs_entities s)"

section \<open>Candidates\<close>

record ProtectedOutcomeVector =
  po_humanSafetyRisk :: js_num
  po_emergencyAccessRisk :: js_num
  po_secondaryIncidentRisk :: js_num
  po_evidenceIntegrityRisk :: js_num
  po_authorityPrivacyRisk :: js_num
  po_criticalNetworkResilienceRisk :: js_num
  po_mobilityCost :: js_num
  po_delayCost :: js_num
  po_efficiencyCost :: js_num

record CounterfactualCandidate =
  cc_candidateId :: string
  cc_action :: string
  cc_stateDigest :: string
  cc_validUntil :: string
  cc_assumptions :: "string list"
  cc_predictedOutcomes :: ProtectedOutcomeVector
  cc_uncertainty :: js_num
  cc_authority :: string
  cc_directVehicleControl :: bool
  cc_requiresVehicleLocalVeto :: bool

datatype CounterfactualDecision = FD_RECOMMEND | FD_ABSTAIN | FD_REQUEST_MORE_EVIDENCE | FD_REQUEST_HUMAN_REVIEW

record CounterfactualEvaluation =
  ce_crsId :: string
  ce_stateDigest :: string
  ce_evaluatedAt :: string
  ce_candidates :: "CounterfactualCandidate list"
  ce_selectedCandidateId :: "string option"
  ce_decision :: CounterfactualDecision
  ce_reasonCodes :: "string list"

definition PROTECTED_KEYS :: "(string \<times> (ProtectedOutcomeVector \<Rightarrow> js_num)) list" where
  "PROTECTED_KEYS = [(''humanSafetyRisk'', po_humanSafetyRisk), (''emergencyAccessRisk'', po_emergencyAccessRisk),
     (''secondaryIncidentRisk'', po_secondaryIncidentRisk), (''evidenceIntegrityRisk'', po_evidenceIntegrityRisk),
     (''authorityPrivacyRisk'', po_authorityPrivacyRisk), (''criticalNetworkResilienceRisk'', po_criticalNetworkResilienceRisk),
     (''mobilityCost'', po_mobilityCost), (''delayCost'', po_delayCost), (''efficiencyCost'', po_efficiencyCost)]"

fun compare_keys :: "(string \<times> ('v \<Rightarrow> js_num)) list \<Rightarrow> 'v \<Rightarrow> 'v \<Rightarrow> string + int" where
  "compare_keys [] a b = Inr 0"
| "compare_keys ((name, key) # keys) a b =
     (if \<not> isFinite (key a) \<or> \<not> isFinite (key b) then Inl (''NON_FINITE_PROTECTED_OUTCOME:'' @ name)
      else if num_lt (key a) (key b) then Inr (- 1)
      else if num_lt (key b) (key a) then Inr 1
      else compare_keys keys a b)"

definition compareProtectedOutcomesLexicographically :: "ProtectedOutcomeVector \<Rightarrow> ProtectedOutcomeVector \<Rightarrow> string + int" where
  "compareProtectedOutcomesLexicographically = compare_keys PROTECTED_KEYS"

definition ALLOWED_COUNTERFACTUAL_ACTIONS :: "string list" where
  "ALLOWED_COUNTERFACTUAL_ACTIONS = [''NO_ACTION'', ''WARN_ROAD_USER'', ''WARN_OPERATOR'', ''REQUEST_MORE_EVIDENCE'',
     ''ROUTE_RECOMMENDATION'', ''SIGNAL_PLAN_RECOMMENDATION'', ''EMERGENCY_CORRIDOR_RECOMMENDATION'', ''REDUCE_CONFIDENCE'',
     ''ABSTAIN'', ''REQUEST_HUMAN_REVIEW'']"

definition HARD_CANDIDATE_ERRORS :: "string list" where
  "HARD_CANDIDATE_ERRORS = [''DUPLICATE_CANDIDATE_ID'', ''INVALID_CANDIDATE_SHAPE'', ''MISSING_CANDIDATE_ID'',
     ''UNSUPPORTED_COUNTERFACTUAL_ACTION'', ''CANDIDATE_STATE_DIGEST_MISMATCH'', ''INVALID_CANDIDATE_VALID_UNTIL'',
     ''CANDIDATE_OUTLIVES_COGNITIVE_STATE'', ''NON_ADVISORY_AUTHORITY_FORBIDDEN'', ''DIRECT_VEHICLE_CONTROL_FORBIDDEN'',
     ''VEHICLE_LOCAL_VETO_REQUIRED'', ''INVALID_CANDIDATE_UNCERTAINTY'', ''COUNTERFACTUAL_ASSUMPTIONS_REQUIRED'',
     ''INVALID_COUNTERFACTUAL_ASSUMPTION'', ''INVALID_PROTECTED_OUTCOME_VECTOR'']"

definition validProtectedOutcomeVector :: "ProtectedOutcomeVector \<Rightarrow> bool" where
  "validProtectedOutcomeVector v \<longleftrightarrow> list_all (\<lambda>(name, key). isFinite (key v) \<and> num_le (Num 0) (key v)) PROTECTED_KEYS"

definition validateCognitiveStateBoundary :: "CognitiveRoadState \<Rightarrow> string option" where
  "validateCognitiveStateBoundary s =
     (if rs_schema s \<noteq> COGNITIVE_ROAD_STATE_SCHEMA then Some ''INVALID_COGNITIVE_STATE_SCHEMA''
      else if trim (rs_crsId s) = [] then Some ''INVALID_COGNITIVE_STATE_ID''
      else if \<not> SHA256_HEX (rs_stateDigest s) then Some ''INVALID_COGNITIVE_STATE_DIGEST''
      else if dateParse (rs_validUntil s) = None then Some ''INVALID_COGNITIVE_STATE_WINDOW''
      else None)"

text \<open>\<open>evaluatedAt\<close> and \<open>stateValidUntil\<close> are finite where this is called.\<close>
definition validateCandidate :: "CounterfactualCandidate \<Rightarrow> CognitiveRoadState \<Rightarrow> int \<Rightarrow> int \<Rightarrow> js_num \<Rightarrow> string option" where
  "validateCandidate c s evaluatedAt stateValidUntil maxUncertainty =
     (if trim (cc_candidateId c) = [] then Some ''MISSING_CANDIDATE_ID''
      else if cc_action c \<notin> set ALLOWED_COUNTERFACTUAL_ACTIONS then Some ''UNSUPPORTED_COUNTERFACTUAL_ACTION''
      else if cc_stateDigest c \<noteq> rs_stateDigest s then Some ''CANDIDATE_STATE_DIGEST_MISMATCH''
      else case dateParse (cc_validUntil c) of None \<Rightarrow> Some ''INVALID_CANDIDATE_VALID_UNTIL''
      | Some until \<Rightarrow>
        if stateValidUntil < until then Some ''CANDIDATE_OUTLIVES_COGNITIVE_STATE''
        else if until \<le> evaluatedAt then Some ''CANDIDATE_EXPIRED''
        else if cc_authority c \<noteq> ''ADVISORY_ONLY'' then Some ''NON_ADVISORY_AUTHORITY_FORBIDDEN''
        else if cc_directVehicleControl c then Some ''DIRECT_VEHICLE_CONTROL_FORBIDDEN''
        else if \<not> cc_requiresVehicleLocalVeto c then Some ''VEHICLE_LOCAL_VETO_REQUIRED''
        else if \<not> num_between 0 1 (cc_uncertainty c) then Some ''INVALID_CANDIDATE_UNCERTAINTY''
        else if num_lt maxUncertainty (cc_uncertainty c) then Some ''CANDIDATE_UNCERTAINTY_TOO_HIGH''
        else if cc_action c \<noteq> ''NO_ACTION'' \<and> cc_assumptions c = [] then Some ''COUNTERFACTUAL_ASSUMPTIONS_REQUIRED''
        else if list_ex (\<lambda>a. trim a = []) (cc_assumptions c) then Some ''INVALID_COUNTERFACTUAL_ASSUMPTION''
        else if \<not> validProtectedOutcomeVector (cc_predictedOutcomes c) then Some ''INVALID_PROTECTED_OUTCOME_VECTOR''
        else None)"

text \<open>The loop over the candidates: the reasons it collects and the candidates that are eligible.\<close>
fun sift :: "(CounterfactualCandidate \<Rightarrow> string option) \<Rightarrow> string list \<Rightarrow> CounterfactualCandidate list \<Rightarrow>
    string list \<times> CounterfactualCandidate list" where
  "sift validate ids [] = ([], [])"
| "sift validate ids (c # cs) =
     (if cc_candidateId c \<in> set ids then (case sift validate ids cs of (reasons, eligible) \<Rightarrow> (''DUPLICATE_CANDIDATE_ID'' # reasons, eligible))
      else case sift validate (cc_candidateId c # ids) cs of (reasons, eligible) \<Rightarrow>
        (case validate c of Some e \<Rightarrow> (e # reasons, eligible) | None \<Rightarrow> (reasons, c # eligible)))"

text \<open>\<open>Array.prototype.sort\<close> with a comparator: a stable sort.\<close>
fun sort_insert :: "('a \<Rightarrow> 'a \<Rightarrow> int) \<Rightarrow> 'a \<Rightarrow> 'a list \<Rightarrow> 'a list" where
  "sort_insert cmp x [] = [x]"
| "sort_insert cmp x (y # ys) = (if cmp x y \<le> 0 then x # y # ys else y # sort_insert cmp x ys)"

definition js_sort :: "('a \<Rightarrow> 'a \<Rightarrow> int) \<Rightarrow> 'a list \<Rightarrow> 'a list" where
  "js_sort cmp xs = foldr (sort_insert cmp) xs []"

text \<open>The order of the eligible candidates; the comparison of valid outcomes throws nothing
  (\<open>valid_outcomes_compare\<close>).\<close>
definition candidate_order :: "(string \<Rightarrow> string \<Rightarrow> int) \<Rightarrow> CounterfactualCandidate \<Rightarrow> CounterfactualCandidate \<Rightarrow> int" where
  "candidate_order collate a b =
     (case compareProtectedOutcomesLexicographically (cc_predictedOutcomes a) (cc_predictedOutcomes b) of
       Inl _ \<Rightarrow> 0
     | Inr protectedOrder \<Rightarrow> if protectedOrder \<noteq> 0 then protectedOrder else collate (cc_candidateId a) (cc_candidateId b))"

definition decision_for :: "string \<Rightarrow> CounterfactualDecision" where
  "decision_for action = (if action = ''ABSTAIN'' then FD_ABSTAIN
     else if action = ''REQUEST_MORE_EVIDENCE'' then FD_REQUEST_MORE_EVIDENCE
     else if action = ''REQUEST_HUMAN_REVIEW'' then FD_REQUEST_HUMAN_REVIEW else FD_RECOMMEND)"

definition counterfactualBlocked :: "CognitiveRoadState \<Rightarrow> string \<Rightarrow> CounterfactualCandidate list \<Rightarrow> CounterfactualDecision \<Rightarrow>
    string list \<Rightarrow> CounterfactualEvaluation" where
  "counterfactualBlocked s evaluatedAt candidates decision reasons =
     \<lparr>ce_crsId = rs_crsId s, ce_stateDigest = rs_stateDigest s, ce_evaluatedAt = evaluatedAt, ce_candidates = candidates,
      ce_selectedCandidateId = None, ce_decision = decision, ce_reasonCodes = uniqueSorted reasons\<rparr>"

text \<open>What is chosen among the eligible candidates.\<close>
definition select_candidate :: "(string \<Rightarrow> string \<Rightarrow> int) \<Rightarrow> CognitiveRoadState \<Rightarrow> string \<Rightarrow> CounterfactualCandidate list \<Rightarrow>
    string list \<Rightarrow> CounterfactualCandidate list \<Rightarrow> CounterfactualEvaluation" where
  "select_candidate collate s evaluatedAt candidates reasons eligible =
     (if list_ex (\<lambda>r. r \<in> set HARD_CANDIDATE_ERRORS) reasons
      then counterfactualBlocked s evaluatedAt candidates FD_ABSTAIN (reasons @ [''COUNTERFACTUAL_POLICY_VIOLATION''])
      else if length (filter (\<lambda>c. cc_action c = ''NO_ACTION'') eligible) \<noteq> 1
      then counterfactualBlocked s evaluatedAt candidates FD_ABSTAIN (reasons @ [''EXACTLY_ONE_NO_ACTION_BASELINE_REQUIRED''])
      else if filter (\<lambda>c. cc_action c \<noteq> ''NO_ACTION'') eligible = []
      then counterfactualBlocked s evaluatedAt candidates FD_REQUEST_MORE_EVIDENCE (reasons @ [''NO_ELIGIBLE_INTERVENTION''])
      else let selected = hd (js_sort (candidate_order collate) eligible) in
        \<lparr>ce_crsId = rs_crsId s, ce_stateDigest = rs_stateDigest s, ce_evaluatedAt = evaluatedAt, ce_candidates = candidates,
         ce_selectedCandidateId = Some (cc_candidateId selected), ce_decision = decision_for (cc_action selected),
         ce_reasonCodes = sort (set_of_list reasons @ [''LEXICOGRAPHIC_PROTECTED_OUTCOME_SELECTION''])\<rparr>)"

definition evaluateCounterfactualCandidates :: "(string \<Rightarrow> string \<Rightarrow> int) \<Rightarrow> CognitiveRoadState \<Rightarrow> string \<Rightarrow>
    CounterfactualCandidate list \<Rightarrow> js_num \<Rightarrow> CounterfactualEvaluation" where
  "evaluateCounterfactualCandidates collate s evaluatedAt candidates maxRecommendationUncertainty =
     (let blocked = counterfactualBlocked s evaluatedAt candidates in
      case validateCognitiveStateBoundary s of Some e \<Rightarrow> blocked FD_ABSTAIN [e]
      | None \<Rightarrow> (case (dateParse evaluatedAt, dateParse (rs_validUntil s)) of
          (Some now, Some until) \<Rightarrow>
            if until \<le> now then blocked FD_REQUEST_MORE_EVIDENCE [''COGNITIVE_STATE_EXPIRED'']
            else if cognitiveStateRequiresAbstention s then blocked FD_ABSTAIN [''COGNITIVE_STATE_CONTRADICTED'']
            else if \<not> num_between 0 1 maxRecommendationUncertainty then blocked FD_ABSTAIN [''INVALID_UNCERTAINTY_POLICY'']
            else (case sift (\<lambda>c. validateCandidate c s now until maxRecommendationUncertainty) [] candidates of
              (reasons, eligible) \<Rightarrow> select_candidate collate s evaluatedAt candidates reasons eligible)
        | _ \<Rightarrow> blocked FD_ABSTAIN [''INVALID_EVALUATION_TIME'']))"

section \<open>The choice is safe\<close>

definition no_worse :: "ProtectedOutcomeVector \<Rightarrow> ProtectedOutcomeVector \<Rightarrow> bool" where
  "no_worse a b \<longleftrightarrow> compareProtectedOutcomesLexicographically a b \<in> {Inr (- 1), Inr 0}"

definition finite_keys :: "(string \<times> ('v \<Rightarrow> js_num)) list \<Rightarrow> 'v \<Rightarrow> bool" where
  "finite_keys keys v \<longleftrightarrow> (\<forall>(name, key)\<in>set keys. isFinite (key v))"

lemma isFinite_Num: "isFinite x \<longleftrightarrow> (\<exists>q. x = Num q)"
  by (cases x) auto

lemma valid_outcomes_finite: "validProtectedOutcomeVector v \<Longrightarrow> finite_keys PROTECTED_KEYS v"
  by (auto simp: validProtectedOutcomeVector_def finite_keys_def list_all_iff)

lemma finite_keys_Cons: "finite_keys ((n, k) # keys) v \<longleftrightarrow> isFinite (k v) \<and> finite_keys keys v"
  by (simp add: finite_keys_def)

text \<open>On finite outcomes the comparison throws nothing and is a total preorder.\<close>

lemma compare_keys_values: "compare_keys keys a b = Inr n \<Longrightarrow> n \<in> {- 1, 0, 1}"
  by (induction keys) (auto split: if_splits)

lemma compare_keys_Inr: "finite_keys keys a \<Longrightarrow> finite_keys keys b \<Longrightarrow> \<exists>n. compare_keys keys a b = Inr n"
  by (induction keys) (auto simp: finite_keys_Cons)

lemma compare_keys_total:
  "finite_keys keys a \<Longrightarrow> finite_keys keys b \<Longrightarrow> compare_keys keys a b = Inr 1 \<longleftrightarrow> compare_keys keys b a = Inr (- 1)"
  by (induction keys) (auto simp: finite_keys_Cons isFinite_Num)

lemma compare_keys_trans:
  "finite_keys keys a \<Longrightarrow> finite_keys keys b \<Longrightarrow> finite_keys keys c \<Longrightarrow>
   compare_keys keys a b \<noteq> Inr 1 \<Longrightarrow> compare_keys keys b c \<noteq> Inr 1 \<Longrightarrow> compare_keys keys a c \<noteq> Inr 1"
  by (induction keys) (auto simp: finite_keys_Cons isFinite_Num split: if_splits)

lemma valid_outcomes_compare:
  assumes "validProtectedOutcomeVector a" "validProtectedOutcomeVector b"
  obtains n where "compareProtectedOutcomesLexicographically a b = Inr n" "n \<in> {- 1, 0, 1}"
  using compare_keys_Inr [OF assms [THEN valid_outcomes_finite]] compare_keys_values [of PROTECTED_KEYS a b]
  unfolding compareProtectedOutcomesLexicographically_def by metis

lemma no_worse_iff:
  assumes "validProtectedOutcomeVector a" "validProtectedOutcomeVector b"
  shows "no_worse a b \<longleftrightarrow> compareProtectedOutcomesLexicographically a b \<noteq> Inr 1"
  using assms by (auto elim!: valid_outcomes_compare [of a b] simp: no_worse_def)

lemma no_worse_trans:
  assumes "validProtectedOutcomeVector a" "validProtectedOutcomeVector b" "validProtectedOutcomeVector c"
    and "no_worse a b" "no_worse b c"
  shows "no_worse a c"
  using assms compare_keys_trans [of PROTECTED_KEYS a b c]
  by (simp add: no_worse_iff compareProtectedOutcomesLexicographically_def valid_outcomes_finite)

lemma no_worse_total:
  assumes "validProtectedOutcomeVector a" "validProtectedOutcomeVector b" "\<not> no_worse a b"
  shows "no_worse b a"
  using assms compare_keys_total [of PROTECTED_KEYS a b]
  by (simp add: no_worse_iff compareProtectedOutcomesLexicographically_def valid_outcomes_finite)

lemma no_worse_refl: "validProtectedOutcomeVector a \<Longrightarrow> no_worse a a"
  using no_worse_total by blast

text \<open>The head of a sorted list is no worse than its elements.\<close>

lemma set_sort_insert [simp]: "set (sort_insert cmp x ys) = insert x (set ys)"
  by (induction ys) auto

lemma sort_insert_not_Nil [simp]: "sort_insert cmp x ys \<noteq> []"
  by (cases ys) auto

lemma set_js_sort [simp]: "set (js_sort cmp xs) = set xs"
  by (induction xs) (auto simp: js_sort_def)

lemma js_sort_Cons: "js_sort cmp (x # xs) = sort_insert cmp x (js_sort cmp xs)"
  by (simp add: js_sort_def)

lemma hd_sort_insert: "hd (sort_insert cmp x ys) = (if ys = [] \<or> cmp x (hd ys) \<le> 0 then x else hd ys)"
  by (cases ys) auto

lemma candidate_order_le:
  assumes "validProtectedOutcomeVector (cc_predictedOutcomes a)" "validProtectedOutcomeVector (cc_predictedOutcomes b)"
  shows "candidate_order collate a b \<le> 0 \<Longrightarrow> no_worse (cc_predictedOutcomes a) (cc_predictedOutcomes b)"
    and "\<not> candidate_order collate a b \<le> 0 \<Longrightarrow> no_worse (cc_predictedOutcomes b) (cc_predictedOutcomes a)"
proof -
  obtain n where n: "compareProtectedOutcomesLexicographically (cc_predictedOutcomes a) (cc_predictedOutcomes b) = Inr n"
    "n \<in> {- 1, 0, 1}"
    using assms by (rule valid_outcomes_compare)
  show "candidate_order collate a b \<le> 0 \<Longrightarrow> no_worse (cc_predictedOutcomes a) (cc_predictedOutcomes b)"
    using n by (auto simp: candidate_order_def no_worse_def)
  have reverse: "n = 0 \<or> n = 1 \<Longrightarrow> no_worse (cc_predictedOutcomes b) (cc_predictedOutcomes a)"
    using n compare_keys_total [OF assms(2,1) [THEN valid_outcomes_finite]]
    by (auto simp: no_worse_iff [OF assms(2,1)] compareProtectedOutcomesLexicographically_def)
  show "\<not> candidate_order collate a b \<le> 0 \<Longrightarrow> no_worse (cc_predictedOutcomes b) (cc_predictedOutcomes a)"
    using n by (auto simp: candidate_order_def intro: reverse split: if_splits)
qed

lemma sorted_head_is_best:
  assumes "\<And>c. c \<in> set cs \<Longrightarrow> validProtectedOutcomeVector (cc_predictedOutcomes c)" "d \<in> set cs"
  shows "no_worse (cc_predictedOutcomes (hd (js_sort (candidate_order collate) cs))) (cc_predictedOutcomes d)"
  using assms
proof (induction cs arbitrary: d)
  case (Cons c cs)
  let ?sorted = "js_sort (candidate_order collate) cs"
  show ?case
  proof (cases "?sorted = []")
    case True
    then show ?thesis using Cons.prems set_js_sort [of "candidate_order collate" cs]
      by (auto simp: js_sort_Cons no_worse_refl)
  next
    case False
    then have h: "hd ?sorted \<in> set cs" using hd_in_set [of ?sorted] by simp
    note valid = Cons.prems(1) [of c] Cons.prems(1) [of "hd ?sorted"] Cons.prems(1) [of d]
    have rest: "d \<in> set cs \<Longrightarrow> no_worse (cc_predictedOutcomes (hd ?sorted)) (cc_predictedOutcomes d)"
      using Cons by simp
    show ?thesis
      using valid h False Cons.prems(2) rest candidate_order_le [of c "hd ?sorted" collate]
        no_worse_trans [of "cc_predictedOutcomes c" "cc_predictedOutcomes (hd ?sorted)" "cc_predictedOutcomes d"]
      by (auto simp: js_sort_Cons hd_sort_insert no_worse_refl)
  qed
qed simp

text \<open>The candidates that get through the loop.\<close>

lemma sift_eligible: "sift validate ids cs = (reasons, eligible) \<Longrightarrow> set eligible \<subseteq> {c \<in> set cs. validate c = None}"
  by (induction validate ids cs arbitrary: reasons eligible rule: sift.induct)
    (fastforce split: if_splits prod.splits option.splits)+

lemma sift_no_duplicate:
  "sift validate ids cs = (reasons, eligible) \<Longrightarrow> ''DUPLICATE_CANDIDATE_ID'' \<notin> set reasons \<Longrightarrow>
   (\<forall>c\<in>set cs. cc_candidateId c \<notin> set ids) \<and> distinct (map cc_candidateId cs) \<and>
   set eligible = {c \<in> set cs. validate c = None} \<and>
   (\<forall>c\<in>set cs. \<forall>e. validate c = Some e \<longrightarrow> e \<in> set reasons)"
proof (induction validate ids cs arbitrary: reasons eligible rule: sift.induct)
  case (2 validate ids c cs)
  have fresh: "cc_candidateId c \<notin> set ids"
    using 2(3,4) by (auto split: prod.splits if_splits)
  obtain rs es where step: "sift validate (cc_candidateId c # ids) cs = (rs, es)" by fastforce
  show ?case
    using 2(2) [OF fresh step] 2(3,4) fresh step by (fastforce split: option.splits)
qed simp

lemma valid_candidate:
  "validateCandidate c s now until m = None \<Longrightarrow>
   cc_stateDigest c = rs_stateDigest s \<and> cc_authority c = ''ADVISORY_ONLY'' \<and> \<not> cc_directVehicleControl c \<and>
   cc_requiresVehicleLocalVeto c \<and> num_between 0 1 (cc_uncertainty c) \<and> \<not> num_lt m (cc_uncertainty c) \<and>
   validProtectedOutcomeVector (cc_predictedOutcomes c) \<and>
   (\<exists>t. dateParse (cc_validUntil c) = Some t \<and> now < t \<and> t \<le> until)"
  by (auto simp: validateCandidate_def split: if_splits option.splits)

lemma selected_candidate:
  assumes sift: "sift validate [] cs = (reasons, eligible)"
    and valid: "\<And>c. validate c = None \<Longrightarrow> validProtectedOutcomeVector (cc_predictedOutcomes c)"
    and chosen: "ce_selectedCandidateId (select_candidate collate s now cs reasons eligible) = Some i"
  shows "distinct (map cc_candidateId cs) \<and>
    (\<exists>c\<in>set cs. cc_candidateId c = i \<and> validate c = None \<and>
      (\<forall>d\<in>set cs. validate d = None \<longrightarrow> no_worse (cc_predictedOutcomes c) (cc_predictedOutcomes d))) \<and>
    (\<exists>b\<in>set cs. cc_action b = ''NO_ACTION'' \<and> validate b = None)"
proof -
  have soft: "\<not> list_ex (\<lambda>r. r \<in> set HARD_CANDIDATE_ERRORS) reasons"
    and one: "length (filter (\<lambda>c. cc_action c = ''NO_ACTION'') eligible) = 1"
    and i: "i = cc_candidateId (hd (js_sort (candidate_order collate) eligible))"
    using chosen by (simp_all add: select_candidate_def counterfactualBlocked_def Let_def split: if_splits)
  have "''DUPLICATE_CANDIDATE_ID'' \<notin> set reasons"
    using soft by (auto simp: list_ex_iff HARD_CANDIDATE_ERRORS_def)
  note all = sift_no_duplicate [OF sift this]
  then have eligible: "set eligible = {c \<in> set cs. validate c = None}" by simp
  obtain b where b: "b \<in> set eligible" "cc_action b = ''NO_ACTION''"
    using one filter_empty_conv [of "\<lambda>c. cc_action c = ''NO_ACTION''" eligible] by fastforce
  let ?c = "hd (js_sort (candidate_order collate) eligible)"
  have "?c \<in> set eligible"
    using b(1) hd_in_set [of "js_sort (candidate_order collate) eligible"] set_js_sort [of "candidate_order collate" eligible]
    by (metis empty_iff empty_set)
  moreover have "no_worse (cc_predictedOutcomes ?c) (cc_predictedOutcomes d)" if "d \<in> set eligible" for d
    using that eligible valid by (intro sorted_head_is_best) auto
  ultimately show ?thesis using all b eligible i by auto
qed


section \<open>A concrete choice\<close>

definition sample_road_state :: CognitiveRoadState where
  "sample_road_state = \<lparr>rs_schema = COGNITIVE_ROAD_STATE_SCHEMA, rs_crsId = ''crs-1'', rs_zoneId = ''zone-1'',
     rs_stateTime = ''2025-12-31T23:59:00Z'', rs_validUntil = ''2026-01-01T00:05:00Z'', rs_stateDigest = hex_text CHR ''d'',
     rs_sensorHealthDigest = hex_text CHR ''e'', rs_entities = [], rs_environment = [], rs_evidenceObservationIds = [],
     rs_contradictions = [], rs_epistemicSummary = \<lparr>es_known = [], es_uncertain = [], es_unknown = []\<rparr>\<rparr>"

definition sample_outcomes :: "js_num \<Rightarrow> ProtectedOutcomeVector" where
  "sample_outcomes risk = \<lparr>po_humanSafetyRisk = risk, po_emergencyAccessRisk = Num 0, po_secondaryIncidentRisk = Num 0,
     po_evidenceIntegrityRisk = Num 0, po_authorityPrivacyRisk = Num 0, po_criticalNetworkResilienceRisk = Num 0,
     po_mobilityCost = Num 0, po_delayCost = Num 0, po_efficiencyCost = Num 0\<rparr>"

definition sample_candidate :: "string \<Rightarrow> string \<Rightarrow> js_num \<Rightarrow> CounterfactualCandidate" where
  "sample_candidate name action risk = \<lparr>cc_candidateId = name, cc_action = action, cc_stateDigest = hex_text CHR ''d'',
     cc_validUntil = ''2026-01-01T00:05:00Z'', cc_assumptions = [''road-safety''], cc_predictedOutcomes = sample_outcomes risk,
     cc_uncertainty = Num (1 / 10), cc_authority = ''ADVISORY_ONLY'', cc_directVehicleControl = False,
     cc_requiresVehicleLocalVeto = True\<rparr>"

definition sample_candidates :: "CounterfactualCandidate list" where
  "sample_candidates = [sample_candidate ''ob-1'' ''NO_ACTION'' (Num 1), sample_candidate ''ob-2'' ''WARN_ROAD_USER'' (Num 0)]"

lemma sample_outcomes_valid: "0 \<le> q \<Longrightarrow> validProtectedOutcomeVector (sample_outcomes (Num q))"
  by (simp add: validProtectedOutcomeVector_def PROTECTED_KEYS_def sample_outcomes_def num_le_def)

lemma sample_candidate_valid:
  assumes "trim name \<noteq> []" "action \<in> {''NO_ACTION'', ''WARN_ROAD_USER''}" "0 \<le> q"
  shows "validateCandidate (sample_candidate name action (Num q)) sample_road_state 1767225580000 1767225900000 (Num (1 / 2)) = None"
  using assms by (auto simp: validateCandidate_def sample_candidate_def sample_road_state_def ALLOWED_COUNTERFACTUAL_ACTIONS_def
      perception_times perception_texts sample_outcomes_valid)

lemma sample_road_state_bounds:
  "validateCognitiveStateBoundary sample_road_state = None" "\<not> cognitiveStateRequiresAbstention sample_road_state"
  "rs_validUntil sample_road_state = ''2026-01-01T00:05:00Z''"
  by (simp_all add: validateCognitiveStateBoundary_def sample_road_state_def perception_digests perception_hex perception_times
      cognitiveStateRequiresAbstention_def trim_def is_space_def code_unit_def)

lemma sample_order:
  "compareProtectedOutcomesLexicographically (sample_outcomes (Num 1)) (sample_outcomes (Num 0)) = Inr 1"
  by (simp add: compareProtectedOutcomesLexicographically_def PROTECTED_KEYS_def sample_outcomes_def)

lemma sample_selection:
  "ce_selectedCandidateId (evaluateCounterfactualCandidates collate sample_road_state ''2025-12-31T23:59:40Z'' sample_candidates
     (Num (1 / 2))) = Some ''ob-2''"
proof -
  let ?a = "sample_candidate ''ob-1'' ''NO_ACTION'' (Num 1)" and ?b = "sample_candidate ''ob-2'' ''WARN_ROAD_USER'' (Num 0)"
  have fields: "cc_candidateId ?a = ''ob-1''" "cc_candidateId ?b = ''ob-2''" "cc_action ?a = ''NO_ACTION''"
    "cc_action ?b = ''WARN_ROAD_USER''" "cc_predictedOutcomes ?a = sample_outcomes (Num 1)"
    "cc_predictedOutcomes ?b = sample_outcomes (Num 0)"
    by (simp_all add: sample_candidate_def)
  have sift: "sift (\<lambda>c. validateCandidate c sample_road_state 1767225580000 1767225900000 (Num (1 / 2))) [] sample_candidates = ([], [?a, ?b])"
    by (simp add: sample_candidates_def fields sample_candidate_valid perception_texts)
  have "hd (js_sort (candidate_order collate) [?a, ?b]) = ?b"
    by (simp add: js_sort_def candidate_order_def fields sample_order)
  then have "ce_selectedCandidateId (select_candidate collate sample_road_state ''2025-12-31T23:59:40Z'' sample_candidates [] [?a, ?b])
    = Some ''ob-2''"
    by (simp add: select_candidate_def fields Let_def)
  then show ?thesis
    by (simp add: evaluateCounterfactualCandidates_def sample_road_state_bounds perception_times sift Let_def)
qed


end
