(* ===== verification/Coverage.thy ===== *)
theory Coverage
  imports RoadState
begin

text \<open>
  The epistemic coverage of a road state (\<open>packages/contracts/src/epistemic-coverage.ts\<close>,
  \<open>apps/api/src/perception/epistemic-coverage.ts\<close>): which regions are observed in which dimension, the gate in front of
  decisions on critical regions, and counterfactuals governed by it. The parameters are \<open>digest\<close>
  (\<open>JSON.stringify\<close> of a value with its keys sorted, then SHA-256) and \<open>collate\<close> (\<open>localeCompare\<close>).
\<close>

section \<open>Regions, assertions, contradictions\<close>

definition EPISTEMIC_COVERAGE_ASSERTION_SCHEMA :: string where
  "EPISTEMIC_COVERAGE_ASSERTION_SCHEMA = ''ros.epistemic-coverage-assertion/v1''"

definition EPISTEMIC_COVERAGE_CONTRADICTION_SCHEMA :: string where
  "EPISTEMIC_COVERAGE_CONTRADICTION_SCHEMA = ''ros.epistemic-coverage-contradiction/v1''"

definition EPISTEMIC_COVERAGE_MAP_SCHEMA :: string where
  "EPISTEMIC_COVERAGE_MAP_SCHEMA = ''ros.epistemic-coverage-map/v1''"

record EpistemicCoverageRegion =
  er_regionId :: string
  er_zoneId :: string
  er_regionType :: string
  er_spatialFrameId :: string
  er_geometryDigest :: string
  er_roadSegmentId :: "string option"
  er_laneId :: "string option"

record EpistemicCoverageAssertion =
  ey_schema :: string
  ey_assertionId :: string
  ey_regionId :: string
  ey_dimension :: string
  ey_observationId :: string
  ey_state :: string
  ey_confidence :: js_num
  ey_occlusionFraction :: js_num
  ey_degradationCauses :: "string list"
  ey_reasonCodes :: "string list"
  ey_validUntil :: string
  ey_authority :: string

record EpistemicCoverageContradiction =
  ex_schema :: string
  ex_contradictionId :: string
  ex_regionId :: string
  ex_dimension :: string
  ex_observationIds :: "string list"
  ex_independenceClassDigests :: "string list"
  ex_reason :: string
  ex_validUntil :: string
  ex_material :: bool
  ex_authority :: string

datatype EpistemicCoverageState = CO_OBSERVED | CO_DEGRADED | CO_BLIND | CO_CONTRADICTED | CO_UNKNOWN

fun coverage_state_name :: "EpistemicCoverageState \<Rightarrow> string" where
  "coverage_state_name CO_OBSERVED = ''OBSERVED''"
| "coverage_state_name CO_DEGRADED = ''DEGRADED''"
| "coverage_state_name CO_BLIND = ''BLIND''"
| "coverage_state_name CO_CONTRADICTED = ''CONTRADICTED''"
| "coverage_state_name CO_UNKNOWN = ''UNKNOWN''"

record EpistemicCoverageCell =
  el_regionId :: string
  el_dimension :: string
  el_state :: EpistemicCoverageState
  el_effectiveIndependentEvidence :: nat
  el_independenceClassDigests :: "string list"
  el_sourceClasses :: "string list"
  el_supportingObservationIds :: "string list"
  el_degradationCauses :: "string list"
  el_maximumObservedOcclusionFraction :: "js_num option"
  el_reasonCodes :: "string list"
  el_validUntil :: string
  el_authority :: string

record EpistemicCoverageMap =
  em_schema :: string
  em_mapId :: string
  em_crsId :: string
  em_stateDigest :: string
  em_zoneId :: string
  em_generatedAt :: string
  em_validUntil :: string
  em_regions :: "EpistemicCoverageRegion list"
  em_cells :: "EpistemicCoverageCell list"
  em_mapDigest :: string
  em_authority :: string
  em_negativeSceneInferenceAuthorized :: bool

definition COVERAGE_DIMENSIONS :: "string list" where
  "COVERAGE_DIMENSIONS = [''OCCUPANCY'', ''DYNAMIC_OBJECTS'', ''VELOCITY'', ''VULNERABLE_ROAD_USERS'', ''SIGNAL_STATE'',
     ''ENVIRONMENT'', ''INFRASTRUCTURE'']"

definition ASSERTION_STATES :: "string list" where
  "ASSERTION_STATES = [''COVERED'', ''DEGRADED'', ''BLIND'', ''UNKNOWN'']"

definition REGION_TYPES :: "string list" where
  "REGION_TYPES = [''LANE'', ''CROSSWALK'', ''INTERSECTION_CONFLICT_ZONE'', ''ROAD_SEGMENT'', ''SHOULDER'', ''CUSTOM'']"

definition DEGRADATION_CAUSES :: "string list" where
  "DEGRADATION_CAUSES = [''GLARE'', ''LOW_LIGHT'', ''THERMAL_HAZE'', ''DUST'', ''SANDSTORM'', ''SMOKE'', ''FIRE_SATURATION'',
     ''PARTIAL_OCCLUSION'', ''DIRTY_APERTURE'', ''SIGNAL_NOISE'', ''CLOCK_DRIFT'', ''CALIBRATION_DRIFT'', ''PACKET_LOSS'',
     ''FRAME_DROP'', ''NETWORK_LATENCY'', ''POWER_DEGRADATION'', ''UNKNOWN'']"

text \<open>\<open>/^[A-Za-z0-9][A-Za-z0-9._:+-]{0,127}$/\<close>\<close>
definition boundedIdentifier :: "string \<Rightarrow> bool" where
  "boundedIdentifier s = (case s of [] \<Rightarrow> False
     | c # cs \<Rightarrow> is_alnum c \<and> length cs \<le> 127 \<and> list_all (\<lambda>d. is_token_char d \<or> d = CHR ''+'') cs)"

definition bounded_opt :: "string option \<Rightarrow> bool" where
  "bounded_opt v = (case v of None \<Rightarrow> True | Some s \<Rightarrow> boundedIdentifier s)"

definition validateEpistemicCoverageRegion :: "EpistemicCoverageRegion \<Rightarrow> string list" where
  "validateEpistemicCoverageRegion r =
     reason_if (\<not> boundedIdentifier (er_regionId r)) ''INVALID_REGION_ID'' @
     reason_if (\<not> boundedIdentifier (er_zoneId r)) ''INVALID_ZONE_ID'' @
     reason_if (er_regionType r \<notin> set REGION_TYPES) ''INVALID_REGION_TYPE'' @
     reason_if (\<not> boundedIdentifier (er_spatialFrameId r)) ''INVALID_SPATIAL_FRAME_ID'' @
     reason_if (\<not> SHA256_HEX (er_geometryDigest r)) ''INVALID_GEOMETRY_DIGEST'' @
     reason_if (\<not> bounded_opt (er_roadSegmentId r)) ''INVALID_ROAD_SEGMENT_ID'' @
     reason_if (\<not> bounded_opt (er_laneId r)) ''INVALID_LANE_ID''"

definition validateEpistemicCoverageAssertion :: "EpistemicCoverageAssertion \<Rightarrow> string list" where
  "validateEpistemicCoverageAssertion a =
     reason_if (ey_schema a \<noteq> EPISTEMIC_COVERAGE_ASSERTION_SCHEMA) ''UNSUPPORTED_COVERAGE_ASSERTION_SCHEMA'' @
     reason_if (\<not> boundedIdentifier (ey_assertionId a)) ''INVALID_ASSERTION_ID'' @
     reason_if (\<not> boundedIdentifier (ey_regionId a)) ''INVALID_REGION_ID'' @
     reason_if (ey_dimension a \<notin> set COVERAGE_DIMENSIONS) ''INVALID_COVERAGE_DIMENSION'' @
     reason_if (\<not> boundedIdentifier (ey_observationId a)) ''INVALID_OBSERVATION_ID'' @
     reason_if (ey_state a \<notin> set ASSERTION_STATES) ''INVALID_ASSERTION_STATE'' @
     reason_if (\<not> num_between 0 1 (ey_confidence a)) ''INVALID_ASSERTION_CONFIDENCE'' @
     reason_if (\<not> num_between 0 1 (ey_occlusionFraction a)) ''INVALID_OCCLUSION_FRACTION'' @
     reason_if (list_ex (\<lambda>c. c \<notin> set DEGRADATION_CAUSES) (ey_degradationCauses a)) ''INVALID_DEGRADATION_CAUSES'' @
     reason_if (list_ex (\<lambda>c. c = [] \<or> 128 < length c) (ey_reasonCodes a)) ''INVALID_REASON_CODES'' @
     reason_if (dateParse (ey_validUntil a) = None) ''INVALID_ASSERTION_VALID_UNTIL'' @
     reason_if (ey_authority a \<noteq> ''NONE'') ''COVERAGE_AUTHORITY_FORBIDDEN''"

definition validateEpistemicCoverageContradiction :: "EpistemicCoverageContradiction \<Rightarrow> string list" where
  "validateEpistemicCoverageContradiction x =
     reason_if (ex_schema x \<noteq> EPISTEMIC_COVERAGE_CONTRADICTION_SCHEMA) ''UNSUPPORTED_COVERAGE_CONTRADICTION_SCHEMA'' @
     reason_if (\<not> boundedIdentifier (ex_contradictionId x)) ''INVALID_CONTRADICTION_ID'' @
     reason_if (\<not> boundedIdentifier (ex_regionId x)) ''INVALID_REGION_ID'' @
     reason_if (ex_dimension x \<notin> set COVERAGE_DIMENSIONS) ''INVALID_COVERAGE_DIMENSION'' @
     reason_if (length (ex_observationIds x) < 2 \<or> list_ex (\<lambda>i. \<not> boundedIdentifier i) (ex_observationIds x)) ''INVALID_CONTRADICTION_OBSERVATIONS'' @
     reason_if (length (ex_independenceClassDigests x) < 2 \<or> list_ex (\<lambda>d. \<not> SHA256_HEX d) (ex_independenceClassDigests x))
       ''INVALID_CONTRADICTION_INDEPENDENCE_CLASSES'' @
     reason_if (\<not> distinct (ex_independenceClassDigests x)) ''DUPLICATE_CONTRADICTION_INDEPENDENCE_CLASS'' @
     reason_if (trim (ex_reason x) = [] \<or> 256 < length (ex_reason x)) ''INVALID_CONTRADICTION_REASON'' @
     reason_if (dateParse (ex_validUntil x) = None) ''INVALID_CONTRADICTION_VALID_UNTIL'' @
     reason_if (\<not> ex_material x) ''COVERAGE_CONTRADICTION_NOT_MATERIAL'' @
     reason_if (ex_authority x \<noteq> ''NONE'') ''COVERAGE_AUTHORITY_FORBIDDEN''"

section \<open>What is trusted\<close>

record EpistemicCoverageBuildInput =
  eb_mapId :: string
  eb_state :: CognitiveRoadState
  eb_trustedNowEpochMs :: js_num
  eb_purpose :: string
  eb_jurisdiction :: string
  eb_eventEpoch :: string
  eb_regions :: "EpistemicCoverageRegion list"
  eb_dimensions :: "string list"
  eb_observations :: "SensorObservationEnvelope list"
  eb_leases :: "EpistemicIndependenceLease list"
  eb_assertions :: "EpistemicCoverageAssertion list"
  eb_contradictions :: "EpistemicCoverageContradiction list option"
  eb_minimumIndependentCoverage :: "js_num option"
  eb_maximumObservedOcclusionFraction :: "js_num option"

text \<open>An assertion with the observation and the lease that back it; whether the observation was admitted
  as \<open>ACCEPT\<close>, else it is \<open>DEGRADED_USABLE\<close>.\<close>
record TrustedCoverageAssertion =
  ta_assertion :: EpistemicCoverageAssertion
  ta_observation :: SensorObservationEnvelope
  ta_lease :: EpistemicIndependenceLease
  ta_accepted :: bool

record TrustedCoverageContradiction =
  tc_reason :: string
  tc_observationIds :: "string list"
  tc_independenceClassDigests :: "string list"
  tc_validUntilEpochMs :: js_num

record IndependenceClassSummary =
  ks_independenceClassDigest :: string
  ks_state :: string
  ks_observationIds :: "string list"
  ks_sourceClasses :: "string list"
  ks_degradationCauses :: "string list"
  ks_maximumOcclusionFraction :: js_num
  ks_validUntilEpochMs :: js_num
  ks_reasonCodes :: "string list"
  ks_degradedByAdmission :: bool

text \<open>The defaults; the second is the double nearest to 0.2.\<close>
definition minimum_coverage :: "EpistemicCoverageBuildInput \<Rightarrow> js_num" where
  "minimum_coverage i = (case eb_minimumIndependentCoverage i of None \<Rightarrow> Num 2 | Some n \<Rightarrow> n)"

definition maximum_occlusion :: "EpistemicCoverageBuildInput \<Rightarrow> js_num" where
  "maximum_occlusion i = (case eb_maximumObservedOcclusionFraction i of
     None \<Rightarrow> Num (3602879701896397 / 18014398509481984) | Some n \<Rightarrow> n)"

definition coverageObjectBinding :: "string \<Rightarrow> string \<Rightarrow> string" where
  "coverageObjectBinding regionId dimension = ''coverage:'' @ regionId @ '':'' @ dimension"

definition coverageCellKey :: "string \<Rightarrow> string \<Rightarrow> string" where
  "coverageCellKey regionId dimension = regionId @ CHR 0x00 # dimension"

text \<open>\<open>Math.min\<close> and \<open>Math.max\<close> of many numbers.\<close>
definition js_min :: "js_num list \<Rightarrow> js_num" where
  "js_min xs = foldr num_min xs PosInfinity"

definition js_max :: "js_num list \<Rightarrow> js_num" where
  "js_max xs = foldr num_max xs NegInfinity"

text \<open>\<open>new Date(x).toISOString()\<close> on a number: fractions are cut off, an invalid time throws a RangeError.\<close>
definition truncated :: "rat \<Rightarrow> int" where
  "truncated q = (if 0 \<le> q then \<lfloor>q\<rfloor> else \<lceil>q\<rceil>)"

definition iso_of :: "js_num \<Rightarrow> string + string" where
  "iso_of x = (case x of
     Num q \<Rightarrow> (case toISO (truncated q) of None \<Rightarrow> Inl ''Invalid time value'' | Some s \<Rightarrow> Inr s)
   | _ \<Rightarrow> Inl ''Invalid time value'')"

definition coverage_lease_valid :: "EpistemicCoverageBuildInput \<Rightarrow> EpistemicIndependenceLease \<Rightarrow> bool" where
  "coverage_lease_valid i l \<longleftrightarrow> validateEpistemicIndependenceLease l (eb_trustedNowEpochMs i) = [] \<and>
     il_roadStateDigest l = rs_stateDigest (eb_state i) \<and> il_purpose l = eb_purpose i \<and>
     il_jurisdiction l = eb_jurisdiction i \<and> il_eventEpoch l = eb_eventEpoch i \<and> il_authority l = ''NONE''"

definition validLeases :: "EpistemicCoverageBuildInput \<Rightarrow> EpistemicIndependenceLease list" where
  "validLeases i = filter (coverage_lease_valid i) (eb_leases i)"

definition coverage_lease :: "EpistemicCoverageBuildInput \<Rightarrow> string \<Rightarrow> string \<Rightarrow> string \<Rightarrow> EpistemicIndependenceLease option" where
  "coverage_lease i regionId dimension observationId =
     find (\<lambda>l. il_objectBinding l = coverageObjectBinding regionId dimension \<and> observationId \<in> set (il_observationIds l)) (validLeases i)"

text \<open>The observation of an identifier with its admission, if it is usable now.\<close>
definition usable_observation :: "EpistemicCoverageBuildInput \<Rightarrow> string \<Rightarrow> (SensorObservationEnvelope \<times> bool) option" where
  "usable_observation i observationId = (case observation_named (eb_observations i) observationId of None \<Rightarrow> None
     | Some ob \<Rightarrow> (let admission = assessSensorObservationAdmission ob (eb_trustedNowEpochMs i) in
         if \<not> oa_usableForCurrentState admission then None else Some (ob, oa_disposition admission = OA_ACCEPT)))"

text \<open>One round of the loop over the assertions: what is kept of an assertion.\<close>
definition trusted_assertion :: "EpistemicCoverageBuildInput \<Rightarrow> EpistemicCoverageAssertion \<Rightarrow> TrustedCoverageAssertion option" where
  "trusted_assertion i a =
     (if validateEpistemicCoverageAssertion a \<noteq> [] then None
      else if ey_regionId a \<notin> set (map er_regionId (eb_regions i)) then None
      else if ey_dimension a \<notin> set COVERAGE_DIMENSIONS then None
      else if ey_dimension a \<notin> set (eb_dimensions i) then None
      else if dateParse (ey_validUntil a) = None \<or> num_le (parsed_time (ey_validUntil a)) (eb_trustedNowEpochMs i) then None
      else case usable_observation i (ey_observationId a) of None \<Rightarrow> None
      | Some (ob, accepted) \<Rightarrow>
        (case coverage_lease i (ey_regionId a) (ey_dimension a) (ey_observationId a) of None \<Rightarrow> None
         | Some l \<Rightarrow> Some \<lparr>ta_assertion = a, ta_observation = ob, ta_lease = l, ta_accepted = accepted\<rparr>))"

definition trusted_assertions :: "EpistemicCoverageBuildInput \<Rightarrow> TrustedCoverageAssertion list" where
  "trusted_assertions i = List.map_filter (trusted_assertion i) (eb_assertions i)"

definition assertion_key :: "EpistemicCoverageAssertion \<Rightarrow> string" where
  "assertion_key a = coverageCellKey (ey_regionId a) (ey_dimension a)"

text \<open>When an observation ceases to be fresh.\<close>
definition fresh_until :: "SensorObservationEnvelope \<Rightarrow> js_num" where
  "fresh_until ob = num_add (parsed_time (ob_capturedAt ob)) (tq_freshnessTtlMs (ob_timing ob))"

text \<open>The observations of a contradiction: the classes they stand for and how long they hold; \<open>None\<close> if one is not trusted.\<close>
fun contradiction_support :: "EpistemicCoverageBuildInput \<Rightarrow> string \<Rightarrow> string \<Rightarrow> string list \<Rightarrow> string list \<Rightarrow> js_num \<Rightarrow>
    (string list \<times> js_num) option" where
  "contradiction_support i regionId dimension [] classes until = Some (set_of_list classes, until)"
| "contradiction_support i regionId dimension (observationId # ids) classes until =
     (case (usable_observation i observationId, coverage_lease i regionId dimension observationId) of
        (Some (ob, _), Some l) \<Rightarrow> contradiction_support i regionId dimension ids (classes @ [il_independenceClassDigest l])
          (js_min [until, parsed_time (il_expiresAt l), fresh_until ob])
      | _ \<Rightarrow> None)"

definition trusted_contradiction :: "EpistemicCoverageBuildInput \<Rightarrow> EpistemicCoverageContradiction \<Rightarrow> TrustedCoverageContradiction option" where
  "trusted_contradiction i x =
     (if validateEpistemicCoverageContradiction x \<noteq> [] then None
      else if ex_regionId x \<notin> set (map er_regionId (eb_regions i)) \<or> ex_dimension x \<notin> set (eb_dimensions i) then None
      else if dateParse (ex_validUntil x) = None \<or> num_le (parsed_time (ex_validUntil x)) (eb_trustedNowEpochMs i) then None
      else case contradiction_support i (ex_regionId x) (ex_dimension x) (ex_observationIds x) []
          (num_min (parsed_time (rs_validUntil (eb_state i))) (parsed_time (ex_validUntil x))) of None \<Rightarrow> None
      | Some (actual, until) \<Rightarrow>
        (let declared = set_of_list (ex_independenceClassDigests x) in
         if length actual < 2 \<or> \<not> (length actual = length declared \<and> list_all (\<lambda>k. k \<in> set declared) actual) then None
         else Some \<lparr>tc_reason = ex_reason x, tc_observationIds = uniqueSorted (ex_observationIds x),
           tc_independenceClassDigests = uniqueSorted (ex_independenceClassDigests x), tc_validUntilEpochMs = until\<rparr>))"

text \<open>The trusted contradictions of a cell, in the order of the input.\<close>
definition cell_contradictions :: "EpistemicCoverageBuildInput \<Rightarrow> string \<Rightarrow> TrustedCoverageContradiction list" where
  "cell_contradictions i key = List.map_filter (trusted_contradiction i)
     (filter (\<lambda>x. coverageCellKey (ex_regionId x) (ex_dimension x) = key) (case eb_contradictions i of None \<Rightarrow> [] | Some xs \<Rightarrow> xs))"

definition cell_assertions :: "EpistemicCoverageBuildInput \<Rightarrow> string \<Rightarrow> TrustedCoverageAssertion list" where
  "cell_assertions i key = filter (\<lambda>t. assertion_key (ta_assertion t) = key) (trusted_assertions i)"

section \<open>The state of a cell\<close>

definition summarizeIndependenceClass :: "string \<Rightarrow> TrustedCoverageAssertion list \<Rightarrow> js_num \<Rightarrow> IndependenceClassSummary" where
  "summarizeIndependenceClass k values stateValidUntilEpochMs =
     (let states = set_of_list (map (\<lambda>t. ey_state (ta_assertion t)) values); diverge = 1 < length states in
      \<lparr>ks_independenceClassDigest = k,
       ks_state = (if diverge then ''DEGRADED'' else ey_state (ta_assertion (hd values))),
       ks_observationIds = uniqueSorted (map (\<lambda>t. ob_observationId (ta_observation t)) values),
       ks_sourceClasses = uniqueSorted (map (\<lambda>t. ob_sourceClass (ta_observation t)) values),
       ks_degradationCauses = uniqueSorted (concat (map (\<lambda>t. ey_degradationCauses (ta_assertion t) @
         sh_degradationCauses (ob_health (ta_observation t))) values)),
       ks_maximumOcclusionFraction = js_max (map (\<lambda>t. ey_occlusionFraction (ta_assertion t)) values),
       ks_validUntilEpochMs = js_min (stateValidUntilEpochMs # map (\<lambda>t. parsed_time (ey_validUntil (ta_assertion t))) values @
         map (\<lambda>t. fresh_until (ta_observation t)) values @ map (\<lambda>t. parsed_time (il_expiresAt (ta_lease t))) values),
       ks_reasonCodes = uniqueSorted (reason_if diverge ''SAME_LINEAGE_COVERAGE_ASSERTIONS_DIVERGE'' @
         concat (map (\<lambda>t. reason_if (\<not> ta_accepted t) ''OBSERVATION_ADMITTED_DEGRADED'' @ ey_reasonCodes (ta_assertion t)) values)),
       ks_degradedByAdmission = list_ex (\<lambda>t. \<not> ta_accepted t) values\<rparr>)"

definition class_of :: "TrustedCoverageAssertion \<Rightarrow> string" where
  "class_of t = il_independenceClassDigest (ta_lease t)"

text \<open>The summaries, by class in the order of their first assertion.\<close>
definition class_summaries :: "TrustedCoverageAssertion list \<Rightarrow> js_num \<Rightarrow> IndependenceClassSummary list" where
  "class_summaries trusted stateValidUntilEpochMs =
     map (\<lambda>k. summarizeIndependenceClass k (filter (\<lambda>t. class_of t = k) trusted) stateValidUntilEpochMs)
       (set_of_list (map class_of trusted))"

definition contradicted_cell :: "string \<Rightarrow> string \<Rightarrow> TrustedCoverageContradiction list \<Rightarrow> IndependenceClassSummary list \<Rightarrow> js_num \<Rightarrow>
    string + EpistemicCoverageCell" where
  "contradicted_cell regionId dimension contradictions summaries stateValidUntilEpochMs =
     (let classes = uniqueSorted (concat (map tc_independenceClassDigests contradictions)) @ map ks_independenceClassDigest summaries in
      ebind (iso_of (js_min (stateValidUntilEpochMs # map tc_validUntilEpochMs contradictions @ map ks_validUntilEpochMs summaries)))
        (\<lambda>validUntil. Inr \<lparr>el_regionId = regionId, el_dimension = dimension, el_state = CO_CONTRADICTED,
          el_effectiveIndependentEvidence = length (set_of_list classes),
          el_independenceClassDigests = uniqueSorted classes,
          el_sourceClasses = uniqueSorted (concat (map ks_sourceClasses summaries)),
          el_supportingObservationIds = uniqueSorted (uniqueSorted (concat (map tc_observationIds contradictions)) @
            concat (map ks_observationIds summaries)),
          el_degradationCauses = uniqueSorted (concat (map ks_degradationCauses summaries)),
          el_maximumObservedOcclusionFraction = (if summaries = [] then None else Some (js_max (map ks_maximumOcclusionFraction summaries))),
          el_reasonCodes = uniqueSorted (''MATERIAL_COVERAGE_CONTRADICTION'' # map tc_reason contradictions),
          el_validUntil = validUntil, el_authority = ''NONE''\<rparr>))"

text \<open>The classes that see the cell well enough, those that see it at all, and the blind ones.\<close>
definition strong_covered :: "js_num \<Rightarrow> IndependenceClassSummary list \<Rightarrow> IndependenceClassSummary list" where
  "strong_covered maxOcclusion summaries = filter (\<lambda>k. ks_state k = ''COVERED'' \<and> \<not> ks_degradedByAdmission k \<and>
     num_le (ks_maximumOcclusionFraction k) maxOcclusion) summaries"

definition coverage_capable :: "IndependenceClassSummary list \<Rightarrow> IndependenceClassSummary list" where
  "coverage_capable summaries = filter (\<lambda>k. ks_state k = ''COVERED'' \<or> ks_state k = ''DEGRADED'') summaries"

definition cell_verdict :: "js_num \<Rightarrow> js_num \<Rightarrow> IndependenceClassSummary list \<Rightarrow> EpistemicCoverageState \<times> string list" where
  "cell_verdict minimum maxOcclusion summaries =
     (let capable = coverage_capable summaries;
          blind = filter (\<lambda>k. ks_state k = ''BLIND'') summaries
      in if capable = [] then
           (if blind \<noteq> [] then (CO_BLIND, [''NO_TRUSTED_SOURCE_CAN_OBSERVE_REGION_DIMENSION''])
            else (CO_UNKNOWN, [''TRUSTED_SOURCES_REPORT_COVERAGE_UNKNOWN'']))
         else if num_le minimum (Num (of_nat (length (strong_covered maxOcclusion summaries)))) then
           (CO_OBSERVED, ''INDEPENDENT_CURRENT_COVERAGE_CORROBORATED'' # reason_if (blind \<noteq> []) ''SOME_SOURCES_BLIND_BUT_COVERAGE_SUFFICIENT'')
         else (CO_DEGRADED,
           (if num_lt (Num (of_nat (length capable))) minimum then ''INSUFFICIENT_INDEPENDENT_COVERAGE'' else ''COVERAGE_DEGRADED_OR_OCCLUDED'') #
           reason_if (blind \<noteq> []) ''SOME_SOURCES_BLIND''))"

definition supported_cell :: "string \<Rightarrow> string \<Rightarrow> IndependenceClassSummary list \<Rightarrow> js_num \<Rightarrow> js_num \<Rightarrow> js_num \<Rightarrow>
    string + EpistemicCoverageCell" where
  "supported_cell regionId dimension summaries stateValidUntilEpochMs minimum maxOcclusion =
     (case cell_verdict minimum maxOcclusion summaries of (state, reasons) \<Rightarrow>
      ebind (iso_of (js_min (stateValidUntilEpochMs # map ks_validUntilEpochMs summaries)))
        (\<lambda>validUntil. Inr \<lparr>el_regionId = regionId, el_dimension = dimension, el_state = state,
          el_effectiveIndependentEvidence = length summaries,
          el_independenceClassDigests = sort (map ks_independenceClassDigest summaries),
          el_sourceClasses = uniqueSorted (concat (map ks_sourceClasses summaries)),
          el_supportingObservationIds = uniqueSorted (concat (map ks_observationIds summaries)),
          el_degradationCauses = uniqueSorted (concat (map ks_degradationCauses summaries)),
          el_maximumObservedOcclusionFraction = Some (js_max (map ks_maximumOcclusionFraction summaries)),
          el_reasonCodes = uniqueSorted (reasons @ concat (map ks_reasonCodes summaries)),
          el_validUntil = validUntil, el_authority = ''NONE''\<rparr>))"

definition unknown_cell :: "string \<Rightarrow> string \<Rightarrow> js_num \<Rightarrow> string + EpistemicCoverageCell" where
  "unknown_cell regionId dimension stateValidUntilEpochMs =
     ebind (iso_of stateValidUntilEpochMs)
       (\<lambda>validUntil. Inr \<lparr>el_regionId = regionId, el_dimension = dimension, el_state = CO_UNKNOWN,
          el_effectiveIndependentEvidence = 0, el_independenceClassDigests = [], el_sourceClasses = [],
          el_supportingObservationIds = [], el_degradationCauses = [], el_maximumObservedOcclusionFraction = None,
          el_reasonCodes = [''NO_TRUSTED_CURRENT_COVERAGE_ASSERTION''], el_validUntil = validUntil, el_authority = ''NONE''\<rparr>)"

definition fuseCoverageCell :: "string \<Rightarrow> string \<Rightarrow> TrustedCoverageAssertion list \<Rightarrow> TrustedCoverageContradiction list \<Rightarrow> js_num \<Rightarrow>
    js_num \<Rightarrow> js_num \<Rightarrow> string + EpistemicCoverageCell" where
  "fuseCoverageCell regionId dimension trusted contradictions stateValidUntilEpochMs minimum maxOcclusion =
     (let summaries = class_summaries trusted stateValidUntilEpochMs in
      if contradictions \<noteq> [] then contradicted_cell regionId dimension contradictions summaries stateValidUntilEpochMs
      else if summaries = [] then unknown_cell regionId dimension stateValidUntilEpochMs
      else supported_cell regionId dimension summaries stateValidUntilEpochMs minimum maxOcclusion)"

section \<open>The map and its digest\<close>

text \<open>\<open>stableStringify\<close> writes the keys of every object in order.\<close>
primrec stable_json :: "json \<Rightarrow> json" where
  "stable_json JNull = JNull"
| "stable_json (JBool b) = JBool b"
| "stable_json (JNum n) = JNum n"
| "stable_json (JStr s) = JStr s"
| "stable_json (JArr xs) = JArr (map stable_json xs)"
| "stable_json (JObj kvs) = JObj (sort_key fst (map (map_prod id stable_json) kvs))"

definition texts_json :: "string list \<Rightarrow> json" where
  "texts_json xs = JArr (map JStr xs)"

definition region_json :: "EpistemicCoverageRegion \<Rightarrow> json" where
  "region_json r = JObj ([(''regionId'', JStr (er_regionId r)), (''zoneId'', JStr (er_zoneId r)),
     (''regionType'', JStr (er_regionType r)), (''spatialFrameId'', JStr (er_spatialFrameId r)),
     (''geometryDigest'', JStr (er_geometryDigest r))] @
     json_opt ''roadSegmentId'' JStr (er_roadSegmentId r) @ json_opt ''laneId'' JStr (er_laneId r))"

definition cell_json :: "EpistemicCoverageCell \<Rightarrow> json" where
  "cell_json c = JObj [(''regionId'', JStr (el_regionId c)), (''dimension'', JStr (el_dimension c)),
     (''state'', JStr (coverage_state_name (el_state c))),
     (''effectiveIndependentEvidence'', JNum (Num (of_nat (el_effectiveIndependentEvidence c)))),
     (''independenceClassDigests'', texts_json (el_independenceClassDigests c)),
     (''sourceClasses'', texts_json (el_sourceClasses c)),
     (''supportingObservationIds'', texts_json (el_supportingObservationIds c)),
     (''degradationCauses'', texts_json (el_degradationCauses c)),
     (''maximumObservedOcclusionFraction'', case el_maximumObservedOcclusionFraction c of None \<Rightarrow> JNull | Some x \<Rightarrow> JNum x),
     (''reasonCodes'', texts_json (el_reasonCodes c)), (''validUntil'', JStr (el_validUntil c)), (''authority'', JStr (el_authority c))]"

text \<open>Everything of a map but its digest.\<close>
definition map_material :: "EpistemicCoverageMap \<Rightarrow> json" where
  "map_material m = JObj [(''schema'', JStr (em_schema m)), (''mapId'', JStr (em_mapId m)), (''crsId'', JStr (em_crsId m)),
     (''stateDigest'', JStr (em_stateDigest m)), (''zoneId'', JStr (em_zoneId m)), (''generatedAt'', JStr (em_generatedAt m)),
     (''validUntil'', JStr (em_validUntil m)), (''regions'', JArr (map region_json (em_regions m))),
     (''cells'', JArr (map cell_json (em_cells m))), (''authority'', JStr (em_authority m)),
     (''negativeSceneInferenceAuthorized'', JBool (em_negativeSceneInferenceAuthorized m))]"

definition coverageDigestValid :: "(json \<Rightarrow> string) \<Rightarrow> EpistemicCoverageMap \<Rightarrow> bool" where
  "coverageDigestValid digest m \<longleftrightarrow> digest (stable_json (map_material m)) = em_mapDigest m"

fun joined :: "string \<Rightarrow> string list \<Rightarrow> string" where
  "joined sep [] = []"
| "joined sep [s] = s"
| "joined sep (s # t # ss) = s @ sep @ joined sep (t # ss)"

definition validateBuildInput :: "EpistemicCoverageBuildInput \<Rightarrow> string + unit" where
  "validateBuildInput i =
     ebind (ensure (trim (eb_mapId i) \<noteq> []) ''MISSING_COVERAGE_MAP_ID'') (\<lambda>_.
     ebind (ensure (isFinite (eb_trustedNowEpochMs i)) ''INVALID_TRUSTED_COVERAGE_TIME'') (\<lambda>_.
     ebind (ensure (trim (eb_purpose i) \<noteq> [] \<and> trim (eb_jurisdiction i) \<noteq> [] \<and> trim (eb_eventEpoch i) \<noteq> []) ''INVALID_COVERAGE_CONTEXT'') (\<lambda>_.
     ebind (ensure (eb_regions i \<noteq> []) ''MISSING_COVERAGE_REGIONS'') (\<lambda>_.
     ebind (ensure (eb_dimensions i \<noteq> []) ''MISSING_COVERAGE_DIMENSIONS'') (\<lambda>_.
     ebind (ensure (list_all (\<lambda>d. d \<in> set COVERAGE_DIMENSIONS) (eb_dimensions i)) ''UNSUPPORTED_COVERAGE_DIMENSION'') (\<lambda>_.
     ebind (ensure (isSafeInteger (minimum_coverage i) \<and> \<not> num_lt (minimum_coverage i) (Num 1) \<and> \<not> num_lt (Num 16) (minimum_coverage i))
       ''INVALID_MINIMUM_INDEPENDENT_COVERAGE'') (\<lambda>_.
     ebind (ensure (num_between 0 1 (maximum_occlusion i)) ''INVALID_MAXIMUM_OBSERVED_OCCLUSION'') (\<lambda>_.
     ensure (dateParse (rs_validUntil (eb_state i)) \<noteq> None \<and>
       \<not> num_le (parsed_time (rs_validUntil (eb_state i))) (eb_trustedNowEpochMs i)) ''COGNITIVE_STATE_NOT_CURRENT_FOR_COVERAGE''))))))))"

text \<open>The loop over the regions; \<open>ids\<close> are those already seen.\<close>
fun check_regions :: "string \<Rightarrow> string list \<Rightarrow> EpistemicCoverageRegion list \<Rightarrow> string + unit" where
  "check_regions zoneId ids [] = Inr ()"
| "check_regions zoneId ids (r # rs) =
     ebind (ensure (validateEpistemicCoverageRegion r = [])
       (''INVALID_COVERAGE_REGION:'' @ joined '','' (validateEpistemicCoverageRegion r))) (\<lambda>_.
     ebind (ensure (er_regionId r \<notin> set ids) ''DUPLICATE_COVERAGE_REGION_ID'') (\<lambda>_.
     ebind (ensure (er_zoneId r = zoneId) ''COVERAGE_REGION_ZONE_MISMATCH'') (\<lambda>_.
     check_regions zoneId (er_regionId r # ids) rs)))"

definition sorted_regions :: "(string \<Rightarrow> string \<Rightarrow> int) \<Rightarrow> EpistemicCoverageRegion list \<Rightarrow> EpistemicCoverageRegion list" where
  "sorted_regions collate rs = js_sort (\<lambda>a b. collate (er_regionId a) (er_regionId b)) rs"

definition coverage_cell :: "EpistemicCoverageBuildInput \<Rightarrow> string \<Rightarrow> string \<Rightarrow> string + EpistemicCoverageCell" where
  "coverage_cell i regionId dimension = (let key = coverageCellKey regionId dimension in
     fuseCoverageCell regionId dimension (cell_assertions i key) (cell_contradictions i key)
       (parsed_time (rs_validUntil (eb_state i))) (minimum_coverage i) (maximum_occlusion i))"

definition coverage_grid :: "(string \<Rightarrow> string \<Rightarrow> int) \<Rightarrow> EpistemicCoverageBuildInput \<Rightarrow> (string \<times> string) list" where
  "coverage_grid collate i = concat (map (\<lambda>r. map (\<lambda>d. (er_regionId r, d)) (uniqueSorted (eb_dimensions i)))
     (sorted_regions collate (eb_regions i)))"

definition buildEpistemicCoverageMap :: "(json \<Rightarrow> string) \<Rightarrow> (string \<Rightarrow> string \<Rightarrow> int) \<Rightarrow> EpistemicCoverageBuildInput \<Rightarrow>
    string + EpistemicCoverageMap" where
  "buildEpistemicCoverageMap digest collate i =
     ebind (validateBuildInput i) (\<lambda>_.
     ebind (iso_of (eb_trustedNowEpochMs i)) (\<lambda>generatedAt.
     ebind (check_regions (rs_zoneId (eb_state i)) [] (eb_regions i)) (\<lambda>_.
     ebind (ensure (distinct (map ob_observationId (eb_observations i))) ''DUPLICATE_COVERAGE_OBSERVATION_ID'') (\<lambda>_.
     ebind (ensure (distinct (map ey_assertionId (eb_assertions i))) ''DUPLICATE_COVERAGE_ASSERTION_ID'') (\<lambda>_.
     ebind (ensure (distinct (map ex_contradictionId (case eb_contradictions i of None \<Rightarrow> [] | Some xs \<Rightarrow> xs)))
       ''DUPLICATE_COVERAGE_CONTRADICTION_ID'') (\<lambda>_.
     ebind (mapE (\<lambda>(r, d). coverage_cell i r d) (coverage_grid collate i)) (\<lambda>cells.
     ebind (iso_of (js_min (parsed_time (rs_validUntil (eb_state i)) #
       filter isFinite (map (\<lambda>c. parsed_time (el_validUntil c)) cells)))) (\<lambda>validUntil.
     let m = \<lparr>em_schema = EPISTEMIC_COVERAGE_MAP_SCHEMA, em_mapId = eb_mapId i, em_crsId = rs_crsId (eb_state i),
       em_stateDigest = rs_stateDigest (eb_state i), em_zoneId = rs_zoneId (eb_state i), em_generatedAt = generatedAt,
       em_validUntil = validUntil, em_regions = sorted_regions collate (eb_regions i), em_cells = cells, em_mapDigest = [],
       em_authority = ''NONE'', em_negativeSceneInferenceAuthorized = False\<rparr>
     in Inr (m\<lparr>em_mapDigest := digest (stable_json (map_material m))\<rparr>)))))))))"

section \<open>The gate\<close>

datatype CoverageGateDecision = ALLOW_ADVISORY_EVALUATION | GATE_REQUEST_MORE_EVIDENCE | GATE_ABSTAIN

text \<open>Without its constant parts: a gate has authority \<open>NONE\<close> and authorizes no negative inference.\<close>
record DecisionCriticalCoverageGate =
  eg_decision :: CoverageGateDecision
  eg_blockingRegionIds :: "string list"
  eg_blockingDimensions :: "string list"
  eg_reasonCodes :: "string list"

definition coverageGate :: "CoverageGateDecision \<Rightarrow> string list \<Rightarrow> string list \<Rightarrow> string list \<Rightarrow> DecisionCriticalCoverageGate" where
  "coverageGate decision regions dimensions reasons = \<lparr>eg_decision = decision, eg_blockingRegionIds = uniqueSorted regions,
     eg_blockingDimensions = uniqueSorted dimensions, eg_reasonCodes = uniqueSorted reasons\<rparr>"

definition cell_named :: "EpistemicCoverageMap \<Rightarrow> string \<Rightarrow> string \<Rightarrow> EpistemicCoverageCell option" where
  "cell_named m regionId dimension = find (\<lambda>c. el_regionId c = regionId \<and> el_dimension c = dimension) (em_cells m)"

text \<open>One round of the two loops: why a region is not covered in a dimension.\<close>
definition cell_block :: "EpistemicCoverageMap \<Rightarrow> int \<Rightarrow> bool \<Rightarrow> string \<Rightarrow> string \<Rightarrow> string option" where
  "cell_block m evaluatedAt allowDegraded regionId dimension =
     (case cell_named m regionId dimension of None \<Rightarrow> Some ''MISSING_DECISION_CRITICAL_COVERAGE_CELL''
      | Some cell \<Rightarrow>
        if num_lt (Num (of_int evaluatedAt)) (parsed_time (el_validUntil cell)) then
          (case el_state cell of
             CO_CONTRADICTED \<Rightarrow> Some ''DECISION_CRITICAL_COVERAGE_CONTRADICTED''
           | CO_BLIND \<Rightarrow> Some ''DECISION_CRITICAL_REGION_BLIND''
           | CO_UNKNOWN \<Rightarrow> Some ''DECISION_CRITICAL_REGION_UNKNOWN''
           | CO_DEGRADED \<Rightarrow> if allowDegraded then None else Some ''DECISION_CRITICAL_COVERAGE_DEGRADED''
           | CO_OBSERVED \<Rightarrow> None)
        else Some ''DECISION_CRITICAL_COVERAGE_CELL_EXPIRED'')"

definition blocked_cells :: "EpistemicCoverageMap \<Rightarrow> int \<Rightarrow> bool \<Rightarrow> string list \<Rightarrow> string list \<Rightarrow> (string \<times> string \<times> string) list" where
  "blocked_cells m evaluatedAt allowDegraded regionIds dimensions =
     concat (map (\<lambda>r. List.map_filter (\<lambda>d. map_option (\<lambda>reason. (r, d, reason)) (cell_block m evaluatedAt allowDegraded r d))
       (set_of_list dimensions)) (set_of_list regionIds))"

definition evaluateDecisionCriticalCoverage :: "(json \<Rightarrow> string) \<Rightarrow> EpistemicCoverageMap \<Rightarrow> CognitiveRoadState \<Rightarrow> string \<Rightarrow>
    string list \<Rightarrow> string list \<Rightarrow> bool \<Rightarrow> DecisionCriticalCoverageGate" where
  "evaluateDecisionCriticalCoverage digest m s evaluatedAt regionIds dimensions allowDegraded =
     (case dateParse evaluatedAt of None \<Rightarrow> coverageGate GATE_ABSTAIN [] [] [''INVALID_COVERAGE_EVALUATION_TIME'']
      | Some now \<Rightarrow>
        if em_schema m \<noteq> EPISTEMIC_COVERAGE_MAP_SCHEMA then coverageGate GATE_ABSTAIN [] [] [''UNSUPPORTED_COVERAGE_MAP_SCHEMA'']
        else if em_authority m \<noteq> ''NONE'' \<or> em_negativeSceneInferenceAuthorized m
        then coverageGate GATE_ABSTAIN [] [] [''COVERAGE_AUTHORITY_BOUNDARY_VIOLATION'']
        else if em_crsId m \<noteq> rs_crsId s \<or> em_stateDigest m \<noteq> rs_stateDigest s \<or> em_zoneId m \<noteq> rs_zoneId s
        then coverageGate GATE_ABSTAIN [] [] [''COVERAGE_CRS_BINDING_MISMATCH'']
        else if \<not> coverageDigestValid digest m then coverageGate GATE_ABSTAIN [] [] [''COVERAGE_MAP_DIGEST_MISMATCH'']
        else if cognitiveStateRequiresAbstention s then coverageGate GATE_ABSTAIN [] [] [''COGNITIVE_STATE_CONTRADICTED'']
        else if \<not> num_lt (Num (of_int now)) (parsed_time (em_validUntil m))
        then coverageGate GATE_REQUEST_MORE_EVIDENCE regionIds dimensions [''EPISTEMIC_COVERAGE_EXPIRED'']
        else if regionIds = [] \<or> dimensions = [] then coverageGate GATE_ABSTAIN [] [] [''EMPTY_DECISION_CRITICAL_COVERAGE_SCOPE'']
        else (let blocks = blocked_cells m now allowDegraded regionIds dimensions;
                  regions = map fst blocks; dims = map (fst \<circ> snd) blocks; reasons = map (snd \<circ> snd) blocks in
          if ''DECISION_CRITICAL_COVERAGE_CONTRADICTED'' \<in> set reasons then coverageGate GATE_ABSTAIN regions dims reasons
          else if reasons \<noteq> [] then coverageGate GATE_REQUEST_MORE_EVIDENCE regions dims reasons
          else coverageGate ALLOW_ADVISORY_EVALUATION [] [] [''DECISION_CRITICAL_COVERAGE_OBSERVED'']))"

definition evaluateCoverageGovernedCounterfactualCandidates :: "(json \<Rightarrow> string) \<Rightarrow> (string \<Rightarrow> string \<Rightarrow> int) \<Rightarrow>
    EpistemicCoverageMap \<Rightarrow> CognitiveRoadState \<Rightarrow> string \<Rightarrow> string list \<Rightarrow> string list \<Rightarrow> CounterfactualCandidate list \<Rightarrow> js_num \<Rightarrow>
    CounterfactualEvaluation" where
  "evaluateCoverageGovernedCounterfactualCandidates digest collate m s evaluatedAt criticalRegionIds requiredDimensions candidates
     maxRecommendationUncertainty =
     (let gate = evaluateDecisionCriticalCoverage digest m s evaluatedAt criticalRegionIds requiredDimensions False in
      if eg_decision gate \<noteq> ALLOW_ADVISORY_EVALUATION then
        counterfactualBlocked s evaluatedAt candidates
          (if eg_decision gate = GATE_ABSTAIN then FD_ABSTAIN else FD_REQUEST_MORE_EVIDENCE)
          (''EPISTEMIC_COVERAGE_GATE_BLOCK'' # eg_reasonCodes gate)
      else evaluateCounterfactualCandidates collate s evaluatedAt candidates maxRecommendationUncertainty)"

section \<open>Bounds of many numbers\<close>

lemma num_le_Num [simp]: "num_le (Num a) (Num b) \<longleftrightarrow> a \<le> b"
  by (auto simp: num_le_def)

lemma num_le_trans: "num_le x y \<Longrightarrow> num_le y z \<Longrightarrow> num_le x z"
  by (cases x; cases y; cases z) (auto simp: num_le_def)

lemma num_min_le: "num_min x y \<noteq> NaN \<Longrightarrow> num_le (num_min x y) x \<and> num_le (num_min x y) y"
  by (cases x; cases y) (auto simp: num_min_def num_le_def split: if_splits)

lemma num_max_le: "num_le (num_max x y) z \<Longrightarrow> num_le x z \<and> num_le y z"
  by (cases x; cases y; cases z) (auto simp: num_max_def num_le_def split: if_splits)

lemma js_min_le: "js_min xs \<noteq> NaN \<Longrightarrow> x \<in> set xs \<Longrightarrow> num_le (js_min xs) x"
proof (induction xs)
  case (Cons a xs)
  have le: "num_le (js_min (a # xs)) a \<and> num_le (js_min (a # xs)) (js_min xs)"
    using num_min_le [of a "js_min xs"] Cons.prems(1) by (simp add: js_min_def)
  then show ?case
    using Cons num_le_trans by (fastforce simp: num_le_def)
qed simp

lemma js_max_le: "num_le (js_max xs) z \<Longrightarrow> x \<in> set xs \<Longrightarrow> num_le x z"
  by (induction xs) (auto simp: js_max_def dest: num_max_le)

lemma iso_of_Inr: "iso_of x = Inr s \<Longrightarrow> \<exists>q. x = Num q \<and> dateParse s = Some (truncated q)"
  by (auto simp: iso_of_def toISO_parse split: js_num.splits option.splits)

lemma less_truncated: "t < truncated q \<Longrightarrow> of_int t < q"
  by (cases "0 \<le> q") (auto simp: truncated_def less_ceiling_iff less_floor_iff)

text \<open>A time before the smallest of many times is before each of them.\<close>
lemma before_minimum:
  assumes "iso_of (js_min xs) = Inr s" "dateParse s = Some u" "t < u" "x \<in> set xs"
  shows "num_lt (Num (of_int t)) x" and "x \<noteq> NaN"
proof -
  obtain q where q: "js_min xs = Num q" "u = truncated q" using iso_of_Inr [OF assms(1)] assms(2) by auto
  then have "num_le (Num q) x" using js_min_le [of xs x] assms(4) by simp
  then show "num_lt (Num (of_int t)) x" "x \<noteq> NaN"
    using less_truncated [of t q] assms(3) q(2) by (cases x; auto simp: num_le_def)+
qed

lemma before_inner_minimum:
  assumes "num_lt (Num (of_int t)) (js_min xs)" "js_min xs \<noteq> NaN" "x \<in> set xs"
  shows "num_lt (Num (of_int t)) x"
  using js_min_le [OF assms(2,3)] assms(1) by (cases x; cases "js_min xs") (auto simp: num_le_def)

lemma before_parsed: "num_lt (Num (of_int t)) (parsed_time s) \<longleftrightarrow> (\<exists>e. dateParse s = Some e \<and> t < e)"
  by (auto simp: parsed_time_def split: option.splits)

section \<open>Keys of cells\<close>

lemma bounded_no_NUL: "boundedIdentifier s \<Longrightarrow> CHR 0x00 \<notin> set s"
  by (cases s) (auto simp: boundedIdentifier_def list_all_iff is_token_char_def is_alnum_def is_digit_def is_lower_def is_upper_def code_unit_def)

lemma coverageCellKey_inject:
  assumes "coverageCellKey r d = coverageCellKey r' d'" "CHR 0x00 \<notin> set r" "CHR 0x00 \<notin> set r'"
  shows "r = r' \<and> d = d'"
proof -
  have key: "takeWhile (\<lambda>c. c \<noteq> CHR 0x00) (coverageCellKey s e) = s \<and> dropWhile (\<lambda>c. c \<noteq> CHR 0x00) (coverageCellKey s e) = CHR 0x00 # e"
    if "CHR 0x00 \<notin> set s" for s e
    using that by (induction s) (auto simp: coverageCellKey_def)
  then show ?thesis using assms by (metis list.inject)
qed

lemma check_regions_valid: "check_regions z ids rs = Inr u \<Longrightarrow> r \<in> set rs \<Longrightarrow> validateEpistemicCoverageRegion r = [] \<and> er_zoneId r = z"
  by (induction z ids rs rule: check_regions.induct) (auto simp: ebind_eq_Inr ensure_def split: if_splits)

lemma valid_region_id: "validateEpistemicCoverageRegion r = [] \<Longrightarrow> boundedIdentifier (er_regionId r)"
  by (simp add: validateEpistemicCoverageRegion_def reason_if_def split: if_splits)

section \<open>An observed cell is backed\<close>

text \<open>What backs a class of an observed cell, and is in force at the time \<open>t\<close>.\<close>
definition covers_at :: "EpistemicCoverageBuildInput \<Rightarrow> string \<Rightarrow> string \<Rightarrow> int \<Rightarrow> TrustedCoverageAssertion \<Rightarrow> bool" where
  "covers_at i regionId dimension t e \<longleftrightarrow> (let a = ta_assertion e; ob = ta_observation e; l = ta_lease e in
     a \<in> set (eb_assertions i) \<and> ob \<in> set (eb_observations i) \<and> l \<in> set (eb_leases i) \<and>
     ey_regionId a = regionId \<and> ey_dimension a = dimension \<and> ey_state a = ''COVERED'' \<and>
     num_le (ey_occlusionFraction a) (maximum_occlusion i) \<and> ey_observationId a = ob_observationId ob \<and>
     oa_disposition (assessSensorObservationAdmission ob (eb_trustedNowEpochMs i)) = OA_ACCEPT \<and>
     validateEpistemicIndependenceLease l (eb_trustedNowEpochMs i) = [] \<and> ob_observationId ob \<in> set (il_observationIds l) \<and>
     il_objectBinding l = coverageObjectBinding regionId dimension \<and> il_roadStateDigest l = rs_stateDigest (eb_state i) \<and>
     il_purpose l = eb_purpose i \<and> il_jurisdiction l = eb_jurisdiction i \<and> il_eventEpoch l = eb_eventEpoch i \<and>
     num_lt (Num (of_int t)) (parsed_time (ey_validUntil a)) \<and> num_lt (Num (of_int t)) (parsed_time (il_expiresAt l)) \<and>
     num_lt (Num (of_int t)) (fresh_until ob))"

lemma find_Some: "find P xs = Some x \<Longrightarrow> x \<in> set xs \<and> P x"
  by (induction xs) (auto split: if_splits)

lemma usable_observation_Some:
  "usable_observation i n = Some (ob, accepted) \<Longrightarrow> ob \<in> set (eb_observations i) \<and> ob_observationId ob = n \<and>
   accepted = (oa_disposition (assessSensorObservationAdmission ob (eb_trustedNowEpochMs i)) = OA_ACCEPT)"
  by (auto simp: usable_observation_def observation_named_def Let_def dest: find_Some split: option.splits if_splits)

lemma coverage_lease_Some:
  "coverage_lease i r d n = Some l \<Longrightarrow> l \<in> set (eb_leases i) \<and> coverage_lease_valid i l \<and>
   il_objectBinding l = coverageObjectBinding r d \<and> n \<in> set (il_observationIds l)"
  by (auto simp: coverage_lease_def validLeases_def dest: find_Some)

lemma trusted_assertion_Some:
  assumes "trusted_assertion i a = Some e"
  shows "ta_assertion e = a" "ey_regionId a \<in> er_regionId ` set (eb_regions i)"
    "usable_observation i (ey_observationId a) = Some (ta_observation e, ta_accepted e)"
    "coverage_lease i (ey_regionId a) (ey_dimension a) (ey_observationId a) = Some (ta_lease e)"
  using assms by (auto simp: trusted_assertion_def split: if_splits option.splits)

lemma trusted_region:
  assumes "e \<in> set (trusted_assertions i)"
  shows "\<exists>r\<in>set (eb_regions i). ey_regionId (ta_assertion e) = er_regionId r"
proof -
  obtain a where "trusted_assertion i a = Some e" using assms by (auto simp: trusted_assertions_def List.map_filter_def)
  from trusted_assertion_Some(1,2) [OF this] show ?thesis by auto
qed

lemma trusted_covers:
  assumes "e \<in> set (trusted_assertions i)" "ta_accepted e" "ey_state (ta_assertion e) = ''COVERED''"
    and "num_le (ey_occlusionFraction (ta_assertion e)) (maximum_occlusion i)"
    and "num_lt (Num (of_int t)) (parsed_time (ey_validUntil (ta_assertion e)))"
      "num_lt (Num (of_int t)) (parsed_time (il_expiresAt (ta_lease e)))"
      "num_lt (Num (of_int t)) (fresh_until (ta_observation e))"
  shows "covers_at i (ey_regionId (ta_assertion e)) (ey_dimension (ta_assertion e)) t e"
proof -
  have a: "ta_assertion e \<in> set (eb_assertions i)" "trusted_assertion i (ta_assertion e) = Some e"
    using assms(1) trusted_assertion_Some(1) by (auto simp: trusted_assertions_def List.map_filter_def)
  note trusted = trusted_assertion_Some(3,4) [OF a(2)]
  show ?thesis
    using a(1) assms(2-) usable_observation_Some [OF trusted(1)] coverage_lease_Some [OF trusted(2)]
    by (auto simp: covers_at_def coverage_lease_valid_def Let_def)
qed

lemma class_summaries_iff:
  "k \<in> set (class_summaries trusted until) \<Longrightarrow>
   \<exists>e. e \<in> set trusted \<and> ks_independenceClassDigest k = class_of e \<and>
     k = summarizeIndependenceClass (class_of e) (filter (\<lambda>t. class_of t = class_of e) trusted) until"
  by (auto simp: class_summaries_def summarizeIndependenceClass_def Let_def)

lemma distinct_summaries: "distinct (map ks_independenceClassDigest (class_summaries trusted until))"
proof -
  have "map ks_independenceClassDigest (class_summaries trusted until) = set_of_list (map class_of trusted)"
    by (simp add: class_summaries_def summarizeIndependenceClass_def Let_def comp_def)
  then show ?thesis by simp
qed

text \<open>The first assertion of a strongly covered class speaks for it.\<close>
lemma strong_class:
  assumes k: "k \<in> set (strong_covered maxOcclusion (class_summaries trusted until))"
    and t: "num_lt (Num (of_int t)) (ks_validUntilEpochMs k)" "ks_validUntilEpochMs k \<noteq> NaN"
  shows "\<exists>e\<in>set trusted. class_of e = ks_independenceClassDigest k \<and> ta_accepted e \<and> ey_state (ta_assertion e) = ''COVERED'' \<and>
    num_le (ey_occlusionFraction (ta_assertion e)) maxOcclusion \<and>
    num_lt (Num (of_int t)) (parsed_time (ey_validUntil (ta_assertion e))) \<and>
    num_lt (Num (of_int t)) (parsed_time (il_expiresAt (ta_lease e))) \<and> num_lt (Num (of_int t)) (fresh_until (ta_observation e))"
proof -
  have k': "k \<in> set (class_summaries trusted until)" "ks_state k = ''COVERED''" "\<not> ks_degradedByAdmission k"
    "num_le (ks_maximumOcclusionFraction k) maxOcclusion"
    using k by (auto simp: strong_covered_def)
  then obtain e where e: "e \<in> set trusted" "ks_independenceClassDigest k = class_of e"
    "k = summarizeIndependenceClass (class_of e) (filter (\<lambda>t. class_of t = class_of e) trusted) until"
    using class_summaries_iff by blast
  define vs where "vs = filter (\<lambda>t. class_of t = class_of e) trusted"
  have ks: "k = summarizeIndependenceClass (class_of e) vs until" using e(3) by (simp add: vs_def)
  have "vs \<noteq> []" using e(1) by (auto simp: vs_def filter_empty_conv)
  then have h: "hd vs \<in> set vs" by simp
  have "hd vs \<in> set trusted" "class_of (hd vs) = ks_independenceClassDigest k"
    using h e(2) by (auto simp: vs_def)
  moreover have "ta_accepted (hd vs)" "ey_state (ta_assertion (hd vs)) = ''COVERED''"
    using k'(2,3) h by (auto simp: ks summarizeIndependenceClass_def Let_def list_ex_iff split: if_splits)
  moreover have "num_le (ey_occlusionFraction (ta_assertion (hd vs))) maxOcclusion"
    using k'(4) h by (auto simp: ks summarizeIndependenceClass_def Let_def intro: js_max_le)
  moreover have "num_lt (Num (of_int t)) x" if "x \<in> {parsed_time (ey_validUntil (ta_assertion (hd vs))),
      parsed_time (il_expiresAt (ta_lease (hd vs))), fresh_until (ta_observation (hd vs))}" for x
    using t that h by (intro before_inner_minimum [of t _ x]) (auto simp: ks summarizeIndependenceClass_def Let_def)
  ultimately show ?thesis by blast
qed

lemma mapE_set: "mapE f xs = Inr ys \<Longrightarrow> y \<in> set ys \<longleftrightarrow> (\<exists>x\<in>set xs. f x = Inr y)"
  by (induction xs arbitrary: ys) (auto simp: ebind_eq_Inr)

lemma mapE_defined: "mapE f xs = Inr ys \<Longrightarrow> x \<in> set xs \<Longrightarrow> \<exists>y. f x = Inr y"
  by (induction xs arbitrary: ys) (auto simp: ebind_eq_Inr)

lemma built_cells:
  assumes "buildEpistemicCoverageMap digest collate i = Inr m" "cell \<in> set (em_cells m)"
  shows "isFinite (minimum_coverage i) \<and> (\<exists>r\<in>set (eb_regions i). \<exists>d\<in>set (eb_dimensions i).
    coverage_cell i (er_regionId r) d = Inr cell) \<and> (\<forall>r\<in>set (eb_regions i). boundedIdentifier (er_regionId r))"
proof -
  obtain u where u: "validateBuildInput i = Inr ()" "check_regions (rs_zoneId (eb_state i)) [] (eb_regions i) = Inr u"
    and cells: "mapE (\<lambda>(r, d). coverage_cell i r d) (coverage_grid collate i) = Inr (em_cells m)"
    using assms(1) by (auto simp: buildEpistemicCoverageMap_def ebind_eq_Inr Let_def split: if_splits)
  have "isSafeInteger (minimum_coverage i)"
    using u(1) by (auto simp: validateBuildInput_def ebind_eq_Inr ensure_def split: if_splits)
  then have "isFinite (minimum_coverage i)" by (cases "minimum_coverage i") auto
  moreover have "boundedIdentifier (er_regionId r)" if "r \<in> set (eb_regions i)" for r
    using check_regions_valid [OF u(2) that] valid_region_id by blast
  moreover obtain p where "p \<in> set (coverage_grid collate i)" "(\<lambda>(r, d). coverage_cell i r d) p = Inr cell"
    using mapE_set [OF cells] assms(2) by blast
  ultimately show ?thesis by (auto simp: coverage_grid_def sorted_regions_def)
qed

lemma fused_ids:
  "fuseCoverageCell r d trusted contradictions until minimum maxOcclusion = Inr cell \<Longrightarrow> el_regionId cell = r \<and> el_dimension cell = d"
  by (auto simp: fuseCoverageCell_def contradicted_cell_def unknown_cell_def supported_cell_def ebind_eq_Inr Let_def
      split: if_splits prod.splits)

lemma verdict_observed:
  "cell_verdict minimum maxOcclusion summaries = (CO_OBSERVED, reasons) \<Longrightarrow>
   num_le minimum (Num (of_nat (length (strong_covered maxOcclusion summaries))))"
  by (auto simp: cell_verdict_def Let_def split: if_splits)

lemma fused_observed:
  assumes "fuseCoverageCell r d trusted contradictions until minimum maxOcclusion = Inr cell" "el_state cell = CO_OBSERVED"
  shows "contradictions = [] \<and>
    num_le minimum (Num (of_nat (length (strong_covered maxOcclusion (class_summaries trusted until))))) \<and>
    iso_of (js_min (until # map ks_validUntilEpochMs (class_summaries trusted until))) = Inr (el_validUntil cell) \<and>
    set (el_independenceClassDigests cell) = ks_independenceClassDigest ` set (class_summaries trusted until)"
  using assms verdict_observed
  by (auto simp: fuseCoverageCell_def contradicted_cell_def unknown_cell_def supported_cell_def ebind_eq_Inr Let_def
      split: if_splits prod.splits)

text \<open>An observed cell names at least the minimum of independence classes, and each is backed up to the end of the cell.\<close>
lemma observed_cell_is_backed:
  assumes build: "buildEpistemicCoverageMap digest collate i = Inr m" and cell: "cell \<in> set (em_cells m)" "el_state cell = CO_OBSERVED"
    and t: "num_lt (Num (of_int t)) (parsed_time (el_validUntil cell))"
  shows "\<exists>classes. distinct classes \<and> num_le (minimum_coverage i) (Num (of_nat (length classes))) \<and>
    set classes \<subseteq> set (el_independenceClassDigests cell) \<and>
    num_lt (Num (of_int t)) (parsed_time (rs_validUntil (eb_state i))) \<and>
    (\<forall>k\<in>set classes. \<exists>e. class_of e = k \<and> covers_at i (el_regionId cell) (el_dimension cell) t e)"
proof -
  obtain r d where r: "r \<in> set (eb_regions i)" "coverage_cell i (er_regionId r) d = Inr cell"
    and bounded: "\<And>r. r \<in> set (eb_regions i) \<Longrightarrow> boundedIdentifier (er_regionId r)"
    using built_cells [OF build cell(1)] by blast
  let ?key = "coverageCellKey (er_regionId r) d" and ?until = "parsed_time (rs_validUntil (eb_state i))"
  let ?summaries = "class_summaries (cell_assertions i ?key) ?until"
  note fuse = r(2) [unfolded coverage_cell_def Let_def]
  note ids = fused_ids [OF fuse] and observed = fused_observed [OF fuse cell(2)]
  obtain u where u: "dateParse (el_validUntil cell) = Some u" "t < u" using t by (auto simp: before_parsed)
  have before: "num_lt (Num (of_int t)) x" "x \<noteq> NaN" if "x \<in> insert ?until (ks_validUntilEpochMs ` set ?summaries)" for x
    using before_minimum [of "?until # map ks_validUntilEpochMs ?summaries" "el_validUntil cell" u t x] observed u that by auto
  let ?strong = "strong_covered (maximum_occlusion i) ?summaries"
  have "\<exists>e. class_of e = ks_independenceClassDigest k \<and> covers_at i (el_regionId cell) (el_dimension cell) t e" if k: "k \<in> set ?strong" for k
  proof -
    have "k \<in> set ?summaries" using k by (simp add: strong_covered_def)
    then obtain e where e: "e \<in> set (cell_assertions i ?key)" "class_of e = ks_independenceClassDigest k" "ta_accepted e"
      "ey_state (ta_assertion e) = ''COVERED''" "num_le (ey_occlusionFraction (ta_assertion e)) (maximum_occlusion i)"
      "num_lt (Num (of_int t)) (parsed_time (ey_validUntil (ta_assertion e)))"
      "num_lt (Num (of_int t)) (parsed_time (il_expiresAt (ta_lease e)))" "num_lt (Num (of_int t)) (fresh_until (ta_observation e))"
      using strong_class [OF k] before [of "ks_validUntilEpochMs k"] by blast
    have trusted: "e \<in> set (trusted_assertions i)" and key: "assertion_key (ta_assertion e) = ?key"
      using e(1) by (auto simp: cell_assertions_def)
    obtain r' where "r' \<in> set (eb_regions i)" "ey_regionId (ta_assertion e) = er_regionId r'"
      using trusted_region [OF trusted] by blast
    then have "CHR 0x00 \<notin> set (ey_regionId (ta_assertion e))"
      using bounded_no_NUL [OF bounded [of r']] by simp
    then have "ey_regionId (ta_assertion e) = er_regionId r \<and> ey_dimension (ta_assertion e) = d"
      using key bounded_no_NUL [OF bounded [OF r(1)]] unfolding assertion_key_def by (intro coverageCellKey_inject) auto
    then have "covers_at i (el_regionId cell) (el_dimension cell) t e"
      using trusted_covers [OF trusted e(3-8)] ids by simp
    then show ?thesis using e(2) by blast
  qed
  moreover have "distinct (map ks_independenceClassDigest ?strong)"
    unfolding strong_covered_def using distinct_summaries by (rule distinct_map_filter)
  moreover have "set (map ks_independenceClassDigest ?strong) \<subseteq> set (el_independenceClassDigests cell)"
    using observed by (auto simp: strong_covered_def)
  ultimately show ?thesis
    using observed before [of ?until] by (intro exI [of _ "map ks_independenceClassDigest ?strong"]) auto
qed

section \<open>The gate\<close>

lemma coverageGate_decision [simp]: "eg_decision (coverageGate decision rs ds reasons) = decision"
  by (simp add: coverageGate_def)

lemma no_block:
  "blocked_cells m now allow rs ds = [] \<longleftrightarrow> (\<forall>r\<in>set rs. \<forall>d\<in>set ds. cell_block m now allow r d = None)"
  by (auto simp: blocked_cells_def List.map_filter_def filter_empty_conv)

lemma cell_block_None:
  "cell_block m now False r d = None \<longleftrightarrow> (\<exists>cell. cell_named m r d = Some cell \<and> el_state cell = CO_OBSERVED \<and>
     num_lt (Num (of_int now)) (parsed_time (el_validUntil cell)))"
  by (auto simp: cell_block_def split: option.splits EpistemicCoverageState.splits)

lemma gate_allows:
  assumes "eg_decision (evaluateDecisionCriticalCoverage digest m s evaluatedAt rs ds False) = ALLOW_ADVISORY_EVALUATION"
  shows "\<exists>now. dateParse evaluatedAt = Some now \<and> coverageDigestValid digest m \<and> em_stateDigest m = rs_stateDigest s \<and>
    em_crsId m = rs_crsId s \<and> rs \<noteq> [] \<and> ds \<noteq> [] \<and> num_lt (Num (of_int now)) (parsed_time (em_validUntil m)) \<and>
    (\<forall>r\<in>set rs. \<forall>d\<in>set ds. cell_block m now False r d = None)"
  using assms by (auto simp: evaluateDecisionCriticalCoverage_def Let_def no_block
      split: option.splits if_splits)

lemma governed_selection:
  assumes "ce_selectedCandidateId (evaluateCoverageGovernedCounterfactualCandidates digest collate m s evaluatedAt rs ds cs mx) = Some c"
  shows "eg_decision (evaluateDecisionCriticalCoverage digest m s evaluatedAt rs ds False) = ALLOW_ADVISORY_EVALUATION"
  using assms by (auto simp: evaluateCoverageGovernedCounterfactualCandidates_def counterfactualBlocked_def Let_def split: if_splits)


section \<open>A concrete map\<close>

definition sample_region :: EpistemicCoverageRegion where
  "sample_region = \<lparr>er_regionId = ''r-1'', er_zoneId = ''zone-1'', er_regionType = ''LANE'', er_spatialFrameId = ''f-1'',
     er_geometryDigest = hex_text CHR ''a'', er_roadSegmentId = None, er_laneId = None\<rparr>"

definition sample_coverage_assertion :: "string \<Rightarrow> EpistemicCoverageAssertion" where
  "sample_coverage_assertion name = \<lparr>ey_schema = EPISTEMIC_COVERAGE_ASSERTION_SCHEMA, ey_assertionId = name, ey_regionId = ''r-1'',
     ey_dimension = ''OCCUPANCY'', ey_observationId = name, ey_state = ''COVERED'', ey_confidence = Num (9 / 10),
     ey_occlusionFraction = Num (1 / 10), ey_degradationCauses = [], ey_reasonCodes = [],
     ey_validUntil = ''2026-01-01T00:05:00Z'', ey_authority = ''NONE''\<rparr>"

definition sample_coverage_input :: EpistemicCoverageBuildInput where
  "sample_coverage_input = \<lparr>eb_mapId = ''ob-1'', eb_state = sample_road_state, eb_trustedNowEpochMs = sample_now,
     eb_purpose = ''road-safety'', eb_jurisdiction = ''SA'', eb_eventEpoch = ''epoch-1'', eb_regions = [sample_region],
     eb_dimensions = [''OCCUPANCY''],
     eb_observations = [sample_observation ''ob-1'' ''2025-12-31T23:59:30Z'' (Num 5), sample_observation ''ob-2'' ''2025-12-31T23:59:40Z'' (Num 5)],
     eb_leases = [sample_independence_lease ''ob-1'' ''coverage:r-1:OCCUPANCY'' CHR ''1'', sample_independence_lease ''ob-2'' ''coverage:r-1:OCCUPANCY'' CHR ''2''],
     eb_assertions = [sample_coverage_assertion ''ob-1'', sample_coverage_assertion ''ob-2''],
     eb_contradictions = None, eb_minimumIndependentCoverage = None, eb_maximumObservedOcclusionFraction = None\<rparr>"

definition sample_trusted :: "string \<Rightarrow> string \<Rightarrow> char \<Rightarrow> TrustedCoverageAssertion" where
  "sample_trusted name captured c = \<lparr>ta_assertion = sample_coverage_assertion name,
     ta_observation = sample_observation name captured (Num 5),
     ta_lease = sample_independence_lease name ''coverage:r-1:OCCUPANCY'' c, ta_accepted = True\<rparr>"

lemma sample_identifiers: "boundedIdentifier ''r-1''" "boundedIdentifier ''zone-1''" "boundedIdentifier ''f-1''"
  "boundedIdentifier ''ob-1''" "boundedIdentifier ''ob-2''" "trim ''coverage:r-1:OCCUPANCY'' \<noteq> []"
  by code_simp+

lemma sample_input_fields:
  "eb_trustedNowEpochMs sample_coverage_input = sample_now" "rs_validUntil (eb_state sample_coverage_input) = ''2026-01-01T00:05:00Z''"
  "eb_state sample_coverage_input = sample_road_state"
  "minimum_coverage sample_coverage_input = Num 2"
  "maximum_occlusion sample_coverage_input = Num (3602879701896397 / 18014398509481984)"
  "eb_contradictions sample_coverage_input = None" "eb_regions sample_coverage_input = [sample_region]"
  "eb_assertions sample_coverage_input = [sample_coverage_assertion ''ob-1'', sample_coverage_assertion ''ob-2'']"
  "eb_observations sample_coverage_input = [sample_observation ''ob-1'' ''2025-12-31T23:59:30Z'' (Num 5), sample_observation ''ob-2'' ''2025-12-31T23:59:40Z'' (Num 5)]"
  "eb_leases sample_coverage_input = [sample_independence_lease ''ob-1'' ''coverage:r-1:OCCUPANCY'' CHR ''1'', sample_independence_lease ''ob-2'' ''coverage:r-1:OCCUPANCY'' CHR ''2'']"
  "eb_dimensions sample_coverage_input = [''OCCUPANCY'']"
  by (simp_all add: sample_coverage_input_def sample_road_state_def minimum_coverage_def maximum_occlusion_def)

lemma sample_input_valid:
  "validateBuildInput sample_coverage_input = Inr ()" "check_regions ''zone-1'' [] [sample_region] = Inr ()"
  by (simp add: validateBuildInput_def sample_input_fields ensure_def parsed_time_def perception_times sample_now_def COVERAGE_DIMENSIONS_def sample_road_state_bounds)
    (simp_all add: sample_coverage_input_def perception_texts sample_region_def validateEpistemicCoverageRegion_def reason_if_def
      sample_identifiers bounded_opt_def perception_digests perception_hex REGION_TYPES_def ensure_def max_safe_def)

lemma sample_trusted_assertions:
  "trusted_assertion sample_coverage_input (sample_coverage_assertion ''ob-1'') = Some (sample_trusted ''ob-1'' ''2025-12-31T23:59:30Z'' CHR ''1'')"
  "trusted_assertion sample_coverage_input (sample_coverage_assertion ''ob-2'') = Some (sample_trusted ''ob-2'' ''2025-12-31T23:59:40Z'' CHR ''2'')"
proof -
  let ?i = sample_coverage_input
  have named: "ob_observationId (sample_observation name captured e) = name" for name captured e
    by (simp add: sample_observation_def)
  have usable: "usable_observation ?i ''ob-1'' = Some (sample_observation ''ob-1'' ''2025-12-31T23:59:30Z'' (Num 5), True)"
    "usable_observation ?i ''ob-2'' = Some (sample_observation ''ob-2'' ''2025-12-31T23:59:40Z'' (Num 5), True)"
    by (simp_all add: usable_observation_def observation_named_def sample_input_fields named sample_admitted perception_times perception_texts)
  have "validateEpistemicIndependenceLease (sample_independence_lease ''ob-1'' ''coverage:r-1:OCCUPANCY'' CHR ''1'') sample_now = []"
    "validateEpistemicIndependenceLease (sample_independence_lease ''ob-2'' ''coverage:r-1:OCCUPANCY'' CHR ''2'') sample_now = []"
    using sample_lease_valid perception_hex perception_texts sample_identifiers by simp_all
  then have leases: "validLeases ?i = eb_leases ?i"
    by (simp add: validLeases_def coverage_lease_valid_def sample_input_fields)
      (simp add: sample_independence_lease_def sample_coverage_input_def sample_road_state_def)
  have "coverage_lease ?i ''r-1'' ''OCCUPANCY'' ''ob-1'' = Some (sample_independence_lease ''ob-1'' ''coverage:r-1:OCCUPANCY'' CHR ''1'')"
    "coverage_lease ?i ''r-1'' ''OCCUPANCY'' ''ob-2'' = Some (sample_independence_lease ''ob-2'' ''coverage:r-1:OCCUPANCY'' CHR ''2'')"
    by (simp_all add: coverage_lease_def leases sample_input_fields coverageObjectBinding_def sample_independence_lease_def)
  moreover have "validateEpistemicCoverageAssertion (sample_coverage_assertion ''ob-1'') = []"
    "validateEpistemicCoverageAssertion (sample_coverage_assertion ''ob-2'') = []"
    by (simp_all add: validateEpistemicCoverageAssertion_def sample_coverage_assertion_def reason_if_def sample_identifiers
        COVERAGE_DIMENSIONS_def ASSERTION_STATES_def perception_times)
  ultimately show
    "trusted_assertion ?i (sample_coverage_assertion ''ob-1'') = Some (sample_trusted ''ob-1'' ''2025-12-31T23:59:30Z'' CHR ''1'')"
    "trusted_assertion ?i (sample_coverage_assertion ''ob-2'') = Some (sample_trusted ''ob-2'' ''2025-12-31T23:59:40Z'' CHR ''2'')"
    by (simp_all add: trusted_assertion_def usable sample_input_fields sample_trusted_def)
      (simp_all add: sample_coverage_assertion_def sample_region_def COVERAGE_DIMENSIONS_def parsed_time_def perception_times sample_now_def usable)
qed

lemma sample_cell_inputs:
  "cell_assertions sample_coverage_input (coverageCellKey ''r-1'' ''OCCUPANCY'') =
     [sample_trusted ''ob-1'' ''2025-12-31T23:59:30Z'' CHR ''1'', sample_trusted ''ob-2'' ''2025-12-31T23:59:40Z'' CHR ''2'']"
  "cell_contradictions sample_coverage_input key = []"
proof -
  have "assertion_key (ta_assertion (sample_trusted name captured c)) = coverageCellKey ''r-1'' ''OCCUPANCY''" for name captured c
    by (simp add: assertion_key_def sample_trusted_def sample_coverage_assertion_def)
  then show "cell_assertions sample_coverage_input (coverageCellKey ''r-1'' ''OCCUPANCY'') =
     [sample_trusted ''ob-1'' ''2025-12-31T23:59:30Z'' CHR ''1'', sample_trusted ''ob-2'' ''2025-12-31T23:59:40Z'' CHR ''2'']"
    by (simp add: cell_assertions_def trusted_assertions_def sample_input_fields sample_trusted_assertions List.map_filter_def)
  show "cell_contradictions sample_coverage_input key = []"
    by (simp add: cell_contradictions_def sample_input_fields List.map_filter_def)
qed

text \<open>The summary of a class with one assertion.\<close>
lemma sample_summary:
  assumes "dateParse captured = Some t" "t \<le> 1767225580000"
  shows "ks_state (summarizeIndependenceClass k [sample_trusted name captured c] (Num 1767225900000)) = ''COVERED''"
    "\<not> ks_degradedByAdmission (summarizeIndependenceClass k [sample_trusted name captured c] (Num 1767225900000))"
    "ks_maximumOcclusionFraction (summarizeIndependenceClass k [sample_trusted name captured c] (Num 1767225900000)) = Num (1 / 10)"
    "ks_validUntilEpochMs (summarizeIndependenceClass k [sample_trusted name captured c] (Num 1767225900000)) = Num (of_int (t + 60000))"
proof -
  have "(of_int t :: rat) \<le> 1767225580000" using assms(2) by (metis of_int_le_iff of_int_numeral)
  then show "ks_validUntilEpochMs (summarizeIndependenceClass k [sample_trusted name captured c] (Num 1767225900000)) = Num (of_int (t + 60000))"
    by (simp add: summarizeIndependenceClass_def sample_trusted_def sample_coverage_assertion_def fresh_until_def sample_observation_def
      sample_independence_lease_def parsed_time_def perception_times assms(1) js_min_def num_min_def Let_def)
qed (simp_all add: summarizeIndependenceClass_def sample_trusted_def sample_coverage_assertion_def set_of_list_def js_max_def num_max_def Let_def)

lemma sample_summaries:
  "\<exists>a b. class_summaries [sample_trusted ''ob-1'' ''2025-12-31T23:59:30Z'' CHR ''1'', sample_trusted ''ob-2'' ''2025-12-31T23:59:40Z'' CHR ''2'']
      (Num 1767225900000) = [a, b] \<and> ks_state a = ''COVERED'' \<and> ks_state b = ''COVERED'' \<and>
     \<not> ks_degradedByAdmission a \<and> \<not> ks_degradedByAdmission b \<and> ks_maximumOcclusionFraction a = Num (1 / 10) \<and>
     ks_maximumOcclusionFraction b = Num (1 / 10) \<and> ks_validUntilEpochMs a = Num 1767225630000 \<and> ks_validUntilEpochMs b = Num 1767225640000"
proof -
  have of_class: "class_of (sample_trusted name captured c) = hex_text c" for name captured c
    by (simp add: class_of_def sample_trusted_def sample_independence_lease_def)
  have different: "hex_text CHR ''1'' \<noteq> hex_text CHR ''2''" "hex_text CHR ''2'' \<noteq> hex_text CHR ''1''" by (simp_all add: hex_text_def)
  have "class_summaries [sample_trusted ''ob-1'' ''2025-12-31T23:59:30Z'' CHR ''1'', sample_trusted ''ob-2'' ''2025-12-31T23:59:40Z'' CHR ''2'']
      (Num 1767225900000) =
    [summarizeIndependenceClass (hex_text CHR ''1'') [sample_trusted ''ob-1'' ''2025-12-31T23:59:30Z'' CHR ''1''] (Num 1767225900000),
     summarizeIndependenceClass (hex_text CHR ''2'') [sample_trusted ''ob-2'' ''2025-12-31T23:59:40Z'' CHR ''2''] (Num 1767225900000)]"
    using different by (simp add: class_summaries_def of_class set_of_list_def)
  then show ?thesis
    using sample_summary [OF perception_times(2)] sample_summary [OF perception_times(3)] by simp
qed

lemma sample_cell:
  "\<exists>cell. coverage_cell sample_coverage_input ''r-1'' ''OCCUPANCY'' = Inr cell \<and> el_regionId cell = ''r-1'' \<and>
     el_dimension cell = ''OCCUPANCY'' \<and> el_state cell = CO_OBSERVED \<and> el_validUntil cell = isoString 1767225630000"
proof -
  obtain a b where ab: "class_summaries [sample_trusted ''ob-1'' ''2025-12-31T23:59:30Z'' CHR ''1'', sample_trusted ''ob-2'' ''2025-12-31T23:59:40Z'' CHR ''2'']
      (Num 1767225900000) = [a, b]" "ks_state a = ''COVERED''" "ks_state b = ''COVERED''"
     "\<not> ks_degradedByAdmission a" "\<not> ks_degradedByAdmission b" "ks_maximumOcclusionFraction a = Num (1 / 10)"
     "ks_maximumOcclusionFraction b = Num (1 / 10)" "ks_validUntilEpochMs a = Num 1767225630000" "ks_validUntilEpochMs b = Num 1767225640000"
    using sample_summaries by blast
  have "cell_verdict (Num 2) (Num (3602879701896397 / 18014398509481984)) [a, b] = (CO_OBSERVED, [''INDEPENDENT_CURRENT_COVERAGE_CORROBORATED''])"
    by (simp add: cell_verdict_def coverage_capable_def strong_covered_def ab reason_if_def)
  moreover have "iso_of (js_min [Num 1767225900000, Num 1767225630000, Num 1767225640000]) = Inr (isoString 1767225630000)"
    by (simp add: js_min_def num_min_def iso_of_def truncated_def toISO_def timeClip_def)
  moreover have "parsed_time ''2026-01-01T00:05:00Z'' = Num 1767225900000" by (simp add: parsed_time_def perception_times)
  ultimately show ?thesis
    by (simp add: coverage_cell_def sample_input_fields sample_cell_inputs fuseCoverageCell_def ab supported_cell_def sample_road_state_bounds Let_def)
qed

lemma sample_map_built:
  "\<exists>m cell. buildEpistemicCoverageMap (\<lambda>_. ''digest'') (\<lambda>_ _. 0) sample_coverage_input = Inr m \<and> em_cells m = [cell] \<and>
     el_regionId cell = ''r-1'' \<and> el_dimension cell = ''OCCUPANCY'' \<and> el_state cell = CO_OBSERVED \<and>
     el_validUntil cell = isoString 1767225630000 \<and> em_validUntil m = isoString 1767225630000 \<and>
     em_schema m = EPISTEMIC_COVERAGE_MAP_SCHEMA \<and> em_authority m = ''NONE'' \<and> \<not> em_negativeSceneInferenceAuthorized m \<and>
     em_crsId m = rs_crsId sample_road_state \<and> em_stateDigest m = rs_stateDigest sample_road_state \<and> em_zoneId m = rs_zoneId sample_road_state \<and>
     em_mapDigest m = ''digest''"
proof -
  obtain cell where cell: "coverage_cell sample_coverage_input ''r-1'' ''OCCUPANCY'' = Inr cell" "el_regionId cell = ''r-1''"
     "el_dimension cell = ''OCCUPANCY''" "el_state cell = CO_OBSERVED" "el_validUntil cell = isoString 1767225630000"
    using sample_cell by blast
  have "er_regionId sample_region = ''r-1''" by (simp add: sample_region_def)
  then have cells: "mapE (\<lambda>(r, d). coverage_cell sample_coverage_input r d) (coverage_grid (\<lambda>_ _. 0) sample_coverage_input) = Inr [cell]"
    by (simp add: coverage_grid_def sorted_regions_def js_sort_def sample_input_fields uniqueSorted_def cell)
  have times: "parsed_time (isoString 1767225630000) = Num 1767225630000" "parsed_time ''2026-01-01T00:05:00Z'' = Num 1767225900000"
    by (simp_all add: parsed_time_def dateParse_isoString perception_times)
  have until: "iso_of (js_min [Num 1767225900000, Num 1767225630000]) = Inr (isoString 1767225630000)"
    by (simp add: js_min_def num_min_def iso_of_def truncated_def toISO_def timeClip_def)
  have now: "iso_of sample_now = Inr (isoString 1767225600000)"
    by (simp add: sample_now_def iso_of_def truncated_def toISO_def timeClip_def)
  have distinct: "distinct (map ob_observationId (eb_observations sample_coverage_input))" "distinct (map ey_assertionId (eb_assertions sample_coverage_input))"
    "rs_zoneId sample_road_state = ''zone-1''"
    by (simp_all add: sample_input_fields sample_observation_def sample_coverage_assertion_def sample_road_state_def)
  show ?thesis
    unfolding buildEpistemicCoverageMap_def
    by (simp add: sample_input_valid sample_input_fields(1,3,6,7) now distinct cells until times sample_road_state_bounds ensure_def cell Let_def
        del: check_regions.simps)
qed


end
