(* ===== verification/RoadStateBuilder.thy ===== *)
theory RoadStateBuilder
  imports Coverage
begin

text \<open>
  How a cognitive road state is built from observations and assessed claims
  (\<open>apps/api/src/perception/cognitive-road-state-builder.ts\<close>), and what a contradiction among them does to the
  recommendations made on it. The parameters are \<open>digest\<close> (of a value with sorted keys) and \<open>collate\<close>.
\<close>

section \<open>The input\<close>

record CognitiveRoadStateBuildInput =
  bi_crsId :: string
  bi_zoneId :: string
  bi_stateTime :: string
  bi_validUntil :: string
  bi_trustedNowEpochMs :: js_num
  bi_observations :: "SensorObservationEnvelope list"
  bi_assuranceResults :: "EvidenceAssuranceResult list"

record CognitiveRoadStateBuildResult =
  br_state :: CognitiveRoadState
  br_abstentionRequired :: bool
  br_admittedObservationIds :: "string list"
  br_excludedObservationIds :: "string list"

record TrackCandidate =
  tn_envelope :: SensorObservationEnvelope
  tn_track :: ObservedTrack

definition validateBuildWindow :: "CognitiveRoadStateBuildInput \<Rightarrow> string + unit" where
  "validateBuildWindow i =
     (if trim (bi_crsId i) = [] then Inl ''MISSING_CRS_ID''
      else if trim (bi_zoneId i) = [] then Inl ''MISSING_ZONE_ID''
      else case (dateParse (bi_stateTime i), dateParse (bi_validUntil i)) of
        (Some stateTime, Some validUntil) \<Rightarrow>
          if validUntil \<le> stateTime then Inl ''INVALID_CRS_WINDOW''
          else if num_lt (num_add (bi_trustedNowEpochMs i) (Num 1000)) (Num (of_int stateTime)) then Inl ''CRS_TIME_FROM_FUTURE''
          else Inr ()
      | _ \<Rightarrow> Inl ''INVALID_CRS_WINDOW'')"

fun check_assurance :: "string list \<Rightarrow> EvidenceAssuranceResult list \<Rightarrow> string + unit" where
  "check_assurance seen [] = Inr ()"
| "check_assurance seen (a # as) =
     (if ea_authority a \<noteq> ''NONE'' then Inl ''ASSURANCE_AUTHORITY_IMPORT_FORBIDDEN''
      else if ea_objectBinding a \<in> set seen then Inl ''DUPLICATE_ASSURANCE_OBJECT_BINDING''
      else check_assurance (ea_objectBinding a # seen) as)"

text \<open>The map of the results by object: bindings do not repeat once they are checked.\<close>
definition assurance_for :: "EvidenceAssuranceResult list \<Rightarrow> string \<Rightarrow> EvidenceAssuranceResult option" where
  "assurance_for results object = find (\<lambda>a. ea_objectBinding a = object) results"

section \<open>Tracks\<close>

text \<open>The tracks of the admitted observations, in order; the map by track identifier is a filter of this list.\<close>
definition track_candidates :: "SensorObservationEnvelope list \<Rightarrow> TrackCandidate list" where
  "track_candidates admitted = concat (map (\<lambda>ob. case ob_payload ob of
       TRACK_SET tracks \<Rightarrow> map (\<lambda>t. \<lparr>tn_envelope = ob, tn_track = t\<rparr>) tracks
     | _ \<Rightarrow> []) admitted)"

fun check_tracks :: "TrackCandidate list \<Rightarrow> string + unit" where
  "check_tracks [] = Inr ()"
| "check_tracks (c # cs) =
     (if trim (tk_trackId (tn_track c)) = [] then Inl ''MISSING_TRACK_ID''
      else if \<not> num_between 0 1 (tk_confidence (tn_track c)) then Inl ''INVALID_TRACK_CONFIDENCE''
      else check_tracks cs)"

definition candidates_of :: "TrackCandidate list \<Rightarrow> string \<Rightarrow> TrackCandidate list" where
  "candidates_of cs trackId = filter (\<lambda>c. tk_trackId (tn_track c) = trackId) cs"

definition numbers_json :: "js_num list \<Rightarrow> json" where
  "numbers_json xs = JArr (map JNum xs)"

definition kinematics_json :: "EstimatedKinematicState \<Rightarrow> json" where
  "kinematics_json k = JObj ([(''positionM'', numbers_json (ek_positionM k)), (''estimatedVelocityMps'', numbers_json (ek_estimatedVelocityMps k))] @
     json_opt ''estimatedAccelerationMps2'' numbers_json (ek_estimatedAccelerationMps2 k) @
     [(''covariance'', numbers_json (ek_covariance k)), (''estimator'', JStr (ek_estimator k))])"

definition nullable_json :: "string option \<Rightarrow> json" where
  "nullable_json v = (case v of None \<Rightarrow> JNull | Some s \<Rightarrow> JStr s)"

definition digestTrackState :: "(json \<Rightarrow> string) \<Rightarrow> ObservedTrack \<Rightarrow> string" where
  "digestTrackState digest t = digest (stable_json (JObj [(''objectClass'', JStr (tk_objectClass t)),
     (''state'', kinematics_json (tk_state t)), (''laneId'', nullable_json (tk_laneId t)),
     (''roadSegmentId'', nullable_json (tk_roadSegmentId t))]))"

definition cohort_key :: "TrackCandidate \<Rightarrow> string" where
  "cohort_key c = ob_sourceId (tn_envelope c) @ CHR 0x00 # ob_capturedAt (tn_envelope c)"

text \<open>The observations of the cohorts in which the same track has more than one state.\<close>
definition sameSourceSameCaptureContradictions :: "(json \<Rightarrow> string) \<Rightarrow> TrackCandidate list \<Rightarrow> string list" where
  "sameSourceSameCaptureContradictions digest cs =
     uniqueSorted (concat (map (\<lambda>key. (let cohort = filter (\<lambda>c. cohort_key c = key) cs in
        if length (set_of_list (map (\<lambda>c. digestTrackState digest (tn_track c)) cohort)) \<le> 1 then []
        else map (\<lambda>c. ob_observationId (tn_envelope c)) cohort)) (set_of_list (map cohort_key cs))))"

text \<open>The time of capture; admitted observations have one.\<close>
definition captured_ms :: "SensorObservationEnvelope \<Rightarrow> int" where
  "captured_ms ob = (case dateParse (ob_capturedAt ob) of None \<Rightarrow> 0 | Some t \<Rightarrow> t)"

definition compareTrackCandidatesNewestFirst :: "(string \<Rightarrow> string \<Rightarrow> int) \<Rightarrow> TrackCandidate \<Rightarrow> TrackCandidate \<Rightarrow> int" where
  "compareTrackCandidatesNewestFirst collate a b =
     (let time = captured_ms (tn_envelope b) - captured_ms (tn_envelope a);
          source = collate (ob_sourceId (tn_envelope a)) (ob_sourceId (tn_envelope b))
      in if time \<noteq> 0 then time else if source \<noteq> 0 then source
         else collate (ob_observationId (tn_envelope a)) (ob_observationId (tn_envelope b)))"

definition upper_char :: "char \<Rightarrow> char" where
  "upper_char c = (if is_lower c then char_of (code_unit c - 32) else c)"

text \<open>\<open>toUpperCase\<close> is written out for ASCII letters: no name with another letter is supported in either case.\<close>
definition mapEntityClass :: "string \<Rightarrow> string" where
  "mapEntityClass s = (let normalized = map upper_char (trim s) in
     if normalized \<in> set [''VEHICLE'', ''PEDESTRIAN'', ''CYCLIST'', ''LIVESTOCK'', ''DEBRIS'', ''STATIC_OBSTACLE'',
       ''EMERGENCY_VEHICLE'', ''UNKNOWN''] then normalized else ''UNKNOWN'')"

definition entityValidUntil :: "TrackCandidate list \<Rightarrow> string \<Rightarrow> string + string" where
  "entityValidUntil cs crsValidUntil = iso_of (js_min (parsed_time crsValidUntil # map (\<lambda>c. fresh_until (tn_envelope c)) cs))"

definition boundedConfidence :: "js_num \<Rightarrow> string + js_num" where
  "boundedConfidence x = (if \<not> isFinite x then Inl ''NON_FINITE_CONFIDENCE'' else Inr (num_max (Num 0) (num_min (Num 1) x)))"

section \<open>Entities\<close>

definition epistemic_state :: "bool \<Rightarrow> EvidenceAssuranceResult option \<Rightarrow> EpistemicState" where
  "epistemic_state diverges assurance =
     (case assurance of
        None \<Rightarrow> if diverges then ES_CONTRADICTED else ES_UNKNOWN
      | Some a \<Rightarrow> if diverges \<or> ea_decision a = ED_CONTRADICTED then ES_CONTRADICTED
          else if ea_decision a = ED_CORROBORATED then ES_CORROBORATED else ES_UNCERTAIN)"

text \<open>What the loop notes of the contradictions of a track.\<close>
definition track_contradiction :: "string \<Rightarrow> string list \<Rightarrow> string list \<Rightarrow> EvidenceAssuranceResult option \<Rightarrow> CognitiveContradiction list" where
  "track_contradiction trackId diverging envelopeIds assurance =
     (let contradicted = (case assurance of None \<Rightarrow> False | Some a \<Rightarrow> ea_decision a = ED_CONTRADICTED) in
      if diverging \<noteq> [] \<or> contradicted then
        [\<lparr>ct_contradictionId = ''contradiction:'' @ trackId, ct_observationIds = (if contradicted then envelopeIds else diverging),
          ct_material = True,
          ct_reason = (if diverging \<noteq> [] then ''DIVERGENT_SAME_SOURCE_TRACK_STATE'' else ''CPAL_MATERIAL_CONTRADICTION'')\<rparr>]
      else [])"

text \<open>One round of the loop over the tracks.\<close>
definition build_entity :: "(json \<Rightarrow> string) \<Rightarrow> (string \<Rightarrow> string \<Rightarrow> int) \<Rightarrow> CognitiveRoadStateBuildInput \<Rightarrow> TrackCandidate list \<Rightarrow> string \<Rightarrow>
    string + CognitiveEntity \<times> CognitiveContradiction list" where
  "build_entity digest collate i tracks trackId =
     (let cs = candidates_of tracks trackId;
          newest = tn_track (hd (js_sort (compareTrackCandidatesNewestFirst collate) cs));
          diverging = sameSourceSameCaptureContradictions digest cs;
          assurance = assurance_for (bi_assuranceResults i) trackId;
          state = epistemic_state (diverging \<noteq> []) assurance;
          envelopeIds = uniqueSorted (map (\<lambda>c. ob_observationId (tn_envelope c)) cs);
          nested = uniqueSorted (concat (map (\<lambda>c. tk_supportingObservationIds (tn_track c)) cs))
      in ebind (boundedConfidence (if state = ES_CONTRADICTED then num_min (tk_confidence newest) (Num (1 / 2)) else tk_confidence newest))
         (\<lambda>confidence.
         ebind (entityValidUntil cs (bi_validUntil i)) (\<lambda>validUntil.
         Inr (\<lparr>en_entityId = trackId, en_entityClass = mapEntityClass (tk_objectClass newest), en_state = tk_state newest,
            en_laneId = tk_laneId newest, en_roadSegmentId = tk_roadSegmentId newest,
            en_supportingObservationIds = uniqueSorted (envelopeIds @ nested),
            en_contradictingObservationIds = (if state = ES_CONTRADICTED then (if diverging \<noteq> [] then diverging else envelopeIds) else []),
            en_confidence = confidence, en_epistemicState = state, en_validUntil = validUntil\<rparr>,
          track_contradiction trackId diverging envelopeIds assurance))))"

section \<open>The state and its digests\<close>

definition json_set :: "string \<Rightarrow> json \<Rightarrow> (string \<times> json) list \<Rightarrow> (string \<times> json) list" where
  "json_set k v kvs = (if k \<in> set (map fst kvs) then map (\<lambda>(k', v'). if k' = k then (k, v) else (k', v')) kvs else kvs @ [(k, v)])"

definition latestEnvironment :: "SensorObservationEnvelope list \<Rightarrow> (string \<times> json) list" where
  "latestEnvironment admitted =
     (case js_sort (\<lambda>a b. captured_ms b - captured_ms a)
         (filter (\<lambda>ob. case ob_payload ob of ENVIRONMENT _ \<Rightarrow> True | _ \<Rightarrow> False) admitted) of
        [] \<Rightarrow> []
      | latest # _ \<Rightarrow> (case ob_payload latest of
          ENVIRONMENT kvs \<Rightarrow> json_set ''capturedAt'' (JStr (ob_capturedAt latest)) (json_set ''observationId'' (JStr (ob_observationId latest)) kvs)
        | _ \<Rightarrow> []))"

fun health_state_name :: "SensorHealthState \<Rightarrow> string" where
  "health_state_name SH_HEALTHY = ''HEALTHY''"
| "health_state_name SH_DEGRADED = ''DEGRADED''"
| "health_state_name SH_QUARANTINED = ''QUARANTINED''"
| "health_state_name SH_UNAVAILABLE = ''UNAVAILABLE''"

fun epistemic_name :: "EpistemicState \<Rightarrow> string" where
  "epistemic_name ES_CORROBORATED = ''CORROBORATED''"
| "epistemic_name ES_UNCERTAIN = ''UNCERTAIN''"
| "epistemic_name ES_CONTRADICTED = ''CONTRADICTED''"
| "epistemic_name ES_UNKNOWN = ''UNKNOWN''"

definition health_json :: "SensorObservationEnvelope \<Rightarrow> json" where
  "health_json ob = (let h = ob_health ob in JObj [(''sourceId'', JStr (ob_sourceId ob)), (''state'', JStr (health_state_name (sh_state h))),
     (''score'', JNum (sh_score h)), (''causes'', texts_json (sort (sh_degradationCauses h))), (''assessedAt'', JStr (sh_assessedAt h))])"

definition sensor_health_digest :: "(json \<Rightarrow> string) \<Rightarrow> (string \<Rightarrow> string \<Rightarrow> int) \<Rightarrow> SensorObservationEnvelope list \<Rightarrow> string" where
  "sensor_health_digest digest collate admitted = digest (stable_json (JArr (map health_json
     (js_sort (\<lambda>a b. collate (ob_sourceId a) (ob_sourceId b)) admitted))))"

definition entity_json :: "CognitiveEntity \<Rightarrow> json" where
  "entity_json e = JObj ([(''entityId'', JStr (en_entityId e)), (''entityClass'', JStr (en_entityClass e)), (''state'', kinematics_json (en_state e))] @
     json_opt ''laneId'' JStr (en_laneId e) @ json_opt ''roadSegmentId'' JStr (en_roadSegmentId e) @
     [(''supportingObservationIds'', texts_json (en_supportingObservationIds e)),
      (''contradictingObservationIds'', texts_json (en_contradictingObservationIds e)), (''confidence'', JNum (en_confidence e)),
      (''epistemicState'', JStr (epistemic_name (en_epistemicState e))), (''validUntil'', JStr (en_validUntil e))])"

definition contradiction_json :: "CognitiveContradiction \<Rightarrow> json" where
  "contradiction_json c = JObj [(''contradictionId'', JStr (ct_contradictionId c)), (''observationIds'', texts_json (ct_observationIds c)),
     (''material'', JBool (ct_material c)), (''reason'', JStr (ct_reason c))]"

definition state_material :: "CognitiveRoadState \<Rightarrow> json" where
  "state_material s = JObj [(''schema'', JStr (rs_schema s)), (''crsId'', JStr (rs_crsId s)), (''zoneId'', JStr (rs_zoneId s)),
     (''stateTime'', JStr (rs_stateTime s)), (''validUntil'', JStr (rs_validUntil s)), (''sensorHealthDigest'', JStr (rs_sensorHealthDigest s)),
     (''entities'', JArr (map entity_json (rs_entities s))), (''contradictions'', JArr (map contradiction_json (rs_contradictions s))),
     (''environment'', JObj (rs_environment s)), (''evidenceObservationIds'', texts_json (rs_evidenceObservationIds s)),
     (''epistemicSummary'', JObj [(''known'', texts_json (es_known (rs_epistemicSummary s))),
       (''uncertain'', texts_json (es_uncertain (rs_epistemicSummary s))), (''unknown'', texts_json (es_unknown (rs_epistemicSummary s)))])]"

definition ids_in_state :: "EpistemicState list \<Rightarrow> CognitiveEntity list \<Rightarrow> string list" where
  "ids_in_state states es = sort (map en_entityId (filter (\<lambda>e. en_epistemicState e \<in> set states) es))"

definition admitted_now :: "CognitiveRoadStateBuildInput \<Rightarrow> SensorObservationEnvelope \<Rightarrow> bool" where
  "admitted_now i ob \<longleftrightarrow> oa_usableForCurrentState (assessSensorObservationAdmission ob (bi_trustedNowEpochMs i))"

definition buildCognitiveRoadState :: "(json \<Rightarrow> string) \<Rightarrow> (string \<Rightarrow> string \<Rightarrow> int) \<Rightarrow> CognitiveRoadStateBuildInput \<Rightarrow>
    string + CognitiveRoadStateBuildResult" where
  "buildCognitiveRoadState digest collate i =
     ebind (validateBuildWindow i) (\<lambda>_.
     ebind (ensure (distinct (map ob_observationId (bi_observations i))) ''DUPLICATE_OBSERVATION_ID'') (\<lambda>_.
     let admitted = filter (admitted_now i) (bi_observations i);
         excluded = map ob_observationId (filter (\<lambda>ob. \<not> admitted_now i ob) (bi_observations i));
         tracks = track_candidates admitted
     in
     ebind (check_assurance [] (bi_assuranceResults i)) (\<lambda>_.
     ebind (check_tracks tracks) (\<lambda>_.
     ebind (mapE (build_entity digest collate i tracks) (uniqueSorted (map (\<lambda>c. tk_trackId (tn_track c)) tracks))) (\<lambda>built.
     let entities = map fst built;
         state = \<lparr>rs_schema = COGNITIVE_ROAD_STATE_SCHEMA, rs_crsId = bi_crsId i, rs_zoneId = bi_zoneId i, rs_stateTime = bi_stateTime i,
           rs_validUntil = bi_validUntil i, rs_stateDigest = [], rs_sensorHealthDigest = sensor_health_digest digest collate admitted,
           rs_entities = entities, rs_environment = latestEnvironment admitted,
           rs_evidenceObservationIds = uniqueSorted (map ob_observationId admitted), rs_contradictions = concat (map snd built),
           rs_epistemicSummary = \<lparr>es_known = ids_in_state [ES_CORROBORATED] entities,
             es_uncertain = ids_in_state [ES_UNCERTAIN, ES_CONTRADICTED] entities, es_unknown = ids_in_state [ES_UNKNOWN] entities\<rparr>\<rparr>;
         digested = state\<lparr>rs_stateDigest := digest (stable_json (state_material state))\<rparr>
     in Inr \<lparr>br_state = digested, br_abstentionRequired = cognitiveStateRequiresAbstention digested,
         br_admittedObservationIds = rs_evidenceObservationIds digested, br_excludedObservationIds = sort excluded\<rparr>)))))"

section \<open>Contradictions reach the recommendation\<close>

lemma built_state:
  assumes "buildCognitiveRoadState digest collate i = Inr r"
  shows "\<exists>built. mapE (build_entity digest collate i (track_candidates (filter (admitted_now i) (bi_observations i))))
      (uniqueSorted (map (\<lambda>c. tk_trackId (tn_track c)) (track_candidates (filter (admitted_now i) (bi_observations i))))) = Inr built \<and>
    rs_entities (br_state r) = map fst built \<and> rs_contradictions (br_state r) = concat (map snd built) \<and>
    br_abstentionRequired r = cognitiveStateRequiresAbstention (br_state r) \<and> check_assurance [] (bi_assuranceResults i) = Inr () \<and>
    rs_validUntil (br_state r) = bi_validUntil i"
  using assms by (auto simp: buildCognitiveRoadState_def ebind_eq_Inr Let_def ensure_def split: if_splits)

text \<open>The two lists of a built state belong to its tracks, one entity for each.\<close>
lemma built_tracks:
  assumes "buildCognitiveRoadState digest collate i = Inr r"
  shows "e \<in> set (rs_entities (br_state r)) \<longleftrightarrow>
    (\<exists>trackId cs. trackId \<in> (\<lambda>c. tk_trackId (tn_track c)) ` set (track_candidates (filter (admitted_now i) (bi_observations i))) \<and>
      build_entity digest collate i (track_candidates (filter (admitted_now i) (bi_observations i))) trackId = Inr (e, cs))"
proof -
  let ?tracks = "track_candidates (filter (admitted_now i) (bi_observations i))"
  let ?ids = "uniqueSorted (map (\<lambda>c. tk_trackId (tn_track c)) ?tracks)"
  obtain built where built: "mapE (build_entity digest collate i ?tracks) ?ids = Inr built" "rs_entities (br_state r) = map fst built"
    using built_state [OF assms] by blast
  have "e \<in> set (map fst built) \<longleftrightarrow> (\<exists>cs. (e, cs) \<in> set built)" by force
  then show ?thesis unfolding built(2) mapE_set [OF built(1)] by auto
qed

lemma entity_state:
  "build_entity digest collate i tracks trackId = Inr (e, cs) \<Longrightarrow> en_entityId e = trackId \<and>
   en_epistemicState e = epistemic_state (sameSourceSameCaptureContradictions digest (candidates_of tracks trackId) \<noteq> [])
     (assurance_for (bi_assuranceResults i) trackId) \<and>
   entityValidUntil (candidates_of tracks trackId) (bi_validUntil i) = Inr (en_validUntil e)"
  by (auto simp: build_entity_def ebind_eq_Inr Let_def)

lemma check_assurance_distinct:
  "check_assurance seen as = Inr u \<Longrightarrow> distinct (map ea_objectBinding as) \<and> (\<forall>a\<in>set as. ea_objectBinding a \<notin> set seen)"
  by (induction seen as rule: check_assurance.induct) (auto split: if_splits)

lemma assurance_for_member:
  "distinct (map ea_objectBinding as) \<Longrightarrow> a \<in> set as \<Longrightarrow> assurance_for as (ea_objectBinding a) = Some a"
  unfolding assurance_for_def by (induction as) (auto simp: image_iff)

lemma track_candidate_in:
  "c \<in> set (track_candidates obs) \<longleftrightarrow> (\<exists>tracks. tn_envelope c \<in> set obs \<and> ob_payload (tn_envelope c) = TRACK_SET tracks \<and> tn_track c \<in> set tracks)"
  by (cases c) (force simp: track_candidates_def split: SensorObservationPayload.splits)

text \<open>An entity counts as corroborated only when an assessed claim says so, and it ends before its observations go stale.\<close>
lemma corroborated_entity:
  assumes "buildCognitiveRoadState digest collate i = Inr r" "e \<in> set (rs_entities (br_state r))" "en_epistemicState e = ES_CORROBORATED"
  shows "\<exists>a\<in>set (bi_assuranceResults i). ea_objectBinding a = en_entityId e \<and> ea_decision a = ED_CORROBORATED"
proof -
  obtain trackId cs where "build_entity digest collate i (track_candidates (filter (admitted_now i) (bi_observations i))) trackId = Inr (e, cs)"
    using built_tracks [OF assms(1)] assms(2) by blast
  from entity_state [OF this] assms(3) show ?thesis
    by (auto simp: epistemic_state_def assurance_for_def split: option.splits if_splits dest!: find_Some)
qed

text \<open>C38: A contradiction among the evidence stops every recommendation. When a road state is built and one of the assessed
  claims is contradicted, then if any admitted observation tracks the object of that claim, the state holds this object as
  contradicted, the result asks for abstention, and neither the evaluation of counterfactuals nor the one governed by coverage
  selects any candidate on this state, whatever the candidates, the coverage map and the time. And whatever the state shows as
  corroborated is backed by a corroborated assessment of the same object.\<close>
theorem contradiction_blocks_recommendation:
  assumes "buildCognitiveRoadState digest collate i = Inr r"
    and "a \<in> set (bi_assuranceResults i)" "ea_decision a = ED_CONTRADICTED"
    and "ob \<in> set (bi_observations i)" "oa_usableForCurrentState (assessSensorObservationAdmission ob (bi_trustedNowEpochMs i))"
    and "ob_payload ob = TRACK_SET tracks" "t \<in> set tracks" "tk_trackId t = ea_objectBinding a"
  shows "br_abstentionRequired r \<and>
    (\<exists>e\<in>set (rs_entities (br_state r)). en_entityId e = ea_objectBinding a \<and> en_epistemicState e = ES_CONTRADICTED) \<and>
    ce_selectedCandidateId (evaluateCounterfactualCandidates collate (br_state r) evaluatedAt cs m) = None \<and>
    ce_selectedCandidateId (evaluateCoverageGovernedCounterfactualCandidates digest collate coverage (br_state r) evaluatedAt rs ds cs m) = None \<and>
    (\<forall>e\<in>set (rs_entities (br_state r)). en_epistemicState e = ES_CORROBORATED \<longrightarrow>
      (\<exists>a\<in>set (bi_assuranceResults i). ea_objectBinding a = en_entityId e \<and> ea_decision a = ED_CORROBORATED))"
proof -
  let ?tracks = "track_candidates (filter (admitted_now i) (bi_observations i))"
  obtain built where built: "mapE (build_entity digest collate i ?tracks) (uniqueSorted (map (\<lambda>c. tk_trackId (tn_track c)) ?tracks)) = Inr built"
      "br_abstentionRequired r = cognitiveStateRequiresAbstention (br_state r)" "check_assurance [] (bi_assuranceResults i) = Inr ()"
    using built_state [OF assms(1)] by blast
  have candidate: "\<lparr>tn_envelope = ob, tn_track = t\<rparr> \<in> set ?tracks"
    using assms(4-7) by (simp add: track_candidate_in admitted_now_def)
  then have tracked: "ea_objectBinding a \<in> (\<lambda>c. tk_trackId (tn_track c)) ` set ?tracks"
    using assms(8) by (force simp: image_iff)
  then obtain e cs' where e: "build_entity digest collate i ?tracks (ea_objectBinding a) = Inr (e, cs')"
    using mapE_defined [OF built(1), of "ea_objectBinding a"] by auto
  have "assurance_for (bi_assuranceResults i) (ea_objectBinding a) = Some a"
    using check_assurance_distinct [OF built(3)] assms(2) by (simp add: assurance_for_member)
  then have entity: "e \<in> set (rs_entities (br_state r))" "en_entityId e = ea_objectBinding a" "en_epistemicState e = ES_CONTRADICTED"
    using built_tracks [OF assms(1)] tracked e entity_state [OF e] assms(3) by (blast, simp_all add: epistemic_state_def)
  then have abstain: "cognitiveStateRequiresAbstention (br_state r)"
    by (auto simp: cognitiveStateRequiresAbstention_def list_ex_iff)
  then have blocked: "ce_selectedCandidateId (evaluateCounterfactualCandidates collate (br_state r) evaluatedAt cs m) = None"
    by (simp add: evaluateCounterfactualCandidates_def counterfactualBlocked_def Let_def split: option.splits)
  then have "ce_selectedCandidateId (evaluateCoverageGovernedCounterfactualCandidates digest collate coverage (br_state r) evaluatedAt rs ds cs m) = None"
    by (simp add: evaluateCoverageGovernedCounterfactualCandidates_def counterfactualBlocked_def Let_def)
  then show ?thesis using built(2) abstain blocked entity corroborated_entity [OF assms(1)] by blast
qed

section \<open>A concrete contradiction\<close>

definition sample_track :: ObservedTrack where
  "sample_track = \<lparr>tk_trackId = ''track-1'', tk_objectClass = ''VEHICLE'',
     tk_state = \<lparr>ek_positionM = [Num 0, Num 0, Num 0], ek_estimatedVelocityMps = [Num 1, Num 0, Num 0],
       ek_estimatedAccelerationMps2 = None, ek_covariance = [], ek_estimator = ''kf''\<rparr>,
     tk_laneId = None, tk_roadSegmentId = None, tk_confidence = Num (9 / 10), tk_supportingObservationIds = []\<rparr>"

definition sample_tracking :: SensorObservationEnvelope where
  "sample_tracking = sample_observation ''ob-1'' ''2025-12-31T23:59:30Z'' (Num 5)\<lparr>ob_payload := TRACK_SET [sample_track]\<rparr>"

definition sample_contradicted :: EvidenceAssuranceResult where
  "sample_contradicted = \<lparr>ea_objectBinding = ''track-1'', ea_claimType = ''VEHICLE'', ea_decision = ED_CONTRADICTED,
     ea_effectiveIndependentEvidence = 2, ea_rawClaimCount = 2, ea_supportingIndependenceClasses = [hex_text CHR ''1''],
     ea_contradictingIndependenceClasses = [hex_text CHR ''2''], ea_reasonCodes = [''MATERIAL_CONTRADICTION''], ea_authority = ''NONE''\<rparr>"

definition sample_build :: CognitiveRoadStateBuildInput where
  "sample_build = \<lparr>bi_crsId = ''ob-1'', bi_zoneId = ''ob-2'', bi_stateTime = ''2025-12-31T23:59:40Z'', bi_validUntil = ''2026-01-01T00:05:00Z'',
     bi_trustedNowEpochMs = sample_now, bi_observations = [sample_tracking], bi_assuranceResults = [sample_contradicted]\<rparr>"

lemma admission_ignores_payload:
  "assessSensorObservationAdmission (ob\<lparr>ob_payload := p\<rparr>) now = assessSensorObservationAdmission ob now"
  by (simp add: assessSensorObservationAdmission_def admission_reasons_def capture_reasons_def Let_def cong: option.case_cong if_cong)

lemma sample_tracking_admitted: "oa_usableForCurrentState (assessSensorObservationAdmission sample_tracking sample_now)"
  by (simp add: sample_tracking_def admission_ignores_payload sample_admitted perception_times perception_texts)

lemma sample_built: "\<exists>r. buildCognitiveRoadState (\<lambda>_. ''digest'') (\<lambda>_ _. 0) sample_build = Inr r"
proof -
  let ?c = "\<lparr>tn_envelope = sample_tracking, tn_track = sample_track\<rparr>"
  have payload: "ob_payload sample_tracking = TRACK_SET [sample_track]" by (simp add: sample_tracking_def)
  have admitted: "filter (admitted_now sample_build) (bi_observations sample_build) = [sample_tracking]"
    using sample_tracking_admitted by (simp add: sample_build_def admitted_now_def)
  have tracks: "track_candidates [sample_tracking] = [?c]" by (simp add: track_candidates_def payload)
  have fields: "tk_trackId sample_track = ''track-1''" "tk_confidence sample_track = Num (9 / 10)"
    by (simp_all add: sample_track_def)
  have until: "entityValidUntil [?c] ''2026-01-01T00:05:00Z'' = Inr (isoString 1767225630000)"
    by (simp add: entityValidUntil_def fresh_until_def sample_tracking_def sample_observation_def parsed_time_def perception_times
        js_min_def num_min_def iso_of_def truncated_def toISO_def timeClip_def)
  have "\<exists>e. build_entity (\<lambda>_. ''digest'') (\<lambda>_ _. 0) sample_build [?c] ''track-1'' = Inr e"
    using until by (simp add: build_entity_def candidates_of_def fields js_sort_def boundedConfidence_def num_min_def num_max_def sample_build_def Let_def)
  then obtain e where e: "build_entity (\<lambda>_. ''digest'') (\<lambda>_ _. 0) sample_build [?c] ''track-1'' = Inr e" by blast
  have ids: "uniqueSorted [''track-1''] = [''track-1'']" by (simp add: uniqueSorted_def fields)
  have "validateBuildWindow sample_build = Inr ()" "check_assurance [] (bi_assuranceResults sample_build) = Inr ()"
    "check_tracks [?c] = Inr ()" "distinct (map ob_observationId (bi_observations sample_build))"
    by (simp_all add: validateBuildWindow_def sample_build_def perception_texts perception_times sample_now_def sample_contradicted_def fields)
  then show ?thesis
    unfolding buildCognitiveRoadState_def by (simp add: admitted tracks fields(1) ids e ensure_def Let_def del: check_tracks.simps)
qed

theorem contradiction_blocks_recommendation_witness:
  "\<exists>r. buildCognitiveRoadState (\<lambda>_. ''digest'') (\<lambda>_ _. 0) sample_build = Inr r \<and> br_abstentionRequired r \<and>
     ce_selectedCandidateId (evaluateCounterfactualCandidates (\<lambda>_ _. 0) (br_state r) ''2025-12-31T23:59:40Z'' sample_candidates (Num (1 / 2))) = None"
proof -
  obtain r where r: "buildCognitiveRoadState (\<lambda>_. ''digest'') (\<lambda>_ _. 0) sample_build = Inr r" using sample_built by blast
  have "sample_contradicted \<in> set (bi_assuranceResults sample_build)" "ea_decision sample_contradicted = ED_CONTRADICTED"
    "sample_tracking \<in> set (bi_observations sample_build)" "ob_payload sample_tracking = TRACK_SET [sample_track]"
    "oa_usableForCurrentState (assessSensorObservationAdmission sample_tracking (bi_trustedNowEpochMs sample_build))"
    "tk_trackId sample_track = ea_objectBinding sample_contradicted"
    using sample_tracking_admitted by (simp_all add: sample_build_def sample_contradicted_def sample_tracking_def sample_track_def)
  from contradiction_blocks_recommendation [OF r this(1-3,5,4) _ this(6)] r show ?thesis by auto
qed

end
