(* ===== verification/Spec2Isabelle.thy ===== *)
theory Spec2Isabelle
  imports RoadEventApp HumanSafety SignalQueue ContactGuarantees GovernedFusion
    Messaging Privacy FieldCompanion IntegrationEffects RoadStateBuilder
begin

text \<open>
  Verification of the road operating system (TypeScript, \<open>apps/api\<close>, \<open>apps/mobile\<close> and the packages \<open>contracts\<close> and
  \<open>domain\<close>). The program takes reports of road events and safety signals about people on the road,
  keeps the events and their audit trail, decides what a human must authorize, contacts the person,
  recommends a severity, hands requests to partners and weighs what its sensors show. The development models its core services; every definition follows the code
  named beside it, exceptions and early returns included.

  \<^bold>\<open>Foundations.\<close> \<open>JsBase\<close>: results as sums (\<open>ebind\<close>, \<open>ensure\<close>), strings, patterns, JSON values, numbers
  (\<open>js_num\<close>: rationals with NaN and the infinities) and actions, that is asynchronous methods as
  functions from the state they run in to outcome and state. \<open>JsAction\<close>: absorbed exceptions and the
  calculus \<open>keeps\<close>, by which an invariant of the ports becomes one of the service. \<open>JsDate\<close>:
  \<open>Date.parse\<close> and \<open>toISOString\<close> on the proleptic calendar, with their round trip. \<open>JsDouble\<close>:
  rounding to the nearest double, for the arithmetic whose rounding matters.

  \<^bold>\<open>Road events.\<close> \<open>RoadEvent\<close> is the aggregate of \<open>packages/domain\<close>: construction, transitions, severity
  and closure authorization. \<open>RoadEventPorts\<close> holds the ports of \<open>application/ports.ts\<close> as locales and the
  memory adapters of \<open>application/local-adapters.ts\<close> as their interpretations; \<open>RoadEventService\<close> the eight
  operations of \<open>application/road-event-application.ts\<close>; \<open>RoadEventEffects\<close> the single effect of each command
  on the store; \<open>RoadEventApp\<close> the histories of the service. Shown: a closed high-severity event was
  authorized by a supervisor, commands stay in their tenant and purpose, a replayed command gives the
  recorded answer, a failed one changes nothing, the audit trail is the history of the event, and
  updates from one version exclude each other.

  \<^bold>\<open>Human safety.\<close> \<open>HumanSafety\<close> is \<open>packages/contracts/src/human-safety.ts\<close>: the transitions of a case with
  authorities and fresh authorizations, the validation of a signal envelope and its acceptance.
  \<open>ReplayRegistry\<close>, \<open>SignalIngestion\<close>, \<open>SignalAdapters\<close> and \<open>SignalQueue\<close> are \<open>ros-eye/signal-ingestion.ts\<close> and its
  adapters: the two-phase replay admission, the pipeline from context to commit with its quarantine
  and abort paths, the in-memory stores and the bounded queue as a step relation. Shown: a committed
  nonce is never granted again, an accepted signal is recorded, two accepted signals differ in their
  replay token, and the queue is bounded, first in first out and drains.

  \<^bold>\<open>Human contact.\<close> \<open>ContactProtocol\<close> is \<open>contracts/src/human-contact-protocol.ts\<close>: who may move a session where,
  and the consumption of replies. \<open>ContactRuntime\<close> is \<open>ros-eye/contact-orchestration.ts\<close>: opening, callbacks,
  takeovers and due sessions over the transaction port, which is the locale \<open>contact_repository\<close>;
  \<open>contact_step\<close> is the abstract step of a session that every operation refines. \<open>ContactHistory\<close> adds the
  interleavings with other workers (locale \<open>contact_environment\<close>), the bounds of a session and the rank by
  which automated contact ends. \<open>ContactStore\<close> is the Postgres repository
  (\<open>ros-eye/contact-orchestration-postgres.ts\<close>) with the constraints of its tables, leases and fenced
  deliveries, and interprets both locales. \<open>ContactGuarantees\<close> adds the two workers and states the
  results on the code: sessions stay in bounds, calls refine the protocol, a takeover ends automation
  for good, at most eleven automated steps follow each other (four per attempt left, three attempts),
  a cancelled message is never recorded as delivered, and a stored session is read back as written.

  \<^bold>\<open>Safety fusion.\<close> \<open>SafetyFusion\<close> is \<open>ros-eye/safety-fusion.ts\<close>: weights, score, uncertainty, reasons, guards and
  the blocked recommendation. \<open>GovernedFusion\<close> is \<open>ros-eye/governed-safety-fusion.ts\<close>: evidence enters with a
  receipt of its authority only. Shown: the recommendation never falls below the current severity and
  asks for a human from S3 on, a broken guard blocks, the order of the evidence is irrelevant, and
  evidence without a receipt blocks.

  \<^bold>\<open>Messaging.\<close> \<open>Outbox\<close> is the worker of \<open>messaging/outbox-worker.ts\<close> over its ports, the locale
  \<open>outbox_repository\<close>, and the repository of \<open>messaging/postgres-outbox-repository.ts\<close> on its table, the
  interpretation of that locale. \<open>Messaging\<close> is the Redis broker, the consumer of an agency with its
  idempotency ledger, and the options of the worker process. Shown: a run is a path of abstract delivery
  steps and accounts for every message it claimed, a message has one outcome and keeps it, the delay before a retry stays in its bounds under the
  rounding of doubles, and an agency processes a message once. The last holds of consumers whose sink
  answers before their lease runs out: the call of the sink is one step.

  \<^bold>\<open>Privacy.\<close> \<open>Privacy\<close> is \<open>ros-eye/privacy-security-oversight.ts\<close>: the access policy, break-glass access in
  a transaction, the execution of recommendations and the redaction of telemetry. Shown: raw data is
  read only under a break-glass lease that the repository confirmed, with its alert and audit entry, and
  under a consent in force where the purpose needs one; a risky recommendation needs a second person.

  \<^bold>\<open>Field companion.\<close> \<open>FieldCompanion\<close> is \<open>apps/mobile/src/field-companion.ts\<close>: the controller on the phone
  with its offline queue. Shown: the queue stays bounded under every sequence of calls, and a flush loses no
  operation that was neither acknowledged nor expired.

  \<^bold>\<open>Partner integration.\<close> \<open>Integration\<close> is \<open>integrations/integration-lifecycle.ts\<close> on the tables, checks and trigger
  of migration 0014: preparing, sending and cancelling a request, its callbacks, and the projection of an event that a
  partner gets. \<open>IntegrationEffects\<close> characterises the effect of each call. Shown: a delivery only moves
  forward and keeps its identity, a callback takes effect once, no call of the code is refused by the
  checks or the trigger of the database, and a partner sees the fields of its projection and no others.

  \<^bold>\<open>Perception.\<close> \<open>Perception\<close> is the evidence: the admission of sensor observations
  (\<open>contracts/src/sensor-perception.ts\<close>), independence leases and the assessment of claims
  (\<open>evidence-assurance.ts\<close> of the contracts and of \<open>perception/\<close>). \<open>RoadState\<close> is the cognitive road state and the choice among
  counterfactual candidates (\<open>cognitive-road-state.ts\<close>, \<open>perception/spatial-counterfactual.ts\<close>), \<open>Coverage\<close> the map of
  what is observed where and the gate in front of critical regions (\<open>epistemic-coverage.ts\<close>, both), and
  \<open>RoadStateBuilder\<close> the construction of the state (\<open>perception/cognitive-road-state-builder.ts\<close>). Shown: a claim is
  corroborated by as many independent classes as asked, each with a usable observation under a lease in
  force; a selected candidate is advisory and none that is eligible is lexicographically safer; a
  recommendation for a critical region rests on an observed cell whose evidence is still in force when it is
  made; and a contradiction among the assessed claims stops every recommendation.

  \<^bold>\<open>Parameters.\<close> What is not code of the repository is an argument of the definitions: hashes and
  identifier factories, the clock, locale collation, the casts and collation of Postgres, the channel
  and the provider that delivers messages, the Redis client and the agency's sink, the consent and
  recommendation authorities, the storage and the gateway of the phone, \<open>jsonb\<close> and its equality. The hash
  of a value written with sorted keys is one parameter, applied to the value with its keys sorted. No fuel is used: the loops of the modelled code run over
  lists or are step relations, and termination is stated where the code promises it.

  \<^bold>\<open>Limits of the model.\<close> Doubles are rationals, so the rounding of arithmetic between the explicit
  roundings of the code is not seen; the delay of a retry and the lease of an outbox row are computed
  with rounding. The retry count of an outbox row is not bounded to the 32 bits of its column. Values outside the declared unions of TypeScript are represented
  where the code receives untyped JSON (envelopes, replies) and not behind typed interfaces. An
  asynchronous method runs as one step except where the code gives up its transaction: the workers,
  the delivery and the queue interleave with the rest.

  \<^bold>\<open>Not modelled.\<close> HTTP, browsers, maps, object storage, drivers, staging and repository scripts are input
  and output or rest on libraries. The Postgres adapter of the road events stands behind the interface
  modelled with the memory adapter. Of the partner integration, trust profiles and the verification of tokens
  and signatures are left out; of perception, the certification and benchmarks of adapters, which check files of
  results, and the geometry of pairwise conflicts, which rests on square roots of doubles.
\<close>

end
